(* ===== verification/SessionState.thy ===== *)
theory SessionState
  imports Prelude
begin

text \<open>
  The per-session state machine of \<^verbatim>\<open>broker/src/state.ts\<close> with the record
  types of \<^verbatim>\<open>broker/src/types.ts\<close>: the session states and the legal
  transition graph, the persisted session record, patches (the
  \<^verbatim>\<open>Partial<SessionRecord>\<close> spread over a record), the operations of
  \<^verbatim>\<open>SessionStore\<close> and the atomic write of a record.

  The session directory is a map from session ids to file contents.  A file is a
  record, unparsable text, or parsable JSON of the wrong shape.  A time stamp is
  either an ISO string with its value in milliseconds or a string that
  \<^verbatim>\<open>Date.parse\<close> reads as NaN.
\<close>

section \<open>Data\<close>

datatype session_state =
    HOST_READ_ONLY
  | CREATING_SANDBOX
  | SANDBOX_ACTIVE
  | RESULT_READY
  | APPLY_PENDING
  | APPLIED
  | REJECTED
  | RETAINED
  | FAILED_CLOSED

datatype worker_state = CREATING | ACTIVE | PAUSED | DESTROYED | FAILED

datatype iso = Iso int | BadIso string

text \<open>\<open>Date.parse\<close>; \<open>None\<close> is NaN.\<close>

fun date_parse :: "iso \<Rightarrow> int option" where
  "date_parse (Iso ms) = Some ms"
| "date_parse (BadIso s) = None"

text \<open>\<open>now - Date.parse(t) > limit\<close>: false when the time stamp is NaN.\<close>

definition older_than :: "int \<Rightarrow> iso \<Rightarrow> int \<Rightarrow> bool" where
  "older_than now t limit = (case date_parse t of None \<Rightarrow> False | Some ms \<Rightarrow> now - ms > limit)"

datatype snapshot_source = FromWorktree | FromResultRef | FromCommit

record snapshot_identity =
  si_commit :: string
  si_tree :: string
  si_source :: snapshot_source
  si_resultRef :: "string option"
  si_headSha :: string

record session_record =
  sr_sessionID :: string
  sr_state :: session_state
  sr_projectID :: "string option"
  sr_workerName :: "string option"
  sr_workerState :: "worker_state option"
  sr_workerLifecycleEntered :: bool
  sr_agent :: "string option"
  sr_baselineRef :: "string option"
  sr_resultRef :: "string option"
  sr_installedCommit :: "string option"
  sr_pendingCommit :: "(string \<times> string) option"
  sr_committedCommit :: "string option"
  sr_error :: "string option"
  sr_reapedAt :: "iso option"
  sr_lastOperation :: "string option"
  sr_resources :: "(rat \<times> int) option"
  sr_snapshotIdentity :: "snapshot_identity option"
  sr_createdAt :: iso
  sr_updatedAt :: iso

text \<open>One key of a patch object; \<open>None\<close> is a key present with value \<open>undefined\<close>.\<close>

datatype record_field =
    F_sessionID string
  | F_state session_state
  | F_projectID "string option"
  | F_workerName "string option"
  | F_workerState "worker_state option"
  | F_workerLifecycleEntered bool
  | F_agent "string option"
  | F_baselineRef "string option"
  | F_resultRef "string option"
  | F_installedCommit "string option"
  | F_pendingCommit "(string \<times> string) option"
  | F_committedCommit "string option"
  | F_error "string option"
  | F_reapedAt "iso option"
  | F_lastOperation "string option"
  | F_resources "(rat \<times> int) option"
  | F_snapshotIdentity "snapshot_identity option"
  | F_createdAt iso
  | F_updatedAt iso

type_synonym patch = "record_field list"

fun set_field :: "record_field \<Rightarrow> session_record \<Rightarrow> session_record" where
  "set_field (F_sessionID v) r = r\<lparr>sr_sessionID := v\<rparr>"
| "set_field (F_state v) r = r\<lparr>sr_state := v\<rparr>"
| "set_field (F_projectID v) r = r\<lparr>sr_projectID := v\<rparr>"
| "set_field (F_workerName v) r = r\<lparr>sr_workerName := v\<rparr>"
| "set_field (F_workerState v) r = r\<lparr>sr_workerState := v\<rparr>"
| "set_field (F_workerLifecycleEntered v) r = r\<lparr>sr_workerLifecycleEntered := v\<rparr>"
| "set_field (F_agent v) r = r\<lparr>sr_agent := v\<rparr>"
| "set_field (F_baselineRef v) r = r\<lparr>sr_baselineRef := v\<rparr>"
| "set_field (F_resultRef v) r = r\<lparr>sr_resultRef := v\<rparr>"
| "set_field (F_installedCommit v) r = r\<lparr>sr_installedCommit := v\<rparr>"
| "set_field (F_pendingCommit v) r = r\<lparr>sr_pendingCommit := v\<rparr>"
| "set_field (F_committedCommit v) r = r\<lparr>sr_committedCommit := v\<rparr>"
| "set_field (F_error v) r = r\<lparr>sr_error := v\<rparr>"
| "set_field (F_reapedAt v) r = r\<lparr>sr_reapedAt := v\<rparr>"
| "set_field (F_lastOperation v) r = r\<lparr>sr_lastOperation := v\<rparr>"
| "set_field (F_resources v) r = r\<lparr>sr_resources := v\<rparr>"
| "set_field (F_snapshotIdentity v) r = r\<lparr>sr_snapshotIdentity := v\<rparr>"
| "set_field (F_createdAt v) r = r\<lparr>sr_createdAt := v\<rparr>"
| "set_field (F_updatedAt v) r = r\<lparr>sr_updatedAt := v\<rparr>"

text \<open>\<open>{ ...record, ...patch }\<close>\<close>

definition spread :: "session_record \<Rightarrow> patch \<Rightarrow> session_record" where
  "spread r p = fold set_field p r"

section \<open>The transition graph\<close>

definition LEGAL_TRANSITIONS :: "session_state \<Rightarrow> session_state list" where
  "LEGAL_TRANSITIONS s = (case s of
     HOST_READ_ONLY \<Rightarrow> [CREATING_SANDBOX]
   | CREATING_SANDBOX \<Rightarrow> [SANDBOX_ACTIVE, FAILED_CLOSED, HOST_READ_ONLY]
   | SANDBOX_ACTIVE \<Rightarrow> [CREATING_SANDBOX, RESULT_READY, FAILED_CLOSED, RETAINED]
   | RESULT_READY \<Rightarrow> [APPLY_PENDING, REJECTED, RETAINED, SANDBOX_ACTIVE, CREATING_SANDBOX]
   | APPLY_PENDING \<Rightarrow> [APPLIED, FAILED_CLOSED, RESULT_READY]
   | APPLIED \<Rightarrow> [RETAINED]
   | REJECTED \<Rightarrow> []
   | RETAINED \<Rightarrow> [RESULT_READY]
   | FAILED_CLOSED \<Rightarrow> [])"

definition legal :: "session_state \<Rightarrow> session_state \<Rightarrow> bool" where
  "legal s t = (t \<in> set (LEGAL_TRANSITIONS s))"

fun state_name :: "session_state \<Rightarrow> string" where
  "state_name HOST_READ_ONLY = ''HOST_READ_ONLY''"
| "state_name CREATING_SANDBOX = ''CREATING_SANDBOX''"
| "state_name SANDBOX_ACTIVE = ''SANDBOX_ACTIVE''"
| "state_name RESULT_READY = ''RESULT_READY''"
| "state_name APPLY_PENDING = ''APPLY_PENDING''"
| "state_name APPLIED = ''APPLIED''"
| "state_name REJECTED = ''REJECTED''"
| "state_name RETAINED = ''RETAINED''"
| "state_name FAILED_CLOSED = ''FAILED_CLOSED''"

definition assertLegalTransition :: "session_state \<Rightarrow> session_state \<Rightarrow> unit result" where
  "assertLegalTransition s t =
     guardR (t \<in> set (LEGAL_TRANSITIONS s))
       (StateError (''illegal state transition '' @ state_name s @ '' -> '' @ state_name t))"

definition TERMINAL_STATES :: "session_state list" where
  "TERMINAL_STATES = [APPLIED, REJECTED, RETAINED, FAILED_CLOSED]"

definition isTerminalState :: "session_state \<Rightarrow> bool" where
  "isTerminalState s = (s \<in> set TERMINAL_STATES)"

section \<open>The session store\<close>

datatype stored = Unparsable string | BadShape | Stored session_record

type_synonym store = "string \<rightharpoonup> stored"

definition store_get :: "store \<Rightarrow> string \<Rightarrow> session_record option result" where
  "store_get st sid = (case st sid of
     None \<Rightarrow> Inr None
   | Some (Unparsable msg) \<Rightarrow> Inl (StateCorruptionError sid msg)
   | Some BadShape \<Rightarrow> Inl (StateCorruptionError sid ''shape validation failed'')
   | Some (Stored r) \<Rightarrow> Inr (Some r))"

text \<open>
  \<open>list()\<close>: the directory listing is an argument, because the order of
  \<open>readdirSync\<close> is the operating system's.
\<close>

fun store_list :: "store \<Rightarrow> string list \<Rightarrow> session_record list result" where
  "store_list st [] = Inr []"
| "store_list st (f # fs) =
     (if \<not> endsWith f ''.json'' then store_list st fs
      else bindR (store_get st (take (length f - 5) f)) (\<lambda>rec.
           bindR (store_list st fs) (\<lambda>out.
             Inr (case rec of None \<Rightarrow> out | Some r \<Rightarrow> r # out))))"

definition persist :: "store \<Rightarrow> session_record \<Rightarrow> store" where
  "persist st r = st(sr_sessionID r \<mapsto> Stored r)"

definition MEANINGFUL_TOUCH_OPS :: "string list" where
  "MEANINGFUL_TOUCH_OPS = [''writeFile'', ''exec'', ''applyPatch'', ''prepareResult'',
     ''ensureWorker'', ''copyIn'', ''copyOut'', ''copyInInfo'', ''copyOutInfo'', ''diff'',
     ''grep'', ''listDir'', ''list'']"

definition isMeaningfulTouchOp :: "string \<Rightarrow> bool" where
  "isMeaningfulTouchOp op = (op \<in> set MEANINGFUL_TOUCH_OPS \<or> startsWith op ''copy'')"

definition new_record :: "string \<Rightarrow> iso \<Rightarrow> session_record" where
  "new_record sid t = \<lparr>sr_sessionID = sid, sr_state = HOST_READ_ONLY, sr_projectID = None,
     sr_workerName = None, sr_workerState = None, sr_workerLifecycleEntered = False,
     sr_agent = None, sr_baselineRef = None, sr_resultRef = None, sr_installedCommit = None,
     sr_pendingCommit = None, sr_committedCommit = None, sr_error = None, sr_reapedAt = None,
     sr_lastOperation = None, sr_resources = None, sr_snapshotIdentity = None,
     sr_createdAt = t, sr_updatedAt = t\<rparr>"

text \<open>\<open>touch(sessionID, patch, operation)\<close> at time \<open>now\<close>.\<close>

definition touch :: "int \<Rightarrow> store \<Rightarrow> string \<Rightarrow> patch \<Rightarrow> string option \<Rightarrow> (store \<times> session_record) result"
where
  "touch now st sid p op = bindR (store_get st sid) (\<lambda>existing.
     (case existing of
        None \<Rightarrow> (let r = spread (new_record sid (Iso now)) p in Inr (persist st r, r))
      | Some e \<Rightarrow>
          (let isMeaningful = (case op of None \<Rightarrow> True | Some o' \<Rightarrow> isMeaningfulTouchOp o');
               r = (spread e p)\<lparr>sr_updatedAt := (if isMeaningful then Iso now else sr_updatedAt e)\<rparr>
           in Inr (persist st r, r))))"

definition transition ::
  "int \<Rightarrow> store \<Rightarrow> string \<Rightarrow> session_state \<Rightarrow> session_state \<Rightarrow> patch \<Rightarrow> (store \<times> session_record) result"
where
  "transition now st sid frm to p = bindR (store_get st sid) (\<lambda>existing.
     (case existing of
        None \<Rightarrow> Inl (StateError (''no session record for '' @ sid))
      | Some r \<Rightarrow>
          if sr_state r \<noteq> frm
          then Inl (StateError (''session '' @ sid @ '' is in state '' @ state_name (sr_state r) @
                 '', expected '' @ state_name frm @ '' to transition to '' @ state_name to))
          else bindR (assertLegalTransition frm to) (\<lambda>_.
             let nxt = (spread r p)\<lparr>sr_state := to, sr_updatedAt := Iso now\<rparr>
             in Inr (persist st nxt, nxt))))"

definition remove_session :: "store \<Rightarrow> string \<Rightarrow> store" where
  "remove_session st sid = st(sid := None)"

section \<open>The atomic write\<close>

text \<open>
  \<open>persist\<close> writes a temporary file, flushes it, renames it over the record and
  finally removes the temporary file when it is still there.  The write or the
  rename may throw, and the process may die between any two of these calls; a
  temporary file may then hold part of the text.
\<close>

datatype tmp_content = Partial | Complete session_record

record session_fs =
  fs_sessions :: store
  fs_tmp :: "string \<rightharpoonup> tmp_content"

datatype persist_fault =
    NoFault
  | WriteThrows      \<comment> \<open>\<open>writeFileSync\<close> throws, before the \<open>try\<close>\<close>
  | RenameThrows     \<comment> \<open>\<open>renameSync\<close> throws, the \<open>finally\<close> runs\<close>
  | DiesInWrite
  | DiesBeforeRename
  | DiesAfterRename  \<comment> \<open>before the \<open>finally\<close>\<close>

definition persist_fs :: "persist_fault \<Rightarrow> string \<Rightarrow> session_fs \<Rightarrow> session_record \<Rightarrow> session_fs" where
  "persist_fs fault tmp fs r = (case fault of
     WriteThrows \<Rightarrow> fs\<lparr>fs_tmp := (fs_tmp fs)(tmp \<mapsto> Partial)\<rparr>
   | DiesInWrite \<Rightarrow> fs\<lparr>fs_tmp := (fs_tmp fs)(tmp \<mapsto> Partial)\<rparr>
   | DiesBeforeRename \<Rightarrow> fs\<lparr>fs_tmp := (fs_tmp fs)(tmp \<mapsto> Complete r)\<rparr>
   | RenameThrows \<Rightarrow> fs\<lparr>fs_tmp := (fs_tmp fs)(tmp := None)\<rparr>
   | DiesAfterRename \<Rightarrow>
       fs\<lparr>fs_tmp := (fs_tmp fs)(tmp := None), fs_sessions := persist (fs_sessions fs) r\<rparr>
   | NoFault \<Rightarrow>
       fs\<lparr>fs_tmp := (fs_tmp fs)(tmp := None), fs_sessions := persist (fs_sessions fs) r\<rparr>)"

section \<open>Sequences of store operations\<close>

text \<open>
  What the broker does to the store over time is a sequence of these calls; a
  call that throws leaves the store as it was.
\<close>

datatype store_op =
    OpTouch int string patch "string option"
  | OpTransition int string session_state session_state patch
  | OpRemove string

fun store_step :: "store \<Rightarrow> store_op \<Rightarrow> store" where
  "store_step st (OpTouch now sid p op) =
     (case touch now st sid p op of Inl _ \<Rightarrow> st | Inr (st', _) \<Rightarrow> st')"
| "store_step st (OpTransition now sid frm to p) =
     (case transition now st sid frm to p of Inl _ \<Rightarrow> st | Inr (st', _) \<Rightarrow> st')"
| "store_step st (OpRemove sid) = remove_session st sid"

definition store_run :: "store \<Rightarrow> store_op list \<Rightarrow> store" where
  "store_run st os = foldl store_step st os"

text \<open>A patch that leaves the identity and the state alone, as every patch of the sources does.\<close>

fun keeps_identity :: "record_field \<Rightarrow> bool" where
  "keeps_identity (F_sessionID _) = False"
| "keeps_identity (F_state _) = False"
| "keeps_identity _ = True"

definition safe_patch :: "patch \<Rightarrow> bool" where
  "safe_patch p = list_all keeps_identity p"

fun safe_op :: "store_op \<Rightarrow> bool" where
  "safe_op (OpTouch _ _ p _) = safe_patch p"
| "safe_op (OpTransition _ _ _ _ p) = safe_patch p"
| "safe_op (OpRemove _) = False"

fun probe_op :: "store_op \<Rightarrow> bool" where
  "probe_op (OpTouch _ _ p (Some op)) = (safe_patch p \<and> \<not> isMeaningfulTouchOp op)"
| "probe_op _ = False"

definition state_at :: "store \<Rightarrow> string \<Rightarrow> session_state option" where
  "state_at st sid = (case st sid of Some (Stored r) \<Rightarrow> Some (sr_state r) | _ \<Rightarrow> None)"

text \<open>Every record lies in the file of its own session id.\<close>

definition wf_store :: "store \<Rightarrow> bool" where
  "wf_store st = (\<forall>sid r. st sid = Some (Stored r) \<longrightarrow> sr_sessionID r = sid)"

section \<open>Lemmas\<close>

lemma spread_simps [simp]: "spread r [] = r" "spread r (f # p) = spread (set_field f r) p"
  by (simp_all add: spread_def)

lemma set_field_keeps:
  "keeps_identity f \<Longrightarrow> sr_sessionID (set_field f r) = sr_sessionID r \<and> sr_state (set_field f r) = sr_state r"
  by (cases f) auto

lemma safe_patch_simps [simp]:
  "safe_patch []" "safe_patch (f # p) \<longleftrightarrow> keeps_identity f \<and> safe_patch p"
  by (simp_all add: safe_patch_def)

lemma spread_keeps:
  "safe_patch p \<Longrightarrow> sr_sessionID (spread r p) = sr_sessionID r \<and> sr_state (spread r p) = sr_state r"
  by (induction p arbitrary: r) (auto simp: set_field_keeps)

lemma assertLegalTransition_iff [simp]: "assertLegalTransition s t = Inr u \<longleftrightarrow> legal s t"
  by (simp add: assertLegalTransition_def legal_def)

lemma is_ok_assertLegalTransition [simp]: "is_ok (assertLegalTransition s t) \<longleftrightarrow> legal s t"
  by (simp add: assertLegalTransition_def legal_def)

lemma store_get_Stored [simp]: "st sid = Some (Stored r) \<Longrightarrow> store_get st sid = Inr (Some r)"
  by (simp add: store_get_def)

lemma store_get_eq_Some: "store_get st sid = Inr (Some r) \<longleftrightarrow> st sid = Some (Stored r)"
  by (auto simp: store_get_def split: option.splits stored.splits)

lemma store_get_eq_None: "store_get st sid = Inr None \<longleftrightarrow> st sid = None"
  by (auto simp: store_get_def split: option.splits stored.splits)

lemma store_get_persist [simp]: "store_get (persist st r) (sr_sessionID r) = Inr (Some r)"
  by (simp add: persist_def store_get_def)

lemma persist_other: "sr_sessionID r \<noteq> sid \<Longrightarrow> persist st r sid = st sid"
  by (simp add: persist_def)

lemma state_at_iff: "state_at st sid = Some s \<longleftrightarrow> (\<exists>r. st sid = Some (Stored r) \<and> sr_state r = s)"
  by (auto simp: state_at_def split: option.splits stored.splits)

lemma legal_simps [simp]:
  "legal HOST_READ_ONLY t \<longleftrightarrow> t = CREATING_SANDBOX"
  "legal CREATING_SANDBOX t \<longleftrightarrow> t \<in> {SANDBOX_ACTIVE, FAILED_CLOSED, HOST_READ_ONLY}"
  "legal SANDBOX_ACTIVE t \<longleftrightarrow> t \<in> {CREATING_SANDBOX, RESULT_READY, FAILED_CLOSED, RETAINED}"
  "legal RESULT_READY t \<longleftrightarrow> t \<in> {APPLY_PENDING, REJECTED, RETAINED, SANDBOX_ACTIVE, CREATING_SANDBOX}"
  "legal APPLY_PENDING t \<longleftrightarrow> t \<in> {APPLIED, FAILED_CLOSED, RESULT_READY}"
  "legal APPLIED t \<longleftrightarrow> t = RETAINED"
  "\<not> legal REJECTED t"
  "legal RETAINED t \<longleftrightarrow> t = RESULT_READY"
  "\<not> legal FAILED_CLOSED t"
  by (auto simp: legal_def LEGAL_TRANSITIONS_def)

lemma isTerminalState_iff: "isTerminalState s \<longleftrightarrow> s \<in> {APPLIED, REJECTED, RETAINED, FAILED_CLOSED}"
  by (simp add: isTerminalState_def TERMINAL_STATES_def)

text \<open>The success of \<open>transition\<close>, with the record it writes.\<close>

lemma transition_eq_Inr:
  "transition now st sid frm to p = Inr (st', r') \<longleftrightarrow>
     (\<exists>r. st sid = Some (Stored r) \<and> sr_state r = frm \<and> legal frm to \<and>
          r' = (spread r p)\<lparr>sr_state := to, sr_updatedAt := Iso now\<rparr> \<and> st' = persist st r')"
  unfolding transition_def bindR_eq_Inr
  by (auto simp: store_get_eq_Some bindR_eq_Inr Let_def split: option.splits if_splits)

lemma transition_ok:
  "st sid = Some (Stored r) \<Longrightarrow> sr_state r = frm \<Longrightarrow> legal frm to \<Longrightarrow>
   transition now st sid frm to p =
     (let n = (spread r p)\<lparr>sr_state := to, sr_updatedAt := Iso now\<rparr> in Inr (persist st n, n))"
  by (simp add: transition_eq_Inr Let_def)

lemma touch_eq_Inr_Some:
  "st sid = Some (Stored e) \<Longrightarrow> touch now st sid p op = Inr (st', r') \<longleftrightarrow>
     r' = (spread e p)\<lparr>sr_updatedAt :=
        (if op = None \<or> isMeaningfulTouchOp (the op) then Iso now else sr_updatedAt e)\<rparr> \<and>
     st' = persist st r'"
  by (auto simp: touch_def Let_def split: option.splits)

lemma touch_eq_Inr_None:
  "st sid = None \<Longrightarrow> touch now st sid p op = Inr (st', r') \<longleftrightarrow>
     r' = spread (new_record sid (Iso now)) p \<and> st' = persist st r'"
  by (auto simp: touch_def Let_def store_get_def)

lemma new_record_simps [simp]:
  "sr_sessionID (new_record sid t) = sid" "sr_state (new_record sid t) = HOST_READ_ONLY"
  "sr_workerName (new_record sid t) = None" "sr_workerState (new_record sid t) = None"
  by (simp_all add: new_record_def)

lemma touch_cases:
  assumes "touch now st sid p op = Inr (st', r')"
  obtains (new) "st sid = None" "r' = spread (new_record sid (Iso now)) p" "st' = persist st r'"
  | (old) e u where "st sid = Some (Stored e)" "r' = (spread e p)\<lparr>sr_updatedAt := u\<rparr>"
      "st' = persist st r'"
proof (cases "st sid")
  case None
  with assms show ?thesis by (intro new) (simp_all add: touch_eq_Inr_None)
next
  case (Some c)
  with assms obtain e where "st sid = Some (Stored e)"
    by (cases c) (auto simp: touch_def store_get_def)
  with assms show ?thesis by (auto simp: touch_eq_Inr_Some intro: old)
qed

lemma store_step_corrupt:
  "st sid = Some (Unparsable msg) \<or> st sid = Some BadShape \<Longrightarrow>
     touch now st sid p op = Inl (StateCorruptionError sid (case the (st sid) of
        Unparsable m \<Rightarrow> m | _ \<Rightarrow> ''shape validation failed'')) \<and>
     transition now st sid frm to p = Inl (StateCorruptionError sid (case the (st sid) of
        Unparsable m \<Rightarrow> m | _ \<Rightarrow> ''shape validation failed''))"
  by (auto simp: touch_def transition_def store_get_def)

lemma store_step_wf: "safe_op o' \<Longrightarrow> wf_store st \<Longrightarrow> wf_store (store_step st o')"
proof (cases o')
  case (OpTouch now sid p op)
  assume "safe_op o'" "wf_store st"
  with OpTouch show ?thesis
    by (auto simp: wf_store_def persist_def spread_keeps elim!: touch_cases split: sum.splits if_splits)
next
  case (OpTransition now sid frm to p)
  assume "safe_op o'" "wf_store st"
  with OpTransition show ?thesis
    by (auto simp: wf_store_def persist_def spread_keeps transition_eq_Inr split: sum.splits if_splits)
qed simp

lemma store_step_state:
  assumes safe: "safe_op o'" and wf: "wf_store st" and at: "state_at st k = Some s"
  shows "\<exists>t. state_at (store_step st o') k = Some t \<and> (t = s \<or> legal s t)"
proof (cases o')
  case (OpTouch now sid p op)
  with assms show ?thesis
    by (auto simp: wf_store_def state_at_iff persist_def spread_keeps elim!: touch_cases split: sum.splits)
next
  case (OpTransition now sid frm to p)
  with assms show ?thesis
    by (auto simp: wf_store_def state_at_iff persist_def spread_keeps transition_eq_Inr split: sum.splits)
next
  case (OpRemove sid)
  with safe show ?thesis by simp
qed

lemma probe_step:
  assumes wf: "wf_store st" and e: "st sid = Some (Stored e)" and "probe_op a"
  shows "wf_store (store_step st a)"
    and "\<exists>e'. store_step st a sid = Some (Stored e') \<and> sr_updatedAt e' = sr_updatedAt e \<and> sr_state e' = sr_state e"
proof -
  from \<open>probe_op a\<close> obtain now sid' p op where a: "a = OpTouch now sid' p (Some op)"
    "safe_patch p" "\<not> isMeaningfulTouchOp op"
    by (auto elim: probe_op.elims)
  then show "wf_store (store_step st a)" using wf by (intro store_step_wf) simp_all
  show "\<exists>e'. store_step st a sid = Some (Stored e') \<and> sr_updatedAt e' = sr_updatedAt e \<and> sr_state e' = sr_state e"
  proof (cases "sid' = sid")
    case True
    obtain st' r' where t: "touch now st sid p (Some op) = Inr (st', r')"
      using e by (auto simp: touch_def Let_def)
    with e have "r' = (spread e p)\<lparr>sr_updatedAt := sr_updatedAt e\<rparr>" "st' = persist st r'"
      using a(3) by (simp_all add: touch_eq_Inr_Some)
    with t a True wf e show ?thesis by (auto simp: persist_def spread_keeps wf_store_def)
  next
    case False
    with a wf e show ?thesis
      by (auto simp: persist_def spread_keeps wf_store_def elim!: touch_cases split: sum.splits)
  qed
qed

section \<open>Stores guarded by a transition graph\<close>

text \<open>
  The contract the rest of the broker relies on: whatever operations run, a
  session moves along edges of the graph only.  What follows from it for whole
  runs is proved once, here.
\<close>

locale guarded_store =
  fixes look :: "'st \<Rightarrow> 'k \<Rightarrow> 's option"
    and edge :: "'s \<Rightarrow> 's \<Rightarrow> bool"
    and do_op :: "'st \<Rightarrow> 'o \<Rightarrow> 'st"
    and ok :: "'o \<Rightarrow> bool"
    and invar :: "'st \<Rightarrow> bool"
  assumes op_edge: "ok a \<Longrightarrow> invar st \<Longrightarrow> look st k = Some s \<Longrightarrow>
      \<exists>t. look (do_op st a) k = Some t \<and> (t = s \<or> edge s t)"
    and op_invar: "ok a \<Longrightarrow> invar st \<Longrightarrow> invar (do_op st a)"
begin

lemma run_invar: "list_all ok os \<Longrightarrow> invar st \<Longrightarrow> invar (foldl do_op st os)"
  by (induction os arbitrary: st) (auto intro: op_invar)

lemma run_path:
  "list_all ok os \<Longrightarrow> invar st \<Longrightarrow> look st k = Some s \<Longrightarrow>
     \<exists>t. look (foldl do_op st os) k = Some t \<and> edge\<^sup>*\<^sup>* s t"
proof (induction os arbitrary: st s)
  case Nil
  then show ?case by simp
next
  case (Cons a os)
  from Cons.prems obtain u where u: "look (do_op st a) k = Some u" "u = s \<or> edge s u"
    using op_edge by force
  from Cons.prems have "list_all ok os" "invar (do_op st a)"
    by (auto intro: op_invar)
  from Cons.IH [OF this u(1)] obtain t where
    "look (foldl do_op (do_op st a) os) k = Some t" "edge\<^sup>*\<^sup>* u t" by blast
  with u(2) show ?case by (auto intro: converse_rtranclp_into_rtranclp)
qed

lemma run_sink:
  assumes "list_all ok os" "invar st" "look st k = Some s" and sink: "\<And>t. \<not> edge s t"
  shows "look (foldl do_op st os) k = Some s"
proof -
  obtain t where t: "look (foldl do_op st os) k = Some t" "edge\<^sup>*\<^sup>* s t"
    using run_path [OF assms(1-3)] by blast
  from t(2) sink have "t = s" by (auto elim: converse_rtranclpE)
  with t(1) show ?thesis by simp
qed

text \<open>Where a set of states can be entered from one gate state only, a run that enters it passed the gate.\<close>

lemma run_gate:
  assumes gate: "\<And>u v. edge u v \<Longrightarrow> v \<in> A \<Longrightarrow> u \<notin> A \<Longrightarrow> u = g"
  shows "list_all ok os \<Longrightarrow> invar st \<Longrightarrow> look st k = Some s \<Longrightarrow> s \<notin> A \<Longrightarrow>
    look (foldl do_op st os) k = Some t \<Longrightarrow> t \<in> A \<Longrightarrow>
    \<exists>os1 os2. os = os1 @ os2 \<and> look (foldl do_op st os1) k = Some g"
proof (induction os arbitrary: st s)
  case Nil
  then show ?case by simp
next
  case (Cons a os)
  from Cons.prems obtain u where u: "look (do_op st a) k = Some u" "u = s \<or> edge s u"
    using op_edge by force
  show ?case
  proof (cases "u \<in> A")
    case True
    with u gate Cons.prems have "s = g" by blast
    with Cons.prems show ?thesis by (intro exI [of _ "[]"] exI [of _ "a # os"]) simp
  next
    case False
    from Cons.prems have "list_all ok os" "invar (do_op st a)"
      "look (foldl do_op (do_op st a) os) k = Some t" by (auto intro: op_invar)
    from Cons.IH [OF this(1,2) u(1) False this(3) Cons.prems(6)] obtain os1 os2
      where "os = os1 @ os2" "look (foldl do_op (do_op st a) os1) k = Some g" by blast
    then show ?thesis by (intro exI [of _ "a # os1"] exI [of _ os2]) simp
  qed
qed

end

interpretation session_store: guarded_store state_at legal store_step safe_op wf_store
  by unfold_locales (auto intro: store_step_wf store_step_state)

section \<open>Properties\<close>

text \<open>
  C4.  \<open>transition\<close> succeeds exactly when the session's record is readable, is in
  the expected state and the edge is in the legal graph.  On success the record
  read back is in the new state with a fresh time stamp and every other session
  is untouched.
\<close>

theorem transition_exact:
  assumes "wf_store st" "safe_patch p"
  shows "case transition now st sid frm to p of
      Inl e \<Rightarrow> \<not> (state_at st sid = Some frm \<and> to \<in> set (LEGAL_TRANSITIONS frm))
    | Inr (st', r') \<Rightarrow> state_at st sid = Some frm \<and> to \<in> set (LEGAL_TRANSITIONS frm) \<and>
        store_get st' sid = Inr (Some r') \<and> sr_state r' = to \<and> sr_updatedAt r' = Iso now \<and>
        (\<forall>other. other \<noteq> sid \<longrightarrow> st' other = st other)"
proof (cases "transition now st sid frm to p")
  case (Inl e)
  have "\<not> (state_at st sid = Some frm \<and> legal frm to)"
  proof
    assume a: "state_at st sid = Some frm \<and> legal frm to"
    then obtain r where "st sid = Some (Stored r)" "sr_state r = frm"
      by (auto simp: state_at_iff)
    with a have "\<exists>st' r'. transition now st sid frm to p = Inr (st', r')"
      by (simp add: transition_eq_Inr)
    with Inl show False by simp
  qed
  with Inl show ?thesis by (simp add: legal_def)
next
  case (Inr x)
  obtain st' r' where x: "x = (st', r')" by (cases x)
  from Inr x have "transition now st sid frm to p = Inr (st', r')" by simp
  then obtain r where "st sid = Some (Stored r)" "sr_state r = frm" "legal frm to"
    "r' = (spread r p)\<lparr>sr_state := to, sr_updatedAt := Iso now\<rparr>" "st' = persist st r'"
    by (auto simp: transition_eq_Inr)
  with Inr x assms show ?thesis
    by (simp add: state_at_iff wf_store_def spread_keeps persist_def store_get_def legal_def
        del: legal_simps)
qed

definition demo_store :: store where
  "demo_store = [''s1'' \<mapsto> Stored ((new_record ''s1'' (Iso 0))\<lparr>sr_state := RESULT_READY\<rparr>),
                 ''s2'' \<mapsto> Stored ((new_record ''s2'' (Iso 0))\<lparr>sr_state := FAILED_CLOSED\<rparr>)]"

lemma wf_demo_store: "wf_store demo_store"
  by (simp add: wf_store_def demo_store_def)

lemma state_at_demo_store:
  "state_at demo_store ''s1'' = Some RESULT_READY" "state_at demo_store ''s2'' = Some FAILED_CLOSED"
  by (simp_all add: state_at_def demo_store_def)

theorem transition_exact_witness:
  "case transition 5 demo_store ''s1'' RESULT_READY APPLY_PENDING [] of
      Inl e \<Rightarrow> \<not> (state_at demo_store ''s1'' = Some RESULT_READY \<and>
                 APPLY_PENDING \<in> set (LEGAL_TRANSITIONS RESULT_READY))
    | Inr (st', r') \<Rightarrow> state_at demo_store ''s1'' = Some RESULT_READY \<and>
        APPLY_PENDING \<in> set (LEGAL_TRANSITIONS RESULT_READY) \<and>
        store_get st' ''s1'' = Inr (Some r') \<and> sr_state r' = APPLY_PENDING \<and>
        sr_updatedAt r' = Iso 5 \<and> (\<forall>other. other \<noteq> ''s1'' \<longrightarrow> st' other = demo_store other)"
  by (rule transition_exact [OF wf_demo_store]) simp



text \<open>
  A session that is neither applied nor retained can become \<open>APPLIED\<close> only
  through \<open>APPLY_PENDING\<close>: some prefix of the calls put it there.
\<close>

theorem applied_only_after_apply_pending:
  assumes "wf_store st" "list_all safe_op os" "state_at st sid = Some s" "s \<noteq> APPLIED"
    and "state_at (store_run st os) sid = Some APPLIED"
  shows "\<exists>os1 os2. os = os1 @ os2 \<and> state_at (store_run st os1) sid = Some APPLY_PENDING"
proof -
  have gate: "u = APPLY_PENDING" if "legal u v" "v \<in> {APPLIED}" "u \<notin> {APPLIED}" for u v
    using that by (cases u) auto
  show ?thesis
    using session_store.run_gate [where A = "{APPLIED}" and g = APPLY_PENDING, OF gate] assms
    by (auto simp: store_run_def)
qed

definition demo_apply_ops :: "store_op list" where
  "demo_apply_ops = [OpTransition 1 ''s1'' RESULT_READY APPLY_PENDING [],
                     OpTransition 2 ''s1'' APPLY_PENDING APPLIED [F_error None]]"

theorem applied_only_after_apply_pending_witness:
  "\<exists>os1 os2. demo_apply_ops = os1 @ os2 \<and>
     state_at (store_run demo_store os1) ''s1'' = Some APPLY_PENDING"
  by (rule applied_only_after_apply_pending [OF wf_demo_store, where s = RESULT_READY])
     (simp_all add: state_at_demo_store demo_apply_ops_def store_run_def transition_def
       demo_store_def store_get_def state_at_def assertLegalTransition_def
       LEGAL_TRANSITIONS_def persist_def Let_def)

text \<open>
  The write of a record is atomic: whether the write or the rename throws or
  the process dies at any point, reading any session afterwards gives either what
  was there before or the complete new record, never a partial file.
\<close>

theorem persist_atomic:
  "store_get (fs_sessions (persist_fs fault tmp fs r)) sid = store_get (fs_sessions fs) sid \<or>
   (sid = sr_sessionID r \<and>
    store_get (fs_sessions (persist_fs fault tmp fs r)) sid = Inr (Some r))"
  by (cases "sid = sr_sessionID r"; cases fault)
     (auto simp: persist_fs_def store_get_def persist_other persist_def)

text \<open>
  Status and policy probes cannot keep a dead session alive: after any number
  of touches by operations that are not meaningful, the record of a session has
  the age and the state it had before.
\<close>

theorem probes_never_refresh:
  assumes "wf_store st" "st sid = Some (Stored e)" "list_all probe_op os"
  shows "\<exists>r. store_run st os sid = Some (Stored r) \<and>
     older_than t (sr_updatedAt r) limit = older_than t (sr_updatedAt e) limit \<and>
     sr_state r = sr_state e"
proof -
  have "wf_store st \<Longrightarrow> st sid = Some (Stored e) \<Longrightarrow> list_all probe_op os \<Longrightarrow>
     \<exists>r. store_run st os sid = Some (Stored r) \<and> sr_updatedAt r = sr_updatedAt e \<and> sr_state r = sr_state e"
  proof (induction os arbitrary: st e)
    case Nil
    then show ?case by (simp add: store_run_def)
  next
    case (Cons a os)
    then obtain e' where "wf_store (store_step st a)" "store_step st a sid = Some (Stored e')"
      "sr_updatedAt e' = sr_updatedAt e" "sr_state e' = sr_state e"
      using probe_step [of st sid e a] by auto
    with Cons.IH [of "store_step st a" e'] Cons.prems show ?case
      by (auto simp: store_run_def)
  qed
  with assms show ?thesis by fastforce
qed

theorem probes_never_refresh_witness:
  "\<exists>r. store_run demo_store [OpTouch 9 ''s1'' [F_lastOperation (Some ''workerStatus'')] (Some ''workerStatus''),
      OpTouch 10 ''s3'' [] (Some ''policy'')] ''s1'' = Some (Stored r) \<and>
     older_than 100 (sr_updatedAt r) 50 =
     older_than 100 (sr_updatedAt ((new_record ''s1'' (Iso 0))\<lparr>sr_state := RESULT_READY\<rparr>)) 50 \<and>
     sr_state r = sr_state ((new_record ''s1'' (Iso 0))\<lparr>sr_state := RESULT_READY\<rparr>)"
  by (rule probes_never_refresh [OF wf_demo_store])
     (simp_all add: demo_store_def isMeaningfulTouchOp_def MEANINGFUL_TOUCH_OPS_def startsWith_def)

end
