(* ===== verification/WorkerPolicy.thy ===== *)
theory WorkerPolicy
  imports Prelude
begin

text \<open>
  The resource broker of \<^verbatim>\<open>broker/src/policy.ts\<close>: the budget computed from the
  host and the configuration, and the admission check of a worker request.
  CPU shares and fractions are exact rationals, byte counts are integers (the
  rounding of IEEE doubles is not modelled; the values in use are small dyadic
  fractions and integers below \<open>2 ^ 53\<close>).  Where a cap of zero would make the
  source divide by zero, \<open>computeBudget\<close> is \<open>None\<close>.
\<close>

record host_resources =
  cpuCount :: int
  totalMemBytes :: int

record resource_config =
  cfg_reserveCpuFraction :: rat
  cfg_reserveMemFraction :: rat
  cfg_reserveMemBytes :: int
  cfg_perWorkerCpu :: rat
  cfg_perWorkerMemBytes :: int
  cfg_maxPerWorkerCpu :: rat
  cfg_maxPerWorkerMemBytes :: int
  cfg_maxWorkers :: int
  cfg_maxAggregateCpu :: rat
  cfg_maxAggregateMemBytes :: int

record worker_allocation =
  wa_cpu :: rat
  wa_memBytes :: int
  wa_sessionID :: "string option"

type_synonym worker_pool = "worker_allocation list"

record budget =
  perWorkerCpu :: rat
  perWorkerMemBytes :: int
  maxAggregateCpu :: rat
  maxAggregateMemBytes :: int
  maxWorkers :: int
  hostReservedCpu :: int
  hostReservedMemBytes :: int

definition clamp :: "'a::linorder \<Rightarrow> 'a \<Rightarrow> 'a \<Rightarrow> 'a" where
  "clamp v lo hi = min hi (max lo v)"

definition computeBudget :: "host_resources \<Rightarrow> resource_config \<Rightarrow> budget option" where
  "computeBudget res cfg = (
     let reservedCpu = max 1 \<lceil>of_int (cpuCount res) * cfg_reserveCpuFraction cfg\<rceil>;
         reservedMem = max \<lfloor>of_int (totalMemBytes res) * cfg_reserveMemFraction cfg\<rfloor>
                           (cfg_reserveMemBytes cfg);
         availCpu = max 1 (cpuCount res - reservedCpu);
         availMem = max 0 (totalMemBytes res - reservedMem);
         pwCpu = clamp (cfg_perWorkerCpu cfg) (1 / 4) (cfg_maxPerWorkerCpu cfg);
         pwMem = clamp (cfg_perWorkerMemBytes cfg) (128 * 1024 * 1024) (cfg_maxPerWorkerMemBytes cfg);
         aggCpu = min (cfg_maxAggregateCpu cfg) (of_int availCpu);
         aggMem = min (cfg_maxAggregateMemBytes cfg) availMem
     in if pwCpu = 0 \<or> pwMem = 0 then None
        else Some (
          let byCpu = max 0 \<lfloor>aggCpu / pwCpu\<rfloor>;
              byMem = max 0 \<lfloor>(of_int aggMem :: rat) / of_int pwMem\<rfloor>
          in \<lparr>perWorkerCpu = pwCpu, perWorkerMemBytes = pwMem, maxAggregateCpu = aggCpu,
              maxAggregateMemBytes = aggMem,
              maxWorkers = min (cfg_maxWorkers cfg) (min byCpu byMem),
              hostReservedCpu = reservedCpu, hostReservedMemBytes = reservedMem\<rparr>))"

datatype refusal =
    InvalidRequest
  | AbovePolicy
  | CpuPoolExhausted
  | MemPoolExhausted
  | MaxWorkersReached int

datatype admission =
    Allowed rat int
  | Refused (adm_reason: refusal) (adm_queueHint: int) (adm_queueable: bool)

text \<open>\<open>requested\<close> is a partial allocation: absent fields take the per-worker values.\<close>

definition checkAdmission :: "worker_pool \<Rightarrow> budget \<Rightarrow> rat option \<Rightarrow> int option \<Rightarrow> admission" where
  "checkAdmission pool b reqCpu reqMem = (
     let cpu = (case reqCpu of None \<Rightarrow> perWorkerCpu b | Some c \<Rightarrow> c);
         memBytes = (case reqMem of None \<Rightarrow> perWorkerMemBytes b | Some m \<Rightarrow> m)
     in if cpu \<le> 0 \<or> memBytes \<le> 0 then Refused InvalidRequest 0 False
        else if cpu > perWorkerCpu b \<or> memBytes > perWorkerMemBytes b then Refused AbovePolicy 0 False
        else if sum_list (map wa_cpu pool) + cpu > maxAggregateCpu b then Refused CpuPoolExhausted 1 True
        else if sum_list (map wa_memBytes pool) + memBytes > maxAggregateMemBytes b
             then Refused MemPoolExhausted 1 True
        else if int (length pool) \<ge> maxWorkers b
             then Refused (MaxWorkersReached (maxWorkers b)) (int (length pool) - maxWorkers b + 1) True
        else Allowed cpu memBytes)"

fun allowed :: "admission \<Rightarrow> bool" where
  "allowed (Allowed _ _) = True"
| "allowed (Refused _ _ _) = False"

text \<open>The allocation a worker gets: the per-worker share, owned by its session.\<close>

definition worker_share :: "budget \<Rightarrow> string option \<Rightarrow> worker_allocation" where
  "worker_share b sid = \<lparr>wa_cpu = perWorkerCpu b, wa_memBytes = perWorkerMemBytes b, wa_sessionID = sid\<rparr>"

text \<open>The pool respects the aggregate caps and the worker limit.\<close>

definition within_budget :: "budget \<Rightarrow> worker_pool \<Rightarrow> bool" where
  "within_budget b pool = (sum_list (map wa_cpu pool) \<le> maxAggregateCpu b \<and>
     sum_list (map wa_memBytes pool) \<le> maxAggregateMemBytes b \<and> int (length pool) \<le> maxWorkers b)"

section \<open>Lemmas\<close>

lemma clamp_bounds: "lo \<le> hi \<Longrightarrow> lo \<le> clamp v lo hi \<and> clamp v lo hi \<le> hi"
  by (auto simp: clamp_def)

lemma clamp_le: "clamp v lo hi \<le> hi"
  by (simp add: clamp_def)

lemma if_Some_eqD: "(if P then None else Some x) = Some y \<Longrightarrow> y = x"
  by (simp split: if_splits)

lemma computeBudget_fields:
  assumes "computeBudget res cfg = Some b"
  shows "hostReservedCpu b = max 1 \<lceil>of_int (cpuCount res) * cfg_reserveCpuFraction cfg\<rceil>"
    and "hostReservedMemBytes b =
      max \<lfloor>of_int (totalMemBytes res) * cfg_reserveMemFraction cfg\<rfloor> (cfg_reserveMemBytes cfg)"
    and "perWorkerCpu b = clamp (cfg_perWorkerCpu cfg) (1 / 4) (cfg_maxPerWorkerCpu cfg)"
    and "perWorkerMemBytes b =
      clamp (cfg_perWorkerMemBytes cfg) (128 * 1024 * 1024) (cfg_maxPerWorkerMemBytes cfg)"
    and "maxAggregateCpu b = min (cfg_maxAggregateCpu cfg) (of_int (max 1 (cpuCount res - hostReservedCpu b)))"
    and "maxAggregateMemBytes b =
      min (cfg_maxAggregateMemBytes cfg) (max 0 (totalMemBytes res - hostReservedMemBytes b))"
    and "maxWorkers b = min (cfg_maxWorkers cfg)
      (min (max 0 \<lfloor>maxAggregateCpu b / perWorkerCpu b\<rfloor>)
           (max 0 \<lfloor>(of_int (maxAggregateMemBytes b) :: rat) / of_int (perWorkerMemBytes b)\<rfloor>))"
proof -
  note eq = if_Some_eqD [OF assms [unfolded computeBudget_def Let_def]]
  show "hostReservedCpu b = max 1 \<lceil>of_int (cpuCount res) * cfg_reserveCpuFraction cfg\<rceil>"
    and "hostReservedMemBytes b =
      max \<lfloor>of_int (totalMemBytes res) * cfg_reserveMemFraction cfg\<rfloor> (cfg_reserveMemBytes cfg)"
    and "perWorkerCpu b = clamp (cfg_perWorkerCpu cfg) (1 / 4) (cfg_maxPerWorkerCpu cfg)"
    and "perWorkerMemBytes b =
      clamp (cfg_perWorkerMemBytes cfg) (128 * 1024 * 1024) (cfg_maxPerWorkerMemBytes cfg)"
    and "maxAggregateCpu b = min (cfg_maxAggregateCpu cfg) (of_int (max 1 (cpuCount res - hostReservedCpu b)))"
    and "maxAggregateMemBytes b =
      min (cfg_maxAggregateMemBytes cfg) (max 0 (totalMemBytes res - hostReservedMemBytes b))"
    and "maxWorkers b = min (cfg_maxWorkers cfg)
      (min (max 0 \<lfloor>maxAggregateCpu b / perWorkerCpu b\<rfloor>)
           (max 0 \<lfloor>(of_int (maxAggregateMemBytes b) :: rat) / of_int (perWorkerMemBytes b)\<rfloor>))"
    unfolding eq by (simp_all only: budget.select_convs)
qed

lemma checkAdmission_Allowed:
  "checkAdmission pool b rc rm = Allowed c m \<longleftrightarrow>
     c = (case rc of None \<Rightarrow> perWorkerCpu b | Some x \<Rightarrow> x) \<and>
     m = (case rm of None \<Rightarrow> perWorkerMemBytes b | Some x \<Rightarrow> x) \<and>
     0 < c \<and> 0 < m \<and> c \<le> perWorkerCpu b \<and> m \<le> perWorkerMemBytes b \<and>
     sum_list (map wa_cpu pool) + c \<le> maxAggregateCpu b \<and>
     sum_list (map wa_memBytes pool) + m \<le> maxAggregateMemBytes b \<and> int (length pool) < maxWorkers b"
  by (auto simp: checkAdmission_def Let_def not_le not_less)

lemma allowed_iff: "allowed a \<longleftrightarrow> (\<exists>c m. a = Allowed c m)"
  by (cases a) auto

lemma allowed_default:
  "allowed (checkAdmission pool b None None) \<longleftrightarrow>
     0 < perWorkerCpu b \<and> 0 < perWorkerMemBytes b \<and>
     sum_list (map wa_cpu pool) + perWorkerCpu b \<le> maxAggregateCpu b \<and>
     sum_list (map wa_memBytes pool) + perWorkerMemBytes b \<le> maxAggregateMemBytes b \<and>
     int (length pool) < maxWorkers b"
  by (auto simp: allowed_iff checkAdmission_Allowed)

lemma workers_fit:
  fixes share total :: rat
  assumes "0 < share" "0 \<le> total" "n \<le> max 0 \<lfloor>total / share\<rfloor>"
  shows "of_int n * share \<le> total"
proof -
  have "of_int n \<le> total / share"
    using assms by (simp add: max_def le_floor_iff split: if_splits)
  with assms(1) show ?thesis by (simp add: pos_le_divide_eq)
qed

lemma within_budget_perm:
  "sum_list (map wa_cpu p) = sum_list (map wa_cpu q) \<Longrightarrow>
   sum_list (map wa_memBytes p) = sum_list (map wa_memBytes q) \<Longrightarrow> length p = length q \<Longrightarrow>
   within_budget b p = within_budget b q"
  by (simp add: within_budget_def)

lemma admitted_within_budget:
  assumes "allowed (checkAdmission pool b None None)"
  shows "within_budget b (pool @ [worker_share b sid])"
  using assms by (simp add: allowed_default within_budget_def worker_share_def)

section \<open>Properties\<close>

text \<open>
  What an admitted request may take: its share is positive and no larger
  than the per-worker share, and the pool with the new worker stays within the
  aggregate CPU cap, the aggregate memory cap and the worker limit.
\<close>

theorem admission_sound:
  assumes "checkAdmission pool b rc rm = Allowed c m"
  shows "0 < c \<and> c \<le> perWorkerCpu b \<and> 0 < m \<and> m \<le> perWorkerMemBytes b \<and>
    within_budget b (pool @ [\<lparr>wa_cpu = c, wa_memBytes = m, wa_sessionID = sid\<rparr>])"
  using assms by (auto simp: checkAdmission_Allowed within_budget_def)

definition demo_budget :: budget where
  "demo_budget = \<lparr>perWorkerCpu = 2, perWorkerMemBytes = 100, maxAggregateCpu = 8,
     maxAggregateMemBytes = 250, maxWorkers = 4, hostReservedCpu = 1, hostReservedMemBytes = 50\<rparr>"

theorem admission_sound_witness:
  "(0::rat) < 2 \<and> 2 \<le> perWorkerCpu demo_budget \<and> (0::int) < 100 \<and> 100 \<le> perWorkerMemBytes demo_budget \<and>
    within_budget demo_budget ([worker_share demo_budget (Some ''a'')] @
      [\<lparr>wa_cpu = 2, wa_memBytes = 100, wa_sessionID = Some ''b''\<rparr>])"
  by (rule admission_sound [where rc = None and rm = None])
     (simp add: checkAdmission_def demo_budget_def worker_share_def)

text \<open>
  A refusal is marked queueable exactly when waiting can help: the request
  itself is within policy, so in an empty pool whose caps hold one worker it
  would be admitted; a refusal that is not queueable is refused in every pool.
\<close>

theorem queueable_refusals:
  assumes "\<not> allowed (checkAdmission pool b rc rm)"
    and "perWorkerCpu b \<le> maxAggregateCpu b" "perWorkerMemBytes b \<le> maxAggregateMemBytes b" "0 < maxWorkers b"
  shows "if adm_queueable (checkAdmission pool b rc rm) then allowed (checkAdmission [] b rc rm)
         else (\<forall>pool'. \<not> allowed (checkAdmission pool' b rc rm))"
  using assms by (auto simp: checkAdmission_def Let_def split: if_splits option.splits)

theorem queueable_refusals_witness:
  "if adm_queueable (checkAdmission [worker_share demo_budget None, worker_share demo_budget None]
        demo_budget None None)
   then allowed (checkAdmission [] demo_budget None None)
   else (\<forall>pool'. \<not> allowed (checkAdmission pool' demo_budget None None))"
  by (rule queueable_refusals) (simp_all add: checkAdmission_def demo_budget_def worker_share_def)

text \<open>
  The host keeps its reserve: for fractions between 0 and 1 and positive
  caps, workers that respect the computed budget leave at least the reserved
  CPUs (at least one, on a host with more than one) and the reserved memory to
  the host, and a full pool of \<open>maxWorkers\<close> workers fits the aggregate caps.
\<close>

theorem budget_reserves_host:
  assumes b: "computeBudget res cfg = Some b"
    and pos: "0 < cfg_maxPerWorkerCpu cfg" "0 < cfg_maxPerWorkerMemBytes cfg"
    and mem: "hostReservedMemBytes b \<le> totalMemBytes res"
    and cpu: "hostReservedCpu b < cpuCount res"
    and agg: "0 \<le> cfg_maxAggregateCpu cfg" "0 \<le> cfg_maxAggregateMemBytes cfg"
  shows "maxAggregateCpu b + of_int (hostReservedCpu b) \<le> of_int (cpuCount res) \<and>
     maxAggregateMemBytes b + hostReservedMemBytes b \<le> totalMemBytes res \<and>
     1 \<le> hostReservedCpu b \<and> cfg_reserveMemBytes cfg \<le> hostReservedMemBytes b \<and>
     (0 \<le> maxWorkers b \<longrightarrow>
       of_int (maxWorkers b) * perWorkerCpu b \<le> maxAggregateCpu b \<and>
       maxWorkers b * perWorkerMemBytes b \<le> maxAggregateMemBytes b)"
proof -
  note f = computeBudget_fields [OF b]
  have pw: "0 < perWorkerCpu b" "0 < perWorkerMemBytes b"
    unfolding f(3,4) using pos by (simp_all add: clamp_def)
  have agg0: "0 \<le> maxAggregateCpu b" "0 \<le> maxAggregateMemBytes b"
    unfolding f(5,6) using agg by simp_all
  have "maxWorkers b \<le> max 0 \<lfloor>maxAggregateCpu b / perWorkerCpu b\<rfloor>"
    "maxWorkers b \<le> max 0 \<lfloor>(of_int (maxAggregateMemBytes b) :: rat) / of_int (perWorkerMemBytes b)\<rfloor>"
    unfolding f(7) by simp_all
  then have c: "of_int (maxWorkers b) * perWorkerCpu b \<le> maxAggregateCpu b"
    and m: "(of_int (maxWorkers b) :: rat) * of_int (perWorkerMemBytes b) \<le> of_int (maxAggregateMemBytes b)"
    using workers_fit [of "perWorkerCpu b" "maxAggregateCpu b" "maxWorkers b"]
      workers_fit [of "of_int (perWorkerMemBytes b)" "of_int (maxAggregateMemBytes b)" "maxWorkers b"]
      pw agg0 by simp_all
  from m have m': "maxWorkers b * perWorkerMemBytes b \<le> maxAggregateMemBytes b"
    by (metis of_int_le_iff of_int_mult)
  have r: "1 \<le> hostReservedCpu b" "cfg_reserveMemBytes cfg \<le> hostReservedMemBytes b"
    unfolding f(1,2) by simp_all
  have "maxAggregateCpu b \<le> of_int (max 1 (cpuCount res - hostReservedCpu b))"
    "maxAggregateMemBytes b \<le> max 0 (totalMemBytes res - hostReservedMemBytes b)"
    unfolding f(5,6) by simp_all
  moreover have "max 1 (cpuCount res - hostReservedCpu b) = cpuCount res - hostReservedCpu b"
    using cpu by simp
  ultimately have "maxAggregateCpu b \<le> of_int (cpuCount res) - of_int (hostReservedCpu b)"
    and "maxAggregateMemBytes b \<le> totalMemBytes res - hostReservedMemBytes b"
    using mem by simp_all
  with c m' r show ?thesis by simp
qed

definition demo_resources :: host_resources where
  "demo_resources = \<lparr>cpuCount = 8, totalMemBytes = 17179869184\<rparr>"

text \<open>The values of \<open>defaultConfig\<close>.\<close>

definition default_resource_config :: resource_config where
  "default_resource_config = \<lparr>cfg_reserveCpuFraction = 1 / 4, cfg_reserveMemFraction = 1 / 4,
     cfg_reserveMemBytes = 4294967296, cfg_perWorkerCpu = 2, cfg_perWorkerMemBytes = 2147483648,
     cfg_maxPerWorkerCpu = 4, cfg_maxPerWorkerMemBytes = 4294967296, cfg_maxWorkers = 4,
     cfg_maxAggregateCpu = 8, cfg_maxAggregateMemBytes = 8589934592\<rparr>"

definition default_budget :: budget where
  "default_budget = \<lparr>perWorkerCpu = 2, perWorkerMemBytes = 2147483648, maxAggregateCpu = 6,
     maxAggregateMemBytes = 8589934592, maxWorkers = 3, hostReservedCpu = 2,
     hostReservedMemBytes = 4294967296\<rparr>"

lemma compute_default_budget:
  "computeBudget demo_resources default_resource_config = Some default_budget"
  by (simp add: computeBudget_def demo_resources_def default_resource_config_def default_budget_def
      clamp_def Let_def)

theorem budget_reserves_host_witness:
  "maxAggregateCpu default_budget + of_int (hostReservedCpu default_budget) \<le> of_int (cpuCount demo_resources) \<and>
     maxAggregateMemBytes default_budget + hostReservedMemBytes default_budget \<le> totalMemBytes demo_resources \<and>
     1 \<le> hostReservedCpu default_budget \<and>
     cfg_reserveMemBytes default_resource_config \<le> hostReservedMemBytes default_budget \<and>
     0 \<le> maxWorkers default_budget \<and>
     of_int (maxWorkers default_budget) * perWorkerCpu default_budget \<le> maxAggregateCpu default_budget \<and>
     maxWorkers default_budget * perWorkerMemBytes default_budget \<le> maxAggregateMemBytes default_budget"
  using budget_reserves_host [OF compute_default_budget]
  by (simp add: default_resource_config_def default_budget_def demo_resources_def)

end
