(* ===== verification/PendingQueue.thy ===== *)
theory PendingQueue
  imports Prelude
begin

text \<open>
  The FIFO queue of \<^verbatim>\<open>broker/src/queue.ts\<close>: requests that found the worker
  pool exhausted wait here.  The interface locale \<open>fifo_queue\<close> states what the
  drain loop relies on; \<open>PendingQueue\<close> provides it.
\<close>

record 'r queued_entry =
  qe_sessionID :: string
  qe_request :: 'r
  qe_projectID :: string
  qe_position :: nat

record 'r pending_queue =
  pq_entries :: "'r queued_entry list"
  pq_inFlight :: nat

definition empty_queue :: "'r pending_queue" where
  "empty_queue = \<lparr>pq_entries = [], pq_inFlight = 0\<rparr>"

definition pq_length :: "'r pending_queue \<Rightarrow> nat" where
  "pq_length q = length (pq_entries q)"

definition pq_enqueue :: "'r queued_entry \<Rightarrow> 'r pending_queue \<Rightarrow> 'r pending_queue" where
  "pq_enqueue e q = q\<lparr>pq_entries := pq_entries q @ [e\<lparr>qe_position := length (pq_entries q) + 1\<rparr>]\<rparr>"

definition pq_find :: "'r pending_queue \<Rightarrow> string \<Rightarrow> 'r queued_entry option" where
  "pq_find q sid = find (\<lambda>e. qe_sessionID e = sid) (pq_entries q)"

definition pq_head :: "'r pending_queue \<Rightarrow> 'r queued_entry option" where
  "pq_head q = (case pq_entries q of [] \<Rightarrow> None | e # _ \<Rightarrow> Some e)"

definition pq_remove :: "string \<Rightarrow> 'r pending_queue \<Rightarrow> 'r queued_entry option \<times> 'r pending_queue" where
  "pq_remove sid q =
     (pq_find q sid, q\<lparr>pq_entries := removeFirst (\<lambda>e. qe_sessionID e = sid) (pq_entries q)\<rparr>)"

text \<open>\<open>cancel\<close> also rejects the entry's promise: the error its waiter gets.\<close>

definition pq_cancel ::
  "string \<Rightarrow> string \<Rightarrow> 'r pending_queue \<Rightarrow> ('r queued_entry \<times> broker_error) option \<times> 'r pending_queue"
where
  "pq_cancel sid msg q = (case pq_remove sid q of
     (None, q') \<Rightarrow> (None, q') | (Some e, q') \<Rightarrow> (Some (e, PolicyError msg), q'))"

text \<open>One entry per session.\<close>

definition one_per_session :: "'r pending_queue \<Rightarrow> bool" where
  "one_per_session q = distinct (map qe_sessionID (pq_entries q))"

section \<open>The queue interface\<close>

locale fifo_queue =
  fixes enq :: "'e \<Rightarrow> 'q \<Rightarrow> 'q"
    and front :: "'q \<Rightarrow> 'e option"
    and del :: "'k \<Rightarrow> 'q \<Rightarrow> 'q"
    and look :: "'q \<Rightarrow> 'k \<Rightarrow> 'e option"
    and key :: "'e \<Rightarrow> 'k"
    and items :: "'q \<Rightarrow> 'e list"
    and invar :: "'q \<Rightarrow> bool"
  assumes keys_enq: "map key (items (enq e q)) = map key (items q) @ [key e]"
    and front_items: "front q = (case items q of [] \<Rightarrow> None | e # _ \<Rightarrow> Some e)"
    and items_del: "invar q \<Longrightarrow> items (del k q) = filter (\<lambda>e. key e \<noteq> k) (items q)"
    and look_items: "look q k = find (\<lambda>e. key e = k) (items q)"
    and invar_iff: "invar q \<longleftrightarrow> distinct (map key (items q))"
begin

lemma invar_enq: "invar q \<Longrightarrow> look q (key e) = None \<Longrightarrow> invar (enq e q)"
  by (auto simp: invar_iff keys_enq look_items find_None_iff)

lemma invar_del: "invar q \<Longrightarrow> invar (del k q)"
  by (simp add: invar_iff [of "del k q"] items_del) (simp add: invar_iff distinct_map_filter)

text \<open>Taking out the front entry leaves the rest in order.\<close>

lemma items_del_front:
  assumes "invar q" "front q = Some e"
  shows "items q = e # items (del (key e) q)"
proof -
  from assms(2) obtain es where es: "items q = e # es"
    by (auto simp: front_items split: list.splits)
  with assms(1) have "key e \<notin> key ` set es" by (simp add: invar_iff)
  then have "\<forall>x \<in> set es. key x \<noteq> key e" by (metis image_eqI)
  then have "filter (\<lambda>x. key x \<noteq> key e) es = es" by (simp add: filter_id_conv)
  with es items_del [OF assms(1), of "key e"] show ?thesis by simp
qed

lemma length_del_front:
  "invar q \<Longrightarrow> front q = Some e \<Longrightarrow> length (items (del (key e) q)) < length (items q)"
  using items_del_front by fastforce

text \<open>A removal never reorders the others, and an arrival goes behind all of them.\<close>

lemma keys_del: "invar q \<Longrightarrow> map key (items (del k q)) = filter (\<lambda>x. x \<noteq> k) (map key (items q))"
  by (simp add: items_del filter_map comp_def)

lemma look_del: "invar q \<Longrightarrow> look (del k q) k = None"
  by (simp add: look_items items_del find_None_iff)

end

lemma pq_simps [simp]:
  "pq_inFlight (pq_enqueue e q) = pq_inFlight q"
  "pq_inFlight (snd (pq_remove sid q)) = pq_inFlight q"
  by (simp_all add: pq_enqueue_def pq_remove_def)

interpretation pending: fifo_queue pq_enqueue pq_head "\<lambda>sid q. snd (pq_remove sid q)"
  pq_find qe_sessionID pq_entries one_per_session
  by unfold_locales
     (simp_all add: pq_enqueue_def pq_head_def pq_remove_def pq_find_def one_per_session_def
       removeFirst_distinct_key split: list.split)

section \<open>Properties\<close>

text \<open>
  Cancelling a waiting session removes its entry and only that one: the others
  keep their order, the session is no longer found, and the waiter is told with a
  policy error; cancelling an absent session changes nothing.
\<close>

theorem cancel_removes_only_its_session:
  assumes "one_per_session q"
  shows "case pq_cancel sid msg q of
      (None, q') \<Rightarrow> q' = q \<and> pq_find q sid = None
    | (Some (e, err), q') \<Rightarrow> qe_sessionID e = sid \<and> err = PolicyError msg \<and> pq_find q' sid = None \<and>
        pq_entries q' = filter (\<lambda>x. qe_sessionID x \<noteq> sid) (pq_entries q) \<and> one_per_session q'"
proof (cases "pq_find q sid")
  case None
  then have "removeFirst (\<lambda>e. qe_sessionID e = sid) (pq_entries q) = pq_entries q"
    by (intro removeFirst_none) (simp add: pq_find_def find_None_iff)
  with None show ?thesis by (simp add: pq_cancel_def pq_remove_def)
next
  case (Some e)
  have "qe_sessionID e = sid" using Some by (auto simp: pq_find_def find_Some_iff)
  with Some assms show ?thesis
    using pending.items_del [OF assms, of sid] pending.look_del [OF assms, of sid]
      pending.invar_del [OF assms, of sid]
    by (simp add: pq_cancel_def pq_remove_def)
qed

definition demo_queue :: "unit pending_queue" where
  "demo_queue = pq_enqueue \<lparr>qe_sessionID = ''b'', qe_request = (), qe_projectID = ''p'', qe_position = 0\<rparr>
     (pq_enqueue \<lparr>qe_sessionID = ''a'', qe_request = (), qe_projectID = ''p'', qe_position = 0\<rparr> empty_queue)"

theorem cancel_removes_only_its_session_witness:
  "case pq_cancel ''a'' ''gone'' demo_queue of
      (None, q') \<Rightarrow> q' = demo_queue \<and> pq_find demo_queue ''a'' = None
    | (Some (e, err), q') \<Rightarrow> qe_sessionID e = ''a'' \<and> err = PolicyError ''gone'' \<and> pq_find q' ''a'' = None \<and>
        pq_entries q' = filter (\<lambda>x. qe_sessionID x \<noteq> ''a'') (pq_entries demo_queue) \<and> one_per_session q'"
  by (rule cancel_removes_only_its_session)
     (simp add: one_per_session_def demo_queue_def pq_enqueue_def empty_queue_def)

end
