(* ===== verification/Paths.thy ===== *)
theory Paths
  imports Prelude
begin

text \<open>
  The parts of the runtime library the validators use: JSON values as they reach
  the broker, and the POSIX \<^verbatim>\<open>node:path\<close> functions \<open>isAbsolute\<close>,
  \<open>normalize\<close>, \<open>resolve\<close>, \<open>join\<close>, \<open>dirname\<close>, \<open>basename\<close> and
  \<open>extname\<close>.  The main lemma group shows that a normalised path keeps its
  \<open>..\<close> segments in front, so a relative path whose normal form does not start
  with \<open>..\<close> never leaves the directory it is resolved against.
\<close>

section \<open>JSON values\<close>

datatype js =
    JUndefined
  | JNull
  | JBool bool
  | JInt int
  | JFloat rat      \<comment> \<open>a number that is not an integer\<close>
  | JStr string
  | JArr "js list"
  | JObj "(string \<times> js) list"

text \<open>Reading a property of an object: absent keys are \<open>undefined\<close>.\<close>

definition js_get :: "(string \<times> js) list \<Rightarrow> string \<Rightarrow> js" where
  "js_get obj k = (case map_of obj k of None \<Rightarrow> JUndefined | Some v \<Rightarrow> v)"

section \<open>POSIX paths\<close>

definition isAbsolute :: "string \<Rightarrow> bool" where
  "isAbsolute p = startsWith p ''/''"

text \<open>The segment stack of \<open>normalizeString\<close>, innermost segment first.\<close>

fun norm_stack :: "bool \<Rightarrow> string list \<Rightarrow> string list \<Rightarrow> string list" where
  "norm_stack aboveRoot stk [] = stk"
| "norm_stack aboveRoot stk (seg # segs) =
     (if seg = [] \<or> seg = ''.'' then norm_stack aboveRoot stk segs
      else if seg = ''..'' then
        (case stk of
           [] \<Rightarrow> norm_stack aboveRoot (if aboveRoot then [''..''] else []) segs
         | upper # rest \<Rightarrow>
             if upper = ''..'' then norm_stack aboveRoot (''..'' # stk) segs
             else norm_stack aboveRoot rest segs)
      else norm_stack aboveRoot (seg # stk) segs)"

definition path_segments :: "string \<Rightarrow> string list" where
  "path_segments p = rev (norm_stack (\<not> isAbsolute p) [] (splitOn (CHR ''/'') p))"

definition normalize_path :: "string \<Rightarrow> string" where
  "normalize_path p = (if p = [] then ''.'' else
     let segs = path_segments p; trailing = endsWith p ''/'' in
     if segs = [] then (if isAbsolute p then ''/'' else if trailing then ''./'' else ''.'')
     else (if isAbsolute p then ''/'' else []) @ joinWith ''/'' segs @ (if trailing then ''/'' else []))"

text \<open>\<open>resolve(rootDir, p)\<close> for an absolute \<open>rootDir\<close>.\<close>

definition resolve_path :: "string \<Rightarrow> string \<Rightarrow> string" where
  "resolve_path rootDir p =
     ''/'' @ joinWith ''/'' (path_segments (if isAbsolute p then p else rootDir @ ''/'' @ p))"

definition join_path :: "string \<Rightarrow> string \<Rightarrow> string" where
  "join_path a b =
     normalize_path (if a = [] then b else if b = [] then a else a @ ''/'' @ b)"

text \<open>
  \<open>dirname\<close> and \<open>basename\<close>: trailing slashes are dropped first.
\<close>

definition strip_trailing :: "string \<Rightarrow> string" where
  "strip_trailing p = rev (dropWhile (\<lambda>c. c = CHR ''/'') (rev p))"

definition basename :: "string \<Rightarrow> string" where
  "basename p = rev (takeWhile (\<lambda>c. c \<noteq> CHR ''/'') (rev (strip_trailing p)))"

definition dirname :: "string \<Rightarrow> string" where
  "dirname p = (let q = strip_trailing p;
       d = rev (dropWhile (\<lambda>c. c \<noteq> CHR ''/'') (rev q));
       d' = strip_trailing d
     in if q = [] then (if p = [] then ''.'' else ''/'')
        else if CHR ''/'' \<notin> set q then ''.''
        else if d' = [] then ''/'' else d')"

text \<open>
  \<open>extname\<close>: from the last dot of the base name to its end, empty when the dot
  is its first character or when there is none, or when the base name is two dots.
\<close>

definition extname :: "string \<Rightarrow> string" where
  "extname p = (let b = basename p; suffix = rev (takeWhile (\<lambda>c. c \<noteq> CHR ''.'') (rev b)) in
     if CHR ''.'' \<notin> set b \<or> length suffix + 1 = length b \<or> b = ''..'' then []
     else CHR ''.'' # suffix)"

text \<open>\<open>isWithin(parent, child)\<close> of \<^verbatim>\<open>validation.ts\<close>.\<close>

definition isWithin :: "string \<Rightarrow> string \<Rightarrow> bool" where
  "isWithin parent child = (child = parent \<or>
     startsWith child (if endsWith parent ''/'' then parent else parent @ ''/''))"

section \<open>Normal forms\<close>

text \<open>A stack whose \<open>..\<close> segments all lie at the bottom.\<close>

definition dots_below :: "string list \<Rightarrow> bool" where
  "dots_below stk = (\<exists>n xs. stk = xs @ replicate n ''..'' \<and> ''..'' \<notin> set xs)"

lemma dots_belowI: "''..'' \<notin> set xs \<Longrightarrow> dots_below (xs @ replicate n ''..'')"
  by (auto simp: dots_below_def)

lemma dots_below_Nil [simp]: "dots_below []"
  using dots_belowI [of "[]" 0] by simp

lemma dots_below_push: "dots_below stk \<Longrightarrow> seg \<noteq> ''..'' \<Longrightarrow> dots_below (seg # stk)"
  unfolding dots_below_def by (metis append_Cons set_ConsD)

lemma dots_below_pop:
  assumes "dots_below (upper # rest)" "upper \<noteq> ''..''"
  shows "dots_below rest"
proof -
  from assms(1) obtain n xs where xs: "upper # rest = xs @ replicate n ''..''" "''..'' \<notin> set xs"
    by (auto simp: dots_below_def)
  from xs(1) assms(2) obtain ys where "xs = upper # ys" "rest = ys @ replicate n ''..''"
    by (cases xs; cases n) auto
  with xs(2) show ?thesis by (auto intro: dots_belowI)
qed

lemma dots_below_up:
  assumes "dots_below (''..'' # rest)"
  shows "dots_below (''..'' # ''..'' # rest)"
proof -
  from assms obtain n xs where xs: "''..'' # rest = xs @ replicate n ''..''" "''..'' \<notin> set xs"
    by (auto simp: dots_below_def)
  then have "xs = []" by (cases xs) auto
  with xs(1) have "''..'' # ''..'' # rest = [] @ replicate (Suc n) ''..''" by simp
  then show ?thesis by (metis dots_belowI empty_iff empty_set)
qed

lemma dots_below_norm_stack: "dots_below stk \<Longrightarrow> dots_below (norm_stack up stk segs)"
proof (induction up stk segs rule: norm_stack.induct)
  case (2 up stk seg segs)
  show ?case
  proof (cases "seg = ''..''")
    case True
    have one: "dots_below [''..'']" using dots_belowI [of "[]" 1] by simp
    with True "2" show ?thesis
      by (auto split: list.splits dest: dots_below_pop dots_below_up)
  next
    case False
    with "2" show ?thesis by (auto intro: dots_below_push)
  qed
qed simp

lemma path_segments_dots_first:
  assumes "''..'' \<in> set (path_segments p)"
  shows "\<exists>rest. path_segments p = ''..'' # rest"
proof -
  have "dots_below (norm_stack (\<not> isAbsolute p) [] (splitOn (CHR ''/'') p))"
    by (rule dots_below_norm_stack) simp
  then obtain n xs where stk: "norm_stack (\<not> isAbsolute p) [] (splitOn (CHR ''/'') p) = xs @ replicate n ''..''"
      "''..'' \<notin> set xs"
    by (auto simp: dots_below_def)
  then have "path_segments p = replicate n ''..'' @ rev xs" by (simp add: path_segments_def)
  with assms stk(2) show ?thesis by (cases n) auto
qed

text \<open>Segments are never empty, never a single dot and hold no slash.\<close>

definition good_seg :: "string \<Rightarrow> bool" where
  "good_seg s = (s \<noteq> [] \<and> s \<noteq> ''.'' \<and> CHR ''/'' \<notin> set s)"

lemma good_seg_norm_stack:
  "\<forall>s \<in> set stk. good_seg s \<Longrightarrow> \<forall>s \<in> set segs. CHR ''/'' \<notin> set s \<Longrightarrow>
     \<forall>s \<in> set (norm_stack up stk segs). good_seg s"
proof (induction up stk segs rule: norm_stack.induct)
  case (2 up stk seg segs)
  have "good_seg ''..''" by (simp add: good_seg_def)
  moreover have "good_seg seg" if "seg \<noteq> []" "seg \<noteq> ''.''"
    using that "2.prems"(2) by (simp add: good_seg_def)
  ultimately show ?case using "2" by (simp split: list.split)
qed simp

lemma good_seg_path_segments: "s \<in> set (path_segments p) \<Longrightarrow> good_seg s"
  using good_seg_norm_stack [of "[]" "splitOn (CHR ''/'') p" "\<not> isAbsolute p"]
  by (auto simp: path_segments_def dest: splitOn_parts)

text \<open>Normalising good segments without \<open>..\<close> changes nothing.\<close>

lemma norm_stack_good:
  "\<forall>s \<in> set segs. good_seg s \<and> s \<noteq> ''..'' \<Longrightarrow> norm_stack up stk segs = rev segs @ stk"
  by (induction up stk segs rule: norm_stack.induct) (auto simp: good_seg_def)

lemma norm_stack_append:
  "norm_stack up stk (xs @ ys) = norm_stack up (norm_stack up stk xs) ys"
  by (induction up stk xs rule: norm_stack.induct) (auto split: list.splits)

lemma dots_stay: "stk \<noteq> [] \<Longrightarrow> last stk = ''..'' \<Longrightarrow> ''..'' \<in> set (norm_stack up stk segs)"
proof (induction up stk segs rule: norm_stack.induct)
  case (1 up stk)
  then show ?case using last_in_set by fastforce
next
  case (2 up stk seg segs)
  then show ?case by (auto split: list.splits if_splits)
qed

text \<open>
  If the relative segments never climb out (their own normal form has no \<open>..\<close>),
  they normalise on top of any stack as they do on the empty one.
\<close>

lemma norm_stack_on_top:
  assumes "''..'' \<notin> set (norm_stack True base segs)" "''..'' \<notin> set base"
    "''..'' \<notin> set stk"
  shows "norm_stack up (base @ stk) segs = norm_stack True base segs @ stk"
  using assms
proof (induction segs arbitrary: base)
  case Nil
  then show ?case by simp
next
  case (Cons seg segs)
  show ?case
  proof (cases "seg = ''..''")
    case True
    show ?thesis
    proof (cases base)
      case Nil
      have "''..'' \<in> set (norm_stack True [''..''] segs)"
        by (rule dots_stay) simp_all
      with Cons.prems True Nil show ?thesis by simp
    next
      case (Cons upper rest)
      with Cons.prems Cons.IH [of rest] True show ?thesis by auto
    qed
  next
    case False
    with Cons.prems Cons.IH [of base] Cons.IH [of "seg # base"] show ?thesis by auto
  qed
qed

section \<open>Containment of resolved paths\<close>

lemma norm_stack_absolute: "''..'' \<notin> set stk \<Longrightarrow> ''..'' \<notin> set (norm_stack False stk segs)"
  by (induction False stk segs rule: norm_stack.induct) (auto split: list.splits)

lemma path_segments_absolute: "isAbsolute p \<Longrightarrow> ''..'' \<notin> set (path_segments p)"
  by (simp add: path_segments_def norm_stack_absolute)

text \<open>A canonical directory below the file system root: what \<open>realpath\<close> returns.\<close>

definition canonical_dir :: "string \<Rightarrow> bool" where
  "canonical_dir r = (isAbsolute r \<and> path_segments r \<noteq> [] \<and> r = ''/'' @ joinWith ''/'' (path_segments r))"

lemma joinWith_append:
  "xs \<noteq> [] \<Longrightarrow> ys \<noteq> [] \<Longrightarrow> joinWith sep (xs @ ys) = joinWith sep xs @ sep @ joinWith sep ys"
proof (induction xs)
  case (Cons a xs)
  then show ?case by (cases "xs = []") (simp_all add: joinWith_Cons)
qed simp

lemma splitOn_canonical:
  assumes "canonical_dir r"
  shows "splitOn (CHR ''/'') r = [] # path_segments r"
proof -
  have "splitOn (CHR ''/'') (joinWith [CHR ''/''] (path_segments r)) = path_segments r"
    using assms by (intro splitOn_join) (auto simp: canonical_dir_def good_seg_def dest: good_seg_path_segments)
  moreover have "r = CHR ''/'' # joinWith [CHR ''/''] (path_segments r)"
    using assms by (simp add: canonical_dir_def)
  ultimately show ?thesis by (metis splitOn.simps(2))
qed

lemma path_segments_under:
  assumes r: "canonical_dir r" and p: "\<not> isAbsolute p" "''..'' \<notin> set (path_segments p)"
  shows "path_segments (r @ ''/'' @ p) = path_segments r @ path_segments p"
proof -
  let ?rs = "path_segments r"
  have abs: "isAbsolute (r @ ''/'' @ p)" "isAbsolute r"
    using r by (auto simp: canonical_dir_def isAbsolute_def startsWith_iff_prefix)
  have rs: "\<forall>s \<in> set ?rs. good_seg s \<and> s \<noteq> ''..''"
    using path_segments_absolute [OF abs(2)] by (auto dest: good_seg_path_segments)
  have "norm_stack False [] (splitOn (CHR ''/'') (r @ CHR ''/'' # p)) =
      norm_stack False (rev ?rs) (splitOn (CHR ''/'') p)"
    using rs by (simp add: splitOn_append splitOn_canonical [OF r] norm_stack_append norm_stack_good)
  also have "\<dots> = norm_stack True [] (splitOn (CHR ''/'') p) @ rev ?rs"
    using p rs norm_stack_on_top [of "[]" "splitOn (CHR ''/'') p" "rev ?rs" False]
    by (auto simp: path_segments_def)
  finally show ?thesis
    using abs(1) p(1) by (simp add: path_segments_def [of "r @ CHR ''/'' # p"] path_segments_def [of p])
qed

lemma canonical_no_trailing: 
  assumes "canonical_dir r"
  shows "\<not> endsWith r ''/''"
proof
  assume "endsWith r ''/''"
  then obtain t where t: "r = t @ [CHR ''/'']" by (auto elim: endsWithE)
  have "splitOn (CHR ''/'') r = splitOn (CHR ''/'') t @ [[]]"
    using splitOn_append [of "CHR ''/''" t "[]"] t by simp
  then have "last (splitOn (CHR ''/'') r) = []" by simp
  moreover have "last (splitOn (CHR ''/'') r) \<in> set (path_segments r)"
    using assms by (simp add: splitOn_canonical canonical_dir_def)
  ultimately show False by (auto dest: good_seg_path_segments simp: good_seg_def)
qed

lemma isWithin_resolve:
  assumes r: "canonical_dir r" and p: "\<not> isAbsolute p" "''..'' \<notin> set (path_segments p)"
  shows "isWithin r (resolve_path r p)"
proof (cases "path_segments p = []")
  case True
  then have "resolve_path r p = r"
    using r p path_segments_under [OF r p] by (simp add: resolve_path_def canonical_dir_def)
  then show ?thesis by (simp add: isWithin_def)
next
  case False
  have "resolve_path r p = (''/'' @ joinWith ''/'' (path_segments r)) @ ''/'' @ joinWith ''/'' (path_segments p)"
    using r p False path_segments_under [OF r p]
    by (simp add: resolve_path_def joinWith_append canonical_dir_def)
  then have "resolve_path r p = (r @ ''/'') @ joinWith ''/'' (path_segments p)"
    using r by (simp add: canonical_dir_def)
  then have "startsWith (resolve_path r p) (r @ ''/'')" by (metis startsWith_append)
  then show ?thesis using canonical_no_trailing [OF r] by (simp add: isWithin_def)
qed

text \<open>The test the validators use: \<open>normalized === ".." || normalized.startsWith("../")\<close>.\<close>

definition escapes_root :: "string \<Rightarrow> bool" where
  "escapes_root p = (normalize_path p = ''..'' \<or> startsWith (normalize_path p) ''../'')"

lemma not_escapes_segments:
  assumes "\<not> isAbsolute p" "\<not> escapes_root p"
  shows "''..'' \<notin> set (path_segments p)"
proof
  assume "''..'' \<in> set (path_segments p)"
  then obtain rest where segs: "path_segments p = ''..'' # rest"
    using path_segments_dots_first by blast
  then have "p \<noteq> []" by (auto simp: path_segments_def)
  with segs assms(1) have n: "normalize_path p = joinWith ''/'' (''..'' # rest) @ (if endsWith p ''/'' then ''/'' else [])"
    by (simp add: normalize_path_def)
  have "escapes_root p"
    by (cases rest) (auto simp: escapes_root_def n joinWith_Cons startsWith_def)
  with assms(2) show False by simp
qed

lemma not_escapes_isWithin:
  "canonical_dir r \<Longrightarrow> \<not> isAbsolute p \<Longrightarrow> \<not> escapes_root p \<Longrightarrow> isWithin r (resolve_path r p)"
  by (rule isWithin_resolve) (simp_all add: not_escapes_segments)

end
