(* ===== verification/Validation.thy ===== *)
theory Validation
  imports Paths
begin

text \<open>
  The request validators of \<^verbatim>\<open>broker/src/validation.ts\<close>: identifiers, sizes and
  control characters, argument vectors, sandbox and project paths, registration
  paths, git and GitHub arguments, host-tool authorization, payload key
  allowlists, and the containment checks that resolve symbolic links.  A value
  from a request is a \<^typ>\<open>js\<close>.  \<open>realpathSync\<close> and the test for a
  directory belong to the operating system and are arguments (\<open>None\<close> is a
  throw).  A regular expression of the form \<open>^[class]{lo,hi}$\<close> is a character
  predicate with length bounds.
\<close>

section \<open>Identifiers\<close>

definition matches :: "(char \<Rightarrow> bool) \<Rightarrow> nat \<Rightarrow> nat \<Rightarrow> string \<Rightarrow> bool" where
  "matches P lo hi s = (lo \<le> length s \<and> length s \<le> hi \<and> list_all P s)"

definition one_of :: "string \<Rightarrow> char \<Rightarrow> bool" where
  "one_of cs c = (c \<in> set cs)"

definition SESSION_ID_RE :: "string \<Rightarrow> bool" where
  "SESSION_ID_RE = matches (\<lambda>c. is_alnum c \<or> one_of ''_-'' c) 1 64"

definition PROJECT_ID_RE :: "string \<Rightarrow> bool" where
  "PROJECT_ID_RE s = (case s of [] \<Rightarrow> False | c # r \<Rightarrow>
     is_lower c \<and> matches (\<lambda>c. is_lower c \<or> is_digit c \<or> one_of ''._-'' c) 0 63 r)"

definition AGENT_NAME_RE :: "string \<Rightarrow> bool" where
  "AGENT_NAME_RE = matches (\<lambda>c. is_alnum c \<or> one_of ''_.-'' c) 0 128"

definition REQUEST_ID_RE :: "string \<Rightarrow> bool" where
  "REQUEST_ID_RE = matches (\<lambda>c. is_alnum c \<or> one_of ''-'' c) 1 128"

fun is_str :: "(string \<Rightarrow> bool) \<Rightarrow> js \<Rightarrow> bool" where
  "is_str P (JStr s) = P s"
| "is_str P _ = False"

definition assertSessionID :: "js \<Rightarrow> unit result" where
  "assertSessionID v = guardR (is_str SESSION_ID_RE v) (ValidationError ''invalid sessionID'')"

definition assertProjectID :: "js \<Rightarrow> unit result" where
  "assertProjectID v = guardR (is_str PROJECT_ID_RE v) (ValidationError ''invalid projectID'')"

definition assertAgentName :: "js \<Rightarrow> unit result" where
  "assertAgentName v = guardR (v = JUndefined \<or> v = JNull \<or> is_str (\<lambda>s. AGENT_NAME_RE s \<and> length s \<le> 128) v)
     (ValidationError ''invalid agent name (logging field only)'')"

definition assertRequestID :: "js \<Rightarrow> unit result" where
  "assertRequestID v = guardR (is_str REQUEST_ID_RE v) (ValidationError ''invalid request id'')"

definition assertRefComponent :: "string \<Rightarrow> unit result" where
  "assertRefComponent s = bindR (assertSessionID (JStr s)) (\<lambda>_.
     guardR (\<not> (strIncludes s ''..'' \<or> startsWith s ''.'' \<or> endsWith s ''.'' \<or> startsWith s ''-'' \<or>
                strIncludes s [CHR 0x40, CHR 0x7B] \<or> strIncludes s ''/''))
       (ValidationError ''sessionID not safe as a git ref component''))"

section \<open>Strings, sizes, control characters\<close>

definition is_control :: "char \<Rightarrow> bool" where
  "is_control c = ((of_char c :: nat) < 32 \<or> (of_char c :: nat) = 127)"

definition assertNoControlChars :: "string \<Rightarrow> string \<Rightarrow> unit result" where
  "assertNoControlChars s what =
     guardR (list_all (\<lambda>c. \<not> is_control c) s) (ValidationError (what @ '' contains control characters or NUL''))"

definition assertMaxBytes :: "string \<Rightarrow> nat \<Rightarrow> string \<Rightarrow> unit result" where
  "assertMaxBytes s mx what =
     guardR (length s \<le> mx) (ValidationError (what @ '' exceeds '' @ show_nat mx @ '' bytes''))"

text \<open>The class \<open>[;&|<>$`'"\\\n\r]\<close>.\<close>

definition is_shell_meta :: "char \<Rightarrow> bool" where
  "is_shell_meta c = (one_of '';&|<>$`'' c \<or> c = CHR 0x27 \<or> c = CHR 0x22 \<or> c = CHR 0x5C \<or>
     c = CHR 0x0A \<or> c = CHR 0x0D)"

definition assertNoShellMetachars :: "string \<Rightarrow> string \<Rightarrow> unit result" where
  "assertNoShellMetachars s what =
     guardR (list_all (\<lambda>c. \<not> is_shell_meta c) s) (ValidationError (what @ '' contains shell metacharacters''))"

section \<open>Argument vectors\<close>

record argv_limits =
  itemMaxBytes :: nat
  maxItems :: nat
  totalMaxBytes :: nat

fun assertArgvItems :: "argv_limits \<Rightarrow> nat \<Rightarrow> js list \<Rightarrow> unit result" where
  "assertArgvItems limits sofar [] = Inr ()"
| "assertArgvItems limits sofar (JStr s # rest) =
     bindR (assertMaxBytes s (itemMaxBytes limits) ''argv item'') (\<lambda>_.
     bindR (assertNoControlChars s ''argv item'') (\<lambda>_.
     bindR (assertNoShellMetachars s ''argv item'') (\<lambda>_.
       if sofar + length s > totalMaxBytes limits
       then Inl (ValidationError (''argv exceeds '' @ show_nat (totalMaxBytes limits) @ '' bytes total''))
       else assertArgvItems limits (sofar + length s) rest)))"
| "assertArgvItems limits sofar (_ # rest) = Inl (ValidationError ''argv items must be strings'')"

fun assertArgv :: "js \<Rightarrow> argv_limits \<Rightarrow> unit result" where
  "assertArgv (JArr xs) limits =
     (if xs = [] then Inl (ValidationError ''argv must not be empty'')
      else if length xs > maxItems limits
           then Inl (ValidationError (''argv exceeds '' @ show_nat (maxItems limits) @ '' items''))
      else assertArgvItems limits 0 xs)"
| "assertArgv _ limits = Inl (ValidationError ''argv must be an array of strings (never a shell string)'')"

section \<open>Paths and small values\<close>

text \<open>\<open>/^[A-Za-z]:[\\/]/\<close>\<close>

definition drive_prefix :: "string \<Rightarrow> bool" where
  "drive_prefix s = (case s of a # b # c # _ \<Rightarrow> is_alpha a \<and> b = CHR '':'' \<and> (c = CHR 0x5C \<or> c = CHR ''/'')
     | _ \<Rightarrow> False)"

fun assertSandboxPath :: "js \<Rightarrow> nat \<Rightarrow> unit result" where
  "assertSandboxPath (JStr p) maxBytes =
     (if p = [] then Inl (ValidationError ''path must be a non-empty string'') else
      bindR (assertMaxBytes p maxBytes ''path'') (\<lambda>_.
      bindR (assertNoControlChars p ''path'') (\<lambda>_.
      bindR (guardR (\<not> (startsWith p ''/'' \<or> startsWith p ''~'' \<or> drive_prefix p))
               (ValidationError ''path must be relative to the sandbox project root'')) (\<lambda>_.
      bindR (guardR (CHR 0x5C \<notin> set p) (ValidationError ''path contains a backslash'')) (\<lambda>_.
        guardR (\<not> escapes_root p) (ValidationError ''path escapes the sandbox project root (..)''))))))"
| "assertSandboxPath _ maxBytes = Inl (ValidationError ''path must be a non-empty string'')"

definition assertSince :: "js \<Rightarrow> unit result" where
  "assertSince v = guardR (v = JUndefined \<or> v = JNull \<or>
       is_str (matches (\<lambda>c. is_alnum c \<or> one_of '' :.+-'' c) 1 64) v)
     (ValidationError ''invalid since value'')"

fun assertPositiveInt :: "js \<Rightarrow> int \<Rightarrow> string \<Rightarrow> unit result" where
  "assertPositiveInt JUndefined mx what = Inr ()"
| "assertPositiveInt JNull mx what = Inr ()"
| "assertPositiveInt (JInt i) mx what =
     guardR (0 < i \<and> i \<le> mx) (ValidationError (what @ '' must be an integer in [1, '' @ show_int mx @ '']''))"
| "assertPositiveInt _ mx what =
     Inl (ValidationError (what @ '' must be an integer in [1, '' @ show_int mx @ '']''))"

fun assertServiceOrContainerName :: "js \<Rightarrow> string \<Rightarrow> unit result" where
  "assertServiceOrContainerName (JStr s) what =
     bindR (guardR (matches (\<lambda>c. is_alnum c \<or> one_of ''_.:@-'' c) 1 128 s)
              (ValidationError (''invalid '' @ what @ '' name''))) (\<lambda>_.
     bindR (guardR (\<not> startsWith s ''-'') (ValidationError (what @ '' name must not start with -''))) (\<lambda>_.
       assertNoShellMetachars s what))"
| "assertServiceOrContainerName _ what = Inl (ValidationError (''invalid '' @ what @ '' name''))"

fun assertProcessFilter :: "js \<Rightarrow> unit result" where
  "assertProcessFilter JUndefined = Inr ()"
| "assertProcessFilter JNull = Inr ()"
| "assertProcessFilter (JStr s) =
     bindR (assertMaxBytes s 256 ''filter'') (\<lambda>_.
     bindR (assertNoControlChars s ''filter'') (\<lambda>_.
       guardR (CHR ''/'' \<notin> set s) (ValidationError ''filter must not contain /'')))"
| "assertProcessFilter _ = Inl (ValidationError ''filter must be a string'')"

fun assertGrepQuery :: "js \<Rightarrow> nat \<Rightarrow> unit result" where
  "assertGrepQuery (JStr s) maxBytes =
     (if s = [] then Inl (ValidationError ''query must be a non-empty string'') else
      bindR (assertMaxBytes s maxBytes ''query'') (\<lambda>_.
      bindR (assertNoControlChars s ''query'') (\<lambda>_.
        guardR (list_all (\<lambda>c. \<not> is_shell_meta c) s) (ValidationError ''query contains shell metacharacters''))))"
| "assertGrepQuery _ maxBytes = Inl (ValidationError ''query must be a non-empty string'')"

fun assertContent :: "js \<Rightarrow> nat \<Rightarrow> unit result" where
  "assertContent (JStr s) maxBytes = assertMaxBytes s maxBytes ''content''"
| "assertContent _ maxBytes = Inl (ValidationError ''content must be a string'')"

section \<open>Host-tool values\<close>

definition SDD_IDENTIFIER_RE :: "string \<Rightarrow> bool" where
  "SDD_IDENTIFIER_RE = matches (\<lambda>c. is_alnum c \<or> one_of ''._-'' c) 1 128"

definition is_hex :: "char \<Rightarrow> bool" where
  "is_hex c = (is_digit c \<or> one_of ''abcdef'' c)"

definition SHA256_HEX_RE :: "string \<Rightarrow> bool" where
  "SHA256_HEX_RE = matches is_hex 64 64"

definition SDD_TOKEN_RE :: "string \<Rightarrow> bool" where
  "SDD_TOKEN_RE = matches (\<lambda>c. is_alnum c \<or> one_of ''._:+/=-'' c) 1 512"

definition LOWERCASE_REQUEST_ID_RE :: "string \<Rightarrow> bool" where
  "LOWERCASE_REQUEST_ID_RE s = (case s of [] \<Rightarrow> False | c # r \<Rightarrow>
     (is_lower c \<or> is_digit c) \<and> matches (\<lambda>c. is_lower c \<or> is_digit c \<or> one_of ''-'' c) 0 127 r)"

fun assertSddIdentifier :: "js \<Rightarrow> string \<Rightarrow> unit result" where
  "assertSddIdentifier (JStr s) what =
     bindR (guardR (SDD_IDENTIFIER_RE s \<and> \<not> strIncludes s ''..'' \<and> \<not> startsWith s ''-'')
              (ValidationError (''invalid '' @ what))) (\<lambda>_.
     bindR (assertNoControlChars s what) (\<lambda>_. assertNoShellMetachars s what))"
| "assertSddIdentifier _ what = Inl (ValidationError (''invalid '' @ what))"

definition SDD_STATUS_CONTRACTS :: "string list" where
  "SDD_STATUS_CONTRACTS = [''gentle-ai.sdd-status/v2'']"

definition assertSddContract :: "js \<Rightarrow> unit result" where
  "assertSddContract v = guardR (is_str (\<lambda>s. s \<in> set SDD_STATUS_CONTRACTS) v)
     (ValidationError ''unsupported SDD status contract'')"

definition assertSddOutcome :: "js \<Rightarrow> unit result" where
  "assertSddOutcome v = guardR (v \<in> {JStr ''passed'', JStr ''failed'', JStr ''interrupted''})
     (ValidationError ''outcome must be passed, failed, or interrupted'')"

definition assertHarnessDisposition :: "js \<Rightarrow> unit result" where
  "assertHarnessDisposition v = guardR (v \<in> {JStr ''reused'', JStr ''invalidated''})
     (ValidationError ''harnessDisposition must be reused or invalidated'')"

definition assertReviewRuntimeAgent :: "js \<Rightarrow> unit result" where
  "assertReviewRuntimeAgent v =
     guardR (is_str (matches (\<lambda>c. is_lower c \<or> is_digit c \<or> one_of ''_-'' c) 1 64) v)
       (ValidationError ''agent must match ^[a-z0-9_-]{1,64}$'')"

definition assertUntrackedScope :: "js \<Rightarrow> unit result" where
  "assertUntrackedScope v = guardR (v \<in> {JStr ''exclude'', JStr ''select''})
     (ValidationError ''untrackedScope must be exclude or select'')"

definition sha256_token :: "string \<Rightarrow> bool" where
  "sha256_token s = (startsWith s ''sha256:'' \<and> SHA256_HEX_RE (drop 7 s))"

definition assertExpectedUntrackedInventory :: "js \<Rightarrow> unit result" where
  "assertExpectedUntrackedInventory v = guardR (is_str sha256_token v)
     (ValidationError ''expectedUntrackedInventory must be sha256:<64 lowercase hex>'')"

fun assertProjectRelativePath :: "js \<Rightarrow> string \<Rightarrow> nat \<Rightarrow> unit result" where
  "assertProjectRelativePath (JStr p) what maxBytes =
     (if p = [] then Inl (ValidationError (what @ '' must be a non-empty project-relative path'')) else
      bindR (assertMaxBytes p maxBytes what) (\<lambda>_.
      bindR (assertNoControlChars p what) (\<lambda>_.
        if p = ''-'' then Inr () else
      bindR (guardR (\<not> (startsWith p ''/'' \<or> startsWith p ''~'' \<or> drive_prefix p))
               (ValidationError (what @ '' must be relative to the project root''))) (\<lambda>_.
      bindR (guardR (CHR 0x5C \<notin> set p) (ValidationError (what @ '' must not contain a backslash''))) (\<lambda>_.
        guardR (\<not> (escapes_root p \<or> isAbsolute (normalize_path p)))
          (ValidationError (what @ '' escapes the project root'')))))))"
| "assertProjectRelativePath _ what maxBytes =
     Inl (ValidationError (what @ '' must be a non-empty project-relative path''))"

definition MAX_INTENDED_UNTRACKED :: nat where
  "MAX_INTENDED_UNTRACKED = 256"

fun assertIntendedEntries :: "js list \<Rightarrow> unit result" where
  "assertIntendedEntries [] = Inr ()"
| "assertIntendedEntries (v # vs) =
     bindR (guardR (is_str (\<lambda>s. s \<noteq> ''-'') v)
       (ValidationError ''intendedUntracked entries must be repo-relative paths'')) (\<lambda>_.
     bindR (assertProjectRelativePath v ''intendedUntracked path'' 4096) (\<lambda>_. assertIntendedEntries vs))"

fun assertIntendedUntracked :: "js \<Rightarrow> unit result" where
  "assertIntendedUntracked (JArr xs) =
     (if length xs > MAX_INTENDED_UNTRACKED
      then Inl (ValidationError (''intendedUntracked exceeds '' @ show_nat MAX_INTENDED_UNTRACKED @ '' entries''))
      else assertIntendedEntries xs)"
| "assertIntendedUntracked _ =
     Inl (ValidationError ''intendedUntracked must be an array of repo-relative paths'')"

fun assertReviewIntendedUntracked :: "js \<Rightarrow> unit result" where
  "assertReviewIntendedUntracked (JArr xs) = bindR (assertIntendedUntracked (JArr xs)) (\<lambda>_.
     guardR (distinct xs) (ValidationError ''intendedUntracked paths must be unique''))"
| "assertReviewIntendedUntracked v = assertIntendedUntracked v"

definition assertEvidenceRevision :: "js \<Rightarrow> unit result" where
  "assertEvidenceRevision v = guardR (is_str SHA256_HEX_RE v)
     (ValidationError ''evidenceRevision must be a lowercase sha256 hex digest'')"

definition assertExpectedRevision :: "js \<Rightarrow> unit result" where
  "assertExpectedRevision v = guardR (is_str sha256_token v)
     (ValidationError ''expectedRevision must be sha256:<64 lowercase hex>'')"

definition assertLowercaseRequestId :: "js \<Rightarrow> unit result" where
  "assertLowercaseRequestId v = guardR (is_str LOWERCASE_REQUEST_ID_RE v)
     (ValidationError ''requestId must match ^[a-z0-9][a-z0-9-]{0,127}$'')"

definition assertObjectiveRelation :: "js \<Rightarrow> unit result" where
  "assertObjectiveRelation v = guardR (v \<in> {JStr ''remediation'', JStr ''independent''})
     (ValidationError ''objectiveRelation must be remediation or independent'')"

definition MAX_GRANT_ROOTS :: nat where
  "MAX_GRANT_ROOTS = 32"

fun assertRootEntries :: "string list \<Rightarrow> js list \<Rightarrow> unit result" where
  "assertRootEntries seen [] = Inr ()"
| "assertRootEntries seen (JStr r # rest) =
     bindR (guardR (r \<noteq> [] \<and> isAbsolute r) (ValidationError ''each root must be a canonical absolute path'')) (\<lambda>_.
     bindR (assertMaxBytes r 4096 ''root'') (\<lambda>_.
     bindR (assertNoControlChars r ''root'') (\<lambda>_.
     bindR (guardR (\<not> (startsWith r ''-'' \<or> resolve_path [] r \<noteq> r))
              (ValidationError ''each root must be a canonical absolute path'')) (\<lambda>_.
     bindR (guardR (r \<notin> set seen) (ValidationError ''roots must be unique'')) (\<lambda>_.
       assertRootEntries (r # seen) rest)))))"
| "assertRootEntries seen (_ # rest) = Inl (ValidationError ''each root must be a canonical absolute path'')"

fun assertCanonicalRoots :: "js \<Rightarrow> unit result" where
  "assertCanonicalRoots (JArr xs) =
     (if xs = [] \<or> length xs > MAX_GRANT_ROOTS
      then Inl (ValidationError ''roots must contain 1..32 canonical absolute paths'')
      else assertRootEntries [] xs)"
| "assertCanonicalRoots _ = Inl (ValidationError ''roots must contain 1..32 canonical absolute paths'')"

fun assertOpaqueToken :: "js \<Rightarrow> unit result" where
  "assertOpaqueToken (JStr s) =
     bindR (guardR (SDD_TOKEN_RE s \<and> \<not> startsWith s ''-'') (ValidationError ''invalid settle token'')) (\<lambda>_.
       assertNoControlChars s ''token'')"
| "assertOpaqueToken _ = Inl (ValidationError ''invalid settle token'')"

text \<open>\<open>assertEvidenceText\<close> and \<open>assertReviewToken\<close> run the same checks in the same order.\<close>

fun assertBoundedText :: "js \<Rightarrow> string \<Rightarrow> nat \<Rightarrow> unit result" where
  "assertBoundedText (JStr s) what maxBytes =
     (if s = [] then Inl (ValidationError (what @ '' must be a non-empty string'')) else
      bindR (assertMaxBytes s maxBytes what) (\<lambda>_.
      bindR (assertNoControlChars s what) (\<lambda>_.
        guardR (\<not> startsWith s ''-'') (ValidationError (what @ '' must not start with -'')))))"
| "assertBoundedText _ what maxBytes = Inl (ValidationError (what @ '' must be a non-empty string''))"

definition assertEvidenceText :: "js \<Rightarrow> string \<Rightarrow> nat \<Rightarrow> unit result" where
  "assertEvidenceText = assertBoundedText"

definition assertReviewToken :: "js \<Rightarrow> string \<Rightarrow> nat \<Rightarrow> unit result" where
  "assertReviewToken = assertBoundedText"

fun assertCount :: "js \<Rightarrow> int \<Rightarrow> string \<Rightarrow> unit result" where
  "assertCount (JInt i) mx what =
     guardR (0 \<le> i \<and> i \<le> mx) (ValidationError (what @ '' must be an integer in [0, '' @ show_int mx @ '']''))"
| "assertCount _ mx what = Inl (ValidationError (what @ '' must be an integer in [0, '' @ show_int mx @ '']''))"

text \<open>The class \<open>[~^:?*[\]\\]\<close> of git revision magic.\<close>

definition is_rev_magic :: "char \<Rightarrow> bool" where
  "is_rev_magic c = (one_of ''~^:?*[]'' c \<or> c = CHR 0x5C)"

definition assertReviewBaseRef :: "js \<Rightarrow> unit result" where
  "assertReviewBaseRef v = bindR (assertReviewToken v ''baseRef'' 1024) (\<lambda>_.
     bindR (guardR (is_str (\<lambda>s. \<not> strIncludes s ''..'' \<and> \<not> strIncludes s [CHR 0x40, CHR 0x7B]) v)
       (ValidationError ''baseRef must not contain revision traversal'')) (\<lambda>_.
     guardR (is_str (list_all (\<lambda>c. \<not> is_rev_magic c)) v)
       (ValidationError ''baseRef must not contain git revision magic'')))"

definition assertReviewOrder :: "js \<Rightarrow> unit result" where
  "assertReviewOrder v = (case v of JInt i \<Rightarrow>
       guardR (0 \<le> i \<and> i \<le> 32) (ValidationError ''order must be an integer in [0, 32]'')
     | _ \<Rightarrow> Inl (ValidationError ''order must be an integer in [0, 32]''))"

definition assertReviewCorrectionLines :: "js \<Rightarrow> unit result" where
  "assertReviewCorrectionLines v = (case v of JInt i \<Rightarrow>
       guardR (1 \<le> i \<and> i \<le> 2147483647) (ValidationError ''correctionLines must be a positive 32-bit integer'')
     | _ \<Rightarrow> Inl (ValidationError ''correctionLines must be a positive 32-bit integer''))"

definition assertReviewSha256 :: "js \<Rightarrow> string \<Rightarrow> unit result" where
  "assertReviewSha256 v what = guardR (is_str sha256_token v)
     (ValidationError (what @ '' must be sha256:<64 lowercase hex>''))"

definition assertOptionalBoolean :: "js \<Rightarrow> string \<Rightarrow> unit result" where
  "assertOptionalBoolean v what = (case v of JUndefined \<Rightarrow> Inr () | JNull \<Rightarrow> Inr () | JBool _ \<Rightarrow> Inr ()
     | _ \<Rightarrow> Inl (ValidationError (what @ '' must be a boolean'')))"

definition assertReviewLens :: "js \<Rightarrow> unit result" where
  "assertReviewLens v = guardR (v \<in> {JStr ''review-risk'', JStr ''review-resilience'',
       JStr ''review-readability'', JStr ''review-reliability''})
     (ValidationError ''lens must be review-risk, review-resilience, review-readability, or review-reliability'')"

section \<open>Plan documents\<close>

definition PLAN_DOC_TARGETS :: "string \<Rightarrow> string option" where
  "PLAN_DOC_TARGETS = [''todo'' \<mapsto> ''docs/TODO.md'', ''plan'' \<mapsto> ''docs/PLAN.md'']"

definition assertPlanDocName :: "js \<Rightarrow> unit result" where
  "assertPlanDocName v = guardR (v \<in> {JStr ''todo'', JStr ''plan''})
     (ValidationError ''doc must be one of: todo, plan'')"

fun normalizePlanDocContent :: "js \<Rightarrow> string result" where
  "normalizePlanDocContent (JStr s) =
     bindR (guardR (list_all (\<lambda>c. \<not> (is_control c \<and> c \<noteq> CHR 0x0A)) s)
       (ValidationError ''content contains a control character other than LF'')) (\<lambda>_.
     let t = trim s in
       if t = [] then Inl (ValidationError ''content must be a non-empty block after trimming'')
       else bindR (assertMaxBytes t 16384 ''content'') (\<lambda>_. Inr t))"
| "normalizePlanDocContent _ = Inl (ValidationError ''content must be a string'')"

fun assertPlanDocHeading :: "js \<Rightarrow> unit result" where
  "assertPlanDocHeading (JStr s) =
     (if s = [] then Inl (ValidationError ''heading must be a non-empty string'') else
      bindR (assertMaxBytes s 256 ''heading'') (\<lambda>_.
      bindR (assertNoControlChars s ''heading'') (\<lambda>_.
        guardR (\<not> startsWith s ''#'') (ValidationError ''heading must be the heading text without # markers''))))"
| "assertPlanDocHeading _ = Inl (ValidationError ''heading must be a non-empty string'')"

section \<open>Project registration\<close>

definition REGISTER_PROJECT_BANNED_SYSTEM_ROOTS :: "string list" where
  "REGISTER_PROJECT_BANNED_SYSTEM_ROOTS =
     [''/etc'', ''/usr'', ''/var'', ''/tmp'']"

definition REGISTER_PROJECT_BANNED_HOME_DIRS :: "string list" where
  "REGISTER_PROJECT_BANNED_HOME_DIRS =
     [''.ssh'', ''.config'', ''.local'', ''.cache'', ''.gnupg'', ''.aws'', ''.kube'']"

definition banned_roots :: "string \<Rightarrow> string list" where
  "banned_roots home = REGISTER_PROJECT_BANNED_SYSTEM_ROOTS @
     (if home = [] then [] else map (join_path home) REGISTER_PROJECT_BANNED_HOME_DIRS)"

fun refuse_under :: "string \<Rightarrow> string list \<Rightarrow> unit result" where
  "refuse_under v [] = Inr ()"
| "refuse_under v (r # rs) =
     (if isWithin r v then Inl (ValidationError (''refusing to register a path under '' @ r))
      else refuse_under v rs)"

definition assertRegistrationRootAllowed :: "string \<Rightarrow> string \<Rightarrow> unit result" where
  "assertRegistrationRootAllowed v home =
     (if v = ''/'' \<or> (home \<noteq> [] \<and> v = home)
      then Inl (ValidationError ''refusing to register the filesystem root or $HOME itself'')
      else refuse_under v (banned_roots home))"

text \<open>The class \<open>[$`\\"!]\<close>.\<close>

definition is_shell_unsafe :: "char \<Rightarrow> bool" where
  "is_shell_unsafe c = (one_of ''$`!'' c \<or> c = CHR 0x22 \<or> c = CHR 0x5C)"

text \<open>\<open>isDir p\<close> is \<open>None\<close> when \<open>statSync\<close> throws.\<close>

fun assertRegisterableProjectPath ::
  "(string \<Rightarrow> string option) \<Rightarrow> (string \<Rightarrow> bool option) \<Rightarrow> js \<Rightarrow> string \<Rightarrow> string result"
where
  "assertRegisterableProjectPath realpath isDir (JStr v) home =
     (if v = [] \<or> \<not> isAbsolute v then Inl (ValidationError ''path must be an absolute string'') else
      bindR (assertMaxBytes v 4096 ''path'') (\<lambda>_.
      bindR (assertNoControlChars v ''path'') (\<lambda>_.
      bindR (assertRegistrationRootAllowed v home) (\<lambda>_.
      (case realpath v of None \<Rightarrow> Inl (ValidationError ''path does not exist on the host'')
       | Some canonical \<Rightarrow>
          bindR (guardR (isAbsolute canonical \<and> resolve_path [] canonical = canonical)
            (ValidationError ''path must resolve to a canonical absolute path'')) (\<lambda>_.
          bindR (assertRegistrationRootAllowed canonical home) (\<lambda>_.
          bindR (guardR (list_all (\<lambda>c. \<not> is_shell_unsafe c) canonical)
            (ValidationError ''path must not contain shell-active characters'')) (\<lambda>_.
          (case isDir canonical of None \<Rightarrow> Inl (ValidationError ''path does not exist on the host'')
           | Some False \<Rightarrow> Inl (ValidationError ''path is not a directory'')
           | Some True \<Rightarrow> Inr canonical)))))))))"
| "assertRegisterableProjectPath realpath isDir _ home = Inl (ValidationError ''path must be an absolute string'')"

section \<open>Git and GitHub arguments\<close>

definition GIT_COMMIT_OID_RE :: "string \<Rightarrow> bool" where
  "GIT_COMMIT_OID_RE s = (matches is_hex 40 40 s \<or> matches is_hex 64 64 s)"

definition assertExpectedResultCommit :: "js \<Rightarrow> unit result" where
  "assertExpectedResultCommit v = guardR (is_str GIT_COMMIT_OID_RE v)
     (ValidationError ''expectedResultCommit must be a full lowercase commit id (40 or 64 hex)'')"

definition GIT_REMOTE_RE :: "string \<Rightarrow> bool" where
  "GIT_REMOTE_RE s = (\<not> strIncludes s ''..'' \<and> (case s of [] \<Rightarrow> False | c # r \<Rightarrow>
     (is_alnum c \<or> one_of ''._'' c) \<and> matches (\<lambda>c. is_alnum c \<or> one_of ''._-'' c) 0 254 r))"

definition GIT_BRANCH_RE :: "string \<Rightarrow> bool" where
  "GIT_BRANCH_RE s = (\<not> strIncludes s ''..'' \<and> (case s of [] \<Rightarrow> False | c # r \<Rightarrow>
     (is_alnum c \<or> one_of ''._/'' c) \<and> matches (\<lambda>c. is_alnum c \<or> one_of ''._/-'' c) 0 254 r))"

definition GH_REPO_RE :: "string \<Rightarrow> bool" where
  "GH_REPO_RE s = (case splitOn (CHR ''/'') s of [owner, name] \<Rightarrow>
       list_all (\<lambda>part. matches (\<lambda>c. is_alnum c \<or> one_of ''._-'' c) 1 100 part \<and> \<not> startsWith part ''-'')
         [owner, name]
     | _ \<Rightarrow> False)"

text \<open>\<open>[\u0000-\u0008\u000b\u000c\u000e-\u001f\u007f]\<close> and \<open>\r(?!\n)\<close>\<close>

definition is_body_unsafe :: "char \<Rightarrow> bool" where
  "is_body_unsafe c = (is_control c \<and> c \<noteq> CHR 0x09 \<and> c \<noteq> CHR 0x0A \<and> c \<noteq> CHR 0x0D)"

fun has_bare_cr :: "string \<Rightarrow> bool" where
  "has_bare_cr [] = False"
| "has_bare_cr (c # s) =
     ((c = CHR 0x0D \<and> (case s of [] \<Rightarrow> True | d # _ \<Rightarrow> d \<noteq> CHR 0x0A)) \<or> has_bare_cr s)"

definition assertBodyTextControls :: "string \<Rightarrow> string \<Rightarrow> unit result" where
  "assertBodyTextControls s what = guardR (list_all (\<lambda>c. \<not> is_body_unsafe c) s \<and> \<not> has_bare_cr s)
     (ValidationError (what @ '' contains control characters or NUL''))"

text \<open>\<open>value.split(/\r?\n/, 1)[0]\<close>\<close>

definition first_line :: "string \<Rightarrow> string" where
  "first_line s = (let l = takeWhile (\<lambda>c. c \<noteq> CHR 0x0A) s in
     if l \<noteq> s \<and> l \<noteq> [] \<and> last l = CHR 0x0D then butlast l else l)"

fun assertGitCommitMessage :: "js \<Rightarrow> unit result" where
  "assertGitCommitMessage (JStr s) =
     (if s = [] then Inl (ValidationError ''message must be a non-empty string'') else
      bindR (assertMaxBytes s 4096 ''message'') (\<lambda>_.
      bindR (guardR (first_line s \<noteq> []) (ValidationError ''message subject must be a non-empty single line'')) (\<lambda>_.
      bindR (assertBodyTextControls s ''message'') (\<lambda>_.
        guardR (\<not> startsWith s ''-'') (ValidationError ''message must not start with -'')))))"
| "assertGitCommitMessage _ = Inl (ValidationError ''message must be a non-empty string'')"

definition git_path_unsafe :: "string \<Rightarrow> bool" where
  "git_path_unsafe p = (CHR 0x5C \<in> set p \<or> strIncludes p ''..'' \<or> strIncludes p '':('' \<or> strIncludes p '':!'')"

fun assertGitPathEntries :: "js list \<Rightarrow> unit result" where
  "assertGitPathEntries [] = Inr ()"
| "assertGitPathEntries (JStr p # rest) =
     (if p = [] then Inl (ValidationError ''path entries must be non-empty strings'') else
      bindR (assertMaxBytes p 4096 ''path'') (\<lambda>_.
      bindR (assertNoControlChars p ''path'') (\<lambda>_.
      bindR (guardR (\<not> startsWith p ''-'') (ValidationError ''path must not start with -'')) (\<lambda>_.
      bindR (guardR (\<not> (startsWith p ''/'' \<or> startsWith p ''~'' \<or> drive_prefix p))
               (ValidationError ''path must be repo-relative'')) (\<lambda>_.
      bindR (guardR (\<not> git_path_unsafe p)
               (ValidationError ''path contains unsafe traversal or git magic'')) (\<lambda>_.
        assertGitPathEntries rest))))))"
| "assertGitPathEntries (_ # rest) = Inl (ValidationError ''path entries must be non-empty strings'')"

fun assertGitPathList :: "js \<Rightarrow> unit result" where
  "assertGitPathList (JArr xs) =
     (if xs = [] then Inl (ValidationError ''paths must be a non-empty array'') else assertGitPathEntries xs)"
| "assertGitPathList _ = Inl (ValidationError ''paths must be a non-empty array'')"

definition assertGitRemote :: "js \<Rightarrow> unit result" where
  "assertGitRemote v = guardR (is_str GIT_REMOTE_RE v) (ValidationError ''invalid git remote'')"

definition assertGitBranch :: "js \<Rightarrow> unit result" where
  "assertGitBranch v = guardR (is_str GIT_BRANCH_RE v) (ValidationError ''invalid git branch'')"

fun assertGhRepo :: "js \<Rightarrow> unit result" where
  "assertGhRepo (JStr s) =
     (if s = [] then Inl (ValidationError ''repo must be a non-empty string'') else
      bindR (assertMaxBytes s 256 ''repo'') (\<lambda>_.
        guardR (GH_REPO_RE s) (ValidationError ''repo must be an owner/name slug'')))"
| "assertGhRepo _ = Inl (ValidationError ''repo must be a non-empty string'')"

definition assertGhTitle :: "js \<Rightarrow> unit result" where
  "assertGhTitle v = assertBoundedText v ''title'' 256"

fun assertGhBody :: "js \<Rightarrow> unit result" where
  "assertGhBody (JStr s) = bindR (assertMaxBytes s 65536 ''body'') (\<lambda>_.
     bindR (assertBodyTextControls s ''body'') (\<lambda>_.
       guardR (\<not> startsWith s ''-'') (ValidationError ''body must not start with -'')))"
| "assertGhBody _ = Inl (ValidationError ''body must be a string'')"

section \<open>Host-tool authorization\<close>

datatype host_access = ReadAccess | MutationAccess

definition HOST_READ_OPERATIONS :: "string list" where
  "HOST_READ_OPERATIONS =
     [''sddStatus'', ''sddContinue'', ''sddTaskResult'', ''reviewAssess'',
     ''reviewModeStatus'', ''reviewStatus'', ''reviewLensContext'', ''reviewDiffRead'',
     ''reviewPersistPreflight'', ''sandboxResult'', ''advisorGet'', ''advisorList'',
     ''toolAdmission'']"

definition HOST_MUTATION_OPERATIONS :: "string list" where
  "HOST_MUTATION_OPERATIONS =
     [''sddArchiveCompose'', ''gitCommit'', ''gitClearCommitIntent'', ''gitPush'',
     ''ghIssueCreate'', ''registerProject'', ''sddAttemptGrant'', ''planDocAppend'',
     ''planDocWrite'', ''taskMark'', ''gateVerdict'', ''reviewStart'', ''reviewCaptureResult'',
     ''reviewCaptureUnachievable'', ''reviewAcknowledgeApproved'',
     ''reviewCaptureCorrectionPlan'', ''reviewCaptureRefuter'', ''reviewCaptureValidation'',
     ''reviewValidate'', ''reviewRecover'', ''reviewMaterialize'', ''reviewPipelineRun'',
     ''reviewPersist'', ''sandboxResultInstall'', ''advisorAsk'']"

definition hostToolAccess :: "string \<Rightarrow> host_access result" where
  "hostToolAccess op = (if op \<in> set HOST_READ_OPERATIONS then Inr ReadAccess
     else if op \<in> set HOST_MUTATION_OPERATIONS then Inr MutationAccess
     else Inl (ValidationError (''unknown host tool operation: '' @ op)))"

definition HOST_MUTATION_IDENTITY_OPERATIONS :: "(string \<times> string list) list" where
  "HOST_MUTATION_IDENTITY_OPERATIONS =
     (let noRegister = filter (\<lambda>op. op \<noteq> ''registerProject'') HOST_MUTATION_OPERATIONS in
     [(''pm'', [''taskMark'']),
      (''gentle-orchestrator'', filter (\<lambda>op. op \<noteq> ''taskMark'') HOST_MUTATION_OPERATIONS),
      (''pm-odd'', noRegister), (''pm-systematic'', noRegister), (''pm-sdd'', noRegister),
      (''pm-odd-astra'', noRegister), (''pm-systematic-astra'', noRegister)])"

record host_tool_decision =
  htd_allowed :: bool
  htd_access :: host_access
  htd_reasonCode :: string

definition identity_operations :: "string \<Rightarrow> string list" where
  "identity_operations agent = (case map_of HOST_MUTATION_IDENTITY_OPERATIONS agent of
     None \<Rightarrow> [] | Some ops \<Rightarrow> ops)"

text \<open>\<open>HostToolPolicy(authorizedAgents).decide(operation, trustedAgent)\<close>\<close>

definition host_decide :: "string list \<Rightarrow> string \<Rightarrow> string option \<Rightarrow> host_tool_decision result" where
  "host_decide authorizedAgents op trusted = bindR (hostToolAccess op) (\<lambda>acc.
     Inr (case acc of
       ReadAccess \<Rightarrow> \<lparr>htd_allowed = True, htd_access = acc, htd_reasonCode = ''HOST_READ_OPEN''\<rparr>
     | MutationAccess \<Rightarrow>
         (case trusted of
            Some a \<Rightarrow>
              if a \<in> set authorizedAgents \<and> op \<in> set (identity_operations a)
              then \<lparr>htd_allowed = True, htd_access = acc, htd_reasonCode = ''HOST_MUTATION_ORCHESTRATOR''\<rparr>
              else \<lparr>htd_allowed = False, htd_access = acc,
                    htd_reasonCode = (if a \<noteq> [] then ''HOST_MUTATION_NOT_ORCHESTRATOR''
                                      else ''HOST_MUTATION_UNKNOWN_AGENT'')\<rparr>
          | None \<Rightarrow> \<lparr>htd_allowed = False, htd_access = acc,
                    htd_reasonCode = ''HOST_MUTATION_UNKNOWN_AGENT''\<rparr>)))"

section \<open>Payload keys\<close>

definition FORBIDDEN_WORKER_FIELDS :: "string list" where
  "FORBIDDEN_WORKER_FIELDS =
     [''image'', ''hostMount'', ''mounts'', ''privileged'', ''device'', ''devices'',
     ''hostNetwork'', ''network'', ''securityProfile'', ''security_profile'', ''fsConf'',
     ''runtimeConf'', ''secretConf'', ''rawMsbConfig'']"

definition ALLOWED_PAYLOAD_KEYS :: "(string \<times> string list) list" where
  "ALLOWED_PAYLOAD_KEYS =
     [(''ensureWorker'', [''projectDir'', ''snapshot'']), (''exec'', [''argv'', ''cwd'',
     ''timeoutMs'', ''env'']), (''readFile'', [''path'']), (''writeFile'', [''path'',
     ''content'']), (''applyPatch'', [''patch'']), (''listDir'', [''path'']), (''grep'',
     [''query'', ''path'']), (''diff'', [''mode'']), (''applyResult'', [''confirm'']),
     (''discardResult'', [''confirm'']), (''destroyWorker'', []), (''listWorkers'', []),
     (''metrics'', []), (''prepareResult'', []), (''workerStatus'', []), (''sddStatus'',
     [''projectDir'', ''change'', ''contract'']), (''sddContinue'', [''projectDir'',
     ''change'']), (''sddArchiveCompose'', [''projectDir'', ''canonical'', ''delta'',
     ''output'']), (''sddTaskResult'', [''projectDir'', ''phase'', ''input'']),
     (''reviewAssess'', [''projectDir'', ''baseRef'', ''committedOnly'', ''untrackedScope'',
     ''expectedUntrackedInventory'', ''intendedUntracked'']), (''reviewModeStatus'',
     [''projectDir'']), (''reviewStatus'', [''projectDir'', ''agent'', ''lineage'',
     ''repositoryContext'', ''projection'', ''baseRef'', ''committedOnly'',
     ''intendedUntrackedSelection'']), (''reviewLensContext'', [''projectDir'',
     ''repositoryContext'', ''lineage'', ''target'', ''expectedRevision'', ''lens'']),
     (''sddAttemptGrant'', [''projectDir'', ''change'', ''expectedRevision'', ''roots'',
     ''changeInstance'', ''requestId'', ''actor'', ''reason'']), (''planDocAppend'',
     [''projectDir'', ''doc'', ''content'', ''heading'']), (''planDocWrite'', [''projectDir'',
     ''target'', ''name'', ''content'', ''expectedRevision'', ''note'', ''agent'']),
     (''taskMark'', [''projectDir'', ''target'', ''name'', ''taskId'', ''status'',
     ''evidenceCommit'', ''note'']), (''testRun'', [''projectDir'', ''runner'']),
     (''gateVerdict'', [''projectDir'', ''name'', ''taskId'', ''verdict'', ''refinementPlan'',
     ''evidenceRef'', ''agent'']), (''bindSessionAgent'', [''agent'']), (''reviewStart'',
     [''projectDir'', ''agent'', ''contract'', ''target'', ''projection'', ''focus'',
     ''untrackedScope'', ''expectedUntrackedInventory'', ''intendedUntracked'', ''baseRef'',
     ''committedOnly'', ''workspaceOverlay'', ''lineage'', ''consent'', ''locale'', ''policy'',
     ''trace'', ''externalLenses'']), (''reviewCaptureResult'', [''projectDir'', ''agent'',
     ''input'', ''inputJson'', ''lens'', ''order'', ''target'', ''lineage'',
     ''expectedRevision'', ''repositoryContext'', ''subjectHash'', ''materialize'',
     ''preflight'', ''inputFromAdvisorResponse'']), (''reviewCaptureUnachievable'',
     [''projectDir'', ''target'', ''lineage'', ''expectedRevision'', ''repositoryContext'',
     ''requestHash'', ''reason'', ''detail'', ''withdraw'']), (''reviewAcknowledgeApproved'',
     [''projectDir'', ''lineage'', ''target'', ''expectedRevision'', ''token'']),
     (''reviewCaptureCorrectionPlan'', [''projectDir'', ''target'', ''lineage'',
     ''expectedRevision'', ''repositoryContext'', ''requestHash'', ''correctionLines'']),
     (''reviewCaptureRefuter'', [''projectDir'', ''agent'', ''target'', ''lineage'',
     ''expectedRevision'', ''repositoryContext'', ''materialize'', ''execute'']),
     (''reviewCaptureValidation'', [''projectDir'', ''agent'', ''target'', ''lineage'',
     ''expectedRevision'', ''repositoryContext'', ''requestHash'', ''materialize'',
     ''execute'']), (''reviewValidate'', [''projectDir'', ''contract'', ''gate'', ''baseRef'',
     ''lineage'', ''policy'', ''prePrCiAttestation'', ''releaseConfiguration'',
     ''releaseEvidenceFreshness'', ''releaseGenerated'', ''releaseProvenance'',
     ''releasePublicationBoundary'']), (''reviewRecover'', [''projectDir'', ''actor'',
     ''disposition'', ''expectedPredecessorRevision'', ''predecessorLineage'',
     ''successorLineage'', ''reason'', ''maintainerAuthorization'', ''baseRef'',
     ''committedOnly'', ''workspaceOverlay'', ''releaseScope'', ''projection'',
     ''untrackedScope'', ''expectedUntrackedInventory'', ''intendedUntracked'', ''focus'',
     ''policy'']), (''reviewMaterialize'', [''projectDir'', ''baseRef'', ''headRef'',
     ''contextLines'', ''paths'']), (''reviewDiffRead'', [''projectDir'', ''runId'',
     ''slice'']), (''reviewPipelineRun'', [''projectDir'', ''phase'', ''reviewer'', ''stdin'',
     ''inputRef'', ''inputRefs'', ''runId'', ''adjudication'', ''preparedRef'', ''mergeRef'',
     ''dispatch_records'', ''validator_lifecycle_results'', ''plan_assessment'',
     ''parent_run_metadata'', ''prepared'', ''merge'', ''screen_results'',
     ''selected_dispatches'']), (''reviewPersist'', [''projectDir'', ''runId'',
     ''finalizeRef'', ''mode'']), (''reviewPersistPreflight'', [''projectDir'', ''runId'',
     ''finalizeRef'', ''mode'']), (''gitCommit'', [''projectDir'', ''message'',
     ''sandboxSessionID'']), (''gitClearCommitIntent'', [''projectDir'',
     ''sandboxSessionID'']), (''gitPush'', [''projectDir'', ''remote'', ''setUpstream'',
     ''allowProtectedBranch'']), (''ghIssueCreate'', [''projectDir'', ''repo'', ''title'',
     ''body'']), (''sandboxResult'', [''projectDir'', ''sandboxSessionID'',
     ''compareSandboxSessionID'']), (''resultDiff'', [''ref'']), (''toolAdmission'',
     [''projectDir'', ''tool'']), (''sandboxResultInstall'', [''projectDir'',
     ''sandboxSessionID'', ''expectedResultCommit'']), (''hostSystemSummary'', []),
     (''hostMemory'', []), (''hostNetworkListeners'', []), (''hostTailscaleStatus'', []),
     (''hostDockerList'', []), (''hostDiskUsage'', [''path'']), (''hostProcessList'',
     [''filter'']), (''hostServiceStatus'', [''service'']), (''hostServiceLogs'', [''service'',
     ''lines'', ''since'']), (''hostDockerLogs'', [''container'', ''lines'']),
     (''copyOutInfo'', [''workerPath'', ''hostTarget'']), (''copyOut'', [''workerPath'',
     ''hostTarget'', ''confirm'']), (''copyInInfo'', [''hostSource'', ''workerPath'']),
     (''copyIn'', [''hostSource'', ''workerPath'', ''confirm'']), (''policy'', []),
     (''registerProject'', [''path'', ''dryRun'', ''createRemote'', ''makePublic'']),
     (''advisorAsk'', [''projectDir'', ''kind'', ''binding'', ''snapshot'', ''host'',
     ''selection'', ''group'', ''parentId'', ''question'', ''evidenceRefs'', ''review'']),
     (''advisorGet'', [''projectDir'', ''id'']), (''advisorList'', [''projectDir'', ''task'',
     ''step'', ''status'']), (''advisorRead'', [''id'']), (''advisorRespond'', [''id'',
     ''status'', ''verdict'', ''findings'', ''reviewerResult'']), (''evidenceKeep'',
     [''requestId'', ''paths''])]"

definition TOOL_NAME_RE :: "string \<Rightarrow> bool" where
  "TOOL_NAME_RE = matches (\<lambda>c. is_alnum c \<or> one_of ''_.-'' c) 1 128"

fun refuse_keys :: "string \<Rightarrow> string list \<Rightarrow> string list \<Rightarrow> unit result" where
  "refuse_keys op allowed [] = Inr ()"
| "refuse_keys op allowed (k # ks) =
     (if k \<in> set allowed then refuse_keys op allowed ks
      else Inl (ValidationError (if k \<in> set FORBIDDEN_WORKER_FIELDS
        then ''field '' @ k @ '' is broker-side policy and cannot be supplied by a request''
        else ''unexpected field '' @ k @ '' in '' @ op @ '' payload'')))"

fun assertPayloadKeys :: "string \<Rightarrow> js \<Rightarrow> unit result" where
  "assertPayloadKeys op (JObj obj) =
     (case map_of ALLOWED_PAYLOAD_KEYS op of
        None \<Rightarrow> Inl (ValidationError (''unknown operation: '' @ op))
      | Some allowed \<Rightarrow>
          if op = ''toolAdmission'' \<and> \<not> is_str TOOL_NAME_RE (js_get obj ''tool'')
          then Inl (ValidationError ''tool must be a 1..128 character tool name using letters, digits, underscore, hyphen, or dot'')
          else refuse_keys op allowed (map fst obj))"
| "assertPayloadKeys op v =
     (if op = ''toolAdmission'' then Inl (ValidationError ''payload must be a JSON object'')
      else if v = JUndefined \<or> v = JNull then Inr ()
      else Inl (ValidationError ''payload must be a JSON object''))"

section \<open>Containment with symbolic links resolved\<close>

fun canonical_all :: "(string \<Rightarrow> string option) \<Rightarrow> string \<Rightarrow> string list \<Rightarrow> string list result" where
  "canonical_all f msg [] = Inr []"
| "canonical_all f msg (r # rs) = (case f r of
     None \<Rightarrow> Inl (ValidationError (msg @ r))
   | Some c \<Rightarrow> bindR (canonical_all f msg rs) (\<lambda>cs. Inr (c # cs)))"

fun canonicalizeWithinRoots :: "(string \<Rightarrow> string option) \<Rightarrow> js \<Rightarrow> string list \<Rightarrow> nat \<Rightarrow> string result" where
  "canonicalizeWithinRoots realpath (JStr p) approvedRoots maxBytes =
     (if p = [] \<or> \<not> isAbsolute p then Inl (ValidationError ''host read path must be an absolute path'') else
      bindR (assertMaxBytes p maxBytes ''path'') (\<lambda>_.
      bindR (assertNoControlChars p ''path'') (\<lambda>_.
      bindR (canonical_all realpath ''approved read root does not exist: '' approvedRoots) (\<lambda>roots.
      bindR (guardR (roots \<noteq> []) (ValidationError ''no approved external read roots configured (S6)'')) (\<lambda>_.
      (case realpath p of None \<Rightarrow> Inl (ValidationError ''path does not resolve to a real file on the host'')
       | Some c \<Rightarrow>
           if \<exists>r \<in> set roots. c = r \<or> startsWith c (r @ ''/'') then Inr c
           else Inl (ValidationError (''path escapes approved read roots (S6): '' @ c))))))))"
| "canonicalizeWithinRoots realpath _ approvedRoots maxBytes =
     Inl (ValidationError ''host read path must be an absolute path'')"

text \<open>\<open>join(realpathSync(dirname(p)), basename(p))\<close>\<close>

definition canonical_file :: "(string \<Rightarrow> string option) \<Rightarrow> string \<Rightarrow> string option" where
  "canonical_file realpath p = map_option (\<lambda>d. join_path d (basename p)) (realpath (dirname p))"

fun assertExternalCopyTarget :: "(string \<Rightarrow> string option) \<Rightarrow> js \<Rightarrow> string list \<Rightarrow> string result" where
  "assertExternalCopyTarget realpath (JStr t) allowlist =
     (if t = [] \<or> \<not> isAbsolute t then Inl (ValidationError ''copy target must be an absolute path'') else
      bindR (assertMaxBytes t 4096 ''target'') (\<lambda>_.
      bindR (assertNoControlChars t ''target'') (\<lambda>_.
      (case canonical_file realpath t of
         None \<Rightarrow> Inl (ValidationError (''copy target parent does not resolve: '' @ t))
       | Some canonicalTarget \<Rightarrow>
           bindR (canonical_all (canonical_file realpath) ''copy allowlist entry does not resolve: '' allowlist)
             (\<lambda>cs. if canonicalTarget \<in> set cs then Inr canonicalTarget
                   else Inl (ValidationError ''copy target is not in the external copy allowlist (S15)''))))))"
| "assertExternalCopyTarget realpath _ allowlist = Inl (ValidationError ''copy target must be an absolute path'')"

record project =
  pr_id :: string
  pr_path :: string

text \<open>The loop of \<open>resolveProjectID\<close>: an unresolvable project root throws the runtime's own error.\<close>

fun find_project :: "(string \<Rightarrow> string option) \<Rightarrow> string \<Rightarrow> string \<Rightarrow> project list \<Rightarrow> string result" where
  "find_project realpath dir canonical [] =
     Inl (ValidationError (''directory is not an approved project root: '' @ dir))"
| "find_project realpath dir canonical (p # ps) = (case realpath (pr_path p) of
     None \<Rightarrow> Inl (NativeError ''ENOENT'')
   | Some r \<Rightarrow> if isWithin r canonical then Inr (pr_id p) else find_project realpath dir canonical ps)"

fun resolveProjectID :: "(string \<Rightarrow> string option) \<Rightarrow> js \<Rightarrow> project list \<Rightarrow> string result" where
  "resolveProjectID realpath (JStr d) projects =
     (if d = [] then Inl (ValidationError ''projectDir must be a non-empty absolute path'') else
      bindR (assertMaxBytes d 4096 ''projectDir'') (\<lambda>_.
      bindR (guardR (isAbsolute d) (ValidationError ''projectDir must be absolute'')) (\<lambda>_.
      (case realpath d of None \<Rightarrow> Inl (ValidationError ''projectDir does not resolve on the host'')
       | Some canonical \<Rightarrow> find_project realpath d canonical projects))))"
| "resolveProjectID realpath _ projects =
     Inl (ValidationError ''projectDir must be a non-empty absolute path'')"

fun resolveProjectRelativePath :: "(string \<Rightarrow> string option) \<Rightarrow> string \<Rightarrow> string \<Rightarrow> string \<Rightarrow> string result" where
  "resolveProjectRelativePath realpath projectRoot v what =
     (if v = ''-'' then Inr ''-'' else
      let resolved = resolve_path projectRoot v in
      bindR (guardR (isWithin projectRoot resolved)
        (ValidationError (what @ '' escapes the approved project root''))) (\<lambda>_.
      (case realpath projectRoot of
         None \<Rightarrow> Inl (ValidationError (what @ '' project root does not resolve on the host''))
       | Some realRoot \<Rightarrow>
           bindR (case realpath resolved of
                    Some c \<Rightarrow> Inr c
                  | None \<Rightarrow> (case realpath (dirname resolved) of
                      None \<Rightarrow> Inl (ValidationError (what @ '' parent directory does not resolve on the host''))
                    | Some realParent \<Rightarrow> Inr (join_path realParent (basename resolved))))
             (\<lambda>canonical. bindR (guardR (isWithin realRoot canonical)
                (ValidationError (what @ '' escapes the approved project root''))) (\<lambda>_. Inr canonical)))))"

section \<open>Envelopes\<close>

definition OPERATIONS :: "string list" where
  "OPERATIONS =
     [''ensureWorker'', ''workerStatus'', ''exec'', ''readFile'', ''writeFile'',
     ''applyPatch'', ''listDir'', ''grep'', ''diff'', ''prepareResult'', ''applyResult'',
     ''discardResult'', ''keepResult'', ''destroyWorker'', ''listWorkers'', ''metrics'',
     ''sddStatus'', ''sddContinue'', ''sddArchiveCompose'', ''sddTaskResult'',
     ''reviewAssess'', ''reviewModeStatus'', ''reviewStatus'', ''reviewLensContext'',
     ''sddAttemptGrant'', ''planDocAppend'', ''planDocWrite'', ''taskMark'', ''testRun'',
     ''gateVerdict'', ''sandboxResult'', ''sandboxResultInstall'', ''bindSessionAgent'',
     ''reviewStart'', ''reviewCaptureResult'', ''reviewCaptureUnachievable'',
     ''reviewAcknowledgeApproved'', ''reviewCaptureCorrectionPlan'', ''reviewCaptureRefuter'',
     ''reviewCaptureValidation'', ''reviewValidate'', ''reviewRecover'', ''reviewMaterialize'',
     ''reviewDiffRead'', ''reviewPipelineRun'', ''reviewPersist'', ''reviewPersistPreflight'',
     ''gitCommit'', ''gitClearCommitIntent'', ''gitPush'', ''ghIssueCreate'',
     ''hostSystemSummary'', ''hostMemory'', ''hostDiskUsage'', ''hostNetworkListeners'',
     ''hostProcessList'', ''hostServiceStatus'', ''hostServiceLogs'', ''hostTailscaleStatus'',
     ''hostDockerList'', ''hostDockerLogs'', ''copyOutInfo'', ''copyOut'', ''copyInInfo'',
     ''copyIn'', ''policy'', ''toolAdmission'', ''registerProject'', ''resultDiff'',
     ''advisorAsk'', ''advisorGet'', ''advisorList'', ''advisorRead'', ''advisorRespond'',
     ''evidenceKeep'']"

record envelope =
  env_id :: string
  env_operation :: string
  env_sessionID :: string
  env_agent :: js
  env_payload :: js

fun js_str :: "js \<Rightarrow> string" where
  "js_str (JStr s) = s"
| "js_str _ = []"

fun validateEnvelope :: "js \<Rightarrow> envelope result" where
  "validateEnvelope (JObj req) =
     bindR (guardR (js_get req ''version'' = JInt 1) (ValidationError ''unsupported protocol version'')) (\<lambda>_.
     bindR (assertRequestID (js_get req ''id'')) (\<lambda>_.
     bindR (guardR (is_str (\<lambda>op. op \<in> set OPERATIONS) (js_get req ''operation''))
       (ValidationError ''unknown operation'')) (\<lambda>_.
     bindR (assertSessionID (js_get req ''sessionID'')) (\<lambda>_.
     bindR (assertAgentName (js_get req ''agent'')) (\<lambda>_.
     bindR (assertPayloadKeys (js_str (js_get req ''operation'')) (js_get req ''payload'')) (\<lambda>_.
       Inr \<lparr>env_id = js_str (js_get req ''id''), env_operation = js_str (js_get req ''operation''),
            env_sessionID = js_str (js_get req ''sessionID''), env_agent = js_get req ''agent'',
            env_payload = js_get req ''payload''\<rparr>))))))"
| "validateEnvelope (JArr _) = Inl (ValidationError ''unsupported protocol version'')"
| "validateEnvelope _ = Inl (ValidationError ''request must be a JSON object'')"

section \<open>Lemmas\<close>

lemma is_strE: "is_str P v \<Longrightarrow> (\<And>s. v = JStr s \<Longrightarrow> P s \<Longrightarrow> thesis) \<Longrightarrow> thesis"
  by (cases v) auto

lemma is_str_iff: "is_str P v \<longleftrightarrow> (\<exists>s. v = JStr s \<and> P s)"
  by (cases v) auto

lemma assertMaxBytes_ok [simp]: "assertMaxBytes s mx what = Inr u \<longleftrightarrow> length s \<le> mx"
  by (simp add: assertMaxBytes_def)

lemma assertNoControlChars_ok [simp]:
  "assertNoControlChars s what = Inr u \<longleftrightarrow> list_all (\<lambda>c. \<not> is_control c) s"
  by (simp add: assertNoControlChars_def)

lemma assertNoShellMetachars_ok [simp]:
  "assertNoShellMetachars s what = Inr u \<longleftrightarrow> list_all (\<lambda>c. \<not> is_shell_meta c) s"
  by (simp add: assertNoShellMetachars_def)

lemmas validator_simps = bindR_eq_Inr guardR_eq_Inr assertMaxBytes_ok assertNoControlChars_ok
  assertNoShellMetachars_ok

lemma assertSandboxPath_ok:
  "assertSandboxPath v n = Inr u \<longleftrightarrow> (\<exists>p. v = JStr p \<and> p \<noteq> [] \<and> length p \<le> n \<and>
     list_all (\<lambda>c. \<not> is_control c) p \<and> \<not> startsWith p ''/'' \<and> \<not> startsWith p ''~'' \<and>
     \<not> drive_prefix p \<and> CHR 0x5C \<notin> set p \<and> \<not> escapes_root p)"
  by (cases v) (auto simp: validator_simps)

lemma assertProjectRelativePath_ok:
  "assertProjectRelativePath v what n = Inr u \<longleftrightarrow> (\<exists>p. v = JStr p \<and> p \<noteq> [] \<and> length p \<le> n \<and>
     list_all (\<lambda>c. \<not> is_control c) p \<and> (p = ''-'' \<or> \<not> startsWith p ''/'' \<and> \<not> startsWith p ''~'' \<and>
     \<not> drive_prefix p \<and> CHR 0x5C \<notin> set p \<and> \<not> escapes_root p \<and> \<not> isAbsolute (normalize_path p)))"
  by (cases v) (auto simp: validator_simps)

lemma assertGitPathEntries_ok:
  "assertGitPathEntries vs = Inr u \<longleftrightarrow> (\<forall>v \<in> set vs. \<exists>p. v = JStr p \<and> p \<noteq> [] \<and> length p \<le> 4096 \<and>
     list_all (\<lambda>c. \<not> is_control c) p \<and> \<not> startsWith p ''-'' \<and> \<not> startsWith p ''/'' \<and>
     \<not> startsWith p ''~'' \<and> \<not> drive_prefix p \<and> \<not> git_path_unsafe p)"
  by (induction vs rule: assertGitPathEntries.induct) (auto simp: validator_simps)

declare assertSandboxPath.simps [simp del] assertProjectRelativePath.simps [simp del]
  assertGitPathEntries.simps [simp del]

lemma splitOn_sublist: "w \<in> set (splitOn d s) \<Longrightarrow> sublist w s"
proof (induction s arbitrary: w)
  case (Cons c s)
  obtain v vs where v: "splitOn d s = v # vs" by (cases "splitOn d s") auto
  then have "prefix v s"
    by (induction s arbitrary: v vs) (auto split: if_splits list.splits)
  with Cons v show ?case
    by (auto simp: sublist_Cons_right split: if_splits)
qed simp

lemma no_dots_not_escapes:
  assumes "\<not> isAbsolute p" "\<not> strIncludes p ''..''"
  shows "''..'' \<notin> set (path_segments p)"
proof -
  have "''..'' \<notin> set (splitOn (CHR ''/'') p)"
    using assms(2) splitOn_sublist [of "''..''"] by (auto simp: strIncludes_iff_sublist)
  moreover have "''..'' \<notin> set (norm_stack up stk segs)"
    if "''..'' \<notin> set stk" "''..'' \<notin> set segs" for up stk segs
    using that by (induction up stk segs rule: norm_stack.induct) auto
  ultimately show ?thesis by (simp add: path_segments_def)
qed

section \<open>Validators of relative paths\<close>

text \<open>
  The interface three validators share: what they accept is a relative path whose
  segments never climb out.  Its consequence for every directory the path is
  resolved against is proved here once.
\<close>

locale relative_path_validator =
  fixes accepts :: "string \<Rightarrow> bool"
  assumes accepts_relative: "accepts p \<Longrightarrow> \<not> isAbsolute p"
    and accepts_no_climb: "accepts p \<Longrightarrow> ''..'' \<notin> set (path_segments p)"
begin

lemma contained: "accepts p \<Longrightarrow> canonical_dir r \<Longrightarrow> isWithin r (resolve_path r p)"
  by (rule isWithin_resolve) (auto dest: accepts_relative accepts_no_climb)

lemma resolved_segments:
  "accepts p \<Longrightarrow> canonical_dir r \<Longrightarrow> path_segments (r @ ''/'' @ p) = path_segments r @ path_segments p"
  by (rule path_segments_under) (auto dest: accepts_relative accepts_no_climb)

end

interpretation sandbox_path: relative_path_validator "\<lambda>p. assertSandboxPath (JStr p) n = Inr ()"
  by unfold_locales (auto simp: assertSandboxPath_ok isAbsolute_def
      not_escapes_segments [unfolded isAbsolute_def])

interpretation project_path: relative_path_validator
  "\<lambda>p. p \<noteq> ''-'' \<and> assertProjectRelativePath (JStr p) what n = Inr ()"
  by unfold_locales (auto simp: assertProjectRelativePath_ok isAbsolute_def
      not_escapes_segments [unfolded isAbsolute_def])

interpretation git_path: relative_path_validator "\<lambda>p. assertGitPathEntries [JStr p] = Inr ()"
  by unfold_locales (auto simp: assertGitPathEntries_ok isAbsolute_def git_path_unsafe_def
      no_dots_not_escapes [unfolded isAbsolute_def])

lemma canonical_all_ok:
  "canonical_all f msg rs = Inr cs \<longleftrightarrow> map f rs = map Some cs"
  by (induction rs arbitrary: cs) (auto simp: bindR_eq_Inr split: option.splits)

lemma find_project_ok:
  "find_project realpath d c ps = Inr pid \<Longrightarrow>
     \<exists>p \<in> set ps. pr_id p = pid \<and> (\<exists>r. realpath (pr_path p) = Some r \<and> isWithin r c)"
  by (induction ps) (auto split: option.splits if_splits)

lemma refuse_under_ok: "refuse_under v rs = Inr u \<longleftrightarrow> (\<forall>r \<in> set rs. \<not> isWithin r v)"
  by (induction rs) auto

lemma refuse_keys_ok: "refuse_keys op allowed ks = Inr u \<longleftrightarrow> set ks \<subseteq> set allowed"
  by (induction ks) auto

lemma no_forbidden_keys_code:
  "list_all (\<lambda>(op, ks). list_all (\<lambda>k. \<not> List.member FORBIDDEN_WORKER_FIELDS k) ks) ALLOWED_PAYLOAD_KEYS"
  by code_simp

lemma no_forbidden_keys: "\<forall>(op, ks) \<in> set ALLOWED_PAYLOAD_KEYS. \<forall>k \<in> set ks. k \<notin> set FORBIDDEN_WORKER_FIELDS"
  using no_forbidden_keys_code by (auto simp: list_all_iff)

lemma assertArgvItems_ok:
  "assertArgvItems limits n vs = Inr u \<Longrightarrow>
     \<exists>ss. vs = map JStr ss \<and> (ss \<noteq> [] \<longrightarrow> n + sum_list (map length ss) \<le> totalMaxBytes limits) \<and>
      (\<forall>s \<in> set ss. length s \<le> itemMaxBytes limits \<and> (\<forall>c \<in> set s. \<not> is_control c \<and> \<not> is_shell_meta c))"
proof (induction limits n vs rule: assertArgvItems.induct)
  case (2 limits n s rest)
  then have s: "length s \<le> itemMaxBytes limits" "list_all (\<lambda>c. \<not> is_control c) s"
    "list_all (\<lambda>c. \<not> is_shell_meta c) s" "n + length s \<le> totalMaxBytes limits"
    "assertArgvItems limits (n + length s) rest = Inr u"
    by (auto simp: validator_simps split: if_splits)
  with "2.IH" obtain ss where "rest = map JStr ss"
     "ss \<noteq> [] \<longrightarrow> n + length s + sum_list (map length ss) \<le> totalMaxBytes limits"
     "\<forall>s \<in> set ss. length s \<le> itemMaxBytes limits \<and> (\<forall>c \<in> set s. \<not> is_control c \<and> \<not> is_shell_meta c)"
    by (auto simp: validator_simps)
  with s show ?case
    by (intro exI [of _ "s # ss"]) (auto simp: list_all_iff)
qed auto

section \<open>Properties\<close>

text \<open>
  A path accepted for the sandbox stays below the directory it is resolved
  against: for every canonical directory, resolving the accepted path gives that
  directory or something inside it.
\<close>

theorem sandbox_path_contained:
  assumes "assertSandboxPath v maxBytes = Inr ()" "canonical_dir r"
  shows "\<exists>p. v = JStr p \<and> isWithin r (resolve_path r p)"
  using assms sandbox_path.contained by (auto simp: assertSandboxPath_ok)

lemma canonical_work: "canonical_dir ''/work''"
  by (simp add: canonical_dir_def isAbsolute_def startsWith_def path_segments_def)

theorem sandbox_path_contained_witness:
  "\<exists>p. JStr ''src/../lib/a.ts'' = JStr p \<and> isWithin ''/work'' (resolve_path ''/work'' p)"
  by (rule sandbox_path_contained [where maxBytes = 4096])
     (simp_all add: canonical_work assertSandboxPath_ok is_control_def startsWith_def drive_prefix_def
       escapes_root_def normalize_path_def path_segments_def isAbsolute_def endsWith_def)

text \<open>
  Host reads cannot leave the approved roots through symbolic links: the path
  handed to the tool is the resolved path of the request, and it equals or lies
  below the resolved form of an approved root.
\<close>

theorem host_read_path_within_roots:
  assumes "canonicalizeWithinRoots realpath v roots maxBytes = Inr c"
  shows "\<exists>p r root'. v = JStr p \<and> isAbsolute p \<and> realpath p = Some c \<and> r \<in> set roots \<and>
     realpath r = Some root' \<and> (c = root' \<or> startsWith c (root' @ ''/''))"
proof (cases v)
  case (JStr p)
  with assms obtain cs where cs: "map realpath roots = map Some cs"
      "realpath p = Some c" "isAbsolute p" "\<exists>r \<in> set cs. c = r \<or> startsWith c (r @ ''/'')"
    by (auto simp: validator_simps canonical_all_ok split: if_splits option.splits)
  then obtain r' where r': "r' \<in> set cs" "c = r' \<or> startsWith c (r' @ ''/'')" by blast
  from cs(1) r'(1) obtain r where "r \<in> set roots" "realpath r = Some r'"
    by (metis (no_types, lifting) imageE image_eqI list.set_map)
  with JStr cs r' show ?thesis by blast
qed (use assms in auto)

text \<open>A small host for the witnesses: one symbolic link, everything else resolves to itself.\<close>

definition demo_realpath :: "string \<Rightarrow> string option" where
  "demo_realpath p = Some (if p = ''/home/u/link'' then ''/srv/data/x'' else p)"

theorem host_read_path_within_roots_witness:
  "\<exists>p r root'. JStr ''/home/u/link'' = JStr p \<and> isAbsolute p \<and> demo_realpath p = Some ''/srv/data/x'' \<and>
     r \<in> set [''/srv/data''] \<and> demo_realpath r = Some root' \<and>
     (''/srv/data/x'' = root' \<or> startsWith ''/srv/data/x'' (root' @ ''/''))"
  by (rule host_read_path_within_roots [where maxBytes = 4096])
     (simp add: demo_realpath_def isAbsolute_def startsWith_def assertMaxBytes_def
       assertNoControlChars_def is_control_def)

text \<open>
  A project directory is accepted only for a registered project: the resolved
  directory lies in the resolved root of a project with the returned id.
\<close>

theorem project_directory_registered:
  assumes "resolveProjectID realpath v projects = Inr pid"
  shows "\<exists>d c p r. v = JStr d \<and> realpath d = Some c \<and> p \<in> set projects \<and> pr_id p = pid \<and>
     realpath (pr_path p) = Some r \<and> isWithin r c"
proof (cases v)
  case (JStr d)
  with assms obtain c where c: "realpath d = Some c" "find_project realpath d c projects = Inr pid"
    by (auto simp: validator_simps split: if_splits option.splits)
  from find_project_ok [OF c(2)] JStr c(1) show ?thesis by blast
qed (use assms in auto)

theorem project_directory_registered_witness:
  "\<exists>d c p r. JStr ''/home/u/link'' = JStr d \<and> demo_realpath d = Some c \<and>
     p \<in> set [\<lparr>pr_id = ''demo'', pr_path = ''/srv/data''\<rparr>] \<and> pr_id p = ''demo'' \<and>
     demo_realpath (pr_path p) = Some r \<and> isWithin r c"
  by (rule project_directory_registered)
     (simp add: demo_realpath_def isAbsolute_def startsWith_def assertMaxBytes_def isWithin_def endsWith_def)

text \<open>
  No accepted payload of any operation carries a field that is broker-side
  policy (image, mounts, devices, network, secrets and so on).
\<close>

theorem payload_never_carries_policy:
  assumes "assertPayloadKeys op (JObj obj) = Inr ()" "k \<in> set (map fst obj)"
  shows "k \<notin> set FORBIDDEN_WORKER_FIELDS"
proof -
  from assms(1) obtain allowed where "map_of ALLOWED_PAYLOAD_KEYS op = Some allowed"
      "set (map fst obj) \<subseteq> set allowed"
    by (auto simp: refuse_keys_ok split: option.splits if_splits)
  then show ?thesis using no_forbidden_keys assms(2) by (blast dest: map_of_SomeD)
qed

theorem payload_never_carries_policy_witness:
  "''argv'' \<notin> set FORBIDDEN_WORKER_FIELDS"
  by (rule payload_never_carries_policy [where op = "''exec''" and obj = "[(''argv'', JArr [JStr ''ls''])]"])
     (simp_all add: ALLOWED_PAYLOAD_KEYS_def)

text \<open>
  An argument vector accepted for a worker holds strings only, each without
  control characters and shell metacharacters and within the item limit, at least
  one and at most \<open>maxItems\<close> of them, and their total size is within the limit.
\<close>

theorem argv_accepted:
  assumes "assertArgv v limits = Inr ()"
  shows "\<exists>ss. v = JArr (map JStr ss) \<and> ss \<noteq> [] \<and> length ss \<le> maxItems limits \<and>
     sum_list (map length ss) \<le> totalMaxBytes limits \<and>
     (\<forall>s \<in> set ss. length s \<le> itemMaxBytes limits \<and> (\<forall>c \<in> set s. \<not> is_control c \<and> \<not> is_shell_meta c))"
proof (cases v)
  case (JArr xs)
  with assms have xs: "xs \<noteq> []" "length xs \<le> maxItems limits" "assertArgvItems limits 0 xs = Inr ()"
    by (auto split: if_splits)
  from assertArgvItems_ok [OF xs(3)] obtain ss where ss: "xs = map JStr ss"
      "ss \<noteq> [] \<longrightarrow> 0 + sum_list (map length ss) \<le> totalMaxBytes limits"
      "\<forall>s \<in> set ss. length s \<le> itemMaxBytes limits \<and> (\<forall>c \<in> set s. \<not> is_control c \<and> \<not> is_shell_meta c)"
    by blast
  with JArr xs show ?thesis by (intro exI [of _ ss]) auto
qed (use assms in auto)

definition demo_limits :: argv_limits where
  "demo_limits = \<lparr>itemMaxBytes = 10, maxItems = 4, totalMaxBytes = 20\<rparr>"

theorem argv_accepted_witness:
  "\<exists>ss. JArr [JStr ''ls'', JStr ''-la''] = JArr (map JStr ss) \<and> ss \<noteq> [] \<and> length ss \<le> maxItems demo_limits \<and>
     sum_list (map length ss) \<le> totalMaxBytes demo_limits \<and>
     (\<forall>s \<in> set ss. length s \<le> itemMaxBytes demo_limits \<and> (\<forall>c \<in> set s. \<not> is_control c \<and> \<not> is_shell_meta c))"
  by (rule argv_accepted)
     (simp add: demo_limits_def assertMaxBytes_def assertNoControlChars_def assertNoShellMetachars_def
       is_control_def is_shell_meta_def one_of_def)

text \<open>
  A registered project path is canonical and absolute, is not the file system
  root or the home directory, lies under no banned system or credential root, and
  contains no character that is active inside a double-quoted shell string.
\<close>

theorem registered_path_safe:
  assumes "assertRegisterableProjectPath realpath isDir v home = Inr c"
  shows "isAbsolute c \<and> resolve_path [] c = c \<and> c \<noteq> ''/'' \<and> (home \<noteq> [] \<longrightarrow> c \<noteq> home) \<and>
     (\<forall>r \<in> set (banned_roots home). \<not> isWithin r c) \<and>
     (\<forall>ch \<in> set c. \<not> is_shell_unsafe ch) \<and> isDir c = Some True"
proof (cases v)
  case (JStr p)
  with assms have "isAbsolute c" "resolve_path [] c = c" "assertRegistrationRootAllowed c home = Inr ()"
      "list_all (\<lambda>ch. \<not> is_shell_unsafe ch) c" "isDir c = Some True"
    by (auto simp: validator_simps split: if_splits option.splits bool.splits)
  then show ?thesis
    by (auto simp: assertRegistrationRootAllowed_def refuse_under_ok list_all_iff split: if_splits)
qed (use assms in auto)

theorem registered_path_safe_witness:
  "isAbsolute ''/srv/data/x'' \<and> resolve_path [] ''/srv/data/x'' = ''/srv/data/x'' \<and>
   list_all (\<lambda>r. \<not> isWithin r ''/srv/data/x'') (banned_roots ''/home/u'') \<and>
   list_all (\<lambda>ch. \<not> is_shell_unsafe ch) ''/srv/data/x''"
proof -
  have "assertRegisterableProjectPath demo_realpath (\<lambda>_. Some True) (JStr ''/home/u/link'') ''/home/u'' = Inr ''/srv/data/x''"
    by (simp add: demo_realpath_def isAbsolute_def startsWith_def assertMaxBytes_def assertNoControlChars_def
       is_control_def assertRegistrationRootAllowed_def banned_roots_def isWithin_def endsWith_def
       REGISTER_PROJECT_BANNED_SYSTEM_ROOTS_def REGISTER_PROJECT_BANNED_HOME_DIRS_def join_path_def
       normalize_path_def path_segments_def resolve_path_def is_shell_unsafe_def one_of_def)
  from registered_path_safe [OF this] show ?thesis unfolding list_all_iff by blast
qed

text \<open>
  The documentation of \<open>assertReviewIntendedUntracked\<close> asks for 1 to 256
  paths; the code also accepts the empty list.
\<close>

theorem intended_untracked_accepts_empty:
  "assertReviewIntendedUntracked (JArr []) = Inr ()"
  by (simp add: MAX_INTENDED_UNTRACKED_def)

end
