(* ===== verification/Artifacts.thy ===== *)
theory Artifacts
  imports SessionState Validation
begin

text \<open>
  The transport artifacts of a session (\<^verbatim>\<open>broker/src/artifacts.ts\<close> and the path
  functions of \<^verbatim>\<open>broker/src/gitops.ts\<close>): where they lie under the state
  directory, when they may be removed, their removal, and the scan for files whose
  session record is gone.  The state directory is a map from paths to entries; the
  answer of \<open>git rev-parse\<close> for the result ref is an argument.
\<close>

section \<open>Paths\<close>

definition BASELINE_REF_PREFIX :: string where
  "BASELINE_REF_PREFIX = ''refs/opencode-sandbox/baseline''"

definition RESULT_REF_PREFIX :: string where
  "RESULT_REF_PREFIX = ''refs/opencode-sandbox/result''"

definition baselineRef :: "string \<Rightarrow> string result" where
  "baselineRef sid = bindR (assertRefComponent sid) (\<lambda>_. Inr (BASELINE_REF_PREFIX @ ''/'' @ sid))"

definition resultRef :: "string \<Rightarrow> string result" where
  "resultRef sid = bindR (assertRefComponent sid) (\<lambda>_. Inr (RESULT_REF_PREFIX @ ''/'' @ sid))"

text \<open>\<open>join(dir, sub, name)\<close>\<close>

definition join3 :: "string \<Rightarrow> string \<Rightarrow> string \<Rightarrow> string" where
  "join3 dir sub name = normalize_path (dir @ ''/'' @ sub @ ''/'' @ name)"

definition bundlePathFor :: "string \<Rightarrow> string \<Rightarrow> string" where
  "bundlePathFor stateDir sid = join3 stateDir ''bundles'' (sid @ ''.bundle'')"

definition patchPathFor :: "string \<Rightarrow> string \<Rightarrow> string" where
  "patchPathFor stateDir sid = join3 stateDir ''patches'' (sid @ ''.patch'')"

definition applyPreviewPathFor :: "string \<Rightarrow> string \<Rightarrow> string" where
  "applyPreviewPathFor stateDir sid = join3 stateDir ''apply-preview'' (sid @ ''.diff'')"

definition applyPreviewAnsiPathFor :: "string \<Rightarrow> string \<Rightarrow> string" where
  "applyPreviewAnsiPathFor stateDir sid = join3 stateDir ''apply-preview'' (sid @ ''.ansi.diff'')"

definition tmpIndexPathFor :: "string \<Rightarrow> string \<Rightarrow> string" where
  "tmpIndexPathFor stateDir sid = join3 stateDir ''tmp'' (sid @ ''.index'')"

definition divergenceIndexPathFor :: "string \<Rightarrow> string \<Rightarrow> string" where
  "divergenceIndexPathFor stateDir sid = join3 stateDir ''tmp'' (''divergence-'' @ sid @ ''.index'')"

datatype artifact_kind = Bundle | Tmp_index | Divergence_index | Patch | Apply_preview | Apply_preview_ansi

record artifact_path =
  ap_kind :: artifact_kind
  ap_path :: string

definition sessionArtifactPaths :: "string \<Rightarrow> string \<Rightarrow> artifact_path list" where
  "sessionArtifactPaths stateDir sid =
     [\<lparr>ap_kind = Bundle, ap_path = bundlePathFor stateDir sid\<rparr>,
      \<lparr>ap_kind = Tmp_index, ap_path = tmpIndexPathFor stateDir sid\<rparr>,
      \<lparr>ap_kind = Divergence_index, ap_path = divergenceIndexPathFor stateDir sid\<rparr>,
      \<lparr>ap_kind = Patch, ap_path = patchPathFor stateDir sid\<rparr>,
      \<lparr>ap_kind = Apply_preview, ap_path = applyPreviewPathFor stateDir sid\<rparr>,
      \<lparr>ap_kind = Apply_preview_ansi, ap_path = applyPreviewAnsiPathFor stateDir sid\<rparr>]"

section \<open>Removal\<close>

datatype fs_entry =
    RegularFile nat int   \<comment> \<open>size in bytes and modification time\<close>
  | OtherEntry            \<comment> \<open>a directory, socket or device\<close>
  | Unremovable nat int   \<comment> \<open>a regular file whose removal throws\<close>

type_synonym files = "string \<rightharpoonup> fs_entry"

record artifact_removal =
  rm_kind :: artifact_kind
  rm_path :: string
  rm_bytes :: nat
  rm_removed :: bool
  rm_error :: bool

definition no_removal :: "artifact_path \<Rightarrow> bool \<Rightarrow> artifact_removal" where
  "no_removal a err = \<lparr>rm_kind = ap_kind a, rm_path = ap_path a, rm_bytes = 0, rm_removed = False, rm_error = err\<rparr>"

definition removeArtifact :: "files \<Rightarrow> artifact_path \<Rightarrow> files \<times> artifact_removal" where
  "removeArtifact fs a = (case fs (ap_path a) of
     None \<Rightarrow> (fs, no_removal a False)
   | Some OtherEntry \<Rightarrow> (fs, no_removal a True)
   | Some (Unremovable _ _) \<Rightarrow> (fs, no_removal a True)
   | Some (RegularFile n _) \<Rightarrow>
       (fs(ap_path a := None),
        \<lparr>rm_kind = ap_kind a, rm_path = ap_path a, rm_bytes = n, rm_removed = True, rm_error = False\<rparr>))"

fun removeArtifacts :: "files \<Rightarrow> artifact_path list \<Rightarrow> files \<times> artifact_removal list" where
  "removeArtifacts fs [] = (fs, [])"
| "removeArtifacts fs (a # as) =
     (let (fs', r) = removeArtifact fs a; (fs'', rs) = removeArtifacts fs' as in (fs'', r # rs))"

definition removeSessionArtifacts :: "files \<Rightarrow> string \<Rightarrow> string \<Rightarrow> files \<times> artifact_removal list" where
  "removeSessionArtifacts fs stateDir sid = removeArtifacts fs (sessionArtifactPaths stateDir sid)"

section \<open>The durability gate\<close>

definition removalNeedsDurableRef :: "session_record \<Rightarrow> bool \<Rightarrow> bool" where
  "removalNeedsDurableRef r bundleExists =
     (if sr_state r = REJECTED then False
      else if sr_state r = FAILED_CLOSED then sr_resultRef r \<noteq> None \<or> bundleExists
      else True)"

definition shouldRemoveSessionArtifacts :: "session_record \<Rightarrow> bool \<Rightarrow> bool \<Rightarrow> bool" where
  "shouldRemoveSessionArtifacts r durable bundleExists =
     (if sr_state r = REJECTED then True
      else if sr_state r = FAILED_CLOSED then (sr_resultRef r = None \<and> \<not> bundleExists) \<or> durable
      else durable)"

text \<open>
  \<open>durableHostRefResolves\<close>: \<open>revParse path ref\<close> is the answer of
  \<open>git rev-parse --verify --quiet ref\<close> in the project directory, \<open>None\<close> when
  the spawn throws, otherwise whether the status was zero.  A session id that is
  not safe in a ref throws inside the \<open>try\<close>.
\<close>

definition durableHostRefResolves ::
  "(string \<Rightarrow> string \<Rightarrow> bool option) \<Rightarrow> project list \<Rightarrow> session_record \<Rightarrow> bool"
where
  "durableHostRefResolves revParse projects r = (case sr_projectID r of
     None \<Rightarrow> False
   | Some pid \<Rightarrow> pid \<noteq> [] \<and> (case find (\<lambda>p. pr_id p = pid) projects of
       None \<Rightarrow> False
     | Some p \<Rightarrow> (case resultRef (sr_sessionID r) of
         Inl _ \<Rightarrow> False
       | Inr ref \<Rightarrow> revParse (pr_path p) ref = Some True)))"

text \<open>
  The decision the sweep, the reaper and the operations share: probe only when the
  outcome depends on it, then apply the predicate.
\<close>

definition removal_allowed ::
  "(string \<Rightarrow> string \<Rightarrow> bool option) \<Rightarrow> project list \<Rightarrow> files \<Rightarrow> string \<Rightarrow> session_record \<Rightarrow> bool"
where
  "removal_allowed revParse projects fs stateDir r =
     (let bundleExists = (fs (bundlePathFor stateDir (sr_sessionID r)) \<noteq> None);
          durable = (removalNeedsDurableRef r bundleExists \<and> durableHostRefResolves revParse projects r)
      in shouldRemoveSessionArtifacts r durable bundleExists)"

section \<open>Orphans\<close>

record orphan_candidate =
  oc_kind :: artifact_kind
  oc_path :: string
  oc_sessionKey :: string

definition strip_suffix :: "string \<Rightarrow> string \<Rightarrow> string" where
  "strip_suffix name suf = take (length name - length suf) name"

definition candidates_of :: "string \<Rightarrow> string \<Rightarrow> string \<Rightarrow> artifact_kind \<Rightarrow> string list \<Rightarrow> orphan_candidate list" where
  "candidates_of stateDir sub suf k names =
     map (\<lambda>name. \<lparr>oc_kind = k, oc_path = join3 stateDir sub name, oc_sessionKey = strip_suffix name suf\<rparr>)
       (filter (\<lambda>name. endsWith name suf) names)"

fun preview_candidates :: "string \<Rightarrow> string list \<Rightarrow> orphan_candidate list" where
  "preview_candidates stateDir [] = []"
| "preview_candidates stateDir (name # names) =
     (if endsWith name ''.ansi.diff''
      then [\<lparr>oc_kind = Apply_preview_ansi, oc_path = join3 stateDir ''apply-preview'' name,
             oc_sessionKey = strip_suffix name ''.ansi.diff''\<rparr>]
      else if endsWith name ''.diff''
      then [\<lparr>oc_kind = Apply_preview, oc_path = join3 stateDir ''apply-preview'' name,
             oc_sessionKey = strip_suffix name ''.diff''\<rparr>]
      else []) @ preview_candidates stateDir names"

definition divergence_candidates :: "string \<Rightarrow> string list \<Rightarrow> orphan_candidate list" where
  "divergence_candidates stateDir names =
     map (\<lambda>name. \<lparr>oc_kind = Divergence_index, oc_path = join3 stateDir ''tmp'' name,
                   oc_sessionKey = drop 11 (strip_suffix name ''.index'')\<rparr>)
       (filter (\<lambda>name. startsWith name ''divergence-'' \<and> endsWith name ''.index'') names)"

text \<open>\<open>dirs sub\<close> lists the names in a sub-directory, empty when it cannot be read.\<close>

definition listOrphanArtifactCandidates :: "string \<Rightarrow> (string \<Rightarrow> string list) \<Rightarrow> orphan_candidate list" where
  "listOrphanArtifactCandidates stateDir dirs =
     candidates_of stateDir ''bundles'' ''.bundle'' Bundle (dirs ''bundles'') @
     candidates_of stateDir ''patches'' ''.patch'' Patch (dirs ''patches'') @
     preview_candidates stateDir (dirs ''apply-preview'') @
     divergence_candidates stateDir (dirs ''tmp'')"

section \<open>Lemmas\<close>

lemma removeArtifact_frame: "p \<noteq> ap_path a \<Longrightarrow> fst (removeArtifact fs a) p = fs p"
  by (simp add: removeArtifact_def split: option.split fs_entry.split)

lemma removeArtifact_removed:
  "rm_removed (snd (removeArtifact fs a)) \<longleftrightarrow> (\<exists>n t. fs (ap_path a) = Some (RegularFile n t))"
  by (simp add: removeArtifact_def no_removal_def split: option.split fs_entry.split)

lemma removeArtifacts_frame: "p \<notin> ap_path ` set as \<Longrightarrow> fst (removeArtifacts fs as) p = fs p"
  by (induction as arbitrary: fs) (auto simp: removeArtifact_frame Let_def split: prod.splits,
      metis fst_conv removeArtifact_frame)

lemma removeArtifacts_le: "fst (removeArtifacts fs as) p = None \<or> fst (removeArtifacts fs as) p = fs p"
proof (induction as arbitrary: fs)
  case (Cons a as)
  obtain fs' r where r: "removeArtifact fs a = (fs', r)" by fastforce
  then have "fs' p = None \<or> fs' p = fs p"
    using removeArtifact_frame [of p a fs] by (cases "p = ap_path a")
      (auto simp: removeArtifact_def split: option.splits fs_entry.splits)
  with r Cons [of fs'] show ?case by (auto simp: Let_def split: prod.splits)
qed simp

text \<open>Paths below a canonical state directory are plain concatenations.\<close>

lemma join3_canonical:
  assumes d: "canonical_dir d" and sub: "good_seg sub" "sub \<noteq> ''..''" and name: "good_seg name" "name \<noteq> ''..''"
  shows "join3 d sub name = d @ ''/'' @ sub @ ''/'' @ name"
proof -
  have rel: "\<not> isAbsolute (sub @ ''/'' @ name)"
    using sub by (cases sub) (auto simp: isAbsolute_def startsWith_def good_seg_def)
  have segs: "path_segments (sub @ ''/'' @ name) = [sub, name]"
  proof -
    have "splitOn (CHR ''/'') (sub @ CHR ''/'' # name) = [sub, name]"
      using sub name by (simp add: splitOn_append splitOn_no_sep good_seg_def)
    moreover have "norm_stack True [] [sub, name] = rev [sub, name] @ []"
      by (rule norm_stack_good) (use sub name in auto)
    ultimately show ?thesis using rel by (simp add: path_segments_def)
  qed
  have "path_segments (d @ ''/'' @ (sub @ ''/'' @ name)) = path_segments d @ [sub, name]"
    using path_segments_under [OF d rel] segs sub name by auto
  moreover have "isAbsolute (d @ ''/'' @ sub @ ''/'' @ name)"
    using d by (auto simp: canonical_dir_def isAbsolute_def startsWith_iff_prefix)
  moreover have "\<not> endsWith (d @ ''/'' @ sub @ ''/'' @ name) ''/''"
  proof
    assume "endsWith (d @ ''/'' @ sub @ ''/'' @ name) ''/''"
    then obtain t where "d @ ''/'' @ sub @ ''/'' @ name = t @ ''/''" by (rule endsWithE)
    then have "last (d @ ''/'' @ sub @ ''/'' @ name) = CHR ''/''" by simp
    with name show False by (auto simp: good_seg_def dest: last_in_set)
  qed
  ultimately show ?thesis
    using d by (simp add: join3_def normalize_path_def canonical_dir_def joinWith_append)
qed

text \<open>Session ids hold letters, digits, underscores and dashes only.\<close>

lemma session_id_chars: "SESSION_ID_RE sid \<Longrightarrow> c \<in> set sid \<Longrightarrow> is_alnum c \<or> c = CHR ''_'' \<or> c = CHR ''-''"
  by (auto simp: SESSION_ID_RE_def matches_def list_all_iff one_of_def)

lemma session_id_no_dot: "SESSION_ID_RE sid \<Longrightarrow> CHR ''.'' \<notin> set sid \<and> CHR ''/'' \<notin> set sid"
  using session_id_chars [of sid "CHR ''.''"] session_id_chars [of sid "CHR ''/''"]
  by (auto simp: is_alnum_def is_alpha_def is_lower_def is_upper_def is_digit_def)

lemma session_id_ne: "SESSION_ID_RE sid \<Longrightarrow> sid \<noteq> []"
  by (auto simp: SESSION_ID_RE_def matches_def)

lemma good_seg_session:
  assumes "SESSION_ID_RE sid" "CHR ''/'' \<notin> set pre" "CHR ''/'' \<notin> set suf"
  shows "good_seg (pre @ sid @ suf)" "pre @ sid @ suf \<noteq> ''..''"
proof -
  obtain c cs where sid: "sid = c # cs" using session_id_ne [OF assms(1)] by (cases sid) auto
  have c: "c \<noteq> CHR ''.''" using session_id_no_dot [OF assms(1)] sid by auto
  have "c \<in> set (pre @ sid @ suf)" using sid by simp
  with c have "pre @ sid @ suf \<noteq> ''.''" "pre @ sid @ suf \<noteq> ''..''" by (metis empty_set list.simps(15) singletonD insertE)+
  then show "good_seg (pre @ sid @ suf)" "pre @ sid @ suf \<noteq> ''..''"
    using assms session_id_no_dot [OF assms(1)] sid by (auto simp: good_seg_def)
qed

lemma session_paths:
  assumes d: "canonical_dir d" and sid: "SESSION_ID_RE sid"
  shows "bundlePathFor d sid = d @ ''/bundles/'' @ sid @ ''.bundle''"
    and "patchPathFor d sid = d @ ''/patches/'' @ sid @ ''.patch''"
    and "applyPreviewPathFor d sid = d @ ''/apply-preview/'' @ sid @ ''.diff''"
    and "applyPreviewAnsiPathFor d sid = d @ ''/apply-preview/'' @ sid @ ''.ansi.diff''"
    and "tmpIndexPathFor d sid = d @ ''/tmp/'' @ sid @ ''.index''"
    and "divergenceIndexPathFor d sid = d @ ''/tmp/divergence-'' @ sid @ ''.index''"
proof -
  have seg: "good_seg (pre @ sid @ suf)" "pre @ sid @ suf \<noteq> ''..''"
    if "CHR ''/'' \<notin> set pre" "CHR ''/'' \<notin> set suf" for pre suf
    using good_seg_session [OF sid that] by auto
  have sub: "good_seg ''bundles''" "good_seg ''patches''" "good_seg ''apply-preview''" "good_seg ''tmp''"
    by (simp_all add: good_seg_def)
  note j = join3_canonical [OF d]
  show "bundlePathFor d sid = d @ ''/bundles/'' @ sid @ ''.bundle''"
    using j [OF sub(1) _ seg [of "[]" "''.bundle''"]] by (simp add: bundlePathFor_def)
  show "patchPathFor d sid = d @ ''/patches/'' @ sid @ ''.patch''"
    using j [OF sub(2) _ seg [of "[]" "''.patch''"]] by (simp add: patchPathFor_def)
  show "applyPreviewPathFor d sid = d @ ''/apply-preview/'' @ sid @ ''.diff''"
    using j [OF sub(3) _ seg [of "[]" "''.diff''"]] by (simp add: applyPreviewPathFor_def)
  show "applyPreviewAnsiPathFor d sid = d @ ''/apply-preview/'' @ sid @ ''.ansi.diff''"
    using j [OF sub(3) _ seg [of "[]" "''.ansi.diff''"]] by (simp add: applyPreviewAnsiPathFor_def)
  show "tmpIndexPathFor d sid = d @ ''/tmp/'' @ sid @ ''.index''"
    using j [OF sub(4) _ seg [of "[]" "''.index''"]] by (simp add: tmpIndexPathFor_def)
  show "divergenceIndexPathFor d sid = d @ ''/tmp/divergence-'' @ sid @ ''.index''"
    using j [OF sub(4) _ seg [of "''divergence-''" "''.index''"]] by (simp add: divergenceIndexPathFor_def)
qed

lemma dot_suffix_inj:
  assumes "CHR ''.'' \<notin> set a" "CHR ''.'' \<notin> set b" "a @ CHR ''.'' # x = b @ CHR ''.'' # y"
  shows "a = b \<and> x = y"
  using assms
proof (induction a arbitrary: b)
  case Nil
  then show ?case by (cases b) auto
next
  case (Cons c a)
  then show ?case by (cases b) auto
qed

lemma removal_allowed_cases:
  assumes "removal_allowed revParse projects fs stateDir r"
  shows "sr_state r = REJECTED \<or>
     (sr_state r = FAILED_CLOSED \<and> sr_resultRef r = None \<and> fs (bundlePathFor stateDir (sr_sessionID r)) = None) \<or>
     (\<exists>p ref. p \<in> set projects \<and> sr_projectID r = Some (pr_id p) \<and>
        resultRef (sr_sessionID r) = Inr ref \<and> revParse (pr_path p) ref = Some True)"
proof -
  have "\<exists>p ref. p \<in> set projects \<and> sr_projectID r = Some (pr_id p) \<and>
      resultRef (sr_sessionID r) = Inr ref \<and> revParse (pr_path p) ref = Some True"
    if "durableHostRefResolves revParse projects r"
    using that by (auto simp: durableHostRefResolves_def find_Some_iff split: option.splits sum.splits)
      (metis nth_mem)
  with assms show ?thesis
    by (auto simp: removal_allowed_def shouldRemoveSessionArtifacts_def Let_def split: if_splits)
qed

lemma removeSession_spares:
  assumes "canonical_dir d" "SESSION_ID_RE a" "SESSION_ID_RE b" "a \<noteq> b"
    and "b \<noteq> ''divergence-'' @ a" "a \<noteq> ''divergence-'' @ b"
    and "x \<in> set (sessionArtifactPaths d b)"
  shows "fst (removeSessionArtifacts fs d a) (ap_path x) = fs (ap_path x)"
proof -
  have dots: "CHR ''.'' \<notin> set a" "CHR ''.'' \<notin> set b"
    using session_id_no_dot assms(2,3) by auto
  have ext: "a @ ''.diff'' \<noteq> b @ ''.ansi.diff''" "a @ ''.ansi.diff'' \<noteq> b @ ''.diff''"
    using dot_suffix_inj [OF dots, of "''diff''" "''ansi.diff''"]
      dot_suffix_inj [OF dots, of "''ansi.diff''" "''diff''"] by auto
  have idx: "a @ ''.index'' \<noteq> (''divergence-'' @ b) @ ''.index''"
    "(''divergence-'' @ a) @ ''.index'' \<noteq> b @ ''.index''"
    using assms(5,6) unfolding append_same_eq by auto
  have "ap_path ` set (sessionArtifactPaths d b) \<inter> ap_path ` set (sessionArtifactPaths d a) = {}"
    using assms(4) ext idx
    by (simp add: sessionArtifactPaths_def session_paths [OF assms(1)] assms(2,3) disjoint_iff)
  with assms(7) have "ap_path x \<notin> ap_path ` set (sessionArtifactPaths d a)" by blast
  then show ?thesis by (simp add: removeSessionArtifacts_def removeArtifacts_frame)
qed

section \<open>Properties\<close>

text \<open>
  Artifacts survive until the result is safe: when the shared decision allows
  the removal of a session's artifacts, either the host result ref of a registered
  project resolved, or the result was deliberately rejected, or creation failed
  with no result ref and no bundle on disk.  So an undecided or applied or retained
  session whose ref does not resolve keeps its bundle.
\<close>

theorem removal_only_when_durable:
  assumes "removal_allowed revParse projects fs stateDir r"
  shows "sr_state r = REJECTED \<or>
     (sr_state r = FAILED_CLOSED \<and> sr_resultRef r = None \<and> fs (bundlePathFor stateDir (sr_sessionID r)) = None) \<or>
     (\<exists>p ref. p \<in> set projects \<and> sr_projectID r = Some (pr_id p) \<and>
        resultRef (sr_sessionID r) = Inr ref \<and> revParse (pr_path p) ref = Some True)"
  using assms by (rule removal_allowed_cases)

definition demo_applied :: session_record where
  "demo_applied = (new_record ''s1'' (Iso 0))\<lparr>sr_state := APPLIED, sr_projectID := Some ''demo''\<rparr>"

lemma resultRef_s1: "resultRef ''s1'' = Inr ''refs/opencode-sandbox/result/s1''"
  by (simp add: resultRef_def assertRefComponent_def assertSessionID_def SESSION_ID_RE_def matches_def
      is_alnum_def is_alpha_def is_lower_def is_digit_def RESULT_REF_PREFIX_def startsWith_def endsWith_def)

theorem removal_only_when_durable_witness:
  "sr_state demo_applied = REJECTED \<or>
     (sr_state demo_applied = FAILED_CLOSED \<and> sr_resultRef demo_applied = None \<and>
       Map.empty (bundlePathFor ''/st'' (sr_sessionID demo_applied)) = (None :: fs_entry option)) \<or>
     (\<exists>p ref. p \<in> set [\<lparr>pr_id = ''demo'', pr_path = ''/p''\<rparr>] \<and> sr_projectID demo_applied = Some (pr_id p) \<and>
        resultRef (sr_sessionID demo_applied) = Inr ref \<and> (\<lambda>_ _. Some True) (pr_path p) ref = Some True)"
  by (rule removal_only_when_durable)
     (simp add: removal_allowed_def demo_applied_def durableHostRefResolves_def removalNeedsDurableRef_def
       shouldRemoveSessionArtifacts_def resultRef_s1)

text \<open>
  Removing a session's artifacts removes no file of another session, unless
  the other id is the first one prefixed with \<open>divergence-\<close> or the reverse.
\<close>

theorem removal_spares_other_sessions:
  assumes "canonical_dir d" "SESSION_ID_RE a" "SESSION_ID_RE b" "a \<noteq> b"
    and "b \<noteq> ''divergence-'' @ a" "a \<noteq> ''divergence-'' @ b"
    and "x \<in> set (sessionArtifactPaths d b)"
  shows "fst (removeSessionArtifacts fs d a) (ap_path x) = fs (ap_path x)"
  using assms by (rule removeSession_spares)

lemma canonical_st: "canonical_dir ''/st''"
  by (simp add: canonical_dir_def isAbsolute_def startsWith_def path_segments_def)

lemma session_ids_demo: "SESSION_ID_RE ''s1''" "SESSION_ID_RE ''s2''" "SESSION_ID_RE ''divergence-s1''"
  by (simp_all add: SESSION_ID_RE_def matches_def is_alnum_def is_alpha_def is_lower_def is_digit_def one_of_def)

theorem removal_spares_other_sessions_witness:
  "fst (removeSessionArtifacts [''/st/bundles/s2.bundle'' \<mapsto> RegularFile 5 0] ''/st'' ''s1'')
     (ap_path \<lparr>ap_kind = Bundle, ap_path = bundlePathFor ''/st'' ''s2''\<rparr>) =
   [''/st/bundles/s2.bundle'' \<mapsto> RegularFile 5 0]
     (ap_path \<lparr>ap_kind = Bundle, ap_path = bundlePathFor ''/st'' ''s2''\<rparr>)"
  by (rule removal_spares_other_sessions [OF canonical_st session_ids_demo(1,2)])
     (simp_all add: sessionArtifactPaths_def)

text \<open>
  The exception is real: the snapshot index of a session named
  \<open>divergence-s1\<close> is the divergence index of session \<open>s1\<close>, so collecting the
  artifacts of \<open>s1\<close> deletes a file of the other session.
\<close>

theorem divergence_index_aliases:
  "tmpIndexPathFor ''/st'' ''divergence-s1'' = divergenceIndexPathFor ''/st'' ''s1'' \<and>
   SESSION_ID_RE ''divergence-s1'' \<and>
   fst (removeSessionArtifacts [tmpIndexPathFor ''/st'' ''divergence-s1'' \<mapsto> RegularFile 5 0] ''/st'' ''s1'')
     (tmpIndexPathFor ''/st'' ''divergence-s1'') = None"
  by (simp add: session_paths [OF canonical_st] session_ids_demo removeSessionArtifacts_def
      sessionArtifactPaths_def removeArtifact_def)

text \<open>
  The orphan scan never lists a snapshot index \<open>tmp/<id>.index\<close>, although
  it is documented to list every file that can be attributed to a session.
\<close>

theorem orphan_scan_omits_snapshot_index:
  "c \<in> set (listOrphanArtifactCandidates d dirs) \<Longrightarrow> oc_kind c \<noteq> Tmp_index"
proof -
  have "\<forall>c \<in> set (preview_candidates d names). oc_kind c \<noteq> Tmp_index" for names
    by (induction names) auto
  then show "c \<in> set (listOrphanArtifactCandidates d dirs) \<Longrightarrow> oc_kind c \<noteq> Tmp_index"
    by (auto simp: listOrphanArtifactCandidates_def candidates_of_def divergence_candidates_def)
qed

theorem orphan_scan_omits_snapshot_index_witness:
  "oc_kind \<lparr>oc_kind = Bundle, oc_path = join3 ''/st'' ''bundles'' ''s1.bundle'', oc_sessionKey = ''s1''\<rparr> \<noteq> Tmp_index"
  by (rule orphan_scan_omits_snapshot_index [where d = "''/st''" and
        dirs = "\<lambda>sub. if sub = ''bundles'' then [''s1.bundle''] else []"])
     (simp add: listOrphanArtifactCandidates_def candidates_of_def divergence_candidates_def endsWith_def
       strip_suffix_def)

end
