(* ===== verification/WorkerLifecycle.thy ===== *)
theory WorkerLifecycle
  imports SessionState WorkerPolicy PendingQueue Artifacts "HOL-Library.Multiset"
begin

text \<open>
  The worker lifecycle of \<^verbatim>\<open>broker/src/service.ts\<close>: the agent checks and state
  gates of \<open>ensureWorker\<close>, the shared creation path, parking in the pending
  queue, the drain, and the release of a worker.

  JavaScript runs one synchronous stretch at a time; other requests run while an
  operation awaits.  An operation that awaits is therefore split at that point:
  \<open>create_begin\<close> is the synchronous start of \<open>createWorkerForSession\<close> and
  \<open>create_finish\<close> is what runs when the awaited calls have answered.  A creation
  between the two is a \<open>task\<close> of the broker.  The answers of git, of the worker
  adapter and of the file system are arguments.  The server always provides a
  queue, so the queue is not optional here.
\<close>

section \<open>State\<close>

record broker_config =
  bc_stateDir :: string
  bc_projects :: "project list"
  bc_readOnlyAgents :: "string list"
  bc_queueMaxLength :: nat
  bc_queueTimeoutMs :: nat
  bc_workerNamePrefix :: string
  bc_protectedPaths :: "string list"
  bc_protectedSecurityFiles :: "string list"
  bc_planRootProtection :: bool
  bc_realGit :: bool                      \<comment> \<open>\<open>git.runnerMode === "real"\<close>\<close>
  bc_budget :: budget

text \<open>The reply of \<open>ensureWorker\<close>; \<open>ea_queued\<close> is the position of a request that had to wait.\<close>

record ensure_answer =
  ea_worker :: string
  ea_state :: session_state
  ea_reused :: bool
  ea_snapshot :: "snapshot_identity option"
  ea_queued :: "nat option"

datatype begun = Settled "ensure_answer result" | Creating

text \<open>A call of \<open>createWorkerForSession\<close> that has not returned; \<open>tk_position\<close> is set when the drain made it.\<close>

record task =
  tk_session :: string
  tk_project :: string
  tk_request :: envelope
  tk_position :: "nat option"
  tk_phase :: begun

text \<open>The end of a request that waited or was created asynchronously.\<close>

record settlement =
  sm_session :: string
  sm_queued :: bool
  sm_outcome :: "ensure_answer result"

text \<open>
  The mutable state of the broker process.  \<open>w_parked\<close> and \<open>w_settled\<close> record
  the history of promises: the sessions whose request was parked and the promises
  that were resolved or rejected.
\<close>

record world =
  w_store :: store
  w_pool :: worker_pool
  w_queue :: "envelope pending_queue"
  w_files :: files
  w_tasks :: "task list"
  w_parked :: "string list"
  w_settled :: "settlement list"

record spawn_result =
  sp_status :: "int option"
  sp_stdout :: string
  sp_stderr :: string

definition spawn_ok :: "spawn_result \<Rightarrow> bool" where
  "spawn_ok r = (sp_status r = Some 0)"

definition trimErr :: "string \<Rightarrow> string" where
  "trimErr s = take 500 (trim s)"

section \<open>Guards and look-ups\<close>

definition req_agent :: "envelope \<Rightarrow> string option" where
  "req_agent req = (case env_agent req of JStr a \<Rightarrow> Some a | _ \<Rightarrow> None)"

definition payloadOf :: "envelope \<Rightarrow> (string \<times> js) list result" where
  "payloadOf req = bindR (assertPayloadKeys (env_operation req) (env_payload req)) (\<lambda>_.
     Inr (case env_payload req of JObj obj \<Rightarrow> obj | _ \<Rightarrow> []))"

text \<open>\<open>existing?.agent ?? req.agent\<close>\<close>

definition trusted_agent :: "session_record option \<Rightarrow> envelope \<Rightarrow> string option" where
  "trusted_agent existing req = (case existing of
     Some r \<Rightarrow> (case sr_agent r of Some a \<Rightarrow> Some a | None \<Rightarrow> req_agent req)
   | None \<Rightarrow> req_agent req)"

text \<open>\<open>agent && readOnly.includes(agent)\<close>\<close>

definition read_only :: "broker_config \<Rightarrow> string option \<Rightarrow> bool" where
  "read_only cfg agent = (case agent of None \<Rightarrow> False | Some a \<Rightarrow> a \<noteq> [] \<and> a \<in> set (bc_readOnlyAgents cfg))"

definition orchestrator_refusal :: "string option \<Rightarrow> broker_error" where
  "orchestrator_refusal agent = PolicyError (''orchestrator agent '' @ the agent @
     '' is not allowed to create a worker (orchestrator-readonly)'')"

text \<open>\<open>workerName && workerState !== "DESTROYED" && workerState !== "FAILED"\<close>\<close>

definition live_worker :: "session_record \<Rightarrow> bool" where
  "live_worker r = (sr_workerName r \<noteq> None \<and> sr_workerName r \<noteq> Some [] \<and>
     sr_workerState r \<noteq> Some DESTROYED \<and> sr_workerState r \<noteq> Some FAILED)"

fun worker_state_name :: "worker_state \<Rightarrow> string" where
  "worker_state_name CREATING = ''CREATING''"
| "worker_state_name ACTIVE = ''ACTIVE''"
| "worker_state_name PAUSED = ''PAUSED''"
| "worker_state_name DESTROYED = ''DESTROYED''"
| "worker_state_name FAILED = ''FAILED''"

definition requireActiveWorker :: "session_record \<Rightarrow> string result" where
  "requireActiveWorker r =
     (if sr_state r \<noteq> SANDBOX_ACTIVE \<and> sr_state r \<noteq> RESULT_READY
      then Inl (StateError (''session '' @ sr_sessionID r @ '' is not sandbox-active (state='' @
             state_name (sr_state r) @ '')''))
      else if sr_workerName r = None \<or> sr_workerName r = Some []
      then Inl (StateError (''session '' @ sr_sessionID r @ '' has no worker recorded - fail closed''))
      else if sr_workerState r = Some DESTROYED \<or> sr_workerState r = Some FAILED
      then Inl (StateError (''worker for session '' @ sr_sessionID r @ '' is '' @
             worker_state_name (the (sr_workerState r)) @ ''; re-ensure before use''))
      else Inr (the (sr_workerName r)))"

definition recordOr404 :: "store \<Rightarrow> string \<Rightarrow> session_record result" where
  "recordOr404 st sid = bindR (store_get st sid) (\<lambda>rec.
     case rec of None \<Rightarrow> Inl (StateError (''unknown session '' @ sid)) | Some r \<Rightarrow> Inr r)"

definition workerNameFor :: "broker_config \<Rightarrow> string \<Rightarrow> string" where
  "workerNameFor cfg sid = bc_workerNamePrefix cfg @ ''-'' @ sid"

definition projectDirFor :: "broker_config \<Rightarrow> string \<Rightarrow> string result" where
  "projectDirFor cfg pid = (case find (\<lambda>p. pr_id p = pid) (bc_projects cfg) of
     None \<Rightarrow> Inl (StateError (''project '' @ pid @ '' not in allowlist'')) | Some p \<Rightarrow> Inr (pr_path p))"

definition ensureGitRepo :: "bool \<Rightarrow> string \<Rightarrow> unit result" where
  "ensureGitRepo dotGitExists repoDir =
     guardR dotGitExists (StateError (''project is not a git repository: '' @ repoDir))"

section \<open>Snapshots\<close>

datatype snapshot_selection = Worktree | SelResultRef string | SelCommit string

definition RESULT_REF_RE :: "string \<Rightarrow> bool" where
  "RESULT_REF_RE s = (startsWith s ''refs/opencode-sandbox/result/'' \<and>
     SESSION_ID_RE (drop (length ''refs/opencode-sandbox/result/'') s))"

definition is_sha :: "string \<Rightarrow> bool" where
  "is_sha s = matches is_hex 40 40 s"

fun snapshotFromPayload :: "js \<Rightarrow> snapshot_selection result" where
  "snapshotFromPayload JUndefined = Inr Worktree"
| "snapshotFromPayload (JObj obj) =
     (case obj of
        [(k, v)] \<Rightarrow>
          if k = ''worktree'' \<and> v = JBool True then Inr Worktree
          else if k = ''resultRef'' \<and> is_str RESULT_REF_RE v then Inr (SelResultRef (js_str v))
          else if k = ''commit'' \<and> is_str (matches (\<lambda>c. is_hex c \<or> one_of ''ABCDEF'' c) 40 40) v then Inr (SelCommit (js_str v))
          else Inl (ValidationError ''snapshot must contain a valid resultRef, full commit SHA, or worktree: true'')
      | _ \<Rightarrow> Inl (ValidationError ''snapshot must name exactly one of resultRef, commit, worktree''))"
| "snapshotFromPayload v = Inl (ValidationError ''snapshot must be an object'')"

text \<open>
  A call of \<open>ctx.git.spawn\<close>: the \<open>GIT_INDEX_FILE\<close> of its environment, if any,
  and the argument vector; \<open>Inl\<close> when the call rejects.
\<close>

type_synonym spawn_fn = "string option \<Rightarrow> string list \<Rightarrow> spawn_result result"

definition spawn_checked :: "spawn_fn \<Rightarrow> string option \<Rightarrow> string list \<Rightarrow> (spawn_result \<Rightarrow> broker_error) \<Rightarrow> string result" where
  "spawn_checked git idx argv err = bindR (git idx argv) (\<lambda>r.
     if spawn_ok r then Inr (trim (sp_stdout r)) else Inl (err r))"

definition baseline_subject :: "string \<Rightarrow> string" where
  "baseline_subject sid = ''opencode-sandbox baseline for '' @ sid"

fun selection_reference :: "snapshot_selection \<Rightarrow> string" where
  "selection_reference (SelResultRef r) = r"
| "selection_reference (SelCommit c) = c"
| "selection_reference Worktree = []"

text \<open>\<open>rev-parse --verify x^{commit}\<close> with the test for a full object id.\<close>

definition rev_parse_sha :: "spawn_fn \<Rightarrow> string option \<Rightarrow> string \<Rightarrow> string \<Rightarrow> string result" where
  "rev_parse_sha git idx name msg = bindR (git idx [''git'', ''rev-parse'', ''--verify'', name]) (\<lambda>r.
     if spawn_ok r \<and> is_sha (trim (sp_stdout r)) then Inr (trim (sp_stdout r)) else Inl (StateError msg))"

definition snapshot_differs :: broker_error where
  "snapshot_differs = StateError ''snapshot differs from the existing worker snapshot''"

definition assertPinnedSnapshotCompatible ::
  "broker_config \<Rightarrow> spawn_fn \<Rightarrow> string \<Rightarrow> session_record \<Rightarrow> js \<Rightarrow> unit result"
where
  "assertPinnedSnapshotCompatible cfg git pid r raw =
     bindR (snapshotFromPayload raw) (\<lambda>selection.
     bindR (projectDirFor cfg pid) (\<lambda>_.
     (case sr_baselineRef r of
        None \<Rightarrow> Inl (StateError ''existing worker has no pinned snapshot identity'')
      | Some base \<Rightarrow>
        if base = [] then Inl (StateError ''existing worker has no pinned snapshot identity'') else
        bindR (rev_parse_sha git None (base @ ''^{commit}'') ''existing worker snapshot identity cannot be resolved'') (\<lambda>current.
        if selection \<noteq> Worktree then
          bindR (rev_parse_sha git None (selection_reference selection @ ''^{commit}'')
            ''snapshot does not resolve to a commit in the registered project'') (\<lambda>resolved.
          guardR (current = resolved) snapshot_differs)
        else
          let idx = Some (join3 (bc_stateDir cfg) ''tmp'' (sr_sessionID r @ ''.snapshot-check.index''));
              cannot = (\<lambda>x. StateError (''cannot compare working-tree snapshot: '' @ trimErr (sp_stderr x))) in
          bindR (spawn_checked git None [''git'', ''rev-parse'', ''--verify'', ''HEAD'']
            (\<lambda>_. StateError ''project has no HEAD commit; cannot compare worker snapshot'')) (\<lambda>head.
          bindR (spawn_checked git idx [''git'', ''read-tree'', ''HEAD''] cannot) (\<lambda>_.
          bindR (spawn_checked git idx [''git'', ''add'', ''-A'', ''--''] cannot) (\<lambda>_.
          bindR (git idx [''git'', ''write-tree'']) (\<lambda>tree.
          bindR (git None [''git'', ''rev-parse'', ''--verify'', current @ ''^{tree}'']) (\<lambda>oldTree.
          bindR (git None [''git'', ''rev-parse'', ''--verify'', current @ ''^'']) (\<lambda>oldParent.
          bindR (git None [''git'', ''log'', ''-1'', ''--format=%s'', current]) (\<lambda>oldSubject.
          guardR (spawn_ok tree \<and> spawn_ok oldTree \<and> spawn_ok oldParent \<and> spawn_ok oldSubject \<and>
              trim (sp_stdout tree) = trim (sp_stdout oldTree) \<and> trim (sp_stdout oldParent) = head \<and>
              trim (sp_stdout oldSubject) = baseline_subject (sr_sessionID r)) snapshot_differs))))))))))) "

definition pinnedSnapshotIdentity ::
  "broker_config \<Rightarrow> spawn_fn \<Rightarrow> string \<Rightarrow> session_record \<Rightarrow> js \<Rightarrow> snapshot_identity result"
where
  "pinnedSnapshotIdentity cfg git pid r raw =
     bindR (projectDirFor cfg pid) (\<lambda>_.
     (case sr_baselineRef r of
        None \<Rightarrow> Inl (StateError ''existing worker has no pinned snapshot identity'')
      | Some base \<Rightarrow>
        if base = [] then Inl (StateError ''existing worker has no pinned snapshot identity'') else
        bindR (rev_parse_sha git None (base @ ''^{commit}'') ''existing worker snapshot identity cannot be resolved'') (\<lambda>commitSha.
        bindR (git None [''git'', ''rev-parse'', ''--verify'', commitSha @ ''^{tree}'']) (\<lambda>tree.
        bindR (git None [''git'', ''rev-parse'', ''--verify'', commitSha @ ''^'']) (\<lambda>head.
        bindR (git None [''git'', ''log'', ''-1'', ''--format=%s'', commitSha]) (\<lambda>subject.
        bindR (guardR (spawn_ok tree \<and> is_sha (trim (sp_stdout tree)))
          (StateError ''existing worker snapshot identity cannot be resolved'')) (\<lambda>_.
        bindR (if raw = JUndefined then Inr None else bindR (snapshotFromPayload raw) (\<lambda>x. Inr (Some x))) (\<lambda>selection.
        Inr \<lparr>si_commit = commitSha, si_tree = trim (sp_stdout tree),
             si_source = (case selection of
                 Some (SelResultRef _) \<Rightarrow> FromResultRef
               | Some _ \<Rightarrow> FromCommit
               | None \<Rightarrow> if spawn_ok subject \<and> trim (sp_stdout subject) = baseline_subject (sr_sessionID r)
                          then FromWorktree else FromCommit),
             si_resultRef = (case selection of Some (SelResultRef x) \<Rightarrow> Some x | _ \<Rightarrow> None),
             si_headSha = (if is_sha (trim (sp_stdout head)) then trim (sp_stdout head) else commitSha)\<rparr>))))))))"

section \<open>Creation\<close>

text \<open>What the calls awaited during a creation answer.\<close>

record creation_env =
  ce_dotGit :: bool                                \<comment> \<open>\<open>existsSync(repoDir/.git)\<close>\<close>
  ce_mkdir :: "unit result"
  ce_chmod :: "unit result"
  ce_git :: spawn_fn
  ce_createWorker :: "unit result"
  ce_copyIn :: "unit result"
  ce_exec :: "nat \<Rightarrow> string list \<Rightarrow> spawn_result result"   \<comment> \<open>by attempt\<close>
  ce_revParse :: "string \<Rightarrow> string \<Rightarrow> bool option"

definition runSnapshot ::
  "broker_config \<Rightarrow> creation_env \<Rightarrow> string \<Rightarrow> string \<Rightarrow> string \<Rightarrow> snapshot_selection \<Rightarrow> snapshot_identity result"
where
  "runSnapshot cfg env repoDir sid bundle selection =
     bindR (ce_mkdir env) (\<lambda>_.
     bindR (baselineRef sid) (\<lambda>ref.
     let idx = Some (join3 (bc_stateDir cfg) ''tmp'' (sid @ ''.index''));
         git = ce_git env;
         failed = (\<lambda>what x. StateError (''snapshot '' @ what @ '' failed: '' @ trimErr (sp_stderr x))) in
     bindR (spawn_checked git idx [''git'', ''rev-parse'', ''--verify'', ''HEAD'']
       (\<lambda>_. StateError (''project has no HEAD commit; cannot snapshot ('' @ repoDir @ '')''))) (\<lambda>headSha.
     bindR (if selection = Worktree then
         bindR (spawn_checked git idx [''git'', ''add'', ''-A'', ''--''] (failed ''add'')) (\<lambda>_.
         bindR (spawn_checked git idx [''git'', ''write-tree''] (failed ''write-tree'')) (\<lambda>treeSha.
         bindR (spawn_checked git idx [''git'', ''commit-tree'', treeSha, ''-p'', ''HEAD'', ''-m'', baseline_subject sid]
           (failed ''commit-tree'')) (\<lambda>commitSha. Inr (commitSha, treeSha))))
       else
         bindR (rev_parse_sha git idx (selection_reference selection @ ''^{commit}'')
           ''snapshot does not resolve to a commit in the registered project'') (\<lambda>commitSha.
         bindR (rev_parse_sha git idx (commitSha @ ''^{tree}'') ''snapshot commit tree cannot be resolved'')
           (\<lambda>treeSha. Inr (commitSha, treeSha)))) (\<lambda>(commitSha, treeSha).
     bindR (spawn_checked git idx [''git'', ''update-ref'', ref, commitSha] (failed ''update-ref'')) (\<lambda>_.
     bindR (spawn_checked git idx [''git'', ''bundle'', ''create'', bundle, ref] (failed ''bundle'')) (\<lambda>_.
     bindR (ce_chmod env) (\<lambda>_.
     Inr \<lparr>si_commit = commitSha, si_tree = treeSha,
          si_source = (case selection of Worktree \<Rightarrow> FromWorktree | SelResultRef _ \<Rightarrow> FromResultRef | SelCommit _ \<Rightarrow> FromCommit),
          si_resultRef = (case selection of SelResultRef x \<Rightarrow> Some x | _ \<Rightarrow> None),
          si_headSha = headSha\<rparr>)))))))"

text \<open>The bounded retry of one preparation command: the last answer counts.\<close>

fun exec_attempts :: "(nat \<Rightarrow> spawn_result result) \<Rightarrow> nat \<Rightarrow> nat \<Rightarrow> spawn_result option result" where
  "exec_attempts ex n 0 = Inr None"
| "exec_attempts ex n (Suc k) = bindR (ex n) (\<lambda>r.
     if spawn_ok r \<or> k = 0 then Inr (Some r) else exec_attempts ex (Suc n) k)"

definition prep_argvs :: "string \<Rightarrow> string \<Rightarrow> string list list" where
  "prep_argvs sid bref =
     [[''sync''],
      [''git'', ''init'', ''-q''],
      [''git'', ''config'', ''user.name'', ''opencode-sandbox''],
      [''git'', ''config'', ''user.email'', ''sandbox@local''],
      [''git'', ''fetch'', ''/work/'' @ sid @ ''.bundle'', bref @ '':refs/heads/baseline''],
      [''git'', ''checkout'', ''-q'', ''-b'', ''work'', ''baseline''],
      [''git'', ''update-ref'', bref, ''refs/heads/baseline'']]"

fun prep_loop :: "(nat \<Rightarrow> string list \<Rightarrow> spawn_result result) \<Rightarrow> string list list \<Rightarrow> unit result" where
  "prep_loop ex [] = Inr ()"
| "prep_loop ex (argv # rest) = bindR (exec_attempts (\<lambda>n. ex n argv) 0 3) (\<lambda>res.
     case res of
       Some r \<Rightarrow> if spawn_ok r then prep_loop ex rest
         else Inl (MsbError (''worker repo prep failed ('' @ (if length argv < 2 then ''undefined'' else argv ! 1) @ ''): '' @
                trimErr (if sp_stderr r \<noteq> [] then sp_stderr r else sp_stdout r)))
     | None \<Rightarrow> Inl (MsbError ''worker repo prep failed''))"

text \<open>The \<open>try\<close> block up to the pool allocation: it changes no broker state.\<close>

definition create_body ::
  "broker_config \<Rightarrow> creation_env \<Rightarrow> envelope \<Rightarrow> string \<Rightarrow> string \<Rightarrow> (snapshot_identity \<times> string) result"
where
  "create_body cfg env req sid pid =
     bindR (projectDirFor cfg pid) (\<lambda>repoDir.
     bindR (ensureGitRepo (ce_dotGit env) repoDir) (\<lambda>_.
     bindR (payloadOf req) (\<lambda>payload.
     bindR (snapshotFromPayload (js_get payload ''snapshot'')) (\<lambda>selection.
     bindR (runSnapshot cfg env repoDir sid (bundlePathFor (bc_stateDir cfg) sid) selection) (\<lambda>snapshot.
     bindR (ce_createWorker env) (\<lambda>_.
     bindR (ce_copyIn env) (\<lambda>_.
     bindR (baselineRef sid) (\<lambda>bref.
     bindR (prep_loop (ce_exec env) (prep_argvs sid bref)) (\<lambda>_.
     Inr (snapshot, bref))))))))))"

text \<open>
  The synchronous start of \<open>createWorkerForSession\<close>, up to the first await: it
  settles at once, or it has moved the session to \<open>CREATING_SANDBOX\<close>.
\<close>

definition create_begin ::
  "broker_config \<Rightarrow> int \<Rightarrow> world \<Rightarrow> envelope \<Rightarrow> string \<Rightarrow> string \<Rightarrow> world \<times> begun"
where
  "create_begin cfg now w req sid pid = (case store_get (w_store w) sid of
     Inl e \<Rightarrow> (w, Settled (Inl e))
   | Inr existing \<Rightarrow>
     if read_only cfg (trusted_agent existing req)
     then (w, Settled (Inl (orchestrator_refusal (trusted_agent existing req))))
     else (case recordOr404 (w_store w) sid of
       Inl e \<Rightarrow> (w, Settled (Inl e))
     | Inr r \<Rightarrow>
       if (sr_state r = SANDBOX_ACTIVE \<or> sr_state r = RESULT_READY) \<and> live_worker r
       then (w, Settled (Inr \<lparr>ea_worker = the (sr_workerName r), ea_state = sr_state r, ea_reused = True,
                              ea_snapshot = None, ea_queued = None\<rparr>))
       else if sr_state r = FAILED_CLOSED
       then (w, Settled (Inl (StateError (''session '' @ sid @ '' is FAILED_CLOSED; manual review required''))))
       else if sr_state r = CREATING_SANDBOX
       then (w, Settled (Inl (StateError (''sandbox creation already in progress for '' @ sid @ '' - retry''))))
       else (case transition now (w_store w) sid (sr_state r) CREATING_SANDBOX
                    [F_projectID (Some pid), F_agent (req_agent req), F_error None] of
           Inl e \<Rightarrow> (w, Settled (Inl e))
         | Inr (st', _) \<Rightarrow> (w\<lparr>w_store := st'\<rparr>, Creating))))"

fun error_message :: "broker_error \<Rightarrow> string" where
  "error_message (StateError m) = m"
| "error_message (StateCorruptionError sid d) = ''corrupt state file for session '' @ sid @ '': '' @ d"
| "error_message (PolicyError m) = m"
| "error_message (QueuedTimedOutError m) = m"
| "error_message (ValidationError m) = m"
| "error_message (MsbError m) = m"
| "error_message (HostReadError m) = m"
| "error_message (NativeError m) = m"

definition gcSessionArtifacts ::
  "broker_config \<Rightarrow> (string \<Rightarrow> string \<Rightarrow> bool option) \<Rightarrow> world \<Rightarrow> string \<Rightarrow> bool \<Rightarrow> world"
where
  "gcSessionArtifacts cfg revParse w sid durable = (case store_get (w_store w) sid of
     Inr (Some r) \<Rightarrow>
       if durable \<or> removal_allowed revParse (bc_projects cfg) (w_files w) (bc_stateDir cfg) r
       then w\<lparr>w_files := fst (removeSessionArtifacts (w_files w) (bc_stateDir cfg) sid)\<rparr>
       else w
   | _ \<Rightarrow> w)"

text \<open>
  The \<open>catch\<close> block: the partly created worker is stopped and removed best-effort
  (the answers do not matter), the session is closed, its artifacts are collected.
\<close>

definition create_fail :: "broker_config \<Rightarrow> int \<Rightarrow> creation_env \<Rightarrow> world \<Rightarrow> string \<Rightarrow> broker_error \<Rightarrow> world" where
  "create_fail cfg now env w sid e =
     (case transition now (w_store w) sid CREATING_SANDBOX FAILED_CLOSED
             [F_error (Some (error_message e)), F_workerState (Some FAILED)] of
        Inl _ \<Rightarrow> w
      | Inr (st', _) \<Rightarrow> gcSessionArtifacts cfg (ce_revParse env) (w\<lparr>w_store := st'\<rparr>) sid False)"

definition active_patch :: "broker_config \<Rightarrow> string \<Rightarrow> string \<Rightarrow> snapshot_identity \<Rightarrow> patch" where
  "active_patch cfg sid bref snapshot =
     [F_workerName (Some (workerNameFor cfg sid)), F_workerState (Some ACTIVE), F_baselineRef (Some bref),
      F_snapshotIdentity (Some snapshot), F_resultRef None, F_error None,
      F_resources (Some (perWorkerCpu (bc_budget cfg), perWorkerMemBytes (bc_budget cfg)))]"

definition create_finish ::
  "broker_config \<Rightarrow> int \<Rightarrow> creation_env \<Rightarrow> world \<Rightarrow> envelope \<Rightarrow> string \<Rightarrow> string \<Rightarrow> world \<times> ensure_answer result"
where
  "create_finish cfg now env w req sid pid = (case create_body cfg env req sid pid of
     Inl e \<Rightarrow> (create_fail cfg now env w sid e, Inl e)
   | Inr (snapshot, bref) \<Rightarrow>
       (let w1 = w\<lparr>w_pool := w_pool w @ [worker_share (bc_budget cfg) (Some sid)]\<rparr> in
        case transition now (w_store w1) sid CREATING_SANDBOX SANDBOX_ACTIVE (active_patch cfg sid bref snapshot) of
          Inl e \<Rightarrow> (create_fail cfg now env w1 sid e, Inl e)
        | Inr (st', nxt) \<Rightarrow>
            (w1\<lparr>w_store := st'\<rparr>,
             Inr \<lparr>ea_worker = workerNameFor cfg sid, ea_state = sr_state nxt, ea_reused = False,
                  ea_snapshot = Some snapshot, ea_queued = None\<rparr>)))"

section \<open>Admission, parking and the drain\<close>

definition reserved_pool :: "broker_config \<Rightarrow> world \<Rightarrow> worker_pool" where
  "reserved_pool cfg w = w_pool w @ replicate (pq_inFlight (w_queue w)) (worker_share (bc_budget cfg) None)"

definition admissionFor :: "broker_config \<Rightarrow> world \<Rightarrow> admission" where
  "admissionFor cfg w =
     (if pq_inFlight (w_queue w) = 0 then checkAdmission (w_pool w) (bc_budget cfg) None None
      else checkAdmission (reserved_pool cfg w) (bc_budget cfg) None None)"

text \<open>What a synchronous request gets: a settled promise, or a promise that is still pending.\<close>

datatype ensure_outcome = Answered "ensure_answer result" | Waiting nat | InProgress

definition parkAndWait :: "broker_config \<Rightarrow> world \<Rightarrow> envelope \<Rightarrow> string \<Rightarrow> world \<times> ensure_outcome" where
  "parkAndWait cfg w req pid = (case pq_find (w_queue w) (env_sessionID req) of
     Some e \<Rightarrow> (w, Waiting (qe_position e))
   | None \<Rightarrow>
       if pq_length (w_queue w) \<ge> bc_queueMaxLength cfg
       then (w, Answered (Inl (PolicyError (''worker queue full ('' @ show_nat (bc_queueMaxLength cfg) @ ''); retry later''))))
       else (let e = \<lparr>qe_sessionID = env_sessionID req, qe_request = req, qe_projectID = pid, qe_position = 0\<rparr>;
                 q' = pq_enqueue e (w_queue w)
             in (w\<lparr>w_queue := q', w_parked := w_parked w @ [env_sessionID req]\<rparr>, Waiting (pq_length q'))))"

definition add_task :: "world \<Rightarrow> envelope \<Rightarrow> string \<Rightarrow> string \<Rightarrow> nat option \<Rightarrow> begun \<Rightarrow> world" where
  "add_task w req sid pid pos ph = w\<lparr>w_tasks := w_tasks w @
     [\<lparr>tk_session = sid, tk_project = pid, tk_request = req, tk_position = pos, tk_phase = ph\<rparr>]\<rparr>"

text \<open>\<open>void runQueuedCreation(ctx, entry)\<close>: the synchronous part runs inside the drain loop.\<close>

definition start_queued :: "broker_config \<Rightarrow> int \<Rightarrow> world \<Rightarrow> envelope queued_entry \<Rightarrow> world" where
  "start_queued cfg now w e =
     (let (w', ph) = create_begin cfg now w (qe_request e) (qe_sessionID e) (qe_projectID e)
      in add_task w' (qe_request e) (qe_sessionID e) (qe_projectID e) (Some (qe_position e)) ph)"

definition admit_head :: "world \<Rightarrow> envelope queued_entry \<Rightarrow> world" where
  "admit_head w e = w\<lparr>w_queue :=
     (snd (pq_remove (qe_sessionID e) (w_queue w)))\<lparr>pq_inFlight := Suc (pq_inFlight (w_queue w))\<rparr>\<rparr>"

lemma create_begin_queue [simp]:
  "w_queue (fst (create_begin cfg now w req sid pid)) = w_queue w"
  by (simp add: create_begin_def split: sum.split option.split)

lemma start_queued_queue [simp]: "w_queue (start_queued cfg now w e) = w_queue w"
  by (simp add: start_queued_def add_task_def split: prod.split)
    (metis create_begin_queue fst_conv)

function drainQueue :: "broker_config \<Rightarrow> int \<Rightarrow> world \<Rightarrow> world" where
  "drainQueue cfg now w = (case pq_head (w_queue w) of
     None \<Rightarrow> w
   | Some e \<Rightarrow> if \<not> allowed (admissionFor cfg w) then w
               else drainQueue cfg now (start_queued cfg now (admit_head w e) e))"
  by pat_completeness auto

termination
proof (relation "measure (\<lambda>(_, _, w). length (pq_entries (w_queue w)))")
  fix cfg :: broker_config and now :: int and w :: world and e :: "envelope queued_entry"
  assume "pq_head (w_queue w) = Some e"
  then show "((cfg, now, start_queued cfg now (admit_head w e) e), (cfg, now, w))
      \<in> measure (\<lambda>(_, _, w). length (pq_entries (w_queue w)))"
    by (auto simp: admit_head_def pq_head_def pq_remove_def split: list.splits)
qed simp

declare drainQueue.simps [simp del]

definition settle :: "world \<Rightarrow> string \<Rightarrow> bool \<Rightarrow> ensure_answer result \<Rightarrow> world" where
  "settle w sid queued out = w\<lparr>w_settled := w_settled w @ [\<lparr>sm_session = sid, sm_queued = queued, sm_outcome = out\<rparr>]\<rparr>"

text \<open>
  A task whose awaited calls have answered (the rest of \<open>createWorkerForSession\<close>
  and, for a queued request, of \<open>runQueuedCreation\<close> with its \<open>finally\<close>).
\<close>

definition run_task :: "broker_config \<Rightarrow> int \<Rightarrow> creation_env \<Rightarrow> world \<Rightarrow> task \<Rightarrow> world \<times> ensure_answer result" where
  "run_task cfg now env w tk = (case tk_phase tk of
     Settled out \<Rightarrow> (w, out)
   | Creating \<Rightarrow> create_finish cfg now env w (tk_request tk) (tk_session tk) (tk_project tk))"

definition finish_task :: "broker_config \<Rightarrow> int \<Rightarrow> creation_env \<Rightarrow> world \<Rightarrow> nat \<Rightarrow> world" where
  "finish_task cfg now env w i =
     (let tk = w_tasks w ! i;
          w0 = w\<lparr>w_tasks := take i (w_tasks w) @ drop (Suc i) (w_tasks w)\<rparr>;
          (w1, out) = run_task cfg now env w0 tk
      in case tk_position tk of
           None \<Rightarrow> settle w1 (tk_session tk) False out
         | Some pos \<Rightarrow>
             (let w2 = settle w1 (tk_session tk) True
                        (case out of Inl e \<Rightarrow> Inl e | Inr a \<Rightarrow> Inr (a\<lparr>ea_queued := Some pos\<rparr>));
                  q = w_queue w2
              in drainQueue cfg now (w2\<lparr>w_queue := q\<lparr>pq_inFlight := pq_inFlight q - 1\<rparr>\<rparr>)))"

text \<open>The timer of a parked entry, and the cancellation of a disconnected client.\<close>

definition queue_timeout :: "broker_config \<Rightarrow> world \<Rightarrow> string \<Rightarrow> world" where
  "queue_timeout cfg w sid = (case pq_remove sid (w_queue w) of
     (None, _) \<Rightarrow> w
   | (Some e, q') \<Rightarrow> settle (w\<lparr>w_queue := q'\<rparr>) sid True
       (Inl (QueuedTimedOutError (''ensureWorker queued for session '' @ sid @ '' timed out after '' @
          show_nat (bc_queueTimeoutMs cfg) @ ''ms (queue position '' @ show_nat (qe_position e) @ '')''))))"

definition queue_disconnect :: "broker_config \<Rightarrow> int \<Rightarrow> world \<Rightarrow> string \<Rightarrow> world" where
  "queue_disconnect cfg now w sid =
     (case pq_cancel sid ''client disconnected while queued for a worker slot'' (w_queue w) of
        (None, _) \<Rightarrow> w
      | (Some (e, err), q') \<Rightarrow> drainQueue cfg now (settle (w\<lparr>w_queue := q'\<rparr>) sid True (Inl err)))"

section \<open>ensureWorker\<close>

fun refusal_text :: "refusal \<Rightarrow> string" where
  "refusal_text InvalidRequest = ''invalid resource request''"
| "refusal_text AbovePolicy = ''resource request above policy''"
| "refusal_text CpuPoolExhausted = ''aggregate vCPU pool exhausted''"
| "refusal_text MemPoolExhausted = ''aggregate memory pool exhausted''"
| "refusal_text (MaxWorkersReached n) = ''maximum concurrent workers reached ('' @ show_int n @ '')''"

text \<open>The worker of the session is reused; this part only asks git.\<close>

definition reuse_worker ::
  "broker_config \<Rightarrow> spawn_fn \<Rightarrow> string \<Rightarrow> session_record \<Rightarrow> js \<Rightarrow> ensure_answer result"
where
  "reuse_worker cfg git pid r selection =
     bindR (if selection = JUndefined then Inr () else assertPinnedSnapshotCompatible cfg git pid r selection) (\<lambda>_.
     bindR (case sr_snapshotIdentity r of Some s \<Rightarrow> Inr s | None \<Rightarrow> pinnedSnapshotIdentity cfg git pid r selection)
       (\<lambda>snapshot. Inr \<lparr>ea_worker = the (sr_workerName r), ea_state = sr_state r, ea_reused = True,
                         ea_snapshot = Some snapshot, ea_queued = None\<rparr>))"

text \<open>Admission and what follows it.\<close>

definition admit_or_park ::
  "broker_config \<Rightarrow> int \<Rightarrow> world \<Rightarrow> envelope \<Rightarrow> string \<Rightarrow> world \<times> ensure_outcome"
where
  "admit_or_park cfg now w req pid = (case admissionFor cfg w of
     Refused reason hint queueable \<Rightarrow>
       if \<not> queueable
       then (w, Answered (Inl (PolicyError (refusal_text reason @
              (if hint > 0 then '' (queue position ~'' @ show_int hint @ '')'' else [])))))
       else parkAndWait cfg w req pid
   | Allowed _ _ \<Rightarrow>
       (case create_begin cfg now w req (env_sessionID req) pid of
          (w', Settled out) \<Rightarrow> (w', Answered out)
        | (w', Creating) \<Rightarrow> (add_task w' req (env_sessionID req) pid None Creating, InProgress)))"

definition ensure_state_gate ::
  "broker_config \<Rightarrow> spawn_fn \<Rightarrow> int \<Rightarrow> world \<Rightarrow> envelope \<Rightarrow> string \<Rightarrow> session_record \<Rightarrow> js \<Rightarrow> world \<times> ensure_outcome"
where
  "ensure_state_gate cfg git now w req pid r selection =
     (if (sr_state r = SANDBOX_ACTIVE \<or> sr_state r = RESULT_READY) \<and> live_worker r
      then (w, Answered (reuse_worker cfg git pid r selection))
      else if sr_state r = FAILED_CLOSED
      then (w, Answered (Inl (StateError (''session '' @ env_sessionID req @ '' is FAILED_CLOSED; manual review required''))))
      else if sr_state r = CREATING_SANDBOX
      then (w, Answered (Inl (StateError (''sandbox creation already in progress for '' @ env_sessionID req @ '' - retry''))))
      else admit_or_park cfg now w req pid)"

definition ensureWorker ::
  "broker_config \<Rightarrow> (string \<Rightarrow> string option) \<Rightarrow> spawn_fn \<Rightarrow> int \<Rightarrow> world \<Rightarrow> envelope \<Rightarrow> world \<times> ensure_outcome"
where
  "ensureWorker cfg realpath git now w req = (case store_get (w_store w) (env_sessionID req) of
     Inl e \<Rightarrow> (w, Answered (Inl e))
   | Inr existing \<Rightarrow>
     let trusted = trusted_agent existing req in
     if read_only cfg trusted then (w, Answered (Inl (orchestrator_refusal trusted)))
     else if read_only cfg (req_agent req) \<and> req_agent req \<noteq> trusted
     then (w, Answered (Inl (orchestrator_refusal (req_agent req))))
     else (case bindR (payloadOf req) (\<lambda>payload.
             bindR (resolveProjectID realpath (js_get payload ''projectDir'') (bc_projects cfg)) (\<lambda>pid.
             bindR (touch now (w_store w) (env_sessionID req)
               [F_projectID (Some pid), F_agent (req_agent req), F_workerLifecycleEntered True,
                F_lastOperation (Some ''ensureWorker'')] (Some ''ensureWorker'')) (\<lambda>(st', r).
             Inr (pid, st', r, js_get payload ''snapshot'')))) of
       Inl e \<Rightarrow> (w, Answered (Inl e))
     | Inr (pid, st', r, selection) \<Rightarrow>
         ensure_state_gate cfg git now (w\<lparr>w_store := st'\<rparr>) req pid r selection))"

section \<open>Release\<close>

definition removePoolAllocation :: "worker_pool \<Rightarrow> session_record \<Rightarrow> worker_pool" where
  "removePoolAllocation pool r = removeFirst (\<lambda>a. wa_sessionID a = Some (sr_sessionID r)) pool"

datatype release_outcome = Removed | NoWorker | RemoveFailed string

definition released :: "release_outcome \<Rightarrow> bool" where
  "released out = (case out of RemoveFailed _ \<Rightarrow> False | _ \<Rightarrow> True)"

text \<open>
  \<open>releaseWorker\<close>: \<open>rm n\<close> is the answer of the n-th removal attempt, \<open>Some\<close>
  an error message; a failing stop is ignored.
\<close>

definition releaseWorker ::
  "broker_config \<Rightarrow> int \<Rightarrow> (nat \<Rightarrow> string option) \<Rightarrow> world \<Rightarrow> session_record \<Rightarrow> world \<times> release_outcome"
where
  "releaseWorker cfg now rm w r =
     (if \<not> live_worker r
      then (drainQueue cfg now (w\<lparr>w_pool := removePoolAllocation (w_pool w) r\<rparr>), NoWorker)
      else if rm 0 \<noteq> None \<and> rm 1 \<noteq> None then (w, RemoveFailed (the (rm 1)))
      else (drainQueue cfg now (w\<lparr>w_pool := removePoolAllocation (w_pool w) r\<rparr>), Removed))"

text \<open>A state write that throws is logged; the idle sweep retries.\<close>

definition releaseRetainedWorker :: "broker_config \<Rightarrow> int \<Rightarrow> (nat \<Rightarrow> string option) \<Rightarrow> world \<Rightarrow> string \<Rightarrow> world result" where
  "releaseRetainedWorker cfg now rm w sid = bindR (store_get (w_store w) sid) (\<lambda>rec.
     case rec of
       None \<Rightarrow> Inr w
     | Some r \<Rightarrow>
         if \<not> live_worker r then Inr w
         else (case releaseWorker cfg now rm w r of
           (w', out) \<Rightarrow>
             if \<not> released out then Inr w'
             else (case touch now (w_store w') sid [F_workerName None, F_workerState (Some DESTROYED)] None of
                 Inl _ \<Rightarrow> Inr w' | Inr (st', _) \<Rightarrow> Inr (w'\<lparr>w_store := st'\<rparr>))))"

section \<open>Interleaving\<close>

text \<open>
  Everything that can happen to the queue, the pool and the pending promises: a
  request, the end of a creation, a timer, a disconnect, a release, the store
  calls of the other operations, and changes of the state directory by git.
\<close>

inductive broker_step :: "broker_config \<Rightarrow> world \<Rightarrow> world \<Rightarrow> bool" for cfg where
  request: "broker_step cfg w (fst (ensureWorker cfg realpath git now w req))"
| finish: "i < length (w_tasks w) \<Longrightarrow> broker_step cfg w (finish_task cfg now env w i)"
| timeout: "broker_step cfg w (queue_timeout cfg w sid)"
| disconnect: "broker_step cfg w (queue_disconnect cfg now w sid)"
| release: "store_get (w_store w) sid = Inr (Some r) \<Longrightarrow> broker_step cfg w (fst (releaseWorker cfg now rm w r))"
| other: "broker_step cfg w (w\<lparr>w_store := store_step (w_store w) op\<rparr>)"
| git_writes: "broker_step cfg w (w\<lparr>w_files := fs\<rparr>)"

definition initial_world :: "store \<Rightarrow> files \<Rightarrow> world" where
  "initial_world st fs = \<lparr>w_store = st, w_pool = [], w_queue = empty_queue, w_files = fs, w_tasks = [],
     w_parked = [], w_settled = []\<rparr>"

definition queued_task :: "task \<Rightarrow> bool" where
  "queued_task tk = (tk_position tk \<noteq> None)"

text \<open>The sessions of the requests that waited and are not settled yet.\<close>

definition waiting_sessions :: "world \<Rightarrow> string multiset" where
  "waiting_sessions w = mset (map qe_sessionID (pq_entries (w_queue w))) +
     mset (map tk_session (filter queued_task (w_tasks w)))"

definition settled_sessions :: "world \<Rightarrow> string multiset" where
  "settled_sessions w = mset (map sm_session (filter sm_queued (w_settled w)))"

definition broker_inv :: "broker_config \<Rightarrow> world \<Rightarrow> bool" where
  "broker_inv cfg w = (one_per_session (w_queue w) \<and>
     pq_length (w_queue w) \<le> bc_queueMaxLength cfg \<and>
     pq_inFlight (w_queue w) = length (filter queued_task (w_tasks w)) \<and>
     mset (w_parked w) = waiting_sessions w + settled_sessions w)"

section \<open>Lemmas\<close>

lemma create_begin_fields [simp]:
  "w_pool (fst (create_begin cfg now w req sid pid)) = w_pool w"
  "w_tasks (fst (create_begin cfg now w req sid pid)) = w_tasks w"
  "w_files (fst (create_begin cfg now w req sid pid)) = w_files w"
  "w_parked (fst (create_begin cfg now w req sid pid)) = w_parked w"
  "w_settled (fst (create_begin cfg now w req sid pid)) = w_settled w"
  by (simp_all add: create_begin_def split: sum.split option.split)

lemma gc_fields [simp]:
  "w_store (gcSessionArtifacts cfg rp w sid d) = w_store w"
  "w_pool (gcSessionArtifacts cfg rp w sid d) = w_pool w"
  "w_queue (gcSessionArtifacts cfg rp w sid d) = w_queue w"
  "w_tasks (gcSessionArtifacts cfg rp w sid d) = w_tasks w"
  "w_parked (gcSessionArtifacts cfg rp w sid d) = w_parked w"
  "w_settled (gcSessionArtifacts cfg rp w sid d) = w_settled w"
  by (simp_all add: gcSessionArtifacts_def split: sum.split option.split)

lemma create_fail_fields [simp]:
  "w_pool (create_fail cfg now env w sid e) = w_pool w"
  "w_queue (create_fail cfg now env w sid e) = w_queue w"
  "w_tasks (create_fail cfg now env w sid e) = w_tasks w"
  "w_parked (create_fail cfg now env w sid e) = w_parked w"
  "w_settled (create_fail cfg now env w sid e) = w_settled w"
  by (simp_all add: create_fail_def split: sum.split)

lemma create_finish_fields [simp]:
  "w_queue (fst (create_finish cfg now env w req sid pid)) = w_queue w"
  "w_tasks (fst (create_finish cfg now env w req sid pid)) = w_tasks w"
  "w_parked (fst (create_finish cfg now env w req sid pid)) = w_parked w"
  "w_settled (fst (create_finish cfg now env w req sid pid)) = w_settled w"
  by (simp_all add: create_finish_def Let_def split: sum.split)

lemma run_task_fields [simp]:
  "w_queue (fst (run_task cfg now env w tk)) = w_queue w"
  "w_tasks (fst (run_task cfg now env w tk)) = w_tasks w"
  "w_parked (fst (run_task cfg now env w tk)) = w_parked w"
  "w_settled (fst (run_task cfg now env w tk)) = w_settled w"
  by (simp_all add: run_task_def split: begun.split)

lemma start_queued_fields [simp]:
  "w_pool (start_queued cfg now w e) = w_pool w"
  "w_parked (start_queued cfg now w e) = w_parked w"
  "w_settled (start_queued cfg now w e) = w_settled w"
  "w_files (start_queued cfg now w e) = w_files w"
  by (simp_all add: start_queued_def add_task_def case_prod_beta)

lemma start_queued_tasks:
  "\<exists>tk. w_tasks (start_queued cfg now w e) = w_tasks w @ [tk] \<and> tk_session tk = qe_sessionID e \<and> queued_task tk"
  by (simp add: start_queued_def add_task_def case_prod_beta queued_task_def)

lemma admit_head_fields [simp]:
  "w_pool (admit_head w e) = w_pool w" "w_tasks (admit_head w e) = w_tasks w"
  "w_parked (admit_head w e) = w_parked w" "w_settled (admit_head w e) = w_settled w"
  "w_store (admit_head w e) = w_store w" "w_files (admit_head w e) = w_files w"
  "pq_inFlight (w_queue (admit_head w e)) = Suc (pq_inFlight (w_queue w))"
  by (simp_all add: admit_head_def)

lemma admit_head_entries:
  "one_per_session (w_queue w) \<Longrightarrow> pq_head (w_queue w) = Some e \<Longrightarrow>
   pq_entries (w_queue w) = e # pq_entries (w_queue (admit_head w e))"
  using pending.items_del_front by (simp add: admit_head_def)

lemma one_per_session_admit:
  "one_per_session (w_queue w) \<Longrightarrow> one_per_session (w_queue (admit_head w e))"
  using pending.invar_del by (simp add: admit_head_def one_per_session_def)

lemma admissionFor_reserved: "admissionFor cfg w = checkAdmission (reserved_pool cfg w) (bc_budget cfg) None None"
  by (simp add: admissionFor_def reserved_pool_def)

lemma reserved_pool_admit:
  "reserved_pool cfg (start_queued cfg now (admit_head w e) e) =
     reserved_pool cfg w @ [worker_share (bc_budget cfg) None]"
  by (simp add: reserved_pool_def replicate_append_same)

lemma drain_idle:
  "\<nexists>e. pq_head (w_queue w) = Some e \<and> allowed (admissionFor cfg w) \<Longrightarrow> drainQueue cfg now w = w"
  by (subst drainQueue.simps) (auto split: option.split)

lemma drain_go:
  "pq_head (w_queue w) = Some e \<Longrightarrow> allowed (admissionFor cfg w) \<Longrightarrow>
   drainQueue cfg now w = drainQueue cfg now (start_queued cfg now (admit_head w e) e)"
  by (subst drainQueue.simps) simp

lemma drain_admits_prefix:
  assumes "one_per_session (w_queue w)"
  shows "\<exists>n tks. n \<le> length (pq_entries (w_queue w)) \<and>
     pq_entries (w_queue (drainQueue cfg now w)) = drop n (pq_entries (w_queue w)) \<and>
     w_tasks (drainQueue cfg now w) = w_tasks w @ tks \<and> list_all queued_task tks \<and>
     map tk_session tks = map qe_sessionID (take n (pq_entries (w_queue w))) \<and>
     pq_inFlight (w_queue (drainQueue cfg now w)) = pq_inFlight (w_queue w) + n \<and>
     w_pool (drainQueue cfg now w) = w_pool w \<and> w_parked (drainQueue cfg now w) = w_parked w \<and>
     w_settled (drainQueue cfg now w) = w_settled w \<and> w_files (drainQueue cfg now w) = w_files w"
  using assms
proof (induction cfg now w rule: drainQueue.induct)
  case (1 cfg now w)
  show ?case
  proof (cases "\<exists>e. pq_head (w_queue w) = Some e \<and> allowed (admissionFor cfg w)")
    case False
    then have "drainQueue cfg now w = w" by (rule drain_idle)
    then show ?thesis by (intro exI [of _ 0] exI [of _ "[]"]) simp
  next
    case True
    then obtain e where e: "pq_head (w_queue w) = Some e" "allowed (admissionFor cfg w)" by blast
    define w' where "w' = start_queued cfg now (admit_head w e) e"
    have d: "drainQueue cfg now w = drainQueue cfg now w'"
      using drain_go [OF e] by (simp add: w'_def)
    have es: "pq_entries (w_queue w) = e # pq_entries (w_queue w')"
      using admit_head_entries [OF 1(2) e(1)] by (simp add: w'_def)
    obtain tk where tk: "w_tasks w' = w_tasks w @ [tk]" "tk_session tk = qe_sessionID e" "queued_task tk"
      using start_queued_tasks [of cfg now "admit_head w e" e] by (auto simp: w'_def)
    from 1(1) [OF e(1)] e(2) one_per_session_admit [OF 1(2)] obtain n tks where
      "n \<le> length (pq_entries (w_queue w'))"
      "pq_entries (w_queue (drainQueue cfg now w')) = drop n (pq_entries (w_queue w'))"
      "w_tasks (drainQueue cfg now w') = w_tasks w' @ tks" "list_all queued_task tks"
      "map tk_session tks = map qe_sessionID (take n (pq_entries (w_queue w')))"
      "pq_inFlight (w_queue (drainQueue cfg now w')) = pq_inFlight (w_queue w') + n"
      "w_pool (drainQueue cfg now w') = w_pool w'" "w_parked (drainQueue cfg now w') = w_parked w'"
      "w_settled (drainQueue cfg now w') = w_settled w'" "w_files (drainQueue cfg now w') = w_files w'"
      by (auto simp: w'_def)
    then show ?thesis using tk es d
      by (intro exI [of _ "Suc n"] exI [of _ "tk # tks"]) (simp add: w'_def)
  qed
qed

lemma drain_within_budget:
  "within_budget (bc_budget cfg) (reserved_pool cfg w) \<Longrightarrow>
   within_budget (bc_budget cfg) (reserved_pool cfg (drainQueue cfg now w))"
proof (induction cfg now w rule: drainQueue.induct)
  case (1 cfg now w)
  show ?case
  proof (cases "\<exists>e. pq_head (w_queue w) = Some e \<and> allowed (admissionFor cfg w)")
    case False
    then have "drainQueue cfg now w = w" by (rule drain_idle)
    with 1(2) show ?thesis by simp
  next
    case True
    then obtain e where e: "pq_head (w_queue w) = Some e" "allowed (admissionFor cfg w)" by blast
    then have d: "drainQueue cfg now w = drainQueue cfg now (start_queued cfg now (admit_head w e) e)"
      by (rule drain_go)
    have "within_budget (bc_budget cfg) (reserved_pool cfg w @ [worker_share (bc_budget cfg) None])"
      using e(2) by (auto simp: admissionFor_reserved allowed_default within_budget_def worker_share_def)
    with 1(1) [OF e(1)] e(2) d show ?thesis by (simp add: reserved_pool_admit)
  qed
qed

lemma drain_stops:
  "pq_entries (w_queue (drainQueue cfg now w)) = [] \<or> \<not> allowed (admissionFor cfg (drainQueue cfg now w))"
proof (induction cfg now w rule: drainQueue.induct)
  case (1 cfg now w)
  show ?case
  proof (cases "\<exists>e. pq_head (w_queue w) = Some e \<and> allowed (admissionFor cfg w)")
    case False
    then show ?thesis using drain_idle [OF False, of now] by (auto simp: pq_head_def split: list.splits)
  next
    case True
    then obtain e where "pq_head (w_queue w) = Some e" "allowed (admissionFor cfg w)" by blast
    with 1 [OF this(1)] show ?thesis by (simp add: drain_go)
  qed
qed

text \<open>The drain keeps the accounting of promises.\<close>

lemma drain_inv:
  assumes "broker_inv cfg w"
  shows "broker_inv cfg (drainQueue cfg now w)"
proof -
  from assms have one: "one_per_session (w_queue w)" by (simp add: broker_inv_def)
  from drain_admits_prefix [OF one] obtain n tks where d:
    "n \<le> length (pq_entries (w_queue w))"
    "pq_entries (w_queue (drainQueue cfg now w)) = drop n (pq_entries (w_queue w))"
    "w_tasks (drainQueue cfg now w) = w_tasks w @ tks" "list_all queued_task tks"
    "map tk_session tks = map qe_sessionID (take n (pq_entries (w_queue w)))"
    "pq_inFlight (w_queue (drainQueue cfg now w)) = pq_inFlight (w_queue w) + n"
    "w_parked (drainQueue cfg now w) = w_parked w" "w_settled (drainQueue cfg now w) = w_settled w"
    by blast
  have tks: "filter queued_task tks = tks" "length tks = n"
    using d(1,4) arg_cong [OF d(5), of length] by (auto simp: list_all_iff)
  have "mset (map qe_sessionID (drop n (pq_entries (w_queue w)))) + mset (map tk_session tks) =
      mset (map qe_sessionID (pq_entries (w_queue w)))"
    unfolding d(5) by (metis append_take_drop_id mset_append map_append add.commute)
  then have "waiting_sessions (drainQueue cfg now w) = waiting_sessions w"
    by (simp add: waiting_sessions_def d(2,3) tks)
  then show ?thesis
    using assms one d tks by (auto simp: broker_inv_def settled_sessions_def pq_length_def one_per_session_def
        distinct_drop simp flip: drop_map)
qed

lemma ensureWorker_inv:
  assumes "broker_inv cfg w"
  shows "broker_inv cfg (fst (ensureWorker cfg realpath git now w req))"
proof -
  have store: "broker_inv cfg (v\<lparr>w_store := st\<rparr>) = broker_inv cfg v" for v st
    by (simp add: broker_inv_def waiting_sessions_def settled_sessions_def)
  have begin_inv: "broker_inv cfg (fst (create_begin cfg now v q sid pid)) = broker_inv cfg v" for v q sid pid
    by (simp add: broker_inv_def waiting_sessions_def settled_sessions_def)
  have task: "broker_inv cfg (add_task v q sid pid None ph) = broker_inv cfg v" for v q sid pid ph
    by (simp add: broker_inv_def waiting_sessions_def settled_sessions_def add_task_def queued_task_def)
  have park: "broker_inv cfg (fst (parkAndWait cfg v q pid))" if v: "broker_inv cfg v" for v q pid
    using v
    by (auto simp: parkAndWait_def Let_def broker_inv_def waiting_sessions_def settled_sessions_def
        pq_length_def pq_enqueue_def one_per_session_def pq_find_def find_None_iff split: option.split)
  have "broker_inv cfg (fst (admit_or_park cfg now v q pid))" if v: "broker_inv cfg v" for v q pid
    using park [OF v] v begin_inv [of v q "env_sessionID q" pid]
    by (auto simp: admit_or_park_def task split: admission.split prod.split begun.split)
  then show ?thesis using assms
    by (auto simp: ensureWorker_def ensure_state_gate_def store Let_def split: sum.split prod.split)
qed

lemma settle_fields [simp]:
  "w_store (settle w sid q out) = w_store w" "w_pool (settle w sid q out) = w_pool w"
  "w_queue (settle w sid q out) = w_queue w" "w_files (settle w sid q out) = w_files w"
  "w_tasks (settle w sid q out) = w_tasks w" "w_parked (settle w sid q out) = w_parked w"
  "settled_sessions (settle w sid q out) = settled_sessions w + (if q then {#sid#} else {#})"
  "waiting_sessions (settle w sid q out) = waiting_sessions w"
  by (simp_all add: settle_def settled_sessions_def waiting_sessions_def)

lemma finish_inv:
  assumes inv: "broker_inv cfg w" and i: "i < length (w_tasks w)"
  shows "broker_inv cfg (finish_task cfg now env w i)"
proof -
  define tk where "tk = w_tasks w ! i"
  define w0 where "w0 = w\<lparr>w_tasks := take i (w_tasks w) @ drop (Suc i) (w_tasks w)\<rparr>"
  have ts: "w_tasks w = take i (w_tasks w) @ tk # drop (Suc i) (w_tasks w)"
    using i by (simp add: tk_def id_take_nth_drop)
  have cnt: "length (filter queued_task (w_tasks w)) =
      length (filter queued_task (w_tasks w0)) + (if queued_task tk then 1 else 0)"
    by (subst ts) (simp add: w0_def)
  have wait: "waiting_sessions w = waiting_sessions w0 + (if queued_task tk then {#tk_session tk#} else {#})"
    using arg_cong [OF ts, of "\<lambda>xs. mset (map tk_session (filter queued_task xs))"]
    by (simp add: waiting_sessions_def w0_def)
  obtain w1 out where r: "run_task cfg now env w0 tk = (w1, out)" by fastforce
  have w1: "w_queue w1 = w_queue w" "w_tasks w1 = w_tasks w0" "w_parked w1 = w_parked w" "w_settled w1 = w_settled w"
    using run_task_fields [of cfg now env w0 tk] by (simp_all add: r) (simp_all add: w0_def)
  have same: "waiting_sessions w1 = waiting_sessions w0" "settled_sessions w1 = settled_sessions w"
    using w1 by (simp_all add: waiting_sessions_def settled_sessions_def w0_def)
  show ?thesis
  proof (cases "tk_position tk")
    case None
    then have "finish_task cfg now env w i = settle w1 (tk_session tk) False out"
      by (simp add: finish_task_def Let_def r flip: tk_def w0_def)
    with inv wait cnt w1 same None show ?thesis by (simp add: broker_inv_def queued_task_def)
  next
    case (Some pos)
    define w2 where "w2 = settle w1 (tk_session tk) True
      (case out of Inl e \<Rightarrow> Inl e | Inr a \<Rightarrow> Inr (a\<lparr>ea_queued := Some pos\<rparr>))"
    define w3 where "w3 = w2\<lparr>w_queue := (w_queue w2)\<lparr>pq_inFlight := pq_inFlight (w_queue w2) - 1\<rparr>\<rparr>"
    have "finish_task cfg now env w i = drainQueue cfg now w3"
      using Some by (simp add: finish_task_def Let_def r w2_def w3_def flip: tk_def w0_def)
    moreover have "waiting_sessions w3 = waiting_sessions w0" "settled_sessions w3 = settled_sessions w + {#tk_session tk#}"
      using same by (simp_all add: w3_def w2_def waiting_sessions_def settled_sessions_def settle_def)
    then have "broker_inv cfg w3"
      using inv wait cnt w1 Some
      by (simp add: broker_inv_def queued_task_def w3_def w2_def one_per_session_def pq_length_def)
    ultimately show ?thesis by (simp add: drain_inv)
  qed
qed

lemma mset_filter_distinct:
  assumes "distinct xs" "x \<in> set xs"
  shows "mset xs = add_mset x (mset (filter (\<lambda>y. y \<noteq> x) xs))"
proof -
  have "filter (\<lambda>y. y \<noteq> x) xs = remove1 x xs"
    using assms by (simp add: distinct_remove1_removeAll removeAll_filter_not_eq eq_commute)
  with assms show ?thesis by simp
qed

text \<open>Taking one waiting session out of the queue and settling its promise.\<close>

lemma dequeue_inv:
  assumes inv: "broker_inv cfg w" and r: "pq_remove sid (w_queue w) = (Some e, q')"
  shows "broker_inv cfg (settle (w\<lparr>w_queue := q'\<rparr>) sid True out)"
proof -
  have one: "one_per_session (w_queue w)" using inv by (simp add: broker_inv_def)
  have e: "e \<in> set (pq_entries (w_queue w))" "qe_sessionID e = sid"
    and q': "q' = snd (pq_remove sid (w_queue w))"
    using r by (auto simp: pq_remove_def pq_find_def dest: find_Some_mem)
  have keys: "map qe_sessionID (pq_entries q') = filter (\<lambda>x. x \<noteq> sid) (map qe_sessionID (pq_entries (w_queue w)))"
    unfolding q' by (rule pending.keys_del [OF one])
  have "distinct (map qe_sessionID (pq_entries (w_queue w)))" "sid \<in> set (map qe_sessionID (pq_entries (w_queue w)))"
    using one e by (auto simp: one_per_session_def)
  then have m: "mset (map qe_sessionID (pq_entries (w_queue w))) = add_mset sid (mset (map qe_sessionID (pq_entries q')))"
    unfolding keys by (rule mset_filter_distinct)
  have len: "length (pq_entries q') \<le> length (pq_entries (w_queue w))"
    unfolding q' by (simp add: pq_remove_def length_removeFirst_le)
  show ?thesis
    using inv m len pending.invar_del [OF one, of sid]
    by (simp add: broker_inv_def waiting_sessions_def pq_length_def flip: q')
       (simp add: q' settled_sessions_def)
qed

lemma timeout_inv: "broker_inv cfg w \<Longrightarrow> broker_inv cfg (queue_timeout cfg w sid)"
  using dequeue_inv by (auto simp: queue_timeout_def split: prod.split option.split)

lemma disconnect_inv: "broker_inv cfg w \<Longrightarrow> broker_inv cfg (queue_disconnect cfg now w sid)"
  using dequeue_inv
  by (auto simp: queue_disconnect_def pq_cancel_def intro!: drain_inv split: prod.splits option.splits)

lemma release_inv:
  assumes "broker_inv cfg w"
  shows "broker_inv cfg (fst (releaseWorker cfg now rm w r))"
proof -
  have "broker_inv cfg (w\<lparr>w_pool := p\<rparr>)" for p
    using assms by (simp add: broker_inv_def waiting_sessions_def settled_sessions_def)
  with assms show ?thesis by (auto simp: releaseWorker_def intro: drain_inv)
qed

lemma broker_step_inv: "broker_step cfg w w' \<Longrightarrow> broker_inv cfg w \<Longrightarrow> broker_inv cfg w'"
proof (induction rule: broker_step.induct)
  case (other w op)
  then show ?case by (simp add: broker_inv_def waiting_sessions_def settled_sessions_def)
next
  case (git_writes w fs)
  then show ?case by (simp add: broker_inv_def waiting_sessions_def settled_sessions_def)
qed (simp_all add: ensureWorker_inv finish_inv timeout_inv disconnect_inv release_inv)

lemma initial_inv: "broker_inv cfg (initial_world st fs)"
  by (simp add: broker_inv_def initial_world_def empty_queue_def one_per_session_def pq_length_def
      waiting_sessions_def settled_sessions_def)

interpretation broker: transition_system "\<lambda>w. \<exists>st fs. w = initial_world st fs" "broker_step cfg" "broker_inv cfg"
  by unfold_locales (auto intro: initial_inv broker_step_inv)

lemma drain_pool [simp]: "w_pool (drainQueue cfg now w) = w_pool w"
proof (induction cfg now w rule: drainQueue.induct)
  case (1 cfg now w)
  show ?case
  proof (cases "\<exists>e. pq_head (w_queue w) = Some e \<and> allowed (admissionFor cfg w)")
    case False
    then show ?thesis by (simp add: drain_idle)
  next
    case True
    then obtain e where "pq_head (w_queue w) = Some e" "allowed (admissionFor cfg w)" by blast
    with 1 [OF this(1)] show ?thesis by (simp add: drain_go)
  qed
qed

definition owned_by :: "string \<Rightarrow> worker_pool \<Rightarrow> worker_pool" where
  "owned_by sid pool = filter (\<lambda>a. wa_sessionID a = Some sid) pool"

lemma removePoolAllocation_other:
  "sid \<noteq> sr_sessionID r \<Longrightarrow> owned_by sid (removePoolAllocation pool r) = owned_by sid pool"
  by (induction pool) (auto simp: removePoolAllocation_def owned_by_def)

lemma removePoolAllocation_own:
  "owned_by (sr_sessionID r) (removePoolAllocation pool r) = tl (owned_by (sr_sessionID r) pool)"
  by (induction pool) (auto simp: removePoolAllocation_def owned_by_def)

section \<open>Properties\<close>

text \<open>
  C9.  The drain is first-in first-out and never promises more than the budget: it
  starts exactly a prefix of the waiting requests, in their order, one task each;
  the pool together with the started creations stays within the budget; and it
  stops only when nobody waits or the next request does not fit.  (It always
  returns: the recursion is over the length of the queue.)
\<close>

theorem drain_fifo_within_budget:
  assumes "one_per_session (w_queue w)" "within_budget (bc_budget cfg) (reserved_pool cfg w)"
  shows "let w' = drainQueue cfg now w in
     within_budget (bc_budget cfg) (reserved_pool cfg w') \<and>
     (pq_entries (w_queue w') = [] \<or> \<not> allowed (admissionFor cfg w')) \<and>
     (\<exists>n. pq_entries (w_queue w') = drop n (pq_entries (w_queue w)) \<and>
        map tk_session (w_tasks w') = map tk_session (w_tasks w) @
          map qe_sessionID (take n (pq_entries (w_queue w))))"
  using drain_within_budget [OF assms(2), of now] drain_stops [of cfg now w]
    drain_admits_prefix [OF assms(1), of cfg now]
  unfolding Let_def by (metis map_append)

definition demo_config :: "int \<Rightarrow> broker_config" where
  "demo_config n = \<lparr>bc_stateDir = ''/st'', bc_projects = [\<lparr>pr_id = ''demo'', pr_path = ''/p''\<rparr>],
     bc_readOnlyAgents = [''orchestrator''], bc_queueMaxLength = 4, bc_queueTimeoutMs = 1000,
     bc_workerNamePrefix = ''oc'', bc_protectedPaths = [''.git/**''], bc_protectedSecurityFiles = [''broker/src/**''],
     bc_planRootProtection = False, bc_realGit = True,
     bc_budget = \<lparr>perWorkerCpu = 1, perWorkerMemBytes = 1, maxAggregateCpu = of_int n, maxAggregateMemBytes = n,
       maxWorkers = n, hostReservedCpu = 1, hostReservedMemBytes = 1\<rparr>\<rparr>"

definition demo_request :: "string \<Rightarrow> string \<Rightarrow> envelope" where
  "demo_request sid agent = \<lparr>env_id = ''1'', env_operation = ''ensureWorker'', env_sessionID = sid,
     env_agent = JStr agent, env_payload = JObj [(''projectDir'', JStr ''/p'')]\<rparr>"

definition demo_waiting :: world where
  "demo_waiting = (initial_world Map.empty Map.empty)\<lparr>w_queue :=
     pq_enqueue \<lparr>qe_sessionID = ''s2'', qe_request = demo_request ''s2'' ''coder'', qe_projectID = ''demo'', qe_position = 0\<rparr>
       (pq_enqueue \<lparr>qe_sessionID = ''s1'', qe_request = demo_request ''s1'' ''coder'', qe_projectID = ''demo'', qe_position = 0\<rparr>
          empty_queue)\<rparr>"

theorem drain_fifo_within_budget_witness:
  "let w' = drainQueue (demo_config 1) 5 demo_waiting in
     within_budget (bc_budget (demo_config 1)) (reserved_pool (demo_config 1) w') \<and>
     (pq_entries (w_queue w') = [] \<or> \<not> allowed (admissionFor (demo_config 1) w')) \<and>
     (\<exists>n. pq_entries (w_queue w') = drop n (pq_entries (w_queue demo_waiting)) \<and>
        map tk_session (w_tasks w') = map tk_session (w_tasks demo_waiting) @
          map qe_sessionID (take n (pq_entries (w_queue demo_waiting))))"
  by (rule drain_fifo_within_budget)
     (simp_all add: demo_waiting_def initial_world_def one_per_session_def pq_enqueue_def empty_queue_def
       within_budget_def reserved_pool_def demo_config_def)

text \<open>
  C2.  No waiter is lost and none is answered twice: whatever requests, creations,
  timers, disconnects, releases and other operations interleave, every request that
  was parked is either still waiting (in the queue or in a started creation) or was
  settled exactly once; the in-flight counter is the number of started creations;
  a session waits at most once, and the queue stays within its bound.
\<close>

theorem no_waiter_lost:
  assumes "(broker_step cfg)\<^sup>*\<^sup>* (initial_world st fs) w"
  shows "mset (w_parked w) = waiting_sessions w + settled_sessions w \<and>
     pq_inFlight (w_queue w) = length (filter queued_task (w_tasks w)) \<and>
     one_per_session (w_queue w) \<and> pq_length (w_queue w) \<le> bc_queueMaxLength cfg"
  using broker.invar_reachable [OF _ assms] by (auto simp: broker_inv_def)

definition demo_git :: spawn_fn where
  "demo_git idx argv = Inr \<lparr>sp_status = Some 0, sp_stdout = [], sp_stderr = []\<rparr>"

definition demo_parked :: world where
  "demo_parked = fst (ensureWorker (demo_config 0) Some demo_git 5 (initial_world Map.empty Map.empty)
     (demo_request ''s1'' ''coder''))"

theorem no_waiter_lost_witness:
  "mset (w_parked demo_parked) = waiting_sessions demo_parked + settled_sessions demo_parked \<and>
     pq_inFlight (w_queue demo_parked) = length (filter queued_task (w_tasks demo_parked)) \<and>
     one_per_session (w_queue demo_parked) \<and> pq_length (w_queue demo_parked) \<le> bc_queueMaxLength (demo_config 0)"
  by (rule no_waiter_lost [where st = Map.empty and fs = Map.empty], rule r_into_rtranclp)
     (simp only: demo_parked_def broker_step.request)

text \<open>
  A release frees exactly the allocation of its session: when both removal
  attempts of a live worker fail nothing changes, otherwise the session loses one
  allocation, every other session keeps all of its allocations, and the queue has
  been drained as far as the budget allows.
\<close>

theorem release_frees_only_its_session:
  "case releaseWorker cfg now rm w r of
     (w', RemoveFailed msg) \<Rightarrow> w' = w \<and> live_worker r \<and> rm 0 \<noteq> None \<and> rm 1 = Some msg
   | (w', out) \<Rightarrow>
       owned_by (sr_sessionID r) (w_pool w') = tl (owned_by (sr_sessionID r) (w_pool w)) \<and>
       (\<forall>sid. sid = sr_sessionID r \<or> owned_by sid (w_pool w') = owned_by sid (w_pool w)) \<and>
       (pq_entries (w_queue w') = [] \<or> \<not> allowed (admissionFor cfg w'))"
proof -
  have "\<forall>sid. sid = sr_sessionID r \<or> owned_by sid (removePoolAllocation (w_pool w) r) = owned_by sid (w_pool w)"
    using removePoolAllocation_other by blast
  with drain_stops [of cfg now "w\<lparr>w_pool := removePoolAllocation (w_pool w) r\<rparr>"] show ?thesis
    by (auto simp: releaseWorker_def removePoolAllocation_own)
qed

theorem release_frees_only_its_session_witness:
  "let share = worker_share (bc_budget (demo_config 2));
       w = (initial_world Map.empty Map.empty)\<lparr>w_pool := [share (Some ''s1''), share (Some ''s2'')]\<rparr>;
       r = (new_record ''s1'' (Iso 0))\<lparr>sr_workerName := Some ''w1'', sr_workerState := Some ACTIVE\<rparr>;
       w' = fst (releaseWorker (demo_config 2) 5 (\<lambda>n. if n = 0 then Some ''busy'' else None) w r)
   in owned_by ''s1'' (w_pool w') = [] \<and> owned_by ''s2'' (w_pool w') = [share (Some ''s2'')]"
  using release_frees_only_its_session [where cfg = "demo_config 2" and now = 5 and rm = "\<lambda>n. if n = 0 then Some ''busy'' else None"
      and w = "(initial_world Map.empty Map.empty)\<lparr>w_pool := [worker_share (bc_budget (demo_config 2)) (Some ''s1''),
         worker_share (bc_budget (demo_config 2)) (Some ''s2'')]\<rparr>"
      and r = "(new_record ''s1'' (Iso 0))\<lparr>sr_workerName := Some ''w1'', sr_workerState := Some ACTIVE\<rparr>"]
  by (auto simp: releaseWorker_def live_worker_def owned_by_def worker_share_def Let_def dest!: spec [of _ "''s2''"])


definition demo_creating :: world where
  "demo_creating = initial_world [''s1'' \<mapsto> Stored ((new_record ''s1'' (Iso 0))\<lparr>sr_state := CREATING_SANDBOX\<rparr>)] Map.empty"

definition demo_env :: creation_env where
  "demo_env = \<lparr>ce_dotGit = True, ce_mkdir = Inr (), ce_chmod = Inr (), ce_git = demo_git, ce_createWorker = Inr (),
     ce_copyIn = Inr (), ce_exec = \<lambda>n argv. demo_git None argv, ce_revParse = \<lambda>p r. None\<rparr>"


text \<open>
  A read-only orchestrator never gets a worker and leaves no trace: whether the
  caller names such an agent or the session is bound to one, the request is refused
  with a policy error and the broker state is unchanged.
\<close>

theorem orchestrator_gets_no_worker:
  assumes "store_get (w_store w) (env_sessionID req) = Inr existing"
    and "read_only cfg (trusted_agent existing req) \<or> read_only cfg (req_agent req)"
  shows "\<exists>msg. ensureWorker cfg realpath git now w req = (w, Answered (Inl (PolicyError msg)))"
  using assms by (auto simp: ensureWorker_def orchestrator_refusal_def Let_def)

theorem orchestrator_gets_no_worker_witness:
  "\<exists>msg. ensureWorker (demo_config 1) Some demo_git 5 (initial_world Map.empty Map.empty)
     (demo_request ''s1'' ''orchestrator'') = (initial_world Map.empty Map.empty, Answered (Inl (PolicyError msg)))"
  by (rule orchestrator_gets_no_worker [where existing = None])
     (simp_all add: store_get_def initial_world_def read_only_def req_agent_def demo_request_def demo_config_def)

text \<open>A request of an unknown session that passes the checks before admission.\<close>

definition fresh_request :: "broker_config \<Rightarrow> (string \<Rightarrow> string option) \<Rightarrow> world \<Rightarrow> envelope \<Rightarrow> string \<Rightarrow> bool" where
  "fresh_request cfg realpath w req pid = (w_store w (env_sessionID req) = None \<and> \<not> read_only cfg (req_agent req) \<and>
     (\<exists>payload. payloadOf req = Inr payload \<and>
        resolveProjectID realpath (js_get payload ''projectDir'') (bc_projects cfg) = Inr pid))"

lemma ensure_fresh:
  assumes "fresh_request cfg realpath w req pid" "allowed (admissionFor cfg w)"
  shows "\<exists>st'. ensureWorker cfg realpath git now w req =
      (add_task (w\<lparr>w_store := st'\<rparr>) req (env_sessionID req) pid None Creating, InProgress) \<and>
    (\<forall>s. s = env_sessionID req \<or> st' s = w_store w s)"
proof -
  from assms(1) obtain payload where f: "w_store w (env_sessionID req) = None" "\<not> read_only cfg (req_agent req)"
    "payloadOf req = Inr payload" "resolveProjectID realpath (js_get payload ''projectDir'') (bc_projects cfg) = Inr pid"
    by (auto simp: fresh_request_def)
  from assms(2) obtain c m where adm: "admissionFor cfg w = Allowed c m" by (auto simp: allowed_iff)
  have adm': "admissionFor cfg (w\<lparr>w_store := st\<rparr>) = Allowed c m" for st
    using adm by (simp add: admissionFor_reserved) (simp add: reserved_pool_def)
  have get: "store_get (w_store w) (env_sessionID req) = Inr None" using f(1) by (simp add: store_get_def)
  have agent: "(case req_agent req of None \<Rightarrow> req_agent req | Some a \<Rightarrow> Some a) = req_agent req"
    by (simp split: option.split)
  show ?thesis
    using f(1,2)
    by (simp add: ensureWorker_def get f(3,4) trusted_agent_def touch_def ensure_state_gate_def live_worker_def
        admit_or_park_def adm' create_begin_def recordOr404_def transition_ok Let_def persist_def add_task_def agent)
      (rule exI, rule conjI, rule refl, simp)
qed

lemma finish_direct:
  assumes "w_tasks w = tk # ts" "tk_position tk = None" "tk_phase tk = Creating"
    "create_body cfg env (tk_request tk) (tk_session tk) (tk_project tk) = Inr x"
  shows "w_pool (finish_task cfg now env w 0) = w_pool w @ [worker_share (bc_budget cfg) (Some (tk_session tk))]"
    and "w_tasks (finish_task cfg now env w 0) = ts"
  using assms by (simp_all add: finish_task_def run_task_def create_finish_def Let_def split: sum.split prod.split)

text \<open>
  C39.  Direct admissions are not reserved while their creation is in flight: two
  sessions that ask one after the other while the pool has room are both admitted
  before either worker exists, and when both creations end the pool has grown by
  two workers.  Where the pool had room for one only, it is then over budget.
  (Only creations started by the drain are counted.)
\<close>

theorem concurrent_requests_oversubscribe:
  assumes "fresh_request cfg realpath w q1 p1" "fresh_request cfg realpath w q2 p2"
    "env_sessionID q1 \<noteq> env_sessionID q2" "allowed (admissionFor cfg w)" "w_tasks w = []"
    "create_body cfg env q1 (env_sessionID q1) p1 = Inr x1" "create_body cfg env q2 (env_sessionID q2) p2 = Inr x2"
    "int (length (w_pool w)) + 1 = maxWorkers (bc_budget cfg)"
  shows "let w1 = fst (ensureWorker cfg realpath git now w q1); w2 = fst (ensureWorker cfg realpath git now w1 q2);
             w3 = finish_task cfg now env (finish_task cfg now env w2 0) 0
         in length (w_pool w3) = length (w_pool w) + 2 \<and> \<not> within_budget (bc_budget cfg) (w_pool w3)"
proof -
  obtain st1 where w1: "fst (ensureWorker cfg realpath git now w q1) =
      add_task (w\<lparr>w_store := st1\<rparr>) q1 (env_sessionID q1) p1 None Creating" "\<forall>s. s = env_sessionID q1 \<or> st1 s = w_store w s"
    using ensure_fresh [OF assms(1,4), of git now] by auto
  have fresh: "fresh_request cfg realpath (add_task (w\<lparr>w_store := st1\<rparr>) q1 (env_sessionID q1) p1 None Creating) q2 p2"
    using assms(2,3) w1(2) [rule_format, of "env_sessionID q2"] by (auto simp: fresh_request_def add_task_def)
  have "allowed (admissionFor cfg (add_task (w\<lparr>w_store := st1\<rparr>) q1 (env_sessionID q1) p1 None Creating))"
    using assms(4) by (simp add: admissionFor_reserved) (simp add: reserved_pool_def add_task_def)
  from ensure_fresh [OF fresh this, of git now] obtain st2 where w2: "fst (ensureWorker cfg realpath git now (fst (ensureWorker cfg realpath git now w q1)) q2) =
      add_task ((add_task (w\<lparr>w_store := st1\<rparr>) q1 (env_sessionID q1) p1 None Creating)\<lparr>w_store := st2\<rparr>)
        q2 (env_sessionID q2) p2 None Creating"
    unfolding w1(1) by auto
  show ?thesis
    using assms(5-8) unfolding Let_def w2
    by (simp add: finish_direct [where x = x1] finish_direct [where x = x2] add_task_def within_budget_def)
qed

lemma baselineRef_s1: "baselineRef ''s1'' = Inr ''refs/opencode-sandbox/baseline/s1''"
  by (simp add: baselineRef_def assertRefComponent_def assertSessionID_def SESSION_ID_RE_def matches_def
      is_alnum_def is_alpha_def is_lower_def is_digit_def BASELINE_REF_PREFIX_def startsWith_def endsWith_def)

lemma baselineRef_s2: "baselineRef ''s2'' = Inr ''refs/opencode-sandbox/baseline/s2''"
  by (simp add: baselineRef_def assertRefComponent_def assertSessionID_def SESSION_ID_RE_def matches_def
      is_alnum_def is_alpha_def is_lower_def is_digit_def BASELINE_REF_PREFIX_def startsWith_def endsWith_def)

lemma payloadOf_demo: "payloadOf (demo_request sid agent) = Inr [(''projectDir'', JStr ''/p'')]"
  by (simp add: payloadOf_def demo_request_def ALLOWED_PAYLOAD_KEYS_def)

lemma demo_body:
  assumes "baselineRef sid = Inr bref"
  shows "create_body (demo_config n) demo_env (demo_request sid agent) sid ''demo'' =
    Inr (\<lparr>si_commit = [], si_tree = [], si_source = FromWorktree, si_resultRef = None, si_headSha = []\<rparr>, bref)"
proof -
  have prep: "prep_loop (\<lambda>n argv. demo_git None argv) xs = Inr ()" for xs
    by (induction xs) (simp_all add: demo_git_def spawn_ok_def numeral_3_eq_3)
  show ?thesis
    by (simp add: create_body_def payloadOf_demo runSnapshot_def assms demo_config_def projectDirFor_def
        ensureGitRepo_def demo_env_def js_get_def spawn_checked_def prep)
       (simp add: demo_git_def spawn_ok_def trim_def)
qed

lemma demo_fresh: "w_store w sid = None \<Longrightarrow> fresh_request (demo_config n) Some w (demo_request sid ''coder'') ''demo''"
  unfolding fresh_request_def payloadOf_demo
  by (simp add: demo_config_def read_only_def req_agent_def demo_request_def js_get_def assertMaxBytes_def
      isAbsolute_def startsWith_def isWithin_def)

theorem concurrent_requests_oversubscribe_witness:
  "let w0 = initial_world Map.empty Map.empty;
       w1 = fst (ensureWorker (demo_config 1) Some demo_git 5 w0 (demo_request ''s1'' ''coder''));
       w2 = fst (ensureWorker (demo_config 1) Some demo_git 5 w1 (demo_request ''s2'' ''coder''));
       w3 = finish_task (demo_config 1) 5 demo_env (finish_task (demo_config 1) 5 demo_env w2 0) 0
   in length (w_pool w3) = length (w_pool w0) + 2 \<and> \<not> within_budget (bc_budget (demo_config 1)) (w_pool w3)"
proof -
  have ids: "env_sessionID (demo_request sid a) = sid" for sid a by (simp add: demo_request_def)
  have w0: "w_store (initial_world Map.empty Map.empty) sid = None" "w_tasks (initial_world Map.empty Map.empty) = []"
    "w_pool (initial_world Map.empty Map.empty) = []" for sid
    by (simp_all add: initial_world_def)
  have adm: "allowed (admissionFor (demo_config 1) (initial_world Map.empty Map.empty))"
    by (simp add: admissionFor_def allowed_default initial_world_def empty_queue_def demo_config_def)
  show ?thesis
    using concurrent_requests_oversubscribe [OF demo_fresh demo_fresh _ adm _ , of "''s1''" "''s2''" demo_env _ _ demo_git 5]
    by (simp add: w0 ids demo_body [OF baselineRef_s1] demo_body [OF baselineRef_s2])
       (simp add: demo_config_def)
qed

text \<open>
  A finished session is never reopened by \<open>ensureWorker\<close>, although its state
  gate lets applied, retained and rejected sessions through to admission: the move to
  \<open>CREATING_SANDBOX\<close> is illegal from there, so an admitted request is answered with
  a state error and starts no creation.
\<close>

theorem finished_session_not_reopened:
  assumes "w_store w sid = Some (Stored r)" "sr_state r \<in> {APPLIED, RETAINED, REJECTED, APPLY_PENDING}"
    "\<not> read_only cfg (trusted_agent (Some r) req)"
  shows "\<exists>msg. create_begin cfg now w req sid pid = (w, Settled (Inl (StateError msg)))"
  using assms by (auto simp: create_begin_def recordOr404_def transition_def assertLegalTransition_def
      LEGAL_TRANSITIONS_def)

theorem finished_session_not_reopened_witness:
  "\<exists>msg. create_begin (demo_config 1) 5
      (initial_world [''s1'' \<mapsto> Stored ((new_record ''s1'' (Iso 0))\<lparr>sr_state := RETAINED\<rparr>)] Map.empty)
      (demo_request ''s1'' ''coder'') ''s1'' ''demo'' =
    (initial_world [''s1'' \<mapsto> Stored ((new_record ''s1'' (Iso 0))\<lparr>sr_state := RETAINED\<rparr>)] Map.empty,
     Settled (Inl (StateError msg)))"
  by (rule finished_session_not_reopened [where r = "(new_record ''s1'' (Iso 0))\<lparr>sr_state := RETAINED\<rparr>"])
     (simp_all add: initial_world_def new_record_def trusted_agent_def read_only_def req_agent_def demo_request_def demo_config_def)

end
