(* ===== verification/RolePolicy.thy ===== *)
theory RolePolicy
  imports SessionState
begin

text \<open>
  The capability model of \<^verbatim>\<open>broker/src/role-policy.ts\<close>: roles, capabilities,
  the classification of tools, the protected security paths and the decision
  function.
\<close>

section \<open>Capabilities and roles\<close>

datatype capability =
    READ_PROJECT
  | RESEARCH_EXTERNAL
  | MUTATE_PROJECT
  | HOST_APPROVED_MUTATION
  | EXECUTE_PROJECT
  | TEST_EXECUTION
  | HOST_READ_STRUCTURED
  | HOST_ADMIN_STRUCTURED
  | SECURITY_MUTATION
  | CONSULT
  | DELIBERATE

definition CAPABILITIES :: "(string \<times> capability) list" where
  "CAPABILITIES = [(''READ_PROJECT'', READ_PROJECT), (''RESEARCH_EXTERNAL'', RESEARCH_EXTERNAL),
     (''MUTATE_PROJECT'', MUTATE_PROJECT), (''HOST_APPROVED_MUTATION'', HOST_APPROVED_MUTATION),
     (''EXECUTE_PROJECT'', EXECUTE_PROJECT), (''TEST_EXECUTION'', TEST_EXECUTION),
     (''HOST_READ_STRUCTURED'', HOST_READ_STRUCTURED), (''HOST_ADMIN_STRUCTURED'', HOST_ADMIN_STRUCTURED),
     (''SECURITY_MUTATION'', SECURITY_MUTATION), (''CONSULT'', CONSULT), (''DELIBERATE'', DELIBERATE)]"

text \<open>
  A capability as the decision function receives it: a capability name, any other
  string, or a value that is not a string (the classification table answers with an
  inherited member of \<open>Object.prototype\<close> for the names of those members).
\<close>

datatype cap_value = Cap capability | OtherString string | NotAString

fun isCapability :: "cap_value \<Rightarrow> bool" where
  "isCapability (Cap _) = True"
| "isCapability _ = False"

definition cap_of_string :: "string \<Rightarrow> cap_value" where
  "cap_of_string s = (case map_of CAPABILITIES s of Some c \<Rightarrow> Cap c | None \<Rightarrow> OtherString s)"

datatype role = General | Researcher | Worker | Advisor | Solver | Challenger | Judge | Fresh_eyes | Planner | Pm

definition ROLES :: "(string \<times> role) list" where
  "ROLES = [(''general'', General), (''researcher'', Researcher), (''worker'', Worker), (''advisor'', Advisor),
     (''solver'', Solver), (''challenger'', Challenger), (''judge'', Judge), (''fresh_eyes'', Fresh_eyes),
     (''planner'', Planner), (''pm'', Pm)]"

definition isRole :: "string \<Rightarrow> bool" where
  "isRole s = (map_of ROLES s \<noteq> None)"

definition normalizeRoleKey :: "string \<Rightarrow> string" where
  "normalizeRoleKey s = (if s = ''fresh-eyes'' then ''fresh_eyes''
     else if s = ''pm-odd'' \<or> s = ''pm-systematic'' then ''pm'' else s)"

section \<open>Classification\<close>

definition TOOL_CLASSIFICATION_INVENTORY :: "(string \<times> capability) list" where
  "TOOL_CLASSIFICATION_INVENTORY =
     [(''read'', READ_PROJECT), (''list'', READ_PROJECT), (''bash'', HOST_ADMIN_STRUCTURED),
      (''edit'', HOST_ADMIN_STRUCTURED), (''write'', HOST_ADMIN_STRUCTURED),
      (''apply_patch'', HOST_ADMIN_STRUCTURED), (''patch'', HOST_ADMIN_STRUCTURED),
      (''grep'', READ_PROJECT), (''glob'', READ_PROJECT), (''codegraph_codegraph_explore'', READ_PROJECT),
      (''sandbox_read'', READ_PROJECT), (''sandbox_list'', READ_PROJECT), (''sandbox_grep'', READ_PROJECT),
      (''sandbox_diff'', READ_PROJECT), (''webfetch'', RESEARCH_EXTERNAL),
      (''websearch'', RESEARCH_EXTERNAL), (''context7_resolve-library-id'', RESEARCH_EXTERNAL),
      (''context7_query-docs'', RESEARCH_EXTERNAL), (''github_ro_get_commit'', RESEARCH_EXTERNAL),
      (''github_ro_get_file_contents'', RESEARCH_EXTERNAL), (''github_ro_get_label'', RESEARCH_EXTERNAL),
      (''github_ro_get_latest_release'', RESEARCH_EXTERNAL),
      (''github_ro_get_release_by_tag'', RESEARCH_EXTERNAL), (''github_ro_get_tag'', RESEARCH_EXTERNAL),
      (''github_ro_issue_read'', RESEARCH_EXTERNAL), (''github_ro_list_branches'', RESEARCH_EXTERNAL),
      (''github_ro_list_commits'', RESEARCH_EXTERNAL),
      (''github_ro_list_issue_fields'', RESEARCH_EXTERNAL),
      (''github_ro_list_issue_types'', RESEARCH_EXTERNAL), (''github_ro_list_issues'', RESEARCH_EXTERNAL),
      (''github_ro_list_pull_requests'', RESEARCH_EXTERNAL),
      (''github_ro_list_releases'', RESEARCH_EXTERNAL),
      (''github_ro_list_repository_collaborators'', RESEARCH_EXTERNAL),
      (''github_ro_list_tags'', RESEARCH_EXTERNAL), (''github_ro_pull_request_read'', RESEARCH_EXTERNAL),
      (''github_ro_search_code'', RESEARCH_EXTERNAL), (''github_ro_search_commits'', RESEARCH_EXTERNAL),
      (''github_ro_search_issues'', RESEARCH_EXTERNAL),
      (''github_ro_search_pull_requests'', RESEARCH_EXTERNAL),
      (''github_ro_search_repositories'', RESEARCH_EXTERNAL), (''sandbox_write'', MUTATE_PROJECT),
      (''sandbox_edit'', MUTATE_PROJECT), (''sandbox_apply_patch'', MUTATE_PROJECT),
      (''sandbox_finish'', MUTATE_PROJECT), (''sandbox_apply'', MUTATE_PROJECT),
      (''sandbox_copy_in'', MUTATE_PROJECT), (''sandbox_copy_out'', MUTATE_PROJECT),
      (''sandbox_discard'', MUTATE_PROJECT), (''sandbox_bash'', EXECUTE_PROJECT),
      (''host_test_run'', TEST_EXECUTION), (''host_sandbox_result'', HOST_READ_STRUCTURED),
      (''host_review_assess'', HOST_READ_STRUCTURED), (''host_review_mode_status'', HOST_READ_STRUCTURED),
      (''host_review_status'', HOST_READ_STRUCTURED), (''host_review_lens_context'', HOST_READ_STRUCTURED),
      (''host_review_diff_read'', HOST_READ_STRUCTURED),
      (''host_review_materialize'', HOST_READ_STRUCTURED),
      (''host_review_pipeline_run'', HOST_APPROVED_MUTATION),
      (''host_review_persist'', HOST_APPROVED_MUTATION),
      (''host_sandbox_result_install'', HOST_APPROVED_MUTATION),
      (''host_git_commit'', HOST_APPROVED_MUTATION),
      (''host_git_clear_commit_intent'', HOST_APPROVED_MUTATION),
      (''host_git_push'', HOST_APPROVED_MUTATION), (''host_gh_issue_create'', HOST_APPROVED_MUTATION),
      (''host_plan_append'', HOST_APPROVED_MUTATION), (''host_plan_write'', HOST_APPROVED_MUTATION),
      (''host_task_mark'', HOST_APPROVED_MUTATION), (''host_gate_verdict'', HOST_APPROVED_MUTATION),
      (''host_review_start'', HOST_APPROVED_MUTATION),
      (''host_review_capture_result'', HOST_APPROVED_MUTATION),
      (''host_review_capture_unachievable'', HOST_APPROVED_MUTATION),
      (''host_review_acknowledge_approved'', HOST_APPROVED_MUTATION),
      (''host_review_capture_correction_plan'', HOST_APPROVED_MUTATION),
      (''host_review_capture_refuter'', HOST_APPROVED_MUTATION),
      (''host_review_capture_validation'', HOST_APPROVED_MUTATION),
      (''host_review_validate'', HOST_APPROVED_MUTATION),
      (''host_review_recover'', HOST_APPROVED_MUTATION),
      (''host_register_project'', HOST_APPROVED_MUTATION), (''host_sdd_status'', HOST_READ_STRUCTURED),
      (''host_sdd_continue'', HOST_READ_STRUCTURED), (''host_sdd_task_result'', HOST_READ_STRUCTURED),
      (''host_sdd_archive_compose'', HOST_APPROVED_MUTATION),
      (''host_sdd_attempt_grant'', HOST_APPROVED_MUTATION), (''sddArchiveCompose'', MUTATE_PROJECT),
      (''sddAttemptGrant'', MUTATE_PROJECT), (''planDocAppend'', MUTATE_PROJECT),
      (''taskMark'', MUTATE_PROJECT), (''reviewStart'', MUTATE_PROJECT),
      (''reviewCaptureResult'', MUTATE_PROJECT), (''reviewCaptureUnachievable'', MUTATE_PROJECT),
      (''reviewAcknowledgeApproved'', MUTATE_PROJECT), (''reviewCaptureCorrectionPlan'', MUTATE_PROJECT),
      (''reviewCaptureRefuter'', MUTATE_PROJECT), (''reviewCaptureValidation'', MUTATE_PROJECT),
      (''reviewValidate'', MUTATE_PROJECT), (''reviewRecover'', MUTATE_PROJECT),
      (''reviewMaterialize'', MUTATE_PROJECT), (''reviewPipelineRun'', MUTATE_PROJECT),
      (''reviewPersist'', MUTATE_PROJECT), (''sandboxResultInstall'', MUTATE_PROJECT),
      (''resultDiff'', HOST_READ_STRUCTURED), (''metrics'', HOST_READ_STRUCTURED),
      (''workerStatus'', READ_PROJECT), (''exec'', EXECUTE_PROJECT), (''readFile'', READ_PROJECT),
      (''writeFile'', MUTATE_PROJECT), (''applyPatch'', MUTATE_PROJECT), (''listDir'', READ_PROJECT),
      (''prepareResult'', MUTATE_PROJECT), (''applyResult'', MUTATE_PROJECT),
      (''discardResult'', MUTATE_PROJECT), (''keepResult'', MUTATE_PROJECT),
      (''destroyWorker'', MUTATE_PROJECT), (''listWorkers'', HOST_READ_STRUCTURED),
      (''ast_grep_search'', READ_PROJECT), (''codegraph_aft_callgraph'', READ_PROJECT),
      (''sddStatus'', HOST_READ_STRUCTURED), (''sddContinue'', HOST_READ_STRUCTURED),
      (''sddTaskResult'', HOST_READ_STRUCTURED), (''reviewAssess'', HOST_READ_STRUCTURED),
      (''reviewModeStatus'', HOST_READ_STRUCTURED), (''reviewStatus'', HOST_READ_STRUCTURED),
      (''reviewLensContext'', HOST_READ_STRUCTURED), (''reviewDiffRead'', HOST_READ_STRUCTURED),
      (''reviewPersistPreflight'', HOST_READ_STRUCTURED), (''sandboxResult'', HOST_READ_STRUCTURED),
      (''advisorGet'', HOST_READ_STRUCTURED), (''advisorList'', HOST_READ_STRUCTURED),
      (''hostSystemSummary'', HOST_READ_STRUCTURED), (''hostMemory'', HOST_READ_STRUCTURED),
      (''hostDiskUsage'', HOST_READ_STRUCTURED), (''hostNetworkListeners'', HOST_READ_STRUCTURED),
      (''hostProcessList'', HOST_READ_STRUCTURED), (''hostServiceStatus'', HOST_READ_STRUCTURED),
      (''hostServiceLogs'', HOST_READ_STRUCTURED), (''hostTailscaleStatus'', HOST_READ_STRUCTURED),
      (''hostDockerList'', HOST_READ_STRUCTURED), (''hostDockerLogs'', HOST_READ_STRUCTURED),
      (''gitCommit'', MUTATE_PROJECT), (''gitClearCommitIntent'', MUTATE_PROJECT),
      (''gitPush'', MUTATE_PROJECT), (''ghIssueCreate'', MUTATE_PROJECT),
      (''copyOutInfo'', HOST_READ_STRUCTURED), (''copyInInfo'', HOST_READ_STRUCTURED),
      (''copyOut'', MUTATE_PROJECT), (''copyIn'', MUTATE_PROJECT), (''policy'', HOST_READ_STRUCTURED),
      (''registerProject'', MUTATE_PROJECT), (''advisorAsk'', CONSULT), (''advisorRead'', CONSULT),
      (''advisorRespond'', CONSULT), (''evidenceKeep'', CONSULT), (''task'', DELIBERATE),
      (''question'', CONSULT), (''skill'', CONSULT), (''systematic_skill'', CONSULT),
      (''todowrite'', CONSULT), (''list_mcp_resources'', CONSULT), (''read_mcp_resource'', CONSULT),
      (''ctx_search'', CONSULT), (''ctx_expand'', CONSULT), (''ctx_reduce'', CONSULT),
      (''ctx_memory'', CONSULT), (''ctx_note'', CONSULT), (''systematic_workflow_start'', CONSULT),
      (''systematic_workflow_status'', CONSULT), (''systematic_workflow_complete'', CONSULT),
      (''vision_bridge_describe_image'', READ_PROJECT), (''vision-bridge_describe_image'', READ_PROJECT),
      (''github'', RESEARCH_EXTERNAL), (''aft_outline'', HOST_READ_STRUCTURED),
      (''aft_zoom'', HOST_READ_STRUCTURED), (''aft_search'', HOST_READ_STRUCTURED),
      (''aft_callgraph'', HOST_READ_STRUCTURED), (''aft_inspect'', HOST_READ_STRUCTURED),
      (''aft_safety'', HOST_ADMIN_STRUCTURED), (''aft_import'', HOST_ADMIN_STRUCTURED),
      (''ast_grep_replace'', HOST_ADMIN_STRUCTURED)]"

text \<open>The members every JavaScript object inherits; the table is an object literal.\<close>

definition OBJECT_PROTOTYPE_MEMBERS :: "string list" where
  "OBJECT_PROTOTYPE_MEMBERS = [''constructor'', ''__defineGetter__'', ''__defineSetter__'', ''hasOwnProperty'',
     ''__lookupGetter__'', ''__lookupSetter__'', ''isPrototypeOf'', ''propertyIsEnumerable'', ''toString'',
     ''valueOf'', ''__proto__'', ''toLocaleString'']"

definition classifyOperation :: "string \<Rightarrow> cap_value option" where
  "classifyOperation op = (case map_of TOOL_CLASSIFICATION_INVENTORY op of
     Some c \<Rightarrow> Some (Cap c)
   | None \<Rightarrow> if op \<in> set OBJECT_PROTOTYPE_MEMBERS then Some NotAString else None)"

definition classifyAft :: "string \<Rightarrow> capability option" where
  "classifyAft op = (if \<not> startsWith op ''aft_'' \<and> op \<noteq> ''ast_grep_replace'' then None
     else case classifyOperation op of
       Some (Cap HOST_READ_STRUCTURED) \<Rightarrow> Some HOST_READ_STRUCTURED
     | Some (Cap HOST_ADMIN_STRUCTURED) \<Rightarrow> Some HOST_ADMIN_STRUCTURED
     | _ \<Rightarrow> None)"

definition ORCHESTRATOR_ALLOWED_TOOLS :: "string list" where
  "ORCHESTRATOR_ALLOWED_TOOLS = [''read'', ''grep'', ''glob'', ''codegraph_codegraph_explore'', ''question'', ''task'']"

definition isSandboxTool :: "string \<Rightarrow> bool" where
  "isSandboxTool t = startsWith t ''sandbox_''"

definition orchestratorHasZeroSandboxTools :: bool where
  "orchestratorHasZeroSandboxTools = (\<not> list_ex isSandboxTool ORCHESTRATOR_ALLOWED_TOOLS)"

section \<open>Security paths\<close>

definition PROTECTED_SECURITY_PREFIXES :: "string list" where
  "PROTECTED_SECURITY_PREFIXES = [''broker/src/'', ''nono/profile/'', ''opencode/plugins/'',
     ''opencode/config-fragments/'', ''systemd-user/'', ''scripts/'', ''tests/security/'', ''tests/acceptance/'',
     ''docs/threat-model.md'', ''broker/package.json'', ''broker/tsconfig.json'']"

text \<open>\<open>replace(/^\.\//, "")\<close>\<close>

definition strip_dot_slash :: "string \<Rightarrow> string" where
  "strip_dot_slash p = (if startsWith p ''./'' then drop 2 p else p)"

definition under_prefix :: "string \<Rightarrow> string \<Rightarrow> bool" where
  "under_prefix p pre = (if endsWith pre ''/''
     then p = take (length pre - 1) pre \<or> startsWith p pre
     else p = pre \<or> startsWith p (pre @ ''/''))"

definition isSecurityMutation :: "string option \<Rightarrow> bool" where
  "isSecurityMutation target = (case target of
     None \<Rightarrow> False
   | Some p \<Rightarrow> p \<noteq> [] \<and> (let n = strip_dot_slash p in
       list_ex (under_prefix n) PROTECTED_SECURITY_PREFIXES \<or> n = ''docs/threat-model.md''))"

section \<open>The decision\<close>

record authorization_context =
  ac_role :: string
  ac_capability :: cap_value
  ac_sessionState :: session_state
  ac_authoritativeLocation :: string
  ac_isReadOnlyOrchestrator :: bool
  ac_targetPath :: "string option"

datatype decision = Allow (reasonCode: string) | Deny (reasonCode: string)

fun role_capabilities :: "role \<Rightarrow> capability list" where
  "role_capabilities General = [READ_PROJECT, HOST_READ_STRUCTURED, CONSULT, DELIBERATE]"
| "role_capabilities Researcher = [READ_PROJECT, RESEARCH_EXTERNAL, HOST_READ_STRUCTURED, CONSULT, DELIBERATE]"
| "role_capabilities Worker = [READ_PROJECT, MUTATE_PROJECT, EXECUTE_PROJECT, CONSULT, DELIBERATE]"
| "role_capabilities Advisor = [RESEARCH_EXTERNAL, CONSULT]"
| "role_capabilities Solver = [DELIBERATE]"
| "role_capabilities Challenger = [DELIBERATE]"
| "role_capabilities Judge = [DELIBERATE]"
| "role_capabilities Fresh_eyes = [DELIBERATE]"
| "role_capabilities Planner = [READ_PROJECT, RESEARCH_EXTERNAL, HOST_APPROVED_MUTATION, HOST_READ_STRUCTURED,
     CONSULT, DELIBERATE]"
| "role_capabilities Pm = [READ_PROJECT, HOST_APPROVED_MUTATION, HOST_READ_STRUCTURED, CONSULT, DELIBERATE]"

definition ROLE_CAPABILITY_MATRIX :: "role \<Rightarrow> capability \<Rightarrow> bool" where
  "ROLE_CAPABILITY_MATRIX r c = (c \<in> set (role_capabilities r))"

definition decide_role :: "authorization_context \<Rightarrow> role \<Rightarrow> capability \<Rightarrow> decision" where
  "decide_role ctx r c =
     (if c = SECURITY_MUTATION then Deny ''SECURITY_MUTATION_DENIED''
      else if isSecurityMutation (ac_targetPath ctx) \<and> (c = MUTATE_PROJECT \<or> c = EXECUTE_PROJECT)
      then Deny ''SECURITY_MUTATION_DENIED''
      else if c = HOST_ADMIN_STRUCTURED then Deny ''HOST_ADMIN_DENIED''
      else if ac_authoritativeLocation ctx = [] \<and> (c = MUTATE_PROJECT \<or> c = EXECUTE_PROJECT)
      then Deny ''UNKNOWN_LOCATION''
      else if c = HOST_READ_STRUCTURED
      then (if r = Researcher \<or> r = General
            then (if ac_sessionState ctx = HOST_READ_ONLY then Allow ''PRE_ACTIVATION_AFT_READ_ALLOWED''
                  else Deny ''POST_ACTIVATION_AFT_DENIED'')
            else Deny ''ROLE_DENIED_FOR_AFT_READ'')
      else if \<not> ROLE_CAPABILITY_MATRIX r c then Deny ''ROLE_CAPABILITY_DENIED''
      else Allow ''ALLOWED'')"

definition decide :: "authorization_context \<Rightarrow> decision" where
  "decide ctx =
     (if ac_isReadOnlyOrchestrator ctx
      then (if ac_capability ctx \<in> {Cap MUTATE_PROJECT, Cap EXECUTE_PROJECT, Cap SECURITY_MUTATION, Cap HOST_ADMIN_STRUCTURED}
            then Deny ''ORCHESTRATOR_READ_ONLY''
            else if \<not> isCapability (ac_capability ctx) then Deny ''UNKNOWN_CAPABILITY''
            else Allow ''ORCHESTRATOR_READ_ONLY_ALLOWED'')
      else (case map_of ROLES (ac_role ctx) of
          None \<Rightarrow> Deny ''UNKNOWN_ROLE''
        | Some r \<Rightarrow> (case ac_capability ctx of
            Cap c \<Rightarrow> decide_role ctx r c
          | _ \<Rightarrow> Deny ''UNKNOWN_CAPABILITY'')))"

fun is_allow :: "decision \<Rightarrow> bool" where
  "is_allow (Allow _) = True"
| "is_allow (Deny _) = False"

definition isReadOnlyAgent :: "string option \<Rightarrow> string list \<Rightarrow> bool" where
  "isReadOnlyAgent agent readOnlyAgents = (case agent of None \<Rightarrow> False | Some a \<Rightarrow> a \<noteq> [] \<and> a \<in> set readOnlyAgents)"

definition shouldRefuseEnsureWorker :: "string option \<Rightarrow> string list \<Rightarrow> bool" where
  "shouldRefuseEnsureWorker trustedAgent readOnlyAgents = isReadOnlyAgent trustedAgent readOnlyAgents"

definition assertNotOrchestratorForSandbox :: "string option \<Rightarrow> string list \<Rightarrow> string option \<Rightarrow> unit result" where
  "assertNotOrchestratorForSandbox agent readOnlyAgents toolName =
     guardR (\<not> isReadOnlyAgent agent readOnlyAgents)
       (NativeError (''orchestrator agent '' @ the agent @ '' is not allowed to use sandbox operation'' @
          (case toolName of None \<Rightarrow> [] | Some t \<Rightarrow> if t = [] then [] else '' '' @ t) @ '' (orchestrator-readonly)''))"

section \<open>Properties\<close>

text \<open>
  C21.  The decision function allows exactly this: a read-only orchestrator may use
  every known capability except mutation, execution, security mutation and host
  administration; a known role may use what its matrix row grants, but never a
  security mutation or host administration, project mutation and execution only at a
  known location and outside the protected security paths, and structured host reads
  only as general or researcher before activation (whatever the matrix row says).
\<close>

theorem decide_exact:
  "is_allow (decide ctx) =
     (if ac_isReadOnlyOrchestrator ctx
      then (\<exists>c. ac_capability ctx = Cap c \<and>
              c \<notin> {MUTATE_PROJECT, EXECUTE_PROJECT, SECURITY_MUTATION, HOST_ADMIN_STRUCTURED})
      else (\<exists>r c. map_of ROLES (ac_role ctx) = Some r \<and> ac_capability ctx = Cap c \<and> ROLE_CAPABILITY_MATRIX r c \<and>
              (c \<notin> {MUTATE_PROJECT, EXECUTE_PROJECT} \<or>
                 ac_authoritativeLocation ctx \<noteq> [] \<and> \<not> isSecurityMutation (ac_targetPath ctx)) \<and>
              (c \<noteq> HOST_READ_STRUCTURED \<or> r \<in> {General, Researcher} \<and> ac_sessionState ctx = HOST_READ_ONLY)))"
proof -
  have never: "\<not> ROLE_CAPABILITY_MATRIX r SECURITY_MUTATION" "\<not> ROLE_CAPABILITY_MATRIX r HOST_ADMIN_STRUCTURED" for r
    by (cases r; simp add: ROLE_CAPABILITY_MATRIX_def)+
  have read: "ROLE_CAPABILITY_MATRIX General HOST_READ_STRUCTURED" "ROLE_CAPABILITY_MATRIX Researcher HOST_READ_STRUCTURED"
    by (simp_all add: ROLE_CAPABILITY_MATRIX_def)
  have role: "is_allow (decide_role ctx r c) \<longleftrightarrow> ROLE_CAPABILITY_MATRIX r c \<and>
      (c \<notin> {MUTATE_PROJECT, EXECUTE_PROJECT} \<or>
         ac_authoritativeLocation ctx \<noteq> [] \<and> \<not> isSecurityMutation (ac_targetPath ctx)) \<and>
      (c \<noteq> HOST_READ_STRUCTURED \<or> r \<in> {General, Researcher} \<and> ac_sessionState ctx = HOST_READ_ONLY)" for r c
    using never [of r] read by (cases c) (auto simp: decide_role_def)
  show ?thesis
    by (cases "ac_capability ctx") (auto simp: decide_def role split: option.split)
qed

definition demo_context :: "string \<Rightarrow> authorization_context" where
  "demo_context target = \<lparr>ac_role = ''worker'', ac_capability = Cap MUTATE_PROJECT, ac_sessionState = SANDBOX_ACTIVE,
     ac_authoritativeLocation = ''demo'', ac_isReadOnlyOrchestrator = False, ac_targetPath = Some target\<rparr>"

theorem decide_exact_witness:
  "is_allow (decide (demo_context ''lib/a.ts'')) \<and> \<not> is_allow (decide (demo_context ''broker/src/state.ts''))"
proof -
  have "\<not> isSecurityMutation (Some ''lib/a.ts'')" "isSecurityMutation (Some ''broker/src/state.ts'')"
    by code_simp+
  then show ?thesis
    using decide_exact [of "demo_context ''lib/a.ts''"] decide_exact [of "demo_context ''broker/src/state.ts''"]
    by (simp add: demo_context_def ROLES_def ROLE_CAPABILITY_MATRIX_def)
qed

end
