(* ===== verification/HostAuth.thy ===== *)
theory HostAuth
  imports WorkerLifecycle RolePolicy
begin

text \<open>
  Identity and authorization in \<^verbatim>\<open>broker/src/service.ts\<close>: the authorization of
  host tools against the identity bound to the session, the binding of that
  identity, the admission of tools by capability, and the read-only status
  operations.
\<close>

section \<open>Authorization of host tools\<close>

datatype host_dispatch_category = OrchestratorCategory | PlanWriterCategory

text \<open>\<open>existing?.agent\<close>\<close>

definition bound_agent :: "session_record option \<Rightarrow> string option" where
  "bound_agent existing = (case existing of None \<Rightarrow> None | Some r \<Rightarrow> sr_agent r)"

text \<open>\<open>normalizeRoleKey(trusted ?? "")\<close>\<close>

definition bound_role :: "string option \<Rightarrow> string" where
  "bound_role trusted = normalizeRoleKey (case trusted of None \<Rightarrow> [] | Some a \<Rightarrow> a)"

definition is_plan_role :: "string option \<Rightarrow> bool" where
  "is_plan_role trusted = (trusted \<noteq> None \<and> trusted \<noteq> Some [] \<and> bound_role trusted \<in> {''planner'', ''pm''})"

definition authorizeHostDispatch ::
  "string list \<Rightarrow> store \<Rightarrow> string \<Rightarrow> string \<Rightarrow> host_dispatch_category \<Rightarrow> host_access result"
where
  "authorizeHostDispatch readOnlyAgents st op sid category =
     bindR (store_get st sid) (\<lambda>existing.
     let trusted = bound_agent existing in
     bindR (hostToolAccess op) (\<lambda>access.
     case category of
       PlanWriterCategory \<Rightarrow>
         if op = ''taskMark'' \<and> bound_role trusted \<noteq> ''pm''
         then Inl (PolicyError (''TASK_MARK_PM_ONLY: host operation '' @ op @ '' requires a PM identity''))
         else if (op = ''planDocWrite'' \<and> trusted \<noteq> None \<and> trusted \<noteq> Some [] \<and>
                    (is_plan_role trusted \<or> the trusted \<in> set readOnlyAgents)) \<or>
                 (op = ''gateVerdict'' \<and> is_plan_role trusted) \<or>
                 (op = ''taskMark'' \<and> bound_role trusted = ''pm'')
         then Inr access
         else Inl (PolicyError (''host tool '' @ op @ '' requires plan-writer category (HOST_MUTATION_NOT_PLAN_WRITER)''))
     | OrchestratorCategory \<Rightarrow>
         bindR (host_decide readOnlyAgents op trusted) (\<lambda>d.
         if htd_allowed d then Inr (htd_access d)
         else Inl (PolicyError (''host tool '' @ op @ '' is orchestrator-only ('' @ htd_reasonCode d @ '')'')))))"

section \<open>Binding an identity to a session\<close>

fun assertBindableAgent :: "string list \<Rightarrow> js \<Rightarrow> string result" where
  "assertBindableAgent readOnlyAgents (JStr agent) =
     (if agent = [] then Inl (ValidationError ''bindSessionAgent requires a non-empty agent'')
      else if length agent > 128 then Inl (ValidationError ''bindSessionAgent agent exceeds 128 bytes'')
      else if agent \<notin> set readOnlyAgents \<and> \<not> isRole (normalizeRoleKey agent)
      then Inl (PolicyError (''session agent binding refused: '' @ agent @
             '' is neither a host-authoritative identity nor a known role''))
      else Inr agent)"
| "assertBindableAgent readOnlyAgents _ = Inl (ValidationError ''bindSessionAgent requires a non-empty agent'')"

text \<open>Evidence that the session entered the worker lifecycle.\<close>

definition entered_lifecycle :: "session_record \<Rightarrow> bool" where
  "entered_lifecycle r = (sr_workerLifecycleEntered r \<or> sr_workerName r \<noteq> None \<or> sr_workerState r \<noteq> None \<or>
     sr_state r \<in> {CREATING_SANDBOX, SANDBOX_ACTIVE, RESULT_READY, APPLY_PENDING, APPLIED, RETAINED, REJECTED})"

fun payload_agent :: "js \<Rightarrow> js" where
  "payload_agent (JObj obj) = js_get obj ''agent''"
| "payload_agent _ = JUndefined"

definition bindSessionAgent ::
  "string list \<Rightarrow> int \<Rightarrow> store \<Rightarrow> string \<Rightarrow> js \<Rightarrow> (store \<times> session_record) result"
where
  "bindSessionAgent readOnlyAgents now st sid payload =
     bindR (assertPayloadKeys ''bindSessionAgent'' payload) (\<lambda>_.
     bindR (assertBindableAgent readOnlyAgents (payload_agent payload)) (\<lambda>agent.
     bindR (store_get st sid) (\<lambda>existing.
     if (case existing of Some r \<Rightarrow> entered_lifecycle r | None \<Rightarrow> False)
     then Inl (PolicyError (''session '' @ sid @ '' entered the worker lifecycle and cannot be bound to a host mutation identity''))
     else if bound_agent existing \<noteq> None \<and> bound_agent existing \<noteq> Some agent
     then Inl (PolicyError (''session '' @ sid @ '' is already bound to '' @ the (bound_agent existing) @
            ''; the first host-authoritative binding wins''))
     else touch now st sid [F_agent (Some agent), F_lastOperation (Some ''bindSessionAgent'')] (Some ''bindSessionAgent''))))"

section \<open>Tool admission\<close>

record tool_admission =
  ta_classification :: "cap_value option"   \<comment> \<open>\<open>None\<close> is "unclassified"\<close>
  ta_decision :: decision

definition mutation_classes :: "capability list" where
  "mutation_classes = [MUTATE_PROJECT, HOST_APPROVED_MUTATION, EXECUTE_PROJECT, TEST_EXECUTION,
     SECURITY_MUTATION, HOST_ADMIN_STRUCTURED]"

definition toolAdmission :: "string list \<Rightarrow> store \<Rightarrow> envelope \<Rightarrow> tool_admission result" where
  "toolAdmission readOnlyAgents st req = bindR (payloadOf req) (\<lambda>payload.
     case classifyOperation (js_str (js_get payload ''tool'')) of
       None \<Rightarrow> Inr \<lparr>ta_classification = None, ta_decision = Deny ''UNCLASSIFIED_TOOL_DENIED''\<rparr>
     | Some cap \<Rightarrow>
         bindR (store_get st (env_sessionID req)) (\<lambda>rec.
         Inr \<lparr>ta_classification = Some cap, ta_decision =
           (if bound_agent rec = None \<or> bound_agent rec = Some []
            then (if cap \<in> Cap ` set mutation_classes then Deny ''UNBOUND_SESSION_MUTATION_DENIED''
                  else if cap = Cap HOST_READ_STRUCTURED \<and>
                          (case rec of None \<Rightarrow> HOST_READ_ONLY | Some r \<Rightarrow> sr_state r) \<noteq> HOST_READ_ONLY
                  then Deny ''UNBOUND_SESSION_POST_ACTIVATION_DENIED''
                  else Allow ''UNBOUND_SESSION_READ_ONLY_CLASS'')
            else decide \<lparr>ac_role = normalizeRoleKey (the (bound_agent rec)), ac_capability = cap,
                   ac_sessionState = sr_state (the rec),
                   ac_authoritativeLocation = (case sr_projectID (the rec) of None \<Rightarrow> [] | Some p \<Rightarrow> p),
                   ac_isReadOnlyOrchestrator = (the (bound_agent rec) \<in> set readOnlyAgents),
                   ac_targetPath = None\<rparr>)\<rparr>))"

section \<open>Status\<close>

record worker_status =
  ws_sessionID :: string
  ws_state :: session_state
  ws_worker :: "string option"
  ws_workerState :: "worker_state option"

definition workerStatus :: "store \<Rightarrow> envelope \<Rightarrow> worker_status result" where
  "workerStatus st req = bindR (payloadOf req) (\<lambda>_.
     bindR (recordOr404 st (env_sessionID req)) (\<lambda>r.
     Inr \<lparr>ws_sessionID = sr_sessionID r, ws_state = sr_state r, ws_worker = sr_workerName r,
          ws_workerState = sr_workerState r\<rparr>))"

record worker_record =
  wr_workerName :: string
  wr_sessionID :: string
  wr_projectID :: string
  wr_state :: worker_state
  wr_cpu :: rat
  wr_memBytes :: int
  wr_createdAt :: iso

definition worker_record_of :: "session_record \<Rightarrow> worker_record" where
  "worker_record_of r = \<lparr>wr_workerName = the (sr_workerName r), wr_sessionID = sr_sessionID r,
     wr_projectID = (case sr_projectID r of None \<Rightarrow> [] | Some p \<Rightarrow> p),
     wr_state = (case sr_workerState r of None \<Rightarrow> ACTIVE | Some s \<Rightarrow> s),
     wr_cpu = (case sr_resources r of None \<Rightarrow> 0 | Some (c, _) \<Rightarrow> c),
     wr_memBytes = (case sr_resources r of None \<Rightarrow> 0 | Some (_, m) \<Rightarrow> m),
     wr_createdAt = sr_createdAt r\<rparr>"

definition listWorkers :: "store \<Rightarrow> string list \<Rightarrow> worker_record list result" where
  "listWorkers st dir = bindR (store_list st dir) (\<lambda>records.
     Inr (map worker_record_of
       (filter (\<lambda>r. sr_workerName r \<noteq> None \<and> sr_workerName r \<noteq> Some []) records)))"

record metrics =
  mt_totalCpu :: int
  mt_totalMemBytes :: int
  mt_reservedCpu :: int
  mt_reservedMemBytes :: int
  mt_aggregateCpuInUse :: rat
  mt_aggregateMemBytesInUse :: int
  mt_workersActive :: nat
  mt_workersMax :: int
  mt_sessionsByState :: "session_state \<Rightarrow> nat"
  mt_budgetExhausted :: bool

definition metrics_op ::
  "host_resources \<Rightarrow> budget \<Rightarrow> worker_pool \<Rightarrow> store \<Rightarrow> string list \<Rightarrow> metrics result"
where
  "metrics_op res b pool st dir = bindR (store_list st dir) (\<lambda>records.
     Inr \<lparr>mt_totalCpu = cpuCount res, mt_totalMemBytes = totalMemBytes res,
          mt_reservedCpu = hostReservedCpu b, mt_reservedMemBytes = hostReservedMemBytes b,
          mt_aggregateCpuInUse = sum_list (map wa_cpu pool),
          mt_aggregateMemBytesInUse = sum_list (map wa_memBytes pool),
          mt_workersActive = length pool, mt_workersMax = maxWorkers b,
          mt_sessionsByState = (\<lambda>s. length (filter (\<lambda>r. sr_state r = s) records)),
          mt_budgetExhausted = (\<not> allowed (checkAdmission pool b None None))\<rparr>)"

section \<open>Lemmas\<close>

lemma host_decide_mutation:
  assumes "host_decide ro op trusted = Inr d" "htd_allowed d" "htd_access d = MutationAccess"
  shows "\<exists>a. trusted = Some a \<and> a \<in> set ro \<and> op \<in> set (identity_operations a)"
proof (cases "hostToolAccess op")
  case (Inr acc)
  with assms show ?thesis by (cases acc) (auto simp: host_decide_def split: option.splits if_splits)
qed (use assms in \<open>simp add: host_decide_def\<close>)

section \<open>Properties\<close>


definition demo_bound :: "string \<Rightarrow> store" where
  "demo_bound a = [''s1'' \<mapsto> Stored ((new_record ''s1'' (Iso 0))\<lparr>sr_agent := Some a\<rparr>)]"

lemma task_mark_tables:
  "hostToolAccess ''taskMark'' = Inr MutationAccess" "identity_operations ''pm'' = [''taskMark'']"
  by code_simp+


text \<open>
  The first binding wins: a successful binding records the named agent, leaves the
  session in the state it had and creates no evidence of a worker, and from then on
  binding any other agent is refused; a session that entered the worker lifecycle is
  never bound.
\<close>

theorem binding_is_permanent:
  assumes "bindSessionAgent ro now st sid (JObj [(''agent'', JStr a)]) = Inr (st', r')" "wf_store st"
  shows "st' sid = Some (Stored r') \<and> sr_agent r' = Some a \<and> \<not> entered_lifecycle r' \<and>
     (\<forall>now' b st'' r''. b = a \<or> bindSessionAgent ro now' st' sid (JObj [(''agent'', JStr b)]) \<noteq> Inr (st'', r''))"
proof -
  from assms(1) obtain existing where e: "store_get st sid = Inr existing"
      "case existing of Some r \<Rightarrow> \<not> entered_lifecycle r | None \<Rightarrow> True"
    and t: "touch now st sid [F_agent (Some a), F_lastOperation (Some ''bindSessionAgent'')] (Some ''bindSessionAgent'') =
      Inr (st', r')"
    by (auto simp: bindSessionAgent_def bindR_eq_Inr js_get_def simp del: assertPayloadKeys.simps
        split: if_splits option.splits)
  from t have r': "st' sid = Some (Stored r') \<and> sr_agent r' = Some a \<and> \<not> entered_lifecycle r'"
  proof (cases rule: touch_cases)
    case new
    then show ?thesis by (simp add: persist_def entered_lifecycle_def) (simp add: new_record_def)
  next
    case (old x u)
    have "\<not> entered_lifecycle x" using e old(1) by (auto simp: store_get_def)
    moreover have "sr_sessionID x = sid" using old(1) assms(2) by (simp add: wf_store_def)
    ultimately show ?thesis using old by (simp add: persist_def entered_lifecycle_def)
  qed
  then show ?thesis
    by (auto simp: bindSessionAgent_def bindR_eq_Inr js_get_def bound_agent_def simp del: assertPayloadKeys.simps
        split: if_splits)
qed

theorem binding_is_permanent_witness:
  "let (st', r') = (case bindSessionAgent [] 5 Map.empty ''s1'' (JObj [(''agent'', JStr ''planner'')]) of
          Inr x \<Rightarrow> x | Inl _ \<Rightarrow> (Map.empty, new_record [] (Iso 0)))
   in st' ''s1'' = Some (Stored r') \<and> sr_agent r' = Some ''planner'' \<and> \<not> entered_lifecycle r' \<and>
     (\<forall>now' b st'' r''. b = ''planner'' \<or> bindSessionAgent [] now' st' ''s1'' (JObj [(''agent'', JStr b)]) \<noteq> Inr (st'', r''))"
proof -
  have "is_ok (bindSessionAgent [] 5 Map.empty ''s1'' (JObj [(''agent'', JStr ''planner'')]))"
    by (simp add: bindSessionAgent_def js_get_def ALLOWED_PAYLOAD_KEYS_def store_get_def bound_agent_def touch_def
        isRole_def normalizeRoleKey_def ROLES_def Let_def)
  then obtain st' r' where b: "bindSessionAgent [] 5 Map.empty ''s1'' (JObj [(''agent'', JStr ''planner'')]) = Inr (st', r')"
    by (auto simp: is_ok_iff)
  from binding_is_permanent [OF this] show ?thesis by (simp add: b wf_store_def)
qed

text \<open>
  The binding is not final after all: \<open>ensureWorker\<close> writes the agent named by
  the caller over the bound one.  For a session bound to a role that is not a
  read-only orchestrator, a request that is not refused outright leaves the session
  bound to the caller's agent (or to none, when the request names none).
\<close>

theorem ensure_worker_overwrites_binding:
  assumes "w_store w (env_sessionID req) = Some (Stored r)" "wf_store (w_store w)"
    "\<not> read_only cfg (sr_agent r)" "\<not> read_only cfg (req_agent req)"
    "payloadOf req = Inr payload" "resolveProjectID realpath (js_get payload ''projectDir'') (bc_projects cfg) = Inr pid"
    "sr_state r = FAILED_CLOSED \<or> sr_state r = CREATING_SANDBOX \<or> \<not> allowed (admissionFor cfg w)"
  shows "\<exists>r'. w_store (fst (ensureWorker cfg realpath git now w req)) (env_sessionID req) = Some (Stored r') \<and>
     sr_agent r' = req_agent req"
proof -
  have id: "sr_sessionID r = env_sessionID req" using assms(1,2) by (simp add: wf_store_def)
  have park: "w_store (fst (parkAndWait cfg v q p)) = w_store v" for v q p
    by (simp add: parkAndWait_def Let_def split: option.split)
  have adm: "admissionFor cfg (w\<lparr>w_store := st\<rparr>) = admissionFor cfg w" for st
    by (simp add: admissionFor_reserved) (simp add: reserved_pool_def)
  have admit: "w_store (fst (admit_or_park cfg now (w\<lparr>w_store := st\<rparr>) req p)) = st"
    if "\<not> allowed (admissionFor cfg w)" for st p
    using that by (auto simp: admit_or_park_def adm park split: admission.split)
  have trusted: "trusted_agent (Some r) req = sr_agent r \<or> trusted_agent (Some r) req = req_agent req"
    by (simp add: trusted_agent_def split: option.split)
  define r1 where "r1 = (spread r [F_projectID (Some pid), F_agent (req_agent req), F_workerLifecycleEntered True,
      F_lastOperation (Some ''ensureWorker'')])\<lparr>sr_updatedAt := Iso now\<rparr>"
  have touch: "touch now (w_store w) (env_sessionID req)
      [F_projectID (Some pid), F_agent (req_agent req), F_workerLifecycleEntered True,
       F_lastOperation (Some ''ensureWorker'')] (Some ''ensureWorker'') = Inr (persist (w_store w) r1, r1)"
    using assms(1) by (simp add: touch_eq_Inr_Some r1_def isMeaningfulTouchOp_def MEANINGFUL_TOUCH_OPS_def)
  have "w_store (fst (ensureWorker cfg realpath git now w req)) = persist (w_store w) r1"
    using assms trusted admit
    by (auto simp: ensureWorker_def touch Let_def ensure_state_gate_def r1_def)
  then show ?thesis by (simp add: persist_def r1_def id)
qed

theorem ensure_worker_overwrites_binding_witness:
  "\<exists>r'. w_store (fst (ensureWorker (demo_config 0) Some demo_git 5 (initial_world (demo_bound ''planner'') Map.empty)
       (demo_request ''s1'' ''pm''))) (env_sessionID (demo_request ''s1'' ''pm'')) = Some (Stored r') \<and>
     sr_agent r' = req_agent (demo_request ''s1'' ''pm'')"
proof (rule ensure_worker_overwrites_binding [OF _ _ _ _ payloadOf_demo])
  show "w_store (initial_world (demo_bound ''planner'') Map.empty) (env_sessionID (demo_request ''s1'' ''pm'')) =
      Some (Stored ((new_record ''s1'' (Iso 0))\<lparr>sr_agent := Some ''planner''\<rparr>))"
    by (simp add: initial_world_def demo_bound_def demo_request_def)
  show "wf_store (w_store (initial_world (demo_bound ''planner'') Map.empty))"
    by (simp add: initial_world_def demo_bound_def wf_store_def)
  show "resolveProjectID Some (js_get [(''projectDir'', JStr ''/p'')] ''projectDir'') (bc_projects (demo_config 0)) = Inr ''demo''"
    by (simp add: demo_config_def js_get_def assertMaxBytes_def isAbsolute_def startsWith_def isWithin_def)
qed (simp_all add: read_only_def req_agent_def demo_request_def demo_config_def admissionFor_def
       allowed_default initial_world_def empty_queue_def)

text \<open>
  Tool admission denies what it does not know, with one exception: a tool whose
  name is in no list is denied, unless it is the name of a member that every
  JavaScript object inherits; such a name is admitted for a session without an
  identity.
\<close>

theorem unclassified_tools_denied_except_inherited:
  assumes "payloadOf req = Inr payload" "js_get payload ''tool'' = JStr t"
    "map_of TOOL_CLASSIFICATION_INVENTORY t = None" "st (env_sessionID req) = None"
  shows "\<exists>ta. toolAdmission ro st req = Inr ta \<and> (is_allow (ta_decision ta) \<longleftrightarrow> t \<in> set OBJECT_PROTOTYPE_MEMBERS)"
  using assms by (auto simp: toolAdmission_def classifyOperation_def store_get_def bound_agent_def)

definition demo_tool_request :: "string \<Rightarrow> envelope" where
  "demo_tool_request t = \<lparr>env_id = ''1'', env_operation = ''toolAdmission'', env_sessionID = ''s1'',
     env_agent = JUndefined, env_payload = JObj [(''tool'', JStr t)]\<rparr>"

lemma constructor_unlisted: "map_of TOOL_CLASSIFICATION_INVENTORY ''constructor'' = None"
  by code_simp

theorem unclassified_tools_denied_except_inherited_witness:
  "\<exists>ta. toolAdmission [] Map.empty (demo_tool_request ''constructor'') = Inr ta \<and>
     (is_allow (ta_decision ta) \<longleftrightarrow> ''constructor'' \<in> set OBJECT_PROTOTYPE_MEMBERS)"
  by (rule unclassified_tools_denied_except_inherited [where payload = "[(''tool'', JStr ''constructor'')]"])
     (simp_all add: payloadOf_def demo_tool_request_def ALLOWED_PAYLOAD_KEYS_def js_get_def
       TOOL_NAME_RE_def matches_def is_alnum_def is_alpha_def is_lower_def constructor_unlisted)

end
