(* ===== verification/GitOps.thy ===== *)
theory GitOps
  imports Artifacts "HOL-Library.List_Lexorder" "HOL-Library.Char_ord" "HOL-Library.AList"
begin

text \<open>
  The pure parts of \<^verbatim>\<open>broker/src/gitops.ts\<close>: argument vectors, the parsers of git's
  output, the classification of a raw diff, the glob matcher of the protected paths
  and the comparison of two trees; with the copy review of
  \<^verbatim>\<open>broker/src/copy-review.ts\<close> and the preview summary of
  \<^verbatim>\<open>broker/src/service.ts\<close>.
\<close>

section \<open>Argument vectors\<close>

type_synonym argv = "string list"

record git_plan =
  gp_env :: "(string \<times> string) list"
  gp_argvSteps :: "argv list"

definition buildSnapshotPlan :: "string \<Rightarrow> string \<Rightarrow> string \<Rightarrow> string \<Rightarrow> git_plan result" where
  "buildSnapshotPlan gitDir tmpIndex sid author = bindR (baselineRef sid) (\<lambda>ref.
     Inr \<lparr>gp_env = [(''GIT_DIR'', gitDir), (''GIT_INDEX_FILE'', tmpIndex)],
          gp_argvSteps =
            [[''git'', ''add'', ''-A'', ''--''],
             [''git'', ''write-tree''],
             [''git'', ''commit-tree'', ''<TREE>'', ''-p'', ''HEAD'', ''-m'',
              ''opencode-sandbox baseline for '' @ sid, ''--author='' @ author],
             [''git'', ''update-ref'', ref, ''<COMMIT>''],
             [''git'', ''bundle'', ''create'', ''<BUNDLE>'', ref]]\<rparr>)"

definition buildResultImportPlan :: "string \<Rightarrow> string \<Rightarrow> string \<Rightarrow> git_plan result" where
  "buildResultImportPlan gitDir bundlePath sid = bindR (resultRef sid) (\<lambda>ref.
     Inr \<lparr>gp_env = [(''GIT_DIR'', gitDir)],
          gp_argvSteps =
            [[''git'', ''bundle'', ''verify'', bundlePath],
             [''git'', ''fetch'', ''--no-tags'', bundlePath, ''+'' @ ref @ '':'' @ ref]]\<rparr>)"

definition buildChangedPathsArgv :: "string \<Rightarrow> string \<Rightarrow> argv" where
  "buildChangedPathsArgv baseline res =
     [''git'', ''diff'', ''--name-only'', ''--no-renames'', ''-z'', baseline, res, ''--'', ''.'']"

definition buildDiffArgv :: "string \<Rightarrow> string \<Rightarrow> argv list" where
  "buildDiffArgv baseline res =
     [[''git'', ''diff'', ''--stat'', baseline, res],
      [''git'', ''diff'', ''--raw'', ''-z'', baseline, res],
      buildChangedPathsArgv baseline res]"

definition buildApplyArgv :: "string \<Rightarrow> string \<Rightarrow> string \<Rightarrow> argv list" where
  "buildApplyArgv baseline res patchFile =
     [[''git'', ''diff'', baseline, res, ''--'', ''.'', '':(exclude).git''],
      [''git'', ''apply'', ''--check'', ''--whitelist='', patchFile],
      [''git'', ''apply'', patchFile]]"

definition NUL :: char where
  "NUL = CHR 0x00"

definition buildCheckArgv :: "string \<Rightarrow> argv result" where
  "buildCheckArgv patchFile = bindR (guardR (NUL \<notin> set patchFile) (ValidationError ''patchFile must not contain NUL''))
     (\<lambda>_. Inr [''git'', ''apply'', ''--check'', patchFile])"

definition GIT_COMMIT_IDENTITY :: argv where
  "GIT_COMMIT_IDENTITY = [''-c'', ''user.name=opencode-sandbox'', ''-c'', ''user.email=sandbox@local'']"

definition buildGitCommitArgv :: "string list \<Rightarrow> string \<Rightarrow> argv list result" where
  "buildGitCommitArgv paths message =
     bindR (assertGitCommitMessage (JStr message)) (\<lambda>_.
     bindR (assertGitPathList (JArr (map JStr paths))) (\<lambda>_.
     Inr [[''git'', ''add'', ''--''] @ paths,
          [''git''] @ GIT_COMMIT_IDENTITY @ [''commit'', ''-m'', message, ''--''] @ paths]))"

record git_push_input =
  gi_branch :: "string option"
  gi_upstream :: "string option"
  gi_ahead :: int
  gi_remote :: string
  gi_setUpstream :: bool
  gi_allowProtectedBranch :: bool

definition buildGitPushArgv :: "git_push_input \<Rightarrow> argv result" where
  "buildGitPushArgv inp = (case gi_branch inp of
     None \<Rightarrow> Inl (ValidationError ''cannot push: detached HEAD'')
   | Some branch \<Rightarrow>
       bindR (assertGitBranch (JStr branch)) (\<lambda>_.
       bindR (assertGitRemote (JStr (gi_remote inp))) (\<lambda>_.
       bindR (case gi_upstream inp of None \<Rightarrow> Inr () | Some u \<Rightarrow> assertGitBranch (JStr u)) (\<lambda>_.
       bindR (guardR (gi_setUpstream inp \<or> gi_upstream inp \<noteq> None)
         (ValidationError ''cannot push: no upstream without setUpstream'')) (\<lambda>_.
       bindR (guardR (\<not> ((branch = ''main'' \<or> branch = ''master'') \<and> \<not> gi_allowProtectedBranch inp))
         (ValidationError (''refusing direct push to protected branch '' @ branch @ '' without allowProtectedBranch''))) (\<lambda>_.
       bindR (guardR (gi_ahead inp \<ge> 0) (ValidationError ''ahead count must be a non-negative integer'')) (\<lambda>_.
       Inr ([''git'', ''push''] @ (if gi_setUpstream inp then [''--set-upstream''] else []) @ [gi_remote inp, branch]))))))))"

definition buildGhIssueCreateArgv :: "string \<Rightarrow> string \<Rightarrow> string \<Rightarrow> argv result" where
  "buildGhIssueCreateArgv repo title body =
     bindR (assertGhRepo (JStr repo)) (\<lambda>_. bindR (assertGhTitle (JStr title)) (\<lambda>_. bindR (assertGhBody (JStr body)) (\<lambda>_.
     Inr [''gh'', ''issue'', ''create'', ''--repo'', repo, ''--title'', title, ''--body'', body])))"

section \<open>Parsing git output\<close>

definition parseNulDelimitedPaths :: "string \<Rightarrow> string list \<times> bool" where
  "parseNulDelimitedPaths out =
     (if out = [] then ([], True)
      else if last out \<noteq> NUL then ([], False)
      else let paths = splitOn NUL (butlast out)
           in if [] \<in> set paths then ([], False) else (paths, True))"

datatype change_kind = Added | Modified | DeletedFile | Symlink | Submodule | Mode

record file_change =
  fc_path :: string
  fc_kind :: change_kind
  fc_oldMode :: string
  fc_newMode :: string

text \<open>
  \<open>RAW_DIFF_RE\<close>: \<open>:<6 digits> <6 digits> <hex> <hex> <status><0..3 digits><TAB><path>\<close>.
  In the pattern every part ends at a character the part cannot contain, so it
  matches in one way only.
\<close>

definition is_line_terminator :: "char \<Rightarrow> bool" where
  "is_line_terminator c = (c = CHR 0x0A \<or> c = CHR 0x0D)"

definition take_field :: "(char \<Rightarrow> bool) \<Rightarrow> char \<Rightarrow> string \<Rightarrow> (string \<times> string) option" where
  "take_field p sep s = (let w = takeWhile p s; rest = dropWhile p s in
     case rest of [] \<Rightarrow> None | c # r \<Rightarrow> if c = sep \<and> w \<noteq> [] then Some (w, r) else None)"

definition parse_mode :: "string \<Rightarrow> (string \<times> string) option" where
  "parse_mode s = (case take_field is_digit (CHR '' '') s of
     Some (m, r) \<Rightarrow> if length m = 6 then Some (m, r) else None | None \<Rightarrow> None)"

definition parse_status :: "string \<Rightarrow> (char \<times> string) option" where
  "parse_status s = (case s of
     [] \<Rightarrow> None
   | c # r \<Rightarrow> if c \<in> set ''ACDMRTUX'' \<and> length (takeWhile is_digit r) \<le> 3
              then (case dropWhile is_digit r of t # p \<Rightarrow> if t = CHR 0x09 then Some (c, p) else None | [] \<Rightarrow> None)
              else None)"

definition RAW_DIFF_RE :: "string \<Rightarrow> (string \<times> string \<times> char \<times> string) option" where
  "RAW_DIFF_RE line = (if \<not> startsWith line '':'' then None else
     Option.bind (parse_mode (tl line)) (\<lambda>(oldMode, s1).
     Option.bind (parse_mode s1) (\<lambda>(newMode, s2).
     Option.bind (take_field is_hex (CHR '' '') s2) (\<lambda>(_, s3).
     Option.bind (take_field is_hex (CHR '' '') s3) (\<lambda>(_, s4).
     Option.bind (parse_status s4) (\<lambda>(status, path).
     if path \<noteq> [] \<and> list_all (\<lambda>c. \<not> is_line_terminator c) path
     then Some (oldMode, newMode, status, path) else None))))))"

definition classify_change :: "string \<Rightarrow> string \<Rightarrow> char \<Rightarrow> change_kind" where
  "classify_change oldMode newMode status =
     (if oldMode = ''120000'' \<or> newMode = ''120000'' then Symlink
      else if oldMode = ''160000'' \<or> newMode = ''160000'' then Submodule
      else if status = CHR ''A'' then Added
      else if status = CHR ''D'' then DeletedFile
      else if status = CHR ''M'' \<and> oldMode \<noteq> newMode then Mode
      else Modified)"

fun classifyRawDiff :: "string list \<Rightarrow> file_change list" where
  "classifyRawDiff [] = []"
| "classifyRawDiff (raw # lines) = (case RAW_DIFF_RE raw of
     None \<Rightarrow> classifyRawDiff lines
   | Some (oldMode, newMode, status, path) \<Rightarrow>
       \<lparr>fc_path = path, fc_kind = classify_change oldMode newMode status, fc_oldMode = oldMode, fc_newMode = newMode\<rparr>
         # classifyRawDiff lines)"

section \<open>Protected paths\<close>

text \<open>
  \<open>globToRegex\<close>: the pieces of the regular expression the pattern is turned into.
  \<open>DeepSlash\<close> is \<open>(?:.*/)?\<close>, \<open>Deep\<close> is \<open>.*\<close>, \<open>InDeep\<close> the rest of
  \<open>.*/\<close> while it is being matched.  A dot of the regular expression matches every
  character except a line terminator.
\<close>

datatype glob_piece = DeepSlash | InDeep | Deep | Star | Quest | Lit char

fun globToRegex :: "string \<Rightarrow> glob_piece list" where
  "globToRegex [] = []"
| "globToRegex (c # p) =
     (if c = CHR ''*'' then
        (case p of
           d # q \<Rightarrow>
             if d = CHR ''*'' then
               (case q of
                  e # r \<Rightarrow> if e = CHR ''/'' then DeepSlash # globToRegex r else Deep # globToRegex q
                | [] \<Rightarrow> [Deep])
             else Star # globToRegex p
         | [] \<Rightarrow> [Star])
      else if c = CHR ''?'' then Quest # globToRegex p
      else Lit c # globToRegex p)"

function regex_test :: "glob_piece list \<Rightarrow> string \<Rightarrow> bool" where
  "regex_test [] s = (s = [])"
| "regex_test (Lit c # ps) s = (case s of [] \<Rightarrow> False | x # xs \<Rightarrow> x = c \<and> regex_test ps xs)"
| "regex_test (Quest # ps) s = (case s of [] \<Rightarrow> False | x # xs \<Rightarrow> x \<noteq> CHR ''/'' \<and> regex_test ps xs)"
| "regex_test (Star # ps) s =
     (regex_test ps s \<or> (case s of [] \<Rightarrow> False | x # xs \<Rightarrow> x \<noteq> CHR ''/'' \<and> regex_test (Star # ps) xs))"
| "regex_test (Deep # ps) s =
     (regex_test ps s \<or> (case s of [] \<Rightarrow> False | x # xs \<Rightarrow> \<not> is_line_terminator x \<and> regex_test (Deep # ps) xs))"
| "regex_test (DeepSlash # ps) s = (regex_test ps s \<or> regex_test (InDeep # ps) s)"
| "regex_test (InDeep # ps) s =
     (case s of [] \<Rightarrow> False
      | x # xs \<Rightarrow> (x = CHR ''/'' \<and> regex_test ps xs) \<or> (\<not> is_line_terminator x \<and> regex_test (InDeep # ps) xs))"
  by pat_completeness auto

termination
  by (relation "measures [\<lambda>(ps, s). sum_list (map (\<lambda>p. if p = DeepSlash then 2 else 1) ps), \<lambda>(ps, s). length s]") auto

definition globMatch :: "string \<Rightarrow> string \<Rightarrow> bool" where
  "globMatch pattern path = regex_test (globToRegex pattern) path"

definition checkProtectedPaths :: "string list \<Rightarrow> string list \<Rightarrow> string list" where
  "checkProtectedPaths changed patterns = filter (\<lambda>path. list_ex (\<lambda>pattern. globMatch pattern path) patterns) changed"

section \<open>Divergence\<close>

type_synonym tree_entries = "(string \<times> string) list"

text \<open>\<open>line.indexOf(TAB)\<close> and the two slices around it.\<close>

definition split_tab :: "string \<Rightarrow> (string \<times> string) option" where
  "split_tab line = (if CHR 0x09 \<in> set line
     then Some (takeWhile (\<lambda>c. c \<noteq> CHR 0x09) line, tl (dropWhile (\<lambda>c. c \<noteq> CHR 0x09) line)) else None)"

text \<open>The loop over the lines: field \<open>n\<close> of the meta data is the object id.\<close>

definition tree_line :: "nat \<Rightarrow> string \<Rightarrow> tree_entries \<Rightarrow> tree_entries" where
  "tree_line n line m = (case split_tab line of
     None \<Rightarrow> m
   | Some (meta, path) \<Rightarrow>
       let parts = splitOn (CHR '' '') meta in
       if length parts \<ge> n + 1 then AList.update path (parts ! n) m else m)"

definition parseLsTreeLines :: "string list \<Rightarrow> tree_entries" where
  "parseLsTreeLines lines = fold (tree_line 2) lines []"

definition parseLsFilesLines :: "string list \<Rightarrow> tree_entries" where
  "parseLsFilesLines lines = fold (tree_line 1) lines []"

text \<open>\<open>m.get(path) ?? ""\<close>\<close>

definition entry_oid :: "tree_entries \<Rightarrow> string \<Rightarrow> string" where
  "entry_oid m path = (case map_of m path of None \<Rightarrow> [] | Some oid \<Rightarrow> oid)"

definition computeDivergence :: "tree_entries \<Rightarrow> tree_entries \<Rightarrow> string list" where
  "computeDivergence baseline current =
     sort (filter (\<lambda>p. entry_oid baseline p \<noteq> entry_oid current p) (remdups (map fst baseline @ map fst current)))"

section \<open>Previews and copy review\<close>

text \<open>The terminal colours of one diff line; \<open>ESC [ code m line ESC [ 0 m\<close>.\<close>

definition colour :: "string \<Rightarrow> string \<Rightarrow> string" where
  "colour code line = CHR 0x1B # ''['' @ code @ ''m'' @ line @ CHR 0x1B # ''[0m''"

definition colour_line :: "string \<Rightarrow> string" where
  "colour_line line =
     (if startsWith line ''diff --git'' \<or> startsWith line ''---'' \<or> startsWith line ''+++'' then colour ''1'' line
      else if startsWith line ''@@'' then colour ''36'' line
      else if startsWith line ''+'' then colour ''32'' line
      else if startsWith line ''-'' then colour ''31'' line
      else line)"

definition coloriseDiff :: "string \<Rightarrow> string" where
  "coloriseDiff diff = joinWith [CHR 0x0A] (map colour_line (splitOn (CHR 0x0A) diff))"

definition APPLY_PREVIEW_MAX_LINES :: nat where
  "APPLY_PREVIEW_MAX_LINES = 400"

record apply_preview =
  pv_files :: nat
  pv_addedLines :: nat
  pv_removedLines :: nat
  pv_totalLines :: nat
  pv_preview :: string
  pv_previewTruncated :: bool

fun count_lines :: "string list \<Rightarrow> nat \<times> nat \<times> nat \<Rightarrow> nat \<times> nat \<times> nat" where
  "count_lines [] (f, a, r) = (f, a, r)"
| "count_lines (line # lines) (f, a, r) =
     (if startsWith line ''diff --git '' then count_lines lines (Suc f, a, r)
      else if startsWith line ''+'' \<and> \<not> startsWith line ''+++'' then count_lines lines (f, Suc a, r)
      else if startsWith line ''-'' \<and> \<not> startsWith line ''---'' then count_lines lines (f, a, Suc r)
      else count_lines lines (f, a, r))"

definition buildApplyPreview :: "string \<Rightarrow> apply_preview" where
  "buildApplyPreview diff =
     (let lines = (if diff = [] then [] else splitOn (CHR 0x0A) diff);
          (files, addedLines, removedLines) = count_lines lines (0, 0, 0);
          totalLines = length lines;
          truncated = totalLines > APPLY_PREVIEW_MAX_LINES;
          shown = joinWith [CHR 0x0A] (if truncated then take APPLY_PREVIEW_MAX_LINES lines else lines)
      in \<lparr>pv_files = files, pv_addedLines = addedLines, pv_removedLines = removedLines, pv_totalLines = totalLines,
          pv_preview = (if truncated
            then shown @ [CHR 0x0A] @ ''(... preview truncated: showing '' @ show_nat APPLY_PREVIEW_MAX_LINES @ '' of '' @
                 show_nat totalLines @ '' lines; see previewFile for the full diff)''
            else shown),
          pv_previewTruncated = truncated\<rparr>)"

definition SOURCE_CODE_EXTENSIONS :: "string list" where
  "SOURCE_CODE_EXTENSIONS = [''.c'', ''.cpp'', ''.go'', ''.h'', ''.java'', ''.js'', ''.jsx'', ''.py'', ''.rs'', ''.sh'',
     ''.ts'', ''.tsx'', ''.json'', ''.toml'', ''.yaml'', ''.yml'']"

definition isSourceCodeTarget :: "string \<Rightarrow> bool" where
  "isSourceCodeTarget target = (toLowerCase (extname target) \<in> set SOURCE_CODE_EXTENSIONS)"

definition countCopyLines :: "string \<Rightarrow> nat" where
  "countCopyLines content = length (splitOn (CHR 0x0A) content)"

definition assertCopyOutReviewLimit :: "string \<Rightarrow> nat \<Rightarrow> nat \<Rightarrow> unit result" where
  "assertCopyOutReviewLimit target totalLines maxApplyDiffLines =
     guardR (\<not> isSourceCodeTarget target \<or> totalLines \<le> maxApplyDiffLines)
       (ValidationError (''source-code copy target exceeds the reviewable line limit ('' @ show_nat totalLines @
          '' lines > '' @ show_nat maxApplyDiffLines @ '' maxApplyDiffLines); '' @
          ''large code changes must use sandbox_apply or be split into smaller copies''))"

section \<open>Lemmas\<close>

lemma concat_terminated: "ps \<noteq> [] \<Longrightarrow> concat (map (\<lambda>p. p @ [d]) ps) = joinWith [d] ps @ [d]"
proof (induction ps)
  case (Cons p ps)
  then show ?case by (cases "ps = []") (simp_all add: joinWith_Cons)
qed simp

lemma entry_oid_absent: "p \<notin> fst ` set m \<Longrightarrow> entry_oid m p = []"
  by (simp add: entry_oid_def map_of_eq_None_iff [THEN iffD2])

lemma globToRegex_literal:
  "list_all (\<lambda>c. c \<noteq> CHR ''*'' \<and> c \<noteq> CHR ''?'') d \<Longrightarrow> globToRegex (d @ q) = map Lit d @ globToRegex q"
  by (induction d) auto

lemma regex_literal: "regex_test (map Lit d @ ps) s \<longleftrightarrow> (\<exists>r. s = d @ r \<and> regex_test ps r)"
proof (induction d arbitrary: s)
  case (Cons c d)
  then show ?case by (cases s) auto
qed simp

lemma regex_deep: "regex_test [Deep] s \<longleftrightarrow> list_all (\<lambda>c. \<not> is_line_terminator c) s"
  by (induction s) auto

section \<open>Properties\<close>

text \<open>
  The comparison of the host tree with the baseline is exact: it lists, sorted
  and once each, precisely the paths whose object ids differ between the two
  listings (a path missing on one side counts as the empty id).
\<close>

theorem divergence_exact:
  "set (computeDivergence b c) = {p. entry_oid b p \<noteq> entry_oid c p} \<and>
   sorted (computeDivergence b c) \<and> distinct (computeDivergence b c)"
proof -
  have "p \<in> fst ` set b \<union> fst ` set c" if "entry_oid b p \<noteq> entry_oid c p" for p
    using that entry_oid_absent by fastforce
  then show ?thesis by (auto simp: computeDivergence_def)
qed

text \<open>
  Reading NUL-terminated path lists loses nothing: the parser reports a complete
  list exactly when the text is the concatenation of non-empty, NUL-free paths, each
  followed by a NUL, and then the list is those paths.
\<close>

theorem nul_paths_exact:
  "parseNulDelimitedPaths out = (ps, True) \<longleftrightarrow>
     out = concat (map (\<lambda>p. p @ [NUL]) ps) \<and> list_all (\<lambda>p. p \<noteq> [] \<and> NUL \<notin> set p) ps"
proof (cases "out = []")
  case True
  then show ?thesis by (cases ps) (auto simp: parseNulDelimitedPaths_def)
next
  case False
  show ?thesis
  proof
    assume h: "parseNulDelimitedPaths out = (ps, True)"
    then have last: "last out = NUL" and ps: "ps = splitOn NUL (butlast out)" "[] \<notin> set ps"
      using False by (auto simp: parseNulDelimitedPaths_def Let_def split: if_splits)
    have "out = joinWith [NUL] ps @ [NUL]"
      using False last by (metis append_butlast_last_id join_splitOn ps(1))
    moreover have "ps \<noteq> []" using ps(1) by (metis length_splitOn list.size(3) nat.distinct(1))
    ultimately show "out = concat (map (\<lambda>p. p @ [NUL]) ps) \<and> list_all (\<lambda>p. p \<noteq> [] \<and> NUL \<notin> set p) ps"
      using ps splitOn_parts by (auto simp: concat_terminated list_all_iff)
  next
    assume h: "out = concat (map (\<lambda>p. p @ [NUL]) ps) \<and> list_all (\<lambda>p. p \<noteq> [] \<and> NUL \<notin> set p) ps"
    then have ne: "ps \<noteq> []" using False by auto
    then have "out = joinWith [NUL] ps @ [NUL]" using h by (simp add: concat_terminated)
    moreover have "splitOn NUL (joinWith [NUL] ps) = ps"
      using h ne by (intro splitOn_join) (auto simp: list_all_iff)
    ultimately show "parseNulDelimitedPaths out = (ps, True)"
      using h by (auto simp: parseNulDelimitedPaths_def list_all_iff)
  qed
qed

text \<open>
  A protected directory pattern \<open>d/**\<close> matches exactly the paths below \<open>d\<close>
  whose remainder contains no line terminator.
\<close>

theorem protected_directory_exact:
  assumes "list_all (\<lambda>c. c \<noteq> CHR ''*'' \<and> c \<noteq> CHR ''?'') d"
  shows "globMatch (d @ ''/**'') p \<longleftrightarrow>
    (\<exists>rest. p = d @ ''/'' @ rest \<and> list_all (\<lambda>c. \<not> is_line_terminator c) rest)"
proof -
  have "globMatch (d @ ''/**'') p \<longleftrightarrow> regex_test (map Lit d @ map Lit ''/'' @ [Deep]) p"
    using globToRegex_literal [OF assms, of "''/**''"] by (simp add: globMatch_def)
  then show ?thesis unfolding regex_literal regex_deep by auto
qed

theorem protected_directory_exact_witness:
  "globMatch (''odd/tasks'' @ ''/**'') ''odd/tasks/a.md'' \<longleftrightarrow>
    (\<exists>rest. ''odd/tasks/a.md'' = ''odd/tasks'' @ ''/'' @ rest \<and> list_all (\<lambda>c. \<not> is_line_terminator c) rest)"
  by (rule protected_directory_exact) simp

text \<open>So a changed path with a line feed in its name escapes the protection of its directory.\<close>

theorem newline_path_escapes_protection:
  "checkProtectedPaths [''broker/src/x.ts''] [''broker/src/**''] = [''broker/src/x.ts''] \<and>
   checkProtectedPaths [''broker/src/x'' @ [CHR 0x0A] @ ''.ts''] [''broker/src/**''] = [] \<and>
   parseNulDelimitedPaths (''broker/src/x'' @ [CHR 0x0A] @ ''.ts'' @ [NUL]) =
     ([''broker/src/x'' @ [CHR 0x0A] @ ''.ts''], True)"
  by code_simp

text \<open>
  The counts of the preview are not exact: a removed line that starts with two
  dashes and an added line that starts with two plus signs are not counted.
\<close>

theorem preview_counts_miss_lines:
  "pv_removedLines (buildApplyPreview (''@@ -1 +1 @@'' @ [CHR 0x0A] @ ''--- old comment'' @ [CHR 0x0A] @ ''+++i;'')) = 0 \<and>
   pv_addedLines (buildApplyPreview (''@@ -1 +1 @@'' @ [CHR 0x0A] @ ''--- old comment'' @ [CHR 0x0A] @ ''+++i;'')) = 0"
  by code_simp

end
