(* ===== verification/ResultBoundary.thy ===== *)
theory ResultBoundary
  imports WorkerLifecycle GitOps
begin

text \<open>
  The result boundary of \<^verbatim>\<open>broker/src/service.ts\<close>: exporting a worker's result,
  applying it to the host working tree, keeping or discarding it, and destroying the
  worker.  The server runs the requests of one session under a per-session lock, so
  an operation is one function of the broker state and of the answers of git, the
  worker adapter and the file system.
\<close>

section \<open>Preparing a result\<close>

definition RESULT_EXCLUDE_PATHS :: "string list" where
  "RESULT_EXCLUDE_PATHS = ['':(exclude).broker-tmp'', '':(exclude)*.bundle'']"

record prepare_env =
  pe_mkdir :: "unit result"
  pe_exec :: "string list \<Rightarrow> spawn_result result"
  pe_copyOut :: "unit result"
  pe_git :: spawn_fn

definition exec_checked :: "prepare_env \<Rightarrow> string list \<Rightarrow> string \<Rightarrow> unit result" where
  "exec_checked env argv what = bindR (pe_exec env argv) (\<lambda>r.
     guardR (spawn_ok r) (MsbError (what @ '' failed: '' @ trimErr (sp_stderr r))))"

text \<open>The worker-side export.\<close>

definition export_bundle :: "prepare_env \<Rightarrow> string \<Rightarrow> string \<Rightarrow> unit result" where
  "export_bundle env sid ref =
     bindR (exec_checked env [''mkdir'', ''-p'', ''/work/.broker-tmp''] ''result bundle staging directory'') (\<lambda>_.
     bindR (exec_checked env ([''git'', ''add'', ''-A'', ''--'', ''.''] @ RESULT_EXCLUDE_PATHS) ''result staging'') (\<lambda>_.
     bindR (pe_exec env [''git'', ''diff'', ''--cached'', ''--quiet'']) (\<lambda>staged.
     bindR (if spawn_ok staged then Inr ()
            else exec_checked env [''git'', ''commit'', ''-q'', ''-m'', ''opencode-sandbox result for '' @ sid] ''result commit'') (\<lambda>_.
     bindR (exec_checked env [''git'', ''update-ref'', ref, ''HEAD''] ''result ref staging'') (\<lambda>_.
     bindR (exec_checked env [''git'', ''bundle'', ''create'', ''/work/.broker-tmp/result-'' @ sid @ ''.bundle'', ref]
       ''result bundle creation'') (\<lambda>_.
     pe_copyOut env))))))"

text \<open>The host-side import, in real mode only.\<close>

definition import_bundle :: "broker_config \<Rightarrow> prepare_env \<Rightarrow> session_record \<Rightarrow> string \<Rightarrow> string \<Rightarrow> unit result" where
  "import_bundle cfg env r hostBundle ref =
     bindR (pe_git env None [''git'', ''bundle'', ''verify'', hostBundle]) (\<lambda>verify.
     bindR (guardR (spawn_ok verify) (MsbError (''result bundle verification failed: '' @ trim (sp_stderr verify)))) (\<lambda>_.
     (case sr_projectID r of
        None \<Rightarrow> Inl (StateError ''project not in allowlist'')
      | Some pid \<Rightarrow>
          bindR (projectDirFor cfg pid) (\<lambda>_.
          bindR (pe_git env None [''git'', ''fetch'', ''--no-tags'', hostBundle, ''+'' @ ref @ '':'' @ ref]) (\<lambda>imported.
          guardR (spawn_ok imported) (MsbError (''result import failed: '' @ trim (sp_stderr imported))))))))"

definition prepare_calls :: "broker_config \<Rightarrow> prepare_env \<Rightarrow> session_record \<Rightarrow> string \<Rightarrow> string result" where
  "prepare_calls cfg env r sid =
     bindR (requireActiveWorker r) (\<lambda>_.
     bindR (resultRef sid) (\<lambda>ref.
     bindR (pe_mkdir env) (\<lambda>_.
     bindR (export_bundle env sid ref) (\<lambda>_.
     bindR (if bc_realGit cfg then import_bundle cfg env r (bundlePathFor (bc_stateDir cfg) sid) ref else Inr ()) (\<lambda>_.
     Inr ref)))))"

definition runPrepare :: "broker_config \<Rightarrow> prepare_env \<Rightarrow> world \<Rightarrow> string \<Rightarrow> world \<times> string result" where
  "runPrepare cfg env w sid =
     (case bindR (recordOr404 (w_store w) sid) (\<lambda>r. prepare_calls cfg env r sid) of
        Inl e \<Rightarrow> (w, Inl e)
      | Inr ref \<Rightarrow> (if bc_realGit cfg then gcSessionArtifacts cfg (\<lambda>_ _. None) w sid True else w, Inr ref))"

text \<open>A transition whose error is the error of the operation.\<close>

definition move :: "int \<Rightarrow> world \<Rightarrow> string \<Rightarrow> session_state \<Rightarrow> session_state \<Rightarrow> patch \<Rightarrow> world \<times> session_record result" where
  "move now w sid frm to p = (case transition now (w_store w) sid frm to p of
     Inl e \<Rightarrow> (w, Inl e) | Inr (st', r) \<Rightarrow> (w\<lparr>w_store := st'\<rparr>, Inr r))"

definition prepareResult ::
  "broker_config \<Rightarrow> int \<Rightarrow> prepare_env \<Rightarrow> world \<Rightarrow> envelope \<Rightarrow> world \<times> (string \<times> session_state) result"
where
  "prepareResult cfg now env w req =
     (let sid = env_sessionID req in
      case bindR (payloadOf req) (\<lambda>_. recordOr404 (w_store w) sid) of
        Inl e \<Rightarrow> (w, Inl e)
      | Inr r \<Rightarrow>
          if sr_state r \<noteq> SANDBOX_ACTIVE \<and> sr_state r \<noteq> RESULT_READY
          then (w, Inl (StateError (''cannot prepare result from state '' @ state_name (sr_state r))))
          else (case runPrepare cfg env w sid of
              (w1, Inl e) \<Rightarrow> (w1, Inl e)
            | (w1, Inr ref) \<Rightarrow>
                if sr_state r = SANDBOX_ACTIVE
                then (case move now w1 sid SANDBOX_ACTIVE RESULT_READY [F_resultRef (Some ref)] of
                    (w2, Inl e) \<Rightarrow> (w2, Inl e) | (w2, Inr r') \<Rightarrow> (w2, Inr (ref, sr_state r')))
                else (w1, Inr (ref, sr_state r))))"

section \<open>Inspecting a result\<close>

record apply_env =
  ae_git :: spawn_fn
  ae_mkdirTmp :: "unit result"
  ae_writePatch :: "unit result"
  ae_preview :: "string \<Rightarrow> string result"   \<comment> \<open>write the previews, read the plain one back\<close>
  ae_remove :: "nat \<Rightarrow> string option"
  ae_revParse :: "string \<Rightarrow> string \<Rightarrow> bool option"

definition LF :: char where
  "LF = CHR 0x0A"

definition divergence_calls :: "spawn_fn \<Rightarrow> string \<Rightarrow> string \<Rightarrow> string list result" where
  "divergence_calls git idx baselineRefName =
     bindR (git (Some idx) [''git'', ''add'', ''-A'', ''--'']) (\<lambda>currentTree.
     bindR (guardR (spawn_ok currentTree)
       (StateError (''cannot read host working tree: '' @ trim (sp_stderr currentTree)))) (\<lambda>_.
     bindR (git (Some idx) [''git'', ''ls-files'', ''-s'']) (\<lambda>lsFiles.
     bindR (git (Some idx) [''git'', ''ls-tree'', ''-r'', baselineRefName]) (\<lambda>baseline.
     Inr (computeDivergence (parseLsTreeLines (splitOn LF (sp_stdout baseline)))
            (parseLsFilesLines (splitOn LF (sp_stdout lsFiles))))))))"

text \<open>The scratch index is removed before and after the calls.\<close>

definition hostDivergence ::
  "broker_config \<Rightarrow> apply_env \<Rightarrow> world \<Rightarrow> string \<Rightarrow> string \<Rightarrow> string \<Rightarrow> world \<times> string list result"
where
  "hostDivergence cfg env w sid pid baselineRefName =
     (case find (\<lambda>p. pr_id p = pid) (bc_projects cfg) of
        None \<Rightarrow> (w, Inl (StateError ''no projects configured''))
      | Some _ \<Rightarrow>
          (case ae_mkdirTmp env of
             Inl e \<Rightarrow> (w, Inl e)
           | Inr _ \<Rightarrow>
               (let idx = divergenceIndexPathFor (bc_stateDir cfg) sid in
                (w\<lparr>w_files := fst (removeArtifact (w_files w) \<lparr>ap_kind = Divergence_index, ap_path = idx\<rparr>)\<rparr>,
                 divergence_calls (ae_git env) idx baselineRefName))))"

definition changedPathsBetween :: "broker_config \<Rightarrow> apply_env \<Rightarrow> string \<Rightarrow> string \<Rightarrow> string \<Rightarrow> string list result" where
  "changedPathsBetween cfg env pid baselineRefName resultRefName =
     (case find (\<lambda>p. pr_id p = pid) (bc_projects cfg) of
        None \<Rightarrow> Inl (StateError ''no projects configured'')
      | Some _ \<Rightarrow>
          bindR (ae_git env None (buildChangedPathsArgv baselineRefName resultRefName)) (\<lambda>raw.
          bindR (guardR (spawn_ok raw) (StateError (''cannot diff result: '' @ trim (sp_stderr raw)))) (\<lambda>_.
          (case parseNulDelimitedPaths (sp_stdout raw) of (paths, whole) \<Rightarrow>
             bindR (guardR whole (StateError ''cannot diff result: changed path metadata incomplete'')) (\<lambda>_.
             Inr paths)))))"

text \<open>\<open>split("\n")\<close> with a trailing empty line dropped; nothing for the empty text.\<close>

definition raw_lines :: "string \<Rightarrow> string list" where
  "raw_lines out = (let lines = (if out = [] then [] else splitOn LF out) in
     if lines \<noteq> [] \<and> last lines = [] then butlast lines else lines)"

definition malformed_raw :: broker_error where
  "malformed_raw = StateError ''cannot classify result diff: raw metadata malformed''"

definition rawChangesBetween :: "broker_config \<Rightarrow> apply_env \<Rightarrow> string \<Rightarrow> string \<Rightarrow> string \<Rightarrow> file_change list result" where
  "rawChangesBetween cfg env pid baselineRefName resultRefName =
     (case find (\<lambda>p. pr_id p = pid) (bc_projects cfg) of
        None \<Rightarrow> Inl (StateError ''no projects configured'')
      | Some _ \<Rightarrow>
          bindR (ae_git env None [''git'', ''diff'', ''--raw'', ''--no-renames'', baselineRefName, resultRefName, ''--'', ''.''])
            (\<lambda>raw.
          bindR (guardR (spawn_ok raw) (StateError (''cannot classify result diff: '' @ trim (sp_stderr raw)))) (\<lambda>_.
          bindR (guardR (NUL \<notin> set (sp_stdout raw)) malformed_raw) (\<lambda>_.
          let lines = raw_lines (sp_stdout raw) in
          bindR (guardR ([] \<notin> set lines) malformed_raw) (\<lambda>_.
          let changes = classifyRawDiff lines in
          bindR (guardR (length changes = length lines) malformed_raw) (\<lambda>_. Inr changes))))))"

definition planRootPatterns :: "broker_config \<Rightarrow> string list" where
  "planRootPatterns cfg = (if bc_planRootProtection cfg then [''odd/tasks/**'', ''odd/mini/**''] else [])"

fun kind_name :: "change_kind \<Rightarrow> string" where
  "kind_name Added = ''added''"
| "kind_name Modified = ''modified''"
| "kind_name DeletedFile = ''deleted''"
| "kind_name Symlink = ''symlink''"
| "kind_name Submodule = ''submodule''"
| "kind_name Mode = ''mode''"

definition unsafe_changes :: "file_change list \<Rightarrow> string list" where
  "unsafe_changes changes = map (\<lambda>c. kind_name (fc_kind c) @ '':'' @ fc_path c)
     (filter (\<lambda>c. fc_kind c = Symlink \<or> fc_kind c = Submodule) changes)"

definition ensureCompleteApplyPreview :: "apply_env \<Rightarrow> string \<Rightarrow> unit result" where
  "ensureCompleteApplyPreview env completeDiff =
     (case bindR (ae_preview env completeDiff) (\<lambda>onDisk.
        guardR (onDisk = completeDiff) (NativeError ''plain preview artifact does not match the complete B->C diff'')) of
        Inr _ \<Rightarrow> Inr ()
      | Inl e \<Rightarrow> Inl (StateError (''apply-preview artifact unavailable: '' @ trimErr (error_message e) @ ''; '' @
          ''refusing to apply without a complete preview (result retained)'')))"

section \<open>Applying a result\<close>

text \<open>
  The way an apply ends early: it throws and leaves the session as it is, or it
  first moves the session back to \<open>RESULT_READY\<close> with an error note.
\<close>

datatype stop = Escapes broker_error | Refuse string broker_error

definition bindS :: "stop + 'a \<Rightarrow> ('a \<Rightarrow> stop + 'b) \<Rightarrow> stop + 'b" where
  "bindS x f = (case x of Inl s \<Rightarrow> Inl s | Inr a \<Rightarrow> f a)"

definition throws :: "'a result \<Rightarrow> stop + 'a" where
  "throws r = (case r of Inl e \<Rightarrow> Inl (Escapes e) | Inr a \<Rightarrow> Inr a)"

definition refuse_unless :: "bool \<Rightarrow> string \<Rightarrow> broker_error \<Rightarrow> stop + unit" where
  "refuse_unless b note e = (if b then Inr () else Inl (Refuse note e))"

definition joined :: "string list \<Rightarrow> string" where
  "joined xs = joinWith '', '' xs"

text \<open>The checks on the changed paths, after the divergence check.\<close>

definition inspect_changes :: "broker_config \<Rightarrow> apply_env \<Rightarrow> string \<Rightarrow> string \<Rightarrow> string \<Rightarrow> stop + unit" where
  "inspect_changes cfg env pid base res =
     bindS (throws (changedPathsBetween cfg env pid base res)) (\<lambda>changed.
     let prot = checkProtectedPaths changed (bc_protectedPaths cfg @ bc_protectedSecurityFiles cfg) in
     bindS (refuse_unless (prot = []) (''result touches protected paths: '' @ joined prot)
       (StateError (''result touches protected paths (S7/S17): '' @ joined prot))) (\<lambda>_.
     let plan = checkProtectedPaths changed (planRootPatterns cfg);
         note = ''result touches plan-root paths (BROKER_PLAN_ROOT_PROTECTION): '' @ joined plan in
     bindS (refuse_unless (plan = []) note (StateError note)) (\<lambda>_.
     bindS (throws (rawChangesBetween cfg env pid base res)) (\<lambda>raw.
     let bad = unsafe_changes raw; note = ''result contains unsafe symlink/submodule changes: '' @ joined bad in
     refuse_unless (bad = []) note (StateError note)))))"

text \<open>The patch file, the previews, the dry run and the apply; the result is the diff.\<close>

definition write_file :: "int \<Rightarrow> string \<Rightarrow> string \<Rightarrow> world \<Rightarrow> world" where
  "write_file now path content w = w\<lparr>w_files := (w_files w)(path \<mapsto> RegularFile (length content) now)\<rparr>"

definition write_previews :: "broker_config \<Rightarrow> int \<Rightarrow> string \<Rightarrow> string \<Rightarrow> world \<Rightarrow> world" where
  "write_previews cfg now sid diff w =
     write_file now (applyPreviewAnsiPathFor (bc_stateDir cfg) sid) (coloriseDiff diff)
       (write_file now (applyPreviewPathFor (bc_stateDir cfg) sid) diff w)"

definition git_apply :: "apply_env \<Rightarrow> string \<Rightarrow> stop + unit" where
  "git_apply env patchFile =
     bindS (throws (buildCheckArgv patchFile)) (\<lambda>argv.
     bindS (throws (ae_git env None argv)) (\<lambda>check.
     let msg = trim (sp_stderr check) in
     bindS (refuse_unless (spawn_ok check) (''git apply --check failed: '' @ msg)
       (StateError (''git apply --check failed ('' @ msg @ ''); result retained''))) (\<lambda>_.
     bindS (throws (ae_git env None [''git'', ''apply'', patchFile])) (\<lambda>applied.
     let msg = trim (sp_stderr applied) in
     refuse_unless (spawn_ok applied) (''apply failed: '' @ msg) (StateError (''apply failed ('' @ msg @ ''); host unchanged''))))))"

definition patch_and_apply ::
  "broker_config \<Rightarrow> int \<Rightarrow> apply_env \<Rightarrow> world \<Rightarrow> string \<Rightarrow> string \<Rightarrow> string \<Rightarrow> world \<times> (stop + string)"
where
  "patch_and_apply cfg now env w sid base res =
     (let patchFile = patchPathFor (bc_stateDir cfg) sid in
      case bindS (throws (ae_git env None [''git'', ''diff'', base, res, ''--'', ''.''])) (\<lambda>patch.
           bindS (refuse_unless (spawn_ok patch) ''diff generation failed''
             (StateError ''diff generation failed; result retained'')) (\<lambda>_.
           bindS (throws (ae_writePatch env)) (\<lambda>_. Inr (sp_stdout patch)))) of
        Inl s \<Rightarrow> (w, Inl s)
      | Inr diff \<Rightarrow>
          (let w1 = write_file now patchFile diff w in
           case ensureCompleteApplyPreview env diff of
             Inl e \<Rightarrow> (w1, Inl (Refuse (error_message e) e))
           | Inr _ \<Rightarrow>
               (write_previews cfg now sid diff w1, bindS (git_apply env patchFile) (\<lambda>_. Inr diff))))"

text \<open>Everything between the move to \<open>APPLY_PENDING\<close> and the move out of it.\<close>

definition apply_pending ::
  "broker_config \<Rightarrow> int \<Rightarrow> apply_env \<Rightarrow> world \<Rightarrow> string \<Rightarrow> string \<Rightarrow> string \<Rightarrow> string \<Rightarrow> world \<times> (stop + string)"
where
  "apply_pending cfg now env w sid pid base res = (case hostDivergence cfg env w sid pid base of
     (w1, Inl e) \<Rightarrow> (w1, Inl (Escapes e))
   | (w1, Inr divergence) \<Rightarrow>
       if divergence \<noteq> []
       then (w1, Inl (Refuse (''host diverged from baseline; result retained for reconciliation ('' @
                joined (take 10 divergence) @ '')'')
              (StateError (''host project diverged from baseline (S16). Automatic apply refused; result retained at '' @
                 res @ ''. Reconcile manually or discard the result.''))))
       else (case inspect_changes cfg env pid base res of
           Inl s \<Rightarrow> (w1, Inl s)
         | Inr _ \<Rightarrow> patch_and_apply cfg now env w1 sid base res))"

record apply_answer =
  aa_state :: session_state
  aa_resultRef :: string
  aa_applyPreview :: apply_preview

text \<open>After the apply landed: release the worker, note it, collect the artifacts.\<close>

definition finish_apply ::
  "broker_config \<Rightarrow> int \<Rightarrow> apply_env \<Rightarrow> world \<Rightarrow> string \<Rightarrow> session_record \<Rightarrow> string \<Rightarrow> string \<Rightarrow> world \<times> apply_answer result"
where
  "finish_apply cfg now env w sid r res diff = (case releaseWorker cfg now (ae_remove env) w r of
     (w1, out) \<Rightarrow>
       (case (if released out then touch now (w_store w1) sid [F_workerName None, F_workerState (Some DESTROYED)] None
              else Inr (w_store w1, r)) of
          Inl e \<Rightarrow> (w1, Inl e)
        | Inr (st', r') \<Rightarrow>
            (gcSessionArtifacts cfg (ae_revParse env) (w1\<lparr>w_store := st'\<rparr>) sid False,
             Inr \<lparr>aa_state = sr_state r', aa_resultRef = res, aa_applyPreview = buildApplyPreview diff\<rparr>)))"

text \<open>The guards of \<open>applyResult\<close>: the project and the two refs.\<close>

definition apply_guard :: "broker_config \<Rightarrow> world \<Rightarrow> envelope \<Rightarrow> (string \<times> string \<times> string) result" where
  "apply_guard cfg w req =
     (let sid = env_sessionID req in
      bindR (payloadOf req) (\<lambda>payload.
      bindR (guardR (js_get payload ''confirm'' = JStr ''APPLY'') (ValidationError ''applyResult requires confirm: APPLY'')) (\<lambda>_.
      bindR (recordOr404 (w_store w) sid) (\<lambda>r.
      bindR (guardR (sr_state r = RESULT_READY)
        (StateError (''cannot apply result from state '' @ state_name (sr_state r)))) (\<lambda>_.
      (case sr_projectID r of
         None \<Rightarrow> Inl (StateError ''project not in allowlist'')
       | Some pid \<Rightarrow>
           (case find (\<lambda>p. pr_id p = pid) (bc_projects cfg) of
              None \<Rightarrow> Inl (StateError ''project not in allowlist'')
            | Some _ \<Rightarrow>
                bindR (case sr_resultRef r of Some x \<Rightarrow> Inr x | None \<Rightarrow> resultRef sid) (\<lambda>res.
                bindR (case sr_baselineRef r of Some x \<Rightarrow> Inr x | None \<Rightarrow> baselineRef sid) (\<lambda>base.
                Inr (pid, base, res))))))))))"

definition applyResult ::
  "broker_config \<Rightarrow> int \<Rightarrow> apply_env \<Rightarrow> world \<Rightarrow> envelope \<Rightarrow> world \<times> apply_answer result"
where
  "applyResult cfg now env w req =
     (let sid = env_sessionID req in
      case apply_guard cfg w req of
        Inl e \<Rightarrow> (w, Inl e)
      | Inr (pid, base, res) \<Rightarrow>
          (case move now w sid RESULT_READY APPLY_PENDING [] of
             (w1, Inl e) \<Rightarrow> (w1, Inl e)
           | (w1, Inr _) \<Rightarrow>
               (case apply_pending cfg now env w1 sid pid base res of
                  (w2, Inl (Escapes e)) \<Rightarrow> (w2, Inl e)
                | (w2, Inl (Refuse note e)) \<Rightarrow>
                    (case move now w2 sid APPLY_PENDING RESULT_READY [F_error (Some note)] of
                       (w3, Inl e') \<Rightarrow> (w3, Inl e') | (w3, Inr _) \<Rightarrow> (w3, Inl e))
                | (w2, Inr diff) \<Rightarrow>
                    (case move now w2 sid APPLY_PENDING APPLIED [F_error None, F_resultRef (Some res)] of
                       (w3, Inl e) \<Rightarrow> (w3, Inl e)
                     | (w3, Inr r) \<Rightarrow> finish_apply cfg now env w3 sid r res diff))))"

section \<open>Keeping, discarding, destroying\<close>

definition releases_named :: "session_record \<Rightarrow> bool" where
  "releases_named r = (sr_workerName r \<noteq> None \<and> sr_workerName r \<noteq> Some [])"

definition keep_worker ::
  "broker_config \<Rightarrow> int \<Rightarrow> (nat \<Rightarrow> string option) \<Rightarrow> world \<Rightarrow> string \<Rightarrow> session_record \<Rightarrow> world \<times> session_record result"
where
  "keep_worker cfg now rm w sid r = (if \<not> releases_named r then (w, Inr r) else
     (case releaseWorker cfg now rm w r of (w1, out) \<Rightarrow>
        if \<not> released out then (w1, Inr r)
        else (case touch now (w_store w1) sid [F_workerName None, F_workerState (Some DESTROYED)] None of
            Inl e \<Rightarrow> (w1, Inl e) | Inr (st', r') \<Rightarrow> (w1\<lparr>w_store := st'\<rparr>, Inr r'))))"

definition keepResult ::
  "broker_config \<Rightarrow> int \<Rightarrow> prepare_env \<Rightarrow> apply_env \<Rightarrow> world \<Rightarrow> envelope \<Rightarrow> world \<times> string result"
where
  "keepResult cfg now penv aenv w req =
     (let sid = env_sessionID req in
      case bindR (payloadOf req) (\<lambda>payload.
           bindR (guardR (js_get payload ''confirm'' = JStr ''KEEP'') (ValidationError ''keepResult requires confirm: KEEP''))
             (\<lambda>_. recordOr404 (w_store w) sid)) of
        Inl e \<Rightarrow> (w, Inl e)
      | Inr r0 \<Rightarrow>
          (case (if sr_state r0 = SANDBOX_ACTIVE
                 then (case runPrepare cfg penv w sid of
                     (w1, Inl e) \<Rightarrow> (w1, Inl e)
                   | (w1, Inr ref) \<Rightarrow> move now w1 sid SANDBOX_ACTIVE RESULT_READY [F_resultRef (Some ref)])
                 else (w, Inr r0)) of
             (w1, Inl e) \<Rightarrow> (w1, Inl e)
           | (w1, Inr r1) \<Rightarrow>
               if sr_state r1 \<noteq> RESULT_READY \<and> sr_state r1 \<noteq> APPLIED
               then (w1, Inl (StateError (''cannot keep result from state '' @ state_name (sr_state r1))))
               else (case keep_worker cfg now (ae_remove aenv) w1 sid r1 of
                   (w2, Inl e) \<Rightarrow> (w2, Inl e)
                 | (w2, Inr r2) \<Rightarrow>
                     (case move now w2 sid (sr_state r2) RETAINED [F_error None] of
                        (w3, Inl e) \<Rightarrow> (w3, Inl e)
                      | (w3, Inr r3) \<Rightarrow>
                          (let w4 = gcSessionArtifacts cfg (ae_revParse aenv) w3 sid False in
                           case (case sr_resultRef r3 of Some x \<Rightarrow> Inr x | None \<Rightarrow> resultRef sid) of
                             Inl e \<Rightarrow> (w4, Inl e) | Inr ref \<Rightarrow> (w4, Inr ref))))))"

definition discard_patch :: "session_record \<Rightarrow> release_outcome \<Rightarrow> patch" where
  "discard_patch r out = [F_error None] @
     (if released out then [F_workerName None, F_workerState (if releases_named r then Some DESTROYED else None)]
      else [F_workerName (sr_workerName r), F_workerState (sr_workerState r)])"

text \<open>The guards of \<open>discardResult\<close> and the deletion of the result ref.\<close>

definition discard_guard :: "broker_config \<Rightarrow> apply_env \<Rightarrow> world \<Rightarrow> envelope \<Rightarrow> session_record result" where
  "discard_guard cfg env w req =
     bindR (payloadOf req) (\<lambda>payload.
     bindR (guardR (js_get payload ''confirm'' = JStr ''REJECT'') (ValidationError ''discardResult requires confirm: REJECT'')) (\<lambda>_.
     bindR (recordOr404 (w_store w) (env_sessionID req)) (\<lambda>r.
     bindR (guardR (sr_state r = RESULT_READY)
       (StateError (''cannot discard result from state '' @ state_name (sr_state r)))) (\<lambda>_.
     bindR (case sr_resultRef r of Some x \<Rightarrow> Inr x | None \<Rightarrow> resultRef (env_sessionID req)) (\<lambda>ref.
     bindR (if bc_realGit cfg then bindR (ae_git env None [''git'', ''update-ref'', ''-d'', ref]) (\<lambda>deleted.
              guardR (spawn_ok deleted) (StateError ''result ref deletion failed; result retained''))
            else Inr ()) (\<lambda>_. Inr r))))))"

definition discardResult ::
  "broker_config \<Rightarrow> int \<Rightarrow> apply_env \<Rightarrow> world \<Rightarrow> envelope \<Rightarrow> world \<times> unit result"
where
  "discardResult cfg now env w req =
     (case discard_guard cfg env w req of
        Inl e \<Rightarrow> (w, Inl e)
      | Inr r \<Rightarrow>
          (case releaseWorker cfg now (ae_remove env) w r of (w1, out) \<Rightarrow>
             (case move now w1 (env_sessionID req) RESULT_READY REJECTED (discard_patch r out) of
                (w2, Inl e) \<Rightarrow> (w2, Inl e)
              | (w2, Inr _) \<Rightarrow> (gcSessionArtifacts cfg (ae_revParse env) w2 (env_sessionID req) False, Inr ()))))"

definition destroyWorker ::
  "broker_config \<Rightarrow> int \<Rightarrow> (nat \<Rightarrow> string option) \<Rightarrow> world \<Rightarrow> envelope \<Rightarrow> world \<times> string option result"
where
  "destroyWorker cfg now rm w req =
     (let sid = env_sessionID req in
      case bindR (payloadOf req) (\<lambda>_. recordOr404 (w_store w) sid) of
        Inl e \<Rightarrow> (w, Inl e)
      | Inr r \<Rightarrow>
          if \<not> releases_named r then (w, Inr None)
          else if sr_workerState r = Some DESTROYED \<or> sr_workerState r = Some FAILED
          then (fst (releaseWorker cfg now rm w r), Inr (sr_workerName r))
          else (case releaseWorker cfg now rm w r of
              (w1, RemoveFailed msg) \<Rightarrow> (w1, Inl (MsbError (''worker removal failed for '' @ the (sr_workerName r) @ '': '' @ msg)))
            | (w1, _) \<Rightarrow>
                (case touch now (w_store w1) sid [F_workerName None, F_workerState (Some DESTROYED)] None of
                   Inl e \<Rightarrow> (w1, Inl e) | Inr (st', _) \<Rightarrow> (w1\<lparr>w_store := st'\<rparr>, Inr (sr_workerName r)))))"

section \<open>Lemmas\<close>

lemma bindS_eq_Inr [simp]: "bindS x f = Inr b \<longleftrightarrow> (\<exists>a. x = Inr a \<and> f a = Inr b)"
  by (cases x) (auto simp: bindS_def)

lemma throws_eq_Inr [simp]: "throws r = Inr a \<longleftrightarrow> r = Inr a"
  by (cases r) (auto simp: throws_def)

lemma refuse_unless_eq_Inr [simp]: "refuse_unless b n e = Inr u \<longleftrightarrow> b"
  by (simp add: refuse_unless_def)

lemma recordOr404_eq_Inr: "recordOr404 st sid = Inr r \<longleftrightarrow> st sid = Some (Stored r)"
  by (auto simp: recordOr404_def store_get_def split: option.splits stored.splits)

lemma move_eq_Inr:
  "move now w sid frm to p = (w', Inr r') \<longleftrightarrow>
    (\<exists>r. w_store w sid = Some (Stored r) \<and> sr_state r = frm \<and> legal frm to \<and>
       r' = (spread r p)\<lparr>sr_state := to, sr_updatedAt := Iso now\<rparr> \<and> w' = w\<lparr>w_store := persist (w_store w) r'\<rparr>)"
proof -
  have "move now w sid frm to p = (w', Inr r') \<longleftrightarrow>
      (\<exists>st'. transition now (w_store w) sid frm to p = Inr (st', r') \<and> w' = w\<lparr>w_store := st'\<rparr>)"
    by (auto simp: move_def split: sum.splits)
  then show ?thesis by (auto simp: transition_eq_Inr)
qed

lemma wf_persist: "wf_store st \<Longrightarrow> wf_store (persist st r)"
  by (auto simp: wf_store_def persist_def)

lemma create_begin_store:
  assumes "wf_store (w_store w)"
  shows "wf_store (w_store (fst (create_begin cfg now w req sid pid))) \<and>
     (\<forall>s. s = sid \<or> w_store (fst (create_begin cfg now w req sid pid)) s = w_store w s)"
proof -
  have "wf_store st' \<and> (\<forall>s. s = sid \<or> st' s = w_store w s)"
    if "transition now (w_store w) sid frm CREATING_SANDBOX [F_projectID p, F_agent a, F_error e] = Inr (st', r')"
    for st' r' frm p a e
    using that assms by (auto simp: transition_eq_Inr persist_def wf_store_def split: if_splits)
  with assms show ?thesis
    by (auto simp: create_begin_def split: sum.split option.split)
qed

text \<open>The drain writes only the records of sessions that were waiting.\<close>

lemma drain_store:
  assumes "wf_store (w_store w)" "one_per_session (w_queue w)"
  shows "wf_store (w_store (drainQueue cfg now w)) \<and>
     (\<forall>s. s \<in> qe_sessionID ` set (pq_entries (w_queue w)) \<or> w_store (drainQueue cfg now w) s = w_store w s)"
  using assms
proof (induction cfg now w rule: drainQueue.induct)
  case (1 cfg now w)
  show ?case
  proof (cases "\<exists>e. pq_head (w_queue w) = Some e \<and> allowed (admissionFor cfg w)")
    case False
    then show ?thesis using 1(2) by (simp add: drain_idle)
  next
    case True
    then obtain e where e: "pq_head (w_queue w) = Some e" "allowed (admissionFor cfg w)" by blast
    define w' where "w' = start_queued cfg now (admit_head w e) e"
    have es: "pq_entries (w_queue w) = e # pq_entries (w_queue w')"
      using admit_head_entries [OF 1(3) e(1)] by (simp add: w'_def)
    have st: "wf_store (w_store w')" "\<forall>s. s = qe_sessionID e \<or> w_store w' s = w_store w s"
      using create_begin_store [of "admit_head w e" cfg now "qe_request e" "qe_sessionID e" "qe_projectID e"] 1(2)
      by (simp_all add: w'_def start_queued_def add_task_def case_prod_beta)
    have "wf_store (w_store (drainQueue cfg now w')) \<and> (\<forall>s. s \<in> qe_sessionID ` set (pq_entries (w_queue w')) \<or>
        w_store (drainQueue cfg now w') s = w_store w' s)"
      using 1(1) [OF e(1)] e(2) st(1) one_per_session_admit [OF 1(3)] by (simp add: w'_def)
    with st(2) show ?thesis unfolding drain_go [OF e] es by (auto simp flip: w'_def) metis
  qed
qed

lemma release_store:
  assumes "wf_store (w_store w)" "one_per_session (w_queue w)" "pq_find (w_queue w) sid = None"
  shows "w_store (fst (releaseWorker cfg now rm w r)) sid = w_store w sid \<and>
     wf_store (w_store (fst (releaseWorker cfg now rm w r)))"
proof -
  have "sid \<notin> qe_sessionID ` set (pq_entries (w_queue w))"
    using assms(3) by (auto simp: pq_find_def find_None_iff)
  then show ?thesis
    using drain_store [of "w\<lparr>w_pool := removePoolAllocation (w_pool w) r\<rparr>" cfg now] assms(1,2)
    by (auto simp: releaseWorker_def)
qed

lemma apply_guard_state:
  "apply_guard cfg w req = Inr (pid, base, res) \<Longrightarrow>
   \<exists>r. w_store w (env_sessionID req) = Some (Stored r) \<and> sr_state r = RESULT_READY"
  by (auto simp: apply_guard_def bindR_eq_Inr Let_def recordOr404_eq_Inr)

lemma hostDivergence_store [simp]:
  "w_store (fst (hostDivergence cfg env w sid pid base)) = w_store w"
  "w_queue (fst (hostDivergence cfg env w sid pid base)) = w_queue w"
  by (simp_all add: hostDivergence_def Let_def split: option.split sum.split)

lemma write_fields [simp]:
  "w_store (write_file now p c w) = w_store w" "w_queue (write_file now p c w) = w_queue w"
  "w_store (write_previews cfg now sid d w) = w_store w" "w_queue (write_previews cfg now sid d w) = w_queue w"
  by (simp_all add: write_file_def write_previews_def)

lemma apply_pending_store [simp]:
  "w_store (fst (apply_pending cfg now env w sid pid base res)) = w_store w"
  "w_queue (fst (apply_pending cfg now env w sid pid base res)) = w_queue w"
proof -
  have "w_store (fst (patch_and_apply cfg now env v sid base res)) = w_store v \<and>
      w_queue (fst (patch_and_apply cfg now env v sid base res)) = w_queue v" for v
    by (simp add: patch_and_apply_def Let_def split: sum.split)
  then show "w_store (fst (apply_pending cfg now env w sid pid base res)) = w_store w"
    "w_queue (fst (apply_pending cfg now env w sid pid base res)) = w_queue w"
    using hostDivergence_store [of cfg env w sid pid base]
    by (simp_all add: apply_pending_def case_prod_beta split: sum.split)
qed

lemma finish_apply_state:
  assumes "finish_apply cfg now env w sid r res diff = (w', Inr a)" "w_store w sid = Some (Stored r)"
    "wf_store (w_store w)" "one_per_session (w_queue w)" "pq_find (w_queue w) sid = None"
  shows "state_at (w_store w') sid = Some (sr_state r) \<and> aa_resultRef a = res"
proof -
  obtain w1 out where rel: "releaseWorker cfg now (ae_remove env) w r = (w1, out)" by fastforce
  have w1: "w_store w1 sid = Some (Stored r)" "sr_sessionID r = sid"
    using release_store [OF assms(3,4,5), of cfg now "ae_remove env" r] assms(2,3) by (auto simp: rel wf_store_def)
  show ?thesis
    using assms(1) w1
    by (auto simp: finish_apply_def rel touch_eq_Inr_Some state_at_def persist_def split: sum.splits if_splits)
qed

lemma persist_own: "sr_sessionID r = sid \<Longrightarrow> persist st r sid = Some (Stored r)"
  by (simp add: persist_def)

text \<open>The steps of a successful apply.\<close>

lemma applyResult_Inr:
  assumes "applyResult cfg now env w req = (w', Inr a)"
  obtains pid base res w1 r1 w2 diff w3 r3 where
    "apply_guard cfg w req = Inr (pid, base, res)"
    "move now w (env_sessionID req) RESULT_READY APPLY_PENDING [] = (w1, Inr r1)"
    "apply_pending cfg now env w1 (env_sessionID req) pid base res = (w2, Inr diff)"
    "move now w2 (env_sessionID req) APPLY_PENDING APPLIED [F_error None, F_resultRef (Some res)] = (w3, Inr r3)"
    "finish_apply cfg now env w3 (env_sessionID req) r3 res diff = (w', Inr a)"
proof -
  from assms obtain pid base res where g: "apply_guard cfg w req = Inr (pid, base, res)"
    by (auto simp: applyResult_def Let_def split: sum.splits)
  with assms obtain w1 r1 where m: "move now w (env_sessionID req) RESULT_READY APPLY_PENDING [] = (w1, Inr r1)"
    by (auto simp: applyResult_def Let_def split: sum.splits prod.splits)
  obtain w2 v where p: "apply_pending cfg now env w1 (env_sessionID req) pid base res = (w2, v)" by fastforce
  with g m assms obtain diff where "v = Inr diff"
    by (auto simp: applyResult_def Let_def split: sum.splits stop.splits prod.splits)
  with g m p assms obtain w3 r3 where
    "move now w2 (env_sessionID req) APPLY_PENDING APPLIED [F_error None, F_resultRef (Some res)] = (w3, Inr r3)"
    "finish_apply cfg now env w3 (env_sessionID req) r3 res diff = (w', Inr a)"
    by (auto simp: applyResult_def Let_def split: sum.splits prod.splits)
  with g m p \<open>v = Inr diff\<close> show ?thesis by (intro that) simp_all
qed

definition clean_apply :: "broker_config \<Rightarrow> apply_env \<Rightarrow> string \<Rightarrow> string \<Rightarrow> string \<Rightarrow> string \<Rightarrow> bool" where
  "clean_apply cfg env sid pid base res = (\<exists>changed raw patch check applied.
     divergence_calls (ae_git env) (divergenceIndexPathFor (bc_stateDir cfg) sid) base = Inr [] \<and>
     changedPathsBetween cfg env pid base res = Inr changed \<and>
     checkProtectedPaths changed (bc_protectedPaths cfg @ bc_protectedSecurityFiles cfg) = [] \<and>
     checkProtectedPaths changed (planRootPatterns cfg) = [] \<and>
     rawChangesBetween cfg env pid base res = Inr raw \<and> unsafe_changes raw = [] \<and>
     ae_git env None [''git'', ''diff'', base, res, ''--'', ''.''] = Inr patch \<and> spawn_ok patch \<and>
     ae_preview env (sp_stdout patch) = Inr (sp_stdout patch) \<and>
     ae_git env None [''git'', ''apply'', ''--check'', patchPathFor (bc_stateDir cfg) sid] = Inr check \<and> spawn_ok check \<and>
     ae_git env None [''git'', ''apply'', patchPathFor (bc_stateDir cfg) sid] = Inr applied \<and> spawn_ok applied)"

lemma apply_pending_Inr:
  assumes "apply_pending cfg now env w sid pid base res = (w', Inr diff)"
  shows "clean_apply cfg env sid pid base res"
proof -
  obtain wd dv where d: "hostDivergence cfg env w sid pid base = (wd, dv)" by fastforce
  with assms have "dv = Inr []" and ins: "inspect_changes cfg env pid base res = Inr ()"
    and pa: "patch_and_apply cfg now env wd sid base res = (w', Inr diff)"
    by (auto simp: apply_pending_def split: sum.splits if_splits)
  with d have dc: "divergence_calls (ae_git env) (divergenceIndexPathFor (bc_stateDir cfg) sid) base = Inr []"
    by (auto simp: hostDivergence_def Let_def split: option.splits sum.splits)
  from pa obtain patch check applied where pt:
    "ae_git env None [''git'', ''diff'', base, res, ''--'', ''.''] = Inr patch" "spawn_ok patch"
    "ensureCompleteApplyPreview env (sp_stdout patch) = Inr ()"
    "ae_git env None [''git'', ''apply'', ''--check'', patchPathFor (bc_stateDir cfg) sid] = Inr check" "spawn_ok check"
    "ae_git env None [''git'', ''apply'', patchPathFor (bc_stateDir cfg) sid] = Inr applied" "spawn_ok applied"
    by (auto simp: patch_and_apply_def git_apply_def buildCheckArgv_def bindR_eq_Inr Let_def split: sum.splits)
  have "ae_preview env (sp_stdout patch) = Inr (sp_stdout patch)"
    using pt(3) by (auto simp: ensureCompleteApplyPreview_def bindR_eq_Inr split: sum.splits)
  with dc ins pt show ?thesis by (auto simp: clean_apply_def inspect_changes_def Let_def)
qed

section \<open>Properties\<close>


definition demo_ready :: "session_state \<Rightarrow> world" where
  "demo_ready s = initial_world [''s1'' \<mapsto> Stored ((new_record ''s1'' (Iso 0))\<lparr>sr_state := s,
     sr_projectID := Some ''demo'', sr_resultRef := Some ''R'', sr_baselineRef := Some ''B''\<rparr>)] Map.empty"

definition demo_apply_env :: apply_env where
  "demo_apply_env = \<lparr>ae_git = demo_git, ae_mkdirTmp = Inr (), ae_writePatch = Inr (), ae_preview = Inr,
     ae_remove = \<lambda>_. None, ae_revParse = \<lambda>_ _. Some True\<rparr>"

definition demo_prepare_env :: prepare_env where
  "demo_prepare_env = \<lparr>pe_mkdir = Inr (), pe_exec = demo_git None, pe_copyOut = Inr (), pe_git = demo_git\<rparr>"

definition demo_result_request :: "string \<Rightarrow> string \<Rightarrow> envelope" where
  "demo_result_request op confirm = \<lparr>env_id = ''1'', env_operation = op, env_sessionID = ''s1'',
     env_agent = JUndefined, env_payload = JObj [(''confirm'', JStr confirm)]\<rparr>"

lemma demo_request_id [simp]: "env_sessionID (demo_result_request op c) = ''s1''"
  by (simp add: demo_result_request_def)

lemma payloadOf_apply:
  "payloadOf (demo_result_request ''applyResult'' c) = Inr [(''confirm'', JStr c)]"
  "payloadOf (demo_result_request ''discardResult'' c) = Inr [(''confirm'', JStr c)]"
  by (simp_all add: payloadOf_def demo_result_request_def ALLOWED_PAYLOAD_KEYS_def)

lemma demo_ready_fields [simp]:
  "wf_store (w_store (demo_ready s))" "w_queue (demo_ready s) = empty_queue" "one_per_session empty_queue"
  "pq_find empty_queue sid = None"
  by (simp_all add: demo_ready_def initial_world_def wf_store_def new_record_def one_per_session_def empty_queue_def
      pq_find_def)

lemma drain_empty: "w_queue w = empty_queue \<Longrightarrow> drainQueue cfg now w = w"
  by (rule drain_idle) (simp add: pq_head_def empty_queue_def)

lemma demo_guard:
  "apply_guard (demo_config 1) (demo_ready RESULT_READY) (demo_result_request ''applyResult'' ''APPLY'') =
     Inr (''demo'', ''B'', ''R'')"
  by (simp add: apply_guard_def payloadOf_apply js_get_def recordOr404_eq_Inr [THEN iffD2] demo_ready_def
      initial_world_def demo_config_def new_record_def)

lemma demo_clean_pending:
  "\<exists>w2. apply_pending (demo_config 1) 5 demo_apply_env w ''s1'' ''demo'' ''B'' ''R'' = (w2, Inr [])"
proof -
  have div: "divergence_calls demo_git idx ''B'' = Inr []" for idx
    by (simp add: divergence_calls_def demo_git_def spawn_ok_def parseLsTreeLines_def parseLsFilesLines_def
        tree_line_def split_tab_def computeDivergence_def)
  have ins: "inspect_changes (demo_config 1) demo_apply_env ''demo'' ''B'' ''R'' = Inr ()"
    by (simp add: inspect_changes_def changedPathsBetween_def rawChangesBetween_def demo_config_def demo_apply_env_def
        demo_git_def spawn_ok_def parseNulDelimitedPaths_def checkProtectedPaths_def raw_lines_def unsafe_changes_def
        throws_def bindS_def refuse_unless_def Let_def)
  have nul: "NUL \<notin> set (patchPathFor ''/st'' ''s1'')"
    by (simp add: session_paths [OF canonical_st] session_ids_demo NUL_def)
  have st: "bc_stateDir (demo_config 1) = ''/st''" by (simp add: demo_config_def)
  have "\<exists>w2. patch_and_apply (demo_config 1) 5 demo_apply_env v ''s1'' ''B'' ''R'' = (w2, Inr [])" for v
    using nul by (simp add: patch_and_apply_def git_apply_def buildCheckArgv_def st demo_apply_env_def demo_git_def
        spawn_ok_def throws_def bindS_def refuse_unless_def ensureCompleteApplyPreview_def Let_def)
  with div ins show ?thesis
    by (simp add: apply_pending_def hostDivergence_def demo_apply_env_def Let_def) (simp add: demo_config_def)
qed

lemma finish_apply_no_worker:
  assumes "w_store w sid = Some (Stored r)" "sr_workerName r = None" "w_queue w = empty_queue"
  shows "\<exists>w' a. finish_apply cfg now env w sid r res diff = (w', Inr a)"
  using assms
  by (simp add: finish_apply_def releaseWorker_def live_worker_def drain_empty released_def touch_def Let_def)

lemma demo_apply:
  "\<exists>w' a. applyResult (demo_config 1) 5 demo_apply_env (demo_ready RESULT_READY)
     (demo_result_request ''applyResult'' ''APPLY'') = (w', Inr a)"
proof -
  define r where "r = (new_record ''s1'' (Iso 0))\<lparr>sr_state := RESULT_READY,
     sr_projectID := Some ''demo'', sr_resultRef := Some ''R'', sr_baselineRef := Some ''B''\<rparr>"
  have r: "w_store (demo_ready RESULT_READY) ''s1'' = Some (Stored r)" "sr_state r = RESULT_READY"
      "sr_sessionID r = ''s1''" "sr_workerName r = None"
    by (simp_all add: demo_ready_def initial_world_def r_def)
  define r1 where "r1 = r\<lparr>sr_state := APPLY_PENDING, sr_updatedAt := Iso 5\<rparr>"
  define w1 where "w1 = (demo_ready RESULT_READY)\<lparr>w_store := persist (w_store (demo_ready RESULT_READY)) r1\<rparr>"
  have m1: "move 5 (demo_ready RESULT_READY) ''s1'' RESULT_READY APPLY_PENDING [] = (w1, Inr r1)"
    using r by (simp add: move_eq_Inr w1_def r1_def)
  obtain w2 where p: "apply_pending (demo_config 1) 5 demo_apply_env w1 ''s1'' ''demo'' ''B'' ''R'' = (w2, Inr [])"
    using demo_clean_pending by blast
  have eq: "w2 = fst (apply_pending (demo_config 1) 5 demo_apply_env w1 ''s1'' ''demo'' ''B'' ''R'')" using p by simp
  have w2: "w_store w2 ''s1'' = Some (Stored r1)" "w_queue w2 = empty_queue"
    unfolding eq using r by (simp_all add: w1_def persist_own r1_def)
  define r3 where "r3 = (spread r1 [F_error None, F_resultRef (Some ''R'')])\<lparr>sr_state := APPLIED, sr_updatedAt := Iso 5\<rparr>"
  define w3 where "w3 = w2\<lparr>w_store := persist (w_store w2) r3\<rparr>"
  have m3: "move 5 w2 ''s1'' APPLY_PENDING APPLIED [F_error None, F_resultRef (Some ''R'')] = (w3, Inr r3)"
    using w2 by (simp add: move_eq_Inr w3_def r3_def) (simp add: r1_def)
  have "w_store w3 ''s1'' = Some (Stored r3)" "sr_workerName r3 = None" "w_queue w3 = empty_queue"
    using w2 r by (simp_all add: w3_def r3_def r1_def persist_own)
  from finish_apply_no_worker [OF this] m1 p m3 show ?thesis
    by (simp add: applyResult_def demo_guard)
qed


text \<open>
  C38.  An inspection that cannot be read strands the session.  When the host matches
  the baseline but listing the changed paths fails, \<open>applyResult\<close> throws and the
  session stays \<open>APPLY_PENDING\<close>; from there preparing, applying, keeping and
  discarding all fail and change nothing, so no request of the session leads out.
\<close>

theorem failed_inspection_strands_session:
  assumes "apply_guard cfg w req = Inr (pid, base, res)" "wf_store (w_store w)"
    "ae_mkdirTmp env = Inr u"
    "divergence_calls (ae_git env) (divergenceIndexPathFor (bc_stateDir cfg) (env_sessionID req)) base = Inr []"
    "changedPathsBetween cfg env pid base res = Inl e" "env_sessionID q = env_sessionID req"
  shows "let w' = fst (applyResult cfg now env w req) in
     snd (applyResult cfg now env w req) = Inl e \<and> state_at (w_store w') (env_sessionID req) = Some APPLY_PENDING \<and>
     (\<exists>e1 e2 e3 e4. prepareResult cfg now' penv w' q = (w', Inl e1) \<and> applyResult cfg now' env' w' q = (w', Inl e2) \<and>
        keepResult cfg now' penv env' w' q = (w', Inl e3) \<and> discardResult cfg now' env' w' q = (w', Inl e4))"
proof -
  from apply_guard_state [OF assms(1)] obtain r where
    r: "w_store w (env_sessionID req) = Some (Stored r)" "sr_state r = RESULT_READY" by auto
  have id: "sr_sessionID r = env_sessionID req" using r(1) assms(2) by (simp add: wf_store_def)
  have proj: "\<exists>p. find (\<lambda>p. pr_id p = pid) (bc_projects cfg) = Some p"
    using assms(1) by (auto simp: apply_guard_def bindR_eq_Inr Let_def split: option.splits)
  define r1 where "r1 = r\<lparr>sr_state := APPLY_PENDING, sr_updatedAt := Iso now\<rparr>"
  define w1 where "w1 = w\<lparr>w_store := persist (w_store w) r1\<rparr>"
  have m: "move now w (env_sessionID req) RESULT_READY APPLY_PENDING [] = (w1, Inr r1)"
    using r by (simp add: move_eq_Inr r1_def w1_def)
  obtain w2 where p: "apply_pending cfg now env w1 (env_sessionID req) pid base res = (w2, Inl (Escapes e))"
    using assms(3,4,5) proj
    by (auto simp: apply_pending_def hostDivergence_def inspect_changes_def Let_def throws_def bindS_def)
  have eq: "w2 = fst (apply_pending cfg now env w1 (env_sessionID req) pid base res)" using p by simp
  have st: "w_store w2 (env_sessionID q) = Some (Stored r1)" "sr_state r1 = APPLY_PENDING"
    unfolding eq using id assms(6) by (simp_all add: w1_def r1_def persist_own)
  have ap: "applyResult cfg now env w req = (w2, Inl e)"
    using assms(1) m p by (simp add: applyResult_def)
  have rec: "recordOr404 (w_store w2) (env_sessionID q) = Inr r1" using st(1) by (simp add: recordOr404_eq_Inr)
  have "\<exists>e1. prepareResult cfg now' penv w2 q = (w2, Inl e1)"
    using st(2) by (cases "payloadOf q") (simp_all add: prepareResult_def rec Let_def)
  moreover have "\<exists>e2. apply_guard cfg w2 q = Inl e2"
    using st(2) by (cases "payloadOf q") (auto simp: apply_guard_def rec Let_def guardR_def)
  then have "\<exists>e2. applyResult cfg now' env' w2 q = (w2, Inl e2)" by (auto simp: applyResult_def)
  moreover have "\<exists>e3. keepResult cfg now' penv env' w2 q = (w2, Inl e3)"
    using st(2) by (cases "payloadOf q") (auto simp: keepResult_def rec Let_def guardR_def)
  moreover have "\<exists>e4. discardResult cfg now' env' w2 q = (w2, Inl e4)"
    using st(2) by (cases "payloadOf q") (auto simp: discardResult_def discard_guard_def rec guardR_def)
  ultimately show ?thesis using st assms(6) by (auto simp: ap state_at_def)
qed

definition demo_failing_git :: spawn_fn where
  "demo_failing_git idx argv = Inr \<lparr>sp_status = Some (if ''--name-only'' \<in> set argv then 1 else 0), sp_stdout = [], sp_stderr = []\<rparr>"

theorem failed_inspection_strands_session_witness:
  "let env = demo_apply_env\<lparr>ae_git := demo_failing_git\<rparr>;
       out = applyResult (demo_config 1) 5 env (demo_ready RESULT_READY) (demo_result_request ''applyResult'' ''APPLY'');
       w' = fst out; q = demo_result_request ''discardResult'' ''REJECT'' in
     snd out = Inl (StateError ''cannot diff result: '') \<and> state_at (w_store w') ''s1'' = Some APPLY_PENDING \<and>
     (\<exists>e1 e2 e3 e4. prepareResult (demo_config 1) 6 demo_prepare_env w' q = (w', Inl e1) \<and>
        applyResult (demo_config 1) 6 demo_apply_env w' q = (w', Inl e2) \<and>
        keepResult (demo_config 1) 6 demo_prepare_env demo_apply_env w' q = (w', Inl e3) \<and>
        discardResult (demo_config 1) 6 demo_apply_env w' q = (w', Inl e4))"
proof -
  have div: "divergence_calls demo_failing_git idx ''B'' = Inr []" for idx
    by (simp add: divergence_calls_def demo_failing_git_def spawn_ok_def parseLsTreeLines_def parseLsFilesLines_def
        tree_line_def split_tab_def computeDivergence_def)
  have bad: "changedPathsBetween (demo_config 1) (demo_apply_env\<lparr>ae_git := demo_failing_git\<rparr>) ''demo'' ''B'' ''R'' =
      Inl (StateError ''cannot diff result: '')"
    by (simp add: changedPathsBetween_def demo_config_def demo_failing_git_def spawn_ok_def buildChangedPathsArgv_def trim_def)
  show ?thesis
    using failed_inspection_strands_session [OF demo_guard _ _ _ bad, of "()" "demo_result_request ''discardResult'' ''REJECT''" 5 6 demo_prepare_env demo_apply_env] div
    by (simp add: demo_apply_env_def Let_def)
qed

text \<open>
  A discard is acknowledged only after the result is gone: when
  \<open>discardResult\<close> succeeds, the session was \<open>RESULT_READY\<close> and is \<open>REJECTED\<close>
  now and, in real mode, git deleted the result ref; when it fails, the session keeps
  its record.
\<close>

theorem discard_only_after_ref_deleted:
  assumes "wf_store (w_store w)" "one_per_session (w_queue w)" "pq_find (w_queue w) (env_sessionID req) = None"
  shows "case discardResult cfg now env w req of
      (w', Inr _) \<Rightarrow> state_at (w_store w) (env_sessionID req) = Some RESULT_READY \<and>
        state_at (w_store w') (env_sessionID req) = Some REJECTED \<and>
        (\<not> bc_realGit cfg \<or> (\<exists>ref deleted. ae_git env None [''git'', ''update-ref'', ''-d'', ref] = Inr deleted \<and> spawn_ok deleted))
    | (w', Inl _) \<Rightarrow> w_store w' (env_sessionID req) = w_store w (env_sessionID req)"
proof (cases "discard_guard cfg env w req")
  case (Inl e)
  then show ?thesis by (simp add: discardResult_def)
next
  case (Inr r)
  define sid where "sid = env_sessionID req"
  from Inr have r: "w_store w sid = Some (Stored r)" "sr_state r = RESULT_READY"
    and del: "\<not> bc_realGit cfg \<or> (\<exists>ref deleted. ae_git env None [''git'', ''update-ref'', ''-d'', ref] = Inr deleted \<and> spawn_ok deleted)"
    by (auto simp: discard_guard_def bindR_eq_Inr recordOr404_eq_Inr sid_def split: if_splits)
  obtain w1 o1 where rel: "releaseWorker cfg now (ae_remove env) w r = (w1, o1)" by fastforce
  have w1: "w_store w1 sid = Some (Stored r)" "sr_sessionID r = sid"
    using release_store [OF assms, of cfg now "ae_remove env" r] r(1) assms(1)
    by (auto simp: rel sid_def wf_store_def)
  define r2 where "r2 = (spread r (discard_patch r o1))\<lparr>sr_state := REJECTED, sr_updatedAt := Iso now\<rparr>"
  have m: "move now w1 sid RESULT_READY REJECTED (discard_patch r o1) = (w1\<lparr>w_store := persist (w_store w1) r2\<rparr>, Inr r2)"
    using w1 r by (simp add: move_eq_Inr r2_def)
  have "discardResult cfg now env w req =
      (gcSessionArtifacts cfg (ae_revParse env) (w1\<lparr>w_store := persist (w_store w1) r2\<rparr>) sid False, Inr ())"
    using Inr by (simp add: discardResult_def rel m flip: sid_def)
  moreover have "sr_sessionID r2 = sid" using w1 by (simp add: r2_def discard_patch_def)
  ultimately show ?thesis using r del by (simp add: state_at_def persist_own r2_def flip: sid_def)
qed

theorem discard_only_after_ref_deleted_witness:
  "case discardResult (demo_config 1) 5 demo_apply_env (demo_ready RESULT_READY)
      (demo_result_request ''discardResult'' ''REJECT'') of
      (w', Inr _) \<Rightarrow> state_at (w_store (demo_ready RESULT_READY)) (env_sessionID (demo_result_request ''discardResult'' ''REJECT'')) = Some RESULT_READY \<and>
        state_at (w_store w') (env_sessionID (demo_result_request ''discardResult'' ''REJECT'')) = Some REJECTED \<and>
        (\<not> bc_realGit (demo_config 1) \<or> (\<exists>ref deleted. ae_git demo_apply_env None [''git'', ''update-ref'', ''-d'', ref] = Inr deleted \<and> spawn_ok deleted))
    | (w', Inl _) \<Rightarrow> w_store w' (env_sessionID (demo_result_request ''discardResult'' ''REJECT'')) =
        w_store (demo_ready RESULT_READY) (env_sessionID (demo_result_request ''discardResult'' ''REJECT''))"
  by (rule discard_only_after_ref_deleted) simp_all

text \<open>
  A result can never be kept on request: \<open>keepResult\<close> is missing from the table
  of payload keys, so a request with a payload is rejected as an unknown operation and
  one without a payload lacks the confirmation.  Every such request fails and changes
  nothing.
\<close>

lemma keepResult_not_listed: "map_of ALLOWED_PAYLOAD_KEYS ''keepResult'' = None"
  by code_simp

theorem keep_result_never_succeeds:
  assumes "env_operation req = ''keepResult''"
  shows "\<exists>e. keepResult cfg now penv env w req = (w, Inl e)"
proof -
  have "(\<exists>e. payloadOf req = Inl e) \<or> payloadOf req = Inr []"
    using assms by (cases "env_payload req") (auto simp: payloadOf_def keepResult_not_listed)
  then show ?thesis by (auto simp: keepResult_def Let_def js_get_def)
qed

theorem keep_result_never_succeeds_witness:
  "\<exists>e. keepResult (demo_config 1) 5 demo_prepare_env demo_apply_env (demo_ready RESULT_READY)
     (demo_result_request ''keepResult'' ''KEEP'') = (demo_ready RESULT_READY, Inl e)"
  by (rule keep_result_never_succeeds) (simp add: demo_result_request_def)

text \<open>
  The divergence check does not look at the exit status of its two listings: when
  both print nothing, also because both failed, the host counts as unchanged.
\<close>

theorem unreadable_trees_count_as_unchanged:
  assumes "git (Some idx) [''git'', ''add'', ''-A'', ''--''] = Inr added" "spawn_ok added"
    "git (Some idx) [''git'', ''ls-files'', ''-s''] = Inr \<lparr>sp_status = s1, sp_stdout = [], sp_stderr = e1\<rparr>"
    "git (Some idx) [''git'', ''ls-tree'', ''-r'', base] = Inr \<lparr>sp_status = s2, sp_stdout = [], sp_stderr = e2\<rparr>"
  shows "divergence_calls git idx base = Inr []"
  using assms by (simp add: divergence_calls_def parseLsTreeLines_def parseLsFilesLines_def tree_line_def
      split_tab_def computeDivergence_def)

definition demo_unreadable_git :: spawn_fn where
  "demo_unreadable_git idx argv = Inr \<lparr>sp_status = (if ''add'' \<in> set argv then Some 0 else Some 128), sp_stdout = [],
     sp_stderr = ''fatal: not a tree object''\<rparr>"

theorem unreadable_trees_count_as_unchanged_witness:
  "divergence_calls demo_unreadable_git ''/st/tmp/i'' ''B'' = Inr []"
  by (rule unreadable_trees_count_as_unchanged [where added = "\<lparr>sp_status = Some 0, sp_stdout = [], sp_stderr = ''fatal: not a tree object''\<rparr>"])
     (simp_all add: demo_unreadable_git_def spawn_ok_def)

end
