(* ===== verification/Reaper.thy ===== *)
theory Reaper
  imports ResultBoundary
begin

text \<open>
  The idle reaper of \<^verbatim>\<open>broker/src/reaper.ts\<close>: the release of idle workers, the
  export of unfinished work before its worker goes away, the reap of a disconnected
  session, and the sweep of transport artifacts.  A sweep reads all records first and
  then works through that list, so the functions for one record take the record as it
  was read.
\<close>

section \<open>Log entries\<close>

datatype reap_action =
    Reaped_result_ready
  | Reaped_active
  | Reaped_active_unsaved
  | Reaped_terminal
  | Auto_finished
  | Auto_finished_retained
  | Swept_artifact
  | Reap_error

record reaper_entry =
  re_sessionID :: string
  re_action :: reap_action
  re_detail :: string

definition entry_of :: "string \<Rightarrow> reap_action \<Rightarrow> string \<Rightarrow> reaper_entry" where
  "entry_of sid act detail = \<lparr>re_sessionID = sid, re_action = act, re_detail = detail\<rparr>"

definition reaped_patch :: "int \<Rightarrow> patch" where
  "reaped_patch now = [F_workerName None, F_workerState (Some DESTROYED), F_reapedAt (Some (Iso now))]"

section \<open>Idle workers\<close>

text \<open>
  Release, and on a confirmed removal note it in the record; \<open>None\<close> when the removal
  failed and the worker is kept for the next sweep.
\<close>

definition release_and_note ::
  "broker_config \<Rightarrow> int \<Rightarrow> (nat \<Rightarrow> string option) \<Rightarrow> world \<Rightarrow> session_record \<Rightarrow> reaper_entry \<Rightarrow> world \<times> reaper_entry option result"
where
  "release_and_note cfg now rm w r entry = (case releaseWorker cfg now rm w r of (w1, out) \<Rightarrow>
     if \<not> released out then (w1, Inr None)
     else (case touch now (w_store w1) (sr_sessionID r) (reaped_patch now) None of
         Inl e \<Rightarrow> (w1, Inl e)
       | Inr (st', _) \<Rightarrow> (w1\<lparr>w_store := st'\<rparr>, Inr (Some entry))))"

text \<open>Parked, waiting for the user, or with an operation in flight.\<close>

definition not_idle :: "(string \<Rightarrow> nat) \<Rightarrow> world \<Rightarrow> session_record \<Rightarrow> bool" where
  "not_idle activeLocks w r = (pq_find (w_queue w) (sr_sessionID r) \<noteq> None \<or> sr_state r = APPLY_PENDING \<or>
     activeLocks (sr_sessionID r) > 0)"

definition sweepIdle_record ::
  "broker_config \<Rightarrow> int \<Rightarrow> int \<Rightarrow> (string \<Rightarrow> nat) \<Rightarrow> (nat \<Rightarrow> string option) \<Rightarrow> world \<Rightarrow> session_record \<Rightarrow> world \<times> reaper_entry list"
where
  "sweepIdle_record cfg now idleMs activeLocks rm w r =
     (let sid = sr_sessionID r;
          go = (\<lambda>entry. case release_and_note cfg now rm w r entry of
              (w1, Inl e) \<Rightarrow> (w1, [entry_of sid Reap_error (error_message e)])
            | (w1, Inr None) \<Rightarrow> (w1, [])
            | (w1, Inr (Some en)) \<Rightarrow> (w1, [en])) in
      if not_idle activeLocks w r then (w, [])
      else if \<not> live_worker r then (w, [])
      else if isTerminalState (sr_state r) then go (entry_of sid Reaped_terminal [])
      else if \<not> older_than now (sr_updatedAt r) idleMs then (w, [])
      else if sr_state r = RESULT_READY then go (entry_of sid Reaped_result_ready [])
      else if sr_state r = SANDBOX_ACTIVE
      then go (entry_of sid Reaped_active_unsaved ''idle limit reached; worker released without an export'')
      else (w, []))"

fun sweepIdle_loop ::
  "broker_config \<Rightarrow> int \<Rightarrow> int \<Rightarrow> (string \<Rightarrow> nat) \<Rightarrow> (string \<Rightarrow> nat \<Rightarrow> string option) \<Rightarrow> world \<Rightarrow> session_record list \<Rightarrow>
    world \<times> reaper_entry list"
where
  "sweepIdle_loop cfg now idleMs locks rm w [] = (w, [])"
| "sweepIdle_loop cfg now idleMs locks rm w (r # rs) =
     (let (w1, es) = sweepIdle_record cfg now idleMs locks (rm (sr_sessionID r)) w r;
          (w2, es') = sweepIdle_loop cfg now idleMs locks rm w1 rs
      in (w2, es @ es'))"

definition sweepIdle ::
  "broker_config \<Rightarrow> int \<Rightarrow> int \<Rightarrow> (string \<Rightarrow> nat) \<Rightarrow> (string \<Rightarrow> nat \<Rightarrow> string option) \<Rightarrow> string list \<Rightarrow> world \<Rightarrow>
    world \<times> (reaper_entry list \<times> nat) result"
where
  "sweepIdle cfg now idleMs locks rm dir w = (case store_list (w_store w) dir of
     Inl e \<Rightarrow> (w, Inl e)
   | Inr records \<Rightarrow> (case sweepIdle_loop cfg now idleMs locks rm w records of
       (w', es) \<Rightarrow> (w', Inr (es, length (filter (\<lambda>en. re_action en \<noteq> Reap_error) es)))))"

section \<open>Export before release\<close>

text \<open>
  \<open>status\<close> is the answer of \<open>git status\<close> in the worker; \<open>prepare\<close> is the export
  (\<open>runPrepare\<close> in production).
\<close>

definition has_changes :: "spawn_result result \<Rightarrow> bool" where
  "has_changes status = (case status of Inl _ \<Rightarrow> True | Inr r \<Rightarrow> if spawn_ok r then trim (sp_stdout r) \<noteq> [] else True)"

definition finish_patch :: "string \<Rightarrow> release_outcome \<Rightarrow> patch" where
  "finish_patch ref out = [F_resultRef (Some ref)] @
     (if released out then [F_workerName None, F_workerState (Some DESTROYED)] else [])"

definition finishOrReleaseActive ::
  "broker_config \<Rightarrow> int \<Rightarrow> spawn_result result \<Rightarrow> (world \<Rightarrow> world \<times> string result) \<Rightarrow> (nat \<Rightarrow> string option) \<Rightarrow> string \<Rightarrow>
    world \<Rightarrow> session_record \<Rightarrow> world \<times> reaper_entry result"
where
  "finishOrReleaseActive cfg now status prepare rm cleanDetail w r =
     (let sid = sr_sessionID r in
      if \<not> has_changes status
      then (case release_and_note cfg now rm w r (entry_of sid Reaped_active cleanDetail) of
          (w1, Inl e) \<Rightarrow> (w1, Inl e)
        | (w1, Inr None) \<Rightarrow> (w1, Inr (entry_of sid Reap_error ''worker release failed; retained for the next sweep''))
        | (w1, Inr (Some en)) \<Rightarrow> (w1, Inr en))
      else (case prepare w of
          (w1, Inl e) \<Rightarrow> (w1, Inl e)
        | (w1, Inr ref) \<Rightarrow>
            (case releaseWorker cfg now rm w1 r of (w2, out) \<Rightarrow>
               (case move now w2 sid SANDBOX_ACTIVE RESULT_READY (finish_patch ref out) of
                  (w3, Inl e) \<Rightarrow> (w3, Inl e)
                | (w3, Inr _) \<Rightarrow>
                    (w3, Inr (if released out then entry_of sid Auto_finished ref
                              else entry_of sid Auto_finished_retained (ref @ '' (worker retained for the next sweep)'')))))))"

definition no_result_ref :: "session_record \<Rightarrow> bool" where
  "no_result_ref r = (sr_resultRef r = None \<or> sr_resultRef r = Some [])"

definition sweepUnfinished_record ::
  "broker_config \<Rightarrow> int \<Rightarrow> int \<Rightarrow> (string \<Rightarrow> nat) \<Rightarrow> spawn_result result \<Rightarrow> (world \<Rightarrow> world \<times> string result) \<Rightarrow>
    (nat \<Rightarrow> string option) \<Rightarrow> world \<Rightarrow> session_record \<Rightarrow> world \<times> reaper_entry list"
where
  "sweepUnfinished_record cfg now idleMs locks status prepare rm w r =
     (if not_idle locks w r \<or> sr_state r \<noteq> SANDBOX_ACTIVE \<or> sr_workerName r = None \<or> sr_workerName r = Some [] \<or>
         sr_workerState r \<noteq> Some ACTIVE \<or> \<not> no_result_ref r \<or> \<not> older_than now (sr_updatedAt r) idleMs
      then (w, [])
      else (case finishOrReleaseActive cfg now status prepare rm ''idle clean worker released'' w r of
          (w1, Inl e) \<Rightarrow> (w1, [entry_of (sr_sessionID r) Reap_error (error_message e)])
        | (w1, Inr en) \<Rightarrow> (w1, [en])))"

fun sweepUnfinished_loop ::
  "broker_config \<Rightarrow> int \<Rightarrow> int \<Rightarrow> (string \<Rightarrow> nat) \<Rightarrow> (string \<Rightarrow> spawn_result result) \<Rightarrow>
    (string \<Rightarrow> world \<Rightarrow> world \<times> string result) \<Rightarrow> (string \<Rightarrow> nat \<Rightarrow> string option) \<Rightarrow> world \<Rightarrow> session_record list \<Rightarrow>
    world \<times> reaper_entry list"
where
  "sweepUnfinished_loop cfg now idleMs locks status prepare rm w [] = (w, [])"
| "sweepUnfinished_loop cfg now idleMs locks status prepare rm w (r # rs) =
     (let sid = sr_sessionID r;
          (w1, es) = sweepUnfinished_record cfg now idleMs locks (status sid) (prepare sid) (rm sid) w r;
          (w2, es') = sweepUnfinished_loop cfg now idleMs locks status prepare rm w1 rs
      in (w2, es @ es'))"

definition sweepUnfinished ::
  "broker_config \<Rightarrow> int \<Rightarrow> int \<Rightarrow> (string \<Rightarrow> nat) \<Rightarrow> (string \<Rightarrow> spawn_result result) \<Rightarrow>
    (string \<Rightarrow> world \<Rightarrow> world \<times> string result) \<Rightarrow> (string \<Rightarrow> nat \<Rightarrow> string option) \<Rightarrow> string list \<Rightarrow> world \<Rightarrow>
    world \<times> (reaper_entry list \<times> nat) result"
where
  "sweepUnfinished cfg now idleMs locks status prepare rm dir w = (case store_list (w_store w) dir of
     Inl e \<Rightarrow> (w, Inl e)
   | Inr records \<Rightarrow> (case sweepUnfinished_loop cfg now idleMs locks status prepare rm w records of
       (w', es) \<Rightarrow> (w', Inr (es, length (filter (\<lambda>en. re_action en \<noteq> Reap_error) es)))))"

definition reapOnDisconnect ::
  "broker_config \<Rightarrow> int \<Rightarrow> int \<Rightarrow> (string \<Rightarrow> nat) \<Rightarrow> spawn_result result \<Rightarrow> (world \<Rightarrow> world \<times> string result) \<Rightarrow>
    (nat \<Rightarrow> string option) \<Rightarrow> world \<Rightarrow> string \<Rightarrow> world \<times> (bool \<times> reaper_entry list) result"
where
  "reapOnDisconnect cfg now disconnectIdleMs locks status prepare rm w sid = (case store_get (w_store w) sid of
     Inl e \<Rightarrow> (w, Inl e)
   | Inr None \<Rightarrow> (w, Inr (False, []))
   | Inr (Some r) \<Rightarrow>
       if pq_find (w_queue w) sid \<noteq> None \<or> locks sid > 0 \<or> sr_state r \<noteq> SANDBOX_ACTIVE \<or> \<not> no_result_ref r \<or>
          \<not> live_worker r \<or> \<not> older_than now (sr_updatedAt r) disconnectIdleMs
       then (w, Inr (False, []))
       else (case finishOrReleaseActive cfg now status prepare rm ''client disconnected'' w r of
           (w1, Inr en) \<Rightarrow> (w1, Inr (True, [en]))
         | (w1, Inl e) \<Rightarrow> (w1, Inr (False, [entry_of sid Reap_error (error_message e)]))))"

section \<open>The artifact sweep\<close>

definition removals_log :: "string \<Rightarrow> artifact_removal list \<Rightarrow> reaper_entry list" where
  "removals_log sid rs = map (\<lambda>r. entry_of sid (if rm_removed r then Swept_artifact else Reap_error) (rm_path r))
     (filter (\<lambda>r. rm_removed r \<or> rm_error r) rs)"

text \<open>\<open>logRemovals\<close>: the log, the number of files removed and the bytes freed.\<close>

definition logRemovals :: "string \<Rightarrow> artifact_removal list \<Rightarrow> reaper_entry list \<times> nat \<times> nat" where
  "logRemovals sid rs = (removals_log sid rs, length (filter rm_removed rs), sum_list (map rm_bytes (filter rm_removed rs)))"

definition sweep_record ::
  "broker_config \<Rightarrow> (string \<Rightarrow> string \<Rightarrow> bool option) \<Rightarrow> int \<Rightarrow> int \<Rightarrow> session_record \<Rightarrow> files \<Rightarrow> files \<times> artifact_removal list"
where
  "sweep_record cfg revParse now graceMs r fs =
     (if isTerminalState (sr_state r) \<and> older_than now (sr_updatedAt r) graceMs \<and>
         removal_allowed revParse (bc_projects cfg) fs (bc_stateDir cfg) r
      then removeSessionArtifacts fs (bc_stateDir cfg) (sr_sessionID r) else (fs, []))"

fun sweep_records ::
  "broker_config \<Rightarrow> (string \<Rightarrow> string \<Rightarrow> bool option) \<Rightarrow> int \<Rightarrow> int \<Rightarrow> session_record list \<Rightarrow> files \<Rightarrow> files \<times> artifact_removal list"
where
  "sweep_records cfg rp now graceMs [] fs = (fs, [])"
| "sweep_records cfg rp now graceMs (r # rs) fs =
     (let (fs1, out) = sweep_record cfg rp now graceMs r fs; (fs2, out') = sweep_records cfg rp now graceMs rs fs1
      in (fs2, out @ out'))"

text \<open>A candidate that is gone by now makes \<open>statSync\<close> throw, which is logged.\<close>

definition sweep_orphan :: "int \<Rightarrow> int \<Rightarrow> string list \<Rightarrow> orphan_candidate \<Rightarrow> files \<Rightarrow> files \<times> artifact_removal list" where
  "sweep_orphan now graceMs known c fs =
     (if oc_sessionKey c \<in> set known then (fs, [])
      else (case fs (oc_path c) of
          Some (RegularFile n mtime) \<Rightarrow>
            if now - mtime > graceMs
            then (let (fs', r) = removeArtifact fs \<lparr>ap_kind = oc_kind c, ap_path = oc_path c\<rparr> in (fs', [r])) else (fs, [])
        | Some (Unremovable n mtime) \<Rightarrow>
            if now - mtime > graceMs
            then (let (fs', r) = removeArtifact fs \<lparr>ap_kind = oc_kind c, ap_path = oc_path c\<rparr> in (fs', [r])) else (fs, [])
        | _ \<Rightarrow> (fs, [])))"

fun sweep_orphans :: "int \<Rightarrow> int \<Rightarrow> string list \<Rightarrow> orphan_candidate list \<Rightarrow> files \<Rightarrow> files \<times> artifact_removal list" where
  "sweep_orphans now graceMs known [] fs = (fs, [])"
| "sweep_orphans now graceMs known (c # cs) fs =
     (let (fs1, out) = sweep_orphan now graceMs known c fs; (fs2, out') = sweep_orphans now graceMs known cs fs1
      in (fs2, out @ out'))"

definition sweepStateArtifacts ::
  "broker_config \<Rightarrow> (string \<Rightarrow> string \<Rightarrow> bool option) \<Rightarrow> int \<Rightarrow> int \<Rightarrow> string list \<Rightarrow> (string \<Rightarrow> string list) \<Rightarrow> world \<Rightarrow>
    world \<times> (nat \<times> nat) result"
where
  "sweepStateArtifacts cfg revParse now graceMs dir subdirs w = (case store_list (w_store w) dir of
     Inl e \<Rightarrow> (w, Inl e)
   | Inr records \<Rightarrow>
       (let (fs1, out1) = sweep_records cfg revParse now graceMs records (w_files w);
            (fs2, out2) = sweep_orphans now graceMs (map sr_sessionID records)
              (listOrphanArtifactCandidates (bc_stateDir cfg) subdirs) fs1
        in (w\<lparr>w_files := fs2\<rparr>, Inr (snd (logRemovals [] (out1 @ out2))))))"

section \<open>Lemmas\<close>

lemma removal_allowed_reason:
  "removal_allowed rp ps fs d r \<Longrightarrow> sr_state r = REJECTED \<or> (sr_state r = FAILED_CLOSED \<and> sr_resultRef r = None) \<or>
     durableHostRefResolves rp ps r"
  by (auto simp: removal_allowed_def shouldRemoveSessionArtifacts_def Let_def split: if_splits)

text \<open>Why a file may be deleted by the first pass.\<close>

definition swept_terminal ::
  "broker_config \<Rightarrow> (string \<Rightarrow> string \<Rightarrow> bool option) \<Rightarrow> int \<Rightarrow> int \<Rightarrow> session_record list \<Rightarrow> string \<Rightarrow> bool"
where
  "swept_terminal cfg rp now graceMs records p = list_ex (\<lambda>r.
     isTerminalState (sr_state r) \<and> older_than now (sr_updatedAt r) graceMs \<and>
     p \<in> ap_path ` set (sessionArtifactPaths (bc_stateDir cfg) (sr_sessionID r)) \<and>
     (sr_state r = REJECTED \<or> (sr_state r = FAILED_CLOSED \<and> sr_resultRef r = None) \<or>
      durableHostRefResolves rp (bc_projects cfg) r)) records"

definition swept_orphan :: "session_record list \<Rightarrow> orphan_candidate list \<Rightarrow> string \<Rightarrow> bool" where
  "swept_orphan records cands p =
     list_ex (\<lambda>c. oc_path c = p \<and> oc_sessionKey c \<notin> sr_sessionID ` set records) cands"

lemma sweep_record_justified:
  assumes "fst (sweep_record cfg rp now g r fs) p \<noteq> fs p"
  shows "fst (sweep_record cfg rp now g r fs) p = None \<and> swept_terminal cfg rp now g [r] p"
  using assms removal_allowed_reason [of rp "bc_projects cfg" fs "bc_stateDir cfg" r]
    removeArtifacts_frame [of p "sessionArtifactPaths (bc_stateDir cfg) (sr_sessionID r)" fs]
    removeArtifacts_le [of fs "sessionArtifactPaths (bc_stateDir cfg) (sr_sessionID r)" p]
  by (auto simp: sweep_record_def removeSessionArtifacts_def swept_terminal_def split: if_splits)

lemma sweep_records_justified:
  "fst (sweep_records cfg rp now g rs fs) p \<noteq> fs p \<Longrightarrow>
   fst (sweep_records cfg rp now g rs fs) p = None \<and> swept_terminal cfg rp now g rs p"
proof (induction rs arbitrary: fs)
  case (Cons r rs)
  define fs1 where "fs1 = fst (sweep_record cfg rp now g r fs)"
  have eq: "fst (sweep_records cfg rp now g (r # rs) fs) = fst (sweep_records cfg rp now g rs fs1)"
    by (simp add: Let_def case_prod_beta fs1_def)
  have st: "swept_terminal cfg rp now g (r # rs) p \<longleftrightarrow> swept_terminal cfg rp now g [r] p \<or> swept_terminal cfg rp now g rs p"
    by (simp add: swept_terminal_def)
  show ?case
    using Cons.IH [of fs1] sweep_record_justified [of cfg rp now g r fs p] Cons.prems
    unfolding eq st by (metis fs1_def)
qed simp

lemma sweep_orphan_justified:
  assumes "fst (sweep_orphan now g known c fs) p \<noteq> fs p"
  shows "fst (sweep_orphan now g known c fs) p = None \<and> oc_path c = p \<and> oc_sessionKey c \<notin> set known"
  using assms
  by (auto simp: sweep_orphan_def removeArtifact_def Let_def split: if_splits option.splits fs_entry.splits)

lemma sweep_orphans_justified:
  "fst (sweep_orphans now g (map sr_sessionID rs) cs fs) p \<noteq> fs p \<Longrightarrow>
   fst (sweep_orphans now g (map sr_sessionID rs) cs fs) p = None \<and> swept_orphan rs cs p"
proof (induction cs arbitrary: fs)
  case (Cons c cs)
  define fs1 where "fs1 = fst (sweep_orphan now g (map sr_sessionID rs) c fs)"
  have eq: "fst (sweep_orphans now g (map sr_sessionID rs) (c # cs) fs) = fst (sweep_orphans now g (map sr_sessionID rs) cs fs1)"
    by (simp add: Let_def case_prod_beta fs1_def)
  have st: "swept_orphan rs (c # cs) p \<longleftrightarrow> swept_orphan rs [c] p \<or> swept_orphan rs cs p"
    by (simp add: swept_orphan_def)
  have one: "swept_orphan rs [c] p \<longleftrightarrow> oc_path c = p \<and> oc_sessionKey c \<notin> set (map sr_sessionID rs)"
    by (simp add: swept_orphan_def)
  show ?case
    using Cons.IH [of fs1] sweep_orphan_justified [of now g "map sr_sessionID rs" c fs p] Cons.prems
    unfolding eq st one by (metis fs1_def)
qed simp

lemma touch_frame:
  assumes "wf_store st" "touch now st k p op = Inr (st', r')" "safe_patch p"
  shows "wf_store st' \<and> (\<forall>s. s = k \<or> st' s = st s)"
  using assms(2)
proof (cases rule: touch_cases)
  case new
  then have "sr_sessionID r' = k" using spread_keeps [OF assms(3)] by simp
  with new assms(1) show ?thesis by (auto simp: persist_def wf_store_def)
next
  case (old e u)
  then have "sr_sessionID r' = k" using spread_keeps [OF assms(3)] assms(1) by (simp add: wf_store_def)
  with old assms(1) show ?thesis by (auto simp: persist_def wf_store_def)
qed

text \<open>What a sweep relies on between two records, and keeps for a session that is not waiting.\<close>

definition quiet :: "string \<Rightarrow> world \<Rightarrow> bool" where
  "quiet sid w = (wf_store (w_store w) \<and> one_per_session (w_queue w) \<and> pq_find (w_queue w) sid = None)"

definition same_session :: "string \<Rightarrow> world \<Rightarrow> world \<Rightarrow> bool" where
  "same_session sid w w' = (w_store w' sid = w_store w sid \<and> owned_by sid (w_pool w') = owned_by sid (w_pool w))"

lemma drain_quiet:
  assumes "quiet sid w"
  shows "quiet sid (drainQueue cfg now w) \<and> same_session sid w (drainQueue cfg now w)"
proof -
  have q: "wf_store (w_store w)" "one_per_session (w_queue w)" "sid \<notin> qe_sessionID ` set (pq_entries (w_queue w))"
    using assms by (auto simp: quiet_def pq_find_def find_None_iff)
  obtain n where e: "pq_entries (w_queue (drainQueue cfg now w)) = drop n (pq_entries (w_queue w))"
    using drain_admits_prefix [OF q(2), of cfg now] by blast
  then have "one_per_session (w_queue (drainQueue cfg now w))"
    using q(2) by (simp add: one_per_session_def distinct_drop flip: drop_map)
  moreover have "pq_find (w_queue (drainQueue cfg now w)) sid = None"
    using q(3) e by (auto simp: pq_find_def find_None_iff dest: in_set_dropD)
  ultimately show ?thesis
    using drain_store [OF q(1,2), of cfg now] q(3) by (auto simp: quiet_def same_session_def)
qed

lemma release_quiet:
  assumes "quiet sid w" "sid \<noteq> sr_sessionID r"
  shows "quiet sid (fst (releaseWorker cfg now rm w r)) \<and> same_session sid w (fst (releaseWorker cfg now rm w r))"
proof -
  define v where "v = w\<lparr>w_pool := removePoolAllocation (w_pool w) r\<rparr>"
  have "quiet sid v" "same_session sid w v"
    using assms by (simp_all add: v_def quiet_def same_session_def removePoolAllocation_other)
  then have "quiet sid (drainQueue cfg now v) \<and> same_session sid w (drainQueue cfg now v)"
    using drain_quiet [of sid v cfg now] by (simp add: same_session_def)
  then show ?thesis using assms(1) by (auto simp: releaseWorker_def same_session_def simp flip: v_def)
qed

lemma release_and_note_quiet:
  assumes "quiet sid w" "sid \<noteq> sr_sessionID r"
  shows "quiet sid (fst (release_and_note cfg now rm w r en)) \<and> same_session sid w (fst (release_and_note cfg now rm w r en))"
proof -
  obtain w1 out where rel: "releaseWorker cfg now rm w r = (w1, out)" by fastforce
  have w1: "quiet sid w1" "same_session sid w w1" using release_quiet [OF assms, of cfg now rm] by (simp_all add: rel)
  have "wf_store st' \<and> st' sid = w_store w1 sid"
    if "touch now (w_store w1) (sr_sessionID r) (reaped_patch now) None = Inr (st', r')" for st' r'
    using touch_frame [OF _ that] w1(1) assms(2) by (auto simp: quiet_def reaped_patch_def)
  with w1 show ?thesis
    by (auto simp: release_and_note_def rel quiet_def same_session_def split: sum.split)
qed

lemma sweepIdle_record_quiet:
  assumes "quiet sid w" "sid \<noteq> sr_sessionID r"
  shows "quiet sid (fst (sweepIdle_record cfg now idle locks rm w r)) \<and>
    same_session sid w (fst (sweepIdle_record cfg now idle locks rm w r))"
proof -
  have same: "same_session sid w w" by (simp add: same_session_def)
  have go: "quiet sid (fst (case release_and_note cfg now rm w r en of
        (w1, Inl e) \<Rightarrow> (w1, f e) | (w1, Inr None) \<Rightarrow> (w1, []) | (w1, Inr (Some en')) \<Rightarrow> (w1, [en']))) \<and>
      same_session sid w (fst (case release_and_note cfg now rm w r en of
        (w1, Inl e) \<Rightarrow> (w1, f e) | (w1, Inr None) \<Rightarrow> (w1, []) | (w1, Inr (Some en')) \<Rightarrow> (w1, [en'])))" for en f
    using release_and_note_quiet [OF assms, of cfg now rm en] by (simp add: case_prod_beta split: sum.split option.split)
  show ?thesis using assms(1) same go by (simp add: sweepIdle_record_def Let_def)
qed

text \<open>A record the idle sweep must leave alone.\<close>

definition busy :: "int \<Rightarrow> int \<Rightarrow> (string \<Rightarrow> nat) \<Rightarrow> session_record \<Rightarrow> bool" where
  "busy now idleMs locks r = (sr_state r \<in> {HOST_READ_ONLY, CREATING_SANDBOX, APPLY_PENDING} \<or>
     locks (sr_sessionID r) > 0 \<or> (\<not> isTerminalState (sr_state r) \<and> \<not> older_than now (sr_updatedAt r) idleMs))"

lemma sweepIdle_record_busy: "busy now idle locks r \<Longrightarrow> fst (sweepIdle_record cfg now idle locks rm w r) = w"
  by (auto simp: busy_def sweepIdle_record_def not_idle_def isTerminalState_iff Let_def)

lemma sweepIdle_loop_quiet:
  assumes "quiet sid w" "\<forall>r \<in> set rs. sr_sessionID r = sid \<longrightarrow> busy now idle locks r"
  shows "same_session sid w (fst (sweepIdle_loop cfg now idle locks rm w rs))"
  using assms
proof (induction rs arbitrary: w)
  case (Cons r rs)
  define w1 where "w1 = fst (sweepIdle_record cfg now idle locks (rm (sr_sessionID r)) w r)"
  have w1: "quiet sid w1 \<and> same_session sid w w1"
  proof (cases "sr_sessionID r = sid")
    case True
    then have "w1 = w" using Cons.prems(2) by (simp add: w1_def sweepIdle_record_busy)
    then show ?thesis using Cons.prems(1) by (simp add: same_session_def)
  next
    case False
    then show ?thesis using sweepIdle_record_quiet [OF Cons.prems(1), of r] by (simp add: w1_def)
  qed
  have "same_session sid w1 (fst (sweepIdle_loop cfg now idle locks rm w1 rs))"
    using Cons.IH [of w1] w1 Cons.prems(2) by simp
  then show ?case using w1 by (simp add: Let_def case_prod_beta same_session_def w1_def)
qed (simp add: same_session_def)

lemma store_list_member: "store_list st dir = Inr rs \<Longrightarrow> r \<in> set rs \<Longrightarrow> \<exists>sid. st sid = Some (Stored r)"
  by (induction dir arbitrary: rs) (auto simp: bindR_eq_Inr store_get_eq_Some split: if_splits option.splits)

section \<open>Properties\<close>

text \<open>
  C15.  Every file the artifact sweep deletes is accounted for: it is an artifact of a
  finished session whose record is older than the grace period and whose result was
  rejected, never existed, or is durable in the host repository; or it is a file of no
  known session.  The sweep never changes anything else.
\<close>

theorem artifact_deletions_justified:
  assumes "store_list (w_store w) dir = Inr records"
    and "w_files (fst (sweepStateArtifacts cfg rp now graceMs dir subdirs w)) p \<noteq> w_files w p"
  shows "w_files (fst (sweepStateArtifacts cfg rp now graceMs dir subdirs w)) p = None \<and>
     (swept_terminal cfg rp now graceMs records p \<or>
      swept_orphan records (listOrphanArtifactCandidates (bc_stateDir cfg) subdirs) p)"
proof -
  define fs1 where "fs1 = fst (sweep_records cfg rp now graceMs records (w_files w))"
  have eq: "w_files (fst (sweepStateArtifacts cfg rp now graceMs dir subdirs w)) =
      fst (sweep_orphans now graceMs (map sr_sessionID records) (listOrphanArtifactCandidates (bc_stateDir cfg) subdirs) fs1)"
    using assms(1) by (simp add: sweepStateArtifacts_def Let_def case_prod_beta fs1_def)
  show ?thesis
    using assms(2) sweep_records_justified [of cfg rp now graceMs records "w_files w" p]
      sweep_orphans_justified [of now graceMs records "listOrphanArtifactCandidates (bc_stateDir cfg) subdirs" fs1 p]
    unfolding eq by (metis fs1_def)
qed

definition demo_rejected :: world where
  "demo_rejected = (demo_ready REJECTED)\<lparr>w_files := [''/st/bundles/s1.bundle'' \<mapsto> RegularFile 5 0]\<rparr>"

theorem artifact_deletions_justified_witness:
  "\<exists>records. w_files (fst (sweepStateArtifacts (demo_config 1) (\<lambda>_ _. None) 100 10 [''s1.json''] (\<lambda>_. []) demo_rejected)) ''/st/bundles/s1.bundle'' = None \<and>
     (swept_terminal (demo_config 1) (\<lambda>_ _. None) 100 10 records ''/st/bundles/s1.bundle'' \<or>
      swept_orphan records (listOrphanArtifactCandidates (bc_stateDir (demo_config 1)) (\<lambda>_. [])) ''/st/bundles/s1.bundle'')"
proof -
  define r where "r = (new_record ''s1'' (Iso 0))\<lparr>sr_state := REJECTED, sr_projectID := Some ''demo'',
    sr_resultRef := Some ''R'', sr_baselineRef := Some ''B''\<rparr>"
  have l: "store_list (w_store demo_rejected) [''s1.json''] = Inr [r]"
    by (simp add: demo_rejected_def demo_ready_def initial_world_def endsWith_def store_get_def r_def)
  have st: "bc_stateDir (demo_config 1) = ''/st''" by (simp add: demo_config_def)
  have fs: "w_files demo_rejected = [''/st/bundles/s1.bundle'' \<mapsto> RegularFile 5 0]" by (simp add: demo_rejected_def)
  have paths: "sessionArtifactPaths ''/st'' ''s1'' = \<lparr>ap_kind = Bundle, ap_path = ''/st/bundles/s1.bundle''\<rparr> #
      tl (sessionArtifactPaths ''/st'' ''s1'')"
    by (simp add: sessionArtifactPaths_def session_paths [OF canonical_st] session_ids_demo)
  have gone: "fst (removeSessionArtifacts [''/st/bundles/s1.bundle'' \<mapsto> RegularFile 5 0] ''/st'' ''s1'') ''/st/bundles/s1.bundle'' = None"
    using removeArtifacts_le [of Map.empty "tl (sessionArtifactPaths ''/st'' ''s1'')" "''/st/bundles/s1.bundle''"]
    by (subst removeSessionArtifacts_def, subst paths) (auto simp: removeArtifact_def Let_def case_prod_beta)
  have "w_files (fst (sweepStateArtifacts (demo_config 1) (\<lambda>_ _. None) 100 10 [''s1.json''] (\<lambda>_. []) demo_rejected)) ''/st/bundles/s1.bundle'' = None"
    using gone fs
    by (simp add: sweepStateArtifacts_def l st Let_def case_prod_beta sweep_record_def r_def isTerminalState_iff older_than_def
        new_record_def removal_allowed_def shouldRemoveSessionArtifacts_def listOrphanArtifactCandidates_def
        candidates_of_def divergence_candidates_def fs del: store_list.simps)
  then have "w_files (fst (sweepStateArtifacts (demo_config 1) (\<lambda>_ _. None) 100 10 [''s1.json''] (\<lambda>_. []) demo_rejected)) ''/st/bundles/s1.bundle'' \<noteq>
      w_files demo_rejected ''/st/bundles/s1.bundle''" by (simp add: demo_rejected_def)
  from artifact_deletions_justified [OF l this] show ?thesis by blast
qed


definition demo_dirty :: "spawn_result result" where
  "demo_dirty = Inr \<lparr>sp_status = Some 0, sp_stdout = '' M a.ts'', sp_stderr = []\<rparr>"


lemma sweepIdle_spares:
  assumes "w_store w sid = Some (Stored r)" "busy now idleMs locks r" "wf_store (w_store w)"
    "one_per_session (w_queue w)" "pq_find (w_queue w) sid = None"
  shows "let w' = fst (sweepIdle cfg now idleMs locks rm dir w) in
     w_store w' sid = Some (Stored r) \<and> owned_by sid (w_pool w') = owned_by sid (w_pool w)"
proof (cases "store_list (w_store w) dir")
  case (Inl e)
  with assms(1) show ?thesis by (simp add: sweepIdle_def)
next
  case (Inr records)
  have "x = r" if "x \<in> set records" "sr_sessionID x = sid" for x
    using store_list_member [OF Inr that(1)] assms(1,3) that(2) by (auto simp: wf_store_def)
  then have "\<forall>x \<in> set records. sr_sessionID x = sid \<longrightarrow> busy now idleMs locks x" using assms(2) by blast
  then have "same_session sid w (fst (sweepIdle_loop cfg now idleMs locks rm w records))"
    using assms(3-5) by (intro sweepIdle_loop_quiet) (simp_all add: quiet_def)
  with assms(1) show ?thesis by (simp add: sweepIdle_def Inr same_session_def case_prod_beta)
qed



text \<open>
  The sweep acts on the record as it was read at its start.  When an active session
  was idle at that moment but has been used since (its stored record is from now, and no
  lock is held any more), the sweep still takes its worker away without an export.
\<close>

theorem idle_sweep_acts_on_stale_record:
  assumes "sr_state r = SANDBOX_ACTIVE" "live_worker r" "older_than now (sr_updatedAt r) idleMs"
    "locks (sr_sessionID r) = 0" "rm 0 = None"
    "w_store w (sr_sessionID r) = Some (Stored r2)" "sr_updatedAt r2 = Iso now" "sr_state r2 = SANDBOX_ACTIVE"
    "wf_store (w_store w)" "one_per_session (w_queue w)" "pq_find (w_queue w) (sr_sessionID r) = None"
  shows "\<exists>w' en r3. sweepIdle_record cfg now idleMs locks rm w r = (w', [en]) \<and> re_action en = Reaped_active_unsaved \<and>
     w_store w' (sr_sessionID r) = Some (Stored r3) \<and> sr_workerName r3 = None \<and> sr_workerState r3 = Some DESTROYED"
proof -
  obtain w1 out where rel: "releaseWorker cfg now rm w r = (w1, out)" by fastforce
  have out: "released out" using rel assms(2,5) by (auto simp: releaseWorker_def released_def split: if_splits)
  have w1: "w_store w1 (sr_sessionID r) = Some (Stored r2)"
    using release_store [OF assms(9-11), of cfg now rm r] assms(6) by (simp add: rel)
  have id: "sr_sessionID r2 = sr_sessionID r" using assms(6,9) by (simp add: wf_store_def)
  define r3 where "r3 = (spread r2 (reaped_patch now))\<lparr>sr_updatedAt := Iso now\<rparr>"
  have t: "touch now (w_store w1) (sr_sessionID r) (reaped_patch now) None = Inr (persist (w_store w1) r3, r3)"
    using w1 by (simp add: touch_eq_Inr_Some r3_def)
  show ?thesis
    using assms(1-4,11) rel out t id
    by (simp add: sweepIdle_record_def not_idle_def isTerminalState_iff release_and_note_def Let_def entry_of_def)
       (simp add: persist_def r3_def reaped_patch_def)
qed

definition demo_worker :: "iso \<Rightarrow> session_record" where
  "demo_worker t = (new_record ''s1'' t)\<lparr>sr_state := SANDBOX_ACTIVE, sr_workerName := Some ''oc-s1'',
     sr_workerState := Some ACTIVE\<rparr>"

theorem idle_sweep_acts_on_stale_record_witness:
  "\<exists>w' en r3. sweepIdle_record (demo_config 1) 100 10 (\<lambda>_. 0) (\<lambda>_. None)
       (initial_world [''s1'' \<mapsto> Stored (demo_worker (Iso 100))] Map.empty) (demo_worker (Iso 0)) = (w', [en]) \<and>
     re_action en = Reaped_active_unsaved \<and>
     w_store w' (sr_sessionID (demo_worker (Iso 0))) = Some (Stored r3) \<and> sr_workerName r3 = None \<and>
     sr_workerState r3 = Some DESTROYED"
  by (rule idle_sweep_acts_on_stale_record [where ?r2.0 = "demo_worker (Iso 100)"])
     (simp_all add: demo_worker_def live_worker_def older_than_def new_record_def initial_world_def wf_store_def
       empty_queue_def one_per_session_def pq_find_def)

text \<open>
  A disconnect reports the worker as released although its removal failed: for a
  clean worker whose two removal attempts fail the answer is true, the entry is an
  error and nothing has changed.
\<close>

theorem disconnect_reports_failed_release:
  assumes "store_get (w_store w) sid = Inr (Some r)" "pq_find (w_queue w) sid = None" "locks sid = 0"
    "sr_state r = SANDBOX_ACTIVE" "no_result_ref r" "live_worker r" "older_than now (sr_updatedAt r) limit"
    "\<not> has_changes status" "rm 0 \<noteq> None" "rm 1 \<noteq> None"
  shows "\<exists>en. reapOnDisconnect cfg now limit locks status prepare rm w sid = (w, Inr (True, [en])) \<and> re_action en = Reap_error"
  using assms
  by (simp add: reapOnDisconnect_def finishOrReleaseActive_def release_and_note_def releaseWorker_def released_def Let_def
      entry_of_def)

end
