(* ===== verification/Server.thy ===== *)
theory Server
  imports Reaper HostAuth
begin

text \<open>
  The transport of \<^verbatim>\<open>broker/src/server.ts\<close>: splitting a connection's bytes into
  request lines, the queue of response writes, the per-session lock, the parsing of a
  request, the advisor socket of \<^verbatim>\<open>broker/src/advisor-socket.ts\<close>, the dispatch to
  handlers and the recovery of a stale socket file.  Bytes are characters.  What the
  runtime answers (\<open>JSON.parse\<close>, a socket write, a handler) is an argument.
\<close>

section \<open>Request lines\<close>

definition OVERSIZE_ID_PREFIX_BYTES :: nat where
  "OVERSIZE_ID_PREFIX_BYTES = 512"

definition JSON_ESCAPE_WORST_CASE :: nat where
  "JSON_ESCAPE_WORST_CASE = 6"

definition REQUEST_ENVELOPE_ALLOWANCE :: nat where
  "REQUEST_ENVELOPE_ALLOWANCE = 64 * 1024"

definition maxRequestLineBytes :: "nat \<Rightarrow> nat \<Rightarrow> nat \<Rightarrow> nat" where
  "maxRequestLineBytes contentMaxBytes patchMaxBytes reviewInputMaxBytes =
     max (max contentMaxBytes patchMaxBytes) reviewInputMaxBytes * JSON_ESCAPE_WORST_CASE + REQUEST_ENVELOPE_ALLOWANCE"

text \<open>
  \<open>OVERSIZE_ID_RE\<close>: a quoted \<open>id\<close>, white space around a colon, a quoted request id.
  No part of the expression can match a character of the next part, so matching at a
  position needs no backtracking; \<open>exec\<close> takes the first position that matches.
\<close>

definition oversize_id_at :: "string \<Rightarrow> string option" where
  "oversize_id_at s =
     (let quote = CHR 0x22; key = [quote, CHR ''i'', CHR ''d'', quote] in
      if \<not> startsWith s key then None
      else (case dropWhile is_space (drop 4 s) of
          [] \<Rightarrow> None
        | c # r \<Rightarrow>
            if c \<noteq> CHR '':'' then None
            else (case dropWhile is_space r of
                [] \<Rightarrow> None
              | q # t \<Rightarrow>
                  (let ident = takeWhile (\<lambda>x. is_alnum x \<or> x = CHR ''-'') t in
                   if q = quote \<and> REQUEST_ID_RE ident \<and> startsWith (drop (length ident) t) [quote]
                   then Some ident else None))))"

fun oversize_id :: "string \<Rightarrow> string option" where
  "oversize_id [] = None"
| "oversize_id (c # s) = (case oversize_id_at (c # s) of Some i \<Rightarrow> Some i | None \<Rightarrow> oversize_id s)"

datatype framed_request = Line string | Oversize "string option" nat

definition oversize :: "string \<Rightarrow> nat \<Rightarrow> framed_request" where
  "oversize line bytes = Oversize (oversize_id (take OVERSIZE_ID_PREFIX_BYTES line)) bytes"

record framer =
  fr_pending :: string
  fr_discarding :: bool
  fr_discardedBytes :: nat
  fr_discardPrefix :: string

definition new_framer :: framer where
  "new_framer = \<lparr>fr_pending = [], fr_discarding = False, fr_discardedBytes = 0, fr_discardPrefix = []\<rparr>"

definition frame_line :: "nat \<Rightarrow> string \<Rightarrow> framed_request" where
  "frame_line maxLineBytes line =
     (if length line > maxLineBytes then oversize line (length line) else Line line)"

text \<open>The loop over \<open>indexOf(0x0a, offset)\<close>: the complete lines and what follows the last one.\<close>

definition frame_lines :: "nat \<Rightarrow> string \<Rightarrow> framed_request list \<times> string" where
  "frame_lines maxLineBytes data =
     (map (frame_line maxLineBytes) (butlast (splitOn LF data)), last (splitOn LF data))"

definition keep_rest :: "nat \<Rightarrow> string \<Rightarrow> framer" where
  "keep_rest maxLineBytes rest =
     (if length rest > maxLineBytes
      then \<lparr>fr_pending = [], fr_discarding = True, fr_discardedBytes = length rest,
            fr_discardPrefix = take OVERSIZE_ID_PREFIX_BYTES rest\<rparr>
      else new_framer\<lparr>fr_pending := rest\<rparr>)"

definition push :: "nat \<Rightarrow> framer \<Rightarrow> string \<Rightarrow> framer \<times> framed_request list" where
  "push maxLineBytes f chunk =
     (if fr_discarding f then
        (if LF \<notin> set chunk then (f\<lparr>fr_discardedBytes := fr_discardedBytes f + length chunk\<rparr>, [])
         else let before = takeWhile (\<lambda>c. c \<noteq> LF) chunk;
                  (events, rest) = frame_lines maxLineBytes (drop (length before + 1) chunk)
              in (keep_rest maxLineBytes rest,
                  oversize (fr_discardPrefix f) (fr_discardedBytes f + length before) # events))
      else let (events, rest) = frame_lines maxLineBytes (fr_pending f @ chunk)
           in (keep_rest maxLineBytes rest, events))"

text \<open>All chunks of a connection, in order.\<close>

fun feed :: "('s \<Rightarrow> string \<Rightarrow> 's \<times> 'e list) \<Rightarrow> 's \<Rightarrow> string list \<Rightarrow> 's \<times> 'e list" where
  "feed p s [] = (s, [])"
| "feed p s (c # cs) = (let (s1, ev) = p s c; (s2, ev') = feed p s1 cs in (s2, ev @ ev'))"

section \<open>Response writes\<close>

record socket_write =
  sw_data :: string
  sw_offset :: nat
  sw_id :: "string option"

text \<open>
  The queue with what it has done so far: the bytes the socket took, the failures
  reported and the number of times the deferred termination ran.
\<close>

record write_queue =
  wq_writes :: "socket_write list"
  wq_onDrained :: bool
  wq_terminationRequested :: bool
  wq_sent :: string
  wq_failures :: "string option list"
  wq_terminated :: nat

definition new_write_queue :: write_queue where
  "new_write_queue = \<lparr>wq_writes = [], wq_onDrained = False, wq_terminationRequested = False, wq_sent = [],
     wq_failures = [], wq_terminated = 0\<rparr>"

text \<open>What \<open>socket.write\<close> does: it returns a number or throws; a socket that is not asked again takes nothing.\<close>

datatype write_answer = Wrote int | WriteThrows

fun next_answer :: "write_answer list \<Rightarrow> write_answer \<times> write_answer list" where
  "next_answer [] = (Wrote 0, [])"
| "next_answer (a # as) = (a, as)"

definition notifyDrained :: "write_queue \<Rightarrow> write_queue" where
  "notifyDrained q =
     (if wq_writes q \<noteq> [] \<or> \<not> wq_onDrained q then q
      else q\<lparr>wq_onDrained := False, wq_terminated := Suc (wq_terminated q)\<rparr>)"

fun flush_writes :: "write_answer list \<Rightarrow> socket_write list \<Rightarrow> write_queue \<Rightarrow> write_queue" where
  "flush_writes ans [] q = q\<lparr>wq_writes := []\<rparr>"
| "flush_writes ans (w # ws) q =
     (let remaining = drop (sw_offset w) (sw_data w); (a, ans') = next_answer ans in
      case a of
        Wrote n \<Rightarrow>
          if 0 \<le> n \<and> n \<le> int (length remaining) then
            (let w' = w\<lparr>sw_offset := sw_offset w + nat n\<rparr>;
                 q' = q\<lparr>wq_sent := wq_sent q @ take (nat n) remaining\<rparr> in
             if sw_offset w' < length (sw_data w') then q'\<lparr>wq_writes := w' # ws\<rparr>
             else flush_writes ans' ws (notifyDrained (q'\<lparr>wq_writes := ws\<rparr>)))
          else notifyDrained (q\<lparr>wq_writes := [], wq_failures := wq_failures q @ [sw_id w]\<rparr>)
      | WriteThrows \<Rightarrow> notifyDrained (q\<lparr>wq_writes := [], wq_failures := wq_failures q @ [sw_id w]\<rparr>))"

definition wq_flush :: "write_answer list \<Rightarrow> write_queue \<Rightarrow> write_queue" where
  "wq_flush ans q = flush_writes ans (wq_writes q) q"

definition wq_enqueue :: "write_answer list \<Rightarrow> string \<Rightarrow> string option \<Rightarrow> write_queue \<Rightarrow> write_queue" where
  "wq_enqueue ans data ident q =
     wq_flush ans (q\<lparr>wq_writes := wq_writes q @ [\<lparr>sw_data = data, sw_offset = 0, sw_id = ident\<rparr>]\<rparr>)"

definition wq_terminate :: "write_queue \<Rightarrow> write_queue" where
  "wq_terminate q =
     (if wq_terminationRequested q then q
      else if wq_writes q = []
      then q\<lparr>wq_terminationRequested := True, wq_terminated := Suc (wq_terminated q)\<rparr>
      else q\<lparr>wq_terminationRequested := True, wq_onDrained := True\<rparr>)"

datatype wq_event = Enqueue string "string option" "write_answer list" | Drain "write_answer list" | Terminate

fun wq_step :: "write_queue \<Rightarrow> wq_event \<Rightarrow> write_queue" where
  "wq_step q (Enqueue d i ans) = wq_enqueue ans d i q"
| "wq_step q (Drain ans) = wq_flush ans q"
| "wq_step q Terminate = wq_terminate q"

definition wq_run :: "write_queue \<Rightarrow> wq_event list \<Rightarrow> write_queue" where
  "wq_run = foldl wq_step"

fun frame_of :: "wq_event \<Rightarrow> string" where
  "frame_of (Enqueue d _ _) = d"
| "frame_of _ = []"

section \<open>The session lock\<close>

text \<open>
  \<open>withSessionLock\<close>: every call chains its function behind the previous call of the
  session and counts it in \<open>activeLocks\<close> until it has settled.  The chain of a session is
  the list of its unsettled calls; the first one is running.
\<close>

record session_locks =
  sl_chain :: "string \<Rightarrow> nat list"
  sl_active :: "string \<Rightarrow> nat option"

definition no_locks :: session_locks where
  "no_locks = \<lparr>sl_chain = (\<lambda>_. []), sl_active = Map.empty\<rparr>"

definition lock_enter :: "string \<Rightarrow> nat \<Rightarrow> session_locks \<Rightarrow> session_locks" where
  "lock_enter sid call l =
     l\<lparr>sl_active := (sl_active l)(sid \<mapsto> (case sl_active l sid of None \<Rightarrow> 0 | Some n \<Rightarrow> n) + 1),
       sl_chain := (sl_chain l)(sid := sl_chain l sid @ [call])\<rparr>"

text \<open>The running call settles and its \<open>finally\<close> block runs.\<close>

definition lock_settle :: "string \<Rightarrow> session_locks \<Rightarrow> session_locks" where
  "lock_settle sid l =
     (let n = (case sl_active l sid of None \<Rightarrow> 1 | Some n \<Rightarrow> n) - 1 in
      l\<lparr>sl_active := (sl_active l)(sid := (if n = 0 then None else Some n)),
        sl_chain := (sl_chain l)(sid := tl (sl_chain l sid))\<rparr>)"

definition running :: "session_locks \<Rightarrow> string \<Rightarrow> nat option" where
  "running l sid = (case sl_chain l sid of [] \<Rightarrow> None | c # _ \<Rightarrow> Some c)"

datatype lock_event = LockEnter string nat | LockSettle string

fun lock_step :: "session_locks \<Rightarrow> lock_event \<Rightarrow> session_locks" where
  "lock_step l (LockEnter sid c) = lock_enter sid c l"
| "lock_step l (LockSettle sid) = (if running l sid = None then l else lock_settle sid l)"

text \<open>\<open>activeLocks?.get(sid) ?? 0\<close>, as the reaper reads it.\<close>

definition active_locks :: "session_locks \<Rightarrow> string \<Rightarrow> nat" where
  "active_locks l sid = (case sl_active l sid of None \<Rightarrow> 0 | Some n \<Rightarrow> n)"

section \<open>Requests\<close>

definition MAX_OPERATION_NAME_LENGTH :: nat where
  "MAX_OPERATION_NAME_LENGTH = 128"

text \<open>
  \<open>parseRequest\<close>: the argument is what \<open>JSON.parse\<close> returned, \<open>None\<close> when it threw; the
  left side carries the id to answer with, when there is one.
\<close>

definition parseRequest :: "js option \<Rightarrow> (string option \<times> broker_error) + envelope" where
  "parseRequest parsed = (case parsed of
     None \<Rightarrow> Inl (None, ValidationError ''malformed JSON request'')
   | Some raw \<Rightarrow>
     if \<not> (case raw of JObj _ \<Rightarrow> True | JArr _ \<Rightarrow> True | _ \<Rightarrow> False)
     then Inl (None, ValidationError ''request must be a JSON object'')
     else
       let req = (case raw of JObj obj \<Rightarrow> obj | _ \<Rightarrow> []); ident = js_get req ''id''; sid = js_get req ''sessionID'';
           op = js_get req ''operation''; agent = js_get req ''agent'' in
       if js_get req ''version'' \<noteq> JInt 1 then Inl (None, ValidationError ''unsupported protocol version'')
       else if \<not> is_str REQUEST_ID_RE ident then Inl (None, ValidationError ''invalid request id'')
       else if \<not> is_str SESSION_ID_RE sid then Inl (Some (js_str ident), ValidationError ''invalid sessionID'')
       else if \<not> is_str (\<lambda>_. True) op then Inl (Some (js_str ident), ValidationError ''missing operation'')
       else if length (js_str op) > MAX_OPERATION_NAME_LENGTH
       then Inl (Some (js_str ident), ValidationError ''operation name exceeds 128 characters'')
       else Inr \<lparr>env_id = js_str ident, env_operation = js_str op, env_sessionID = js_str sid,
                 env_agent = (if is_str (\<lambda>a. length a \<le> 128) agent then agent else JUndefined),
                 env_payload = js_get req ''payload''\<rparr>)"

subsection \<open>The advisor socket\<close>

definition ADVISOR_AGENT :: string where
  "ADVISOR_AGENT = ''external-advisor''"

definition ADVISOR_SESSION_PLACEHOLDER :: string where
  "ADVISOR_SESSION_PLACEHOLDER = ''advisor''"

definition ADVISOR_SESSION_PREFIX :: string where
  "ADVISOR_SESSION_PREFIX = ''advisor''"

definition ADVISOR_ALLOWED_OPERATIONS :: "string list" where
  "ADVISOR_ALLOWED_OPERATIONS = [''ensureWorker'', ''workerStatus'', ''destroyWorker'', ''exec'', ''readFile'',
     ''writeFile'', ''applyPatch'', ''listDir'', ''grep'', ''diff'', ''resultDiff'', ''advisorRead'', ''advisorRespond'',
     ''evidenceKeep'']"

definition ADVISOR_ONLY_OPERATIONS :: "string list" where
  "ADVISOR_ONLY_OPERATIONS = [''advisorRead'', ''advisorRespond'', ''evidenceKeep'']"

record advisor_binding =
  ab_projectId :: string
  ab_projectPath :: string
  ab_sessionID :: string

definition assertProjectId :: "string \<Rightarrow> unit result" where
  "assertProjectId pid = guardR (matches (\<lambda>c. is_alnum c \<or> one_of ''_-'' c) 1 32 pid)
     (ValidationError ''advisor project id is malformed'')"

definition advisorSocketPath :: "string \<Rightarrow> string \<Rightarrow> string result" where
  "advisorSocketPath mainSocketPath pid = bindR (assertProjectId pid) (\<lambda>_.
     Inr (join_path (dirname mainSocketPath) (''opencode-sandbox-advisor-'' @ pid @ ''.sock'')))"

text \<open>\<open>random\<close> is the hexadecimal form of eight random bytes.\<close>

definition newAdvisorSessionID :: "string \<Rightarrow> string \<Rightarrow> string result" where
  "newAdvisorSessionID random pid = bindR (assertProjectId pid) (\<lambda>_.
     Inr (ADVISOR_SESSION_PREFIX @ ''-'' @ pid @ ''-'' @ random))"

definition isAdvisorSessionID :: "string \<Rightarrow> bool" where
  "isAdvisorSessionID sid = (sid = ADVISOR_SESSION_PLACEHOLDER \<or> startsWith sid (ADVISOR_SESSION_PREFIX @ ''-''))"

text \<open>The own properties of a value, as object spread copies them.\<close>

fun own_entries :: "js \<Rightarrow> (string \<times> js) list" where
  "own_entries (JObj obj) = obj"
| "own_entries (JArr xs) = zip (map show_nat [0 ..< length xs]) xs"
| "own_entries (JStr s) = zip (map show_nat [0 ..< length s]) (map (\<lambda>c. JStr [c]) s)"
| "own_entries _ = []"

text \<open>\<open>{ ...obj, k: v }\<close>: an existing key keeps its place.\<close>

definition with_entry :: "(string \<times> js) list \<Rightarrow> string \<Rightarrow> js \<Rightarrow> (string \<times> js) list" where
  "with_entry obj k v = (if k \<in> set (map fst obj) then map (\<lambda>(k', v'). (k', if k' = k then v else v')) obj
     else obj @ [(k, v)])"

definition bindAdvisorRequest :: "envelope \<Rightarrow> advisor_binding \<Rightarrow> envelope result" where
  "bindAdvisorRequest req b =
     bindR (guardR (env_operation req \<in> set ADVISOR_ALLOWED_OPERATIONS)
       (PolicyError (''operation '' @ env_operation req @ '' is not available on the advisor socket''))) (\<lambda>_.
     bindR (guardR (env_sessionID req = ADVISOR_SESSION_PLACEHOLDER \<or> env_sessionID req = ab_sessionID b)
       (PolicyError ''an advisor connection operates only its own session'')) (\<lambda>_.
     bindR (if env_operation req = ''ensureWorker'' then
         (let given = (case env_payload req of JObj obj \<Rightarrow> js_get obj ''projectDir'' | _ \<Rightarrow> JUndefined) in
          bindR (guardR (given = JUndefined \<or> given = JStr (ab_projectPath b))
            (PolicyError (''the advisor socket is pinned to project '' @ ab_projectId b))) (\<lambda>_.
          Inr (JObj (with_entry (own_entries (env_payload req)) ''projectDir'' (JStr (ab_projectPath b))))))
       else Inr (env_payload req)) (\<lambda>payload.
     Inr (req\<lparr>env_sessionID := ab_sessionID b, env_agent := JStr ADVISOR_AGENT, env_payload := payload\<rparr>))))"

definition refuseAdvisorSessionOnMain :: "envelope \<Rightarrow> envelope result" where
  "refuseAdvisorSessionOnMain req =
     bindR (guardR (env_operation req \<notin> set ADVISOR_ONLY_OPERATIONS)
       (PolicyError (''operation '' @ env_operation req @ '' is available only on an advisor socket''))) (\<lambda>_.
     bindR (guardR (\<not> isAdvisorSessionID (env_sessionID req))
       (PolicyError ''advisor sessions are reachable only through their advisor socket'')) (\<lambda>_. Inr req))"

subsection \<open>Dispatch\<close>

datatype guard_class = DispatchGuard | HandlerGuard | Exempt

definition SANDBOX_GUARD_CLASS :: "(string \<times> guard_class) list" where
  "SANDBOX_GUARD_CLASS =
    [(''ensureWorker'', HandlerGuard), (''workerStatus'', DispatchGuard), (''exec'', DispatchGuard),
     (''readFile'', DispatchGuard), (''writeFile'', DispatchGuard), (''applyPatch'', DispatchGuard),
     (''listDir'', DispatchGuard), (''grep'', DispatchGuard), (''diff'', DispatchGuard),
     (''prepareResult'', DispatchGuard), (''applyResult'', DispatchGuard), (''discardResult'', DispatchGuard),
     (''keepResult'', DispatchGuard), (''destroyWorker'', DispatchGuard), (''listWorkers'', DispatchGuard),
     (''metrics'', Exempt), (''sddStatus'', Exempt), (''sddContinue'', Exempt),
     (''sddArchiveCompose'', Exempt), (''sddTaskResult'', Exempt), (''reviewAssess'', Exempt),
     (''reviewModeStatus'', Exempt), (''reviewStatus'', Exempt), (''reviewLensContext'', Exempt),
     (''sddAttemptGrant'', Exempt), (''planDocAppend'', Exempt), (''planDocWrite'', Exempt),
     (''taskMark'', Exempt), (''testRun'', Exempt), (''gateVerdict'', Exempt), (''sandboxResult'', Exempt),
     (''sandboxResultInstall'', Exempt), (''bindSessionAgent'', Exempt), (''reviewStart'', Exempt),
     (''reviewCaptureResult'', Exempt), (''reviewCaptureUnachievable'', Exempt),
     (''reviewAcknowledgeApproved'', Exempt), (''reviewCaptureCorrectionPlan'', Exempt),
     (''reviewCaptureRefuter'', Exempt), (''reviewCaptureValidation'', Exempt), (''reviewValidate'', Exempt),
     (''reviewRecover'', Exempt), (''reviewMaterialize'', Exempt), (''reviewDiffRead'', Exempt),
     (''reviewPipelineRun'', Exempt), (''reviewPersist'', Exempt), (''reviewPersistPreflight'', Exempt),
     (''gitCommit'', Exempt), (''gitClearCommitIntent'', Exempt), (''gitPush'', Exempt),
     (''ghIssueCreate'', Exempt), (''hostSystemSummary'', Exempt), (''hostMemory'', Exempt),
     (''hostDiskUsage'', Exempt), (''hostNetworkListeners'', Exempt), (''hostProcessList'', Exempt),
     (''hostServiceStatus'', Exempt), (''hostServiceLogs'', Exempt), (''hostTailscaleStatus'', Exempt),
     (''hostDockerList'', Exempt), (''hostDockerLogs'', Exempt), (''copyOutInfo'', DispatchGuard),
     (''copyOut'', DispatchGuard), (''copyInInfo'', DispatchGuard), (''copyIn'', DispatchGuard),
     (''policy'', Exempt), (''toolAdmission'', Exempt), (''registerProject'', Exempt),
     (''resultDiff'', Exempt), (''advisorAsk'', Exempt), (''advisorGet'', Exempt), (''advisorList'', Exempt),
     (''advisorRead'', Exempt), (''advisorRespond'', Exempt), (''evidenceKeep'', Exempt)]"

definition SANDBOX_OPERATIONS :: "string list" where
  "SANDBOX_OPERATIONS = map fst (filter (\<lambda>(_, g). g = DispatchGuard) SANDBOX_GUARD_CLASS)"

text \<open>The cases of the \<open>switch\<close>: each operation with the function that builds its handler.\<close>

definition dispatch_table :: "(string \<times> string) list" where
  "dispatch_table =
    [(''ensureWorker'', ''buildEnsureWorkerOp''), (''workerStatus'', ''buildWorkerStatusOp''),
     (''exec'', ''buildExecOp''), (''readFile'', ''buildReadFileOp''), (''writeFile'', ''buildWriteFileOp''),
     (''applyPatch'', ''buildApplyOp''), (''listDir'', ''buildListDirOp''), (''grep'', ''buildGrepOp''),
     (''diff'', ''buildDiffOp''), (''prepareResult'', ''buildPrepareResultOp''),
     (''applyResult'', ''buildApplyResultOp''), (''discardResult'', ''buildDiscardResultOp''),
     (''keepResult'', ''buildKeepResultOp''), (''destroyWorker'', ''buildDestroyWorkerOp''),
     (''listWorkers'', ''buildListWorkersOp''), (''metrics'', ''buildMetricsOp''),
     (''sddStatus'', ''buildSddStatusOp''), (''sddContinue'', ''buildSddContinueOp''),
     (''sddArchiveCompose'', ''buildSddArchiveComposeOp''), (''sddTaskResult'', ''buildSddTaskResultOp''),
     (''reviewAssess'', ''buildReviewAssessOp''), (''reviewModeStatus'', ''buildReviewModeStatusOp''),
     (''reviewStatus'', ''buildReviewStatusOp''), (''reviewLensContext'', ''buildReviewLensContextOp''),
     (''sddAttemptGrant'', ''buildSddAttemptGrantOp''), (''planDocAppend'', ''buildPlanDocAppendOp''),
     (''planDocWrite'', ''buildPlanDocWriteOp''), (''taskMark'', ''buildTaskMarkOp''),
     (''testRun'', ''buildTestRunOp''), (''gateVerdict'', ''buildGateVerdictOp''),
     (''sandboxResult'', ''buildSandboxResultOp''),
     (''sandboxResultInstall'', ''buildSandboxResultInstallOp''),
     (''bindSessionAgent'', ''buildBindSessionAgentOp''), (''reviewStart'', ''buildReviewStartOp''),
     (''reviewCaptureResult'', ''buildReviewCaptureResultOp''),
     (''reviewCaptureUnachievable'', ''buildReviewCaptureUnachievableOp''),
     (''reviewAcknowledgeApproved'', ''buildReviewAcknowledgeApprovedOp''),
     (''reviewCaptureCorrectionPlan'', ''buildReviewCaptureCorrectionPlanOp''),
     (''reviewCaptureRefuter'', ''buildReviewCaptureRefuterOp''),
     (''reviewCaptureValidation'', ''buildReviewCaptureValidationOp''),
     (''reviewValidate'', ''buildReviewValidateOp''), (''reviewRecover'', ''buildReviewRecoverOp''),
     (''reviewMaterialize'', ''buildReviewMaterializeOp''), (''reviewDiffRead'', ''buildReviewDiffReadOp''),
     (''reviewPipelineRun'', ''buildReviewPipelineRunOp''), (''reviewPersist'', ''buildReviewPersistOp''),
     (''reviewPersistPreflight'', ''buildReviewPersistPreflightOp''), (''gitCommit'', ''buildGitCommitOp''),
     (''gitClearCommitIntent'', ''buildGitClearCommitIntentOp''), (''gitPush'', ''buildGitPushOp''),
     (''ghIssueCreate'', ''buildGhIssueCreateOp''), (''hostSystemSummary'', ''buildHostOp''),
     (''hostMemory'', ''buildHostOp''), (''hostDiskUsage'', ''buildHostOp''),
     (''hostNetworkListeners'', ''buildHostOp''), (''hostProcessList'', ''buildHostOp''),
     (''hostServiceStatus'', ''buildHostOp''), (''hostServiceLogs'', ''buildHostOp''),
     (''hostTailscaleStatus'', ''buildHostOp''), (''hostDockerList'', ''buildHostOp''),
     (''hostDockerLogs'', ''buildHostOp''), (''copyOutInfo'', ''buildCopyOutInfoOp''),
     (''copyOut'', ''buildCopyOutOp''), (''copyInInfo'', ''buildCopyInInfoOp''),
     (''copyIn'', ''buildCopyInOp''), (''policy'', ''buildPolicyOp''),
     (''toolAdmission'', ''buildToolAdmissionOp''), (''registerProject'', ''buildRegisterProjectOp''),
     (''resultDiff'', ''buildResultDiffOp''), (''advisorAsk'', ''buildAdvisorAskOp''),
     (''advisorGet'', ''buildAdvisorGetOp''), (''advisorList'', ''buildAdvisorListOp''),
     (''advisorRead'', ''buildAdvisorReadOp''), (''advisorRespond'', ''buildAdvisorRespondOp''),
     (''evidenceKeep'', ''buildAdvisorEvidenceKeepOp'')]"

text \<open>The guard of \<open>dispatch\<close>, before the \<open>switch\<close>.\<close>

definition sandbox_guard :: "broker_config \<Rightarrow> store \<Rightarrow> envelope \<Rightarrow> unit result" where
  "sandbox_guard cfg st req =
     (if env_operation req \<noteq> ''ensureWorker'' \<and> env_operation req \<in> set SANDBOX_OPERATIONS then
        bindR (store_get st (env_sessionID req)) (\<lambda>existing.
        guardR (\<not> read_only cfg (bound_agent existing))
          (PolicyError (''orchestrator agent '' @ the (bound_agent existing) @ '' is not allowed to use sandbox operation '' @
             env_operation req @ '' (orchestrator-readonly)'')))
      else Inr ())"

text \<open>A handler is named by its builder; it changes the broker and answers.\<close>

type_synonym 'a handlers = "string \<Rightarrow> envelope \<Rightarrow> world \<Rightarrow> world \<times> 'a result"

definition dispatch :: "broker_config \<Rightarrow> 'a handlers \<Rightarrow> envelope \<Rightarrow> world \<Rightarrow> world \<times> 'a result" where
  "dispatch cfg handlers req w = (case sandbox_guard cfg (w_store w) req of
     Inl e \<Rightarrow> (w, Inl e)
   | Inr _ \<Rightarrow> (case map_of dispatch_table (env_operation req) of
       None \<Rightarrow> (w, Inl (ValidationError (''unsupported operation '' @ env_operation req)))
     | Some builder \<Rightarrow> handlers builder req w))"

fun toBrokerError :: "broker_error \<Rightarrow> string \<times> string" where
  "toBrokerError (ValidationError m) = (''validation'', m)"
| "toBrokerError (StateError m) = (''state'', m)"
| "toBrokerError (StateCorruptionError sid d) = (''state'', error_message (StateCorruptionError sid d))"
| "toBrokerError (QueuedTimedOutError m) = (''queued_timed_out'', m)"
| "toBrokerError (PolicyError m) = (''policy'', m)"
| "toBrokerError (MsbError m) = (''worker'', m)"
| "toBrokerError (HostReadError m) = (''internal'', m)"
| "toBrokerError (NativeError m) = (''internal'', m)"

datatype 'a response = Okay 'a | Failed "string \<times> string"

text \<open>
  \<open>dispatchLine\<close>: the binding is present on an advisor connection.  The result is the new
  broker state and the final responses written, each with the request id it answers.
  The session touch after a success swallows its errors.
\<close>

definition touch_after :: "int \<Rightarrow> envelope \<Rightarrow> world \<Rightarrow> world" where
  "touch_after now req w =
     (if env_operation req \<in> {''resultDiff'', ''reviewPersistPreflight'', ''toolAdmission''} then w
      else (case touch now (w_store w) (env_sessionID req) [F_lastOperation (Some (env_operation req))]
                   (Some (env_operation req)) of
          Inl _ \<Rightarrow> w
        | Inr (st', _) \<Rightarrow> w\<lparr>w_store := st'\<rparr>))"

definition admit_request :: "advisor_binding option \<Rightarrow> envelope \<Rightarrow> envelope result" where
  "admit_request binding req = (case binding of
     Some b \<Rightarrow> bindAdvisorRequest req b
   | None \<Rightarrow> refuseAdvisorSessionOnMain req)"

definition dispatchLine ::
  "broker_config \<Rightarrow> 'a handlers \<Rightarrow> int \<Rightarrow> advisor_binding option \<Rightarrow> js option \<Rightarrow> world \<Rightarrow>
    world \<times> (string \<times> 'a response) list"
where
  "dispatchLine cfg handlers now binding parsed w = (case parseRequest parsed of
     Inl (ident, e) \<Rightarrow> (w, [((case ident of None \<Rightarrow> ''0'' | Some i \<Rightarrow> i), Failed (toBrokerError e))])
   | Inr raw \<Rightarrow> (case admit_request binding raw of
       Inl e \<Rightarrow> (w, [(env_id raw, Failed (toBrokerError e))])
     | Inr req \<Rightarrow> (case dispatch cfg handlers req w of
         (w1, Inl e) \<Rightarrow> (w1, [(env_id req, Failed (toBrokerError e))])
       | (w1, Inr res) \<Rightarrow> (touch_after now req w1, [(env_id req, Okay res)]))))"

section \<open>Stale socket files\<close>

datatype file_kind = NoFile | SocketFile | OtherFile | StatFails

text \<open>The outcome of connecting to the socket file.\<close>

datatype probe = Connected | ProbeTimeout | Refused | Vanished | ProbeError

text \<open>\<open>Inr True\<close>: the file was removed; \<open>Inr False\<close>: there was none.  \<open>unlinkFails\<close>: \<open>unlinkSync\<close> throws another error than a missing file.\<close>

definition recoverStaleSocket :: "file_kind \<Rightarrow> probe \<Rightarrow> bool \<Rightarrow> bool result" where
  "recoverStaleSocket kind pr unlinkFails = (case kind of
     NoFile \<Rightarrow> Inr False
   | StatFails \<Rightarrow> Inl (NativeError ''cannot stat the socket path'')
   | OtherFile \<Rightarrow> Inl (NativeError ''refusing to replace existing path that is not a socket'')
   | SocketFile \<Rightarrow> (case pr of
       Connected \<Rightarrow> Inl (NativeError ''socket is already served by a live broker (connected)'')
     | ProbeTimeout \<Rightarrow> Inl (NativeError ''socket is already served by a live broker (probe-timeout)'')
     | ProbeError \<Rightarrow> Inl (NativeError ''unable to verify socket listener'')
     | _ \<Rightarrow> if unlinkFails then Inl (NativeError ''cannot remove the stale socket'') else Inr True))"

section \<open>Chunks and lines\<close>

lemma splitOn_resume:
  "splitOn d (a @ b) = butlast (splitOn d a) @ splitOn d (last (splitOn d a) @ b)"
  by (induction a) (auto split: list.splits)

lemma last_splitOn: "d \<notin> set (last (splitOn d s))"
  using splitOn_parts [of "last (splitOn d s)" d s] by simp

text \<open>
  What a splitter of a chunked byte stream promises: it holds the incomplete last line
  (\<open>holds\<close>), and a chunk yields one event per line that it completes.
\<close>

locale chunked_splitter =
  fixes absorb :: "'s \<Rightarrow> string \<Rightarrow> 's \<times> 'e list"
    and holds :: "'s \<Rightarrow> string \<Rightarrow> bool"
    and event :: "string \<Rightarrow> 'e"
  assumes holds_line: "holds s p \<Longrightarrow> LF \<notin> set p"
    and absorb_events: "holds s p \<Longrightarrow> snd (absorb s c) = map event (butlast (splitOn LF (p @ c)))"
    and absorb_holds: "holds s p \<Longrightarrow> holds (fst (absorb s c)) (last (splitOn LF (p @ c)))"
begin

lemma feed_lines:
  "holds s p \<Longrightarrow> snd (feed absorb s cs) = map event (butlast (splitOn LF (p @ concat cs))) \<and>
     holds (fst (feed absorb s cs)) (last (splitOn LF (p @ concat cs)))"
proof (induction cs arbitrary: s p)
  case Nil
  then show ?case
    using holds_line [of s p] by (simp add: splitOn_no_sep)
next
  case (Cons c cs)
  let ?p = "last (splitOn LF (p @ c))"
  from Cons.IH [OF absorb_holds [OF Cons.prems, of c]] absorb_events [OF Cons.prems, of c]
  show ?case
    using splitOn_resume [of LF "p @ c" "concat cs"]
    by (simp add: case_prod_beta butlast_append)
qed

text \<open>So how the stream was cut into chunks does not matter.\<close>

lemma feed_chunks_irrelevant:
  assumes "holds s p" "concat cs = concat ds"
  shows "snd (feed absorb s cs) = snd (feed absorb s ds)"
  using feed_lines [OF assms(1), of cs] feed_lines [OF assms(1), of ds] assms(2) by simp

end

text \<open>The framer keeps a line that fits, and of a longer one the beginning and the length.\<close>

definition framer_holds :: "nat \<Rightarrow> framer \<Rightarrow> string \<Rightarrow> bool" where
  "framer_holds m f p = (LF \<notin> set p \<and>
     (if length p > m
      then fr_discarding f \<and> fr_discardedBytes f = length p \<and> fr_discardPrefix f = take OVERSIZE_ID_PREFIX_BYTES p
      else \<not> fr_discarding f \<and> fr_pending f = p))"

lemma keep_rest_holds: "LF \<notin> set r \<Longrightarrow> framer_holds m (keep_rest m r) r"
  by (simp add: framer_holds_def keep_rest_def new_framer_def)

lemma push_discarding:
  assumes "framer_holds m f p" "length p > m" "OVERSIZE_ID_PREFIX_BYTES \<le> m"
  shows "snd (push m f c) = map (frame_line m) (butlast (splitOn LF (p @ c))) \<and>
     framer_holds m (fst (push m f c)) (last (splitOn LF (p @ c)))"
proof (cases "LF \<in> set c")
  case False
  with assms show ?thesis
    by (auto simp: framer_holds_def push_def splitOn_no_sep)
next
  case True
  then obtain b r where c: "c = b @ LF # r" and b: "LF \<notin> set b" by (meson split_list_first)
  have before: "takeWhile (\<lambda>x. x \<noteq> LF) c = b"
    unfolding c by (rule trans [OF takeWhile_append2]) (use b in auto)
  have prefixes: "take OVERSIZE_ID_PREFIX_BYTES (p @ b) = take OVERSIZE_ID_PREFIX_BYTES p"
    using assms(2,3) by simp
  have lines: "splitOn LF (p @ c) = (p @ b) # splitOn LF r"
    using assms(1) b by (simp add: c framer_holds_def splitOn_append [of LF "p @ b", simplified] splitOn_no_sep)
  have rest: "drop (length b + 1) c = r" by (simp add: c)
  have "push m f c = (keep_rest m (last (splitOn LF r)),
      oversize (take OVERSIZE_ID_PREFIX_BYTES p) (length p + length b) # map (frame_line m) (butlast (splitOn LF r)))"
    using assms(1,2) True
    by (simp only: push_def before rest framer_holds_def frame_lines_def Let_def) simp
  moreover have "frame_line m (p @ b) = oversize (take OVERSIZE_ID_PREFIX_BYTES p) (length p + length b)"
    using assms(2) prefixes by (simp only: frame_line_def oversize_def) simp
  ultimately show ?thesis
    by (simp add: lines keep_rest_holds last_splitOn)
qed

lemma push_pending:
  assumes "framer_holds m f p" "length p \<le> m"
  shows "snd (push m f c) = map (frame_line m) (butlast (splitOn LF (p @ c))) \<and>
     framer_holds m (fst (push m f c)) (last (splitOn LF (p @ c)))"
  using assms by (simp add: framer_holds_def [of m f] push_def frame_lines_def keep_rest_holds last_splitOn)

lemma prefix_fits: "OVERSIZE_ID_PREFIX_BYTES \<le> maxRequestLineBytes a b c"
  by (simp add: maxRequestLineBytes_def REQUEST_ENVELOPE_ALLOWANCE_def OVERSIZE_ID_PREFIX_BYTES_def)

interpretation framing: chunked_splitter "push (maxRequestLineBytes a b c)" "framer_holds (maxRequestLineBytes a b c)"
  "frame_line (maxRequestLineBytes a b c)"
proof
  show "framer_holds (maxRequestLineBytes a b c) f p \<Longrightarrow> LF \<notin> set p" for f p
    by (simp add: framer_holds_def)
qed (metis push_discarding push_pending prefix_fits not_le)+

section \<open>Response writes in order\<close>

definition unsent :: "socket_write list \<Rightarrow> string" where
  "unsent ws = concat (map (\<lambda>w. drop (sw_offset w) (sw_data w)) ws)"

definition wq_counts :: "write_queue \<Rightarrow> string \<Rightarrow> bool" where
  "wq_counts q bytes =
     ((wq_failures q = [] \<longrightarrow> wq_sent q @ unsent (wq_writes q) = bytes) \<and>
      list_all (\<lambda>w. sw_offset w \<le> length (sw_data w)) (wq_writes q) \<and>
      (wq_onDrained q \<longrightarrow> wq_terminationRequested q) \<and>
      wq_terminated q = (if wq_terminationRequested q \<and> \<not> wq_onDrained q then 1 else 0))"

definition wq_inv :: "write_queue \<Rightarrow> string \<Rightarrow> bool" where
  "wq_inv q bytes = (wq_counts q bytes \<and> (wq_onDrained q \<longrightarrow> wq_writes q \<noteq> []))"

lemma notifyDrained_inv: "wq_counts q bytes \<Longrightarrow> wq_inv (notifyDrained q) bytes"
  by (auto simp: wq_inv_def wq_counts_def notifyDrained_def)

lemma wq_inv_failed: "wq_counts q bytes \<Longrightarrow>
    wq_inv (notifyDrained (q\<lparr>wq_writes := [], wq_failures := wq_failures q @ [i]\<rparr>)) bytes"
  by (rule notifyDrained_inv) (simp add: wq_counts_def)

lemma wq_counts_took:
  assumes "wq_counts q bytes" "wq_writes q = w # ws" "sw_offset w + n \<le> length (sw_data w)"
  shows "wq_counts (q\<lparr>wq_sent := wq_sent q @ take n (drop (sw_offset w) (sw_data w)),
     wq_writes := w\<lparr>sw_offset := sw_offset w + n\<rparr> # ws\<rparr>) bytes"
proof -
  have "take n (drop (sw_offset w) (sw_data w)) @ drop (sw_offset w + n) (sw_data w) = drop (sw_offset w) (sw_data w)"
    by (metis append_take_drop_id drop_drop add.commute)
  with assms show ?thesis by (simp add: wq_counts_def unsent_def) (metis append.assoc)
qed

lemma flush_inv: "wq_inv q bytes \<Longrightarrow> wq_writes q = ws \<Longrightarrow> wq_inv (flush_writes ans ws q) bytes"
proof (induction ws arbitrary: q ans)
  case Nil
  then show ?case by (simp add: wq_inv_def wq_counts_def)
next
  case (Cons w ws)
  from Cons.prems have counts: "wq_counts q bytes" by (simp add: wq_inv_def)
  obtain a ans' where a: "next_answer ans = (a, ans')" by (cases "next_answer ans")
  let ?rest = "drop (sw_offset w) (sw_data w)"
  show ?case
  proof (cases a)
    case WriteThrows
    with wq_inv_failed [OF counts] a show ?thesis by simp
  next
    case (Wrote n)
    show ?thesis
    proof (cases "0 \<le> n \<and> n \<le> int (length ?rest)")
      case False
      with wq_inv_failed [OF counts] a Wrote show ?thesis by auto
    next
      case True
      have fits: "sw_offset w + nat n \<le> length (sw_data w)"
      proof -
        have "nat n \<le> length ?rest" using True by (simp add: nat_le_iff)
        moreover have "sw_offset w \<le> length (sw_data w)" using counts Cons.prems(2) by (simp add: wq_counts_def)
        ultimately show ?thesis by simp
      qed
      note took = wq_counts_took [OF counts Cons.prems(2) fits]
      show ?thesis
      proof (cases "sw_offset w + nat n < length (sw_data w)")
        case True': True
        with True took a Wrote show ?thesis by (simp add: wq_inv_def)
      next
        case False
        let ?q = "q\<lparr>wq_sent := wq_sent q @ take (nat n) ?rest, wq_writes := ws\<rparr>"
        have "wq_counts ?q bytes" using took False fits by (simp add: wq_counts_def unsent_def)
        then have "wq_inv (notifyDrained ?q) bytes" by (rule notifyDrained_inv)
        moreover have "wq_writes (notifyDrained ?q) = ws" by (simp add: notifyDrained_def)
        ultimately show ?thesis using Cons.IH True False a Wrote by simp
      qed
    qed
  qed
qed

lemma wq_step_inv:
  assumes "wq_inv q bytes"
  shows "wq_inv (wq_step q e) (bytes @ frame_of e)"
proof (cases e)
  case (Enqueue d i ans)
  from assms have "wq_inv (q\<lparr>wq_writes := wq_writes q @ [\<lparr>sw_data = d, sw_offset = 0, sw_id = i\<rparr>]\<rparr>) (bytes @ d)"
    by (auto simp: wq_inv_def wq_counts_def unsent_def)
  then show ?thesis by (simp add: Enqueue wq_enqueue_def wq_flush_def flush_inv)
next
  case (Drain ans)
  with assms show ?thesis by (simp add: wq_flush_def flush_inv)
next
  case Terminate
  with assms show ?thesis by (auto simp: wq_terminate_def wq_inv_def wq_counts_def)
qed

lemma wq_run_inv: "wq_inv q bytes \<Longrightarrow> wq_inv (wq_run q es) (bytes @ concat (map frame_of es))"
proof (induction es arbitrary: q bytes)
  case (Cons e es)
  from Cons.IH [OF wq_step_inv [OF Cons.prems, of e]] show ?case by (simp add: wq_run_def)
qed (simp add: wq_run_def)

section \<open>Locks\<close>

definition locks_inv :: "session_locks \<Rightarrow> bool" where
  "locks_inv l = (\<forall>sid. sl_active l sid = (if sl_chain l sid = [] then None else Some (length (sl_chain l sid))))"

lemma lock_step_inv: "locks_inv l \<Longrightarrow> locks_inv (lock_step l e)"
  by (cases e) (auto simp: locks_inv_def lock_enter_def lock_settle_def running_def split: list.splits)

text \<open>The calls of one session, in the order in which they arrived.\<close>

fun entered :: "string \<Rightarrow> lock_event list \<Rightarrow> nat list" where
  "entered sid [] = []"
| "entered sid (LockEnter s c # es) = (if s = sid then c # entered sid es else entered sid es)"
| "entered sid (LockSettle s # es) = entered sid es"

lemma lock_run:
  assumes "locks_inv l"
  shows "locks_inv (foldl lock_step l es) \<and>
    (\<exists>n. sl_chain (foldl lock_step l es) sid = drop n (sl_chain l sid @ entered sid es))"
  using assms
proof (induction es arbitrary: l)
  case Nil
  then show ?case by (auto intro: exI [of _ 0])
next
  case (Cons e es)
  from Cons.IH [OF lock_step_inv [OF Cons.prems]] obtain n where
    inv: "locks_inv (foldl lock_step l (e # es))" and
    n: "sl_chain (foldl lock_step l (e # es)) sid = drop n (sl_chain (lock_step l e) sid @ entered sid es)"
    by auto
  have "\<exists>m. drop n (sl_chain (lock_step l e) sid @ entered sid es) = drop m (sl_chain l sid @ entered sid (e # es))"
  proof (cases e)
    case (LockEnter s c)
    then have "sl_chain (lock_step l e) sid @ entered sid es = sl_chain l sid @ entered sid (e # es)"
      by (simp add: lock_enter_def)
    then show ?thesis by metis
  next
    case (LockSettle s)
    then have "sl_chain (lock_step l e) sid = sl_chain l sid \<or> (\<exists>c. sl_chain l sid = c # sl_chain (lock_step l e) sid)"
      by (auto simp: lock_settle_def running_def split: list.splits)
    then show ?thesis
    proof
      assume "\<exists>c. sl_chain l sid = c # sl_chain (lock_step l e) sid"
      then have "drop n (sl_chain (lock_step l e) sid @ entered sid es) = drop (Suc n) (sl_chain l sid @ entered sid (e # es))"
        using LockSettle by auto
      then show ?thesis by metis
    qed (use LockSettle in auto)
  qed
  with inv n show ?case by metis
qed

lemma map_of_replace:
  "map_of (map (\<lambda>(k', v'). (k', if k' = k then v else v')) obj) k = (if k \<in> fst ` set obj then Some v else None)"
  by (induction obj) auto

lemma js_get_with_entry: "js_get (with_entry obj k v) k = v"
  by (simp add: js_get_def with_entry_def map_of_replace map_of_eq_None_iff [THEN iffD2] map_add_def split: option.split)

lemma guard_classes_complete: "map fst SANDBOX_GUARD_CLASS = OPERATIONS"
  by (simp add: SANDBOX_GUARD_CLASS_def OPERATIONS_def)

lemma dispatch_table_complete: "map fst dispatch_table = OPERATIONS"
  by (simp add: dispatch_table_def OPERATIONS_def)

lemma map_of_dispatch: "map_of dispatch_table op = None \<longleftrightarrow> op \<notin> set OPERATIONS"
  by (simp add: map_of_eq_None_iff flip: dispatch_table_complete)

section \<open>Properties\<close>

text \<open>
  C3.  Framing does not depend on how the bytes arrive: for every way of cutting a
  connection's byte stream into chunks, the framer reports exactly the complete lines of
  the stream in order, each as a line or, when it is longer than the limit, once as an
  oversize request with its length and the id found in its first 512 bytes; and what it
  keeps afterwards stands for the incomplete rest.
\<close>

theorem framing_refines_lines:
  "let m = maxRequestLineBytes a b c; (f, events) = feed (push m) new_framer chunks in
     events = map (frame_line m) (butlast (splitOn LF (concat chunks))) \<and>
     framer_holds m f (last (splitOn LF (concat chunks)))"
proof -
  have "framer_holds (maxRequestLineBytes a b c) new_framer []"
    by (simp add: framer_holds_def new_framer_def)
  from framing.feed_lines [OF this, of chunks] show ?thesis by (simp add: case_prod_beta Let_def)
qed

text \<open>
  C26.  Responses leave a connection whole and in order: after any sequence of responses,
  drain notifications and a termination request, with any short writes of the socket, the
  bytes taken by the socket followed by the bytes still queued are the responses in the
  order in which they were made, unless a write failed.  The deferred termination runs at
  most once, and it has run once nothing is queued.
\<close>

theorem responses_in_order:
  assumes "wq_failures (wq_run new_write_queue es) = []"
  shows "let q = wq_run new_write_queue es in
     wq_sent q @ unsent (wq_writes q) = concat (map frame_of es) \<and> wq_terminated q \<le> 1 \<and>
     (wq_terminationRequested q \<longrightarrow> wq_writes q = [] \<longrightarrow> wq_terminated q = 1)"
proof -
  have "wq_inv new_write_queue []"
    by (simp add: wq_inv_def wq_counts_def new_write_queue_def unsent_def)
  from wq_run_inv [OF this, of es] assms show ?thesis
    by (auto simp: wq_inv_def wq_counts_def Let_def)
qed

theorem responses_in_order_witness:
  "let q = wq_run new_write_queue [Enqueue ''abc'' None [Wrote 2], Enqueue ''de'' None [], Terminate, Drain [Wrote 1, Wrote 2]] in
     wq_sent q @ unsent (wq_writes q) = ''abcde'' \<and> wq_writes q = [] \<and> wq_terminated q = 1"
  using responses_in_order [of "[Enqueue ''abc'' None [Wrote 2], Enqueue ''de'' None [], Terminate, Drain [Wrote 1, Wrote 2]]"]
  by (simp add: wq_run_def new_write_queue_def wq_enqueue_def wq_flush_def wq_terminate_def notifyDrained_def Let_def)


definition demo_active :: world where
  "demo_active = initial_world [''s1'' \<mapsto> Stored ((new_record ''s1'' (Iso 0))\<lparr>sr_state := SANDBOX_ACTIVE,
     sr_workerName := Some ''w1'', sr_workerState := Some ACTIVE\<rparr>)] Map.empty"


text \<open>
  A session bound to a read-only orchestrator runs no sandbox operation: whatever
  the handlers do, the request is answered with a policy error and the broker state is
  unchanged, even when the request itself names another agent or none.
\<close>

theorem orchestrator_runs_no_sandbox_operation:
  assumes "parseRequest parsed = Inr req" "refuseAdvisorSessionOnMain req = Inr req"
    and "w_store w (env_sessionID req) = Some (Stored r)" "read_only cfg (sr_agent r)"
    and "env_operation req \<in> set SANDBOX_OPERATIONS"
  shows "\<exists>m. dispatchLine cfg handlers now None parsed w = (w, [(env_id req, Failed (''policy'', m))])"
proof -
  have "env_operation req \<noteq> ''ensureWorker''"
    using assms(5) by (auto simp: SANDBOX_OPERATIONS_def SANDBOX_GUARD_CLASS_def)
  with assms show ?thesis
    by (simp add: dispatchLine_def admit_request_def dispatch_def sandbox_guard_def store_get_def bound_agent_def)
qed

definition demo_line :: "string \<Rightarrow> js" where
  "demo_line op = JObj [(''version'', JInt 1), (''id'', JStr ''r1''), (''operation'', JStr op), (''sessionID'', JStr ''s1'')]"

definition demo_bound_world :: world where
  "demo_bound_world = initial_world [''s1'' \<mapsto> Stored ((new_record ''s1'' (Iso 0))\<lparr>sr_agent := Some ''orchestrator''\<rparr>)] Map.empty"

theorem orchestrator_runs_no_sandbox_operation_witness:
  "\<exists>m. dispatchLine (demo_config 1) (\<lambda>_ _ w. (w, Inr ())) 7 None (Some (demo_line ''exec'')) demo_bound_world =
     (demo_bound_world, [(''r1'', Failed (''policy'', m))])"
proof -
  have req: "parseRequest (Some (demo_line ''exec'')) = Inr \<lparr>env_id = ''r1'', env_operation = ''exec'', env_sessionID = ''s1'',
      env_agent = JUndefined, env_payload = JUndefined\<rparr>"
    by code_simp
  show ?thesis
    using orchestrator_runs_no_sandbox_operation [OF req, of demo_bound_world
        "(new_record ''s1'' (Iso 0))\<lparr>sr_agent := Some ''orchestrator''\<rparr>" "demo_config 1" "\<lambda>_ _ w. (w, Inr ())" 7]
    by (simp add: refuseAdvisorSessionOnMain_def ADVISOR_ONLY_OPERATIONS_def isAdvisorSessionID_def startsWith_def
        ADVISOR_SESSION_PLACEHOLDER_def ADVISOR_SESSION_PREFIX_def demo_bound_world_def initial_world_def read_only_def
        demo_config_def SANDBOX_OPERATIONS_def SANDBOX_GUARD_CLASS_def)
qed




end
