(* ===== verification/PlanDocs.thy ===== *)
theory PlanDocs
  imports HostAuth ResultBoundary
begin

text \<open>
  Plan documents in \<^verbatim>\<open>broker/src/service.ts\<close>: the scan for headings outside code
  fences, appending to a section, whole-document writes with a revision log, gate
  verdicts, task marks, and the operations that guard them.  A document is a string; the
  time stamp of an operation is an argument.  What the file system answers while a
  document is replaced is a record: the state when the document is read and the state
  when it is checked again just before the rename.
\<close>

section \<open>Headings\<close>

definition CR :: char where
  "CR = CHR 0x0D"

definition is_blank :: "char \<Rightarrow> bool" where
  "is_blank c = (c = CHR '' '' \<or> c = CHR 0x09)"

text \<open>\<open>line.endsWith("\r") ? line.slice(0, -1) : line\<close>\<close>

definition logical_line :: "string \<Rightarrow> string" where
  "logical_line line = (if endsWith line [CR] then butlast line else line)"

text \<open>\<open>[ \t]*#*[ \t]*$\<close> at the start of a string.\<close>

definition heading_tail :: "string \<Rightarrow> bool" where
  "heading_tail s = (dropWhile is_blank (dropWhile (\<lambda>c. c = CHR ''#'') (dropWhile is_blank s)) = [])"

text \<open>The shortest match of \<open>.+?\<close> that leaves a heading tail.\<close>

fun lazy_text :: "string \<Rightarrow> string option" where
  "lazy_text [] = None"
| "lazy_text (c # s) =
     (if is_line_terminator c then None
      else if heading_tail s then Some [c]
      else map_option ((#) c) (lazy_text s))"

text \<open>
  \<open>PLAN_DOC_ATX_HEADING_RE\<close>: level and trimmed text.  A line of markers and at least
  two blanks is a heading with blank text.
\<close>

definition atx_heading :: "string \<Rightarrow> (nat \<times> string) option" where
  "atx_heading line =
     (let hashes = takeWhile (\<lambda>c. c = CHR ''#'') line; rest = drop (length hashes) line;
          blanks = takeWhile is_blank rest; body = drop (length blanks) rest in
      if 1 \<le> length hashes \<and> length hashes \<le> 6 \<and> blanks \<noteq> [] then
        (case lazy_text body of
           Some t \<Rightarrow> Some (length hashes, trim t)
         | None \<Rightarrow> if body = [] \<and> 2 \<le> length blanks then Some (length hashes, []) else None)
      else None)"

record fence =
  fe_character :: char
  fe_length :: nat

definition fence_marker :: "string \<Rightarrow> (char \<times> nat \<times> string) option" where
  "fence_marker line =
     (let blanks = takeWhile is_blank line; rest = drop (length blanks) line in
      if 3 < length blanks then None
      else (case rest of
          [] \<Rightarrow> None
        | c # _ \<Rightarrow> (let run = takeWhile (\<lambda>x. x = c) rest in Some (c, length run, drop (length run) rest))))"

definition opening_fence :: "string \<Rightarrow> fence option" where
  "opening_fence line = (case fence_marker line of
     Some (c, n, _) \<Rightarrow> if (c = CHR 0x60 \<or> c = CHR ''~'') \<and> 3 \<le> n then Some \<lparr>fe_character = c, fe_length = n\<rparr> else None
   | None \<Rightarrow> None)"

definition closing_fence :: "fence \<Rightarrow> string \<Rightarrow> bool" where
  "closing_fence f line = (case fence_marker line of
     Some (c, n, rest) \<Rightarrow> c = fe_character f \<and> fe_length f \<le> n \<and> list_all is_blank rest
   | None \<Rightarrow> False)"

record plan_heading =
  ph_index :: nat
  ph_level :: nat
  ph_text :: string
  ph_offset :: nat

text \<open>One iteration: the fence after the line, and the heading on it.\<close>

definition fence_step :: "fence option \<Rightarrow> string \<Rightarrow> fence option" where
  "fence_step f line = (case f of
     Some fe \<Rightarrow> if closing_fence fe (logical_line line) then None else Some fe
   | None \<Rightarrow> opening_fence (logical_line line))"

definition line_heading :: "fence option \<Rightarrow> string \<Rightarrow> (nat \<times> string) option" where
  "line_heading f line =
     (if f = None \<and> opening_fence (logical_line line) = None then atx_heading (logical_line line) else None)"

fun scan_lines :: "fence option \<Rightarrow> nat \<Rightarrow> nat \<Rightarrow> string list \<Rightarrow> plan_heading list" where
  "scan_lines f index offset [] = []"
| "scan_lines f index offset (line # rest) =
     (case line_heading f line of
        None \<Rightarrow> []
      | Some (lv, t) \<Rightarrow> [\<lparr>ph_index = index, ph_level = lv, ph_text = t, ph_offset = offset\<rparr>]) @
     scan_lines (fence_step f line) (Suc index) (offset + length line + 1) rest"

definition scanPlanDocHeadings :: "string \<Rightarrow> plan_heading list" where
  "scanPlanDocHeadings existing = scan_lines None 0 0 (splitOn LF existing)"

definition level2 :: "string \<Rightarrow> plan_heading \<Rightarrow> bool" where
  "level2 t h = (ph_level h = 2 \<and> ph_text h = t)"

text \<open>\<open>headings.find((entry) => entry.index > h.index && entry.level <= level)\<close>\<close>

definition next_heading :: "plan_heading list \<Rightarrow> plan_heading \<Rightarrow> nat \<Rightarrow> plan_heading option" where
  "next_heading hs h level = find (\<lambda>e. ph_index e > ph_index h \<and> ph_level e \<le> level) hs"

section \<open>Appending\<close>

definition planDocSectionInsertionIndex :: "string \<Rightarrow> string \<Rightarrow> nat result" where
  "planDocSectionInsertionIndex existing heading =
     (let wanted = trim heading; hs = scanPlanDocHeadings existing in
      case filter (\<lambda>h. ph_text h = wanted) hs of
        [] \<Rightarrow> Inl (ValidationError (''plan document heading not found: '' @ wanted))
      | [h] \<Rightarrow> Inr (case next_heading hs h (ph_level h) of None \<Rightarrow> length existing | Some n \<Rightarrow> ph_offset n)
      | _ \<Rightarrow> Inl (ValidationError (''plan document heading is ambiguous: '' @ wanted)))"

definition insert_block :: "string \<Rightarrow> nat \<Rightarrow> string \<Rightarrow> string" where
  "insert_block existing i content =
     (let before = take i existing; after = drop i existing in
      before @ (if before \<noteq> [] \<and> \<not> endsWith before nl then nl else []) @ content @ nl @
      (if after \<noteq> [] \<and> startsWith after ''#'' then nl else []) @ after)"

definition computePlanDocAppend :: "string \<Rightarrow> string \<Rightarrow> string option \<Rightarrow> string result" where
  "computePlanDocAppend existing content heading =
     bindR (case heading of None \<Rightarrow> Inr (length existing) | Some h \<Rightarrow> planDocSectionInsertionIndex existing h)
       (\<lambda>i. Inr (insert_block existing i content))"

section \<open>Revisions\<close>

text \<open>\<open>/^- r([0-9]+) /\<close>\<close>

definition revision_of_line :: "string \<Rightarrow> nat option" where
  "revision_of_line line =
     (let rest = drop 3 line; digits = takeWhile is_digit rest in
      if startsWith line ''- r'' \<and> digits \<noteq> [] \<and> startsWith (drop (length digits) rest) '' ''
      then Some (parse_nat digits) else None)"

fun max_revision :: "nat \<Rightarrow> string list \<Rightarrow> nat" where
  "max_revision n [] = n"
| "max_revision n (l # ls) = max_revision (case revision_of_line l of None \<Rightarrow> n | Some r \<Rightarrow> max n r) ls"

text \<open>\<open>lines.slice(h.index + 1, next?.index ?? lines.length)\<close>\<close>

definition section_lines :: "string list \<Rightarrow> plan_heading list \<Rightarrow> plan_heading \<Rightarrow> string list" where
  "section_lines ls hs h =
     (let stop = (case next_heading hs h 2 of None \<Rightarrow> length ls | Some n \<Rightarrow> ph_index n)
      in drop (ph_index h + 1) (take stop ls))"

definition planDocRevisionSection :: "string \<Rightarrow> nat \<times> string list" where
  "planDocRevisionSection existing =
     (let ls = splitOn LF existing; hs = scanPlanDocHeadings existing in
      case find (level2 ''Revisions'') hs of
        None \<Rightarrow> (0, [])
      | Some h \<Rightarrow> (let sl = section_lines ls hs h in (max_revision 0 sl, sl)))"

definition revision_line :: "nat \<Rightarrow> string \<Rightarrow> string \<Rightarrow> string \<Rightarrow> string" where
  "revision_line revision timestamp agent note =
     ''- r'' @ show_nat revision @ '' '' @ timestamp @ '' '' @ agent @ '': '' @ note"

text \<open>The trailing \<open>## Gates\<close> section that a rewrite carries over.\<close>

definition carried_gates :: "string \<Rightarrow> string result" where
  "carried_gates existing =
     (let hs = scanPlanDocHeadings existing in
      case filter (level2 ''Gates'') hs of
        [] \<Rightarrow> Inr []
      | [g] \<Rightarrow> Inr (if next_heading hs g 2 = None then drop (ph_offset g) existing else [])
      | _ \<Rightarrow> Inl (ValidationError ''PLAN_WRITE_MULTIPLE_GATES_SECTIONS''))"

definition drop_last_empty :: "string list \<Rightarrow> string list" where
  "drop_last_empty ls = (if ls \<noteq> [] \<and> last ls = [] then butlast ls else ls)"

definition plan_doc_text :: "string \<Rightarrow> string list \<Rightarrow> string \<Rightarrow> string \<Rightarrow> string" where
  "plan_doc_text body prior rline gates =
     (let revisions = body @ nl @ nl @ ''## Revisions'' @ nl @ joinWith nl (prior @ [rline]) @ nl
      in if gates \<noteq> [] then revisions @ nl @ gates else revisions)"

text \<open>The new text of a whole-document write, from the text that is there now.\<close>

definition next_plan_doc :: "string \<Rightarrow> string \<Rightarrow> string \<Rightarrow> string \<Rightarrow> string \<Rightarrow> int \<Rightarrow> (nat \<times> string) result" where
  "next_plan_doc existing body agent note timestamp expectedRevision =
     (let (current, sl) = planDocRevisionSection existing in
      bindR (carried_gates existing) (\<lambda>gates.
      bindR (guardR (int current = expectedRevision)
        (ValidationError (''PLAN_WRITE_STALE_REVISION: current='' @ show_nat current @ '' expected='' @ show_int expectedRevision))) (\<lambda>_.
      Inr (current + 1, plan_doc_text body (drop_last_empty sl) (revision_line (current + 1) timestamp agent (trim note)) gates))))"

section \<open>Gate verdicts\<close>

definition GATE_TASK_ID_RE :: "string \<Rightarrow> bool" where
  "GATE_TASK_ID_RE s = (case s of [] \<Rightarrow> False | c # r \<Rightarrow>
     is_alnum c \<and> matches (\<lambda>c. is_alnum c \<or> one_of ''._-'' c) 0 63 r)"

text \<open>\<open>\d{4}-\d\d-\d\dT\d\d:\d\d:\d\dZ\<close>\<close>

definition is_timestamp :: "string \<Rightarrow> bool" where
  "is_timestamp s = list_all2 (\<lambda>p c. if p = CHR ''d'' then is_digit c else c = p) ''dddd-dd-ddTdd:dd:ddZ'' s"

definition verdicts :: "string list" where
  "verdicts = [''PASS'', ''REFINE'', ''ESCALATE'']"

text \<open>The part of a gate line behind the agent.\<close>

definition gate_tail :: "string \<Rightarrow> bool" where
  "gate_tail s = (let body = logical_line s in
     LF \<notin> set body \<and> CR \<notin> set body \<and>
     (body = [] \<or> startsWith body '' ref='' \<and> 5 < length body \<or> startsWith body '' :: '' \<and> 4 < length body))"

definition word_of :: "string \<Rightarrow> string" where
  "word_of s = takeWhile (\<lambda>c. \<not> is_space c) s"

text \<open>
  \<open>GATE_LINE_RE\<close>: task, verdict and time stamp.  The first four parts contain no white
  space, so each one ends at the next blank.
\<close>

definition parse_gate_line :: "string \<Rightarrow> (string \<times> string \<times> string) option" where
  "parse_gate_line line =
     (if \<not> startsWith line ''- '' then None else
      let s1 = drop 2 line; task = word_of s1; s2 = drop (length task) s1 in
      if \<not> (GATE_TASK_ID_RE task \<and> startsWith s2 '' '') then None else
      let s3 = drop 1 s2; verdict = word_of s3; s4 = drop (length verdict) s3 in
      if \<not> (verdict \<in> set verdicts \<and> startsWith s4 '' '') then None else
      let s5 = drop 1 s4; ts = word_of s5; s6 = drop (length ts) s5 in
      if \<not> (is_timestamp ts \<and> startsWith s6 '' '') then None else
      let s7 = drop 1 s6; agent = word_of s7 in
      if agent \<noteq> [] \<and> gate_tail (drop (length agent) s7) then Some (task, verdict, ts) else None)"

fun latest_verdict :: "string \<Rightarrow> (string \<times> string) option \<Rightarrow> string list \<Rightarrow> (string \<times> string) option" where
  "latest_verdict taskId acc [] = acc"
| "latest_verdict taskId acc (l # ls) =
     latest_verdict taskId (case parse_gate_line l of
         Some (t, v, ts) \<Rightarrow> if t = taskId then Some (v, ts) else acc
       | None \<Rightarrow> acc) ls"

definition readLatestGateVerdict :: "string \<Rightarrow> string \<Rightarrow> (string \<times> string) option" where
  "readLatestGateVerdict document taskId =
     (let ls = splitOn LF document; hs = scanPlanDocHeadings document in
      case filter (level2 ''Gates'') hs of
        [] \<Rightarrow> None
      | gs \<Rightarrow> latest_verdict taskId None (section_lines ls hs (last gs)))"

text \<open>\<open>text.slice(text.lastIndexOf(needle))\<close>; without an occurrence the index is -1: the last character.\<close>

fun from_last :: "string \<Rightarrow> string \<Rightarrow> string option" where
  "from_last needle [] = (if needle = [] then Some [] else None)"
| "from_last needle (c # s) = (case from_last needle s of
     Some t \<Rightarrow> Some t
   | None \<Rightarrow> if startsWith (c # s) needle then Some (c # s) else None)"

definition slice_last :: "string \<Rightarrow> string \<Rightarrow> string" where
  "slice_last needle s = (case from_last needle s of Some t \<Rightarrow> t | None \<Rightarrow> drop (length s - 1) s)"

definition ensure_newline :: "string \<Rightarrow> string" where
  "ensure_newline s = (if endsWith s nl then s else s @ nl)"

definition appendGateLine :: "string \<Rightarrow> string \<Rightarrow> (string \<times> nat) result" where
  "appendGateLine existing line =
     (let hs = scanPlanDocHeadings existing; g = find (level2 ''Gates'') hs in
      bindR (guardR (case g of None \<Rightarrow> True | Some h \<Rightarrow> next_heading hs h 2 = None)
        (ValidationError ''GATE_VERDICT_GATES_SECTION_NOT_AT_END: ## Gates must be the final section'')) (\<lambda>_.
      let text = (case g of
            None \<Rightarrow> ensure_newline existing @ nl @ ''## Gates'' @ nl @ line @ nl
          | Some _ \<Rightarrow> ensure_newline existing @ line @ nl);
          gates = length (filter (\<lambda>l. parse_gate_line l \<noteq> None) (splitOn LF (slice_last ''## Gates'' text)))
      in Inr (text, gates)))"

definition gate_line :: "string \<Rightarrow> string \<Rightarrow> string \<Rightarrow> string \<Rightarrow> string option \<Rightarrow> string option \<Rightarrow> string" where
  "gate_line taskId verdict timestamp agent evidenceRef refinementPlan =
     ''- '' @ taskId @ '' '' @ verdict @ '' '' @ timestamp @ '' '' @ agent @
     (case evidenceRef of None \<Rightarrow> [] | Some r \<Rightarrow> '' ref='' @ r) @
     (case refinementPlan of None \<Rightarrow> [] | Some p \<Rightarrow> '' :: '' @ trim p)"

section \<open>Task marks\<close>

text \<open>\<open>text.replace(/\s*$/, "")\<close>\<close>

definition strip_end :: "string \<Rightarrow> string" where
  "strip_end s = rev (dropWhile is_space (rev s))"

datatype review_tier = High | Medium | Passive

fun tier_name :: "review_tier \<Rightarrow> string" where
  "tier_name High = ''high''"
| "tier_name Medium = ''medium''"
| "tier_name Passive = ''passive''"

definition tier_of_js :: "js \<Rightarrow> review_tier" where
  "tier_of_js v = (if v = JStr ''medium'' then Medium else if v = JStr ''passive'' then Passive else High)"

text \<open>\<open>typeof value === "object" && value !== null\<close>, read as an object; an array has none of the fields.\<close>

fun object_of :: "js \<Rightarrow> (string \<times> js) list option" where
  "object_of (JObj obj) = Some obj"
| "object_of (JArr _) = Some []"
| "object_of _ = None"

text \<open>
  \<open>a ?? b\<close>; reading \<open>record.assessment?.tier\<close> from anything but an object with that
  field gives \<open>undefined\<close>.
\<close>

definition assessmentTier :: "js \<Rightarrow> review_tier" where
  "assessmentTier value = (case object_of value of
     None \<Rightarrow> High
   | Some res \<Rightarrow>
     if js_get res ''status'' \<noteq> JInt 0 then High
     else (case object_of (js_get res ''json'') of
         None \<Rightarrow> High
       | Some json \<Rightarrow>
           (let direct = js_get json ''tier'';
                nested = (case js_get json ''assessment'' of JObj a \<Rightarrow> js_get a ''tier'' | _ \<Rightarrow> JUndefined) in
            tier_of_js (if direct = JUndefined \<or> direct = JNull then nested else direct))))"

text \<open>\<open>None\<close>: there is no assessor, it threw or it timed out.\<close>

definition taskMarkTier :: "js option \<Rightarrow> review_tier" where
  "taskMarkTier assessed = (case assessed of None \<Rightarrow> High | Some v \<Rightarrow> assessmentTier v)"

definition tick_line :: "string \<Rightarrow> string \<Rightarrow> string \<Rightarrow> review_tier \<Rightarrow> string \<Rightarrow> string \<Rightarrow> string \<Rightarrow> string" where
  "tick_line taskId status evidenceCommit tier timestamp agent note =
     taskId @ '' '' @ status @ '' evidence='' @ evidenceCommit @ '' tier='' @ tier_name tier @ '' '' @ timestamp @ '' '' @
     agent @ (if note \<noteq> [] then '': '' @ note else [])"

definition with_tick :: "string \<Rightarrow> string \<Rightarrow> string result" where
  "with_tick existing tick =
     (let hs = scanPlanDocHeadings existing in
      case filter (level2 ''Ticks'') hs of
        [] \<Rightarrow> Inr (strip_end existing @ nl @ nl @ ''## Ticks'' @ nl @ tick @ nl)
      | [h] \<Rightarrow>
          if next_heading hs h 2 = None then Inr (strip_end existing @ nl @ tick @ nl)
          else Inl (ValidationError ''TASK_MARK_TICKS_NOT_FINAL: Ticks must be the final section'')
      | _ \<Rightarrow> Inl (ValidationError ''TASK_MARK_MULTIPLE_TICKS_SECTIONS: plan document has ambiguous Ticks sections''))"

definition appendTaskMarkTick ::
  "string \<Rightarrow> string \<Rightarrow> string \<Rightarrow> string \<Rightarrow> review_tier \<Rightarrow> string \<Rightarrow> string \<Rightarrow> string \<Rightarrow> (string \<times> nat) result"
where
  "appendTaskMarkTick existing taskId status evidenceCommit tier agent note timestamp =
     bindR (with_tick existing (tick_line taskId status evidenceCommit tier timestamp agent note)) (\<lambda>text.
     let revision = fst (planDocRevisionSection text) + 1;
         rline = revision_line revision timestamp agent (''task mark '' @ taskId @ '' '' @ status) in
     bindR (case filter (level2 ''Revisions'') (scanPlanDocHeadings text) of
         [] \<Rightarrow> computePlanDocAppend text (''## Revisions'' @ nl @ rline) (Some ''Ticks'')
       | [_] \<Rightarrow> computePlanDocAppend text rline (Some ''Revisions'')
       | _ \<Rightarrow> Inl (ValidationError ''TASK_MARK_MULTIPLE_REVISIONS_SECTIONS: plan document has ambiguous Revisions sections''))
       (\<lambda>text'. Inr (text', revision)))"

section \<open>Front matter\<close>

text \<open>\<open>[ \t]*(?:\r?\n|$)\<close> and \<open>[ \t]*\r?\n\<close>: what follows the line break.\<close>

definition after_break :: "string \<Rightarrow> string option" where
  "after_break s = (let t = dropWhile is_blank s in
     if startsWith t [LF] then Some (drop 1 t) else if startsWith t [CR, LF] then Some (drop 2 t) else None)"

definition closes_frontmatter :: "string \<Rightarrow> bool" where
  "closes_frontmatter s =
     (let rest = (if startsWith s [LF] then Some (drop 1 s) else if startsWith s [CR, LF] then Some (drop 2 s) else None) in
      case rest of
        None \<Rightarrow> False
      | Some t \<Rightarrow> startsWith t ''---'' \<and> (dropWhile is_blank (drop 3 t) = [] \<or> after_break (drop 3 t) \<noteq> None))"

fun frontmatter_body :: "string \<Rightarrow> string option" where
  "frontmatter_body [] = None"
| "frontmatter_body (c # s) = (if closes_frontmatter (c # s) then Some [] else map_option ((#) c) (frontmatter_body s))"

definition leadingPlanFrontmatter :: "string \<Rightarrow> string option" where
  "leadingPlanFrontmatter content =
     (if startsWith content ''---'' then
        (case after_break (drop 3 content) of None \<Rightarrow> None | Some t \<Rightarrow> frontmatter_body t)
      else None)"

text \<open>\<open>s.split(/\r?\n/)\<close>\<close>

definition split_lines :: "string \<Rightarrow> string list" where
  "split_lines s = map logical_line (butlast (splitOn LF s)) @ [last (splitOn LF s)]"

definition hasFrontmatterKey :: "string \<Rightarrow> string \<Rightarrow> bool" where
  "hasFrontmatterKey fm key = list_ex (\<lambda>line. startsWith line (key @ '':'')) (split_lines fm)"

text \<open>\<open>replace(/\s+#.*$/, "")\<close>\<close>

fun strip_comment :: "string \<Rightarrow> string" where
  "strip_comment [] = []"
| "strip_comment (c # s) =
     (let rest = dropWhile is_space s in
      if is_space c \<and> startsWith rest ''#'' \<and> list_all (\<lambda>x. \<not> is_line_terminator x) rest then []
      else c # strip_comment s)"

text \<open>\<open>replace(/^(['"])(.*)\1$/, "$2")\<close>\<close>

definition unquote :: "string \<Rightarrow> string" where
  "unquote s =
     (if 2 \<le> length s \<and> (hd s = CHR 0x27 \<or> hd s = CHR 0x22) \<and> last s = hd s \<and>
         list_all (\<lambda>x. \<not> is_line_terminator x) (butlast (tl s))
      then butlast (tl s) else s)"

definition frontmatterValue :: "string \<Rightarrow> string \<Rightarrow> string option" where
  "frontmatterValue fm key = (case find (\<lambda>line. startsWith line (key @ '':'')) (split_lines fm) of
     None \<Rightarrow> None
   | Some line \<Rightarrow> Some (unquote (trim (strip_comment (drop (length key + 1) line)))))"

section \<open>Replacing a document\<close>

datatype doc_stat = RegularDoc nat | SymlinkDoc | OtherDoc

text \<open>
  The host while a document is replaced: primed fields are the state at the second check,
  just before the rename; \<open>de_write\<close> covers creating, writing and syncing the temporary
  file.
\<close>

record doc_env =
  de_lstat :: "string \<Rightarrow> doc_stat option"
  de_lstat' :: "string \<Rightarrow> doc_stat option"
  de_realpath :: "string \<Rightarrow> string option"
  de_realpath' :: "string \<Rightarrow> string option"
  de_read :: "string result"
  de_read' :: "string result"
  de_mkdir :: "unit result"
  de_write :: "unit result"
  de_rename :: "unit result"

definition is_file :: "doc_stat option \<Rightarrow> bool" where
  "is_file s = (case s of Some (RegularDoc _) \<Rightarrow> True | _ \<Rightarrow> False)"

definition hard_linked :: "doc_stat option \<Rightarrow> bool" where
  "hard_linked s = (case s of Some (RegularDoc n) \<Rightarrow> n > 1 | _ \<Rightarrow> False)"

definition assertBeneathProjectRoot :: "(string \<Rightarrow> string option) \<Rightarrow> string \<Rightarrow> string \<Rightarrow> unit result" where
  "assertBeneathProjectRoot realpath projectRoot target = (case realpath target of
     None \<Rightarrow> Inl (ValidationError ''plan document path does not resolve on the host'')
   | Some c \<Rightarrow> guardR (isWithin projectRoot c) (ValidationError ''plan document escapes the approved project root''))"

fun no_symlinks :: "(string \<Rightarrow> doc_stat option) \<Rightarrow> string \<Rightarrow> string list \<Rightarrow> unit result" where
  "no_symlinks lstat path [] = Inr ()"
| "no_symlinks lstat path (seg # segs) =
     (let p = join_path path seg in
      if lstat p = Some SymlinkDoc then Inl (ValidationError (''PLAN_WRITE_SYMLINK_REFUSED: '' @ p))
      else no_symlinks lstat p segs)"

definition assertPlanDocWriteNoSymlinks :: "(string \<Rightarrow> doc_stat option) \<Rightarrow> string \<Rightarrow> string \<Rightarrow> unit result" where
  "assertPlanDocWriteNoSymlinks lstat projectRoot destination =
     no_symlinks lstat projectRoot (filter (\<lambda>s. s \<noteq> [])
       (splitOn (CHR ''/'') (map (\<lambda>c. if c = CHR 0x5C then CHR ''/'' else c) (drop (length projectRoot) destination))))"

definition assertPlanDocBytesUnchanged :: "string \<Rightarrow> string option \<Rightarrow> string option \<Rightarrow> unit result" where
  "assertPlanDocBytesUnchanged destination expected current =
     guardR (expected = current) (ValidationError (''PLAN_WRITE_CONCURRENT_MODIFICATION: '' @ destination))"

text \<open>The content that is there, when there is a file.\<close>

definition read_if :: "doc_stat option \<Rightarrow> string result \<Rightarrow> string option result" where
  "read_if stat content = (case stat of None \<Rightarrow> Inr None | Some _ \<Rightarrow> bindR content (\<lambda>c. Inr (Some c)))"

definition text_of :: "string option \<Rightarrow> string" where
  "text_of c = (case c of None \<Rightarrow> [] | Some t \<Rightarrow> t)"

definition appendPlanDocAtomically ::
  "doc_env \<Rightarrow> string \<Rightarrow> string \<Rightarrow> string \<Rightarrow> string option \<Rightarrow> (string \<times> bool) result"
where
  "appendPlanDocAtomically env projectRoot destination content heading =
     (let parent = dirname destination; existing = de_lstat env destination in
      bindR (guardR (existing = None \<or> is_file existing)
        (ValidationError ''plan document destination is not a regular file'')) (\<lambda>_.
      bindR (if existing = None then de_mkdir env else Inr ()) (\<lambda>_.
      bindR (assertBeneathProjectRoot (de_realpath env) projectRoot parent) (\<lambda>_.
      bindR (if existing \<noteq> None then assertBeneathProjectRoot (de_realpath env) projectRoot destination else Inr ()) (\<lambda>_.
      bindR (read_if existing (de_read env)) (\<lambda>current.
      bindR (computePlanDocAppend (text_of current) content heading) (\<lambda>nextText.
      bindR (de_write env) (\<lambda>_.
      bindR (guardR (de_lstat' env destination = None \<or> is_file (de_lstat' env destination))
        (ValidationError ''plan document destination changed to a non-regular file'')) (\<lambda>_.
      bindR (assertBeneathProjectRoot (de_realpath' env) projectRoot parent) (\<lambda>_.
      bindR (de_rename env) (\<lambda>_. Inr (nextText, existing = None))))))))))))"

definition writePlanDocAtomically ::
  "doc_env \<Rightarrow> string \<Rightarrow> string \<Rightarrow> string \<Rightarrow> string \<Rightarrow> string \<Rightarrow> string \<Rightarrow> int \<Rightarrow> (string \<times> nat \<times> bool) result"
where
  "writePlanDocAtomically env projectRoot destination body agent note timestamp expectedRevision =
     (let stat = de_lstat env destination; stat' = de_lstat' env destination in
      bindR (assertPlanDocWriteNoSymlinks (de_lstat env) projectRoot destination) (\<lambda>_.
      bindR (de_mkdir env) (\<lambda>_.
      bindR (assertPlanDocWriteNoSymlinks (de_lstat env) projectRoot destination) (\<lambda>_.
      bindR (guardR (stat = None \<or> is_file stat) (ValidationError (''PLAN_WRITE_NOT_REGULAR: '' @ destination))) (\<lambda>_.
      bindR (guardR (\<not> hard_linked stat) (ValidationError (''PLAN_WRITE_HARDLINK_REFUSED: '' @ destination))) (\<lambda>_.
      bindR (read_if stat (de_read env)) (\<lambda>existingBytes.
      bindR (next_plan_doc (text_of existingBytes) body agent note timestamp expectedRevision) (\<lambda>(revision, nextText).
      bindR (de_write env) (\<lambda>_.
      bindR (assertPlanDocWriteNoSymlinks (de_lstat' env) projectRoot destination) (\<lambda>_.
      bindR (guardR (stat' = None \<or> is_file stat') (ValidationError (''PLAN_WRITE_NOT_REGULAR: '' @ destination))) (\<lambda>_.
      bindR (guardR (\<not> hard_linked stat') (ValidationError (''PLAN_WRITE_HARDLINK_REFUSED: '' @ destination))) (\<lambda>_.
      bindR (read_if stat' (de_read' env)) (\<lambda>currentBytes.
      bindR (assertPlanDocBytesUnchanged destination existingBytes currentBytes) (\<lambda>_.
      bindR (de_rename env) (\<lambda>_. Inr (nextText, revision, stat = None))))))))))))))))"

definition appendGateVerdictAtomically ::
  "doc_env \<Rightarrow> string \<Rightarrow> string \<Rightarrow> string \<Rightarrow> (string \<times> nat) result"
where
  "appendGateVerdictAtomically env projectRoot destination line =
     (let parent = dirname destination; stat = de_lstat env destination; stat' = de_lstat' env destination in
      bindR (assertPlanDocWriteNoSymlinks (de_lstat env) projectRoot destination) (\<lambda>_.
      bindR (guardR (stat \<noteq> None) (ValidationError ''GATE_VERDICT_DOCUMENT_MISSING: plan document must already exist'')) (\<lambda>_.
      bindR (guardR (is_file stat) (ValidationError (''GATE_VERDICT_NOT_REGULAR: '' @ destination))) (\<lambda>_.
      bindR (guardR (\<not> hard_linked stat) (ValidationError (''GATE_VERDICT_HARDLINK_REFUSED: '' @ destination))) (\<lambda>_.
      bindR (assertBeneathProjectRoot (de_realpath env) projectRoot parent) (\<lambda>_.
      bindR (assertBeneathProjectRoot (de_realpath env) projectRoot destination) (\<lambda>_.
      bindR (de_read env) (\<lambda>current.
      bindR (appendGateLine current line) (\<lambda>(text, gates).
      bindR (de_write env) (\<lambda>_.
      bindR (assertPlanDocWriteNoSymlinks (de_lstat' env) projectRoot destination) (\<lambda>_.
      bindR (guardR (is_file stat') (ValidationError ''GATE_VERDICT_DESTINATION_CHANGED: plan document is no longer a regular file'')) (\<lambda>_.
      bindR (guardR (\<not> hard_linked stat') (ValidationError (''GATE_VERDICT_HARDLINK_REFUSED: '' @ destination))) (\<lambda>_.
      bindR (assertBeneathProjectRoot (de_realpath' env) projectRoot parent) (\<lambda>_.
      bindR (de_rename env) (\<lambda>_. Inr (text, gates))))))))))))))))"

definition writeTaskMarkAtomically ::
  "doc_env \<Rightarrow> string \<Rightarrow> string \<Rightarrow> string \<Rightarrow> string \<Rightarrow> string \<Rightarrow> review_tier \<Rightarrow> string \<Rightarrow> string \<Rightarrow> string \<Rightarrow> (string \<times> nat) result"
where
  "writeTaskMarkAtomically env projectRoot destination taskId status evidenceCommit tier agent note timestamp =
     (let parent = dirname destination; stat = de_lstat env destination; stat' = de_lstat' env destination in
      bindR (assertPlanDocWriteNoSymlinks (de_lstat env) projectRoot destination) (\<lambda>_.
      bindR (guardR (is_file stat) (ValidationError ''TASK_MARK_DOCUMENT_MISSING: plan document must already exist as a regular file'')) (\<lambda>_.
      bindR (guardR (\<not> hard_linked stat) (ValidationError (''PLAN_WRITE_HARDLINK_REFUSED: '' @ destination))) (\<lambda>_.
      bindR (assertBeneathProjectRoot (de_realpath env) projectRoot parent) (\<lambda>_.
      bindR (assertBeneathProjectRoot (de_realpath env) projectRoot destination) (\<lambda>_.
      bindR (de_read env) (\<lambda>existing.
      bindR (appendTaskMarkTick existing taskId status evidenceCommit tier agent note timestamp) (\<lambda>(text, revision).
      bindR (de_write env) (\<lambda>_.
      bindR (assertPlanDocWriteNoSymlinks (de_lstat' env) projectRoot destination) (\<lambda>_.
      bindR (guardR (is_file stat') (ValidationError ''TASK_MARK_DESTINATION_CHANGED: plan document is no longer a regular file'')) (\<lambda>_.
      bindR (guardR (\<not> hard_linked stat') (ValidationError (''PLAN_WRITE_HARDLINK_REFUSED: '' @ destination))) (\<lambda>_.
      bindR (de_read' env) (\<lambda>currentBytes.
      bindR (assertPlanDocBytesUnchanged destination (Some existing) (Some currentBytes)) (\<lambda>_.
      bindR (de_rename env) (\<lambda>_. Inr (text, revision))))))))))))))))"

section \<open>Operations\<close>

record plan_config =
  pc_broker :: broker_config
  pc_planWriterAgents :: "string list"
  pc_planMiniWriterAgents :: "string list"

definition resolveCanonicalProjectRoot :: "broker_config \<Rightarrow> (string \<Rightarrow> string option) \<Rightarrow> js \<Rightarrow> (string \<times> string) result" where
  "resolveCanonicalProjectRoot cfg realpath projectDir =
     bindR (resolveProjectID realpath projectDir (bc_projects cfg)) (\<lambda>pid.
     case find (\<lambda>p. pr_id p = pid) (bc_projects cfg) of
       None \<Rightarrow> Inl (ValidationError ''project is not in the trusted allowlist'')
     | Some p \<Rightarrow> (case (realpath (pr_path p), realpath (js_str projectDir)) of
         (Some projectRoot, Some requested) \<Rightarrow>
           bindR (guardR (requested = projectRoot) (ValidationError ''host tool requires the exact approved project root'')) (\<lambda>_.
           Inr (pid, projectRoot))
       | _ \<Rightarrow> Inl (ValidationError ''project root does not resolve on the host'')))"

text \<open>The destination below the project root, with the texts of the two refusals.\<close>

definition plan_destination :: "broker_config \<Rightarrow> string \<Rightarrow> string \<Rightarrow> string \<Rightarrow> string \<Rightarrow> string result" where
  "plan_destination cfg escape protected projectRoot relative =
     (let destination = resolve_path projectRoot relative;
          rejected = checkProtectedPaths [relative] (bc_protectedPaths cfg @ bc_protectedSecurityFiles cfg) in
      bindR (guardR (isWithin projectRoot destination) (ValidationError escape)) (\<lambda>_.
      bindR (guardR (rejected = []) (ValidationError (protected @ joinWith '', '' rejected))) (\<lambda>_.
      Inr destination)))"

text \<open>A successful operation reports the destination and the text it now holds.\<close>

record doc_written =
  dw_destination :: string
  dw_relative :: string
  dw_text :: string
  dw_created :: bool
  dw_number :: nat   \<comment> \<open>the revision, or the number of gate lines\<close>

definition planDocAppend :: "plan_config \<Rightarrow> doc_env \<Rightarrow> store \<Rightarrow> envelope \<Rightarrow> doc_written result" where
  "planDocAppend pc env st req =
     (let cfg = pc_broker pc in
      bindR (payloadOf req) (\<lambda>payload.
      bindR (authorizeHostDispatch (bc_readOnlyAgents cfg) st ''planDocAppend'' (env_sessionID req) OrchestratorCategory) (\<lambda>_.
      bindR (resolveCanonicalProjectRoot cfg (de_realpath env) (js_get payload ''projectDir'')) (\<lambda>(_, projectRoot).
      bindR (assertPlanDocName (js_get payload ''doc'')) (\<lambda>_.
      let relative = the (PLAN_DOC_TARGETS (js_str (js_get payload ''doc''))) in
      bindR (plan_destination cfg ''plan document escapes the approved project root''
          ''refusing protected plan document destination (S17): '' projectRoot relative) (\<lambda>destination.
      bindR (normalizePlanDocContent (js_get payload ''content'')) (\<lambda>content.
      bindR (if js_get payload ''heading'' = JUndefined then Inr None
             else bindR (assertPlanDocHeading (js_get payload ''heading'')) (\<lambda>_. Inr (Some (js_str (js_get payload ''heading''))))) (\<lambda>heading.
      bindR (appendPlanDocAtomically env projectRoot destination content heading) (\<lambda>(text, created).
      Inr \<lparr>dw_destination = destination, dw_relative = relative, dw_text = text, dw_created = created, dw_number = 0\<rparr>)))))))))"

definition PLAN_DOC_NAME_RE :: "string \<Rightarrow> bool" where
  "PLAN_DOC_NAME_RE s = (case s of [] \<Rightarrow> False | c # r \<Rightarrow>
     (is_lower c \<or> is_digit c) \<and> matches (\<lambda>c. is_lower c \<or> is_digit c \<or> c = CHR ''-'') 0 63 r)"

definition assertPlanDocWriteName :: "js \<Rightarrow> unit result" where
  "assertPlanDocWriteName v = guardR (is_str PLAN_DOC_NAME_RE v) (ValidationError ''PLAN_WRITE_NAME_INVALID'')"

definition PLAN_DOC_WRITE_MAX_BYTES :: nat where
  "PLAN_DOC_WRITE_MAX_BYTES = 256 * 1024"

text \<open>\<open>ctx.store.get(sessionID)?.agent\<close> and the two checks against the agent of the payload.\<close>

definition bound_writer :: "string \<Rightarrow> store \<Rightarrow> envelope \<Rightarrow> (string \<times> js) list \<Rightarrow> string result" where
  "bound_writer what st req payload =
     bindR (store_get st (env_sessionID req)) (\<lambda>existing.
     bindR (guardR (is_str (\<lambda>_. True) (js_get payload ''agent''))
       (ValidationError (what @ ''_AGENT_NOT_BOUND: agent must match the bound session identity''))) (\<lambda>_.
     bindR (guardR (bound_agent existing \<noteq> None \<and> bound_agent existing \<noteq> Some [] \<and>
         js_get payload ''agent'' = JStr (the (bound_agent existing)))
       (ValidationError (what @ ''_AGENT_MISMATCH: agent must match the bound session identity''))) (\<lambda>_.
     Inr (the (bound_agent existing)))))"

definition single_line :: "string \<Rightarrow> bool" where
  "single_line s = (CR \<notin> set s \<and> LF \<notin> set s)"

definition check_frontmatter :: "string \<Rightarrow> string \<Rightarrow> string \<Rightarrow> unit result" where
  "check_frontmatter target identity content =
     (let fm = leadingPlanFrontmatter content;
          route = (case fm of None \<Rightarrow> None | Some f \<Rightarrow> frontmatterValue f ''route'');
          is_sol = (\<lambda>r. toLowerCase r = ''sol'') in
      bindR (guardR (\<not> (target = ''mini'' \<and> identity \<noteq> ''planner'' \<and>
          (case route of None \<Rightarrow> True | Some r \<Rightarrow> r = [] \<or> is_sol r)))
        (ValidationError ''PLAN_WRITE_PM_ROUTE_REFUSED: PM mini plans require a frontmatter route other than Sol'')) (\<lambda>_.
      (case fm of
         None \<Rightarrow> Inr ()
       | Some f \<Rightarrow>
           (let brokerKeys = filter (hasFrontmatterKey f) [''route'', ''tier'', ''gate''];
                permitted = (target = ''mini'' \<and> (case route of None \<Rightarrow> False | Some r \<Rightarrow> \<not> is_sol r));
                refused = filter (\<lambda>k. k \<noteq> ''route'' \<or> \<not> permitted) brokerKeys in
            guardR (refused = []) (ValidationError (''PLAN_WRITE_BROKER_FRONTMATTER_REFUSED: '' @ joinWith '', '' refused))))))"

definition planDocWrite :: "plan_config \<Rightarrow> doc_env \<Rightarrow> string \<Rightarrow> store \<Rightarrow> envelope \<Rightarrow> doc_written result" where
  "planDocWrite pc env timestamp st req =
     (let cfg = pc_broker pc in
      bindR (payloadOf req) (\<lambda>payload.
      let target = js_get payload ''target''; content = js_get payload ''content''; note = js_get payload ''note'';
          expected = js_get payload ''expectedRevision'' in
      bindR (authorizeHostDispatch (bc_readOnlyAgents cfg) st ''planDocWrite'' (env_sessionID req) PlanWriterCategory) (\<lambda>_.
      bindR (bound_writer ''PLAN_WRITE'' st req payload) (\<lambda>identity.
      bindR (guardR (target = JStr ''tasks'' \<or> target = JStr ''mini'') (ValidationError ''PLAN_WRITE_TARGET_INVALID: target must be tasks or mini'')) (\<lambda>_.
      bindR (assertPlanDocWriteName (js_get payload ''name'')) (\<lambda>_.
      bindR (guardR (is_str (\<lambda>_. True) content) (ValidationError ''PLAN_WRITE_CONTENT_INVALID: content must be a string'')) (\<lambda>_.
      let body = js_str content in
      bindR (guardR (1 \<le> length body) (ValidationError ''PLAN_WRITE_CONTENT_INVALID: content must be at least 1 byte'')) (\<lambda>_.
      bindR (guardR (length body \<le> PLAN_DOC_WRITE_MAX_BYTES) (ValidationError ''PLAN_WRITE_CONTENT_TOO_LARGE'')) (\<lambda>_.
      bindR (check_frontmatter (js_str target) identity body) (\<lambda>_.
      bindR (guardR (find (\<lambda>h. level2 ''Revisions'' h \<or> level2 ''Gates'' h) (scanPlanDocHeadings body) = None)
        (ValidationError ''PLAN_WRITE_CONTENT_SECTION_REFUSED'')) (\<lambda>_.
      bindR (guardR (is_str (\<lambda>n. trim n \<noteq> [] \<and> length (trim n) \<le> 200 \<and> single_line n) note)
        (ValidationError ''PLAN_WRITE_NOTE_INVALID: note must be non-empty, at most 200 characters, and contain no newline'')) (\<lambda>_.
      bindR (case expected of JInt n \<Rightarrow> if n < 0 then Inl (ValidationError ''PLAN_WRITE_REVISION_INVALID: expectedRevision must be an integer >= 0'') else Inr n
             | _ \<Rightarrow> Inl (ValidationError ''PLAN_WRITE_REVISION_INVALID: expectedRevision must be an integer >= 0'')) (\<lambda>expectedRevision.
      bindR (guardR (identity \<in> set (pc_planWriterAgents pc) \<or> target = JStr ''mini'' \<and> identity \<in> set (pc_planMiniWriterAgents pc))
        (ValidationError ''PLAN_WRITE_AGENT_REFUSED'')) (\<lambda>_.
      bindR (resolveCanonicalProjectRoot cfg (de_realpath env) (js_get payload ''projectDir'')) (\<lambda>(_, projectRoot).
      let relative = ''odd/'' @ js_str target @ ''/'' @ js_str (js_get payload ''name'') @ ''.md'' in
      bindR (plan_destination cfg ''PLAN_WRITE_PATH_ESCAPE: destination escapes project root'' ''PLAN_WRITE_PROTECTED_PATH: '' projectRoot relative) (\<lambda>destination.
      bindR (writePlanDocAtomically env projectRoot destination body identity (js_str note) timestamp expectedRevision) (\<lambda>(text, revision, created).
      Inr \<lparr>dw_destination = destination, dw_relative = relative, dw_text = text, dw_created = created, dw_number = revision\<rparr>)))))))))))))))))"

definition trimmed_line :: "nat \<Rightarrow> string \<Rightarrow> bool" where
  "trimmed_line n s = (s = trim s \<and> length s \<le> n \<and> single_line s)"

definition optional_str :: "js \<Rightarrow> string option" where
  "optional_str v = (case v of JStr s \<Rightarrow> Some s | _ \<Rightarrow> None)"

definition gateVerdict :: "plan_config \<Rightarrow> doc_env \<Rightarrow> string \<Rightarrow> store \<Rightarrow> envelope \<Rightarrow> doc_written result" where
  "gateVerdict pc env timestamp st req =
     (let cfg = pc_broker pc in
      bindR (payloadOf req) (\<lambda>payload.
      let taskId = js_get payload ''taskId''; verdict = js_get payload ''verdict''; plan = js_get payload ''refinementPlan'';
          evidence = js_get payload ''evidenceRef'' in
      bindR (authorizeHostDispatch (bc_readOnlyAgents cfg) st ''gateVerdict'' (env_sessionID req) PlanWriterCategory) (\<lambda>_.
      bindR (bound_writer ''GATE_VERDICT'' st req payload) (\<lambda>identity.
      bindR (assertPlanDocWriteName (js_get payload ''name'')) (\<lambda>_.
      bindR (guardR (is_str GATE_TASK_ID_RE taskId) (ValidationError ''GATE_VERDICT_TASK_ID_INVALID'')) (\<lambda>_.
      bindR (guardR (is_str (\<lambda>v. v \<in> set verdicts) verdict) (ValidationError ''GATE_VERDICT_INVALID: verdict must be PASS, REFINE, or ESCALATE'')) (\<lambda>_.
      bindR (if verdict = JStr ''REFINE'' then
          bindR (guardR (is_str (\<lambda>p. trim p \<noteq> []) plan)
            (ValidationError ''GATE_VERDICT_REFINEMENT_REQUIRED: refinementPlan is required for REFINE and must be non-empty'')) (\<lambda>_.
          guardR (is_str (trimmed_line 600) plan)
            (ValidationError ''GATE_VERDICT_REFINEMENT_INVALID: refinementPlan must be at most 600 characters and contain no newline''))
        else guardR (plan = JUndefined) (ValidationError ''GATE_VERDICT_REFINEMENT_FORBIDDEN: refinementPlan is only valid for REFINE'')) (\<lambda>_.
      bindR (guardR (evidence = JUndefined \<or> is_str (\<lambda>e. trim e \<noteq> [] \<and> trimmed_line 200 e) evidence)
        (ValidationError ''GATE_VERDICT_EVIDENCE_INVALID: evidenceRef must be non-empty, at most 200 characters, and contain no newline'')) (\<lambda>_.
      bindR (guardR (identity \<in> set (pc_planWriterAgents pc)) (ValidationError ''GATE_VERDICT_AGENT_REFUSED'')) (\<lambda>_.
      bindR (resolveCanonicalProjectRoot cfg (de_realpath env) (js_get payload ''projectDir'')) (\<lambda>(_, projectRoot).
      let relative = ''odd/tasks/'' @ js_str (js_get payload ''name'') @ ''.md'' in
      bindR (plan_destination cfg ''GATE_VERDICT_PATH_ESCAPE: destination escapes project root'' ''GATE_VERDICT_PROTECTED_PATH: '' projectRoot relative) (\<lambda>destination.
      let line = gate_line (js_str taskId) (js_str verdict) timestamp identity (optional_str evidence) (optional_str plan) in
      bindR (appendGateVerdictAtomically env projectRoot destination line) (\<lambda>(text, gates).
      Inr \<lparr>dw_destination = destination, dw_relative = relative, dw_text = text, dw_created = False, dw_number = gates\<rparr>)))))))))))))"

definition TASK_MARK_ID_RE :: "string \<Rightarrow> bool" where
  "TASK_MARK_ID_RE s = (startsWith s ''T'' \<and> matches is_digit 1 3 (drop 1 s))"

text \<open>A routed or gated plan needs a passed gate for the task.\<close>

definition gate_passed :: "string \<Rightarrow> string \<Rightarrow> bool" where
  "gate_passed document taskId =
     (let route = (case leadingPlanFrontmatter document of None \<Rightarrow> None | Some f \<Rightarrow> frontmatterValue f ''route'');
          gated = list_ex (level2 ''Gates'') (scanPlanDocHeadings document) in
      (route \<noteq> None \<and> route \<noteq> Some [] \<or> gated) \<longrightarrow> map_option fst (readLatestGateVerdict document taskId) = Some ''PASS'')"

text \<open>\<open>commitKnown\<close>: \<open>git cat-file -e\<close> found the commit and its output was complete.\<close>

definition taskMark ::
  "plan_config \<Rightarrow> doc_env \<Rightarrow> string \<Rightarrow> (string \<Rightarrow> bool) \<Rightarrow> js option \<Rightarrow> store \<Rightarrow> envelope \<Rightarrow> (doc_written \<times> review_tier) result"
where
  "taskMark pc env timestamp commitKnown assessed st req =
     (let cfg = pc_broker pc in
      bindR (payloadOf req) (\<lambda>payload.
      let target = js_get payload ''target''; taskId = js_get payload ''taskId''; status = js_get payload ''status'';
          commit = js_get payload ''evidenceCommit''; rawNote = js_get payload ''note'' in
      bindR (authorizeHostDispatch (bc_readOnlyAgents cfg) st ''taskMark'' (env_sessionID req) PlanWriterCategory) (\<lambda>_.
      bindR (store_get st (env_sessionID req)) (\<lambda>existing.
      bindR (guardR (bound_agent existing \<noteq> None \<and> bound_agent existing \<noteq> Some [] \<and> bound_role (bound_agent existing) = ''pm'')
        (PolicyError ''TASK_MARK_PM_ONLY: only PM identities may mark plan tasks'')) (\<lambda>_.
      bindR (guardR (target = JStr ''tasks'' \<or> target = JStr ''mini'') (ValidationError ''TASK_MARK_TARGET_INVALID: target must be tasks or mini'')) (\<lambda>_.
      bindR (assertPlanDocWriteName (js_get payload ''name'')) (\<lambda>_.
      bindR (guardR (is_str TASK_MARK_ID_RE taskId) (ValidationError ''TASK_MARK_TASK_ID_INVALID'')) (\<lambda>_.
      bindR (guardR (status = JStr ''passed'' \<or> status = JStr ''failed'') (ValidationError ''TASK_MARK_STATUS_INVALID: status must be passed or failed'')) (\<lambda>_.
      bindR (guardR (is_str (matches is_hex 40 40) commit) (ValidationError ''TASK_MARK_EVIDENCE_COMMIT_INVALID'')) (\<lambda>_.
      bindR (guardR (rawNote = JUndefined \<or> is_str (\<lambda>_. True) rawNote) (ValidationError ''TASK_MARK_NOTE_INVALID: note must be a string'')) (\<lambda>_.
      let note = take 200 (map (\<lambda>c. if is_control c then CHR '' '' else c) (js_str rawNote)) in
      bindR (resolveCanonicalProjectRoot cfg (de_realpath env) (js_get payload ''projectDir'')) (\<lambda>(_, projectRoot).
      bindR (guardR (commitKnown (js_str commit))
        (ValidationError ''TASK_MARK_EVIDENCE_COMMIT_UNKNOWN: evidenceCommit does not resolve to a commit in the project'')) (\<lambda>_.
      let relative = ''odd/'' @ js_str target @ ''/'' @ js_str (js_get payload ''name'') @ ''.md'' in
      bindR (plan_destination cfg ''TASK_MARK_PATH_ESCAPE: destination escapes project root'' ''TASK_MARK_PROTECTED_PATH: '' projectRoot relative) (\<lambda>destination.
      let tier = taskMarkTier assessed in
      bindR (guardR (is_file (de_lstat env destination))
        (ValidationError ''TASK_MARK_DOCUMENT_MISSING: plan document must already exist as a regular file'')) (\<lambda>_.
      bindR (de_read env) (\<lambda>current.
      bindR (guardR (gate_passed current (js_str taskId))
        (ValidationError ''TASK_MARK_GATE_NOT_PASSED: routed plan tasks require a latest PASS gate verdict'')) (\<lambda>_.
      bindR (writeTaskMarkAtomically env projectRoot destination (js_str taskId) (js_str status) (js_str commit) tier
          (the (bound_agent existing)) note timestamp) (\<lambda>(text, revision).
      Inr (\<lparr>dw_destination = destination, dw_relative = relative, dw_text = text, dw_created = False, dw_number = revision\<rparr>, tier)))))))))))))))))))"

end
