(* ===== verification/PlanGuarantees.thy ===== *)
theory PlanGuarantees
  imports PlanDocs
begin

text \<open>
  What the operations on plan documents guarantee: a recorded gate verdict reads back, a
  whole-document write advances the revision log and keeps the verdicts, appending keeps
  the document, and a task mark needs a passed gate.  The lemmas before them follow the
  heading scan through a text that is put together from parts.
\<close>

section \<open>The scan, part by part\<close>

abbreviation fence_after :: "fence option \<Rightarrow> string list \<Rightarrow> fence option" where
  "fence_after \<equiv> foldl fence_step"

definition lines_width :: "string list \<Rightarrow> nat" where
  "lines_width ls = sum_list (map (\<lambda>l. length l + 1) ls)"

lemma lines_width_simps [simp]:
  "lines_width [] = 0" "lines_width (l # ls) = length l + 1 + lines_width ls"
  by (simp_all add: lines_width_def)

lemma scan_append:
  "scan_lines f i k (xs @ ys) =
     scan_lines f i k xs @ scan_lines (fence_after f xs) (i + length xs) (k + lines_width xs) ys"
  by (induction xs arbitrary: f i k) (auto simp: add_ac)

lemma scan_index:
  "h \<in> set (scan_lines f i k ls) \<Longrightarrow> i \<le> ph_index h \<and> ph_index h < i + length ls"
  by (induction ls arbitrary: f i k) (fastforce split: option.splits)+

lemma scan_sorted: "sorted_wrt (\<lambda>a b. ph_index a < ph_index b) (scan_lines f i k ls)"
  by (induction ls arbitrary: f i k) (auto split: option.splits dest!: scan_index)

definition shift_heading :: "nat \<Rightarrow> nat \<Rightarrow> plan_heading \<Rightarrow> plan_heading" where
  "shift_heading i k h = h\<lparr>ph_index := ph_index h + i, ph_offset := ph_offset h + k\<rparr>"

lemma scan_shift: "scan_lines f (i + j) (k + m) ls = map (shift_heading j m) (scan_lines f i k ls)"
proof (induction ls arbitrary: f i k)
  case (Cons l ls)
  have "scan_lines f' (Suc (i + j)) (k + m + length l + 1) ls = map (shift_heading j m) (scan_lines f' (Suc i) (k + length l + 1) ls)" for f'
    using Cons [of f' "Suc i" "k + length l + 1"] by (simp add: add_ac)
  then show ?case by (auto simp: shift_heading_def split: option.splits)
qed simp

text \<open>Lines that hold neither a heading nor a fence.\<close>

definition plain_line :: "string \<Rightarrow> bool" where
  "plain_line l = (atx_heading (logical_line l) = None \<and> opening_fence (logical_line l) = None)"

lemma plain_line_steps [simp]:
  "plain_line l \<Longrightarrow> line_heading f l = None" "plain_line l \<Longrightarrow> fence_step None l = None"
  by (auto simp: plain_line_def line_heading_def fence_step_def)

lemma scan_plain: "list_all plain_line ls \<Longrightarrow> scan_lines f i k ls = []"
  by (induction ls arbitrary: f i k) auto

lemma plain_after: "list_all plain_line ls \<Longrightarrow> fence_after None ls = None"
  by (induction ls) auto

lemma plain_dash: "plain_line (CHR ''-'' # l)"
  by (auto simp: plain_line_def logical_line_def atx_heading_def opening_fence_def fence_marker_def is_blank_def)

lemma plain_Nil [simp]: "plain_line []"
  by (simp add: plain_line_def logical_line_def atx_heading_def opening_fence_def fence_marker_def endsWith_def)

lemma nl_LF: "nl = [LF]"
  by (simp add: nl_def LF_def)

text \<open>A text up to its last line break.\<close>

definition chop :: "string \<Rightarrow> string" where
  "chop s = (if endsWith s nl then butlast s else s)"

lemma ensure_newline_chop: "ensure_newline s = chop s @ [LF]"
  by (auto simp: ensure_newline_def chop_def nl_LF elim!: endsWithE)

lemma splitOn_chop:
  "splitOn LF s = splitOn LF (chop s) @ (if endsWith s nl then [[]] else [])"
  by (auto simp: chop_def nl_LF splitOn_append elim!: endsWithE)

lemma scan_chop: "scanPlanDocHeadings (chop s) = scanPlanDocHeadings s"
proof -
  have "splitOn LF s = splitOn LF (chop s) @ (if endsWith s nl then [[]] else [])"
    by (rule splitOn_chop)
  then show ?thesis
    by (auto simp: scanPlanDocHeadings_def scan_append scan_plain)
qed

lemma scan_extend:
  "LF \<notin> set l \<Longrightarrow> scanPlanDocHeadings (a @ LF # l) =
     scanPlanDocHeadings a @ scan_lines (fence_after None (splitOn LF a)) (length (splitOn LF a)) (lines_width (splitOn LF a)) [l]"
  by (simp add: scanPlanDocHeadings_def splitOn_append splitOn_no_sep scan_append del: scan_lines.simps)

lemma latest_verdict_append:
  "latest_verdict t acc (xs @ ys) = latest_verdict t (latest_verdict t acc xs) ys"
  by (induction xs arbitrary: acc) auto

lemma parse_gate_Nil [simp]: "parse_gate_line [] = None"
  by (simp add: parse_gate_line_def startsWith_def)

lemma latest_verdict_chop:
  "k \<le> length (splitOn LF (chop s)) \<Longrightarrow>
   latest_verdict t acc (drop k (splitOn LF s)) = latest_verdict t acc (drop k (splitOn LF (chop s)))"
  by (subst splitOn_chop) (auto simp: latest_verdict_append)

lemma find_filter_hd: "find p xs = (case filter p xs of [] \<Rightarrow> None | x # _ \<Rightarrow> Some x)"
  by (induction xs) auto

text \<open>A heading of level two that no heading of level one or two follows is the last of its kind.\<close>

lemma last_section_unique:
  assumes hs: "sorted_wrt (\<lambda>a b. ph_index a < ph_index b) hs"
    and g: "find (level2 t) hs = Some g" and nh: "next_heading hs g 2 = None"
  shows "filter (level2 t) hs = [g]"
proof -
  obtain rest where f: "filter (level2 t) hs = g # rest"
    using g by (auto simp: find_filter_hd split: list.splits)
  have "sorted_wrt (\<lambda>a b. ph_index a < ph_index b) (g # rest)"
    using hs f by (metis sorted_wrt_filter)
  moreover have "set rest \<subseteq> {h \<in> set hs. level2 t h}"
    using arg_cong [OF f, of set] by auto
  ultimately have "rest = []"
    using nh by (cases rest) (auto simp: next_heading_def find_None_iff level2_def)
  with f show ?thesis by simp
qed

definition Gates_at :: "nat \<Rightarrow> nat \<Rightarrow> plan_heading" where
  "Gates_at i k = \<lparr>ph_index = i, ph_level = 2, ph_text = ''Gates'', ph_offset = k\<rparr>"

lemma gates_heading: "scan_lines None i k [''## Gates''] = [Gates_at i k]"
  by (simp add: Gates_at_def line_heading_def logical_line_def endsWith_def CR_def opening_fence_def fence_marker_def is_blank_def
      atx_heading_def heading_tail_def is_line_terminator_def trim_def is_space_def LF_def)

lemma gates_step: "fence_step None ''## Gates'' = None"
  by (simp add: fence_step_def logical_line_def endsWith_def CR_def opening_fence_def fence_marker_def is_blank_def)

text \<open>What a document with no open code block looks like to the scan.\<close>

definition open_fence :: "string \<Rightarrow> fence option" where
  "open_fence doc = fence_after None (splitOn LF doc)"

lemma fence_step_Nil [simp]: "fence_step f [] = f"
  by (auto simp: fence_step_def logical_line_def endsWith_def closing_fence_def opening_fence_def fence_marker_def split: option.splits)

lemma open_fence_chop: "open_fence (chop doc) = open_fence doc"
proof -
  have "fence_after None (splitOn LF doc) = fence_after None (splitOn LF (chop doc) @ (if endsWith doc nl then [[]] else []))"
    by (rule arg_cong [OF splitOn_chop])
  then show ?thesis by (simp add: open_fence_def)
qed

section \<open>Recording a verdict\<close>

lemma word_of_append:
  "list_all (\<lambda>c. \<not> is_space c) w \<Longrightarrow> s = [] \<or> is_space (hd s) \<Longrightarrow> word_of (w @ s) = w"
  by (cases s) (auto simp: word_of_def takeWhile_append list_all_iff)

lemma is_digit_no_space: "is_digit c \<Longrightarrow> \<not> is_space c"
  by (auto simp: is_digit_def is_space_def)

lemma is_alnum_no_space: "is_alnum c \<Longrightarrow> \<not> is_space c"
  by (auto simp: is_alnum_def is_alpha_def is_lower_def is_upper_def is_space_def dest: is_digit_no_space)

lemma task_id_word: "GATE_TASK_ID_RE t \<Longrightarrow> list_all (\<lambda>c. \<not> is_space c) t"
proof -
  have "is_alnum c \<or> one_of ''._-'' c \<Longrightarrow> \<not> is_space c" for c
    using is_alnum_no_space by (auto simp: one_of_def is_space_def)
  then show "GATE_TASK_ID_RE t \<Longrightarrow> list_all (\<lambda>c. \<not> is_space c) t"
    by (auto simp: GATE_TASK_ID_RE_def matches_def list_all_iff is_alnum_no_space split: list.splits)
qed

lemma timestamp_word: "is_timestamp ts \<Longrightarrow> list_all (\<lambda>c. \<not> is_space c) ts"
proof -
  assume "is_timestamp ts"
  moreover have "list_all2 (\<lambda>p c. if p = CHR ''d'' then is_digit c else c = p) ps cs \<Longrightarrow>
      list_all (\<lambda>c. \<not> is_space c) ps \<Longrightarrow> list_all (\<lambda>c. \<not> is_space c) cs" for ps cs
    by (induction ps cs rule: list_all2_induct) (auto simp: is_digit_no_space split: if_splits)
  ultimately show ?thesis
    by (auto simp: is_timestamp_def is_space_def)
qed

lemma verdict_word: "v \<in> set verdicts \<Longrightarrow> list_all (\<lambda>c. \<not> is_space c) v"
  by (auto simp: verdicts_def is_space_def)

definition gate_suffix :: "string option \<Rightarrow> string option \<Rightarrow> string" where
  "gate_suffix evidenceRef refinementPlan =
     (case evidenceRef of None \<Rightarrow> [] | Some r \<Rightarrow> '' ref='' @ r) @
     (case refinementPlan of None \<Rightarrow> [] | Some p \<Rightarrow> '' :: '' @ trim p)"

definition line_field :: "string option \<Rightarrow> bool" where
  "line_field x = (case x of None \<Rightarrow> True | Some s \<Rightarrow> trim s \<noteq> [] \<and> s = trim s \<and> single_line s)"

lemma logical_line_single: "CR \<notin> set s \<Longrightarrow> logical_line s = s"
  by (auto simp: logical_line_def elim!: endsWithE)

lemma gate_tail_suffix:
  assumes "line_field ev" "line_field pl"
  shows "gate_tail (gate_suffix ev pl)" "gate_suffix ev pl = [] \<or> is_space (hd (gate_suffix ev pl))"
    "single_line (gate_suffix ev pl)"
proof -
  show *: "single_line (gate_suffix ev pl)"
    using assms by (auto simp: gate_suffix_def single_line_def line_field_def LF_def CR_def split: option.splits)
  then have ll: "logical_line (gate_suffix ev pl) = gate_suffix ev pl"
    by (simp add: logical_line_single single_line_def)
  have "gate_suffix ev pl = [] \<or> startsWith (gate_suffix ev pl) '' ref='' \<and> 5 < length (gate_suffix ev pl)
      \<or> startsWith (gate_suffix ev pl) '' :: '' \<and> 4 < length (gate_suffix ev pl)"
    using assms by (auto simp: gate_suffix_def line_field_def startsWith_def split: option.splits)
  with * ll show "gate_tail (gate_suffix ev pl)"
    by (simp add: gate_tail_def single_line_def)
  show "gate_suffix ev pl = [] \<or> is_space (hd (gate_suffix ev pl))"
    by (auto simp: gate_suffix_def is_space_def split: option.splits)
qed

lemma parse_gate_line_round_trip:
  assumes "GATE_TASK_ID_RE t" "v \<in> set verdicts" "is_timestamp ts"
    "a \<noteq> []" "list_all (\<lambda>c. \<not> is_space c) a" "line_field ev" "line_field pl"
  shows "parse_gate_line (gate_line t v ts a ev pl) = Some (t, v, ts)"
proof -
  note tail = gate_tail_suffix [OF assms(6,7)]
  have line: "gate_line t v ts a ev pl = ''- '' @ t @ '' '' @ v @ '' '' @ ts @ '' '' @ a @ gate_suffix ev pl"
    by (simp add: gate_line_def gate_suffix_def)
  have sp: "is_space (CHR '' '')" by (simp add: is_space_def)
  have "word_of (t @ '' '' @ x) = t" "word_of (v @ '' '' @ x) = v" "word_of (ts @ '' '' @ x) = ts" for x
    using assms(1-3) by (auto intro!: word_of_append simp: task_id_word verdict_word timestamp_word sp)
  moreover have "word_of (a @ gate_suffix ev pl) = a"
    using assms(5) tail by (intro word_of_append) auto
  ultimately show ?thesis
    unfolding line parse_gate_line_def using assms tail by (simp add: startsWith_def Let_def)
qed

lemma gate_line_LF:
  assumes "GATE_TASK_ID_RE t" "v \<in> set verdicts" "is_timestamp ts"
    "list_all (\<lambda>c. \<not> is_space c) a" "line_field ev" "line_field pl"
  shows "LF \<notin> set (gate_line t v ts a ev pl)"
proof -
  have "list_all (\<lambda>c. \<not> is_space c) w \<Longrightarrow> LF \<notin> set w" for w
    by (auto simp: list_all_iff is_space_def LF_def)
  then have "LF \<notin> set t" "LF \<notin> set v" "LF \<notin> set ts" "LF \<notin> set a"
    using assms task_id_word verdict_word timestamp_word by blast+
  moreover have "LF \<notin> set (gate_suffix ev pl)"
    using gate_tail_suffix [OF assms(5,6)] by (simp add: single_line_def)
  ultimately show ?thesis
    by (auto simp: gate_line_def gate_suffix_def LF_def split: option.splits)
qed

lemma section_to_end:
  "next_heading hs h 2 = None \<Longrightarrow> section_lines ls hs h = drop (ph_index h + 1) ls"
  by (simp add: section_lines_def)

lemma scan_doc_sorted: "sorted_wrt (\<lambda>a b. ph_index a < ph_index b) (scanPlanDocHeadings doc)"
  by (simp add: scanPlanDocHeadings_def scan_sorted)

lemma scan_doc_index: "h \<in> set (scanPlanDocHeadings doc) \<Longrightarrow> ph_index h < length (splitOn LF doc)"
  using scan_index by (fastforce simp: scanPlanDocHeadings_def)

lemma gate_line_dash: "\<exists>l. gate_line t v ts a ev pl = CHR ''-'' # l"
  by (simp add: gate_line_def)

lemma plain_gate_line: "plain_line (gate_line t v ts a ev pl)"
  using gate_line_dash plain_dash by metis

text \<open>The section \<open>## Gates\<close> is there and final: its headings stay, its lines get one more.\<close>

lemma append_existing_gates:
  assumes g: "find (level2 ''Gates'') (scanPlanDocHeadings e) = Some g"
    and nh: "next_heading (scanPlanDocHeadings e) g 2 = None"
    and l: "LF \<notin> set l" "plain_line l"
  shows "readLatestGateVerdict (ensure_newline e @ l @ nl) t =
    latest_verdict t (readLatestGateVerdict e t) [l]"
proof -
  let ?text = "ensure_newline e @ l @ nl" and ?hs = "scanPlanDocHeadings e" and ?c = "splitOn LF (chop e)"
  have tx: "splitOn LF ?text = ?c @ [l, []]"
    using l by (simp add: ensure_newline_chop nl_LF splitOn_append splitOn_no_sep)
  have hs: "scanPlanDocHeadings ?text = ?hs"
    using l scan_chop [of e] by (simp add: scanPlanDocHeadings_def tx scan_append scan_plain)
  have f: "filter (level2 ''Gates'') ?hs = [g]"
    using scan_doc_sorted g nh by (rule last_section_unique)
  have "g \<in> set ?hs"
    using g by (auto dest: find_Some_mem)
  then have i: "ph_index g + 1 \<le> length ?c"
    using scan_doc_index [of g "chop e"] by (simp add: scan_chop)
  have "readLatestGateVerdict e t = latest_verdict t None (drop (ph_index g + 1) ?c)"
    using latest_verdict_chop [OF i] by (simp add: readLatestGateVerdict_def f section_to_end [OF nh])
  then show ?thesis
    using i by (simp add: readLatestGateVerdict_def hs f section_to_end [OF nh] tx latest_verdict_append)
qed

text \<open>There is no such section and no open code block: the section is created.\<close>

lemma append_new_gates:
  assumes g: "find (level2 ''Gates'') (scanPlanDocHeadings e) = None"
    and fence: "open_fence e = None" and l: "LF \<notin> set l" "plain_line l"
  shows "readLatestGateVerdict (ensure_newline e @ nl @ ''## Gates'' @ nl @ l @ nl) t =
    latest_verdict t (readLatestGateVerdict e t) [l]"
proof -
  let ?text = "ensure_newline e @ nl @ ''## Gates'' @ nl @ l @ nl" and ?hs = "scanPlanDocHeadings e" and ?c = "splitOn LF (chop e)"
  let ?h = "Gates_at (length ?c + 1) (lines_width ?c + 1)"
  have "LF \<notin> set ''## Gates''" by (simp add: LF_def)
  then have tx: "splitOn LF ?text = ?c @ [[]] @ [''## Gates''] @ [l, []]"
    using l by (auto simp: ensure_newline_chop nl_LF splitOn_append splitOn_no_sep)
  have f0: "fence_after None ?c = None"
    using fence open_fence_chop [of e] by (simp add: open_fence_def)
  have e: "scan_lines None 0 0 ?c = ?hs"
    using scan_chop [of e] by (simp add: scanPlanDocHeadings_def)
  have hs: "scanPlanDocHeadings ?text = ?hs @ [?h]"
    unfolding scanPlanDocHeadings_def tx
    using l by (simp add: scan_append f0 gates_heading gates_step scan_plain del: scan_lines.simps(2) append.simps)
      (simp add: e gates_step scan_plain scanPlanDocHeadings_def)
  have none: "filter (level2 ''Gates'') ?hs = []"
    using g by (simp add: find_None_key filter_empty_conv)
  have "ph_index h < length ?c" if "h \<in> set ?hs" for h
    using that scan_doc_index [of h "chop e"] by (simp add: scan_chop)
  then have nh: "next_heading (?hs @ [?h]) ?h 2 = None"
    by (fastforce simp: next_heading_def find_None_key Gates_at_def)
  have "level2 ''Gates'' ?h" by (simp add: level2_def Gates_at_def)
  then have "readLatestGateVerdict ?text t = latest_verdict t None (section_lines (splitOn LF ?text) (?hs @ [?h]) ?h)"
    unfolding readLatestGateVerdict_def Let_def hs by (simp add: none)
  also have "section_lines (splitOn LF ?text) (?hs @ [?h]) ?h = [l, []]"
    unfolding section_to_end [OF nh] tx by (simp add: Gates_at_def)
  finally have "readLatestGateVerdict ?text t = latest_verdict t None [l]"
    by simp
  then show ?thesis
    by (simp add: readLatestGateVerdict_def none)
qed

lemma appendGateLine_reads:
  assumes ok: "appendGateLine e l = Inr (text, n)" and fence: "open_fence e = None"
    and l: "LF \<notin> set l" "plain_line l"
  shows "readLatestGateVerdict text t = latest_verdict t (readLatestGateVerdict e t) [l]"
proof (cases "find (level2 ''Gates'') (scanPlanDocHeadings e)")
  case None
  with ok have "text = ensure_newline e @ nl @ ''## Gates'' @ nl @ l @ nl"
    by (simp add: appendGateLine_def Let_def)
  with append_new_gates [OF None fence l] show ?thesis by simp
next
  case (Some g)
  with ok have "text = ensure_newline e @ l @ nl" "next_heading (scanPlanDocHeadings e) g 2 = None"
    by (auto simp: appendGateLine_def Let_def bindR_eq_Inr)
  with append_existing_gates [OF Some _ l] show ?thesis by simp
qed

section \<open>Who may write, and when\<close>

lemma bound_writer_ok:
  "bound_writer what st req payload = Inr a \<Longrightarrow>
     js_get payload ''agent'' = JStr a \<and> a \<noteq> [] \<and>
     (\<exists>x. store_get st (env_sessionID req) = Inr x \<and> bound_agent x = Some a)"
  by (auto simp: bound_writer_def bindR_eq_Inr)

lemma line_field_optional:
  "v = JUndefined \<or> is_str (\<lambda>s. trim s \<noteq> [] \<and> trimmed_line n s) v \<Longrightarrow> line_field (optional_str v)"
  by (auto simp: is_str_iff line_field_def optional_str_def trimmed_line_def)

lemma appendGateVerdictAtomically_ok:
  "appendGateVerdictAtomically env r dst line = Inr (written, n) \<Longrightarrow>
     \<exists>current. de_read env = Inr current \<and> appendGateLine current line = Inr (written, n)"
  by (auto simp: appendGateVerdictAtomically_def Let_def bindR_eq_Inr)

lemma gateVerdict_ok:
  assumes "gateVerdict pc env timestamp st req = Inr d"
  obtains payload task verdict agent current where
    "payloadOf req = Inr payload" "js_get payload ''taskId'' = JStr task" "GATE_TASK_ID_RE task"
    "js_get payload ''verdict'' = JStr verdict" "verdict \<in> set verdicts"
    "bound_writer ''GATE_VERDICT'' st req payload = Inr agent" "agent \<in> set (pc_planWriterAgents pc)"
    "line_field (optional_str (js_get payload ''evidenceRef''))"
    "line_field (optional_str (js_get payload ''refinementPlan''))"
    "de_read env = Inr current"
    "appendGateLine current (gate_line task verdict timestamp agent (optional_str (js_get payload ''evidenceRef''))
       (optional_str (js_get payload ''refinementPlan''))) = Inr (dw_text d, dw_number d)"
proof -
  obtain payload agent written n r dst rel u where p: "payloadOf req = Inr payload"
    and a: "bound_writer ''GATE_VERDICT'' st req payload = Inr agent" "agent \<in> set (pc_planWriterAgents pc)"
    and t: "is_str GATE_TASK_ID_RE (js_get payload ''taskId'')" and v: "is_str (\<lambda>v. v \<in> set verdicts) (js_get payload ''verdict'')"
    and pl: "(if js_get payload ''verdict'' = JStr ''REFINE'' then
          bindR (guardR (is_str (\<lambda>p. trim p \<noteq> []) (js_get payload ''refinementPlan''))
            (ValidationError ''GATE_VERDICT_REFINEMENT_REQUIRED: refinementPlan is required for REFINE and must be non-empty'')) (\<lambda>_.
          guardR (is_str (trimmed_line 600) (js_get payload ''refinementPlan''))
            (ValidationError ''GATE_VERDICT_REFINEMENT_INVALID: refinementPlan must be at most 600 characters and contain no newline''))
        else guardR (js_get payload ''refinementPlan'' = JUndefined) (ValidationError ''GATE_VERDICT_REFINEMENT_FORBIDDEN: refinementPlan is only valid for REFINE'')) = Inr u"
    and ev: "js_get payload ''evidenceRef'' = JUndefined \<or> is_str (\<lambda>e. trim e \<noteq> [] \<and> trimmed_line 200 e) (js_get payload ''evidenceRef'')"
    and w: "appendGateVerdictAtomically env r dst (gate_line (js_str (js_get payload ''taskId'')) (js_str (js_get payload ''verdict'')) timestamp agent
       (optional_str (js_get payload ''evidenceRef'')) (optional_str (js_get payload ''refinementPlan''))) = Inr (written, n)"
    and d: "\<lparr>dw_destination = dst, dw_relative = rel, dw_text = written, dw_created = False, dw_number = n\<rparr> = d"
    using assms unfolding gateVerdict_def Let_def bindR_eq_Inr guardR_eq_Inr split_paired_Ex prod.case sum.inject
    by (elim exE conjE) (rule that, assumption+)
  have "js_get payload ''refinementPlan'' = JUndefined \<or>
      is_str (\<lambda>e. trim e \<noteq> [] \<and> trimmed_line 600 e) (js_get payload ''refinementPlan'')"
    using pl by (auto simp: is_str_iff bindR_eq_Inr split: if_splits)
  with that p a t v line_field_optional [OF ev] line_field_optional appendGateVerdictAtomically_ok [OF w] d show thesis
    by (auto simp: is_str_iff)
qed



section \<open>The revision log\<close>

lemma revision_line_round_trip: "revision_of_line (revision_line r ts a n) = Some r"
proof -
  let ?rest = "'' '' @ ts @ '' '' @ a @ '': '' @ n"
  have l: "revision_line r ts a n = ''- r'' @ show_nat r @ ?rest"
    by (simp add: revision_line_def)
  have sp: "\<not> is_digit (CHR '' '')" by (simp add: is_digit_def)
  have "takeWhile is_digit (show_nat r @ ?rest) = show_nat r"
    using show_nat_digits [of r] sp by (simp add: takeWhile_append list_all_iff)
  then show ?thesis
    unfolding l using show_nat_digits [of r] by (simp add: revision_of_line_def startsWith_def parse_show_nat)
qed

lemma max_revision_append: "max_revision n (xs @ ys) = max_revision (max_revision n xs) ys"
  by (induction xs arbitrary: n) auto

lemma revision_of_Nil [simp]: "revision_of_line [] = None"
  by (simp add: revision_of_line_def startsWith_def)

lemma drop_last_empty_cases:
  obtains "drop_last_empty ls = ls" | "ls = drop_last_empty ls @ [[]]"
  by (cases "ls \<noteq> [] \<and> last ls = []") (auto simp: drop_last_empty_def intro: that dest: append_butlast_last_id)

lemma max_revision_drop_last: "max_revision n (drop_last_empty ls) = max_revision n ls"
  by (rule drop_last_empty_cases [of ls]) (simp, metis max_revision_append max_revision.simps option.case(1) revision_of_Nil)

lemma plain_revision_line: "plain_line (revision_line r ts a n)"
  using plain_dash by (simp add: revision_line_def)

text \<open>Where a heading comes from.\<close>

lemma heading_split:
  "h \<in> set (scan_lines f i k ls) \<Longrightarrow>
     \<exists>A l T. ls = A @ l # T \<and> ph_index h = i + length A \<and> ph_offset h = k + lines_width A \<and>
       line_heading (fence_after f A) l = Some (ph_level h, ph_text h)"
proof (induction ls arbitrary: f i k)
  case (Cons x ls)
  show ?case
  proof (cases "h \<in> set (scan_lines (fence_step f x) (Suc i) (k + length x + 1) ls)")
    case True
    then obtain A l T where "ls = A @ l # T" "ph_index h = Suc i + length A" "ph_offset h = k + length x + 1 + lines_width A"
        "line_heading (fence_after (fence_step f x) A) l = Some (ph_level h, ph_text h)"
      using Cons.IH by blast
    then have "x # ls = (x # A) @ l # T \<and> ph_index h = i + length (x # A) \<and> ph_offset h = k + lines_width (x # A) \<and>
       line_heading (fence_after f (x # A)) l = Some (ph_level h, ph_text h)" by simp
    then show ?thesis by blast
  next
    case False
    with Cons.prems have "line_heading f x = Some (ph_level h, ph_text h)" "ph_index h = i" "ph_offset h = k"
      by (auto split: option.splits)
    then have "x # ls = [] @ x # ls \<and> ph_index h = i + length [] \<and> ph_offset h = k + lines_width [] \<and>
       line_heading (fence_after f []) x = Some (ph_level h, ph_text h)" by simp
    then show ?thesis by blast
  qed
qed simp

lemma doc_heading_split:
  assumes "h \<in> set (scanPlanDocHeadings doc)"
  obtains A l T where "splitOn LF doc = A @ l # T" "ph_index h = length A" "ph_offset h = lines_width A"
    "line_heading None l = Some (ph_level h, ph_text h)" "fence_after None A = None" "fence_step None l = None"
proof -
  obtain A l T where "splitOn LF doc = A @ l # T" "ph_index h = length A" "ph_offset h = lines_width A"
    and h: "line_heading (fence_after None A) l = Some (ph_level h, ph_text h)"
    using assms heading_split by (fastforce simp: scanPlanDocHeadings_def)
  moreover have "fence_after None A = None" "fence_step None l = None"
    using h by (auto simp: line_heading_def fence_step_def split: if_splits)
  ultimately show thesis
    using that h by simp
qed

lemma drop_lines_width: "drop (lines_width A) (joinWith [LF] (A @ l # T)) = joinWith [LF] (l # T)"
  by (induction A) (auto simp: joinWith_Cons)

lemma find_sorted_first:
  "sorted_wrt (\<lambda>a b. ph_index a < ph_index b) hs \<Longrightarrow> h \<in> set hs \<Longrightarrow> p h \<Longrightarrow>
     \<exists>n. find p hs = Some n \<and> ph_index n \<le> ph_index h"
  by (induction hs) auto

text \<open>
  The lines of a section hold no heading of level one or two, also when they are scanned
  on their own; a section that another one follows leaves no code block open.
\<close>

lemma section_scan:
  assumes R: "R \<in> set (scanPlanDocHeadings e)"
  defines "hs \<equiv> scanPlanDocHeadings e"
  defines "S \<equiv> section_lines (splitOn LF e) hs R"
  shows "\<forall>h \<in> set (scan_lines None i k S). 2 < ph_level h"
    and "next_heading hs R 2 \<noteq> None \<Longrightarrow> fence_after None S = None"
proof -
  obtain A l T where ls: "splitOn LF e = A @ l # T" and A: "ph_index R = length A" "fence_after None A = None"
    and l: "line_heading None l = Some (ph_level R, ph_text R)" "fence_step None l = None"
    using doc_heading_split [OF R] by metis
  define stop where "stop = (case next_heading hs R 2 of None \<Rightarrow> length (splitOn LF e) | Some n \<Rightarrow> ph_index n)"
  define m where "m = stop - (length A + 1)"
  have "S = drop (length A + 1) (take stop (A @ l # T))"
    unfolding S_def section_lines_def Let_def stop_def ls A(1) ..
  also have "\<dots> = take m (drop (length A + 1) (A @ l # T))"
    by (simp only: drop_take m_def)
  finally have S: "S = take m T" by simp
  have n_idx: "ph_index n > length A" "n \<in> set hs" if "next_heading hs R 2 = Some n" for n
    using that A by (auto simp: next_heading_def dest: find_Some_mem)
  have scan: "hs = scan_lines None 0 0 (A @ [l]) @ scan_lines None (length A + 1) (lines_width (A @ [l])) (S @ drop m T)"
    using scan_append [of None 0 0 "A @ [l]" T] A l by (simp add: hs_def scanPlanDocHeadings_def ls S del: scan_lines.simps)
  show "\<forall>h \<in> set (scan_lines None i k S). 2 < ph_level h"
  proof (rule ballI, rule ccontr)
    fix h assume h: "h \<in> set (scan_lines None i k S)" and low: "\<not> 2 < ph_level h"
    obtain h0 where h0: "h0 \<in> set (scan_lines None 0 0 S)" "ph_level h0 = ph_level h"
      using h scan_shift [of None 0 i 0 k S] by (auto simp: shift_heading_def)
    let ?h = "shift_heading (length A + 1) (lines_width (A @ [l])) h0"
    have "?h \<in> set hs"
      using h0 scan_shift [of None 0 "length A + 1" 0 "lines_width (A @ [l])" S]
      by (subst scan) (simp add: scan_append)
    moreover have "ph_index ?h > ph_index R" "ph_level ?h \<le> 2"
      using h0 low A by (auto simp: shift_heading_def)
    ultimately obtain n where n: "next_heading hs R 2 = Some n" "ph_index n \<le> ph_index ?h"
      using find_sorted_first [OF scan_doc_sorted, of ?h e "\<lambda>x. ph_index x > ph_index R \<and> ph_level x \<le> 2"]
      by (auto simp: hs_def next_heading_def)
    have "ph_index h0 < length S"
      using scan_index [OF h0(1)] by simp
    then have "ph_index ?h < length A + 1 + m"
      by (simp add: shift_heading_def S)
    with n n_idx(1) [OF n(1)] show False
      by (simp add: m_def stop_def)
  qed
  assume "next_heading hs R 2 \<noteq> None"
  then obtain n where n: "next_heading hs R 2 = Some n" by auto
  have idx: "length A < ph_index n" "n \<in> set (scanPlanDocHeadings e)"
    using n_idx [OF n] by (auto simp: hs_def)
  obtain A2 l2 T2 where ls2: "splitOn LF e = A2 @ l2 # T2" and A2: "ph_index n = length A2" "fence_after None A2 = None"
    using doc_heading_split [OF idx(2)] by metis
  have "A2 = take (length A2) (A @ l # T)"
    using ls ls2 by (metis append_eq_conv_conj)
  also have "\<dots> = A @ l # S"
    using idx A2 n by (simp add: S m_def stop_def take_Cons')
  finally show "fence_after None S = None"
    using A2 A l by simp
qed

lemma scan_ordered:
  assumes "h \<in> set (scanPlanDocHeadings e)" "next_heading (scanPlanDocHeadings e) g 2 = None" "ph_level h \<le> 2"
  shows "ph_index h \<le> ph_index g"
  using assms by (auto simp: next_heading_def find_None_key)

text \<open>
  The pieces a rewrite is made of: the log it keeps, and the carried section, which starts
  with its heading.
\<close>

lemma carried_gates_lines:
  assumes ok: "carried_gates e = Inr g" and ne: "g \<noteq> []"
  obtains h T l where "filter (level2 ''Gates'') (scanPlanDocHeadings e) = [h]"
    "next_heading (scanPlanDocHeadings e) h 2 = None" "splitOn LF g = l # T"
    "line_heading None l = Some (2, ''Gates'')" "drop (ph_index h) (splitOn LF e) = l # T"
proof -
  obtain h where h: "filter (level2 ''Gates'') (scanPlanDocHeadings e) = [h]"
    and nh: "next_heading (scanPlanDocHeadings e) h 2 = None" and g: "g = drop (ph_offset h) e"
    using ok ne by (auto simp: carried_gates_def Let_def split: list.splits if_splits)
  have mem: "h \<in> set (scanPlanDocHeadings e)" and lev: "ph_level h = 2" "ph_text h = ''Gates''"
    using arg_cong [OF h, of set] by (auto simp: level2_def)
  obtain A l T where s: "splitOn LF e = A @ l # T" and A: "ph_index h = length A" "ph_offset h = lines_width A"
    and l: "line_heading None l = Some (ph_level h, ph_text h)"
    using doc_heading_split [OF mem] by metis
  have "g = joinWith [LF] (l # T)"
    using drop_lines_width [of A l T] join_splitOn [of LF e] by (simp add: g A s)
  moreover have "splitOn LF (joinWith [LF] (l # T)) = l # T"
    using splitOn_parts [of _ LF e] by (intro splitOn_join) (auto simp: s)
  ultimately show thesis
    using that [OF h nh] l lev s A by simp
qed

lemma revision_log_lines:
  assumes s: "planDocRevisionSection e = (n, S)"
  shows "\<forall>h \<in> set (scan_lines None i k (drop_last_empty S)). 2 < ph_level h"
    and "\<forall>x \<in> set S. LF \<notin> set x" and "max_revision 0 (drop_last_empty S) = n"
    and "carried_gates e = Inr g \<Longrightarrow> g \<noteq> [] \<Longrightarrow> fence_after None (drop_last_empty S) = None"
proof -
  let ?hs = "scanPlanDocHeadings e"
  have "n = max_revision 0 S"
    using s by (auto simp: planDocRevisionSection_def Let_def split: option.splits)
  then show "max_revision 0 (drop_last_empty S) = n" by (simp add: max_revision_drop_last)
  have S: "S = [] \<or> (\<exists>R. find (level2 ''Revisions'') ?hs = Some R \<and> S = section_lines (splitOn LF e) ?hs R)"
    using s by (auto simp: planDocRevisionSection_def Let_def split: option.splits)
  then show "\<forall>x \<in> set S. LF \<notin> set x"
    using splitOn_parts by (fastforce simp: section_lines_def Let_def dest: in_set_dropD in_set_takeD)
  have "\<forall>h \<in> set (scan_lines None i k S). 2 < ph_level h"
    using S section_scan(1) find_Some_mem by fastforce
  then show "\<forall>h \<in> set (scan_lines None i k (drop_last_empty S)). 2 < ph_level h"
    by (rule_tac drop_last_empty_cases [of S]) (simp, metis UnCI scan_append set_append)
  assume g: "carried_gates e = Inr g" "g \<noteq> []"
  have "fence_after None S = None"
  proof (cases "S = []")
    case False
    then obtain R where R: "find (level2 ''Revisions'') ?hs = Some R" and SR: "S = section_lines (splitOn LF e) ?hs R"
      using S by auto
    have Rm: "R \<in> set ?hs" "level2 ''Revisions'' R"
      using find_Some_mem [OF R] by auto
    obtain h where h: "filter (level2 ''Gates'') ?hs = [h]" and nh: "next_heading ?hs h 2 = None"
      using carried_gates_lines [OF g] by metis
    have hm: "h \<in> set ?hs" "level2 ''Gates'' h"
      using arg_cong [OF h, of set] by auto
    have "ph_index R \<le> ph_index h"
      using scan_ordered [OF Rm(1) nh] Rm(2) by (simp add: level2_def)
    moreover have "ph_index R \<noteq> ph_index h"
    proof
      assume "ph_index R = ph_index h"
      then have "ph_text R = ph_text h"
        using doc_heading_split [OF Rm(1)] doc_heading_split [OF hm(1)] by (metis append_eq_append_conv list.inject option.inject prod.inject)
      then show False using Rm(2) hm(2) by (simp add: level2_def)
    qed
    ultimately have "next_heading ?hs R 2 \<noteq> None"
      using hm scan_ordered [OF hm(1), of R] by (auto simp: level2_def)
    then show ?thesis
      unfolding SR by (rule section_scan(2) [OF Rm(1)])
  qed simp
  then show "fence_after None (drop_last_empty S) = None"
    by (rule_tac drop_last_empty_cases [of S]) (simp, metis fence_step_Nil foldl_Cons foldl_Nil foldl_append)
qed


definition Revisions_at :: "nat \<Rightarrow> nat \<Rightarrow> plan_heading" where
  "Revisions_at i k = \<lparr>ph_index = i, ph_level = 2, ph_text = ''Revisions'', ph_offset = k\<rparr>"

lemma revisions_heading: "scan_lines None i k [''## Revisions''] = [Revisions_at i k]"
  by (simp add: Revisions_at_def line_heading_def logical_line_def endsWith_def CR_def opening_fence_def fence_marker_def is_blank_def
      atx_heading_def heading_tail_def is_line_terminator_def trim_def is_space_def LF_def)

lemma revisions_step: "fence_step None ''## Revisions'' = None"
  by (simp add: fence_step_def logical_line_def endsWith_def CR_def opening_fence_def fence_marker_def is_blank_def)

lemma joinWith_snoc: "xs \<noteq> [] \<Longrightarrow> splitOn d (joinWith [d] xs @ d # s) = splitOn d (joinWith [d] xs) @ splitOn d s"
  by (rule splitOn_append)

text \<open>The lines of the new text.\<close>

lemma plan_doc_lines:
  assumes "\<forall>x \<in> set P. LF \<notin> set x" "LF \<notin> set r"
  shows "splitOn LF (plan_doc_text body P r g) =
    splitOn LF body @ [[]] @ [''## Revisions''] @ P @ [r, []] @ (if g = [] then [] else splitOn LF g)"
proof -
  have j: "splitOn LF (joinWith [LF] (P @ [r])) = P @ [r]"
    using assms by (intro splitOn_join) auto
  have h: "splitOn LF ''## Revisions'' = [''## Revisions'']"
    by (simp add: LF_def)
  have "splitOn LF (body @ LF # [] @ LF # ''## Revisions'' @ LF # joinWith [LF] (P @ [r]) @ LF # x) =
     splitOn LF body @ [[]] @ [''## Revisions''] @ (P @ [r]) @ splitOn LF x" for x
    by (simp only: splitOn_append j h splitOn.simps(1))
  from this [of "[]"] this [of "LF # g"] show ?thesis
    by (simp add: plan_doc_text_def nl_LF)
qed

abbreviation deep :: "plan_heading list \<Rightarrow> bool" where
  "deep hs \<equiv> list_all (\<lambda>h. 2 < ph_level h) hs"

lemma deep_skips [simp]:
  "deep hs \<Longrightarrow> filter (level2 t) hs = []"
  "deep hs \<Longrightarrow> next_heading (hs @ zs) h 2 = next_heading zs h 2"
  "deep hs \<Longrightarrow> next_heading hs h 2 = None"
  by (induction hs) (auto simp: level2_def next_heading_def)

lemma next_heading_skip: "\<forall>x \<in> set xs. ph_index x \<le> ph_index h \<Longrightarrow> next_heading (xs @ zs) h v = next_heading zs h v"
  by (induction xs) (auto simp: next_heading_def)

lemma next_heading_Cons:
  "next_heading (x # zs) h v = (if ph_index x > ph_index h \<and> ph_level x \<le> v then Some x else next_heading zs h v)"
  by (simp add: next_heading_def)

text \<open>What is carried: a heading, and lines without another section.\<close>

definition carried :: "string \<Rightarrow> string list \<Rightarrow> bool" where
  "carried g T = (\<exists>l. splitOn LF g = l # T \<and> line_heading None l = Some (2, ''Gates'') \<and> (\<forall>i k. deep (scan_lines None i k T)))"

lemma carried_gates_ok:
  assumes "carried_gates e = Inr g" "g \<noteq> []"
  obtains T where "carried g T" "\<And>t. readLatestGateVerdict e t = latest_verdict t None T"
proof -
  obtain h T l where h: "filter (level2 ''Gates'') (scanPlanDocHeadings e) = [h]" "next_heading (scanPlanDocHeadings e) h 2 = None"
    and g: "splitOn LF g = l # T" "line_heading None l = Some (2, ''Gates'')" and d: "drop (ph_index h) (splitOn LF e) = l # T"
    using carried_gates_lines [OF assms] by metis
  have T: "section_lines (splitOn LF e) (scanPlanDocHeadings e) h = T"
    using d by (simp add: section_to_end [OF h(2)] drop_Suc drop_tl)
  moreover have "h \<in> set (scanPlanDocHeadings e)"
    using arg_cong [OF h(1), of set] by auto
  ultimately have "deep (scan_lines None i k T)" for i k
    using section_scan(1) [of h e i k] by (simp add: list_all_iff)
  with g have "carried g T" by (auto simp: carried_def)
  moreover have "readLatestGateVerdict e t = latest_verdict t None T" for t
    by (simp add: readLatestGateVerdict_def h T)
  ultimately show thesis using that by blast
qed

lemma carried_scan: "carried g T \<Longrightarrow> \<exists>Y. scan_lines None i k (splitOn LF g) = Gates_at i k # Y \<and> deep Y"
  by (auto simp: carried_def Gates_at_def line_heading_def fence_step_def split: if_splits)

text \<open>The headings of a rewritten document.\<close>

lemma rewritten_headings:
  assumes body: "open_fence body = None" and P: "\<forall>x \<in> set P. LF \<notin> set x" "\<forall>i k. deep (scan_lines None i k P)"
    and r: "LF \<notin> set r" "plain_line r"
    and g: "g \<noteq> [] \<Longrightarrow> fence_after None P = None \<and> carried g T"
  obtains X Y k k' where "deep X" "deep Y"
    "scanPlanDocHeadings (plan_doc_text body P r g) = scanPlanDocHeadings body @
      Revisions_at (length (splitOn LF body) + 1) k # X @
      (if g = [] then [] else Gates_at (length (splitOn LF body) + length P + 4) k' # Y)"
proof -
  let ?B = "splitOn LF body" and ?n = "length (splitOn LF body)" and ?w = "lines_width (splitOn LF body) + 1"
  let ?X = "scan_lines None (?n + 2) (?w + 13) P"
  let ?f = "fence_after None P" and ?j = "?n + length P + 4"
  have tail: "scan_lines f i k [r, []] = []" for f i k
    using r by (simp add: scan_plain)
  have fr: "fence_after None [r, []] = None"
    using r by (simp add: plain_after)
  have B: "fence_after None ?B = None" using body by (simp add: open_fence_def)
  have nil: "scan_lines f i k [[]] = []" for f i k by (simp add: scan_plain)
  obtain k' where all: "scanPlanDocHeadings (plan_doc_text body P r g) =
     scanPlanDocHeadings body @ Revisions_at (?n + 1) ?w # ?X @ scan_lines (fence_after ?f [r, []]) ?j k' (if g = [] then [] else splitOn LF g)"
  proof
    show "scanPlanDocHeadings (plan_doc_text body P r g) =
     scanPlanDocHeadings body @ Revisions_at (?n + 1) ?w # ?X @ scan_lines (fence_after ?f [r, []]) ?j
       (?w + 13 + lines_width P + lines_width [r, []]) (if g = [] then [] else splitOn LF g)"
      unfolding scanPlanDocHeadings_def plan_doc_lines [OF P(1) r(1)]
      by (simp only: scan_append nil tail B revisions_heading revisions_step foldl.simps fence_step_Nil)
        (simp add: eval_nat_numeral add_ac)
  qed
  show thesis
  proof (cases "g = []")
    case True
    with all that [of ?X "[]"] P(2) show thesis by simp
  next
    case False
    then have f: "fence_after ?f [r, []] = None" "carried g T"
      using g fr by auto
    obtain Y where "scan_lines None ?j k' (splitOn LF g) = Gates_at ?j k' # Y" "deep Y"
      using carried_scan [OF f(2)] by blast
    with all f False that [of ?X Y] P(2) show thesis by simp
  qed
qed


lemma rewritten_sections:
  assumes body: "open_fence body = None" "find (\<lambda>h. level2 ''Revisions'' h \<or> level2 ''Gates'' h) (scanPlanDocHeadings body) = None"
    and P: "\<forall>x \<in> set P. LF \<notin> set x" "\<forall>i k. deep (scan_lines None i k P)"
    and r: "LF \<notin> set r" "plain_line r"
    and g: "g \<noteq> [] \<Longrightarrow> fence_after None P = None \<and> carried g T"
  defines "doc \<equiv> plan_doc_text body P r g"
  shows "planDocRevisionSection doc = (max_revision 0 (P @ [r, []]), P @ [r, []])"
    and "readLatestGateVerdict doc t = (if g = [] then None else latest_verdict t None T)"
proof -
  let ?n = "length (splitOn LF body)" and ?hsB = "scanPlanDocHeadings body"
  obtain X Y k k' where d: "deep X" "deep Y" and hs: "scanPlanDocHeadings doc = ?hsB @
      Revisions_at (?n + 1) k # X @ (if g = [] then [] else Gates_at (?n + length P + 4) k' # Y)"
    using rewritten_headings [OF body(1) P r g] unfolding doc_def by metis
  let ?R = "Revisions_at (?n + 1) k" and ?G = "Gates_at (?n + length P + 4) k'"
  have ls: "splitOn LF doc = splitOn LF body @ [[]] @ [''## Revisions''] @ P @ [r, []] @ (if g = [] then [] else splitOn LF g)"
    unfolding doc_def by (rule plan_doc_lines [OF P(1) r(1)])
  have B: "find (level2 ''Revisions'') ?hsB = None" "filter (level2 ''Gates'') ?hsB = []"
    using body(2) by (auto simp: find_None_key filter_empty_conv)
  have idx: "ph_index x \<le> ?n" if "x \<in> set ?hsB" for x
    using scan_doc_index [OF that] by simp
  have findR: "find (level2 ''Revisions'') (scanPlanDocHeadings doc) = Some ?R"
    using B(1) by (simp add: hs find_filter_hd split: list.splits) (simp add: level2_def Revisions_at_def)
  have nR: "next_heading (scanPlanDocHeadings doc) ?R 2 = (if g = [] then None else Some ?G)"
  proof -
    have "next_heading (scanPlanDocHeadings doc) ?R 2 =
        next_heading (?R # X @ (if g = [] then [] else ?G # Y)) ?R 2"
      unfolding hs using idx by (intro next_heading_skip) (fastforce simp: Revisions_at_def)
    then show ?thesis
      using d by (auto simp: next_heading_Cons Revisions_at_def Gates_at_def)
  qed
  have "section_lines (splitOn LF doc) (scanPlanDocHeadings doc) ?R = P @ [r, []]"
    unfolding section_lines_def nR ls by (simp add: Revisions_at_def Gates_at_def eval_nat_numeral)
  then show "planDocRevisionSection doc = (max_revision 0 (P @ [r, []]), P @ [r, []])"
    by (simp add: planDocRevisionSection_def findR Let_def)
  have lG: "level2 ''Gates'' ?G" "\<not> level2 ''Gates'' ?R"
    by (auto simp: level2_def Gates_at_def Revisions_at_def)
  then have filterG: "filter (level2 ''Gates'') (scanPlanDocHeadings doc) = (if g = [] then [] else [?G])"
    using d by (simp add: hs B(2))
  show "readLatestGateVerdict doc t = (if g = [] then None else latest_verdict t None T)"
  proof (cases "g = []")
    case False
    obtain l where l: "splitOn LF g = l # T" using g False by (auto simp: carried_def)
    have "next_heading (scanPlanDocHeadings doc) ?G 2 =
        next_heading (?R # X @ (if g = [] then [] else ?G # Y)) ?G 2"
      unfolding hs using idx by (intro next_heading_skip) (fastforce simp: Gates_at_def)
    then have nG: "next_heading (scanPlanDocHeadings doc) ?G 2 = None"
      using d False by (auto simp: next_heading_Cons Revisions_at_def Gates_at_def)
    have "section_lines (splitOn LF doc) (scanPlanDocHeadings doc) ?G = T"
      unfolding section_to_end [OF nG] ls using False l by (simp add: Gates_at_def eval_nat_numeral)
    with False filterG show ?thesis by (simp add: readLatestGateVerdict_def)
  qed (simp add: readLatestGateVerdict_def filterG)
qed

lemma revision_line_LF:
  "LF \<notin> set ts \<Longrightarrow> LF \<notin> set a \<Longrightarrow> LF \<notin> set n \<Longrightarrow> LF \<notin> set (revision_line r ts a n)"
proof -
  have "LF \<notin> set (show_nat r)"
    using show_nat_digits [of r] is_digit_no_space [of LF] by (auto simp: list_all_iff is_space_def LF_def)
  then show "LF \<notin> set ts \<Longrightarrow> LF \<notin> set a \<Longrightarrow> LF \<notin> set n \<Longrightarrow> LF \<notin> set (revision_line r ts a n)"
    by (auto simp: revision_line_def LF_def)
qed

lemma set_trim: "set (trim s) \<subseteq> set s"
  by (auto simp: trim_def dest!: set_dropWhileD)

lemma next_plan_doc_reads:
  assumes ok: "next_plan_doc e body a note ts expected = Inr (revision, doc)"
    and body: "open_fence body = None" "find (\<lambda>h. level2 ''Revisions'' h \<or> level2 ''Gates'' h) (scanPlanDocHeadings body) = None"
    and lf: "LF \<notin> set ts" "LF \<notin> set a" "LF \<notin> set note"
  shows "int (fst (planDocRevisionSection e)) = expected" "int revision = expected + 1"
    and "planDocRevisionSection doc = (revision,
        drop_last_empty (snd (planDocRevisionSection e)) @ [revision_line revision ts a (trim note), []])"
    and "carried_gates e = Inr g \<Longrightarrow> readLatestGateVerdict doc t = (if g = [] then None else readLatestGateVerdict e t)"
proof -
  obtain n S where s: "planDocRevisionSection e = (n, S)" by fastforce
  obtain g' where g': "carried_gates e = Inr g'" and n: "int n = expected" "revision = n + 1"
    and doc: "doc = plan_doc_text body (drop_last_empty S) (revision_line (n + 1) ts a (trim note)) g'"
    using ok by (auto simp: next_plan_doc_def s bindR_eq_Inr)
  let ?P = "drop_last_empty S" and ?r = "revision_line (n + 1) ts a (trim note)"
  note log = revision_log_lines [OF s]
  have "LF \<notin> set (trim note)"
    using lf(3) set_trim by blast
  then have r: "LF \<notin> set ?r" "plain_line ?r"
    using lf by (simp_all add: revision_line_LF plain_revision_line)
  have P: "\<forall>x \<in> set ?P. LF \<notin> set x" "\<forall>i k. deep (scan_lines None i k ?P)"
    using log(1,2) by (auto simp: list_all_iff drop_last_empty_def dest: in_set_butlastD)
  obtain T where T: "g' \<noteq> [] \<Longrightarrow> fence_after None ?P = None \<and> carried g' T" "\<And>t. g' \<noteq> [] \<Longrightarrow> readLatestGateVerdict e t = latest_verdict t None T"
  proof (cases "g' = []")
    case False
    obtain T where "carried g' T" "\<And>t. readLatestGateVerdict e t = latest_verdict t None T"
      using carried_gates_ok [OF g' False] by blast
    with that [of T] log(4) [OF g' False] show thesis by simp
  qed (use that in simp)
  note new = rewritten_sections [OF body P r T(1), folded doc]
  show "int (fst (planDocRevisionSection e)) = expected" "int revision = expected + 1"
    using n s by auto
  show "planDocRevisionSection doc = (revision,
        drop_last_empty (snd (planDocRevisionSection e)) @ [revision_line revision ts a (trim note), []])"
    using new(1) n log(3) by (simp add: s max_revision_append revision_line_round_trip)
  show "carried_gates e = Inr g \<Longrightarrow> readLatestGateVerdict doc t = (if g = [] then None else readLatestGateVerdict e t)"
    using new(2) [of t] g' T(2) by auto
qed

lemma LF_space: "is_space LF"
  by (simp add: is_space_def LF_def)

lemma writePlanDocAtomically_ok:
  "writePlanDocAtomically env r dst body a n ts expected = Inr (written, revision, created) \<Longrightarrow>
     \<exists>old. read_if (de_lstat env dst) (de_read env) = Inr old \<and>
       read_if (de_lstat' env dst) (de_read' env) = Inr old \<and> created = (de_lstat env dst = None) \<and>
       \<not> hard_linked (de_lstat' env dst) \<and> (de_lstat' env dst = None \<or> is_file (de_lstat' env dst)) \<and>
       assertPlanDocWriteNoSymlinks (de_lstat' env) r dst = Inr () \<and>
       next_plan_doc (text_of old) body a n ts expected = Inr (revision, written)"
  by (auto simp: writePlanDocAtomically_def Let_def bindR_eq_Inr assertPlanDocBytesUnchanged_def)

lemma planDocWrite_ok:
  assumes "planDocWrite pc env timestamp st req = Inr d"
  obtains payload body agent nt expected r where
    "payloadOf req = Inr payload" "js_get payload ''content'' = JStr body" "js_get payload ''note'' = JStr nt"
    "single_line nt" "js_get payload ''expectedRevision'' = JInt expected"
    "bound_writer ''PLAN_WRITE'' st req payload = Inr agent"
    "agent \<in> set (pc_planWriterAgents pc) \<or> js_get payload ''target'' = JStr ''mini'' \<and> agent \<in> set (pc_planMiniWriterAgents pc)"
    "find (\<lambda>h. level2 ''Revisions'' h \<or> level2 ''Gates'' h) (scanPlanDocHeadings body) = None"
    "isWithin r (dw_destination d)"
    "writePlanDocAtomically env r (dw_destination d) body agent nt timestamp expected = Inr (dw_text d, dw_number d, dw_created d)"
proof -
  obtain payload agent pid r dst written n cr rel expected where p: "payloadOf req = Inr payload"
    and a: "bound_writer ''PLAN_WRITE'' st req payload = Inr agent"
      "agent \<in> set (pc_planWriterAgents pc) \<or> js_get payload ''target'' = JStr ''mini'' \<and> agent \<in> set (pc_planMiniWriterAgents pc)"
    and c: "is_str (\<lambda>_. True) (js_get payload ''content'')"
      "find (\<lambda>h. level2 ''Revisions'' h \<or> level2 ''Gates'' h) (scanPlanDocHeadings (js_str (js_get payload ''content''))) = None"
    and nt: "is_str (\<lambda>n. trim n \<noteq> [] \<and> length (trim n) \<le> 200 \<and> single_line n) (js_get payload ''note'')"
    and ex: "(case js_get payload ''expectedRevision'' of JInt n \<Rightarrow> if n < 0 then Inl (ValidationError ''PLAN_WRITE_REVISION_INVALID: expectedRevision must be an integer >= 0'') else Inr n
             | _ \<Rightarrow> Inl (ValidationError ''PLAN_WRITE_REVISION_INVALID: expectedRevision must be an integer >= 0'')) = Inr expected"
    and de: "plan_destination (pc_broker pc) ''PLAN_WRITE_PATH_ESCAPE: destination escapes project root'' ''PLAN_WRITE_PROTECTED_PATH: '' r rel = Inr dst"
    and w: "writePlanDocAtomically env r dst (js_str (js_get payload ''content'')) agent (js_str (js_get payload ''note'')) timestamp expected = Inr (written, n, cr)"
    and d: "\<lparr>dw_destination = dst, dw_relative = rel, dw_text = written, dw_created = cr, dw_number = n\<rparr> = d"
    using assms unfolding planDocWrite_def Let_def bindR_eq_Inr guardR_eq_Inr split_paired_Ex prod.case sum.inject
    by (elim exE conjE) (rule that, assumption+)
  have "js_get payload ''expectedRevision'' = JInt expected"
    using ex by (auto split: js.splits if_splits)
  moreover have "isWithin r dst"
    using de by (auto simp: plan_destination_def Let_def bindR_eq_Inr)
  ultimately show thesis
    using that p a c nt w d by (auto simp: is_str_iff)
qed

lemma plan_write_reads:
  assumes ok: "planDocWrite pc env timestamp st req = Inr d"
    and doc: "read_if (de_lstat env (dw_destination d)) (de_read env) = Inr old"
    and body: "payloadOf req = Inr payload" "js_get payload ''content'' = JStr body" "open_fence body = None"
    and time: "is_timestamp timestamp"
    and names: "\<forall>a \<in> set (pc_planWriterAgents pc @ pc_planMiniWriterAgents pc). LF \<notin> set a"
  shows "js_get payload ''expectedRevision'' = JInt (int (fst (planDocRevisionSection (text_of old))))"
    and "read_if (de_lstat' env (dw_destination d)) (de_read' env) = Inr old"
    and "dw_number d = fst (planDocRevisionSection (text_of old)) + 1"
    and "fst (planDocRevisionSection (dw_text d)) = dw_number d"
    and "prefix (drop_last_empty (snd (planDocRevisionSection (text_of old)))) (snd (planDocRevisionSection (dw_text d)))"
    and "carried_gates (text_of old) = Inr g \<Longrightarrow> g \<noteq> [] \<Longrightarrow>
      readLatestGateVerdict (dw_text d) t = readLatestGateVerdict (text_of old) t"
proof -
  obtain payload' body' agent nt expected r where h:
    "payloadOf req = Inr payload'" "js_get payload' ''content'' = JStr body'" "js_get payload' ''note'' = JStr nt"
    "single_line nt" "js_get payload' ''expectedRevision'' = JInt expected"
    "bound_writer ''PLAN_WRITE'' st req payload' = Inr agent"
    "agent \<in> set (pc_planWriterAgents pc) \<or> js_get payload' ''target'' = JStr ''mini'' \<and> agent \<in> set (pc_planMiniWriterAgents pc)"
    "find (\<lambda>h. level2 ''Revisions'' h \<or> level2 ''Gates'' h) (scanPlanDocHeadings body') = None"
    "isWithin r (dw_destination d)"
    "writePlanDocAtomically env r (dw_destination d) body' agent nt timestamp expected = Inr (dw_text d, dw_number d, dw_created d)"
    by (rule planDocWrite_ok [OF ok]) (rule that)
  have eq: "payload' = payload" "body' = body" using body h by auto
  have w: "read_if (de_lstat' env (dw_destination d)) (de_read' env) = Inr old"
      "next_plan_doc (text_of old) body agent nt timestamp expected = Inr (dw_number d, dw_text d)"
    using writePlanDocAtomically_ok [OF h(10)] doc eq by auto
  have lf: "LF \<notin> set timestamp" "LF \<notin> set agent" "LF \<notin> set nt"
    using timestamp_word [OF time] names h(4,7) LF_space by (auto simp: list_all_iff single_line_def)
  note new = next_plan_doc_reads [OF w(2) body(3) h(8) [unfolded eq] lf]
  show "js_get payload ''expectedRevision'' = JInt (int (fst (planDocRevisionSection (text_of old))))"
    using h(5) new(1) eq by simp
  show "read_if (de_lstat' env (dw_destination d)) (de_read' env) = Inr old" by (rule w(1))
  show "dw_number d = fst (planDocRevisionSection (text_of old)) + 1"
    using new(1,2) by simp
  show "fst (planDocRevisionSection (dw_text d)) = dw_number d"
    "prefix (drop_last_empty (snd (planDocRevisionSection (text_of old)))) (snd (planDocRevisionSection (dw_text d)))"
    by (simp_all add: new(3))
  show "carried_gates (text_of old) = Inr g \<Longrightarrow> g \<noteq> [] \<Longrightarrow>
      readLatestGateVerdict (dw_text d) t = readLatestGateVerdict (text_of old) t"
    using new(4) by simp
qed



definition demo_doc :: string where
  "demo_doc = ''# Plan'' @ nl @ nl @ ''## Tasks'' @ nl @ ''- T1'' @ nl"

definition demo_plan_config :: plan_config where
  "demo_plan_config = \<lparr>pc_broker = demo_config 1, pc_planWriterAgents = [''planner''], pc_planMiniWriterAgents = []\<rparr>"

definition demo_doc_env :: "string \<Rightarrow> doc_env" where
  "demo_doc_env content = \<lparr>de_lstat = (\<lambda>_. Some (RegularDoc 1)), de_lstat' = (\<lambda>_. Some (RegularDoc 1)), de_realpath = Some, de_realpath' = Some,
     de_read = Inr content, de_read' = Inr content, de_mkdir = Inr (), de_write = Inr (), de_rename = Inr ()\<rparr>"

definition demo_gate_request :: envelope where
  "demo_gate_request = \<lparr>env_id = ''1'', env_operation = ''gateVerdict'', env_sessionID = ''s1'', env_agent = JUndefined,
     env_payload = JObj [(''projectDir'', JStr ''/p''), (''agent'', JStr ''planner''), (''name'', JStr ''x''), (''taskId'', JStr ''T1''), (''verdict'', JStr ''PASS'')]\<rparr>"

lemma demo_env_simps [simp]:
  "de_lstat (demo_doc_env c) x = Some (RegularDoc 1)" "de_lstat' (demo_doc_env c) x = Some (RegularDoc 1)"
  "de_realpath (demo_doc_env c) = Some" "de_realpath' (demo_doc_env c) = Some"
  "de_read (demo_doc_env c) = Inr c" "de_read' (demo_doc_env c) = Inr c" "de_mkdir (demo_doc_env c) = Inr ()"
  "de_write (demo_doc_env c) = Inr ()" "de_rename (demo_doc_env c) = Inr ()"
  by (simp_all add: demo_doc_env_def)

lemma demo_no_symlinks [simp]: "assertPlanDocWriteNoSymlinks (de_lstat (demo_doc_env c)) r d = Inr ()"
   "assertPlanDocWriteNoSymlinks (de_lstat' (demo_doc_env c)) r d = Inr ()"
proof -
  have "no_symlinks l p segs = Inr ()" if "\<And>x. l x = Some (RegularDoc 1)" for l p segs
    using that by (induction segs arbitrary: p) auto
  then show "assertPlanDocWriteNoSymlinks (de_lstat (demo_doc_env c)) r d = Inr ()"
   "assertPlanDocWriteNoSymlinks (de_lstat' (demo_doc_env c)) r d = Inr ()"
    by (simp_all add: assertPlanDocWriteNoSymlinks_def)
qed

lemma demo_root: "resolveCanonicalProjectRoot (demo_config 1) Some (JStr ''/p'') = Inr (''demo'', ''/p'')"
  by (simp add: resolveCanonicalProjectRoot_def demo_config_def assertMaxBytes_def isAbsolute_def startsWith_def isWithin_def)

lemma demo_dest: "plan_destination (demo_config 1) escape protected ''/p'' ''odd/tasks/x.md'' = Inr ''/p/odd/tasks/x.md''"
  by (simp add: plan_destination_def) code_simp

lemma demo_beneath: "assertBeneathProjectRoot Some ''/p'' ''/p/odd/tasks/x.md'' = Inr ()"
   "assertBeneathProjectRoot Some ''/p'' (dirname ''/p/odd/tasks/x.md'') = Inr ()"
  by code_simp+

lemma demo_gate_append:
  "appendGateLine demo_doc (gate_line ''T1'' ''PASS'' ''2024-01-01T00:00:00Z'' ''planner'' None None) =
    Inr (demo_doc @ nl @ ''## Gates'' @ nl @ ''- T1 PASS 2024-01-01T00:00:00Z planner'' @ nl, 1)"
  by code_simp

lemma demo_gate: "gateVerdict demo_plan_config (demo_doc_env demo_doc) ''2024-01-01T00:00:00Z'' (demo_bound ''planner'') demo_gate_request =
  Inr \<lparr>dw_destination = ''/p/odd/tasks/x.md'', dw_relative = ''odd/tasks/x.md'',
    dw_text = demo_doc @ nl @ ''## Gates'' @ nl @ ''- T1 PASS 2024-01-01T00:00:00Z planner'' @ nl, dw_created = False, dw_number = 1\<rparr>"
proof -
  have p: "payloadOf demo_gate_request = Inr [(''projectDir'', JStr ''/p''), (''agent'', JStr ''planner''), (''name'', JStr ''x''), (''taskId'', JStr ''T1''), (''verdict'', JStr ''PASS'')]"
    by code_simp
  have a: "is_ok (authorizeHostDispatch [''orchestrator''] (demo_bound ''planner'')  ''gateVerdict'' ''s1'' PlanWriterCategory)" by code_simp
  then obtain acc where a: "authorizeHostDispatch [''orchestrator''] (demo_bound ''planner'')  ''gateVerdict'' ''s1'' PlanWriterCategory = Inr acc"
    by (auto simp: is_ok_iff)
  have id: "env_sessionID demo_gate_request = ''s1''" by (simp add: demo_gate_request_def)
  have t: "GATE_TASK_ID_RE ''T1''" "PLAN_DOC_NAME_RE ''x''" by code_simp+
  have ro: "bc_readOnlyAgents (demo_config 1) = [''orchestrator'']" by (simp add: demo_config_def)
  show ?thesis
    by (simp add: gateVerdict_def p id demo_plan_config_def ro a [unfolded demo_bound_def] Let_def bound_writer_def demo_bound_def store_get_def bound_agent_def
        js_get_def assertPlanDocWriteName_def t verdicts_def demo_root demo_dest optional_str_def appendGateVerdictAtomically_def
        is_file_def hard_linked_def demo_beneath demo_gate_append)
qed


text \<open>A whole-document write on the same host.\<close>

definition demo_write_request :: envelope where
  "demo_write_request = \<lparr>env_id = ''1'', env_operation = ''planDocWrite'', env_sessionID = ''s1'', env_agent = JUndefined,
     env_payload = JObj [(''projectDir'', JStr ''/p''), (''agent'', JStr ''planner''), (''target'', JStr ''tasks''), (''name'', JStr ''x''),
       (''content'', JStr ''# Plan''), (''note'', JStr ''n''), (''expectedRevision'', JInt 0)]\<rparr>"

lemma demo_write_payload:
  "payloadOf demo_write_request = Inr [(''projectDir'', JStr ''/p''), (''agent'', JStr ''planner''), (''target'', JStr ''tasks''), (''name'', JStr ''x''),
       (''content'', JStr ''# Plan''), (''note'', JStr ''n''), (''expectedRevision'', JInt 0)]"
  by code_simp

lemma demo_next:
  "next_plan_doc demo_doc ''# Plan'' ''planner'' ''n'' ''2024-01-01T00:00:00Z'' 0 =
    Inr (1, ''# Plan'' @ nl @ nl @ ''## Revisions'' @ nl @ ''- r1 2024-01-01T00:00:00Z planner: n'' @ nl)"
  by code_simp

lemma demo_write: "\<exists>d. planDocWrite demo_plan_config (demo_doc_env demo_doc) ''2024-01-01T00:00:00Z'' (demo_bound ''planner'') demo_write_request = Inr d \<and>
   dw_destination d = ''/p/odd/tasks/x.md'' \<and> dw_number d = 1"
proof -
  have "is_ok (authorizeHostDispatch [''orchestrator''] (demo_bound ''planner'')  ''planDocWrite'' ''s1'' PlanWriterCategory)" by code_simp
  then obtain acc where a: "authorizeHostDispatch [''orchestrator''] (demo_bound ''planner'')  ''planDocWrite'' ''s1'' PlanWriterCategory = Inr acc"
    by (auto simp: is_ok_iff)
  have id: "env_sessionID demo_write_request = ''s1''" by (simp add: demo_write_request_def)
  have ro: "bc_readOnlyAgents (demo_config 1) = [''orchestrator'']" by (simp add: demo_config_def)
  have t: "PLAN_DOC_NAME_RE ''x''" "check_frontmatter ''tasks'' ''planner'' ''# Plan'' = Inr ()"
    "find (\<lambda>h. level2 ''Revisions'' h \<or> level2 ''Gates'' h) (scanPlanDocHeadings ''# Plan'') = None"
    "trim ''n'' = ''n''" "single_line ''n''"
    by code_simp+
  show ?thesis
    by (simp add: planDocWrite_def demo_write_payload id demo_plan_config_def ro a [unfolded demo_bound_def] Let_def bound_writer_def demo_bound_def store_get_def bound_agent_def
        js_get_def assertPlanDocWriteName_def t demo_root demo_dest writePlanDocAtomically_def PLAN_DOC_WRITE_MAX_BYTES_def
        is_file_def hard_linked_def read_if_def text_of_def demo_next assertPlanDocBytesUnchanged_def)
qed


text \<open>
  Appending is append-only: the text of the document is kept in order around one
  inserted block, which contains the content.
\<close>

theorem plan_append_keeps_document:
  assumes "planDocAppend pc env st req = Inr d"
  shows "\<exists>old before after block payload content.
    read_if (de_lstat env (dw_destination d)) (de_read env) = Inr old \<and> text_of old = before @ after \<and>
    dw_text d = before @ block @ after \<and> payloadOf req = Inr payload \<and>
    normalizePlanDocContent (js_get payload ''content'') = Inr content \<and> sublist content block"
proof -
  have keep: "\<exists>before after block. e = before @ after \<and> t = before @ block @ after \<and> sublist c block"
    if ok: "computePlanDocAppend e c h = Inr t" for e c h t
  proof -
    obtain i where "t = insert_block e i c" using ok by (auto simp: computePlanDocAppend_def bindR_eq_Inr)
    then have "\<exists>x y. e = take i e @ drop i e \<and> t = take i e @ (x @ c @ y) @ drop i e"
      by (auto simp: insert_block_def Let_def)
    then show ?thesis by (metis sublist_appendI)
  qed
  obtain payload c h r old where p: "payloadOf req = Inr payload" "normalizePlanDocContent (js_get payload ''content'') = Inr c"
    "read_if (de_lstat env (dw_destination d)) (de_read env) = Inr old" "computePlanDocAppend (text_of old) c h = Inr (dw_text d)"
    using assms unfolding planDocAppend_def appendPlanDocAtomically_def Let_def
    by (auto simp: bindR_eq_Inr)
  show ?thesis using keep [OF p(4)] p by blast
qed

lemma writeTaskMark_ok:
  "writeTaskMarkAtomically env r dst task status commit tier a n ts = Inr (written, revision) \<Longrightarrow>
    \<exists>current. de_read env = Inr current \<and> de_read' env = Inr current \<and>
      appendTaskMarkTick current task status commit tier a n ts = Inr (written, revision)"
  by (auto simp: writeTaskMarkAtomically_def Let_def bindR_eq_Inr assertPlanDocBytesUnchanged_def)



definition demo_orchestrator_config :: plan_config where
  "demo_orchestrator_config = demo_plan_config\<lparr>pc_broker := (demo_config 1)\<lparr>bc_readOnlyAgents := [''gentle-orchestrator'']\<rparr>\<rparr>"

definition demo_append_request :: envelope where
  "demo_append_request = \<lparr>env_id = ''1'', env_operation = ''planDocAppend'', env_sessionID = ''s1'', env_agent = JUndefined,
     env_payload = JObj [(''projectDir'', JStr ''/p''), (''doc'', JStr ''todo''), (''content'', JStr ''more'')]\<rparr>"

lemma demo_append:
  "\<exists>d. planDocAppend demo_orchestrator_config (demo_doc_env demo_doc) (demo_bound ''gentle-orchestrator'') demo_append_request = Inr d"
proof -
  have p: "payloadOf demo_append_request = Inr [(''projectDir'', JStr ''/p''), (''doc'', JStr ''todo''), (''content'', JStr ''more'')]"
    by code_simp
  have "is_ok (authorizeHostDispatch [''gentle-orchestrator''] (demo_bound ''gentle-orchestrator'') ''planDocAppend'' ''s1'' OrchestratorCategory)"
    by code_simp
  then obtain acc where a: "authorizeHostDispatch [''gentle-orchestrator''] (demo_bound ''gentle-orchestrator'') ''planDocAppend'' ''s1'' OrchestratorCategory = Inr acc"
    by (auto simp: is_ok_iff)
  have id: "env_sessionID demo_append_request = ''s1''" by (simp add: demo_append_request_def)
  have r: "resolveCanonicalProjectRoot ((demo_config 1)\<lparr>bc_readOnlyAgents := x\<rparr>) Some (JStr ''/p'') = Inr (''demo'', ''/p'')" for x
    using demo_root by (simp add: resolveCanonicalProjectRoot_def)
  have d: "plan_destination ((demo_config 1)\<lparr>bc_readOnlyAgents := x\<rparr>) escape protected ''/p'' ''docs/TODO.md'' = Inr ''/p/docs/TODO.md''" for x escape protected
    by (simp add: plan_destination_def) code_simp
  have c: "normalizePlanDocContent (JStr ''more'') = Inr ''more''"
    by (simp add: assertMaxBytes_def trim_def is_space_def is_control_def)
  have b: "assertBeneathProjectRoot Some ''/p'' ''/p/docs/TODO.md'' = Inr ()"
   "assertBeneathProjectRoot Some ''/p'' (dirname ''/p/docs/TODO.md'') = Inr ()"
    by code_simp+
  show ?thesis
    by (simp add: planDocAppend_def p id demo_orchestrator_config_def a Let_def d c b r js_get_def assertPlanDocName_def PLAN_DOC_TARGETS_def
        appendPlanDocAtomically_def is_file_def read_if_def text_of_def computePlanDocAppend_def del: normalizePlanDocContent.simps)
qed

theorem plan_append_keeps_document_witness:
  "\<exists>d old before after block payload content.
    planDocAppend demo_orchestrator_config (demo_doc_env demo_doc) (demo_bound ''gentle-orchestrator'') demo_append_request = Inr d \<and>
    read_if (de_lstat (demo_doc_env demo_doc) (dw_destination d)) (de_read (demo_doc_env demo_doc)) = Inr old \<and> text_of old = before @ after \<and>
    dw_text d = before @ block @ after \<and> payloadOf demo_append_request = Inr payload \<and>
    normalizePlanDocContent (js_get payload ''content'') = Inr content \<and> sublist content block"
  using demo_append plan_append_keeps_document by blast


definition demo_mark_request :: envelope where
  "demo_mark_request = \<lparr>env_id = ''1'', env_operation = ''taskMark'', env_sessionID = ''s1'', env_agent = JUndefined,
     env_payload = JObj [(''projectDir'', JStr ''/p''), (''target'', JStr ''tasks''), (''name'', JStr ''x''), (''taskId'', JStr ''T1''),
       (''status'', JStr ''passed''), (''evidenceCommit'', JStr (replicate 40 CHR ''a''))]\<rparr>"

lemma demo_mark:
  "\<exists>d. taskMark demo_plan_config (demo_doc_env demo_doc) ''2024-01-01T00:00:00Z'' (\<lambda>_. True) None (demo_bound ''pm'') demo_mark_request = Inr (d, High)"
proof -
  have p: "payloadOf demo_mark_request = Inr [(''projectDir'', JStr ''/p''), (''target'', JStr ''tasks''), (''name'', JStr ''x''), (''taskId'', JStr ''T1''),
       (''status'', JStr ''passed''), (''evidenceCommit'', JStr (replicate 40 CHR ''a''))]"
    by code_simp
  have "is_ok (authorizeHostDispatch [''orchestrator''] (demo_bound ''pm'') ''taskMark'' ''s1'' PlanWriterCategory)" by code_simp
  then obtain acc where a: "authorizeHostDispatch [''orchestrator''] (demo_bound ''pm'') ''taskMark'' ''s1'' PlanWriterCategory = Inr acc"
    by (auto simp: is_ok_iff)
  have id: "env_sessionID demo_mark_request = ''s1''" by (simp add: demo_mark_request_def)
  have ro: "bc_readOnlyAgents (demo_config 1) = [''orchestrator'']" by (simp add: demo_config_def)
  have t: "TASK_MARK_ID_RE ''T1''" "PLAN_DOC_NAME_RE ''x''" "matches is_hex 40 40 (replicate 40 CHR ''a'')" "gate_passed demo_doc ''T1''"
    "bound_role (Some ''pm'') = ''pm''"
    by code_simp+
  have "is_ok (appendTaskMarkTick demo_doc ''T1'' ''passed'' (replicate 40 CHR ''a'') High ''pm'' [] ''2024-01-01T00:00:00Z'')"
    by code_simp
  then obtain y z where m: "appendTaskMarkTick demo_doc ''T1'' ''passed'' (replicate 40 CHR ''a'') High ''pm'' [] ''2024-01-01T00:00:00Z'' = Inr (y, z)"
    by (auto simp: is_ok_iff)
  show ?thesis
    by (simp add: taskMark_def p id demo_plan_config_def ro a [unfolded demo_bound_def] Let_def demo_bound_def store_get_def bound_agent_def
        js_get_def assertPlanDocWriteName_def t demo_root demo_dest writeTaskMarkAtomically_def taskMarkTier_def
        is_file_def hard_linked_def demo_beneath m assertPlanDocBytesUnchanged_def)
qed


section \<open>Where the sections get in each other's way\<close>

text \<open>A plan with its log and one verdict, as the operations write it.\<close>

definition demo_gated :: string where
  "demo_gated = ''# Plan'' @ nl @ nl @ ''## Revisions'' @ nl @ ''- r1 2024-01-01T00:00:00Z planner: n'' @ nl @ nl @
     ''## Gates'' @ nl @ ''- T1 PASS 2024-01-01T00:00:00Z planner'' @ nl"

definition demo_gated_marked :: string where
  "demo_gated_marked = ''# Plan'' @ nl @ nl @ ''## Revisions'' @ nl @ ''- r1 2024-01-01T00:00:00Z planner: n'' @ nl @ nl @
     ''- r2 2024-01-01T00:00:00Z pm: task mark T1 passed'' @ nl @ nl @
     ''## Gates'' @ nl @ ''- T1 PASS 2024-01-01T00:00:00Z planner'' @ nl @ nl @
     ''## Ticks'' @ nl @ ''T1 passed evidence=c0 tier=high 2024-01-01T00:00:00Z pm'' @ nl"

lemma gate_refused_when_followed:
  "find (level2 ''Gates'') (scanPlanDocHeadings e) = Some g \<Longrightarrow> next_heading (scanPlanDocHeadings e) g 2 \<noteq> None \<Longrightarrow>
   appendGateLine e l = Inl (ValidationError ''GATE_VERDICT_GATES_SECTION_NOT_AT_END: ## Gates must be the final section'')"
  by (auto simp: appendGateLine_def)

text \<open>
  The first task mark closes the plan for gate verdicts: the marks are put behind the
  verdicts, which makes the verdicts no longer the final section.  From then on every
  verdict is refused, and the next whole-document write drops the verdicts that are there
  (after which the plan counts as one without gates).
\<close>

theorem task_mark_ends_gate_verdicts:
  "\<exists>marked. appendTaskMarkTick demo_gated ''T1'' ''passed'' ''c0'' High ''pm'' [] ''2024-01-01T00:00:00Z'' = Inr (marked, 2) \<and>
     map_option fst (readLatestGateVerdict marked ''T1'') = Some ''PASS'' \<and>
     (\<forall>line. appendGateLine marked line =
        Inl (ValidationError ''GATE_VERDICT_GATES_SECTION_NOT_AT_END: ## Gates must be the final section'')) \<and>
     (\<exists>rewritten. next_plan_doc marked ''# Plan'' ''planner'' ''n'' ''2024-01-02T00:00:00Z'' 2 = Inr (3, rewritten) \<and>
        readLatestGateVerdict rewritten ''T1'' = None \<and> gate_passed rewritten ''T2'')"
proof (intro exI conjI allI)
  show "appendTaskMarkTick demo_gated ''T1'' ''passed'' ''c0'' High ''pm'' [] ''2024-01-01T00:00:00Z'' = Inr (demo_gated_marked, 2)"
    by code_simp
  show "map_option fst (readLatestGateVerdict demo_gated_marked ''T1'') = Some ''PASS''"
    by code_simp
  have "(case find (level2 ''Gates'') (scanPlanDocHeadings demo_gated_marked) of None \<Rightarrow> False
       | Some g \<Rightarrow> next_heading (scanPlanDocHeadings demo_gated_marked) g 2 \<noteq> None)"
    by code_simp
  then show "appendGateLine demo_gated_marked line =
        Inl (ValidationError ''GATE_VERDICT_GATES_SECTION_NOT_AT_END: ## Gates must be the final section'')" for line
    by (auto intro!: gate_refused_when_followed split: option.splits)
  let ?r = "''# Plan'' @ nl @ nl @ ''## Revisions'' @ nl @ ''- r1 2024-01-01T00:00:00Z planner: n'' @ nl @ nl @
     ''- r2 2024-01-01T00:00:00Z pm: task mark T1 passed'' @ nl @ ''- r3 2024-01-02T00:00:00Z planner: n'' @ nl"
  show "next_plan_doc demo_gated_marked ''# Plan'' ''planner'' ''n'' ''2024-01-02T00:00:00Z'' 2 = Inr (3, ?r)"
    by code_simp
  show "readLatestGateVerdict ?r ''T1'' = None" "gate_passed ?r ''T2''"
    by code_simp+
qed

text \<open>
  On a plan without a revision log the first task mark is also the last one: the log is
  created behind the marks, and the marks are then not the final section.
\<close>

theorem second_task_mark_refused:
  "\<exists>marked. appendTaskMarkTick demo_doc ''T1'' ''passed'' ''c0'' High ''pm'' [] ''2024-01-01T00:00:00Z'' = Inr (marked, 1) \<and>
     appendTaskMarkTick marked ''T2'' ''passed'' ''c0'' High ''pm'' [] ''2024-01-01T00:00:00Z'' =
       Inl (ValidationError ''TASK_MARK_TICKS_NOT_FINAL: Ticks must be the final section'')"
proof (intro exI conjI)
  let ?m = "demo_doc @ nl @ ''## Ticks'' @ nl @ ''T1 passed evidence=c0 tier=high 2024-01-01T00:00:00Z pm'' @ nl @
     ''## Revisions'' @ nl @ ''- r1 2024-01-01T00:00:00Z pm: task mark T1 passed'' @ nl"
  show "appendTaskMarkTick demo_doc ''T1'' ''passed'' ''c0'' High ''pm'' [] ''2024-01-01T00:00:00Z'' = Inr (?m, 1)"
    by code_simp
  show "appendTaskMarkTick ?m ''T2'' ''passed'' ''c0'' High ''pm'' [] ''2024-01-01T00:00:00Z'' =
       Inl (ValidationError ''TASK_MARK_TICKS_NOT_FINAL: Ticks must be the final section'')"
    by code_simp
qed

text \<open>
  An open code block at the end of the body hides the log that is written behind it: the
  text of the first revision reads back as revision zero.
\<close>

theorem open_code_block_hides_log:
  "\<exists>written. next_plan_doc [] (replicate 3 CHR 0x60) ''planner'' ''n'' ''2024-01-01T00:00:00Z'' 0 = Inr (1, written) \<and>
     planDocRevisionSection written = (0, []) \<and> open_fence (replicate 3 CHR 0x60) \<noteq> None"
proof (intro exI conjI)
  let ?w = "replicate 3 CHR 0x60 @ nl @ nl @ ''## Revisions'' @ nl @ ''- r1 2024-01-01T00:00:00Z planner: n'' @ nl"
  show "next_plan_doc [] (replicate 3 CHR 0x60) ''planner'' ''n'' ''2024-01-01T00:00:00Z'' 0 = Inr (1, ?w)"
    by code_simp
  show "planDocRevisionSection ?w = (0, [])" "open_fence (replicate 3 CHR 0x60) \<noteq> None"
    by code_simp+
qed

end
