(* ===== verification/HostRead.thy ===== *)
theory HostRead
  imports HostAuth
begin

text \<open>
  Structured host reads, \<^verbatim>\<open>broker/src/hostread.ts\<close> and \<open>buildHostOp\<close> of
  \<^verbatim>\<open>broker/src/service.ts\<close>: the table of enabled operations, the argument vector of one
  operation, its execution and the filter on its output.  Which executables exist, what
  \<open>realpath\<close> answers and what a spawned program returns are arguments.
\<close>

section \<open>The table of operations\<close>

record host_capability =
  hc_enabled :: bool
  hc_binary :: string

record host_read_config =
  hrc_systemSummary :: host_capability
  hrc_memory :: host_capability
  hrc_diskUsage :: host_capability
  hrc_networkListeners :: host_capability
  hrc_processList :: host_capability
  hrc_serviceStatus :: host_capability
  hrc_serviceLogs :: host_capability
  hrc_tailscaleStatus :: host_capability
  hrc_dockerList :: host_capability
  hrc_dockerLogs :: host_capability

record host_read_op =
  ho_operation :: string
  ho_binary :: string
  ho_baseArgv :: "string list"
  ho_payloadKeys :: "string list"
  ho_outputCapBytes :: nat

definition add_op ::
  "(string \<Rightarrow> bool) \<Rightarrow> string \<Rightarrow> host_capability \<Rightarrow> string list \<Rightarrow> string list \<Rightarrow> nat \<Rightarrow> host_read_op list"
where
  "add_op existsSync op c base keys cap =
     (if hc_enabled c \<and> existsSync (hc_binary c)
      then [\<lparr>ho_operation = op, ho_binary = hc_binary c, ho_baseArgv = base, ho_payloadKeys = keys, ho_outputCapBytes = cap\<rparr>]
      else [])"

definition buildHostReadOps :: "(string \<Rightarrow> bool) \<Rightarrow> host_read_config \<Rightarrow> host_read_op list" where
  "buildHostReadOps existsSync cfg =
     add_op existsSync ''hostSystemSummary'' (hrc_systemSummary cfg) [''-a''] [] (8 * 1024) @
     add_op existsSync ''hostMemory'' (hrc_memory cfg) [''-h''] [] (16 * 1024) @
     add_op existsSync ''hostDiskUsage'' (hrc_diskUsage cfg) [''-h''] [''path''] (32 * 1024) @
     add_op existsSync ''hostNetworkListeners'' (hrc_networkListeners cfg) [''-lntup''] [] (64 * 1024) @
     add_op existsSync ''hostProcessList'' (hrc_processList cfg) [''-eo'', ''pid,ppid,user,comm,args''] [''filter''] (256 * 1024) @
     add_op existsSync ''hostServiceStatus'' (hrc_serviceStatus cfg) [''status''] [''service''] (64 * 1024) @
     add_op existsSync ''hostServiceLogs'' (hrc_serviceLogs cfg) [''-u''] [''service'', ''lines'', ''since''] (512 * 1024) @
     add_op existsSync ''hostTailscaleStatus'' (hrc_tailscaleStatus cfg) [''status''] [] (64 * 1024) @
     add_op existsSync ''hostDockerList'' (hrc_dockerList cfg) [''ps'', ''-a''] [] (128 * 1024) @
     add_op existsSync ''hostDockerLogs'' (hrc_dockerLogs cfg) [''logs''] [''container'', ''lines''] (512 * 1024)"

section \<open>The argument vector\<close>

text \<open>\<open>String(value)\<close> for the values that pass the checks.\<close>

fun js_String :: "js \<Rightarrow> string" where
  "js_String (JStr s) = s"
| "js_String (JInt i) = show_int i"
| "js_String JNull = ''null''"
| "js_String _ = []"

record host_read_options =
  hx_ops :: "host_read_op list"
  hx_approvedReadRoots :: "string list"
  hx_logLinesMax :: int

text \<open>
  What one payload key adds to the vector.  \<open>since.length\<close> on \<open>null\<close> is a
  \<open>TypeError\<close>.
\<close>

definition key_argv :: "(string \<Rightarrow> string option) \<Rightarrow> host_read_options \<Rightarrow> string \<Rightarrow> string \<Rightarrow> js \<Rightarrow> string list result" where
  "key_argv realpath opts op key v =
     (if v = JUndefined then
        (if key = ''service'' \<or> key = ''container'' then Inl (ValidationError (op @ '' requires '' @ key)) else Inr [])
      else if key = ''service'' \<or> key = ''container'' then
        bindR (assertServiceOrContainerName v key) (\<lambda>_. Inr [js_String v])
      else if key = ''lines'' then
        bindR (assertPositiveInt v (hx_logLinesMax opts) ''lines'') (\<lambda>_. Inr [''-n'', js_String v])
      else if key = ''since'' then
        bindR (assertSince v) (\<lambda>_.
        if v = JNull then Inl (NativeError ''TypeError: Cannot read properties of null'')
        else Inr (if js_str v \<noteq> [] then [''--since'', js_str v] else []))
      else if key = ''path'' then
        bindR (canonicalizeWithinRoots realpath v (hx_approvedReadRoots opts) 4096) (\<lambda>canonical. Inr [canonical])
      else if key = ''filter'' then
        bindR (assertProcessFilter v) (\<lambda>_. Inr [])
      else Inl (ValidationError (''unhandled payload key '' @ key @ '' in '' @ op)))"

fun keys_argv :: "(string \<Rightarrow> string option) \<Rightarrow> host_read_options \<Rightarrow> string \<Rightarrow> (string \<times> js) list \<Rightarrow> string list \<Rightarrow> string list result" where
  "keys_argv realpath opts op payload [] = Inr []"
| "keys_argv realpath opts op payload (key # keys) =
     bindR (key_argv realpath opts op key (js_get payload key)) (\<lambda>here.
     bindR (keys_argv realpath opts op payload keys) (\<lambda>rest. Inr (here @ rest)))"

definition buildArgv ::
  "(string \<Rightarrow> string option) \<Rightarrow> host_read_options \<Rightarrow> host_read_op \<Rightarrow> (string \<times> js) list \<Rightarrow> string list result"
where
  "buildArgv realpath opts hop payload =
     bindR (keys_argv realpath opts (ho_operation hop) payload (ho_payloadKeys hop))
       (\<lambda>extra. Inr (ho_binary hop # ho_baseArgv hop @ extra))"

section \<open>Execution\<close>

text \<open>The marker behind a cut text, in UTF-8.\<close>

definition TRUNCATED :: string where
  "TRUNCATED = nl @ [CHR 0xE2, CHR 0x80, CHR 0xA6] @ ''[truncated]''"

definition truncate_text :: "string \<Rightarrow> nat \<Rightarrow> string" where
  "truncate_text s mx = (if length s \<le> mx then s else take mx s @ TRUNCATED)"

record host_spawned =
  hs_status :: "int option"
  hs_stdout :: string
  hs_stderr :: string
  hs_timedOut :: bool
  hs_outputTruncated :: bool

record host_read_result =
  hr_stdout :: string
  hr_stderr :: string
  hr_status :: "int option"

definition has_op :: "host_read_options \<Rightarrow> string \<Rightarrow> bool" where
  "has_op opts op = list_ex (\<lambda>h. ho_operation h = op) (hx_ops opts)"

definition opFor :: "host_read_options \<Rightarrow> string \<Rightarrow> host_read_op result" where
  "opFor opts op = (case find (\<lambda>h. ho_operation h = op) (hx_ops opts) of
     None \<Rightarrow> Inl (HostReadError (''host capability '' @ op @ '' is not enabled (binary missing or policy-disabled)''))
   | Some h \<Rightarrow> Inr h)"

text \<open>\<open>payload?.filter\<close> is used when it is truthy; \<open>spawn\<close> gets the vector and the cap.\<close>

definition filter_lines :: "string \<Rightarrow> js \<Rightarrow> string \<Rightarrow> string" where
  "filter_lines op f out =
     (if op = ''hostProcessList'' \<and> f \<noteq> JUndefined \<and> f \<noteq> JNull \<and> f \<noteq> JStr []
      then joinWith nl (filter (\<lambda>line. strIncludes line (js_String f)) (splitOn (CHR 0x0A) out)) else out)"

definition execute ::
  "(string \<Rightarrow> string option) \<Rightarrow> (string list \<Rightarrow> nat \<Rightarrow> host_spawned result) \<Rightarrow> host_read_options \<Rightarrow> string \<Rightarrow> (string \<times> js) list \<Rightarrow>
   host_read_result result"
where
  "execute realpath spawn opts op payload =
     bindR (opFor opts op) (\<lambda>hop.
     bindR (buildArgv realpath opts hop payload) (\<lambda>argv.
     bindR (spawn argv (ho_outputCapBytes hop)) (\<lambda>r.
     bindR (guardR (\<not> hs_timedOut r) (HostReadError (''host read '' @ op @ '' timed out''))) (\<lambda>_.
     Inr \<lparr>hr_stdout = filter_lines op (js_get payload ''filter'') (truncate_text (hs_stdout r) (ho_outputCapBytes hop)),
          hr_stderr = truncate_text (hs_stderr r) (16 * 1024), hr_status = hs_status r\<rparr>))))"

definition hostOp ::
  "(string \<Rightarrow> string option) \<Rightarrow> (string list \<Rightarrow> nat \<Rightarrow> host_spawned result) \<Rightarrow> host_read_options \<Rightarrow> envelope \<Rightarrow> host_read_result result"
where
  "hostOp realpath spawn opts req =
     bindR (guardR (has_op opts (env_operation req)) (StateError (''host read '' @ env_operation req @ '' is not enabled''))) (\<lambda>_.
     bindR (payloadOf req) (\<lambda>payload. execute realpath spawn opts (env_operation req) payload))"

section \<open>What is run\<close>

text \<open>
  Arguments behind the fixed part: the two options with a value, or an operand that
  cannot be taken for an option.
\<close>

fun plain_args :: "string list \<Rightarrow> bool" where
  "plain_args [] = True"
| "plain_args (a # rest) =
     (if a = ''-n'' \<or> a = ''--since'' then (case rest of [] \<Rightarrow> False | _ # r \<Rightarrow> plain_args r)
      else \<not> startsWith a ''-'' \<and> plain_args rest)"

lemma plain_args_append: "plain_args xs \<Longrightarrow> plain_args ys \<Longrightarrow> plain_args (xs @ ys)"
  by (induction xs rule: plain_args.induct) (auto split: list.splits if_splits)

lemma key_argv_plain:
  assumes roots: "\<And>p c. realpath p = Some c \<Longrightarrow> isAbsolute c" and ok: "key_argv realpath opts op key v = Inr xs"
  shows "plain_args xs"
proof -
  have dash: "\<not> startsWith a ''-''" if "startsWith a ''/''" for a
    using that by (cases a) (auto simp: startsWith_def)
  have svc: "\<not> startsWith (js_String v) ''-''" if "assertServiceOrContainerName v key = Inr ()" for key
    using that by (cases v) (auto simp: bindR_eq_Inr)
  have path: "\<not> startsWith c ''-''" if "canonicalizeWithinRoots realpath v (hx_approvedReadRoots opts) 4096 = Inr c" for c
  proof (cases v)
    case (JStr p)
    with that have "realpath p = Some c" by (auto simp: bindR_eq_Inr split: if_splits option.splits)
    with roots dash show ?thesis by (auto simp: isAbsolute_def)
  qed (use that in auto)
  have one: "\<not> startsWith a ''-'' \<Longrightarrow> plain_args [a]" for a
    by (auto simp: startsWith_def)
  have two: "plain_args [''-n'', a]" "plain_args [''--since'', a]" for a
    by auto
  show ?thesis
    using ok unfolding key_argv_def
    by (auto simp: bindR_eq_Inr dest!: svc path intro: one two simp del: plain_args.simps(2) split: if_splits)
qed

lemma keys_argv_plain:
  assumes "\<And>p c. realpath p = Some c \<Longrightarrow> isAbsolute c"
  shows "keys_argv realpath opts op payload keys = Inr xs \<Longrightarrow> plain_args xs"
proof (induction keys arbitrary: xs)
  case (Cons k ks)
  then obtain here rest where "key_argv realpath opts op k (js_get payload k) = Inr here"
    "keys_argv realpath opts op payload ks = Inr rest" "xs = here @ rest"
    by (auto simp: bindR_eq_Inr)
  with Cons.IH key_argv_plain [OF assms] show ?case
    by (simp add: plain_args_append)
qed simp

text \<open>A vector the broker may run: an enabled program that exists, its fixed arguments, plain arguments.\<close>

definition fixed_program :: "(string \<Rightarrow> bool) \<Rightarrow> host_read_config \<Rightarrow> string list \<Rightarrow> bool" where
  "fixed_program existsSync cfg argv = (\<exists>h extra. h \<in> set (buildHostReadOps existsSync cfg) \<and>
     argv = ho_binary h # ho_baseArgv h @ extra \<and> plain_args extra)"

lemma op_enabled: "h \<in> set (buildHostReadOps existsSync cfg) \<Longrightarrow> existsSync (ho_binary h)"
  by (auto simp: buildHostReadOps_def add_op_def split: if_splits)

lemma buildArgv_fixed:
  assumes "\<And>p c. realpath p = Some c \<Longrightarrow> isAbsolute c" "h \<in> set (buildHostReadOps existsSync cfg)"
    "buildArgv realpath opts h payload = Inr argv"
  shows "fixed_program existsSync cfg argv"
  using assms keys_argv_plain [OF assms(1)] by (auto simp: buildArgv_def bindR_eq_Inr fixed_program_def)

text \<open>
  The host reads run nothing but the fixed programs: the answer to a request depends
  only on what \<open>spawn\<close> does with vectors that start with an enabled, existing program of
  the policy and its fixed arguments, and whose other arguments are operands that do not
  start with a dash or the value of \<open>-n\<close> or \<open>--since\<close>.  (Resolved paths are absolute.)
\<close>

theorem host_reads_run_fixed_programs:
  assumes "\<And>p c. realpath p = Some c \<Longrightarrow> isAbsolute c" "hx_ops opts = buildHostReadOps existsSync cfg"
    "\<And>argv cap. fixed_program existsSync cfg argv \<Longrightarrow> spawn argv cap = spawn' argv cap"
  shows "hostOp realpath spawn opts req = hostOp realpath spawn' opts req"
proof -
  have "execute realpath spawn opts op payload = execute realpath spawn' opts op payload" for op payload
  proof (cases "find (\<lambda>h. ho_operation h = op) (hx_ops opts)")
    case (Some h)
    then have h: "h \<in> set (buildHostReadOps existsSync cfg)"
      using find_Some_mem assms(2) by fastforce
    show ?thesis
    proof (cases "buildArgv realpath opts h payload")
      case (Inr argv)
      with assms(3) buildArgv_fixed [OF assms(1) h] show ?thesis
        by (simp add: execute_def opFor_def Some)
    qed (simp add: execute_def opFor_def Some)
  qed (simp add: execute_def opFor_def)
  then show ?thesis by (simp add: hostOp_def)
qed

definition demo_read_config :: host_read_config where
  "demo_read_config =
     (let off = \<lparr>hc_enabled = False, hc_binary = []\<rparr> in
      \<lparr>hrc_systemSummary = \<lparr>hc_enabled = True, hc_binary = ''/usr/bin/uname''\<rparr>, hrc_memory = off,
       hrc_diskUsage = off, hrc_networkListeners = off,
       hrc_processList = \<lparr>hc_enabled = True, hc_binary = ''/usr/bin/ps''\<rparr>, hrc_serviceStatus = off,
       hrc_serviceLogs = \<lparr>hc_enabled = True, hc_binary = ''/usr/bin/journalctl''\<rparr>, hrc_tailscaleStatus = off,
       hrc_dockerList = off, hrc_dockerLogs = off\<rparr>)"

definition demo_read_options :: host_read_options where
  "demo_read_options = \<lparr>hx_ops = buildHostReadOps (\<lambda>_. True) demo_read_config, hx_approvedReadRoots = [''/srv''], hx_logLinesMax = 500\<rparr>"

definition demo_spawn :: "string list \<Rightarrow> nat \<Rightarrow> host_spawned result" where
  "demo_spawn argv cap = Inr \<lparr>hs_status = Some 0, hs_stdout = ''1 a'' @ nl @ ''2 bc'', hs_stderr = [], hs_timedOut = False, hs_outputTruncated = False\<rparr>"

definition demo_read_request :: envelope where
  "demo_read_request = \<lparr>env_id = ''1'', env_operation = ''hostProcessList'', env_sessionID = ''s1'', env_agent = JUndefined,
     env_payload = JObj [(''filter'', JStr ''bc'')]\<rparr>"

theorem host_reads_run_fixed_programs_witness:
  "hostOp (\<lambda>_. Some ''/x'') demo_spawn demo_read_options demo_read_request =
   hostOp (\<lambda>_. Some ''/x'') (\<lambda>argv cap. if fixed_program (\<lambda>_. True) demo_read_config argv then demo_spawn argv cap
      else Inl (HostReadError [])) demo_read_options demo_read_request"
  by (rule host_reads_run_fixed_programs [where existsSync = "\<lambda>_. True" and cfg = demo_read_config])
    (auto simp: isAbsolute_def startsWith_def demo_read_options_def)

section \<open>What is returned\<close>

lemma length_joinWith_le:
  "xs \<noteq> [] \<Longrightarrow> length (joinWith sep xs) + length sep = sum_list (map (\<lambda>x. length x + length sep) xs)"
  by (induction xs rule: induct_list012) auto

lemma sum_list_filter_le: "sum_list (map f (filter P xs)) \<le> sum_list (map (f :: 'a \<Rightarrow> nat) xs)"
  by (induction xs) auto

lemma length_filter_lines: "length (joinWith [d] (filter P (splitOn d s))) \<le> length s"
proof (cases "filter P (splitOn d s) = []")
  case False
  have "length (joinWith [d] (filter P (splitOn d s))) + 1 \<le> length (joinWith [d] (splitOn d s)) + 1"
    using length_joinWith_le [OF False, of "[d]"] length_joinWith_le [OF splitOn_ne, of "[d]" d s]
      sum_list_filter_le [of "\<lambda>x. length x + 1" P "splitOn d s"] by simp
  then show ?thesis by (simp add: join_splitOn)
qed simp

lemma length_truncate_text: "length (truncate_text s mx) \<le> mx + length TRUNCATED"
  by (simp add: truncate_text_def)

lemma op_cap: "h \<in> set (buildHostReadOps existsSync cfg) \<Longrightarrow> ho_outputCapBytes h \<le> 512 * 1024"
  by (auto simp: buildHostReadOps_def add_op_def split: if_splits)

text \<open>
  What a host read returns is bounded whatever the program printed, a program that
  timed out returns nothing, and a filtered process list holds only lines of the output
  that contain the filter.
\<close>

theorem host_read_output_bounded:
  assumes ok: "hostOp realpath spawn opts req = Inr r" and ops: "hx_ops opts = buildHostReadOps existsSync cfg"
  shows "length (hr_stdout r) \<le> 512 * 1024 + length TRUNCATED \<and> length (hr_stderr r) \<le> 16 * 1024 + length TRUNCATED \<and>
    (\<exists>h argv s. h \<in> set (buildHostReadOps existsSync cfg) \<and> ho_operation h = env_operation req \<and>
       spawn argv (ho_outputCapBytes h) = Inr s \<and> \<not> hs_timedOut s \<and> hr_status r = hs_status s)"
proof -
  obtain payload h argv s where h: "find (\<lambda>h. ho_operation h = env_operation req) (hx_ops opts) = Some h"
    and s: "spawn argv (ho_outputCapBytes h) = Inr s" "\<not> hs_timedOut s"
    and r: "r = \<lparr>hr_stdout = filter_lines (env_operation req) (js_get payload ''filter'') (truncate_text (hs_stdout s) (ho_outputCapBytes h)),
          hr_stderr = truncate_text (hs_stderr s) (16 * 1024), hr_status = hs_status s\<rparr>"
    using ok by (auto simp: hostOp_def execute_def opFor_def bindR_eq_Inr split: option.splits)
  have mem: "h \<in> set (buildHostReadOps existsSync cfg)" "ho_operation h = env_operation req"
    using find_Some_mem [OF h] ops by auto
  have "length (filter_lines op f out) \<le> length out" for op f out
    using length_filter_lines by (simp add: filter_lines_def nl_def)
  then have "length (hr_stdout r) \<le> length (truncate_text (hs_stdout s) (ho_outputCapBytes h))"
    by (simp add: r)
  also have "\<dots> \<le> ho_outputCapBytes h + length TRUNCATED"
    by (rule length_truncate_text)
  finally have out: "length (hr_stdout r) \<le> ho_outputCapBytes h + length TRUNCATED" .
  have err: "length (hr_stderr r) \<le> 16 * 1024 + length TRUNCATED"
    using length_truncate_text by (simp add: r)
  have "hr_status r = hs_status s" by (simp add: r)
  with out err op_cap [OF mem(1)] mem s show ?thesis by (meson add_le_mono1 order_trans)
qed

lemma has_op_find: "has_op opts op \<longleftrightarrow> find (\<lambda>h. ho_operation h = op) (hx_ops opts) \<noteq> None"
  by (auto simp: has_op_def list_ex_iff find_None_iff simp del: not_None_eq)

lemma demo_read: "hostOp (\<lambda>_. Some ''/x'') demo_spawn demo_read_options demo_read_request =
   Inr \<lparr>hr_stdout = ''2 bc'', hr_stderr = [], hr_status = Some 0\<rparr>"
proof -
  let ?h = "\<lparr>ho_operation = ''hostProcessList'', ho_binary = ''/usr/bin/ps'', ho_baseArgv = [''-eo'', ''pid,ppid,user,comm,args''],
      ho_payloadKeys = [''filter''], ho_outputCapBytes = 256 * 1024\<rparr>"
  have p: "payloadOf demo_read_request = Inr [(''filter'', JStr ''bc'')]" by code_simp
  have h: "find (\<lambda>h. ho_operation h = ''hostProcessList'') (hx_ops demo_read_options) = Some ?h"
    by (simp add: demo_read_options_def buildHostReadOps_def add_op_def demo_read_config_def Let_def)
  then have has: "has_op demo_read_options ''hostProcessList''"
    unfolding has_op_find by simp
  have op: "env_operation demo_read_request = ''hostProcessList''" by (simp add: demo_read_request_def)
  have f: "assertProcessFilter (JStr ''bc'') = Inr ()"
    by (simp add: assertMaxBytes_def assertNoControlChars_def is_control_def)
  have l: "filter_lines ''hostProcessList'' (JStr ''bc'') (''1 a'' @ nl @ ''2 bc'') = ''2 bc''" by code_simp
  show ?thesis
    unfolding hostOp_def op p execute_def opFor_def h
    by (simp add: has buildArgv_def key_argv_def js_get_def f demo_spawn_def truncate_text_def l nl_def [symmetric] del: assertProcessFilter.simps)
      (use l in \<open>simp add: nl_def\<close>)
qed

theorem host_read_output_bounded_witness:
  "\<exists>h argv s. h \<in> set (buildHostReadOps (\<lambda>_. True) demo_read_config) \<and> ho_operation h = env_operation demo_read_request \<and>
     demo_spawn argv (ho_outputCapBytes h) = Inr s \<and> hs_status s = Some 0"
  using host_read_output_bounded [OF demo_read, of "\<lambda>_. True" demo_read_config]
  by (simp add: demo_read_options_def) metis

text \<open>
  \<open>null\<close> passes the checks of \<open>lines\<close> and \<open>since\<close> but is not treated as absent: it
  becomes the argument \<open>-n null\<close>, and as \<open>since\<close> it ends in a \<open>TypeError\<close>.
\<close>

theorem null_log_parameters_mishandled:
  "key_argv realpath opts op ''lines'' JNull = Inr [''-n'', ''null''] \<and>
   key_argv realpath opts op ''since'' JNull = Inl (NativeError ''TypeError: Cannot read properties of null'')"
  by (simp add: key_argv_def assertSince_def)

end
