(* ===== verification/GitGuard.thy ===== *)
theory GitGuard
  imports Paths GitOps
begin

text \<open>
  The host git guard, \<^verbatim>\<open>broker/src/gitguard.ts\<close>: locating the subcommand, refusing
  overrides, reading the repository-local configuration as text, deciding which keys can
  run a command, and adding the neutralizing options.  The file system is a record of what
  \<open>statSync\<close> and \<open>readFileSync\<close> answer; a \<open>GitGuardError\<close> is an error outside the
  broker's own classes.
\<close>

definition GitGuardError :: "string \<Rightarrow> broker_error" where
  "GitGuardError message = NativeError (''GitGuardError: '' @ message)"

section \<open>Finding the subcommand\<close>

definition GIT_NEUTRALIZE_FLAGS :: "string list" where
  "GIT_NEUTRALIZE_FLAGS = [''-c'', ''core.hooksPath=/dev/null'', ''-c'', ''core.fsmonitor=false'', ''-c'', ''core.pager=cat'']"

definition GIT_NEUTRALIZED_KEYS :: "string list" where
  "GIT_NEUTRALIZED_KEYS = [''core.hookspath'', ''core.fsmonitor'', ''core.pager'']"

definition GIT_UNSETTABLE_KEYS :: "string list" where
  "GIT_UNSETTABLE_KEYS = [''core.attributesfile'', ''core.excludesfile'']"

definition GIT_REMOTE_SUBCOMMANDS :: "string list" where
  "GIT_REMOTE_SUBCOMMANDS = [''push'', ''fetch'']"

definition GIT_EXECUTION_SUBCOMMANDS :: "string list" where
  "GIT_EXECUTION_SUBCOMMANDS = [''add'', ''commit'', ''push'', ''restore'', ''checkout'', ''diff'', ''fetch'', ''update-ref'',
     ''apply'', ''merge'', ''rebase'', ''reset'']"

definition GIT_OPTIONS_WITH_VALUE :: "string list" where
  "GIT_OPTIONS_WITH_VALUE = [''-c'', ''-C'', ''--git-dir'', ''--work-tree'', ''--namespace'', ''--config-env'', ''--exec-path'']"

definition isGitBinary :: "string \<Rightarrow> bool" where
  "isGitBinary binary = (basename binary = ''git'')"

text \<open>The loop from index \<open>i\<close> over the tokens from there on.\<close>

fun find_subcommand :: "nat \<Rightarrow> string list \<Rightarrow> (nat \<times> string) option" where
  "find_subcommand i [] = None"
| "find_subcommand i (t # ts) =
     (if t = ''--'' then None
      else if \<not> startsWith t ''-'' then Some (i, t)
      else if t \<in> set GIT_OPTIONS_WITH_VALUE then (case ts of [] \<Rightarrow> None | _ # r \<Rightarrow> find_subcommand (i + 2) r)
      else find_subcommand (i + 1) ts)"

definition findGitSubcommand :: "string list \<Rightarrow> (nat \<times> string) option" where
  "findGitSubcommand argv = find_subcommand 1 (drop 1 argv)"

definition gitSubcommand :: "string list \<Rightarrow> string option" where
  "gitSubcommand argv = map_option snd (findGitSubcommand argv)"

section \<open>Overrides of the caller\<close>

text \<open>\<open>pair.slice(0, pair.indexOf("="))\<close> or the whole pair, in lower case.\<close>

definition config_key :: "string \<Rightarrow> string" where
  "config_key pair = toLowerCase (takeWhile (\<lambda>c. c \<noteq> CHR ''='') pair)"

text \<open>The loop over the tokens in front of the subcommand; the pair behind \<open>-c\<close> may be the subcommand itself.\<close>

fun no_override :: "string \<Rightarrow> nat \<Rightarrow> string list \<Rightarrow> unit result" where
  "no_override sub 0 ts = Inr ()"
| "no_override sub (Suc n) [] = Inr ()"
| "no_override sub (Suc n) (t # ts) =
     (if t = ''-C'' then Inl (GitGuardError (''refusing caller-supplied -C on git subcommand '' @ sub))
      else if t = ''-c'' then
        (case ts of
           [] \<Rightarrow> Inr ()
         | pair # r \<Rightarrow>
             if config_key pair \<in> set GIT_NEUTRALIZED_KEYS \<union> set GIT_UNSETTABLE_KEYS
             then Inl (GitGuardError (''refusing caller-supplied -c '' @ config_key pair @ '' on git subcommand '' @ sub))
             else no_override sub (n - 1) r)
      else no_override sub n ts)"

definition assertNoCallerConfigOverride :: "string list \<Rightarrow> nat \<Rightarrow> string \<Rightarrow> unit result" where
  "assertNoCallerConfigOverride argv subcommandIndex subcommand = no_override subcommand (subcommandIndex - 1) (drop 1 argv)"

section \<open>Reading the configuration text\<close>

definition BS :: char where
  "BS = CHR 0x5C"

definition DQ :: char where
  "DQ = CHR 0x22"

fun strip_from :: "bool \<Rightarrow> string \<Rightarrow> string" where
  "strip_from quoted [] = []"
| "strip_from quoted (c # s) =
     (if c = BS then (case s of [] \<Rightarrow> [c] | d # r \<Rightarrow> c # d # strip_from quoted r)
      else if c = DQ then c # strip_from (\<not> quoted) s
      else if \<not> quoted \<and> (c = CHR ''#'' \<or> c = CHR '';'') then []
      else c # strip_from quoted s)"

definition stripComment :: "string \<Rightarrow> string" where
  "stripComment line = strip_from False line"

text \<open>The two sides of the first target outside quotes, when there is one.\<close>

fun split_unquoted :: "bool \<Rightarrow> char \<Rightarrow> string \<Rightarrow> (string \<times> string) option" where
  "split_unquoted quoted t [] = None"
| "split_unquoted quoted t (c # s) =
     (if c = BS then (case s of [] \<Rightarrow> None | d # r \<Rightarrow> map_option (\<lambda>(a, b). (c # d # a, b)) (split_unquoted quoted t r))
      else if c = DQ then map_option (\<lambda>(a, b). (c # a, b)) (split_unquoted (\<not> quoted) t s)
      else if \<not> quoted \<and> c = t then Some ([], s)
      else map_option (\<lambda>(a, b). (c # a, b)) (split_unquoted quoted t s))"

text \<open>\<open>value.replace(/\\(.)/g, "$1")\<close>\<close>

fun unescape :: "string \<Rightarrow> string" where
  "unescape [] = []"
| "unescape (c # s) =
     (if c = BS then (case s of [] \<Rightarrow> [c] | d # r \<Rightarrow> if is_line_terminator d then c # d # unescape r else d # unescape r)
      else c # unescape s)"

text \<open>\<open>((?:[^"\\]|\\.)*)"\<close>: the text up to the closing quote, and the rest.\<close>

fun quoted_body :: "string \<Rightarrow> (string \<times> string) option" where
  "quoted_body [] = None"
| "quoted_body (c # s) =
     (if c = DQ then Some ([], s)
      else if c = BS then
        (case s of
           [] \<Rightarrow> None
         | d # r \<Rightarrow> if is_line_terminator d then None else map_option (\<lambda>(a, b). (c # d # a, b)) (quoted_body r))
      else map_option (\<lambda>(a, b). (c # a, b)) (quoted_body s))"

definition closes_header :: "string \<Rightarrow> bool" where
  "closes_header s = startsWith (dropWhile is_space s) '']''"

definition section_char :: "char \<Rightarrow> bool" where
  "section_char c = (is_alnum c \<or> c = CHR ''.'' \<or> c = CHR ''-'')"

text \<open>\<open>GIT_SECTION_RE\<close>: the name and the subsection as written.\<close>

definition match_section :: "string \<Rightarrow> (string \<times> string option) option" where
  "match_section line =
     (if \<not> startsWith line ''['' then None else
      let name = takeWhile section_char (drop 1 line); rest = drop (length name) (drop 1 line);
          after = dropWhile is_space rest in
      if name = [] then None
      else if after \<noteq> rest \<and> startsWith after [DQ] then
        (case quoted_body (drop 1 after) of
           Some (sub, tail) \<Rightarrow> if closes_header tail then Some (name, Some sub) else None
         | None \<Rightarrow> None)
      else if closes_header rest then Some (name, None) else None)"

definition parseSectionHeader :: "string \<Rightarrow> (string \<times> string option) option" where
  "parseSectionHeader line = (case match_section line of
     None \<Rightarrow> None
   | Some (raw, sub) \<Rightarrow>
       (let name = toLowerCase raw;
            (sect, subsect) = (case sub of
               Some s \<Rightarrow> (name, Some (toLowerCase (unescape s)))
             | None \<Rightarrow> if CHR ''.'' \<in> set name
                 then (takeWhile (\<lambda>c. c \<noteq> CHR ''.'') name, Some (drop 1 (dropWhile (\<lambda>c. c \<noteq> CHR ''.'') name)))
                 else (name, None)) in
        if sect = [] then None else Some (sect, subsect)))"

definition GIT_KEY_RE :: "string \<Rightarrow> bool" where
  "GIT_KEY_RE s = (case s of [] \<Rightarrow> False | c # r \<Rightarrow> is_alpha c \<and> list_all (\<lambda>c. is_alnum c \<or> c = CHR ''-'') r)"

definition parseKeyLine :: "string \<Rightarrow> string option" where
  "parseKeyLine line =
     (let head = trim (case split_unquoted False (CHR ''='') line of None \<Rightarrow> line | Some (a, _) \<Rightarrow> a) in
      if GIT_KEY_RE head then Some (toLowerCase head) else None)"

definition unquote_value :: "string \<Rightarrow> string" where
  "unquote_value v = (if 2 \<le> length v \<and> startsWith v [DQ] \<and> endsWith v [DQ] then unescape (butlast (tl v)) else v)"

definition line_value :: "string \<Rightarrow> string" where
  "line_value line = unquote_value (case split_unquoted False (CHR ''='') line of None \<Rightarrow> [] | Some (_, b) \<Rightarrow> trim b)"

record git_config_entry =
  ge_section :: string
  ge_subsection :: "string option"
  ge_key :: string
  ge_value :: string

text \<open>A line with the lines that continue it, and the lines behind.\<close>

fun continue_line :: "string \<Rightarrow> string list \<Rightarrow> string \<times> string list" where
  "continue_line line [] = (line, [])"
| "continue_line line (n # ls) =
     (if endsWith line [BS] then continue_line (butlast line @ nl @ stripComment n) ls else (line, n # ls))"

lemma continue_line_shorter: "(line', rest) = continue_line line ls \<Longrightarrow> length rest \<le> length ls"
  by (induction line ls arbitrary: line' rest rule: continue_line.induct) (fastforce split: if_splits)+

function parse_lines :: "string \<Rightarrow> string option \<Rightarrow> string list \<Rightarrow> git_config_entry list" where
  "parse_lines sect sub [] = []"
| "parse_lines sect sub (l # ls) =
     (let (line, rest) = continue_line (stripComment l) ls; trimmed = trim line in
      if trimmed = [] then parse_lines sect sub rest
      else if startsWith trimmed ''['' then
        (case parseSectionHeader trimmed of
           Some (s, b) \<Rightarrow> parse_lines s b rest
         | None \<Rightarrow> parse_lines sect sub rest)
      else if sect = [] then parse_lines sect sub rest
      else (case parseKeyLine trimmed of
          None \<Rightarrow> parse_lines sect sub rest
        | Some key \<Rightarrow>
            \<lparr>ge_section = sect, ge_subsection = sub, ge_key = key, ge_value = line_value trimmed\<rparr> # parse_lines sect sub rest))"
  by pat_completeness auto

termination
  by (relation "measure (\<lambda>(_, _, ls). length ls)")
    (auto simp: less_Suc_eq_le dest: continue_line_shorter)

definition parseLocalConfigValues :: "string \<Rightarrow> git_config_entry list" where
  "parseLocalConfigValues text = parse_lines [] None (splitOn (CHR 0x0A) text)"

section \<open>Which keys are refused\<close>

definition isExecutionBearingLocalKey :: "string \<Rightarrow> string option \<Rightarrow> string \<Rightarrow> bool" where
  "isExecutionBearingLocalKey sect sub key =
     (if sect = ''filter'' then sub \<noteq> None \<and> key \<in> {''clean'', ''smudge'', ''process'', ''required''}
      else if sect = ''diff'' then key = ''external'' \<or> sub \<noteq> None \<and> key \<in> {''command'', ''textconv''}
      else if sect = ''include'' then sub = None \<and> key = ''path''
      else if sect = ''includeif'' then sub \<noteq> None \<and> key = ''path''
      else if sect = ''core'' then key \<in> {''gitproxy'', ''sshcommand'', ''editor'', ''askpass''}
      else if sect = ''credential'' then key = ''helper''
      else if sect = ''merge'' then sub \<noteq> None \<and> key = ''driver''
      else if sect = ''gpg'' then sub = None \<and> key = ''program''
      else if sect = ''submodule'' then sub \<noteq> None \<and> key = ''command''
      else if sect = ''sequence'' then sub = None \<and> key = ''editor''
      else False)"

definition entry_exec :: "git_config_entry \<Rightarrow> bool" where
  "entry_exec e = isExecutionBearingLocalKey (ge_section e) (ge_subsection e) (ge_key e)"

definition findExecutionBearingLocalKey :: "string \<Rightarrow> string option" where
  "findExecutionBearingLocalKey text = map_option
     (\<lambda>e. ge_section e @ (case ge_subsection e of None \<Rightarrow> [] | Some s \<Rightarrow> CHR '' '' # DQ # s @ [DQ]) @ ''.'' @ ge_key e)
     (find entry_exec (parseLocalConfigValues text))"

definition isAllowedRemoteTransport :: "string \<Rightarrow> bool" where
  "isAllowedRemoteTransport value =
     (let v = trim value; host = takeWhile (\<lambda>c. c \<noteq> CHR '':'') v; rest = drop (length host + 1) v in
      v \<noteq> [] \<and>
      (list_ex (startsWith (toLowerCase v)) [''http://'', ''https://'', ''ssh://'', ''git://'', ''file://''] \<or>
       \<not> startsWith v ''!'' \<and> CHR '':'' \<in> set v \<and> host \<noteq> [] \<and>
       rest \<noteq> [] \<and> \<not> startsWith rest '':'' \<and> \<not> startsWith rest ''//'' \<and> \<not> strIncludes v ''::'' \<and>
       CHR ''/'' \<notin> set host \<and> CHR '' '' \<notin> set host \<and> BS \<notin> set host))"

text \<open>The ellipsis behind a shortened value, in UTF-8.\<close>

definition bounded :: "string \<Rightarrow> string" where
  "bounded value = (let v = trim value in if 60 < length v then take 60 v @ [CHR 0xE2, CHR 0x80, CHR 0xA6] else v)"

definition unsafe_remote :: "git_config_entry \<Rightarrow> string option" where
  "unsafe_remote e = (case ge_subsection e of
     None \<Rightarrow> None
   | Some sub \<Rightarrow>
       if ge_section e = ''url'' \<and> ge_key e \<in> {''insteadof'', ''pushinsteadof''} then Some (''url.'' @ sub @ ''.'' @ ge_key e)
       else if ge_section e = ''remote'' then
         (if ge_key e \<in> {''receivepack'', ''uploadpack'', ''vcs''} then Some (''remote.'' @ sub @ ''.'' @ ge_key e)
          else if ge_key e \<in> {''url'', ''pushurl''} \<and> \<not> isAllowedRemoteTransport (ge_value e)
          then Some (''remote.'' @ sub @ ''.'' @ ge_key e @ '' ('' @ bounded (ge_value e) @ '')'')
          else None)
       else None)"

fun first_unsafe :: "git_config_entry list \<Rightarrow> string option" where
  "first_unsafe [] = None"
| "first_unsafe (e # es) = (case unsafe_remote e of Some k \<Rightarrow> Some k | None \<Rightarrow> first_unsafe es)"

definition findUnsafeRemoteKey :: "string \<Rightarrow> string option" where
  "findUnsafeRemoteKey text = first_unsafe (parseLocalConfigValues text)"

section \<open>The repository\<close>

datatype guard_stat = DirStat | FileStat | OtherStat

text \<open>\<open>gf_stat\<close>: \<open>Inr None\<close> for \<open>ENOENT\<close>, an error for any other failure.\<close>

record guard_fs =
  gf_stat :: "string \<Rightarrow> guard_stat option result"
  gf_read :: "string \<Rightarrow> string result"
  gf_cwd :: string

definition statForGuard :: "guard_fs \<Rightarrow> string \<Rightarrow> guard_stat option result" where
  "statForGuard fs path = (case gf_stat fs path of
     Inr s \<Rightarrow> Inr s
   | Inl _ \<Rightarrow> Inl (GitGuardError (''refusing execution-bearing git command: cannot stat '' @ path)))"

definition isDirectory :: "guard_fs \<Rightarrow> string \<Rightarrow> bool result" where
  "isDirectory fs path = bindR (statForGuard fs path) (\<lambda>s. Inr (s = Some DirStat))"

text \<open>\<open>/^gitdir:\s*(.+)$/\<close> on the first line, trimmed.\<close>

definition gitdir_target :: "string \<Rightarrow> string option" where
  "gitdir_target text =
     (let pointer = trim (hd (splitOn (CHR 0x0A) text)); body = dropWhile is_space (drop 7 pointer) in
      if startsWith pointer ''gitdir:'' \<and> body \<noteq> [] \<and> list_all (\<lambda>c. \<not> is_line_terminator c) body
      then Some (trim body) else None)"

definition absolute_in :: "string \<Rightarrow> string \<Rightarrow> string" where
  "absolute_in dir p = (if isAbsolute p then p else resolve_path dir p)"

definition if_directory :: "guard_fs \<Rightarrow> string \<Rightarrow> string option result" where
  "if_directory fs dir = bindR (isDirectory fs dir) (\<lambda>b. Inr (if b then Some dir else None))"

definition resolveGitDir :: "guard_fs \<Rightarrow> string option \<Rightarrow> (string \<Rightarrow> string option) \<Rightarrow> string option result" where
  "resolveGitDir fs cwd env =
     (let dir = (case cwd of Some d \<Rightarrow> d | None \<Rightarrow> gf_cwd fs); dotGit = join_path dir ''.git'' in
      case env ''GIT_DIR'' of
        Some (c # g) \<Rightarrow> if_directory fs (absolute_in dir (c # g))
      | _ \<Rightarrow>
          bindR (statForGuard fs dotGit) (\<lambda>st.
          case st of
            None \<Rightarrow> Inr None
          | Some DirStat \<Rightarrow> Inr (Some dotGit)
          | Some OtherStat \<Rightarrow> Inr None
          | Some FileStat \<Rightarrow>
              bindR (gf_read fs dotGit) (\<lambda>text.
              case gitdir_target text of
                None \<Rightarrow> Inr None
              | Some t \<Rightarrow> if_directory fs (absolute_in dir t))))"

definition resolveCommonDir :: "guard_fs \<Rightarrow> string \<Rightarrow> string \<Rightarrow> (string \<Rightarrow> string option) \<Rightarrow> string result" where
  "resolveCommonDir fs gitDir dir env =
     (let or_gitDir = (\<lambda>d. bindR (if_directory fs d) (\<lambda>r. Inr (case r of Some x \<Rightarrow> x | None \<Rightarrow> gitDir)));
          pointer = join_path gitDir ''commondir'' in
      case env ''GIT_COMMON_DIR'' of
        Some (c # g) \<Rightarrow> or_gitDir (absolute_in dir (c # g))
      | _ \<Rightarrow>
          bindR (statForGuard fs pointer) (\<lambda>st.
          if st \<noteq> Some FileStat then Inr gitDir
          else bindR (gf_read fs pointer) (\<lambda>text.
            if trim text = [] then Inr gitDir else or_gitDir (absolute_in gitDir (trim text)))))"

definition localConfigFiles :: "string \<Rightarrow> string \<Rightarrow> string list" where
  "localConfigFiles commonDir gitDir =
     rev (remdups (rev [join_path commonDir ''config'', join_path gitDir ''config'', join_path gitDir ''config.worktree'']))"

definition readConfigText :: "guard_fs \<Rightarrow> string \<Rightarrow> string option result" where
  "readConfigText fs file =
     bindR (statForGuard fs file) (\<lambda>st.
     case st of
       None \<Rightarrow> Inr None
     | Some FileStat \<Rightarrow> (case gf_read fs file of
           Inr text \<Rightarrow> Inr (Some text)
         | Inl _ \<Rightarrow> Inl (GitGuardError (''refusing execution-bearing git command: cannot read repository-local config '' @ file)))
     | Some _ \<Rightarrow> Inl (GitGuardError (''refusing execution-bearing git command: repository-local config '' @ file @ '' is not a regular file'')))"

text \<open>The loop over the configuration files; \<open>finder\<close> looks for a key to refuse.\<close>

fun check_files :: "guard_fs \<Rightarrow> string \<Rightarrow> (string \<Rightarrow> string option) \<Rightarrow> string list \<Rightarrow> unit result" where
  "check_files fs what finder [] = Inr ()"
| "check_files fs what finder (file # files) =
     bindR (readConfigText fs file) (\<lambda>t.
     case t of
       None \<Rightarrow> check_files fs what finder files
     | Some text \<Rightarrow> (case finder text of
           Some key \<Rightarrow> Inl (GitGuardError (what @ '': repository-local config defines '' @ key @ '' in '' @ file))
         | None \<Rightarrow> check_files fs what finder files))"

definition check_repository ::
  "guard_fs \<Rightarrow> string \<Rightarrow> (string \<Rightarrow> string option) \<Rightarrow> string option \<Rightarrow> (string \<Rightarrow> string option) \<Rightarrow> unit result"
where
  "check_repository fs what finder cwd env =
     bindR (resolveGitDir fs cwd env) (\<lambda>g.
     case g of
       None \<Rightarrow> Inl (GitGuardError (what @ '': repository git directory could not be resolved''))
     | Some gitDir \<Rightarrow>
         bindR (resolveCommonDir fs gitDir (case cwd of Some d \<Rightarrow> d | None \<Rightarrow> gf_cwd fs) env) (\<lambda>commonDir.
         check_files fs what finder (localConfigFiles commonDir gitDir)))"

definition assertRepositoryLocalConfigSafe :: "guard_fs \<Rightarrow> string option \<Rightarrow> (string \<Rightarrow> string option) \<Rightarrow> unit result" where
  "assertRepositoryLocalConfigSafe fs cwd env =
     check_repository fs ''refusing execution-bearing git command'' findExecutionBearingLocalKey cwd env"

definition assertRemoteTransportSafe :: "guard_fs \<Rightarrow> string option \<Rightarrow> (string \<Rightarrow> string option) \<Rightarrow> unit result" where
  "assertRemoteTransportSafe fs cwd env =
     check_repository fs ''refusing remote-transport git command'' findUnsafeRemoteKey cwd env"

definition hardenGitArgv :: "guard_fs \<Rightarrow> string option \<Rightarrow> (string \<Rightarrow> string option) \<Rightarrow> string list \<Rightarrow> string list result" where
  "hardenGitArgv fs cwd env argv = (case argv of
     [] \<Rightarrow> Inr argv
   | binary # args \<Rightarrow>
       if \<not> isGitBinary binary then Inr argv
       else (case findGitSubcommand argv of
           None \<Rightarrow> Inr argv
         | Some (index, subcommand) \<Rightarrow>
             bindR (assertNoCallerConfigOverride argv index subcommand) (\<lambda>_.
             bindR (if subcommand \<in> set GIT_EXECUTION_SUBCOMMANDS then assertRepositoryLocalConfigSafe fs cwd env else Inr ()) (\<lambda>_.
             bindR (if subcommand \<in> set GIT_REMOTE_SUBCOMMANDS then assertRemoteTransportSafe fs cwd env else Inr ()) (\<lambda>_.
             Inr (binary # GIT_NEUTRALIZE_FLAGS @ args))))))"

section \<open>The neutralizing options win\<close>

text \<open>
  The settings git takes from its command line, in their order: the pairs behind \<open>-c\<close> in
  front of the subcommand.  The last setting of a key counts.
\<close>

fun command_settings :: "string list \<Rightarrow> (string \<times> string) list" where
  "command_settings [] = []"
| "command_settings (t # ts) =
     (if t = ''--'' \<or> \<not> startsWith t ''-'' then []
      else if t = ''-c'' then
        (case ts of [] \<Rightarrow> [] | p # r \<Rightarrow> (config_key p, drop 1 (dropWhile (\<lambda>c. c \<noteq> CHR ''='') p)) # command_settings r)
      else if t \<in> set GIT_OPTIONS_WITH_VALUE then (case ts of [] \<Rightarrow> [] | _ # r \<Rightarrow> command_settings r)
      else command_settings ts)"

definition effective_setting :: "string list \<Rightarrow> string \<Rightarrow> string option" where
  "effective_setting argv key = map_of (rev (command_settings (drop 1 argv))) key"

definition VALUE_OPTIONS :: "string list" where
  "VALUE_OPTIONS = [''--git-dir'', ''--work-tree'', ''--namespace'', ''--config-env'', ''--exec-path'']"

lemma find_subcommand_ge: "find_subcommand i ts = Some (j, sub) \<Longrightarrow> i \<le> j \<and> j < i + length ts \<and> ts ! (j - i) = sub"
proof (induction i ts rule: find_subcommand.induct)
  case (2 i t ts)
  then show ?case
    by (fastforce split: if_splits list.splits simp: nth_Cons' numeral_2_eq_2)
qed simp

lemma caller_settings_kept_out:
  "find_subcommand i ts = Some (j, sub) \<Longrightarrow> no_override sub (j - i) ts = Inr () \<Longrightarrow>
   set (take (j - i) ts) \<inter> set VALUE_OPTIONS = {} \<Longrightarrow> (k, v) \<in> set (command_settings ts) \<Longrightarrow> k \<notin> set GIT_NEUTRALIZED_KEYS"
proof (induction i ts rule: find_subcommand.induct)
  case (2 i t ts)
  show ?case
  proof (cases "t = ''-c''")
    case True
    with "2.prems"(1) obtain p r where ts: "ts = p # r" and f: "find_subcommand (i + 2) r = Some (j, sub)"
      by (auto simp: startsWith_def GIT_OPTIONS_WITH_VALUE_def split: list.splits if_splits)
    have j: "i + 2 \<le> j" using find_subcommand_ge [OF f] by simp
    then have n: "j - i = Suc (Suc (j - (i + 2)))" by arith
    have "config_key p \<notin> set GIT_NEUTRALIZED_KEYS" "no_override sub (j - (i + 2)) r = Inr ()"
      using "2.prems"(2) True ts unfolding n by (auto split: if_splits)
    moreover have "set (take (j - (i + 2)) r) \<inter> set VALUE_OPTIONS = {}"
      using "2.prems"(3) ts unfolding n by auto
    ultimately show ?thesis
      using "2.IH"(1) [OF _ _ _ ts f] "2.prems"(4) True ts
      by (auto simp: startsWith_def GIT_OPTIONS_WITH_VALUE_def)
  next
    case False
    have j: "i < j \<or> i = j" using find_subcommand_ge [OF "2.prems"(1)] by auto
    show ?thesis
    proof (cases "t = ''--'' \<or> \<not> startsWith t ''-''")
      case True
      with "2.prems"(4) show ?thesis by auto
    next
      case dash: False
      then have "i < j"
        using "2.prems"(1) by (auto split: if_splits list.splits dest!: find_subcommand_ge)
      then have n: "j - i = Suc (j - (i + 1))" by arith
      have tC: "t \<noteq> ''-C''"
        using "2.prems"(2) unfolding n by auto
      have "t \<notin> set VALUE_OPTIONS"
        using "2.prems"(3) unfolding n by (simp del: insert_disjoint disjoint_insert) blast
      then have t: "t \<notin> set GIT_OPTIONS_WITH_VALUE"
        using tC False by (simp add: GIT_OPTIONS_WITH_VALUE_def VALUE_OPTIONS_def)
      have "find_subcommand (i + 1) ts = Some (j, sub)" "(k, v) \<in> set (command_settings ts)"
        using "2.prems"(1,4) False dash t by simp_all
      moreover have "no_override sub (j - (i + 1)) ts = Inr ()"
        using "2.prems"(2) False tC unfolding n by simp
      moreover have "set (take (j - (i + 1)) ts) \<inter> set VALUE_OPTIONS = {}"
        using "2.prems"(3) unfolding n by (simp del: insert_disjoint disjoint_insert) blast
      ultimately show ?thesis
        using "2.IH"(2) dash t by blast
    qed
  qed
qed simp

lemma neutral_first:
  "command_settings (GIT_NEUTRALIZE_FLAGS @ ts) =
     [(''core.hookspath'', ''/dev/null''), (''core.fsmonitor'', ''false''), (''core.pager'', ''cat'')] @ command_settings ts"
proof -
  have "config_key ''core.hooksPath=/dev/null'' = ''core.hookspath''" "config_key ''core.fsmonitor=false'' = ''core.fsmonitor''"
      "config_key ''core.pager=cat'' = ''core.pager''"
    by code_simp+
  then show ?thesis by (simp add: GIT_NEUTRALIZE_FLAGS_def startsWith_def)
qed

lemma hardenGitArgv_ok:
  assumes "hardenGitArgv fs cwd env argv = Inr argv'" "isGitBinary (hd argv)" "findGitSubcommand argv = Some (index, sub)"
  shows "argv' = hd argv # GIT_NEUTRALIZE_FLAGS @ tl argv" "assertNoCallerConfigOverride argv index sub = Inr ()"
    "sub \<in> set GIT_EXECUTION_SUBCOMMANDS \<Longrightarrow> assertRepositoryLocalConfigSafe fs cwd env = Inr ()"
    "sub \<in> set GIT_REMOTE_SUBCOMMANDS \<Longrightarrow> assertRemoteTransportSafe fs cwd env = Inr ()"
  using assms by (auto simp: hardenGitArgv_def bindR_eq_Inr findGitSubcommand_def split: list.splits)


definition demo_guard_fs :: "string \<Rightarrow> guard_fs" where
  "demo_guard_fs config = \<lparr>gf_stat = (\<lambda>p. Inr (if p = ''/p/.git'' then Some DirStat else if p = ''/p/.git/config'' then Some FileStat else None)),
     gf_read = (\<lambda>_. Inr config), gf_cwd = ''/''\<rparr>"

definition demo_git_argv :: "string list" where
  "demo_git_argv = [''git'', ''-c'', ''user.name=x'', ''commit'', ''-m'', ''y'']"

lemma demo_hardened:
  "hardenGitArgv (demo_guard_fs ''[core]'') (Some ''/p'') (\<lambda>_. None) demo_git_argv = Inr (''git'' # GIT_NEUTRALIZE_FLAGS @ tl demo_git_argv)"
  by code_simp


text \<open>
  The check for overrides reads the words in front of the subcommand differently from
  the search for the subcommand: it does not skip the value of \<open>--namespace\<close> and the like,
  so a value \<open>-c\<close> hides the setting behind it, and that setting is the one that counts.
\<close>

theorem override_hidden_behind_value:
  "\<exists>argv'. hardenGitArgv (demo_guard_fs ''[core]'') (Some ''/p'') (\<lambda>_. None)
       [''git'', ''--namespace'', ''-c'', ''-c'', ''core.pager=evil'', ''diff''] = Inr argv' \<and>
     effective_setting argv' ''core.pager'' = Some ''evil''"
proof (intro exI conjI)
  show "hardenGitArgv (demo_guard_fs ''[core]'') (Some ''/p'') (\<lambda>_. None)
       [''git'', ''--namespace'', ''-c'', ''-c'', ''core.pager=evil'', ''diff''] =
     Inr (''git'' # GIT_NEUTRALIZE_FLAGS @ [''--namespace'', ''-c'', ''-c'', ''core.pager=evil'', ''diff''])"
    by code_simp
  show "effective_setting (''git'' # GIT_NEUTRALIZE_FLAGS @ [''--namespace'', ''-c'', ''-c'', ''core.pager=evil'', ''diff'']) ''core.pager'' = Some ''evil''"
    by code_simp
qed


section \<open>Reading what git writes\<close>

text \<open>A configuration as \<open>git config\<close> writes it: a header per section and one line per key.\<close>

type_synonym config_block = "string \<times> string option \<times> (string \<times> string) list"

definition escape_sub :: "string \<Rightarrow> string" where
  "escape_sub s = concat (map (\<lambda>c. if c = BS \<or> c = DQ then [BS, c] else [c]) s)"

fun header_line :: "string \<Rightarrow> string option \<Rightarrow> string" where
  "header_line sect None = ''['' @ sect @ '']''"
| "header_line sect (Some sub) = ''['' @ sect @ '' '' @ [DQ] @ escape_sub sub @ [DQ] @ '']''"

definition key_line :: "string \<times> string \<Rightarrow> string" where
  "key_line kv = CHR 0x09 # fst kv @ '' = '' @ snd kv"

definition block_lines :: "config_block \<Rightarrow> string list" where
  "block_lines b = (case b of (sect, sub, kvs) \<Rightarrow> header_line sect sub # map key_line kvs)"

definition config_text :: "config_block list \<Rightarrow> string" where
  "config_text bs = joinWith [CHR 0x0A] (concat (map block_lines bs) @ [[]])"

definition block_entries :: "config_block \<Rightarrow> git_config_entry list" where
  "block_entries b = (case b of (sect, sub, kvs) \<Rightarrow>
     map (\<lambda>(k, v). \<lparr>ge_section = sect, ge_subsection = sub, ge_key = k, ge_value = v\<rparr>) kvs)"

text \<open>Names in lower case; values without quotes, comment signs, escapes and surrounding blanks.\<close>

definition name_char :: "char \<Rightarrow> bool" where
  "name_char c = (is_lower c \<or> is_digit c \<or> c = CHR ''-'')"

definition value_char :: "char \<Rightarrow> bool" where
  "value_char c = (c \<notin> {BS, DQ, CHR ''#'', CHR '';'', CHR 0x0A})"

definition sub_char :: "char \<Rightarrow> bool" where
  "sub_char c = (\<not> is_line_terminator c \<and> \<not> is_upper c)"

definition block_ok :: "config_block \<Rightarrow> bool" where
  "block_ok b = (case b of (sect, sub, kvs) \<Rightarrow>
     sect \<noteq> [] \<and> list_all name_char sect \<and> (case sub of None \<Rightarrow> True | Some s \<Rightarrow> list_all sub_char s) \<and>
     list_all (\<lambda>(k, v). k \<noteq> [] \<and> is_lower (hd k) \<and> list_all name_char k \<and> list_all value_char v \<and> trim v = v) kvs)"

lemma lower_id: "list_all (\<lambda>c. \<not> is_upper c) s \<Longrightarrow> toLowerCase s = s"
  by (induction s) (auto simp: toLowerCase_def to_lower_char_def)

lemma name_char_facts:
  assumes "name_char c"
  shows "section_char c" "\<not> is_upper c" "\<not> is_space c" "value_char c" "c \<noteq> CHR ''=''" "c \<noteq> CHR ''.''" "is_alnum c \<or> c = CHR ''-''"
  using assms by (auto simp: name_char_def section_char_def is_alnum_def is_alpha_def is_lower_def is_upper_def is_digit_def is_space_def
      value_char_def BS_def DQ_def)

lemma trim_id: "s = [] \<or> \<not> is_space (hd s) \<and> \<not> is_space (last s) \<Longrightarrow> trim s = s"
  by (cases s) (auto simp: trim_def dropWhile_eq_self_iff hd_append hd_rev)

lemma strip_plain: "list_all value_char s \<Longrightarrow> strip_from False (s @ r) = s @ strip_from False r"
  by (induction s) (auto simp: value_char_def)

lemma strip_escaped: "strip_from True (escape_sub s @ DQ # r) = escape_sub s @ DQ # strip_from False r"
  by (induction s) (auto simp: escape_sub_def BS_def DQ_def)

lemma quoted_body_escaped: "list_all sub_char s \<Longrightarrow> quoted_body (escape_sub s @ DQ # r) = Some (escape_sub s, r)"
  by (induction s) (auto simp: escape_sub_def BS_def DQ_def sub_char_def is_line_terminator_def)

lemma unescape_escaped: "list_all sub_char s \<Longrightarrow> unescape (escape_sub s) = s"
  by (induction s) (auto simp: escape_sub_def BS_def DQ_def sub_char_def is_line_terminator_def)

lemma split_plain:
  "list_all (\<lambda>c. value_char c \<and> c \<noteq> t) s \<Longrightarrow> t \<noteq> BS \<Longrightarrow> t \<noteq> DQ \<Longrightarrow> split_unquoted False t (s @ t # r) = Some (s, r)"
  by (induction s) (auto simp: value_char_def)

lemma continue_plain: "\<not> endsWith l [BS] \<Longrightarrow> continue_line l ls = (l, ls)"
  by (cases ls) auto

lemma header_round_trip:
  assumes "sect \<noteq> []" "list_all name_char sect" "case sub of None \<Rightarrow> True | Some s \<Rightarrow> list_all sub_char s"
  shows "stripComment (header_line sect sub) = header_line sect sub" "parseSectionHeader (header_line sect sub) = Some (sect, sub)"
    "CHR 0x0A \<notin> set (header_line sect sub)"
proof -
  have low: "toLowerCase sect = sect" "CHR ''.'' \<notin> set sect"
    using assms(2) name_char_facts(2) name_char_facts(6) [of "CHR ''.''"] by (auto intro!: lower_id simp: list_all_iff)
  have vs: "list_all value_char sect" "list_all section_char sect"
    using assms(2) name_char_facts by (auto simp: list_all_iff)
  have tw: "takeWhile section_char (sect @ x) = sect @ takeWhile section_char x" "dropWhile section_char (sect @ x) = dropWhile section_char x" for x
    using vs(2) by (auto simp: list_all_iff)
  show "stripComment (header_line sect sub) = header_line sect sub"
  proof (cases sub)
    case None
    have "strip_from False (''['' @ (sect @ '']'')) = ''['' @ sect @ '']''"
      using strip_plain [OF vs(1), of "'']''"] by (simp add: BS_def DQ_def)
    with None show ?thesis by (simp add: stripComment_def)
  next
    case (Some s)
    have "strip_from False (''['' @ (sect @ ('' '' @ (DQ # (escape_sub s @ DQ # '']''))))) = ''['' @ sect @ '' '' @ (DQ # (escape_sub s @ DQ # '']''))"
      using strip_plain [OF vs(1), of "'' '' @ (DQ # (escape_sub s @ DQ # '']''))"] strip_escaped [of s "'']''"]
      by (simp add: BS_def DQ_def)
    with Some show ?thesis by (simp add: stripComment_def)
  qed
  show "parseSectionHeader (header_line sect sub) = Some (sect, sub)"
  proof (cases sub)
    case None
    have "match_section (header_line sect None) = Some (sect, None)"
      using assms(1) by (simp add: match_section_def startsWith_def tw section_char_def is_alnum_def is_alpha_def is_lower_def is_upper_def is_digit_def
          closes_header_def is_space_def)
    with None low assms(1) show ?thesis by (simp add: parseSectionHeader_def)
  next
    case (Some s)
    have "match_section (header_line sect (Some s)) = Some (sect, Some (escape_sub s))"
      using assms(1,3) Some quoted_body_escaped [of s "'']''"]
      by (simp add: match_section_def startsWith_def tw section_char_def is_alnum_def is_alpha_def is_lower_def is_upper_def is_digit_def
          closes_header_def is_space_def DQ_def)
    moreover have "toLowerCase (unescape (escape_sub s)) = s"
      using assms(3) Some unescape_escaped [of s] by (auto intro!: lower_id simp: list_all_iff sub_char_def)
    ultimately show ?thesis using Some low assms(1) by (simp add: parseSectionHeader_def)
  qed
  have "CHR 0x0A \<notin> set sect" using vs(1) by (auto simp: list_all_iff value_char_def)
  moreover have "CHR 0x0A \<notin> set (escape_sub s)" if "sub = Some s" for s
    using assms(3) that by (auto simp: list_all_iff sub_char_def is_line_terminator_def escape_sub_def BS_def)
  ultimately show "CHR 0x0A \<notin> set (header_line sect sub)"
    by (cases sub) (auto simp: DQ_def)
qed

lemma key_line_round_trip:
  assumes "k \<noteq> []" "is_lower (hd k)" "list_all name_char k" "list_all value_char v" "trim v = v"
  defines "l \<equiv> key_line (k, v)"
  shows "stripComment l = l" "\<not> endsWith l [BS]" "trim l \<noteq> []" "\<not> startsWith (trim l) ''[''"
    "parseKeyLine (trim l) = Some k" "line_value (trim l) = v" "CHR 0x0A \<notin> set l"
proof -
  have ks: "list_all value_char k" "list_all (\<lambda>c. \<not> is_space c) k" "toLowerCase k = k" "CHR ''='' \<notin> set k" "GIT_KEY_RE k"
  proof -
    show "list_all value_char k" "list_all (\<lambda>c. \<not> is_space c) k" "toLowerCase k = k"
      using assms(3) name_char_facts by (auto intro!: lower_id simp: list_all_iff)
    show "CHR ''='' \<notin> set k"
      using assms(3) name_char_facts(5) [of "CHR ''=''"] by (auto simp: list_all_iff)
    show "GIT_KEY_RE k"
      using assms(1-3) name_char_facts(7) by (cases k) (auto simp: GIT_KEY_RE_def list_all_iff is_alpha_def)
  qed
  have "value_char (CHR 0x09)" "value_char (CHR '' '')" "value_char (CHR ''='')"
    by (simp_all add: value_char_def BS_def DQ_def)
  then have all: "list_all value_char l"
    using ks(1) assms(4) by (simp add: l_def key_line_def)
  then show "stripComment l = l"
    using strip_plain [of l "[]"] by (simp add: stripComment_def)
  show "\<not> endsWith l [BS]"
  proof
    assume "endsWith l [BS]"
    then obtain t where "l = t @ [BS]" by (rule endsWithE)
    then show False using all by (simp add: value_char_def)
  qed
  show "CHR 0x0A \<notin> set l"
    using all by (auto simp: list_all_iff value_char_def)
  have hk: "\<not> is_space (hd k)" "hd k \<noteq> CHR ''[''"
    using assms(1,2) ks(2) by (cases k; auto simp: is_lower_def)+
  let ?t = "k @ '' ='' @ (if v = [] then [] else CHR '' '' # v)"
  have t: "trim l = ?t"
  proof -
    have "dropWhile is_space l = k @ '' = '' @ v"
      using hk assms(1) by (cases k) (auto simp: l_def key_line_def is_space_def)
    moreover have "rev (dropWhile is_space (rev (k @ '' = '' @ v))) = ?t"
    proof (cases "v = []")
      case False
      have "\<not> is_space (last v)"
      proof
        assume "is_space (last v)"
        moreover have "\<not> is_space (last (trim v))"
        proof -
          have "trim v \<noteq> []" using False assms(5) by simp
          then have "dropWhile is_space (rev (dropWhile is_space v)) \<noteq> []" by (simp add: trim_def)
          from hd_dropWhile [OF this] show ?thesis
            using \<open>trim v \<noteq> []\<close> by (simp add: trim_def last_rev)
        qed
        ultimately show False using assms(5) by simp
      qed
      then have "dropWhile is_space (rev v @ x) = rev v @ x" for x
        using False by (cases v rule: rev_cases) auto
      with False show ?thesis by simp
    qed (simp add: is_space_def)
    ultimately show ?thesis by (simp add: trim_def)
  qed
  show "trim l \<noteq> []" using t by simp
  show "\<not> startsWith (trim l) ''[''" using t hk(2) assms(1) by (cases k) (auto simp: startsWith_def)
  let ?b = "if v = [] then [] else CHR '' '' # v"
  have "split_unquoted False (CHR ''='') ((k @ '' '') @ CHR ''='' # ?b) = Some (k @ '' '', ?b)"
    using ks(1,4) by (intro split_plain) (auto simp: list_all_iff value_char_def BS_def DQ_def)
  then have sp: "split_unquoted False (CHR ''='') (trim l) = Some (k @ '' '', ?b)" by (simp add: t)
  have "dropWhile is_space (k @ '' '') = k @ '' ''" using hk assms(1) by (cases k) auto
  moreover have "dropWhile is_space (rev k) = rev k"
    using ks(2) by (cases k rule: rev_cases) (auto simp: list_all_iff)
  ultimately have "trim (k @ '' '') = k"
    by (simp add: trim_def) (simp add: is_space_def)
  with sp ks show "parseKeyLine (trim l) = Some k" by (simp add: parseKeyLine_def)
  have "trim ?b = v"
    using assms(5) by (cases "v = []") (auto simp: trim_def is_space_def)
  moreover have "\<not> startsWith v [DQ]"
    using assms(4) by (cases v) (auto simp: startsWith_def value_char_def)
  ultimately show "line_value (trim l) = v" using sp by (simp add: line_value_def unquote_value_def)
qed

lemma parse_key_lines:
  assumes "sect \<noteq> []" "list_all (\<lambda>(k, v). k \<noteq> [] \<and> is_lower (hd k) \<and> list_all name_char k \<and> list_all value_char v \<and> trim v = v) kvs"
  shows "parse_lines sect sub (map key_line kvs @ ls) = block_entries (sect, sub, kvs) @ parse_lines sect sub ls"
  using assms(2)
proof (induction kvs)
  case (Cons kv kvs)
  obtain k v where kv: "kv = (k, v)" by fastforce
  note r = key_line_round_trip [of k v]
  have ok: "k \<noteq> []" "is_lower (hd k)" "list_all name_char k" "list_all value_char v" "trim v = v"
    using Cons.prems kv by auto
  have "continue_line (stripComment (key_line (k, v))) ys = (key_line (k, v), ys)" for ys
    using r(1,2) [OF ok] by (simp add: continue_plain)
  then have "parse_lines sect sub (key_line (k, v) # ys) =
      \<lparr>ge_section = sect, ge_subsection = sub, ge_key = k, ge_value = v\<rparr> # parse_lines sect sub ys" for ys
    using r(3-6) [OF ok] assms(1) by simp
  with Cons kv show ?case by (simp add: block_entries_def)
qed (simp add: block_entries_def)

lemma parse_block:
  assumes "block_ok (sect', sub', kvs)"
  shows "parse_lines sect sub (block_lines (sect', sub', kvs) @ ls) = block_entries (sect', sub', kvs) @ parse_lines sect' sub' ls"
proof -
  have ok: "sect' \<noteq> []" "list_all name_char sect'" "case sub' of None \<Rightarrow> True | Some s \<Rightarrow> list_all sub_char s"
      "list_all (\<lambda>(k, v). k \<noteq> [] \<and> is_lower (hd k) \<and> list_all name_char k \<and> list_all value_char v \<and> trim v = v) kvs"
    using assms by (auto simp: block_ok_def)
  note h = header_round_trip [OF ok(1-3)]
  obtain t where t: "header_line sect' sub' = CHR ''['' # t @ '']''"
    by (cases sub') auto
  have "\<not> endsWith (header_line sect' sub') [BS]"
  proof
    assume "endsWith (header_line sect' sub') [BS]"
    then obtain u where "CHR ''['' # t @ '']'' = u @ [BS]" unfolding t by (rule endsWithE)
    from arg_cong [OF this, of last] show False by (simp add: BS_def)
  qed
  then have c: "continue_line (stripComment (header_line sect' sub')) ys = (header_line sect' sub', ys)" for ys
    by (simp add: h continue_plain)
  have tr: "trim (header_line sect' sub') = header_line sect' sub'"
    by (rule trim_id) (simp add: t is_space_def)
  have "parse_lines sect sub (header_line sect' sub' # ys) = parse_lines sect' sub' ys" for ys
    using c [of ys] h(2) tr t by (simp add: startsWith_def)
  then show ?thesis by (simp add: block_lines_def parse_key_lines [OF ok(1,4)])
qed

lemma parse_blocks:
  "list_all block_ok bs \<Longrightarrow> parse_lines sect sub (concat (map block_lines bs) @ [[]]) = concat (map block_entries bs)"
proof (induction bs arbitrary: sect sub)
  case Nil
  have "continue_line (stripComment []) [] = ([], [])" by (simp add: stripComment_def)
  then show ?case by (simp add: trim_def)
next
  case (Cons b bs)
  obtain s' b' kvs where "b = (s', b', kvs)" by (cases b)
  with Cons show ?case by (simp add: parse_block)
qed

lemma block_lines_LF: "block_ok b \<Longrightarrow> l \<in> set (block_lines b) \<Longrightarrow> CHR 0x0A \<notin> set l"
  using header_round_trip(3) key_line_round_trip(7)
  by (fastforce simp: block_ok_def block_lines_def list_all_iff split: prod.splits)

lemma parse_config_text:
  assumes "list_all block_ok bs"
  shows "parseLocalConfigValues (config_text bs) = concat (map block_entries bs)"
proof -
  have "splitOn (CHR 0x0A) (config_text bs) = concat (map block_lines bs) @ [[]]"
    unfolding config_text_def using assms block_lines_LF by (intro splitOn_join) (auto simp: list_all_iff)
  then show ?thesis
    using parse_blocks [OF assms] by (simp add: parseLocalConfigValues_def)
qed

section \<open>What the guard refuses\<close>

lemma check_files_ok:
  "check_files fs what finder files = Inr () \<Longrightarrow> file \<in> set files \<Longrightarrow> gf_stat fs file = Inr (Some FileStat) \<Longrightarrow>
   gf_read fs file = Inr text \<Longrightarrow> finder text = None"
proof (induction files)
  case (Cons f files)
  from Cons.prems(1) obtain t where t: "readConfigText fs f = Inr t"
    and rest: "(case t of None \<Rightarrow> check_files fs what finder files
      | Some text \<Rightarrow> (case finder text of
           Some key \<Rightarrow> Inl (GitGuardError (what @ '': repository-local config defines '' @ key @ '' in '' @ f))
         | None \<Rightarrow> check_files fs what finder files)) = Inr ()"
    by (auto simp: bindR_eq_Inr)
  have ok: "check_files fs what finder files = Inr ()" "\<And>x. t = Some x \<Longrightarrow> finder x = None"
    using rest by (auto split: option.splits)
  have "readConfigText fs file = Inr (Some text)"
    using Cons.prems(3,4) by (simp add: readConfigText_def statForGuard_def)
  with ok t Cons show ?case by (cases "file = f") auto
qed simp

lemma check_repository_ok:
  "check_repository fs what finder cwd env = Inr () \<Longrightarrow> resolveGitDir fs cwd env = Inr (Some g) \<Longrightarrow>
   resolveCommonDir fs g (case cwd of Some d \<Rightarrow> d | None \<Rightarrow> gf_cwd fs) env = Inr c \<Longrightarrow>
   check_files fs what finder (localConfigFiles c g) = Inr ()"
  by (auto simp: check_repository_def bindR_eq_Inr)

lemma first_unsafe_None: "first_unsafe es = None \<longleftrightarrow> (\<forall>e \<in> set es. unsafe_remote e = None)"
  by (induction es) (auto split: option.splits)


definition demo_blocks :: "config_block list" where
  "demo_blocks = [(''filter'', Some ''x'', [(''clean'', ''evil'')])]"


text \<open>
  The guard reads a configuration file line by line, git does not: a key on the line of
  its section header is overlooked, and a line that ends in an escaped backslash is taken
  together with the next one, whose key is then overlooked.  Both files set
  \<open>core.sshCommand\<close> for git, and the command passes.
\<close>

theorem guard_overlooks_keys:
  "findExecutionBearingLocalKey ''[core] sshCommand = evil'' = None \<and>
   findExecutionBearingLocalKey (''[core]'' @ nl @ ''x = a'' @ [BS, BS] @ nl @ ''sshCommand = evil'') = None \<and>
   findExecutionBearingLocalKey (''[core]'' @ nl @ ''sshCommand = evil'') = Some ''core.sshcommand'' \<and>
   is_ok (hardenGitArgv (demo_guard_fs ''[core] sshCommand = evil'') (Some ''/p'') (\<lambda>_. None) [''git'', ''fetch'', ''origin''])"
  by (intro conjI) code_simp+

text \<open>
  The program that signs commits can be set per signature format, and those keys are
  not among the refused ones.
\<close>

theorem signing_program_of_format_passes:
  "isExecutionBearingLocalKey ''gpg'' None ''program'' \<and> \<not> isExecutionBearingLocalKey ''gpg'' (Some format) ''program''"
  by (simp add: isExecutionBearingLocalKey_def)

end
