(* ===== verification/Msb.thy ===== *)
theory Msb
  imports HostRead GitGuard
begin

text \<open>
  The worker adapter, \<^verbatim>\<open>broker/src/msb.ts\<close>: the byte sink behind every spawned process,
  the checks in front of a spawn, and the commands of the adapter with their argument
  vectors, time limits and error paths.  What a spawned process returns is an argument;
  numbers that are printed as they come (\<open>cpu\<close>) are given as text.
\<close>

section \<open>The sink of a stream\<close>

record sink =
  sk_chunks :: "string list"
  sk_bytes :: nat
  sk_truncated :: bool

definition new_sink :: sink where
  "new_sink = \<lparr>sk_chunks = [], sk_bytes = 0, sk_truncated = False\<rparr>"

definition sink_push :: "nat \<Rightarrow> sink \<Rightarrow> string \<Rightarrow> sink" where
  "sink_push cap sk chunk =
     (if sk_truncated sk then sk
      else let remaining = cap - sk_bytes sk in
        if length chunk \<le> remaining then sk\<lparr>sk_chunks := sk_chunks sk @ [chunk], sk_bytes := sk_bytes sk + length chunk\<rparr>
        else \<lparr>sk_chunks = (if 0 < remaining then sk_chunks sk @ [take remaining chunk] else sk_chunks sk),
              sk_bytes = cap, sk_truncated = True\<rparr>)"

definition sink_text :: "sink \<Rightarrow> string" where
  "sink_text sk = concat (sk_chunks sk)"

section \<open>Spawning\<close>

record spawn_options =
  so_timeoutMs :: int
  so_cwd :: "string option"
  so_maxOutputBytes :: nat

type_synonym spawner = "string list \<Rightarrow> spawn_options \<Rightarrow> host_spawned result"

text \<open>The vector that reaches the operating system: a program name, hardened when it is git.\<close>

definition spawn_argv :: "guard_fs \<Rightarrow> (string \<Rightarrow> string option) \<Rightarrow> string option \<Rightarrow> string list \<Rightarrow> string list result" where
  "spawn_argv fs env cwd argv = (case argv of
     [] \<Rightarrow> Inl (ValidationError ''invalid executable path'')
   | binary # _ \<Rightarrow>
       if binary = [] \<or> CHR 0x00 \<in> set binary then Inl (ValidationError ''invalid executable path'')
       else bindR (hardenGitArgv fs cwd env argv) (\<lambda>args. Inr (binary # drop 1 args)))"

fun normalizeLineEndings :: "string \<Rightarrow> string" where
  "normalizeLineEndings [] = []"
| "normalizeLineEndings (c # s) =
     (if c = CHR 0x0D then (case s of d # r \<Rightarrow> if d = CHR 0x0A then d # normalizeLineEndings r else c # normalizeLineEndings s | [] \<Rightarrow> [c])
      else c # normalizeLineEndings s)"

text \<open>\<open>Math.max(1, Math.round(bytes / MiB))\<close>\<close>

definition memSizeString :: "nat \<Rightarrow> string" where
  "memSizeString bytes = (let MiB = 1024 * 1024 in show_nat (max 1 ((2 * bytes + MiB) div (2 * MiB))) @ ''M'')"

definition cappedTimeoutMs :: "int \<Rightarrow> int \<Rightarrow> int" where
  "cappedTimeoutMs requested mx = max 1000 (min requested mx)"

text \<open>\<open>trim\<close> of this file, with its ellipsis in UTF-8.\<close>

definition trim_error :: "string \<Rightarrow> string" where
  "trim_error s = (let t = trim s in if 2000 < length t then take 2000 t @ [CHR 0xE2, CHR 0x80, CHR 0xA6] else t)"

section \<open>The environment of a worker command\<close>

definition CREDENTIAL_WORDS :: "string list" where
  "CREDENTIAL_WORDS = [''token'', ''secret'', ''password'', ''credential'', ''auth'', ''apikey'', ''api_key'', ''api-key'',
     ''privatekey'', ''private_key'', ''private-key'']"

definition CREDENTIAL_KEY_RE :: "string \<Rightarrow> bool" where
  "CREDENTIAL_KEY_RE key = list_ex (strIncludes (toLowerCase key)) CREDENTIAL_WORDS"

fun env_entries :: "string list \<Rightarrow> (string \<times> js) list \<Rightarrow> (string \<times> string) list result" where
  "env_entries allowedKeys [] = Inr []"
| "env_entries allowedKeys ((key, value) # rest) =
     bindR (guardR (\<not> CREDENTIAL_KEY_RE key)
       (ValidationError (''env key '' @ key @ '' looks like a credential and is always rejected (S8/S9)''))) (\<lambda>_.
     bindR (guardR (key \<in> set allowedKeys) (ValidationError (''env key '' @ key @ '' is not on the worker env allowlist''))) (\<lambda>_.
     bindR (guardR (is_str (\<lambda>_. True) value) (ValidationError (''env value for '' @ key @ '' must be a string''))) (\<lambda>_.
     bindR (guardR (js_str value \<noteq> [] \<and> length (js_str value) \<le> 4096)
       (ValidationError (''env value for '' @ key @ '' out of size bounds''))) (\<lambda>_.
     bindR (env_entries allowedKeys rest) (\<lambda>es. Inr ((key, js_str value) # es))))))"

fun assertWorkerEnv :: "js \<Rightarrow> string list \<Rightarrow> (string \<times> string) list option result" where
  "assertWorkerEnv JUndefined allowedKeys = Inr None"
| "assertWorkerEnv JNull allowedKeys = Inr None"
| "assertWorkerEnv (JObj kvs) allowedKeys = bindR (env_entries allowedKeys kvs) (\<lambda>es. Inr (Some es))"
| "assertWorkerEnv _ allowedKeys = Inl (ValidationError ''env must be an object'')"

section \<open>The adapter\<close>

record adapter_config =
  ac_msbBinary :: string
  ac_workerUser :: string
  ac_envAllowedKeys :: "string list"
  ac_execTimeoutMsDefault :: int
  ac_execTimeoutMsMax :: int
  ac_outputMaxBytes :: nat
  ac_workerRootDisk :: "string option"

definition msb_run :: "adapter_config \<Rightarrow> spawner \<Rightarrow> string list \<Rightarrow> int option \<Rightarrow> nat option \<Rightarrow> host_spawned result" where
  "msb_run cfg spawn args timeoutMs maxOutputBytes =
     bindR (spawn (ac_msbBinary cfg # args)
       \<lparr>so_timeoutMs = (case timeoutMs of Some t \<Rightarrow> t | None \<Rightarrow> ac_execTimeoutMsDefault cfg), so_cwd = None,
        so_maxOutputBytes = (case maxOutputBytes of Some n \<Rightarrow> n | None \<Rightarrow> ac_outputMaxBytes cfg)\<rparr>) (\<lambda>r.
     bindR (guardR (\<not> hs_timedOut r)
       (MsbError (''msb '' @ (case args of [] \<Rightarrow> ''?'' | a # _ \<Rightarrow> a) @ '' timed out''))) (\<lambda>_.
     Inr (r\<lparr>hs_stdout := normalizeLineEndings (hs_stdout r), hs_stderr := normalizeLineEndings (hs_stderr r)\<rparr>)))"

text \<open>A status inside a message.\<close>

definition status_text :: "int option \<Rightarrow> string" where
  "status_text s = ''(status '' @ (case s of Some i \<Rightarrow> show_int i | None \<Rightarrow> ''null'') @ '')''"

text \<open>A command that must succeed.\<close>

definition msb_checked :: "adapter_config \<Rightarrow> spawner \<Rightarrow> string list \<Rightarrow> int option \<Rightarrow> (host_spawned \<Rightarrow> string) \<Rightarrow> host_spawned result" where
  "msb_checked cfg spawn args timeoutMs msg =
     bindR (msb_run cfg spawn args timeoutMs None) (\<lambda>r.
     bindR (guardR (hs_status r = Some 0) (MsbError (msg r))) (\<lambda>_. Inr r))"

definition first_text :: "host_spawned \<Rightarrow> string" where
  "first_text r = trim_error (if hs_stderr r \<noteq> [] then hs_stderr r else hs_stdout r)"

record exec_options =
  eo_cwd :: "string option"
  eo_timeoutMs :: "int option"
  eo_env :: js
  eo_maxOutputBytes :: "nat option"

definition exec_args :: "adapter_config \<Rightarrow> string \<Rightarrow> string list \<Rightarrow> exec_options \<Rightarrow> (string \<times> string) list option \<Rightarrow> string list" where
  "exec_args cfg workerName argv opts env =
     [''exec'', workerName, ''-u'', ac_workerUser cfg] @
     (case env of None \<Rightarrow> [] | Some es \<Rightarrow> concat (map (\<lambda>(k, v). [''-e'', k @ ''='' @ v]) es)) @
     (case eo_cwd opts of Some (c # d) \<Rightarrow> [''-w'', c # d] | _ \<Rightarrow> []) @
     (case eo_timeoutMs opts of
        Some t \<Rightarrow> if t \<noteq> 0 then [''--timeout'', show_int (cappedTimeoutMs t (ac_execTimeoutMsMax cfg))] else []
      | None \<Rightarrow> []) @ [''--''] @ argv"

definition adapter_exec :: "adapter_config \<Rightarrow> spawner \<Rightarrow> string \<Rightarrow> string list \<Rightarrow> exec_options \<Rightarrow> host_spawned result" where
  "adapter_exec cfg spawn workerName argv opts =
     bindR (assertWorkerEnv (eo_env opts) (ac_envAllowedKeys cfg)) (\<lambda>env.
     msb_run cfg spawn (exec_args cfg workerName argv opts env)
       (Some (cappedTimeoutMs (case eo_timeoutMs opts of Some t \<Rightarrow> t | None \<Rightarrow> ac_execTimeoutMsDefault cfg) (ac_execTimeoutMsMax cfg) + 10000))
       (eo_maxOutputBytes opts))"

definition adapter_copyIn :: "adapter_config \<Rightarrow> spawner \<Rightarrow> string \<Rightarrow> string \<Rightarrow> string \<Rightarrow> unit result" where
  "adapter_copyIn cfg spawn workerName hostSrc workerDest =
     bindR (msb_checked cfg spawn [''copy'', hostSrc, workerName @ '':'' @ workerDest] None (\<lambda>r. ''msb copy failed: '' @ first_text r)) (\<lambda>_. Inr ())"

definition adapter_copyOut :: "adapter_config \<Rightarrow> spawner \<Rightarrow> string \<Rightarrow> string \<Rightarrow> string \<Rightarrow> unit result" where
  "adapter_copyOut cfg spawn workerName workerSrc hostDest =
     bindR (msb_checked cfg spawn [''copy'', workerName @ '':'' @ workerSrc, hostDest] None (\<lambda>r. ''msb copy failed: '' @ first_text r)) (\<lambda>_. Inr ())"

definition adapter_stop :: "adapter_config \<Rightarrow> spawner \<Rightarrow> string \<Rightarrow> unit result" where
  "adapter_stop cfg spawn workerName =
     bindR (msb_checked cfg spawn [''stop'', workerName] (Some 60000) (\<lambda>_. ''msb stop failed'')) (\<lambda>_. Inr ())"

definition adapter_remove :: "adapter_config \<Rightarrow> spawner \<Rightarrow> string \<Rightarrow> unit result" where
  "adapter_remove cfg spawn workerName =
     bindR (msb_checked cfg spawn [''remove'', workerName] (Some 60000) (\<lambda>_. ''msb remove failed'')) (\<lambda>_. Inr ())"

definition adapter_list :: "adapter_config \<Rightarrow> spawner \<Rightarrow> string list result" where
  "adapter_list cfg spawn =
     bindR (msb_checked cfg spawn [''list''] (Some 30000) (\<lambda>_. ''msb list failed'')) (\<lambda>r.
     Inr (filter (\<lambda>l. l \<noteq> []) (map trim (splitOn (CHR 0x0A) (hs_stdout r)))))"

definition status_of_text :: "string \<Rightarrow> worker_state" where
  "status_of_text stdout =
     (let out = toLowerCase stdout in
      if strIncludes out ''running'' \<or> strIncludes out ''active'' then ACTIVE
      else if strIncludes out ''paused'' \<or> strIncludes out ''stopped'' then PAUSED
      else ACTIVE)"

definition adapter_status :: "adapter_config \<Rightarrow> spawner \<Rightarrow> string \<Rightarrow> worker_state result" where
  "adapter_status cfg spawn workerName =
     bindR (msb_run cfg spawn [''status'', workerName] (Some 30000) None) (\<lambda>r.
     Inr (if hs_status r \<noteq> Some 0 then FAILED else status_of_text (hs_stdout r)))"

section \<open>Creating a worker\<close>

record worker_spec =
  ws_name :: string
  ws_cpu :: string
  ws_memBytes :: nat
  ws_image :: string
  ws_configDir :: string

text \<open>\<open>JSON.stringify(value, null, 2) + "\n"\<close> for a flat object.\<close>

definition json_object :: "(string \<times> string) list \<Rightarrow> string" where
  "json_object kvs =
     (if kvs = [] then ''{}'' @ nl
      else ''{'' @ nl @ joinWith ('','' @ nl) (map (\<lambda>(k, v). ''  '' @ [DQ] @ k @ [DQ] @ '': '' @ v) kvs) @ nl @ ''}'' @ nl)"

definition json_string :: "string \<Rightarrow> string" where
  "json_string s = [DQ] @ s @ [DQ]"

definition conf_files :: "worker_spec \<Rightarrow> (string \<times> string) list" where
  "conf_files spec =
     [(join_path (ws_configDir spec) ''fs.conf'', json_object []),
      (join_path (ws_configDir spec) ''net.conf'', json_object [(''policy'', json_string ''none'')]),
      (join_path (ws_configDir spec) ''resource.conf'', json_object [(''cpus'', ws_cpu spec), (''memory'', json_string (memSizeString (ws_memBytes spec)))]),
      (join_path (ws_configDir spec) ''runtime.conf'', json_object [(''security'', json_string ''restricted''), (''workdir'', json_string ''/work'')]),
      (join_path (ws_configDir spec) ''secret.conf'', json_object [])]"

definition create_args :: "worker_spec \<Rightarrow> string list" where
  "create_args spec =
     [''create'', ws_image spec, ''--conf'', join_path (ws_configDir spec) ''runtime.conf'',
      ''--net-conf'', join_path (ws_configDir spec) ''net.conf'', ''--resource-conf'', join_path (ws_configDir spec) ''resource.conf'',
      ''--fs-conf'', join_path (ws_configDir spec) ''fs.conf'', ''--secret-conf'', join_path (ws_configDir spec) ''secret.conf'',
      ''-n'', ws_name spec, ''-c'', ws_cpu spec, ''--max-cpus'', ws_cpu spec]"

text \<open>
  The readiness loop.  An attempt is the clock when the loop condition is evaluated and
  what the probe returned (\<open>None\<close> when it threw); \<open>None\<close> as a result means that the
  attempts given do not yet decide the loop.
\<close>

fun waitReady :: "string \<Rightarrow> int \<Rightarrow> (int \<times> host_spawned option) list \<Rightarrow> unit result option" where
  "waitReady workerName deadline [] = None"
| "waitReady workerName deadline ((now, probe) # rest) =
     (if deadline \<le> now then Some (Inl (MsbError (''worker '' @ workerName @ '' did not become ready'')))
      else (case probe of
          Some r \<Rightarrow> if hs_status r = Some 0 then Some (Inr ()) else waitReady workerName deadline rest
        | None \<Rightarrow> waitReady workerName deadline rest))"

text \<open>
  Writing the files is \<open>written\<close>; \<open>ready\<close> is what the readiness loop returned.  The copy
  of the root disk is refused on a failing status only when it did not time out.
\<close>

definition createWorker_msb ::
  "adapter_config \<Rightarrow> spawner \<Rightarrow> unit result \<Rightarrow> unit result \<Rightarrow> worker_spec \<Rightarrow> unit result"
where
  "createWorker_msb cfg spawn written ready spec =
     bindR written (\<lambda>_.
     bindR (case ac_workerRootDisk cfg of
         Some (c # d) \<Rightarrow>
           (let workerDisk = join_path (ws_configDir spec) ''worker.ext4'' in
            bindR (spawn [''cp'', ''--sparse=always'', c # d, workerDisk] \<lparr>so_timeoutMs = 120000, so_cwd = None, so_maxOutputBytes = 512 * 1024\<rparr>) (\<lambda>copy.
            bindR (guardR (hs_status copy = Some 0 \<or> hs_timedOut copy) (MsbError (''worker disk copy failed '' @ status_text (hs_status copy) @ '': '' @ trim_error (hs_stderr copy)))) (\<lambda>_.
            Inr (create_args spec @ [''--root-disk'', workerDisk @ '':format=raw,fstype=ext4'']))))
       | _ \<Rightarrow> Inr (create_args spec @ [''--mkdir'', ''/work''])) (\<lambda>args.
     bindR (msb_checked cfg spawn args (Some 180000) (\<lambda>r. ''msb create failed '' @ status_text (hs_status r) @ '': '' @ first_text r)) (\<lambda>_.
     ready)))"

section \<open>Properties\<close>

definition sink_inv :: "nat \<Rightarrow> string \<Rightarrow> sink \<Rightarrow> bool" where
  "sink_inv cap input sk = (sink_text sk = take cap input \<and> (sk_truncated sk \<longleftrightarrow> cap < length input) \<and>
     (\<not> sk_truncated sk \<longrightarrow> sk_bytes sk = length input))"

lemma sink_push_inv: "sink_inv cap input sk \<Longrightarrow> sink_inv cap (input @ chunk) (sink_push cap sk chunk)"
  by (auto simp: sink_inv_def sink_push_def sink_text_def Let_def)

lemma sink_fold_inv: "sink_inv cap input sk \<Longrightarrow> sink_inv cap (input @ concat chunks) (foldl (sink_push cap) sk chunks)"
proof (induction chunks arbitrary: input sk)
  case (Cons c cs)
  from Cons.IH [OF sink_push_inv [OF Cons.prems]] show ?case by simp
qed simp

text \<open>
  However the output of a process is cut into chunks, what is kept is the output up to
  the cap, and it is marked as truncated exactly when there was more.
\<close>

theorem sink_keeps_prefix:
  "sink_text (foldl (sink_push cap) new_sink chunks) = take cap (concat chunks) \<and>
   (sk_truncated (foldl (sink_push cap) new_sink chunks) \<longleftrightarrow> cap < length (concat chunks))"
proof -
  have "sink_inv cap [] new_sink" by (simp add: sink_inv_def new_sink_def sink_text_def)
  from sink_fold_inv [OF this, of chunks] show ?thesis by (simp add: sink_inv_def)
qed

lemma env_entries_ok:
  "env_entries allowedKeys kvs = Inr es \<Longrightarrow> (k, v) \<in> set es \<Longrightarrow>
     k \<in> set allowedKeys \<and> \<not> CREDENTIAL_KEY_RE k \<and> v \<noteq> [] \<and> length v \<le> 4096 \<and> (k, JStr v) \<in> set kvs"
  by (induction allowedKeys kvs arbitrary: es rule: env_entries.induct) (auto simp: bindR_eq_Inr is_str_iff)

lemma assertWorkerEnv_ok:
  "assertWorkerEnv e allowedKeys = Inr (Some es) \<Longrightarrow> (k, v) \<in> set es \<Longrightarrow>
     k \<in> set allowedKeys \<and> \<not> CREDENTIAL_KEY_RE k \<and> v \<noteq> [] \<and> length v \<le> 4096"
  by (cases e) (auto simp: bindR_eq_Inr dest: env_entries_ok)


definition demo_adapter :: adapter_config where
  "demo_adapter = \<lparr>ac_msbBinary = ''/usr/bin/msb'', ac_workerUser = ''nobody'', ac_envAllowedKeys = [''LANG''], ac_execTimeoutMsDefault = 60000,
     ac_execTimeoutMsMax = 600000, ac_outputMaxBytes = 100, ac_workerRootDisk = None\<rparr>"

definition demo_exec_options :: exec_options where
  "demo_exec_options = \<lparr>eo_cwd = Some ''/work'', eo_timeoutMs = Some 5000, eo_env = JObj [(''LANG'', JStr ''C'')], eo_maxOutputBytes = None\<rparr>"

definition demo_spawned :: "int \<Rightarrow> bool \<Rightarrow> host_spawned" where
  "demo_spawned status timedOut = \<lparr>hs_status = Some status, hs_stdout = ''x'', hs_stderr = [], hs_timedOut = timedOut, hs_outputTruncated = False\<rparr>"

definition demo_msb :: spawner where
  "demo_msb argv limits = (if ''--'' \<in> set argv then Inr (demo_spawned 0 False) else Inl (MsbError []))"

lemma demo_exec: "\<exists>r. adapter_exec demo_adapter demo_msb ''w1'' [''true''] demo_exec_options = Inr r"
proof -
  have "assertWorkerEnv (eo_env demo_exec_options) (ac_envAllowedKeys demo_adapter) = Inr (Some [(''LANG'', ''C'')])"
    by code_simp
  then show ?thesis by (simp add: adapter_exec_def msb_run_def demo_msb_def exec_args_def demo_spawned_def)
qed


text \<open>
  C37. Waiting for a worker ends: once the clock has reached the deadline the loop has
  returned, whatever the probes did, and it returns success only when a probe that was
  started before the deadline succeeded.
\<close>

theorem readiness_wait_ends:
  assumes "\<exists>(now, p) \<in> set attempts. deadline \<le> now"
  shows "\<exists>res. waitReady workerName deadline attempts = Some res \<and>
    (res = Inr () \<longleftrightarrow> (\<exists>i < length attempts. (\<exists>r. snd (attempts ! i) = Some r \<and> hs_status r = Some 0) \<and>
        (\<forall>j \<le> i. fst (attempts ! j) < deadline)))"
  using assms
proof (induction attempts)
  case (Cons a attempts)
  obtain now p where a: "a = (now, p)" by fastforce
  show ?case
  proof (cases "deadline \<le> now")
    case True
    then show ?thesis using a by (auto simp: nth_Cons')
  next
    case False
    show ?thesis
    proof (cases "\<exists>r. p = Some r \<and> hs_status r = Some 0")
      case True
      with False a show ?thesis by (auto intro!: exI [of _ 0])
    next
      case no: False
      have "\<exists>(now, p) \<in> set attempts. deadline \<le> now" using Cons.prems a False by auto
      from Cons.IH [OF this] obtain res where res: "waitReady workerName deadline attempts = Some res"
        and iff: "res = Inr () \<longleftrightarrow> (\<exists>i < length attempts. (\<exists>r. snd (attempts ! i) = Some r \<and> hs_status r = Some 0) \<and>
          (\<forall>j \<le> i. fst (attempts ! j) < deadline))" by blast
      have "waitReady workerName deadline (a # attempts) = Some res"
        using a False no res by (auto split: option.splits)
      moreover have "(\<exists>i < length attempts. (\<exists>r. snd (attempts ! i) = Some r \<and> hs_status r = Some 0) \<and> (\<forall>j \<le> i. fst (attempts ! j) < deadline))
        \<longleftrightarrow> (\<exists>i < length (a # attempts). (\<exists>r. snd ((a # attempts) ! i) = Some r \<and> hs_status r = Some 0) \<and>
          (\<forall>j \<le> i. fst ((a # attempts) ! j) < deadline))" (is "?L \<longleftrightarrow> ?R")
      proof
        assume ?L
        then obtain i where "i < length attempts" "\<exists>r. snd (attempts ! i) = Some r \<and> hs_status r = Some 0" "\<forall>j \<le> i. fst (attempts ! j) < deadline"
          by blast
        then have "Suc i < length (a # attempts) \<and> (\<exists>r. snd ((a # attempts) ! Suc i) = Some r \<and> hs_status r = Some 0) \<and>
            (\<forall>j \<le> Suc i. fst ((a # attempts) ! j) < deadline)"
          using a False by (auto simp: nth_Cons')
        then show ?R by blast
      next
        assume ?R
        then obtain i where i: "i < length (a # attempts)" "\<exists>r. snd ((a # attempts) ! i) = Some r \<and> hs_status r = Some 0"
            "\<forall>j \<le> i. fst ((a # attempts) ! j) < deadline" by blast
        with no a obtain k where "i = Suc k" by (cases i) auto
        with i have "k < length attempts \<and> (\<exists>r. snd (attempts ! k) = Some r \<and> hs_status r = Some 0) \<and> (\<forall>j \<le> k. fst (attempts ! j) < deadline)"
          by fastforce
        then show ?L by blast
      qed
      ultimately show ?thesis using iff by blast
    qed
  qed
qed simp

theorem readiness_wait_ends_witness:
  "\<exists>res. waitReady ''w1'' 10 [(0, None), (5, Some (demo_spawned 1 False)), (11, None)] = Some res"
  using readiness_wait_ends [where attempts = "[(0, None), (5, Some (demo_spawned 1 False)), (11, None)]" and deadline = 10] by simp

text \<open>
  The status of a worker is read from the words of \<open>msb status\<close>: a text that says
  inactive, or that the worker is not running, counts as active, and so does any text
  without one of the four words.
\<close>

theorem inactive_worker_reported_active:
  "status_of_text ''Inactive'' = ACTIVE \<and> status_of_text ''not running'' = ACTIVE \<and> status_of_text ''crashed'' = ACTIVE"
  by (intro conjI) code_simp+

text \<open>
  A copy of the root disk that was cut off by its time limit is not refused: the worker
  is created on what has been copied by then.
\<close>

theorem timed_out_disk_copy_accepted:
  assumes "ac_workerRootDisk cfg = Some (c # d)"
    "\<And>limits. spawn [''cp'', ''--sparse=always'', c # d, join_path (ws_configDir spec) ''worker.ext4''] limits = Inr copy" "hs_timedOut copy"
    "\<And>limits. spawn (ac_msbBinary cfg # create_args spec @
        [''--root-disk'', join_path (ws_configDir spec) ''worker.ext4'' @ '':format=raw,fstype=ext4'']) limits = Inr created"
    "hs_status created = Some 0" "\<not> hs_timedOut created"
  shows "createWorker_msb cfg spawn (Inr ()) ready spec = ready"
  using assms by (simp add: createWorker_msb_def msb_checked_def msb_run_def)

theorem timed_out_disk_copy_accepted_witness:
  "createWorker_msb (demo_adapter\<lparr>ac_workerRootDisk := Some ''/d''\<rparr>)
     (\<lambda>argv _. Inr (if argv ! 0 = ''cp'' then demo_spawned 1 True else demo_spawned 0 False)) (Inr ()) (Inr ())
     \<lparr>ws_name = ''w1'', ws_cpu = ''1'', ws_memBytes = 1, ws_image = ''i'', ws_configDir = ''/st''\<rparr> = Inr ()"
  by (rule timed_out_disk_copy_accepted) (auto simp: demo_spawned_def demo_adapter_def)

end
