(* ===== verification/WorkerOps.thy ===== *)
theory WorkerOps
  imports Msb ResultBoundary
begin

text \<open>
  The operations on a worker in \<^verbatim>\<open>broker/src/service.ts\<close>: running a command, reading
  and writing files, copying from and to the host, applying a patch, listing, searching
  and the diff.  The worker and the host files are a state of any type that the calls of
  an interface record pass along, so that every call may change what the next one sees;
  \<open>randomUUID\<close> is an argument.
\<close>

section \<open>Calls that change the outside\<close>

type_synonym ('w, 'a) act = "'w \<Rightarrow> 'w \<times> 'a result"

definition retW :: "'a \<Rightarrow> ('w, 'a) act" where
  "retW x w = (w, Inr x)"

definition liftW :: "'a result \<Rightarrow> ('w, 'a) act" where
  "liftW r w = (w, r)"

definition bindW :: "('w, 'a) act \<Rightarrow> ('a \<Rightarrow> ('w, 'b) act) \<Rightarrow> ('w, 'b) act" where
  "bindW m f w = (case m w of (w', Inl e) \<Rightarrow> (w', Inl e) | (w', Inr x) \<Rightarrow> f x w')"

text \<open>\<open>try { body } finally { cleanup }\<close>: an error of the cleanup replaces the outcome.\<close>

definition finallyW :: "('w, 'a) act \<Rightarrow> ('w, unit) act \<Rightarrow> ('w, 'a) act" where
  "finallyW body cleanup w =
     (case body w of (w1, r) \<Rightarrow> (case cleanup w1 of (w2, Inl e) \<Rightarrow> (w2, Inl e) | (w2, Inr _) \<Rightarrow> (w2, r)))"

text \<open>\<open>.catch(() => undefined)\<close>\<close>

definition ignoreW :: "('w, 'a) act \<Rightarrow> ('w, unit) act" where
  "ignoreW m w = (fst (m w), Inr ())"

record 'w worker_io =
  wi_exec :: "string \<Rightarrow> string list \<Rightarrow> exec_options \<Rightarrow> ('w, host_spawned) act"
  wi_copyIn :: "string \<Rightarrow> string \<Rightarrow> string \<Rightarrow> ('w, unit) act"
  wi_copyOut :: "string \<Rightarrow> string \<Rightarrow> string \<Rightarrow> ('w, unit) act"
  wi_mkdirHost :: "string \<Rightarrow> ('w, unit) act"
  wi_writeHost :: "string \<Rightarrow> string \<Rightarrow> ('w, unit) act"   \<comment> \<open>write, then \<open>chmod 0644\<close>\<close>
  wi_readHost :: "string \<Rightarrow> ('w, string) act"
  wi_rmHost :: "string \<Rightarrow> ('w, unit) act"
  wi_existsHost :: "string \<Rightarrow> 'w \<Rightarrow> bool"
  wi_copyFileHost :: "string \<Rightarrow> string \<Rightarrow> ('w, unit) act"
  wi_renameHost :: "string \<Rightarrow> string \<Rightarrow> ('w, unit) act"
  wi_chmodHost :: "string \<Rightarrow> ('w, unit) act"
  wi_writePreview :: "string \<Rightarrow> ('w, unit) act"   \<comment> \<open>\<open>writeApplyPreviewFiles\<close>\<close>

record op_config =
  oc_broker :: broker_config
  oc_argvLimits :: argv_limits
  oc_execTimeoutMsDefault :: int
  oc_execTimeoutMsMax :: int
  oc_pathMaxBytes :: nat
  oc_contentMaxBytes :: nat
  oc_patchMaxBytes :: nat
  oc_grepQueryMaxBytes :: nat
  oc_maxApplyDiffLines :: nat
  oc_externalCopyTargets :: "string list"

definition plain_opts :: "string option \<Rightarrow> int \<Rightarrow> exec_options" where
  "plain_opts cwd t = \<lparr>eo_cwd = cwd, eo_timeoutMs = Some t, eo_env = JUndefined, eo_maxOutputBytes = None\<rparr>"

text \<open>The worker of the session, when it is active.\<close>

definition active_worker :: "store \<Rightarrow> envelope \<Rightarrow> string result" where
  "active_worker st req = bindR (recordOr404 st (env_sessionID req)) requireActiveWorker"

section \<open>Running a command\<close>

definition exec_cwd :: "op_config \<Rightarrow> js \<Rightarrow> string option result" where
  "exec_cwd cfg v =
     (if v = JUndefined then Inr None
      else if v = JStr ''/work'' then Inr (Some ''/work'')
      else bindR (assertSandboxPath v (oc_pathMaxBytes cfg)) (\<lambda>_. Inr (Some (resolve_path ''/work'' (js_str v)))))"

fun js_strings :: "js \<Rightarrow> string list" where
  "js_strings (JArr xs) = map js_str xs"
| "js_strings _ = []"

definition exec_op :: "op_config \<Rightarrow> 'w worker_io \<Rightarrow> store \<Rightarrow> envelope \<Rightarrow> ('w, host_spawned) act" where
  "exec_op cfg io st req =
     bindW (liftW (payloadOf req)) (\<lambda>payload.
     bindW (liftW (assertArgv (js_get payload ''argv'') (oc_argvLimits cfg))) (\<lambda>_.
     let timeoutMs = (if js_get payload ''timeoutMs'' = JUndefined then JInt (oc_execTimeoutMsDefault cfg) else js_get payload ''timeoutMs'') in
     bindW (liftW (assertPositiveInt timeoutMs (oc_execTimeoutMsMax cfg) ''timeoutMs'')) (\<lambda>_.
     bindW (liftW (exec_cwd cfg (js_get payload ''cwd''))) (\<lambda>cwd.
     bindW (liftW (active_worker st req)) (\<lambda>worker.
     wi_exec io worker (js_strings (js_get payload ''argv''))
       \<lparr>eo_cwd = cwd, eo_timeoutMs = (case timeoutMs of JInt t \<Rightarrow> Some t | _ \<Rightarrow> None), eo_env = js_get payload ''env'',
        eo_maxOutputBytes = None\<rparr>)))))"

section \<open>Reading a file\<close>

text \<open>\<open>/^(\d+):(regular file|regular empty file)\s*$/\<close>, for any shape of the first part.\<close>

definition stat_field :: "(string \<Rightarrow> bool) \<Rightarrow> string \<Rightarrow> string option" where
  "stat_field P out =
     (let digits = takeWhile is_digit out; rest = drop (length digits) out; kind = rev (dropWhile is_space (rev (drop 1 rest))) in
      if P digits \<and> startsWith rest '':'' \<and> (kind = ''regular file'' \<or> kind = ''regular empty file'') then Some digits else None)"

text \<open>\<open>Buffer.from(s, "base64")\<close>: characters outside the alphabet are skipped, padding ends the text.\<close>

definition b64_value :: "char \<Rightarrow> nat option" where
  "b64_value c =
     (if is_upper c then Some (of_char c - 65)
      else if is_lower c then Some (of_char c - 71)
      else if is_digit c then Some (of_char c + 4)
      else if c = CHR ''+'' \<or> c = CHR ''-'' then Some 62
      else if c = CHR ''/'' \<or> c = CHR ''_'' then Some 63
      else None)"

definition byte :: "nat \<Rightarrow> char" where
  "byte n = char_of (n mod 256)"

fun b64_bytes :: "nat list \<Rightarrow> string" where
  "b64_bytes (a # b # c # d # r) = byte (a * 4 + b div 16) # byte (b * 16 + c div 4) # byte (c * 64 + d) # b64_bytes r"
| "b64_bytes [a, b, c] = [byte (a * 4 + b div 16), byte (b * 16 + c div 4)]"
| "b64_bytes [a, b] = [byte (a * 4 + b div 16)]"
| "b64_bytes _ = []"

definition base64_decode :: "string \<Rightarrow> string" where
  "base64_decode s = b64_bytes (List.map_filter b64_value (takeWhile (\<lambda>c. c \<noteq> CHR ''='') s))"

text \<open>\<open>TextDecoder("utf-8", { fatal: true })\<close>: shortest forms, no surrogates, nothing above U+10FFFF.\<close>

definition in_range :: "nat \<Rightarrow> nat \<Rightarrow> char \<Rightarrow> bool" where
  "in_range lo hi c = (lo \<le> (of_char c :: nat) \<and> (of_char c :: nat) \<le> hi)"

definition cont_byte :: "char \<Rightarrow> bool" where
  "cont_byte c = in_range 128 191 c"

function valid_utf8 :: "string \<Rightarrow> bool" where
  "valid_utf8 [] = True"
| "valid_utf8 (a # s) =
     (if in_range 0 127 a then valid_utf8 s
      else if in_range 194 223 a then (case s of b # r \<Rightarrow> cont_byte b \<and> valid_utf8 r | _ \<Rightarrow> False)
      else if in_range 224 239 a then (case s of b # c # r \<Rightarrow>
          (if a = CHR 0xE0 then in_range 160 191 b else if a = CHR 0xED then in_range 128 159 b else cont_byte b) \<and>
          cont_byte c \<and> valid_utf8 r | _ \<Rightarrow> False)
      else if in_range 240 244 a then (case s of b # c # d # r \<Rightarrow>
          (if a = CHR 0xF0 then in_range 144 191 b else if a = CHR 0xF4 then in_range 128 143 b else cont_byte b) \<and>
          cont_byte c \<and> cont_byte d \<and> valid_utf8 r | _ \<Rightarrow> False)
      else False)"
  by pat_completeness auto

termination
  by (relation "measure length") auto

definition read_argv :: "string \<Rightarrow> string list" where
  "read_argv path = [''base64'', ''-w'', ''0'', ''--'', path]"

definition stat_argv :: "string \<Rightarrow> string \<Rightarrow> string list" where
  "stat_argv format path = [''stat'', ''-L'', ''-c'', format, ''--'', path]"

definition readFile :: "op_config \<Rightarrow> 'w worker_io \<Rightarrow> store \<Rightarrow> envelope \<Rightarrow> ('w, string) act" where
  "readFile cfg io st req =
     bindW (liftW (payloadOf req)) (\<lambda>payload.
     bindW (liftW (assertSandboxPath (js_get payload ''path'') (oc_pathMaxBytes cfg))) (\<lambda>_.
     bindW (liftW (active_worker st req)) (\<lambda>worker.
     let path = js_str (js_get payload ''path''); maxBytes = oc_contentMaxBytes cfg in
     bindW (wi_exec io worker (stat_argv ''%s:%F'' path) (plain_opts None 30000)) (\<lambda>stat.
     bindW (liftW (guardR (hs_status stat = Some 0) (MsbError (''readFile failed in worker '' @ status_text (hs_status stat) @ '': '' @ trim (hs_stderr stat))))) (\<lambda>_.
     case stat_field (\<lambda>d. d \<noteq> []) (hs_stdout stat) of
       None \<Rightarrow> liftW (Inl (ValidationError (''readFile target is not a regular file: '' @ path)))
     | Some digits \<Rightarrow>
         bindW (liftW (guardR (parse_nat digits \<le> maxBytes) (ValidationError (''readFile refused: '' @ path @ '' is '' @ digits @ '' bytes, over the '' @ show_nat maxBytes @
           ''-byte limit; use sandbox_grep or sandbox_copy_out'')))) (\<lambda>_.
         bindW (wi_exec io worker (read_argv path)
           \<lparr>eo_cwd = None, eo_timeoutMs = Some 30000, eo_env = JUndefined, eo_maxOutputBytes = Some ((maxBytes + 2) div 3 * 4 + 64)\<rparr>) (\<lambda>out.
         bindW (liftW (guardR (hs_status out = Some 0) (MsbError (''readFile failed in worker '' @ status_text (hs_status out) @ '': '' @ trim (hs_stderr out))))) (\<lambda>_.
         let bytes = base64_decode (filter (\<lambda>c. \<not> is_space c) (hs_stdout out)) in
         bindW (liftW (guardR (length bytes = parse_nat digits) (MsbError (''readFile refused: read '' @ show_nat (length bytes) @ '' of '' @ show_nat (parse_nat digits) @
           '' bytes from '' @ path @ '' (truncated or changed during the read)'')))) (\<lambda>_.
         bindW (liftW (guardR (valid_utf8 bytes) (ValidationError (''readFile refused: '' @ path @ '' is not valid UTF-8 text; use sandbox_copy_out for binary files'')))) (\<lambda>_.
         retW bytes))))))))))"

section \<open>Writing a file\<close>

definition refusePlanRootMutation :: "op_config \<Rightarrow> string \<Rightarrow> unit result" where
  "refusePlanRootMutation cfg path =
     guardR (checkProtectedPaths [path] (planRootPatterns (oc_broker cfg)) = [])
       (ValidationError (''PLAN_ROOT_PROTECTED: '' @ path @ '' is a plan-root path; workers may not modify it (BROKER_PLAN_ROOT_PROTECTION)''))"

text \<open>\<open>filePath.slice(0, filePath.lastIndexOf("/"))\<close> when that index is positive.\<close>

definition workerDirOf :: "string \<Rightarrow> string" where
  "workerDirOf p = (let r = dropWhile (\<lambda>c. c \<noteq> CHR ''/'') (rev p) in if 1 < length r then rev (tl r) else ''/work'')"

definition execOrThrow :: "'w worker_io \<Rightarrow> string \<Rightarrow> string list \<Rightarrow> string \<Rightarrow> ('w, unit) act" where
  "execOrThrow io worker argv what =
     bindW (wi_exec io worker argv (plain_opts None 30000)) (\<lambda>r.
     liftW (guardR (hs_status r = Some 0) (MsbError (what @ '' failed in worker '' @ status_text (hs_status r) @ '': '' @ trim (hs_stderr r)))))"

definition octal_mode :: "string \<Rightarrow> bool" where
  "octal_mode d = ((length d = 3 \<or> length d = 4) \<and> list_all (\<lambda>c. c \<in> set ''01234567'') d)"

definition existingTargetMode :: "'w worker_io \<Rightarrow> string \<Rightarrow> string \<Rightarrow> ('w, string option) act" where
  "existingTargetMode io worker path =
     bindW (wi_exec io worker (stat_argv ''%a:%F'' path) (plain_opts None 30000)) (\<lambda>stat.
     if hs_status stat = Some 0 then
       (case stat_field octal_mode (hs_stdout stat) of
          None \<Rightarrow> liftW (Inl (ValidationError (''writeFile target is not a regular file: '' @ path)))
        | Some m \<Rightarrow> retW (Some m))
     else bindW (wi_exec io worker [''test'', ''-e'', path] (plain_opts None 30000)) (\<lambda>ex.
       if hs_status ex = Some 0
       then liftW (Inl (MsbError (''writeFile could not read the existing mode of '' @ path @ '': '' @ trim (hs_stderr stat))))
       else retW None))"

definition with_newline :: "string \<Rightarrow> string" where
  "with_newline s = (if endsWith s nl then s else s @ nl)"

definition tmp_dir :: "op_config \<Rightarrow> string" where
  "tmp_dir cfg = join_path (bc_stateDir (oc_broker cfg)) ''tmp''"

definition host_tmp :: "op_config \<Rightarrow> string \<Rightarrow> string" where
  "host_tmp cfg name = join3 (bc_stateDir (oc_broker cfg)) ''tmp'' name"

text \<open>
  The stage next to the target: the copy that is chmodded and then moved over the target.
  On an error the stage is still to be removed.
\<close>

definition replace_target :: "'w worker_io \<Rightarrow> string \<Rightarrow> string \<Rightarrow> string \<Rightarrow> string \<Rightarrow> string option \<Rightarrow> ('w, unit) act" where
  "replace_target io worker workerTmp stageTmp targetPath mode =
     bindW (execOrThrow io worker [''cp'', ''--'', workerTmp, stageTmp] ''writeFile stage'') (\<lambda>_.
     bindW (execOrThrow io worker [''chmod'', (case mode of Some m \<Rightarrow> m | None \<Rightarrow> ''644''), ''--'', stageTmp] ''writeFile chmod'') (\<lambda>_.
     execOrThrow io worker [''mv'', ''-f'', ''--'', stageTmp, targetPath] ''writeFile''))"

definition cleanup_worker :: "'w worker_io \<Rightarrow> string \<Rightarrow> string list \<Rightarrow> ('w, unit) act" where
  "cleanup_worker io worker leftovers = ignoreW (wi_exec io worker ([''rm'', ''-f'', ''--''] @ leftovers) (plain_opts None 30000))"

definition write_prepare ::
  "op_config \<Rightarrow> 'w worker_io \<Rightarrow> string \<Rightarrow> string \<Rightarrow> string \<Rightarrow> string \<Rightarrow> string \<Rightarrow> ('w, string option) act"
where
  "write_prepare cfg io worker hostTmp workerTmp targetPath content =
     bindW (wi_mkdirHost io (tmp_dir cfg)) (\<lambda>_.
     bindW (wi_writeHost io hostTmp (with_newline content)) (\<lambda>_.
     bindW (execOrThrow io worker [''mkdir'', ''-p'', workerDirOf workerTmp] ''writeFile mkdir'') (\<lambda>_.
     bindW (existingTargetMode io worker targetPath) (\<lambda>mode.
     bindW (wi_copyIn io worker hostTmp workerTmp) (\<lambda>_.
     bindW (execOrThrow io worker [''mkdir'', ''-p'', ''--'', workerDirOf targetPath] ''writeFile target mkdir'') (\<lambda>_.
     retW mode))))))"

definition write_cleanup :: "'w worker_io \<Rightarrow> string \<Rightarrow> string \<Rightarrow> string list \<Rightarrow> ('w, unit) act" where
  "write_cleanup io worker hostTmp leftovers = bindW (wi_rmHost io hostTmp) (\<lambda>_. cleanup_worker io worker leftovers)"

text \<open>
  \<open>stageTmp\<close> is set from the copy on until the move succeeded, so what the clean-up
  removes depends on how far the steps came.
\<close>

definition write_steps ::
  "op_config \<Rightarrow> 'w worker_io \<Rightarrow> string \<Rightarrow> string \<Rightarrow> string \<Rightarrow> string \<Rightarrow> string \<Rightarrow> string \<Rightarrow> ('w, unit) act"
where
  "write_steps cfg io worker hostTmp workerTmp stageName targetPath content w =
     (let stageTmp = workerDirOf targetPath @ ''/'' @ stageName in
      case write_prepare cfg io worker hostTmp workerTmp targetPath content w of
        (w', Inl e) \<Rightarrow> finallyW (liftW (Inl e)) (write_cleanup io worker hostTmp [workerTmp]) w'
      | (w', Inr mode) \<Rightarrow>
          (case replace_target io worker workerTmp stageTmp targetPath mode w' of
             (w2, Inl e) \<Rightarrow> finallyW (liftW (Inl e)) (write_cleanup io worker hostTmp [workerTmp, stageTmp]) w2
           | (w2, Inr _) \<Rightarrow> finallyW (retW ()) (write_cleanup io worker hostTmp [workerTmp]) w2))"

definition writeFile :: "op_config \<Rightarrow> 'w worker_io \<Rightarrow> (nat \<Rightarrow> string) \<Rightarrow> store \<Rightarrow> envelope \<Rightarrow> ('w, string) act" where
  "writeFile cfg io uuid st req =
     bindW (liftW (payloadOf req)) (\<lambda>payload.
     let path = js_str (js_get payload ''path''); content = js_str (js_get payload ''content'') in
     bindW (liftW (assertSandboxPath (js_get payload ''path'') (oc_pathMaxBytes cfg))) (\<lambda>_.
     bindW (liftW (assertContent (js_get payload ''content'') (oc_contentMaxBytes cfg))) (\<lambda>_.
     bindW (liftW (refusePlanRootMutation cfg path)) (\<lambda>_.
     bindW (liftW (active_worker st req)) (\<lambda>worker.
     bindW (write_steps cfg io worker (host_tmp cfg (''write-'' @ env_sessionID req @ ''-'' @ uuid 0 @ ''.tmp''))
       (''/work/.broker-tmp/write-'' @ uuid 1 @ ''.tmp'') (''.broker-write-'' @ uuid 2 @ ''.tmp'') path content) (\<lambda>_.
     retW path))))))"

section \<open>Copying between host and worker\<close>

record copy_out_info =
  ci_target :: string
  ci_totalLines :: nat
  ci_preview :: string

definition copyOutInfo ::
  "op_config \<Rightarrow> (string \<Rightarrow> string option) \<Rightarrow> 'w worker_io \<Rightarrow> store \<Rightarrow> envelope \<Rightarrow> ('w, copy_out_info) act"
where
  "copyOutInfo cfg realpath io st req =
     bindW (liftW (payloadOf req)) (\<lambda>payload.
     bindW (liftW (assertSandboxPath (js_get payload ''workerPath'') (oc_pathMaxBytes cfg))) (\<lambda>_.
     bindW (liftW (assertExternalCopyTarget realpath (js_get payload ''hostTarget'') (oc_externalCopyTargets cfg))) (\<lambda>target.
     bindW (liftW (active_worker st req)) (\<lambda>worker.
     bindW (wi_exec io worker [''cat'', ''--'', js_str (js_get payload ''workerPath'')] (plain_opts (Some ''/work'') 30000)) (\<lambda>r.
     bindW (liftW (guardR (hs_status r = Some 0) (MsbError (''copyOutInfo failed in worker '' @ status_text (hs_status r) @ '': '' @ trim (hs_stderr r))))) (\<lambda>_.
     let lines = splitOn (CHR 0x0A) (hs_stdout r); totalLines = countCopyLines (hs_stdout r) in
     bindW (liftW (assertCopyOutReviewLimit target totalLines (oc_maxApplyDiffLines cfg))) (\<lambda>_.
     retW \<lparr>ci_target = target, ci_totalLines = totalLines,
       ci_preview = (if \<not> isSourceCodeTarget target \<and> 400 < totalLines
         then joinWith nl (take 400 lines) @ nl @ ''(... truncated: '' @ show_nat totalLines @ '' total lines)'' else hs_stdout r)\<rparr>)))))))"

definition copyOut ::
  "op_config \<Rightarrow> (string \<Rightarrow> string option) \<Rightarrow> 'w worker_io \<Rightarrow> (nat \<Rightarrow> string) \<Rightarrow> store \<Rightarrow> envelope \<Rightarrow> ('w, string) act"
where
  "copyOut cfg realpath io uuid st req =
     bindW (liftW (payloadOf req)) (\<lambda>payload.
     let workerPath = js_str (js_get payload ''workerPath'');
         hostTmp = host_tmp cfg (''copy-'' @ env_sessionID req @ ''-'' @ uuid 0 @ ''.tmp'');
         workerAbs = (if startsWith workerPath ''/'' then workerPath else ''/work/'' @ workerPath) in
     bindW (liftW (guardR (js_get payload ''confirm'' = JStr ''COPY'') (ValidationError ''copyOut requires confirm: COPY''))) (\<lambda>_.
     bindW (liftW (assertSandboxPath (js_get payload ''workerPath'') (oc_pathMaxBytes cfg))) (\<lambda>_.
     bindW (liftW (assertExternalCopyTarget realpath (js_get payload ''hostTarget'') (oc_externalCopyTargets cfg))) (\<lambda>target.
     bindW (liftW (active_worker st req)) (\<lambda>worker.
     finallyW
       (bindW (wi_mkdirHost io (tmp_dir cfg)) (\<lambda>_.
        bindW (wi_copyOut io worker workerAbs hostTmp) (\<lambda>_.
        bindW (wi_readHost io hostTmp) (\<lambda>copied.
        bindW (liftW (assertCopyOutReviewLimit target (countCopyLines copied) (oc_maxApplyDiffLines cfg))) (\<lambda>_.
        bindW (\<lambda>w. if wi_existsHost io target w then wi_copyFileHost io target (target @ ''.bak'') w else (w, Inr ())) (\<lambda>_.
        bindW (wi_renameHost io hostTmp target) (\<lambda>_.
        bindW (wi_chmodHost io target) (\<lambda>_.
        retW target)))))))) (wi_rmHost io hostTmp))))))"

datatype host_file = HostFile nat | HostOther

definition copyInInfo ::
  "op_config \<Rightarrow> (string \<Rightarrow> string option) \<Rightarrow> (string \<Rightarrow> host_file option) \<Rightarrow> envelope \<Rightarrow> (string \<times> nat) result"
where
  "copyInInfo cfg realpath statSync req =
     bindR (payloadOf req) (\<lambda>payload.
     bindR (assertExternalCopyTarget realpath (js_get payload ''hostSource'') (oc_externalCopyTargets cfg)) (\<lambda>source.
     bindR (assertSandboxPath (js_get payload ''workerPath'') (oc_pathMaxBytes cfg)) (\<lambda>_.
     case statSync source of
       None \<Rightarrow> Inl (ValidationError ''copy source does not exist on the host'')
     | Some HostOther \<Rightarrow> Inl (ValidationError ''copy source must be a regular file'')
     | Some (HostFile n) \<Rightarrow> Inr (source, n))))"

definition copyIn ::
  "op_config \<Rightarrow> (string \<Rightarrow> string option) \<Rightarrow> 'w worker_io \<Rightarrow> (nat \<Rightarrow> string) \<Rightarrow> store \<Rightarrow> envelope \<Rightarrow> ('w, string) act"
where
  "copyIn cfg realpath io uuid st req =
     bindW (liftW (payloadOf req)) (\<lambda>payload.
     let workerPath = js_str (js_get payload ''workerPath''); workerTmp = ''/work/.broker-tmp/copy-'' @ uuid 0 @ ''.tmp'' in
     bindW (liftW (guardR (js_get payload ''confirm'' = JStr ''COPY'') (ValidationError ''copyIn requires confirm: COPY''))) (\<lambda>_.
     bindW (liftW (assertExternalCopyTarget realpath (js_get payload ''hostSource'') (oc_externalCopyTargets cfg))) (\<lambda>source.
     bindW (liftW (assertSandboxPath (js_get payload ''workerPath'') (oc_pathMaxBytes cfg))) (\<lambda>_.
     bindW (liftW (active_worker st req)) (\<lambda>worker.
     bindW (execOrThrow io worker [''mkdir'', ''-p'', workerDirOf workerTmp] ''copyIn mkdir'') (\<lambda>_.
     bindW (wi_copyIn io worker source workerTmp) (\<lambda>_.
     bindW (execOrThrow io worker [''mv'', ''-f'', workerTmp, workerPath] ''copyIn'') (\<lambda>_.
     retW workerPath))))))))"

section \<open>Patches, listings and searches\<close>

fun check_paths :: "op_config \<Rightarrow> js list \<Rightarrow> unit result" where
  "check_paths cfg [] = Inr ()"
| "check_paths cfg (p # ps) =
     bindR (assertSandboxPath p (oc_pathMaxBytes cfg)) (\<lambda>_.
     bindR (refusePlanRootMutation cfg (js_str p)) (\<lambda>_. check_paths cfg ps))"

text \<open>The path fields of the raw payload, before the payload itself is checked.\<close>

definition check_raw_paths :: "op_config \<Rightarrow> js \<Rightarrow> unit result" where
  "check_raw_paths cfg raw =
     (let obj = (case raw of JObj kvs \<Rightarrow> kvs | _ \<Rightarrow> []) in
      bindR (if js_get obj ''path'' = JUndefined then Inr () else check_paths cfg [js_get obj ''path'']) (\<lambda>_.
      case js_get obj ''paths'' of
        JUndefined \<Rightarrow> Inr ()
      | JArr ps \<Rightarrow> check_paths cfg ps
      | _ \<Rightarrow> Inl (ValidationError ''paths must be an array'')))"

definition PATCH_HINT :: string where
  "PATCH_HINT = ''. Check unified-diff hunk line counts and include at least one unchanged context line in each changed-line hunk; an end-of-file append-only hunk is valid. Include a final newline.''"

definition applyPatch :: "op_config \<Rightarrow> 'w worker_io \<Rightarrow> (nat \<Rightarrow> string) \<Rightarrow> store \<Rightarrow> envelope \<Rightarrow> ('w, unit) act" where
  "applyPatch cfg io uuid st req =
     bindW (liftW (check_raw_paths cfg (env_payload req))) (\<lambda>_.
     bindW (liftW (payloadOf req)) (\<lambda>payload.
     bindW (liftW (assertContent (js_get payload ''patch'') (oc_patchMaxBytes cfg))) (\<lambda>_.
     bindW (liftW (active_worker st req)) (\<lambda>worker.
     let hostTmp = host_tmp cfg (''patch-'' @ env_sessionID req @ ''-'' @ uuid 0 @ ''.patch'');
         workerTmp = ''/work/.broker-tmp/apply-'' @ uuid 1 @ ''.patch'' in
     finallyW
       (bindW (wi_writeHost io hostTmp (with_newline (js_str (js_get payload ''patch'')))) (\<lambda>_.
        bindW (execOrThrow io worker [''mkdir'', ''-p'', workerDirOf workerTmp] ''applyPatch mkdir'') (\<lambda>_.
        bindW (wi_copyIn io worker hostTmp workerTmp) (\<lambda>_.
        bindW (wi_exec io worker [''git'', ''apply'', ''--check'', workerTmp] (plain_opts (Some ''/work'') 60000)) (\<lambda>check.
        bindW (liftW (guardR (hs_status check = Some 0) (MsbError (''patch does not apply cleanly: '' @ trim (hs_stderr check) @ PATCH_HINT)))) (\<lambda>_.
        bindW (wi_exec io worker [''git'', ''apply'', workerTmp] (plain_opts (Some ''/work'') 60000)) (\<lambda>applied.
        liftW (guardR (hs_status applied = Some 0) (MsbError (''patch apply failed: '' @ trim (hs_stderr applied)))))))))))
       (wi_rmHost io hostTmp)))))"

definition listDir :: "op_config \<Rightarrow> 'w worker_io \<Rightarrow> store \<Rightarrow> envelope \<Rightarrow> ('w, string) act" where
  "listDir cfg io st req =
     bindW (liftW (payloadOf req)) (\<lambda>payload.
     bindW (liftW (assertSandboxPath (js_get payload ''path'') (oc_pathMaxBytes cfg))) (\<lambda>_.
     bindW (liftW (active_worker st req)) (\<lambda>worker.
     bindW (wi_exec io worker [''ls'', ''-la'', js_str (js_get payload ''path'')] (plain_opts None 30000)) (\<lambda>r.
     retW (hs_stdout r)))))"

definition grep_op :: "op_config \<Rightarrow> 'w worker_io \<Rightarrow> store \<Rightarrow> envelope \<Rightarrow> ('w, string \<times> int option) act" where
  "grep_op cfg io st req =
     bindW (liftW (payloadOf req)) (\<lambda>payload.
     bindW (liftW (assertGrepQuery (js_get payload ''query'') (oc_grepQueryMaxBytes cfg))) (\<lambda>_.
     bindW (liftW (assertSandboxPath (js_get payload ''path'') (oc_pathMaxBytes cfg))) (\<lambda>_.
     bindW (liftW (active_worker st req)) (\<lambda>worker.
     bindW (wi_exec io worker [''grep'', ''-rn'', ''--exclude-dir=.git'', ''-e'', js_str (js_get payload ''query''), js_str (js_get payload ''path'')]
       (plain_opts None 60000)) (\<lambda>r.
     retW (hs_stdout r, hs_status r))))))"

section \<open>The diff of a worker\<close>

record diff_answer =
  df_stat :: string
  df_diff :: string
  df_compare :: string
  df_applyPreview :: "apply_preview option"
  df_changedPaths :: "string list"
  df_changedPathsComplete :: bool
  df_exitCode :: "int option"

definition GIT_OUTPUT_MAX_BYTES :: nat where
  "GIT_OUTPUT_MAX_BYTES = 512 * 1024"

definition diff_opts :: "string \<Rightarrow> exec_options" where
  "diff_opts tmpIndex = \<lparr>eo_cwd = Some ''/work'', eo_timeoutMs = Some 60000,
     eo_env = JObj [(''GIT_INDEX_FILE'', JStr tmpIndex), (''GIT_CONFIG_COUNT'', JStr ''1''), (''GIT_CONFIG_KEY_0'', JStr ''safe.directory''),
       (''GIT_CONFIG_VALUE_0'', JStr ''/work'')], eo_maxOutputBytes = Some GIT_OUTPUT_MAX_BYTES\<rparr>"

definition assertCompleteOutput :: "string \<Rightarrow> host_spawned \<Rightarrow> unit result" where
  "assertCompleteOutput label r = guardR (\<not> hs_outputTruncated r)
     (ValidationError (''diff refused: '' @ label @ '' output exceeds '' @ show_nat GIT_OUTPUT_MAX_BYTES @ '' bytes''))"

text \<open>\<open>/^A[\t ]+(.+)$/\<close> on the trimmed line.\<close>

definition added_path :: "string \<Rightarrow> string option" where
  "added_path line =
     (let t = trim line; rest = drop 1 t; body = dropWhile (\<lambda>c. c = CHR 0x09 \<or> c = CHR '' '') rest in
      if startsWith t ''A'' \<and> body \<noteq> rest \<and> body \<noteq> [] \<and> list_all (\<lambda>c. \<not> is_line_terminator c) body then Some body else None)"

fun compare_candidates :: "'w worker_io \<Rightarrow> string \<Rightarrow> string \<Rightarrow> string list \<Rightarrow> ('w, string) act" where
  "compare_candidates io worker added [] = retW []"
| "compare_candidates io worker added (cand # cands) =
     bindW (wi_exec io worker [''test'', ''-e'', cand] (plain_opts (Some ''/work'') 30000)) (\<lambda>ex.
     if hs_status ex \<noteq> Some 0 then compare_candidates io worker added cands
     else bindW (wi_exec io worker [''git'', ''diff'', ''--no-index'', ''--'', cand, added]
         \<lparr>eo_cwd = Some ''/work'', eo_timeoutMs = Some 60000, eo_env = JUndefined, eo_maxOutputBytes = Some GIT_OUTPUT_MAX_BYTES\<rparr>) (\<lambda>cmp.
       bindW (liftW (assertCompleteOutput ''compare'' cmp)) (\<lambda>_.
       if hs_status cmp \<noteq> Some 0 \<and> hs_status cmp \<noteq> Some 1 then compare_candidates io worker added cands
       else retW (hs_stdout cmp @ nl))))"

fun compare_lines :: "'w worker_io \<Rightarrow> string \<Rightarrow> string list \<Rightarrow> ('w, string) act" where
  "compare_lines io worker [] = retW []"
| "compare_lines io worker (line # lines) =
     bindW (case added_path line of
         Some added \<Rightarrow> if endsWith added ''.new''
           then compare_candidates io worker added [take (length added - 4) added, ''.broker-tmp/ref-'' @ added] else retW []
       | None \<Rightarrow> retW []) (\<lambda>here.
     bindW (compare_lines io worker lines) (\<lambda>rest. retW (here @ rest)))"

text \<open>The text that is shown for approval and written to the preview files.\<close>

definition apply_preview_text :: "string \<Rightarrow> string \<Rightarrow> string" where
  "apply_preview_text compare diff = (if trim compare \<noteq> [] then compare else diff)"

definition checked_diff :: "'w worker_io \<Rightarrow> string \<Rightarrow> string \<Rightarrow> string list \<Rightarrow> string \<Rightarrow> ('w, unit) act" where
  "checked_diff io worker tmpIndex argv what =
     bindW (wi_exec io worker argv (diff_opts tmpIndex)) (\<lambda>r.
     liftW (guardR (hs_status r = Some 0) (MsbError (what @ '' failed: '' @ trimErr (hs_stderr r)))))"

definition bounded_diff :: "'w worker_io \<Rightarrow> string \<Rightarrow> string \<Rightarrow> string list \<Rightarrow> string \<Rightarrow> ('w, host_spawned) act" where
  "bounded_diff io worker tmpIndex argv label =
     bindW (wi_exec io worker argv (diff_opts tmpIndex)) (\<lambda>r.
     bindW (liftW (assertCompleteOutput label r)) (\<lambda>_. retW r))"

definition active_diff :: "'w worker_io \<Rightarrow> (nat \<Rightarrow> string) \<Rightarrow> string \<Rightarrow> string \<Rightarrow> ('w, diff_answer) act" where
  "active_diff io uuid worker ref =
     (let tmpIndex = ''/work/.broker-tmp/diff-'' @ uuid 0 @ ''.index''; spec = [''--'', ''.''] @ RESULT_EXCLUDE_PATHS in
      bindW (wi_exec io worker [''mkdir'', ''-p'', ''/work/.broker-tmp''] (plain_opts (Some ''/work'') 30000)) (\<lambda>staging.
      bindW (liftW (guardR (hs_status staging = Some 0) (MsbError (''diff staging directory failed: '' @ trimErr (hs_stderr staging))))) (\<lambda>_.
      finallyW
        (bindW (checked_diff io worker tmpIndex [''git'', ''read-tree'', ref] ''diff baseline staging'') (\<lambda>_.
         bindW (checked_diff io worker tmpIndex ([''git'', ''add'', ''-A''] @ spec) ''diff working-tree staging'') (\<lambda>_.
         bindW (bounded_diff io worker tmpIndex ([''git'', ''diff'', ''--cached'', ''--stat'', ref] @ spec) ''stat'') (\<lambda>stat.
         bindW (bounded_diff io worker tmpIndex ([''git'', ''diff'', ''--cached'', ref] @ spec) ''diff'') (\<lambda>diff.
         bindW (bounded_diff io worker tmpIndex ([''git'', ''diff'', ''--cached'', ''--name-status'', ref] @ spec) ''name-status'') (\<lambda>names.
         bindW (compare_lines io worker (splitOn (CHR 0x0A) (hs_stdout names))) (\<lambda>compare.
         bindW (bounded_diff io worker tmpIndex ([''git'', ''diff'', ''--cached'', ''--name-only'', ''--no-renames'', ''-z'', ref] @ spec) ''changed-paths'') (\<lambda>changed.
         let parsed = (if hs_status changed = Some 0 then parseNulDelimitedPaths (hs_stdout changed) else ([], False));
             shown = apply_preview_text compare (hs_stdout diff) in
         bindW (liftW (guardR (length compare \<le> GIT_OUTPUT_MAX_BYTES)
           (ValidationError (''diff refused: compare output exceeds '' @ show_nat GIT_OUTPUT_MAX_BYTES @ '' bytes'')))) (\<lambda>_.
         bindW (wi_writePreview io shown) (\<lambda>_.
         retW \<lparr>df_stat = hs_stdout stat, df_diff = hs_stdout diff, df_compare = compare, df_applyPreview = Some (buildApplyPreview shown),
           df_changedPaths = fst parsed, df_changedPathsComplete = (hs_status changed = Some 0 \<and> snd parsed), df_exitCode = hs_status diff\<rparr>))))))))))
        (bindW (wi_exec io worker [''rm'', ''-f'', ''--'', tmpIndex] (plain_opts (Some ''/work'') 30000)) (\<lambda>_. retW ())))))"

text \<open>The diff of a retained result, from the host repository; \<open>run\<close> is git in the project.\<close>

definition retained_run :: "(string list \<Rightarrow> ('w, host_spawned) act) \<Rightarrow> string list \<Rightarrow> string \<Rightarrow> ('w, host_spawned) act" where
  "retained_run run argv label = bindW (run argv) (\<lambda>r. bindW (liftW (assertCompleteOutput label r)) (\<lambda>_. retW r))"

definition or_baseline :: "session_record \<Rightarrow> string result" where
  "or_baseline r = (case sr_baselineRef r of Some b \<Rightarrow> Inr b | None \<Rightarrow> baselineRef (sr_sessionID r))"

definition buildRetainedDiff :: "op_config \<Rightarrow> (string list \<Rightarrow> ('w, host_spawned) act) \<Rightarrow> session_record \<Rightarrow> ('w, diff_answer) act" where
  "buildRetainedDiff cfg run r =
     bindW (liftW (guardR (sr_state r = RESULT_READY \<or> sr_state r = RETAINED)
       (StateError (''cannot inspect retained result from state '' @ state_name (sr_state r))))) (\<lambda>_.
     bindW (liftW (guardR (\<exists>p \<in> set (bc_projects (oc_broker cfg)). Some (pr_id p) = sr_projectID r) (StateError ''project not in allowlist''))) (\<lambda>_.
     bindW (liftW (or_baseline r)) (\<lambda>baseline.
     bindW (liftW (guardR (sr_resultRef r \<noteq> None \<and> sr_resultRef r \<noteq> Some []) (StateError ''retained result has no result ref''))) (\<lambda>_.
     let res = the (sr_resultRef r) in
     bindW (retained_run run [''git'', ''diff'', ''--stat'', baseline, res] ''stat'') (\<lambda>stat.
     bindW (retained_run run [''git'', ''diff'', baseline, res] ''diff'') (\<lambda>diff.
     bindW (retained_run run (buildChangedPathsArgv baseline res) ''changed-paths'') (\<lambda>changed.
     let parsed = (if hs_status changed = Some 0 then parseNulDelimitedPaths (hs_stdout changed) else ([], False)) in
     retW \<lparr>df_stat = hs_stdout stat, df_diff = hs_stdout diff, df_compare = [], df_applyPreview = None, df_changedPaths = fst parsed,
       df_changedPathsComplete = (hs_status changed = Some 0 \<and> snd parsed), df_exitCode = hs_status diff\<rparr>)))))))"

definition diff_op ::
  "op_config \<Rightarrow> 'w worker_io \<Rightarrow> (string list \<Rightarrow> ('w, host_spawned) act) \<Rightarrow> (nat \<Rightarrow> string) \<Rightarrow> store \<Rightarrow> envelope \<Rightarrow> ('w, diff_answer) act"
where
  "diff_op cfg io run uuid st req =
     bindW (liftW (payloadOf req)) (\<lambda>payload.
     let mode = (case js_get payload ''mode'' of JUndefined \<Rightarrow> JStr ''active'' | JNull \<Rightarrow> JStr ''active'' | m \<Rightarrow> m) in
     bindW (liftW (guardR (mode = JStr ''active'' \<or> mode = JStr ''retained'') (ValidationError ''diff mode must be active or retained''))) (\<lambda>_.
     bindW (liftW (recordOr404 st (env_sessionID req))) (\<lambda>r.
     if mode = JStr ''retained'' then buildRetainedDiff cfg run r
     else bindW (liftW (requireActiveWorker r)) (\<lambda>worker.
          bindW (liftW (or_baseline r)) (\<lambda>ref.
          active_diff io uuid worker ref)))))"

end
