(* ===== verification/WorkerGuarantees.thy ===== *)
theory WorkerGuarantees
  imports WorkerOps
begin

text \<open>
  What the worker operations of \<^verbatim>\<open>broker/src/service.ts\<close> guarantee: a write that fails
  leaves the target as it was, a read returns the bytes of the file, and two places where
  the operations do less than their comments say.
\<close>

section \<open>Calls that keep a property\<close>

named_theorems keeps_intros \<open>calls that keep a property of the outside\<close>

definition keeps :: "('w \<Rightarrow> bool) \<Rightarrow> ('w, 'a) act \<Rightarrow> bool" where
  "keeps P m = (\<forall>w. P w \<longrightarrow> P (fst (m w)))"

lemma keepsD: "keeps P m \<Longrightarrow> P w \<Longrightarrow> m w = (w', r) \<Longrightarrow> P w'"
  unfolding keeps_def by (metis fst_conv)

lemma keeps_ret [keeps_intros]: "keeps P (retW x)"
  by (simp add: keeps_def retW_def)

lemma keeps_lift [keeps_intros]: "keeps P (liftW r)"
  by (simp add: keeps_def liftW_def)

lemma keeps_bind [keeps_intros]: "keeps P m \<Longrightarrow> (\<And>x. keeps P (f x)) \<Longrightarrow> keeps P (bindW m f)"
  by (fastforce simp: keeps_def bindW_def split: prod.splits sum.splits)

lemma keeps_finally [keeps_intros]: "keeps P m \<Longrightarrow> keeps P c \<Longrightarrow> keeps P (finallyW m c)"
  by (fastforce simp: keeps_def finallyW_def split: prod.splits sum.splits)

lemma keeps_ignore [keeps_intros]: "keeps P m \<Longrightarrow> keeps P (ignoreW m)"
  by (auto simp: keeps_def ignoreW_def)

lemma keeps_if [keeps_intros]: "(b \<Longrightarrow> keeps P m) \<Longrightarrow> (\<not> b \<Longrightarrow> keeps P n) \<Longrightarrow> keeps P (if b then m else n)"
  by simp

lemma keeps_option [keeps_intros]: "keeps P m \<Longrightarrow> (\<And>x. keeps P (f x)) \<Longrightarrow> keeps P (case v of None \<Rightarrow> m | Some x \<Rightarrow> f x)"
  by (simp split: option.split)

lemma retW_lift: "retW x = liftW (Inr x)"
  by (auto simp: retW_def liftW_def)

lemma bindW_lift: "bindW (liftW r) f w = (case r of Inl e \<Rightarrow> (w, Inl e) | Inr x \<Rightarrow> f x w)"
  by (simp add: bindW_def liftW_def split: sum.split)

lemma bindW_cases:
  obtains (err) w' e where "m w = (w', Inl e)" "bindW m f w = (w', Inl e)"
    | (ok) w' x where "m w = (w', Inr x)" "bindW m f w = f x w'"
  by (cases "m w"; cases "snd (m w)") (auto simp: bindW_def)

section \<open>A failed write keeps the target\<close>

text \<open>The commands of a write other than the move, and the move.\<close>

definition side_command :: "string \<Rightarrow> string \<Rightarrow> string list \<Rightarrow> bool" where
  "side_command workerTmp stageTmp argv =
     (argv \<noteq> [] \<and> hd argv \<in> {''mkdir'', ''stat'', ''test''} \<or> argv = [''cp'', ''--'', workerTmp, stageTmp] \<or>
      (\<exists>m. argv = [''chmod'', m, ''--'', stageTmp]) \<or> argv = [''rm'', ''-f'', ''--'', workerTmp] \<or>
      argv = [''rm'', ''-f'', ''--'', workerTmp, stageTmp])"

definition move_argv :: "string \<Rightarrow> string \<Rightarrow> string list" where
  "move_argv stageTmp targetPath = [''mv'', ''-f'', ''--'', stageTmp, targetPath]"

text \<open>
  What is assumed of the commands: \<open>Old\<close> survives every side command and every file
  operation on the host, a move that does not succeed keeps it and a move that succeeds
  establishes \<open>New\<close>; removing temporary files keeps both and does not throw.
\<close>

definition write_commands_ok :: "('w \<Rightarrow> bool) \<Rightarrow> ('w \<Rightarrow> bool) \<Rightarrow> 'w worker_io \<Rightarrow> string \<Rightarrow> string \<Rightarrow> string \<Rightarrow> bool" where
  "write_commands_ok Old New io workerTmp stageTmp targetPath =
     ((\<forall>worker argv opts. side_command workerTmp stageTmp argv \<longrightarrow> keeps Old (wi_exec io worker argv opts)) \<and>
      (\<forall>worker argv opts. side_command workerTmp stageTmp argv \<longrightarrow> keeps New (wi_exec io worker argv opts)) \<and>
      (\<forall>p. keeps Old (wi_mkdirHost io p)) \<and> (\<forall>p c. keeps Old (wi_writeHost io p c)) \<and>
      (\<forall>worker a b. keeps Old (wi_copyIn io worker a b)) \<and>
      (\<forall>p w. \<exists>w'. wi_rmHost io p w = (w', Inr ()) \<and> (Old w \<longrightarrow> Old w') \<and> (New w \<longrightarrow> New w')) \<and>
      (\<forall>worker opts w. Old w \<longrightarrow> (case wi_exec io worker (move_argv stageTmp targetPath) opts w of
         (w', Inl _) \<Rightarrow> Old w' | (w', Inr r) \<Rightarrow> if hs_status r = Some 0 then New w' else Old w')))"

lemma keeps_execOrThrow:
  "(\<And>opts. keeps P (wi_exec io worker argv opts)) \<Longrightarrow> keeps P (execOrThrow io worker argv what)"
  unfolding execOrThrow_def by (intro keeps_intros)

lemma replace_outcome:
  assumes ok: "write_commands_ok Old New io workerTmp stageTmp targetPath" and old: "Old w"
    and rt: "replace_target io worker workerTmp stageTmp targetPath mode w = (w', r)"
  shows "case r of Inl _ \<Rightarrow> Old w' | Inr _ \<Rightarrow> New w'"
proof -
  have side: "keeps Old (execOrThrow io worker argv what)" if "side_command workerTmp stageTmp argv" for argv what
    using ok that by (intro keeps_execOrThrow) (auto simp: write_commands_ok_def)
  let ?cp = "execOrThrow io worker [''cp'', ''--'', workerTmp, stageTmp] ''writeFile stage''"
  let ?ch = "execOrThrow io worker [''chmod'', (case mode of Some m \<Rightarrow> m | None \<Rightarrow> ''644''), ''--'', stageTmp] ''writeFile chmod''"
  obtain w1 r1 where cp: "?cp w = (w1, r1)" by fastforce
  have "side_command workerTmp stageTmp [''cp'', ''--'', workerTmp, stageTmp]" by (simp add: side_command_def)
  from keepsD [OF side [OF this] old cp] have o1: "Old w1" .
  obtain w2 r2 where ch: "?ch w1 = (w2, r2)" by fastforce
  have "side_command workerTmp stageTmp [''chmod'', (case mode of Some m \<Rightarrow> m | None \<Rightarrow> ''644''), ''--'', stageTmp]"
    by (simp add: side_command_def)
  from keepsD [OF side [OF this] o1 ch] have o2: "Old w2" .
  obtain w3 r3 where mv: "wi_exec io worker (move_argv stageTmp targetPath) (plain_opts None 30000) w2 = (w3, r3)" by fastforce
  have m: "case r3 of Inl _ \<Rightarrow> Old w3 | Inr x \<Rightarrow> if hs_status x = Some 0 then New w3 else Old w3"
    using ok o2 mv unfolding write_commands_ok_def by (metis (mono_tags, lifting) case_prod_conv)
  have "(w', r) = bindW ?cp (\<lambda>_. bindW ?ch (\<lambda>_. execOrThrow io worker (move_argv stageTmp targetPath) ''writeFile'')) w"
    using rt by (simp add: replace_target_def move_argv_def)
  then show ?thesis
    using cp ch mv m o1 o2
    by (auto simp: bindW_def execOrThrow_def [of io worker "move_argv stageTmp targetPath"] liftW_def guardR_def split: sum.splits if_splits)
qed

lemma write_steps_outcome:
  assumes ok: "write_commands_ok Old New io workerTmp (workerDirOf targetPath @ ''/'' @ stageName) targetPath" and old: "Old w"
  shows "case write_steps cfg io worker hostTmp workerTmp stageName targetPath content w of
    (w', Inl _) \<Rightarrow> Old w' | (w', Inr _) \<Rightarrow> New w'"
proof -
  let ?stage = "workerDirOf targetPath @ ''/'' @ stageName"
  have side: "keeps Old (wi_exec io worker argv opts)" "keeps New (wi_exec io worker argv opts)"
    if "side_command workerTmp ?stage argv" for worker argv opts
    using ok that by (auto simp: write_commands_ok_def)
  have host: "keeps Old (wi_mkdirHost io p)" "keeps Old (wi_writeHost io p c)" "keeps Old (wi_copyIn io worker a b)" for p c worker a b
    using ok by (auto simp: write_commands_ok_def)
  have prep: "keeps Old (write_prepare cfg io worker hostTmp workerTmp targetPath content)"
    unfolding write_prepare_def existingTargetMode_def stat_argv_def
    by (intro keeps_intros keeps_execOrThrow side host) (auto simp: side_command_def)
  have clean: "\<exists>w2. finallyW (liftW r) (write_cleanup io worker hostTmp left) w1 = (w2, r) \<and>
      (Old w1 \<longrightarrow> Old w2) \<and> (New w1 \<longrightarrow> New w2)"
    if "left = [workerTmp] \<or> left = [workerTmp, ?stage]" for r :: "unit result" and left w1
  proof -
    obtain wh where wh: "wi_rmHost io hostTmp w1 = (wh, Inr ())" "Old w1 \<longrightarrow> Old wh" "New w1 \<longrightarrow> New wh"
      using ok unfolding write_commands_ok_def by blast
    have "side_command workerTmp ?stage ([''rm'', ''-f'', ''--''] @ left)"
      using that by (auto simp: side_command_def)
    from side [OF this] have "Old wh \<longrightarrow> Old (fst (cleanup_worker io worker left wh))" "New wh \<longrightarrow> New (fst (cleanup_worker io worker left wh))"
      by (simp_all add: keeps_def cleanup_worker_def ignoreW_def)
    moreover have "snd (cleanup_worker io worker left wh) = Inr ()" by (simp add: cleanup_worker_def ignoreW_def)
    ultimately show ?thesis
      using wh by (auto simp: finallyW_def liftW_def write_cleanup_def bindW_def split: prod.splits sum.splits)
  qed
  show ?thesis
  proof (cases "write_prepare cfg io worker hostTmp workerTmp targetPath content w")
    case (Pair w1 r1)
    have o1: "Old w1" by (rule keepsD [OF prep old Pair])
    show ?thesis
    proof (cases r1)
      case (Inl e)
      obtain w2 where "finallyW (liftW (Inl e :: unit result)) (write_cleanup io worker hostTmp [workerTmp]) w1 = (w2, Inl e)" "Old w2"
        using clean [of "[workerTmp]" "Inl e" w1] o1 by auto
      then show ?thesis by (simp add: write_steps_def Pair Inl)
    next
      case (Inr mode)
      obtain w2 r2 where rt: "replace_target io worker workerTmp ?stage targetPath mode w1 = (w2, r2)" by fastforce
      have "case r2 of Inl _ \<Rightarrow> Old w2 | Inr _ \<Rightarrow> New w2"
        by (rule replace_outcome [OF ok o1 rt])
      then show ?thesis
      proof (cases r2)
        case (Inl e)
        then have "Old w2" using \<open>case r2 of Inl _ \<Rightarrow> Old w2 | Inr _ \<Rightarrow> New w2\<close> by simp
        then obtain w3 where "finallyW (liftW (Inl e :: unit result)) (write_cleanup io worker hostTmp [workerTmp, ?stage]) w2 = (w3, Inl e)" "Old w3"
          using clean [of "[workerTmp, ?stage]" "Inl e" w2] by auto
        then show ?thesis by (simp add: write_steps_def Pair Inr rt [simplified] Inl Let_def)
      next
        case ok2: (Inr u)
        then have "New w2" using \<open>case r2 of Inl _ \<Rightarrow> Old w2 | Inr _ \<Rightarrow> New w2\<close> by simp
        then obtain w3 where "finallyW (retW ()) (write_cleanup io worker hostTmp [workerTmp]) w2 = (w3, Inr ())" "New w3"
          using clean [of "[workerTmp]" "Inr ()" w2] by (auto simp: retW_lift)
        then show ?thesis by (simp add: write_steps_def Pair Inr rt [simplified] ok2 Let_def)
      qed
    qed
  qed
qed

text \<open>
  Writing a file replaces the target in one step: if the side commands of the write keep
  what the target holds and only a successful move of the stage replaces it, then a write
  that fails, at whatever step, leaves the target as it was, and a write that succeeds has
  replaced it.
\<close>

theorem failed_write_keeps_target:
  assumes req: "payloadOf req = Inr payload" "js_get payload ''path'' = JStr path"
    and ok: "write_commands_ok Old New io (''/work/.broker-tmp/write-'' @ uuid 1 @ ''.tmp'')
      (workerDirOf path @ ''/'' @ (''.broker-write-'' @ uuid 2 @ ''.tmp'')) path"
    and old: "Old w"
  shows "case writeFile cfg io uuid st req w of (w', Inl _) \<Rightarrow> Old w' | (w', Inr p) \<Rightarrow> p = path \<and> New w'"
proof -
  let ?good = "\<lambda>x. case x of (w', Inl _) \<Rightarrow> Old w' | (w', Inr p) \<Rightarrow> p = path \<and> New w'"
  have "?good (bindW (write_steps cfg io worker host (''/work/.broker-tmp/write-'' @ uuid 1 @ ''.tmp'')
      (''.broker-write-'' @ uuid 2 @ ''.tmp'') path content) (\<lambda>_. retW path) w)" for worker host content
    using write_steps_outcome [OF ok old, of cfg worker host content]
    by (auto simp: bindW_def retW_def split: prod.splits sum.splits)
  then show ?thesis
    unfolding writeFile_def Let_def req js_str.simps bindW_lift
    using req(2) old by (simp split: sum.split)
qed

section \<open>Reading gives the bytes of the file\<close>

text \<open>The output of \<open>base64 -w 0\<close>.\<close>

definition B64 :: string where
  "B64 = ''ABCDEFGHIJKLMNOPQRSTUVWXYZabcdefghijklmnopqrstuvwxyz0123456789+/''"

fun base64_encode :: "string \<Rightarrow> string" where
  "base64_encode (x # y # z # r) =
     (let a = of_char x; b = of_char y; c = of_char z in
      B64 ! (a div 4) # B64 ! (a mod 4 * 16 + b div 16) # B64 ! (b mod 16 * 4 + c div 64) # B64 ! (c mod 64) # base64_encode r)"
| "base64_encode [x, y] =
     (let a = of_char x; b = of_char y in [B64 ! (a div 4), B64 ! (a mod 4 * 16 + b div 16), B64 ! (b mod 16 * 4), CHR ''=''])"
| "base64_encode [x] = (let a = of_char x in [B64 ! (a div 4), B64 ! (a mod 4 * 16), CHR ''='', CHR ''=''])"
| "base64_encode [] = []"

lemma B64_table: "map b64_value B64 = map Some [0..<64]"
  by code_simp

lemma B64_round: "n < 64 \<Longrightarrow> b64_value (B64 ! n) = Some n"
proof -
  assume n: "n < 64"
  have len: "length B64 = 64" by code_simp
  have "b64_value (B64 ! n) = map b64_value B64 ! n" using n len by simp
  also have "\<dots> = Some n" using n by (subst B64_table) simp
  finally show ?thesis .
qed

lemma B64_eq: "n < 64 \<Longrightarrow> B64 ! n \<noteq> CHR ''=''"
proof
  assume n: "n < 64" and e: "B64 ! n = CHR ''=''"
  have "b64_value (CHR ''='') = None" by code_simp
  with B64_round [OF n] e show False by simp
qed

lemma of_char_lt: "(of_char (c :: char) :: nat) < 256"
  by (metis of_char_mod_256 mod_less_divisor zero_less_numeral)

lemma byte_of_char: "n mod 256 = of_char c \<Longrightarrow> byte n = c"
  by (simp add: byte_def)

lemma b64_bytes_back:
  "a < 256 \<Longrightarrow> s < 16 \<Longrightarrow> (a div 4 * 4 + (a mod 4 * 16 + s) div 16) mod 256 = (a :: nat)"
  "b < 256 \<Longrightarrow> u < 4 \<Longrightarrow> ((p * 16 + b div 16) * 16 + (b mod 16 * 4 + u) div 4) mod 256 = (b :: nat)"
  "c < 256 \<Longrightarrow> ((q * 4 + c div 64) * 64 + c mod 64) mod 256 = (c :: nat)"
proof -
  assume "a < 256" "s < 16"
  then show "(a div 4 * 4 + (a mod 4 * 16 + s) div 16) mod 256 = a" by simp
next
  assume b: "b < 256" "u < 4"
  have "(p * 16 + b div 16) * 16 + (b mod 16 * 4 + u) div 4 = p * 256 + (b div 16 * 16 + b mod 16)"
    using b by (simp add: algebra_simps)
  also have "\<dots> = p * 256 + b" by simp
  finally show "((p * 16 + b div 16) * 16 + (b mod 16 * 4 + u) div 4) mod 256 = b" using b by simp
next
  assume c: "c < 256"
  have "(q * 4 + c div 64) * 64 + c mod 64 = q * 256 + (c div 64 * 64 + c mod 64)" by (simp add: algebra_simps)
  also have "\<dots> = q * 256 + c" by simp
  finally show "((q * 4 + c div 64) * 64 + c mod 64) mod 256 = c" using c by simp
qed

lemma b64_indices:
  "a < 256 \<Longrightarrow> a div 4 < (64 :: nat)" "b < 256 \<Longrightarrow> p < 4 \<Longrightarrow> p * 16 + b div 16 < (64 :: nat)"
  "c < 256 \<Longrightarrow> q < 16 \<Longrightarrow> q * 4 + c div 64 < (64 :: nat)"
  by (auto simp: less_mult_imp_div_less)

lemma base64_round_trip: "base64_decode (base64_encode s) = s"
proof (induction s rule: base64_encode.induct)
  case (1 x y z r)
  define a b c :: nat where abc: "a = of_char x" "b = of_char y" "c = of_char z"
  have lt: "a < 256" "b < 256" "c < 256" by (auto simp: abc of_char_lt)
  have i: "a div 4 < 64" "a mod 4 * 16 + b div 16 < 64" "b mod 16 * 4 + c div 64 < 64" "c mod 64 < 64"
    using lt by (simp_all add: b64_indices)
  have "byte (a div 4 * 4 + (a mod 4 * 16 + b div 16) div 16) = x"
      "byte ((a mod 4 * 16 + b div 16) * 16 + (b mod 16 * 4 + c div 64) div 4) = y"
      "byte ((b mod 16 * 4 + c div 64) * 64 + c mod 64) = z"
    using b64_bytes_back(1) [OF lt(1), of "b div 16"] b64_bytes_back(2) [OF lt(2), of "c div 64"] b64_bytes_back(3) [OF lt(3)] lt
    by (auto intro!: byte_of_char simp: abc less_mult_imp_div_less)
  with "1.IH" i show ?case
    by (simp add: base64_decode_def Let_def B64_round B64_eq flip: abc)
next
  case (2 x y)
  define a b :: nat where ab: "a = of_char x" "b = of_char y"
  have lt: "a < 256" "b < 256" by (auto simp: ab of_char_lt)
  have i: "a div 4 < 64" "a mod 4 * 16 + b div 16 < 64" "b mod 16 * 4 < 64"
    using lt b64_indices(3) [of 0 "b mod 16"] by (simp_all add: b64_indices)
  have "byte (a div 4 * 4 + (a mod 4 * 16 + b div 16) div 16) = x" "byte ((a mod 4 * 16 + b div 16) * 16 + (b mod 16 * 4) div 4) = y"
    using b64_bytes_back(1) [OF lt(1), of "b div 16"] b64_bytes_back(2) [OF lt(2), of 0] lt
    by (auto intro!: byte_of_char simp: ab less_mult_imp_div_less)
  with i show ?case by (simp add: base64_decode_def Let_def B64_round B64_eq flip: ab)
next
  case (3 x)
  define a :: nat where a: "a = of_char x"
  have lt: "a < 256" by (auto simp: a of_char_lt)
  have i: "a div 4 < 64" "a mod 4 * 16 < 64" using lt b64_indices(2) [of 0 "a mod 4"] by (simp_all add: b64_indices)
  have "byte (a div 4 * 4 + (a mod 4 * 16) div 16) = x"
    using b64_bytes_back(1) [OF lt, of 0] by (auto intro!: byte_of_char simp: a)
  with i show ?case by (simp add: base64_decode_def Let_def B64_round B64_eq flip: a)
qed (simp add: base64_decode_def)

lemma base64_no_space: "list_all (\<lambda>c. \<not> is_space c) (base64_encode s)"
proof -
  have "list_all (\<lambda>c. \<not> is_space c) B64" "length B64 = 64" by code_simp+
  then have "n < 64 \<Longrightarrow> \<not> is_space (B64 ! n)" for n by (simp add: list_all_length)
  moreover have "(of_char c :: nat) < 256" for c by (rule of_char_lt)
  moreover have "\<not> is_space (CHR ''='')" by (simp add: is_space_def)
  ultimately show ?thesis
    using b64_indices
    by (induction s rule: base64_encode.induct) (simp_all add: Let_def b64_indices)
qed

lemma stat_field_size:
  "stat_field (\<lambda>d. d \<noteq> []) (show_nat n @ '':regular file'' @ nl) = Some (show_nat n)"
proof -
  have d: "list_all is_digit (show_nat n)" "show_nat n \<noteq> []" using show_nat_digits by auto
  have tw: "takeWhile is_digit (show_nat n @ '':regular file'' @ nl) = show_nat n"
    using d by (subst takeWhile_append2) (auto simp: list_all_iff is_digit_def)
  have "rev (dropWhile is_space (rev (''regular file'' @ nl))) = ''regular file''" by code_simp
  then show ?thesis unfolding stat_field_def Let_def tw using d by (simp add: startsWith_def)
qed

text \<open>
  C36. Reading a file returns its bytes: when \<open>stat\<close> reports a regular file of \<open>n\<close> bytes
  within the limit and \<open>base64\<close> prints \<open>c\<close>, the result is \<open>c\<close> itself if it has \<open>n\<close>
  bytes of valid UTF-8, and an error, never other text, if the file changed in between or is not
  text.
\<close>

theorem read_returns_the_bytes:
  assumes req: "payloadOf req = Inr payload" "js_get payload ''path'' = JStr path"
    and path: "assertSandboxPath (JStr path) (oc_pathMaxBytes cfg) = Inr u"
    and worker: "active_worker st req = Inr worker"
    and stat: "wi_exec io worker (stat_argv ''%s:%F'' path) (plain_opts None 30000) w = (w1, Inr s)"
      "hs_status s = Some 0" "hs_stdout s = show_nat n @ '':regular file'' @ nl" "n \<le> oc_contentMaxBytes cfg"
    and out: "wi_exec io worker (read_argv path) \<lparr>eo_cwd = None, eo_timeoutMs = Some 30000, eo_env = JUndefined,
        eo_maxOutputBytes = Some ((oc_contentMaxBytes cfg + 2) div 3 * 4 + 64)\<rparr> w1 = (w2, Inr out)"
      "hs_status out = Some 0" "hs_stdout out = base64_encode c"
  shows "readFile cfg io st req w = (w2,
    if length c \<noteq> n then Inl (MsbError (''readFile refused: read '' @ show_nat (length c) @ '' of '' @ show_nat n @
        '' bytes from '' @ path @ '' (truncated or changed during the read)''))
    else if \<not> valid_utf8 c then Inl (ValidationError (''readFile refused: '' @ path @ '' is not valid UTF-8 text; use sandbox_copy_out for binary files''))
    else Inr c)"
proof -
  have dec: "base64_decode (filter (\<lambda>c. \<not> is_space c) (hs_stdout out)) = c"
    using base64_no_space [of c] by (simp add: out base64_round_trip filter_id_conv list_all_iff)
  have dig: "stat_field (\<lambda>d. d \<noteq> []) (hs_stdout s) = Some (show_nat n)"
    unfolding stat(3) by (rule stat_field_size)
  show ?thesis
    unfolding readFile_def Let_def req bindW_lift sum.case path worker js_str.simps
    using stat(1,2,4) out(1,2) dec dig
    by (simp add: bindW_def liftW_def retW_def guardR_def parse_show_nat)
qed

section \<open>Examples\<close>

text \<open>A worker with one file; its state says whether the file was replaced.  \<open>chmod\<close> fails when \<open>bad\<close>.\<close>

definition demo_ran :: "int \<Rightarrow> string \<Rightarrow> host_spawned" where
  "demo_ran status out = \<lparr>hs_status = Some status, hs_stdout = out, hs_stderr = [], hs_timedOut = False, hs_outputTruncated = False\<rparr>"

definition demo_exec :: "bool \<Rightarrow> string \<Rightarrow> string list \<Rightarrow> exec_options \<Rightarrow> (bool, host_spawned) act" where
  "demo_exec bad worker argv opts w =
     (if hd argv = ''mv'' then (True, Inr (demo_ran 0 []))
      else if hd argv = ''chmod'' \<and> bad then (w, Inr (demo_ran 1 []))
      else if argv = stat_argv ''%s:%F'' ''f.txt'' then (w, Inr (demo_ran 0 (show_nat 3 @ '':regular file'' @ nl)))
      else if argv = stat_argv ''%a:%F'' ''f.txt'' then (w, Inr (demo_ran 0 (''640:regular file'' @ nl)))
      else if hd argv = ''base64'' then (w, Inr (demo_ran 0 (base64_encode ''hey'')))
      else (w, Inr (demo_ran 0 [])))"

definition demo_io :: "bool \<Rightarrow> bool worker_io" where
  "demo_io bad = \<lparr>wi_exec = demo_exec bad, wi_copyIn = (\<lambda>_ _ _. retW ()), wi_copyOut = (\<lambda>_ _ _. retW ()), wi_mkdirHost = (\<lambda>_. retW ()),
     wi_writeHost = (\<lambda>_ _. retW ()), wi_readHost = (\<lambda>_. retW []), wi_rmHost = (\<lambda>_. retW ()), wi_existsHost = (\<lambda>_ _. False),
     wi_copyFileHost = (\<lambda>_ _. retW ()), wi_renameHost = (\<lambda>_ _. retW ()), wi_chmodHost = (\<lambda>_. retW ()), wi_writePreview = (\<lambda>_. retW ())\<rparr>"

definition demo_op_config :: op_config where
  "demo_op_config = \<lparr>oc_broker = demo_config 1, oc_argvLimits = \<lparr>itemMaxBytes = 64, maxItems = 8, totalMaxBytes = 256\<rparr>,
     oc_execTimeoutMsDefault = 1000, oc_execTimeoutMsMax = 2000, oc_pathMaxBytes = 64, oc_contentMaxBytes = 64, oc_patchMaxBytes = 64,
     oc_grepQueryMaxBytes = 64, oc_maxApplyDiffLines = 10, oc_externalCopyTargets = []\<rparr>"

definition demo_active_store :: store where
  "demo_active_store = [''s1'' \<mapsto> Stored ((new_record ''s1'' (Iso 0))\<lparr>sr_state := SANDBOX_ACTIVE, sr_workerName := Some ''w1'',
     sr_baselineRef := Some ''base''\<rparr>)]"

definition demo_op_request :: "string \<Rightarrow> (string \<times> js) list \<Rightarrow> envelope" where
  "demo_op_request operation payload = \<lparr>env_id = ''1'', env_operation = operation, env_sessionID = ''s1'', env_agent = JUndefined, env_payload = JObj payload\<rparr>"

lemma demo_op_payloads:
  "payloadOf (demo_op_request ''writeFile'' [(''path'', JStr ''f.txt''), (''content'', JStr ''x'')]) = Inr [(''path'', JStr ''f.txt''), (''content'', JStr ''x'')]"
  "payloadOf (demo_op_request ''readFile'' [(''path'', JStr ''f.txt'')]) = Inr [(''path'', JStr ''f.txt'')]"
  "payloadOf (demo_op_request ''listDir'' [(''path'', JStr ''-R'')]) = Inr [(''path'', JStr ''-R'')]"
  "js_get [(''path'', JStr ''f.txt''), (''content'', JStr ''x'')] ''path'' = JStr ''f.txt''"
  by code_simp+

lemma demo_active: "active_worker demo_active_store (demo_op_request operation payload) = Inr ''w1''"
  by (simp add: active_worker_def demo_active_store_def demo_op_request_def recordOr404_def store_get_def requireActiveWorker_def)

lemma demo_write_commands:
  "write_commands_ok Not (\<lambda>w. w) (demo_io bad) workerTmp stageTmp targetPath"
  by (auto simp: write_commands_ok_def demo_io_def demo_exec_def keeps_def retW_def side_command_def move_argv_def demo_ran_def)

theorem failed_write_keeps_target_witness:
  "case writeFile demo_op_config (demo_io True) (\<lambda>n. ''u'' @ show_nat n) demo_active_store
      (demo_op_request ''writeFile'' [(''path'', JStr ''f.txt''), (''content'', JStr ''x'')]) False of
     (w', Inl _) \<Rightarrow> \<not> w' | (w', Inr p) \<Rightarrow> p = ''f.txt'' \<and> w'"
  by (rule failed_write_keeps_target [OF demo_op_payloads(1,4) demo_write_commands]) simp

theorem read_returns_the_bytes_witness:
  "readFile demo_op_config (demo_io False) demo_active_store (demo_op_request ''readFile'' [(''path'', JStr ''f.txt'')]) False = (False, Inr ''hey'')"
proof -
  have v: "valid_utf8 ''hey''" by code_simp
  have p: "assertSandboxPath (JStr ''f.txt'') (oc_pathMaxBytes demo_op_config) = Inr ()" by code_simp
  show ?thesis
    using read_returns_the_bytes [of "demo_op_request ''readFile'' [(''path'', JStr ''f.txt'')]" "[(''path'', JStr ''f.txt'')]" "''f.txt''"
        demo_op_config "()" demo_active_store "''w1''" "demo_io False" False False "demo_ran 0 (show_nat 3 @ '':regular file'' @ nl)" 3
        False "demo_ran 0 (base64_encode ''hey'')" "''hey''"] v p demo_active demo_op_payloads(2)
    by (simp add: js_get_def demo_io_def demo_exec_def stat_argv_def read_argv_def demo_ran_def demo_op_config_def
        del: base64_encode.simps show_nat.simps)
qed

section \<open>Where the operations do less than they say\<close>

text \<open>
  A path that starts with a dash passes the check of sandbox paths and is given to \<open>ls\<close>
  as it is, without \<open>--\<close>, so that it is read as an option: the listing of the path
  \<open>-R\<close> is the recursive listing of the current directory.
\<close>

theorem listing_path_read_as_option:
  "listDir demo_op_config io demo_active_store (demo_op_request ''listDir'' [(''path'', JStr ''-R'')]) =
     bindW (wi_exec io ''w1'' [''ls'', ''-la'', ''-R''] (plain_opts None 30000)) (\<lambda>r. retW (hs_stdout r))"
proof -
  have p: "assertSandboxPath (JStr ''-R'') (oc_pathMaxBytes demo_op_config) = Inr ()" by code_simp
  have g: "js_get [(''path'', JStr ''-R'')] ''path'' = JStr ''-R''" by code_simp
  show ?thesis
    unfolding listDir_def by (rule ext) (simp add: bindW_lift demo_op_payloads demo_active p g)
qed

text \<open>A worker with two added files, \<open>a.txt.new\<close> and \<open>evil.sh\<close>, and an \<open>a.txt\<close> to compare with.\<close>

definition preview_exec :: "string list \<Rightarrow> host_spawned" where
  "preview_exec argv =
     (if ''--name-status'' \<in> set argv then demo_ran 0 (''A'' @ [CHR 0x09] @ ''a.txt.new'' @ nl @ ''A'' @ [CHR 0x09] @ ''evil.sh'' @ nl)
      else if ''--no-index'' \<in> set argv then demo_ran 1 ''+a line''
      else if take 3 argv = [''git'', ''diff'', ''--cached''] \<and> ''--stat'' \<notin> set argv \<and> ''-z'' \<notin> set argv then demo_ran 0 ''+a line and +evil''
      else demo_ran 0 [])"

definition preview_io :: "string list worker_io" where
  "preview_io = \<lparr>wi_exec = (\<lambda>_ argv _ w. (w, Inr (preview_exec argv))), wi_copyIn = (\<lambda>_ _ _. retW ()), wi_copyOut = (\<lambda>_ _ _. retW ()), wi_mkdirHost = (\<lambda>_. retW ()),
     wi_writeHost = (\<lambda>_ _. retW ()), wi_readHost = (\<lambda>_. retW []), wi_rmHost = (\<lambda>_. retW ()), wi_existsHost = (\<lambda>_ _. False),
     wi_copyFileHost = (\<lambda>_ _. retW ()), wi_renameHost = (\<lambda>_ _. retW ()), wi_chmodHost = (\<lambda>_. retW ()), wi_writePreview = (\<lambda>s w. (w @ [s], Inr ()))\<rparr>"

text \<open>
  The preview that an approval rests on can leave out a change: as soon as one added
  file \<open>x.new\<close> has an \<open>x\<close> to compare with, the preview file holds the comparison only,
  and a second added file that the diff shows is in neither the preview file nor the
  preview text.
\<close>

theorem preview_leaves_out_changes:
  "\<exists>d. active_diff preview_io (\<lambda>n. ''u'') ''w1'' ''base'' [] = ([''+a line'' @ nl], Inr d) \<and>
     df_diff d = ''+a line and +evil'' \<and> df_applyPreview d = Some (buildApplyPreview (''+a line'' @ nl))"
proof -
  have added: "added_path (''A'' @ [CHR 0x09] @ ''a.txt.new'') = Some ''a.txt.new''" "added_path (''A'' @ [CHR 0x09] @ ''evil.sh'') = Some ''evil.sh''"
    "added_path [] = None" "endsWith ''a.txt.new'' ''.new''" "\<not> endsWith ''evil.sh'' ''.new''" by code_simp+
  have c: "compare_lines preview_io ''w1'' [''A'' @ [CHR 0x09] @ ''a.txt.new'', ''A'' @ [CHR 0x09] @ ''evil.sh'', []] w = (w, Inr (''+a line'' @ nl))" for w
    unfolding compare_lines.simps added
    by (simp add: added bindW_def retW_def liftW_def preview_io_def preview_exec_def demo_ran_def assertCompleteOutput_def guardR_def)
  have t: "apply_preview_text (''+a line'' @ nl) d = ''+a line'' @ nl" for d
  proof -
    have "trim (''+a line'' @ nl) \<noteq> []" by code_simp
    then show ?thesis unfolding apply_preview_text_def by (rule if_P)
  qed
  have ex: "''--stat'' \<notin> set RESULT_EXCLUDE_PATHS" "''-z'' \<notin> set RESULT_EXCLUDE_PATHS" "''--no-index'' \<notin> set RESULT_EXCLUDE_PATHS"
      "''--name-status'' \<notin> set RESULT_EXCLUDE_PATHS" by code_simp+
  have io: "wi_exec preview_io worker argv opts w = (w, Inr (preview_exec argv))" "wi_writePreview preview_io x w = (w @ [x], Inr ())" for worker argv opts w x
    by (simp_all add: preview_io_def)
  show ?thesis
    unfolding active_diff_def bounded_diff_def checked_diff_def Let_def
    by (simp add: bindW_def retW_def liftW_def finallyW_def io preview_exec_def demo_ran_def assertCompleteOutput_def guardR_def
        nl_def c [unfolded nl_def append.simps] t [unfolded nl_def append.simps] ex GIT_OUTPUT_MAX_BYTES_def
        del: compare_lines.simps)
qed

end
