(* ===== verification/AdvisorRecords.thy ===== *)
theory AdvisorRecords
  imports Server WorkerOps
begin

text \<open>
  The advisory records of \<^verbatim>\<open>broker/src/advisor-records.ts\<close>, with the lineage registry
  \<^verbatim>\<open>advisor-lineages.ts\<close> and the structural check of reviewer results in
  \<^verbatim>\<open>advisor-reviewer-result.ts\<close>.  A record is up to three files of a project directory: the
  request, the claim and the response, each published once by an exclusive link.  The
  directory is a record of maps from request ids to the parsed files (they are private to
  the broker and published whole, so they always parse).  The replies of the review
  runtime are given in the typed form the code casts them to.  Random ids, the clock, the
  digest, the size of a JSON text and the hash named in the binding line are arguments.
\<close>

section \<open>Data\<close>

datatype advisor_host = Claude | Agy

datatype requested_host = FixedHost advisor_host | RotateHost

datatype advice_kind = PreCodeAdvice | ReviewLens

datatype advice_status = PendingAdvice | ClaimedAdvice | SubmittedAdvice | DeclinedAdvice | ExpiredAdvice

record stored_review =
  rv_lineage :: string
  rv_lens :: string
  rv_target :: string
  rv_order :: int
  rv_subjectHash :: string
  rv_lensContext :: string

record advice_binding =
  bn_task :: string
  bn_step :: string
  bn_route :: "string option"
  bn_stage :: "string option"

datatype advice_snapshot = AtResultRef string | AtCommit string | AtWorktree

record stored_request =
  rq_id :: string
  rq_projectId :: string
  rq_kind :: advice_kind
  rq_binding :: advice_binding
  rq_snapshot :: advice_snapshot
  rq_rule :: string
  rq_requestedHost :: requested_host
  rq_resolvedHost :: advisor_host
  rq_group :: "string option"
  rq_thread :: string
  rq_parentId :: "string option"
  rq_question :: "string option"
  rq_evidenceRefs :: "string list"
  rq_review :: "stored_review option"
  rq_askedBy :: string
  rq_createdAt :: int
  rq_expiresAt :: int

record stored_claim =
  cl_session :: string
  cl_claimedAt :: int

record kept_manifest =
  km_requestId :: string
  km_commit :: string
  km_tree :: string
  km_observedWorkerHead :: "(string \<times> string) option"
  km_files :: "(string \<times> string) list"   \<comment> \<open>path and digest\<close>

record stored_evidence =
  ev_dir :: string
  ev_manifestSha256 :: string
  ev_files :: "(string \<times> string) list"

record stored_response =
  rs_status :: advice_status   \<comment> \<open>submitted or declined\<close>
  rs_verdict :: "string option"
  rs_findings :: "js list"
  rs_reviewerResult :: js   \<comment> \<open>\<open>JUndefined\<close> when absent\<close>
  rs_evidence :: "stored_evidence option"
  rs_session :: string
  rs_respondedAt :: int

record advice_dir =
  ad_requests :: "string \<rightharpoonup> stored_request"
  ad_claims :: "string \<rightharpoonup> stored_claim"
  ad_responses :: "string \<rightharpoonup> stored_response"
  ad_evidence :: "string \<rightharpoonup> kept_manifest"
  ad_last :: "advisor_host option"   \<comment> \<open>\<open>rotation.json\<close>\<close>
  ad_lineages :: "string list"   \<comment> \<open>the markers of external-lens lineages\<close>
  ad_relayed :: "string \<times> string \<rightharpoonup> string"   \<comment> \<open>relay markers\<close>

type_synonym advice_store = "string \<Rightarrow> advice_dir"

definition empty_dir :: advice_dir where
  "empty_dir = \<lparr>ad_requests = Map.empty, ad_claims = Map.empty, ad_responses = Map.empty, ad_evidence = Map.empty, ad_last = None,
     ad_lineages = [], ad_relayed = Map.empty\<rparr>"

definition ADVISOR_REQUEST_TTL_MS :: int where
  "ADVISOR_REQUEST_TTL_MS = 24 * 60 * 60 * 1000"

definition REVIEW_LENSES :: "string list" where
  "REVIEW_LENSES = [''review-risk'', ''review-resilience'', ''review-readability'', ''review-reliability'']"

section \<open>Validation\<close>

definition slug_char :: "char \<Rightarrow> bool" where
  "slug_char c = (is_alnum c \<or> one_of ''._-'' c)"

definition ADVICE_ID_RE :: "string \<Rightarrow> bool" where
  "ADVICE_ID_RE s = (startsWith s ''adv-'' \<and> matches is_hex 16 16 (drop 4 s))"

text \<open>\<open>odd/tasks/<name>.md#<anchor>\<close>: the name has no \<open>#\<close>, so the first one separates.\<close>

definition TASK_RE :: "string \<Rightarrow> bool" where
  "TASK_RE s =
     (let r = drop 10 s; name = takeWhile (\<lambda>c. c \<noteq> CHR ''#'') r; anchor = drop (length name + 1) r in
      startsWith s ''odd/tasks/'' \<and> CHR ''#'' \<in> set r \<and> endsWith name ''.md'' \<and>
      matches slug_char 1 128 (take (length name - 3) name) \<and> matches slug_char 1 32 anchor)"

definition TOKEN_RE :: "string \<Rightarrow> bool" where
  "TOKEN_RE = matches (\<lambda>c. is_lower c \<or> is_digit c \<or> c = CHR ''-'') 1 64"

definition SLUG_RE :: "string \<Rightarrow> bool" where
  "SLUG_RE = matches slug_char 1 64"

definition COMMIT_RE :: "string \<Rightarrow> bool" where
  "COMMIT_RE = matches is_hex 40 40"

definition CONTROL_RE :: "char \<Rightarrow> bool" where
  "CONTROL_RE c = (let n = (of_char c :: nat) in n \<le> 8 \<or> n = 11 \<or> n = 12 \<or> (14 \<le> n \<and> n \<le> 31) \<or> n = 127)"

definition MAX_TEXT_BYTES :: nat where
  "MAX_TEXT_BYTES = 64 * 1024"

definition MAX_FINDINGS_BYTES :: nat where
  "MAX_FINDINGS_BYTES = 256 * 1024"

definition MAX_LENS_CONTEXT_BYTES :: nat where
  "MAX_LENS_CONTEXT_BYTES = 1024 * 1024"

definition text_value :: "js \<Rightarrow> string \<Rightarrow> bool \<Rightarrow> nat \<Rightarrow> string option result" where
  "text_value v what required maxBytes =
     (if v = JUndefined \<and> \<not> required then Inr None
      else bindR (guardR (is_str (\<lambda>s. s \<noteq> []) v) (ValidationError (what @ '' must be a non-empty string''))) (\<lambda>_.
        bindR (guardR (length (js_str v) \<le> maxBytes) (ValidationError (what @ '' exceeds '' @ show_nat maxBytes @ '' bytes''))) (\<lambda>_.
        bindR (guardR (\<not> list_ex CONTROL_RE (js_str v)) (ValidationError (what @ '' contains control characters''))) (\<lambda>_.
        Inr (Some (js_str v))))))"

definition matching :: "js \<Rightarrow> (string \<Rightarrow> bool) \<Rightarrow> string \<Rightarrow> string result" where
  "matching v re what = bindR (guardR (is_str re v) (ValidationError (what @ '' must match its pattern''))) (\<lambda>_. Inr (js_str v))"

definition optional_matching :: "js \<Rightarrow> (string \<Rightarrow> bool) \<Rightarrow> string \<Rightarrow> string option result" where
  "optional_matching v re what = (if v = JUndefined then Inr None else bindR (matching v re what) (\<lambda>s. Inr (Some s)))"

fun exactKeys :: "js \<Rightarrow> string list \<Rightarrow> string \<Rightarrow> (string \<times> js) list result" where
  "exactKeys (JObj kvs) ok what =
     (case find (\<lambda>k. k \<notin> set ok) (map fst kvs) of
        Some k \<Rightarrow> Inl (ValidationError (what @ '' has unexpected field '' @ k))
      | None \<Rightarrow> Inr kvs)"
| "exactKeys _ ok what = Inl (ValidationError (what @ '' must be an object''))"

definition validBinding :: "js \<Rightarrow> advice_binding result" where
  "validBinding v =
     bindR (exactKeys v [''task'', ''step'', ''route'', ''stage''] ''binding'') (\<lambda>b.
     bindR (matching (js_get b ''task'') TASK_RE ''binding.task'') (\<lambda>task.
     bindR (text_value (js_get b ''step'') ''binding.step'' True 128) (\<lambda>step.
     bindR (optional_matching (js_get b ''route'') SLUG_RE ''binding.route'') (\<lambda>route.
     bindR (optional_matching (js_get b ''stage'') SLUG_RE ''binding.stage'') (\<lambda>stage.
     Inr \<lparr>bn_task = task, bn_step = the step, bn_route = route, bn_stage = stage\<rparr>)))))"

definition validSnapshot :: "js \<Rightarrow> advice_snapshot result" where
  "validSnapshot v =
     bindR (exactKeys v [''resultRef'', ''commit'', ''worktree''] ''snapshot'') (\<lambda>s.
     case s of
       [(k, x)] \<Rightarrow>
         if k = ''resultRef'' then bindR (matching x RESULT_REF_RE ''snapshot.resultRef'') (\<lambda>r. Inr (AtResultRef r))
         else if k = ''commit'' then bindR (matching x COMMIT_RE ''snapshot.commit'') (\<lambda>c. Inr (AtCommit c))
         else bindR (guardR (x = JBool True) (ValidationError ''snapshot.worktree must be true'')) (\<lambda>_. Inr AtWorktree)
     | _ \<Rightarrow> Inl (ValidationError ''snapshot must name exactly one of resultRef, commit, worktree''))"

fun evidence_refs :: "nat \<Rightarrow> js list \<Rightarrow> string list result" where
  "evidence_refs i [] = Inr []"
| "evidence_refs i (v # vs) =
     bindR (text_value v (''evidenceRefs['' @ show_nat i @ '']'') True 4096) (\<lambda>s.
     bindR (evidence_refs (i + 1) vs) (\<lambda>rest. Inr (the s # rest)))"

definition validEvidenceRefs :: "js \<Rightarrow> string list result" where
  "validEvidenceRefs v = (case v of
     JUndefined \<Rightarrow> Inr []
   | JArr vs \<Rightarrow> bindR (guardR (length vs \<le> 32) (ValidationError ''evidenceRefs must be an array of at most 32 strings'')) (\<lambda>_. evidence_refs 0 vs)
   | _ \<Rightarrow> Inl (ValidationError ''evidenceRefs must be an array of at most 32 strings''))"

definition validFindings :: "(js \<Rightarrow> nat) \<Rightarrow> js \<Rightarrow> js list result" where
  "validFindings jsonBytes v = (case v of
     JUndefined \<Rightarrow> Inr []
   | JArr vs \<Rightarrow> bindR (guardR (jsonBytes v \<le> MAX_FINDINGS_BYTES)
        (ValidationError (''findings exceed '' @ show_nat MAX_FINDINGS_BYTES @ '' bytes''))) (\<lambda>_. Inr vs)
   | _ \<Rightarrow> Inl (ValidationError ''findings must be an array''))"

section \<open>Lineages started for external reviewers\<close>

definition LINEAGE_RE :: "string \<Rightarrow> bool" where
  "LINEAGE_RE s = (startsWith s ''review-'' \<and> matches is_alnum 1 64 (drop 7 s))"

definition assertLineage :: "js \<Rightarrow> string result" where
  "assertLineage v = bindR (guardR (is_str LINEAGE_RE v) (ValidationError ''review lineage must match its pattern'')) (\<lambda>_. Inr (js_str v))"

definition lineagesDir :: "string \<Rightarrow> unit result" where
  "lineagesDir pid = guardR (matches (\<lambda>c. is_alnum c \<or> one_of ''_-'' c) 1 32 pid) (ValidationError ''invalid project id'')"

definition markExternalLensLineage :: "string \<Rightarrow> js \<Rightarrow> advice_store \<Rightarrow> advice_store result" where
  "markExternalLensLineage pid v st =
     bindR (lineagesDir pid) (\<lambda>_.
     bindR (assertLineage v) (\<lambda>l.
     Inr (if l \<in> set (ad_lineages (st pid)) then st else st(pid := (st pid)\<lparr>ad_lineages := ad_lineages (st pid) @ [l]\<rparr>))))"

definition isExternalLensLineage :: "string \<Rightarrow> js \<Rightarrow> advice_store \<Rightarrow> bool result" where
  "isExternalLensLineage pid v st =
     bindR (lineagesDir pid) (\<lambda>_.
     bindR (assertLineage v) (\<lambda>l.
     Inr (l \<in> set (ad_lineages (st pid)))))"

section \<open>The reviewer result of an external advisor\<close>

definition SEVERITIES :: "string list" where
  "SEVERITIES = [''BLOCKER'', ''CRITICAL'', ''WARNING'', ''SUGGESTION'']"

definition EVIDENCE_CLASSES :: "string list" where
  "EVIDENCE_CLASSES = [''deterministic'', ''inferential'', ''insufficient'']"

definition CAUSAL_DISPOSITIONS :: "string list" where
  "CAUSAL_DISPOSITIONS = [''introduced'', ''behavior-activated'', ''worsened'', ''pre-existing'', ''base-only'', ''unknown'']"

definition positive_number :: "string \<Rightarrow> bool" where
  "positive_number s = (case s of [] \<Rightarrow> False | c # r \<Rightarrow> c \<in> set ''123456789'' \<and> list_all is_digit r)"

text \<open>\<open>/^.+:[1-9][0-9]*(?:-[1-9][0-9]*)?$/\<close>: what follows the last colon is a line or a range.\<close>

definition LOCATION_RE :: "string \<Rightarrow> bool" where
  "LOCATION_RE s =
     (let t = rev (takeWhile (\<lambda>c. c \<noteq> CHR '':'') (rev s)); h = take (length s - length t - 1) s;
          parts = splitOn (CHR ''-'') t in
      CHR '':'' \<in> set s \<and> h \<noteq> [] \<and> list_all (\<lambda>c. \<not> is_line_terminator c) h \<and>
      length parts \<le> 2 \<and> list_all positive_number parts)"

definition FINDING_ID_RE :: "string \<Rightarrow> bool" where
  "FINDING_ID_RE s = (case s of
     r # n # d # c # rest \<Rightarrow> r = CHR ''R'' \<and> n \<in> set ''1234'' \<and> d = CHR ''-'' \<and> is_alnum c \<and> list_all slug_char rest
   | _ \<Rightarrow> False)"

definition PLACEHOLDER_RE :: "string \<Rightarrow> bool" where
  "PLACEHOLDER_RE s = (toLowerCase (trim s) \<in> set [''n/a'', ''na'', ''none'', ''todo'', ''tbd'', ''pass'', ''passed'', ''success'', ''placeholder''])"

definition FINDING_KEYS :: "string list" where
  "FINDING_KEYS = [''id'', ''lens'', ''severity'', ''location'', ''claim'', ''evidence_class'', ''causal_disposition'', ''proof_refs'']"

definition LENS_ID_PREFIX :: "string \<rightharpoonup> string" where
  "LENS_ID_PREFIX = map_of [(''review-risk'', ''R1-''), (''review-readability'', ''R2-''), (''review-reliability'', ''R3-''), (''review-resilience'', ''R4-'')]"

definition fail_result :: "string \<Rightarrow> broker_error" where
  "fail_result message = ValidationError (''reviewerResult: '' @ message)"

fun object_with :: "js \<Rightarrow> string \<Rightarrow> string list \<Rightarrow> string list \<Rightarrow> (string \<times> js) list result" where
  "object_with (JObj kvs) what permitted required =
     (case find (\<lambda>k. k \<notin> set permitted) (map fst kvs) of
        Some k \<Rightarrow> Inl (fail_result (what @ '' has unexpected field '' @ k))
      | None \<Rightarrow> (case find (\<lambda>k. js_get kvs k = JUndefined) required of
          Some k \<Rightarrow> Inl (fail_result (what @ '' is missing '' @ k))
        | None \<Rightarrow> Inr kvs))"
| "object_with _ what permitted required = Inl (fail_result (what @ '' must be an object''))"

definition concrete_string :: "js \<Rightarrow> bool" where
  "concrete_string v = is_str (\<lambda>s. trim s \<noteq> [] \<and> \<not> PLACEHOLDER_RE s) v"

definition concreteStrings :: "js \<Rightarrow> string \<Rightarrow> unit result" where
  "concreteStrings v what = (case v of
     JArr vs \<Rightarrow>
       bindR (guardR (vs \<noteq> []) (fail_result (what @ '' must be a non-empty array''))) (\<lambda>_.
       guardR (list_all concrete_string vs) (fail_result (what @ '' entries must be concrete, not placeholders'')))
   | _ \<Rightarrow> Inl (fail_result (what @ '' must be a non-empty array'')))"

definition check_inspection :: "(string \<times> js) list \<Rightarrow> unit result" where
  "check_inspection ins =
     (if js_get ins ''status'' = JStr ''completed'' then
        (case js_get ins ''paths'' of
           JArr ps \<Rightarrow>
             bindR (guardR (ps \<noteq> []) (fail_result ''a completed inspection must list every inspected path'')) (\<lambda>_.
             bindR (guardR (list_all (is_str (\<lambda>p. p \<noteq> [])) ps) (fail_result ''inspection paths must be non-empty strings'')) (\<lambda>_.
             bindR (guardR (distinct ps) (fail_result ''inspection paths must be unique'')) (\<lambda>_.
             guardR (js_get ins ''reason'' = JUndefined) (fail_result ''a completed inspection carries no reason''))))
         | _ \<Rightarrow> Inl (fail_result ''a completed inspection must list every inspected path''))
      else if js_get ins ''status'' = JStr ''unavailable'' then
        bindR (guardR (is_str (\<lambda>r. trim r \<noteq> []) (js_get ins ''reason'')) (fail_result ''an unavailable inspection needs a reason'')) (\<lambda>_.
        guardR (js_get ins ''paths'' = JUndefined \<or> js_get ins ''paths'' = JArr []) (fail_result ''an unavailable inspection lists no paths''))
      else Inl (fail_result ''inspection.status must be completed or unavailable''))"

definition check_finding :: "string \<Rightarrow> nat \<Rightarrow> js \<Rightarrow> unit result" where
  "check_finding lens i raw =
     (let what = ''findings['' @ show_nat i @ '']'' in
      bindR (object_with raw what FINDING_KEYS [''location'', ''severity'', ''claim'', ''proof_refs'']) (\<lambda>f.
      bindR (guardR (is_str (\<lambda>s. s \<in> set SEVERITIES) (js_get f ''severity'')) (fail_result (what @ ''.severity is invalid''))) (\<lambda>_.
      bindR (guardR (is_str (\<lambda>s. trim s \<noteq> []) (js_get f ''claim'')) (fail_result (what @ ''.claim must be non-empty''))) (\<lambda>_.
      bindR (guardR (is_str LOCATION_RE (js_get f ''location'')) (fail_result (what @ ''.location must be path:line or path:start-end''))) (\<lambda>_.
      bindR (concreteStrings (js_get f ''proof_refs'') (what @ ''.proof_refs'')) (\<lambda>_.
      bindR (guardR (js_get f ''evidence_class'' = JUndefined \<or> is_str (\<lambda>s. s \<in> set EVIDENCE_CLASSES) (js_get f ''evidence_class''))
        (fail_result (what @ ''.evidence_class is invalid''))) (\<lambda>_.
      bindR (guardR (js_get f ''causal_disposition'' = JUndefined \<or> is_str (\<lambda>s. s \<in> set CAUSAL_DISPOSITIONS) (js_get f ''causal_disposition''))
        (fail_result (what @ ''.causal_disposition is invalid''))) (\<lambda>_.
      bindR (guardR (\<not> (js_get f ''severity'' \<in> {JStr ''BLOCKER'', JStr ''CRITICAL''} \<and>
          (js_get f ''evidence_class'' = JUndefined \<or> js_get f ''causal_disposition'' = JUndefined)))
        (fail_result (what @ '' needs evidence_class and causal_disposition''))) (\<lambda>_.
      bindR (guardR (js_get f ''lens'' = JUndefined \<or> js_get f ''lens'' = JStr lens \<or>
          js_get f ''lens'' = JStr (if startsWith lens ''review-'' then drop 7 lens else lens))
        (fail_result (what @ ''.lens must be the requested lens''))) (\<lambda>_.
      if js_get f ''id'' = JUndefined then Inr ()
      else bindR (guardR (is_str FINDING_ID_RE (js_get f ''id'')) (fail_result (what @ ''.id is malformed''))) (\<lambda>_.
        case LENS_ID_PREFIX lens of
          None \<Rightarrow> Inr ()
        | Some p \<Rightarrow> guardR (startsWith (js_str (js_get f ''id'')) p) (fail_result (what @ ''.id must start with '' @ p)))))))))))))"

fun check_findings :: "string \<Rightarrow> nat \<Rightarrow> js list \<Rightarrow> unit result" where
  "check_findings lens i [] = Inr ()"
| "check_findings lens i (f # fs) = bindR (check_finding lens i f) (\<lambda>_. check_findings lens (i + 1) fs)"

definition RESULT_KEYS :: "string list" where
  "RESULT_KEYS = [''subject_hash'', ''inspection'', ''findings'', ''evidence'']"

definition validateReviewerResult :: "js \<Rightarrow> string \<Rightarrow> string \<Rightarrow> unit result" where
  "validateReviewerResult v subjectHash lens =
     bindR (object_with v ''result'' RESULT_KEYS RESULT_KEYS) (\<lambda>r.
     bindR (guardR (js_get r ''subject_hash'' = JStr subjectHash) (fail_result ''subject_hash does not match the requested artifact subject'')) (\<lambda>_.
     bindR (concreteStrings (js_get r ''evidence'') ''evidence'') (\<lambda>_.
     bindR (object_with (js_get r ''inspection'') ''inspection'' [''status'', ''paths'', ''reason''] [''status'']) (\<lambda>ins.
     bindR (check_inspection ins) (\<lambda>_.
     case js_get r ''findings'' of
       JArr fs \<Rightarrow> check_findings lens 0 fs
     | _ \<Rightarrow> Inl (fail_result ''findings must be an array''))))))"

section \<open>Reading the directory\<close>

definition loadRequest :: "advice_dir \<Rightarrow> string \<Rightarrow> stored_request result" where
  "loadRequest d i = (case ad_requests d i of None \<Rightarrow> Inl (ValidationError ''advisory request not found'') | Some r \<Rightarrow> Inr r)"

definition statusOf :: "stored_request \<Rightarrow> stored_claim option \<Rightarrow> stored_response option \<Rightarrow> int \<Rightarrow> advice_status" where
  "statusOf r claim response now = (case response of
     Some x \<Rightarrow> rs_status x
   | None \<Rightarrow> if now > rq_expiresAt r then ExpiredAdvice else if claim \<noteq> None then ClaimedAdvice else PendingAdvice)"

definition status_in :: "advice_dir \<Rightarrow> string \<Rightarrow> int \<Rightarrow> advice_status option" where
  "status_in d i now = map_option (\<lambda>r. statusOf r (ad_claims d i) (ad_responses d i) now) (ad_requests d i)"

text \<open>\<open>publishExclusive\<close>: false when the file exists.\<close>

definition publish :: "('k \<rightharpoonup> 'v) \<Rightarrow> 'k \<Rightarrow> 'v \<Rightarrow> ('k \<rightharpoonup> 'v) \<times> bool" where
  "publish files name x = (if files name = None then (files(name \<mapsto> x), True) else (files, False))"

definition rotateHost :: "advice_dir \<Rightarrow> advice_dir \<times> advisor_host" where
  "rotateHost d = (let next = (if ad_last d = Some Claude then Agy else Claude) in (d\<lparr>ad_last := Some next\<rparr>, next))"

text \<open>The last seventeen characters are the dash and the digits; the project is in front of them.\<close>

definition advisorProject :: "string \<Rightarrow> string \<Rightarrow> string result" where
  "advisorProject sid operation =
     (let pid = take (length sid - 17 - 8) (drop 8 sid); tail = drop (length sid - 17) sid in
      bindR (guardR (startsWith sid ''advisor-'' \<and> 26 \<le> length sid \<and> matches (\<lambda>c. is_alnum c \<or> one_of ''_-'' c) 1 32 pid \<and>
          startsWith tail ''-'' \<and> matches is_hex 16 16 (drop 1 tail))
        (PolicyError (operation @ '' is available only to advisor sessions''))) (\<lambda>_. Inr pid))"

section \<open>Asking\<close>

text \<open>\<open>Number(s)\<close>, when it is an integer: white space around, a sign, decimals and exponents, and the radix prefixes.\<close>

definition digit_of :: "char \<Rightarrow> nat" where
  "digit_of c = (if is_digit c then digit_value c else if is_lower c then of_char c - 87 else if is_upper c then of_char c - 55 else 99)"

definition radix_number :: "nat \<Rightarrow> string \<Rightarrow> int option" where
  "radix_number b s = (if s \<noteq> [] \<and> list_all (\<lambda>c. digit_of c < b) s then Some (int (foldl (\<lambda>n c. b * n + digit_of c) 0 s)) else None)"

definition scaled :: "nat \<Rightarrow> int \<Rightarrow> int option" where
  "scaled m e = (if 0 \<le> e then Some (int m * 10 ^ nat e)
     else if 10 ^ nat (- e) dvd m then Some (int (m div 10 ^ nat (- e))) else None)"

definition exponent_of :: "string \<Rightarrow> int option" where
  "exponent_of s = (case s of
     [] \<Rightarrow> Some 0
   | c # r \<Rightarrow>
       if c \<noteq> CHR ''e'' \<and> c \<noteq> CHR ''E'' then None
       else (let body = (if startsWith r ''-'' \<or> startsWith r ''+'' then drop 1 r else r) in
             if body \<noteq> [] \<and> list_all is_digit body
             then Some ((if startsWith r ''-'' then - 1 else 1) * int (parse_nat body)) else None))"

definition unsigned_number :: "string \<Rightarrow> int option" where
  "unsigned_number s =
     (let ip = takeWhile is_digit s; r = drop (length ip) s;
          fp = (if startsWith r ''.'' then takeWhile is_digit (drop 1 r) else []);
          r2 = (if startsWith r ''.'' then drop (length fp + 1) r else r) in
      if ip @ fp = [] then None
      else Option.bind (exponent_of r2) (\<lambda>e. scaled (parse_nat (ip @ fp)) (e - int (length fp))))"

definition js_Number :: "string \<Rightarrow> int option" where
  "js_Number s =
     (let t = trim s; p = toLowerCase (take 2 t) in
      if t = [] then Some 0
      else if p = ''0x'' then radix_number 16 (drop 2 t)
      else if p = ''0o'' then radix_number 8 (drop 2 t)
      else if p = ''0b'' then radix_number 2 (drop 2 t)
      else if startsWith t ''-'' then map_option uminus (unsigned_number (drop 1 t))
      else if startsWith t ''+'' then unsigned_number (drop 1 t)
      else unsigned_number t)"

record status_reply =
  sp_status :: "int option"
  sp_object :: bool   \<comment> \<open>whether the reply is a JSON object\<close>
  sp_collect :: bool   \<comment> \<open>whether the next transition is \<open>collect\<close>\<close>
  sp_inputs :: "(string \<times> string) list list"   \<comment> \<open>names and values of the collect inputs\<close>

record context_reply =
  cx_status :: "int option"
  cx_text :: "string option"

record context_request =
  cr_projectDir :: string
  cr_repositoryContext :: string
  cr_lineage :: string
  cr_target :: string
  cr_expectedRevision :: string
  cr_lens :: string

record review_runtime =
  rt_reviewStatus :: "string \<Rightarrow> string \<Rightarrow> status_reply result"
  rt_reviewLensContext :: "context_request \<Rightarrow> context_reply result"

text \<open>The collect input for a lens; in a list of arguments the last value of a name counts.\<close>

definition collect_input :: "status_reply \<Rightarrow> string \<Rightarrow> (string \<rightharpoonup> string) option" where
  "collect_input r lens = find (\<lambda>a. a ''lens'' = Some lens) (map (\<lambda>l. map_of (rev l)) (if sp_collect r then sp_inputs r else []))"

definition given :: "(string \<rightharpoonup> string) \<Rightarrow> string \<Rightarrow> string option" where
  "given a k = (case a k of Some (c # s) \<Rightarrow> Some (c # s) | _ \<Rightarrow> None)"

definition binding_line :: "string \<Rightarrow> string option" where
  "binding_line t = map_option (drop 25) (find (\<lambda>line. startsWith line ''GENTLE_AI_REVIEW_BINDING '') (splitOn (CHR 0x0A) t))"

definition order_of :: "(string \<rightharpoonup> string) \<Rightarrow> int option" where
  "order_of a = Option.bind (a ''order'') js_Number"

definition providerReview ::
  "review_runtime option \<Rightarrow> (string \<Rightarrow> string option) \<Rightarrow> advice_store \<Rightarrow> string \<Rightarrow> string \<Rightarrow> js \<Rightarrow> stored_review result"
where
  "providerReview runtime subjectHashOf st pid projectDir v =
     bindR (exactKeys v [''lineage'', ''lens''] ''review'') (\<lambda>r.
     bindR (guardR (is_str (\<lambda>l. l \<in> set REVIEW_LENSES) (js_get r ''lens'')) (ValidationError ''review.lens must be one of the lenses'')) (\<lambda>_.
     let lens = js_str (js_get r ''lens''); lineage = js_str (js_get r ''lineage'') in
     bindR (isExternalLensLineage pid (js_get r ''lineage'') st) (\<lambda>external.
     bindR (guardR external (PolicyError (''lineage '' @ lineage @ '' is not an external-lens lineage (start it with externalLenses)''))) (\<lambda>_.
     case runtime of
       None \<Rightarrow> Inl (PolicyError ''review-lens requests need the gentle-ai runtime'')
     | Some rt \<Rightarrow>
         bindR (rt_reviewStatus rt projectDir lineage) (\<lambda>status.
         bindR (guardR (sp_status status = Some 0 \<and> sp_object status) (PolicyError ''gentle-ai review status failed'')) (\<lambda>_.
         case collect_input status lens of
           None \<Rightarrow> Inl (PolicyError (''lineage '' @ lineage @ '' is not collecting a result for '' @ lens))
         | Some a \<Rightarrow>
             (case (given a ''target'', given a ''subject-hash'', given a ''expected-revision'', given a ''repository-context'', order_of a) of
                (Some target, Some hash, Some revision, Some ctx, Some ord) \<Rightarrow>
                  bindR (rt_reviewLensContext rt \<lparr>cr_projectDir = projectDir, cr_repositoryContext = ctx, cr_lineage = lineage, cr_target = target,
                    cr_expectedRevision = revision, cr_lens = lens\<rparr>) (\<lambda>context.
                  (case cx_text context of
                     Some (c # t) \<Rightarrow>
                       bindR (guardR (cx_status context = Some 0) (PolicyError ''gentle-ai review lens-context failed'')) (\<lambda>_.
                       bindR (guardR (length (c # t) \<le> MAX_LENS_CONTEXT_BYTES) (PolicyError ''lens-context exceeds 1 MiB'')) (\<lambda>_.
                       bindR (guardR (Option.bind (binding_line (c # t)) subjectHashOf = Some hash)
                         (PolicyError ''lens-context binding disagrees with the provider subject hash'')) (\<lambda>_.
                       Inr \<lparr>rv_lineage = lineage, rv_lens = lens, rv_target = target, rv_order = ord, rv_subjectHash = hash, rv_lensContext = c # t\<rparr>)))
                   | _ \<Rightarrow> Inl (PolicyError ''gentle-ai review lens-context failed'')))
              | _ \<Rightarrow> Inl (PolicyError ''gentle-ai collect input is missing provider values''))))))))"

record advice_draft =
  dr_projectId :: string
  dr_kind :: advice_kind
  dr_binding :: advice_binding
  dr_snapshot :: advice_snapshot
  dr_rule :: string
  dr_host :: requested_host
  dr_group :: "string option"
  dr_question :: "string option"
  dr_evidenceRefs :: "string list"
  dr_review :: "stored_review option"
  dr_parent :: js

definition kind_of :: "js \<Rightarrow> advice_kind result" where
  "kind_of v = (if v = JStr ''pre-code-advice'' then Inr PreCodeAdvice else if v = JStr ''review-lens'' then Inr ReviewLens
     else Inl (ValidationError ''kind must be pre-code-advice or review-lens''))"

definition host_of :: "js \<Rightarrow> requested_host result" where
  "host_of v = (if v = JStr ''claude'' then Inr (FixedHost Claude) else if v = JStr ''agy'' then Inr (FixedHost Agy)
     else if v = JStr ''rotate'' then Inr RotateHost else Inl (ValidationError ''host must be claude, agy or rotate''))"

text \<open>The first part of \<open>advisorAsk\<close>, up to the reply of the review runtime.\<close>

definition ask_validate ::
  "broker_config \<Rightarrow> (string \<Rightarrow> string option) \<Rightarrow> review_runtime option \<Rightarrow> (string \<Rightarrow> string option) \<Rightarrow> store \<Rightarrow> advice_store \<Rightarrow> envelope \<Rightarrow>
    advice_draft result"
where
  "ask_validate cfg realpath runtime subjectHashOf sessions st req =
     bindR (payloadOf req) (\<lambda>p.
     bindR (authorizeHostDispatch (bc_readOnlyAgents cfg) sessions ''advisorAsk'' (env_sessionID req) OrchestratorCategory) (\<lambda>_.
     bindR (resolveProjectID realpath (js_get p ''projectDir'') (bc_projects cfg)) (\<lambda>pid.
     bindR (kind_of (js_get p ''kind'')) (\<lambda>kind.
     bindR (guardR (kind = PreCodeAdvice \<longrightarrow> js_get p ''review'' = JUndefined) (ValidationError ''review is only valid for review-lens requests'')) (\<lambda>_.
     bindR (validBinding (js_get p ''binding'')) (\<lambda>binding.
     bindR (validSnapshot (js_get p ''snapshot'')) (\<lambda>snapshot.
     bindR (host_of (js_get p ''host'')) (\<lambda>host.
     bindR (exactKeys (js_get p ''selection'') [''rule''] ''selection'') (\<lambda>selection.
     bindR (matching (js_get selection ''rule'') TOKEN_RE ''selection.rule'') (\<lambda>rule.
     bindR (optional_matching (js_get p ''group'') TOKEN_RE ''group'') (\<lambda>group.
     bindR (text_value (js_get p ''question'') ''question'' (kind = PreCodeAdvice) MAX_TEXT_BYTES) (\<lambda>question.
     bindR (validEvidenceRefs (js_get p ''evidenceRefs'')) (\<lambda>refs.
     bindR (if kind = ReviewLens
         then bindR (providerReview runtime subjectHashOf st pid (js_str (js_get p ''projectDir'')) (js_get p ''review'')) (\<lambda>r. Inr (Some r))
         else Inr None) (\<lambda>review.
     Inr \<lparr>dr_projectId = pid, dr_kind = kind, dr_binding = binding, dr_snapshot = snapshot, dr_rule = rule, dr_host = host, dr_group = group,
       dr_question = question, dr_evidenceRefs = refs, dr_review = review, dr_parent = js_get p ''parentId''\<rparr>))))))))))))))"

definition ask_parent :: "advice_dir \<Rightarrow> js \<Rightarrow> (string option \<times> string option) result" where
  "ask_parent d v =
     (if v = JUndefined then Inr (None, None)
      else bindR (matching v ADVICE_ID_RE ''parentId'') (\<lambda>i.
        (case ad_requests d i of
           None \<Rightarrow> Inl (ValidationError ''parentId names no request in this project (the parent must exist)'')
         | Some parent \<Rightarrow> Inr (Some i, Some (rq_thread parent)))))"

definition ask_host :: "advice_dir \<Rightarrow> requested_host \<Rightarrow> advice_dir \<times> advisor_host" where
  "ask_host d h = (case h of RotateHost \<Rightarrow> rotateHost d | FixedHost x \<Rightarrow> (d, x))"

text \<open>The second part, one synchronous stretch: the parent, the host, the publication.\<close>

definition ask_publish :: "string \<Rightarrow> int \<Rightarrow> string \<Rightarrow> advice_draft \<Rightarrow> advice_dir \<Rightarrow> advice_dir \<times> (string \<times> string) result" where
  "ask_publish i now sid w d = (case ask_parent d (dr_parent w) of
     Inl e \<Rightarrow> (d, Inl e)
   | Inr (parentId, thread) \<Rightarrow>
       (let (d1, host) = ask_host d (dr_host w);
            r = \<lparr>rq_id = i, rq_projectId = dr_projectId w, rq_kind = dr_kind w, rq_binding = dr_binding w, rq_snapshot = dr_snapshot w,
                 rq_rule = dr_rule w, rq_requestedHost = dr_host w, rq_resolvedHost = host, rq_group = dr_group w,
                 rq_thread = (case thread of Some t \<Rightarrow> t | None \<Rightarrow> i), rq_parentId = parentId, rq_question = dr_question w,
                 rq_evidenceRefs = dr_evidenceRefs w, rq_review = dr_review w, rq_askedBy = sid, rq_createdAt = now,
                 rq_expiresAt = now + ADVISOR_REQUEST_TTL_MS\<rparr>;
            (files, fresh) = publish (ad_requests d1) i r in
        (d1\<lparr>ad_requests := files\<rparr>, if fresh then Inr (i, rq_thread r) else Inl (NativeError ''advisory request id collision''))))"

definition advisorAsk ::
  "broker_config \<Rightarrow> (string \<Rightarrow> string option) \<Rightarrow> review_runtime option \<Rightarrow> (string \<Rightarrow> string option) \<Rightarrow> store \<Rightarrow> string \<Rightarrow> int \<Rightarrow>
    envelope \<Rightarrow> advice_store \<Rightarrow> advice_store \<times> (string \<times> string) result"
where
  "advisorAsk cfg realpath runtime subjectHashOf sessions i now req st =
     (case ask_validate cfg realpath runtime subjectHashOf sessions st req of
        Inl e \<Rightarrow> (st, Inl e)
      | Inr w \<Rightarrow> (case ask_publish i now (env_sessionID req) w (st (dr_projectId w)) of (d, r) \<Rightarrow> (st(dr_projectId w := d), r)))"

section \<open>Looking at requests\<close>

record review_view =
  vr_lineage :: string
  vr_lens :: string
  vr_target :: string
  vr_order :: int
  vr_subjectHash :: string
  vr_lensContextBytes :: nat

record advice_view =
  vw_request :: stored_request   \<comment> \<open>shown but for the project, the asker and the lens context\<close>
  vw_status :: advice_status
  vw_review :: "review_view option"
  vw_advisor :: "string option"
  vw_response :: "(string option \<times> js list \<times> js \<times> int) option"   \<comment> \<open>verdict, findings, reviewer result, time\<close>
  vw_evidence :: "stored_evidence option"

definition view :: "advice_dir \<Rightarrow> stored_request \<Rightarrow> int \<Rightarrow> advice_view" where
  "view d r now =
     (let claim = ad_claims d (rq_id r); response = ad_responses d (rq_id r) in
      \<lparr>vw_request = r, vw_status = statusOf r claim response now,
       vw_review = map_option (\<lambda>v. \<lparr>vr_lineage = rv_lineage v, vr_lens = rv_lens v, vr_target = rv_target v, vr_order = rv_order v,
         vr_subjectHash = rv_subjectHash v, vr_lensContextBytes = length (rv_lensContext v)\<rparr>) (rq_review r),
       vw_advisor = map_option cl_session claim,
       vw_response = map_option (\<lambda>x. (rs_verdict x, rs_findings x, rs_reviewerResult x, rs_respondedAt x)) response,
       vw_evidence = Option.bind response rs_evidence\<rparr>)"

definition advisorGet ::
  "broker_config \<Rightarrow> (string \<Rightarrow> string option) \<Rightarrow> store \<Rightarrow> int \<Rightarrow> advice_store \<Rightarrow> envelope \<Rightarrow> advice_view result"
where
  "advisorGet cfg realpath sessions now st req =
     bindR (payloadOf req) (\<lambda>p.
     bindR (authorizeHostDispatch (bc_readOnlyAgents cfg) sessions ''advisorGet'' (env_sessionID req) OrchestratorCategory) (\<lambda>_.
     bindR (resolveProjectID realpath (js_get p ''projectDir'') (bc_projects cfg)) (\<lambda>pid.
     bindR (matching (js_get p ''id'') ADVICE_ID_RE ''id'') (\<lambda>i.
     bindR (loadRequest (st pid) i) (\<lambda>r.
     Inr (view (st pid) r now))))))"

fun status_name :: "advice_status \<Rightarrow> string" where
  "status_name PendingAdvice = ''pending''"
| "status_name ClaimedAdvice = ''claimed''"
| "status_name SubmittedAdvice = ''submitted''"
| "status_name DeclinedAdvice = ''declined''"
| "status_name ExpiredAdvice = ''expired''"

definition STATUS_FILTER_RE :: "string \<Rightarrow> bool" where
  "STATUS_FILTER_RE s = (s \<in> set [''pending'', ''claimed'', ''submitted'', ''declined'', ''expired''])"

definition listed :: "string option \<Rightarrow> string option \<Rightarrow> string option \<Rightarrow> advice_view \<Rightarrow> bool" where
  "listed task step status v =
     ((task = None \<or> task = Some (bn_task (rq_binding (vw_request v)))) \<and> (step = None \<or> step = Some (bn_step (rq_binding (vw_request v)))) \<and>
      (status = None \<or> status = Some (status_name (vw_status v))))"

text \<open>\<open>names\<close> are the names of the request files, in the order of the directory.\<close>

definition advisorList ::
  "broker_config \<Rightarrow> (string \<Rightarrow> string option) \<Rightarrow> store \<Rightarrow> int \<Rightarrow> (string \<Rightarrow> string list) \<Rightarrow> advice_store \<Rightarrow> envelope \<Rightarrow> advice_view list result"
where
  "advisorList cfg realpath sessions now names st req =
     bindR (payloadOf req) (\<lambda>p.
     bindR (authorizeHostDispatch (bc_readOnlyAgents cfg) sessions ''advisorList'' (env_sessionID req) OrchestratorCategory) (\<lambda>_.
     bindR (resolveProjectID realpath (js_get p ''projectDir'') (bc_projects cfg)) (\<lambda>pid.
     bindR (optional_matching (js_get p ''task'') TASK_RE ''task'') (\<lambda>task.
     bindR (if js_get p ''step'' = JUndefined then Inr None else text_value (js_get p ''step'') ''step'' True 128) (\<lambda>step.
     bindR (optional_matching (js_get p ''status'') STATUS_FILTER_RE ''status'') (\<lambda>status.
     let d = st pid; found = List.map_filter (\<lambda>i. ad_requests d i) (filter ADVICE_ID_RE (names pid)) in
     Inr (sort_key (\<lambda>v. rq_createdAt (vw_request v)) (filter (listed task step status) (map (\<lambda>r. view d r now) found)))))))))"

section \<open>The advisor side\<close>

definition others_claim :: broker_error where
  "others_claim = PolicyError ''advisory request is claimed by another advisor''"

text \<open>The request itself and its status; an advisor never sees a response.\<close>

definition advisorRead :: "int \<Rightarrow> envelope \<Rightarrow> advice_store \<Rightarrow> advice_store \<times> (stored_request \<times> advice_status) result" where
  "advisorRead now req st =
     (case bindR (payloadOf req) (\<lambda>p.
           bindR (advisorProject (env_sessionID req) ''advisorRead'') (\<lambda>pid.
           bindR (matching (js_get p ''id'') ADVICE_ID_RE ''id'') (\<lambda>i.
           bindR (loadRequest (st pid) i) (\<lambda>r.
           bindR (guardR (ad_responses (st pid) i \<noteq> None \<or> now \<le> rq_expiresAt r) (PolicyError ''advisory request has expired'')) (\<lambda>_.
           Inr (pid, i, r)))))) of
        Inl e \<Rightarrow> (st, Inl e)
      | Inr (pid, i, r) \<Rightarrow>
          (let d = st pid; d1 = d\<lparr>ad_claims := fst (publish (ad_claims d) i \<lparr>cl_session = env_sessionID req, cl_claimedAt = now\<rparr>)\<rparr> in
           (st(pid := d1),
            bindR (guardR (map_option cl_session (ad_claims d1 i) = Some (env_sessionID req)) others_claim) (\<lambda>_.
            Inr (r, statusOf r (ad_claims d1 i) (ad_responses d1 i) now)))))"

definition respond_result :: "stored_request \<Rightarrow> (string \<times> js) list \<Rightarrow> advice_status \<Rightarrow> (string option \<times> js) result" where
  "respond_result r p status =
     (let verdict = js_get p ''verdict''; result = js_get p ''reviewerResult'' in
      if rq_kind r = ReviewLens then
        if status = SubmittedAdvice then
          bindR (guardR (result \<noteq> JUndefined) (ValidationError ''a submitted review-lens response needs reviewerResult'')) (\<lambda>_.
          bindR (validateReviewerResult result (rv_subjectHash (the (rq_review r))) (rv_lens (the (rq_review r)))) (\<lambda>_.
          bindR (text_value verdict ''verdict'' False MAX_TEXT_BYTES) (\<lambda>v. Inr (v, result))))
        else
          bindR (guardR (result = JUndefined) (ValidationError ''a declined response carries no reviewerResult'')) (\<lambda>_.
          bindR (text_value verdict ''verdict'' True MAX_TEXT_BYTES) (\<lambda>v. Inr (v, JUndefined)))
      else
        bindR (guardR (result = JUndefined) (ValidationError ''reviewerResult is only valid for review-lens requests'')) (\<lambda>_.
        bindR (text_value verdict ''verdict'' True MAX_TEXT_BYTES) (\<lambda>v. Inr (v, JUndefined))))"

definition evidence_of :: "(kept_manifest \<Rightarrow> string) \<Rightarrow> (string \<Rightarrow> string \<Rightarrow> string) \<Rightarrow> string \<Rightarrow> string \<Rightarrow> kept_manifest \<Rightarrow> stored_evidence" where
  "evidence_of digest dirOf pid i m = \<lparr>ev_dir = dirOf pid i, ev_manifestSha256 = digest m, ev_files = km_files m\<rparr>"

text \<open>Everything that is checked before the response is published.\<close>

definition respond_check ::
  "(js \<Rightarrow> nat) \<Rightarrow> (kept_manifest \<Rightarrow> string) \<Rightarrow> (string \<Rightarrow> string \<Rightarrow> string) \<Rightarrow> int \<Rightarrow> envelope \<Rightarrow> advice_store \<Rightarrow>
    (string \<times> string \<times> stored_response) result"
where
  "respond_check jsonBytes digest dirOf now req st =
     bindR (payloadOf req) (\<lambda>p.
     bindR (advisorProject (env_sessionID req) ''advisorRespond'') (\<lambda>pid.
     bindR (matching (js_get p ''id'') ADVICE_ID_RE ''id'') (\<lambda>i.
     bindR (loadRequest (st pid) i) (\<lambda>r.
     bindR (guardR (js_get p ''status'' = JStr ''submitted'' \<or> js_get p ''status'' = JStr ''declined'') (ValidationError ''status must be submitted or declined'')) (\<lambda>_.
     let status = (if js_get p ''status'' = JStr ''submitted'' then SubmittedAdvice else DeclinedAdvice) in
     bindR (respond_result r p status) (\<lambda>(verdict, result).
     bindR (validFindings jsonBytes (js_get p ''findings'')) (\<lambda>findings.
     bindR (guardR (ad_responses (st pid) i = None) (PolicyError ''advisory request was already answered'')) (\<lambda>_.
     bindR (guardR (now \<le> rq_expiresAt r) (PolicyError ''advisory request has expired'')) (\<lambda>_.
     (case ad_claims (st pid) i of
        None \<Rightarrow> Inl (PolicyError ''advisory request is not claimed; read it first'')
      | Some c \<Rightarrow>
          bindR (guardR (cl_session c = env_sessionID req) others_claim) (\<lambda>_.
          Inr (pid, i, \<lparr>rs_status = status, rs_verdict = verdict, rs_findings = findings, rs_reviewerResult = result,
            rs_evidence = map_option (evidence_of digest dirOf pid i) (ad_evidence (st pid) i), rs_session = env_sessionID req,
            rs_respondedAt = now\<rparr>))))))))))))"

definition advisorRespond ::
  "(js \<Rightarrow> nat) \<Rightarrow> (kept_manifest \<Rightarrow> string) \<Rightarrow> (string \<Rightarrow> string \<Rightarrow> string) \<Rightarrow> int \<Rightarrow> envelope \<Rightarrow> advice_store \<Rightarrow>
    advice_store \<times> (string \<times> advice_status) result"
where
  "advisorRespond jsonBytes digest dirOf now req st = (case respond_check jsonBytes digest dirOf now req st of
     Inl e \<Rightarrow> (st, Inl e)
   | Inr (pid, i, x) \<Rightarrow>
       (let (files, fresh) = publish (ad_responses (st pid)) i x in
        (st(pid := (st pid)\<lparr>ad_responses := files\<rparr>),
         if fresh then Inr (i, rs_status x) else Inl (PolicyError ''advisory request was already answered''))))"

definition readRelayableLensResponse :: "advice_store \<Rightarrow> string \<Rightarrow> js \<Rightarrow> (string \<times> stored_review \<times> js) result" where
  "readRelayableLensResponse st pid v =
     bindR (matching v ADVICE_ID_RE ''inputFromAdvisorResponse'') (\<lambda>i.
     bindR (loadRequest (st pid) i) (\<lambda>r.
     case (rq_kind r, rq_review r) of
       (ReviewLens, Some review) \<Rightarrow>
         (case ad_responses (st pid) i of
            Some x \<Rightarrow> bindR (guardR (rs_status x = SubmittedAdvice \<and> rs_reviewerResult x \<noteq> JUndefined)
              (PolicyError ''the advisory request has no submitted reviewer result to relay'')) (\<lambda>_. Inr (i, review, rs_reviewerResult x))
          | None \<Rightarrow> Inl (PolicyError ''the advisory request has no submitted reviewer result to relay''))
     | _ \<Rightarrow> Inl (PolicyError ''only a review-lens advisory response can be relayed into a review capture'')))"

section \<open>Keeping evidence\<close>

text \<open>
  \<open>evidenceKeep\<close> awaits git and the worker between its first checks and the publication, so
  it has three parts: the checks on the records, the collection, and the publication, which
  looks at the records again.  \<open>late n\<close> says whether the clock is past the deadline at the
  \<open>n\<close>th look.  Files are staged in a private directory that is removed on an error.
\<close>

definition MAX_KEPT_PATHS :: nat where
  "MAX_KEPT_PATHS = 32"

definition MAX_KEPT_FILE_BYTES :: nat where
  "MAX_KEPT_FILE_BYTES = 1024 * 1024"

definition MAX_KEPT_TOTAL_BYTES :: nat where
  "MAX_KEPT_TOTAL_BYTES = 8 * 1024 * 1024"

definition encodedCap :: nat where
  "encodedCap = (MAX_KEPT_FILE_BYTES + 2) div 3 * 4 + 1"

record keep_job =
  kj_projectId :: string
  kj_id :: string
  kj_paths :: "string list"
  kj_worker :: string
  kj_session :: session_record

definition string_paths :: "js \<Rightarrow> string list result" where
  "string_paths v = (case v of
     JArr ps \<Rightarrow>
       bindR (guardR (list_all (is_str (\<lambda>_. True)) ps) (ValidationError ''paths must be an array of strings'')) (\<lambda>_.
       bindR (guardR (length ps \<le> MAX_KEPT_PATHS) (ValidationError ''evidenceKeep accepts at most 32 paths'')) (\<lambda>_.
       Inr (map js_str ps)))
   | _ \<Rightarrow> Inl (ValidationError ''paths must be an array of strings''))"

definition keep_begin :: "store \<Rightarrow> int \<Rightarrow> envelope \<Rightarrow> advice_store \<Rightarrow> keep_job result" where
  "keep_begin sessions now req st =
     bindR (payloadOf req) (\<lambda>p.
     bindR (advisorProject (env_sessionID req) ''evidenceKeep'') (\<lambda>pid.
     bindR (matching (js_get p ''requestId'') ADVICE_ID_RE ''requestId'') (\<lambda>i.
     bindR (string_paths (js_get p ''paths'')) (\<lambda>paths.
     bindR (loadRequest (st pid) i) (\<lambda>r.
     bindR (store_get sessions (env_sessionID req)) (\<lambda>session.
     case session of
       Some s \<Rightarrow>
         bindR (guardR (sr_workerName s \<noteq> None \<and> sr_workerName s \<noteq> Some [] \<and> sr_projectID s = Some pid \<and> sr_state s = SANDBOX_ACTIVE)
           (PolicyError ''evidenceKeep requires the calling advisor active worker'')) (\<lambda>_.
         bindR (guardR (now \<le> rq_expiresAt r) (PolicyError ''advisory request has expired'')) (\<lambda>_.
         bindR (guardR (ad_responses (st pid) i = None) (PolicyError ''evidence cannot be kept after the request was answered'')) (\<lambda>_.
         (case ad_claims (st pid) i of
            None \<Rightarrow> Inl (PolicyError ''advisory request is not claimed; read it first'')
          | Some c \<Rightarrow>
              bindR (guardR (cl_session c = env_sessionID req) others_claim) (\<lambda>_.
              Inr \<lparr>kj_projectId = pid, kj_id = i, kj_paths = paths, kj_worker = the (sr_workerName s), kj_session = s\<rparr>)))))
     | None \<Rightarrow> Inl (PolicyError ''evidenceKeep requires the calling advisor active worker'')))))))"

definition deadline :: "(nat \<Rightarrow> bool) \<Rightarrow> nat \<Rightarrow> ('w, unit) act" where
  "deadline late n = liftW (guardR (\<not> late n) (PolicyError ''evidenceKeep operation deadline exceeded''))"

definition no_identity :: broker_error where
  "no_identity = PolicyError ''broker-pinned snapshot identity is unavailable''"

definition pinned_identity ::
  "broker_config \<Rightarrow> (string \<Rightarrow> string \<Rightarrow> ('w, host_spawned) act) option \<Rightarrow> (nat \<Rightarrow> bool) \<Rightarrow> keep_job \<Rightarrow> ('w, string \<times> string) act"
where
  "pinned_identity cfg gitIn late j =
     bindW (case sr_snapshotIdentity (kj_session j) of
         Some x \<Rightarrow> if si_commit x \<noteq> [] \<and> si_tree x \<noteq> [] then retW (Some (si_commit x, si_tree x)) else retW None
       | None \<Rightarrow> retW None) (\<lambda>known.
     bindW (case known of
         Some ct \<Rightarrow> retW ct
       | None \<Rightarrow>
           (case (sr_baselineRef (kj_session j), gitIn) of
              (Some (c # ref), Some git) \<Rightarrow>
                (case find (\<lambda>p. pr_id p = kj_projectId j) (bc_projects cfg) of
                   None \<Rightarrow> liftW (Inl (PolicyError ''broker-pinned snapshot project is unavailable''))
                 | Some project \<Rightarrow>
                     bindW (deadline late 0) (\<lambda>_.
                     bindW (git (pr_path project) ((c # ref) @ ''^{commit}'')) (\<lambda>r.
                     bindW (deadline late 1) (\<lambda>_.
                     bindW (liftW (guardR (hs_status r = Some 0 \<and> COMMIT_RE (trim (hs_stdout r))) no_identity)) (\<lambda>_.
                     bindW (deadline late 2) (\<lambda>_.
                     bindW (git (pr_path project) (trim (hs_stdout r) @ ''^{tree}'')) (\<lambda>t.
                     bindW (deadline late 3) (\<lambda>_.
                     bindW (liftW (guardR (hs_status t = Some 0 \<and> COMMIT_RE (trim (hs_stdout t))) no_identity)) (\<lambda>_.
                     retW (trim (hs_stdout r), trim (hs_stdout t)))))))))))
            | _ \<Rightarrow> liftW (Inl no_identity))) (\<lambda>(commit, tree).
     bindW (liftW (guardR (COMMIT_RE commit \<and> COMMIT_RE tree) no_identity)) (\<lambda>_.
     retW (commit, tree))))"

type_synonym 'w worker_run = "string list \<Rightarrow> nat \<Rightarrow> ('w, host_spawned) act"

definition observed_head :: "'w worker_run \<Rightarrow> (nat \<Rightarrow> bool) \<Rightarrow> ('w, (string \<times> string) option) act" where
  "observed_head run late =
     bindW (deadline late 4) (\<lambda>_.
     bindW (run [''git'', ''-C'', ''/work'', ''rev-parse'', ''--verify'', ''HEAD''] 4096) (\<lambda>h.
     bindW (deadline late 5) (\<lambda>_.
     bindW (run [''git'', ''-C'', ''/work'', ''rev-parse'', ''--verify'', ''HEAD^{tree}''] 4096) (\<lambda>t.
     bindW (deadline late 6) (\<lambda>_.
     retW (if hs_status h = Some 0 \<and> hs_status t = Some 0 \<and> COMMIT_RE (trim (hs_stdout h)) \<and> COMMIT_RE (trim (hs_stdout t))
       then Some (trim (hs_stdout h), trim (hs_stdout t)) else None))))))"

definition NUL_CHAR :: char where
  "NUL_CHAR = CHR 0x00"

definition evidence_path :: "string \<Rightarrow> string result" where
  "evidence_path path =
     (let relative = normalize_path path in
      bindR (guardR (startsWith path ''.advisor/'' \<and> NUL_CHAR \<notin> set path) (ValidationError ''evidence paths must be under .advisor/'')) (\<lambda>_.
      bindR (guardR (''..'' \<notin> set (splitOn (CHR ''/'') path)) (ValidationError ''evidence paths must not contain ..'')) (\<lambda>_.
      bindR (guardR (startsWith relative ''.advisor/'' \<and> relative \<noteq> ''.advisor/'' \<and> \<not> startsWith relative ''../'')
        (ValidationError ''evidence paths must be under .advisor/'')) (\<lambda>_.
      bindR (guardR (relative \<noteq> ''.advisor/manifest.json'') (ValidationError ''evidence path manifest.json is reserved'')) (\<lambda>_.
      Inr relative)))))"

record staged =
  sg_seen :: "string list"
  sg_total :: nat
  sg_files :: "(string \<times> string) list"   \<comment> \<open>path below the stage and content\<close>

definition keep_path ::
  "'w worker_run \<Rightarrow> (string \<Rightarrow> string \<Rightarrow> ('w, unit) act) \<Rightarrow> (nat \<Rightarrow> bool) \<Rightarrow> nat \<Rightarrow> string \<Rightarrow> staged \<Rightarrow> ('w, staged) act"
where
  "keep_path run stageWrite late n path sg =
     bindW (liftW (evidence_path path)) (\<lambda>relative.
     let expectedPath = ''/work/'' @ relative in
     bindW (deadline late n) (\<lambda>_.
     bindW (run [''realpath'', ''-e'', ''--'', expectedPath] 4096) (\<lambda>canonical.
     bindW (deadline late (n + 1)) (\<lambda>_.
     bindW (liftW (guardR (hs_status canonical = Some 0) (PolicyError (''evidence path cannot be canonicalized: '' @ path)))) (\<lambda>_.
     bindW (liftW (guardR (trim (hs_stdout canonical) = expectedPath)
       (ValidationError ''evidence path contains a symlink or escapes /work/.advisor/''))) (\<lambda>_.
     bindW (liftW (guardR (expectedPath \<notin> set (sg_seen sg)) (ValidationError ''evidence paths must be unique''))) (\<lambda>_.
     bindW (run [''stat'', ''-c'', ''%F'', ''--'', expectedPath] 4096) (\<lambda>stat.
     bindW (deadline late (n + 2)) (\<lambda>_.
     bindW (liftW (guardR (hs_status stat = Some 0 \<and> trim (hs_stdout stat) \<in> {''regular file'', ''regular empty file''})
       (ValidationError (''evidence path must be a regular file: '' @ path)))) (\<lambda>_.
     bindW (run [''base64'', ''-w'', ''0'', ''--'', expectedPath] encodedCap) (\<lambda>encoded.
     bindW (deadline late (n + 3)) (\<lambda>_.
     bindW (liftW (guardR (hs_status encoded = Some 0) (PolicyError (''evidence read failed: '' @ path)))) (\<lambda>_.
     bindW (liftW (guardR (length (hs_stdout encoded) < encodedCap)
       (ValidationError (''evidence output reached the '' @ show_nat encodedCap @ ''-byte cap and may be truncated: '' @ path)))) (\<lambda>_.
     let bytes = base64_decode (filter (\<lambda>c. \<not> is_space c) (hs_stdout encoded)) in
     bindW (liftW (guardR (length bytes \<le> MAX_KEPT_FILE_BYTES)
       (ValidationError (''evidence file exceeds '' @ show_nat MAX_KEPT_FILE_BYTES @ '' bytes: '' @ path)))) (\<lambda>_.
     bindW (liftW (guardR (sg_total sg + length bytes \<le> MAX_KEPT_TOTAL_BYTES)
       (ValidationError (''evidence set exceeds '' @ show_nat MAX_KEPT_TOTAL_BYTES @ '' bytes'')))) (\<lambda>_.
     bindW (stageWrite (drop 9 relative) bytes) (\<lambda>_.
     retW \<lparr>sg_seen = expectedPath # sg_seen sg, sg_total = sg_total sg + length bytes,
       sg_files = sg_files sg @ [(drop 9 relative, bytes)]\<rparr>)))))))))))))))))"

fun keep_paths ::
  "'w worker_run \<Rightarrow> (string \<Rightarrow> string \<Rightarrow> ('w, unit) act) \<Rightarrow> (nat \<Rightarrow> bool) \<Rightarrow> nat \<Rightarrow> string list \<Rightarrow> staged \<Rightarrow> ('w, staged) act"
where
  "keep_paths run stageWrite late n [] sg = retW sg"
| "keep_paths run stageWrite late n (p # ps) sg =
     bindW (keep_path run stageWrite late n p sg) (\<lambda>sg'. keep_paths run stageWrite late (n + 4) ps sg')"

definition no_files :: staged where
  "no_files = \<lparr>sg_seen = [], sg_total = 0, sg_files = []\<rparr>"

text \<open>The collection: what is staged when it succeeds.  \<open>kept\<close> tells whether evidence is there when it starts.\<close>

definition keep_collect ::
  "broker_config \<Rightarrow> (string \<Rightarrow> string \<Rightarrow> ('w, host_spawned) act) option \<Rightarrow> (string \<Rightarrow> 'w worker_run) \<Rightarrow>
    (string \<Rightarrow> string \<Rightarrow> ('w, unit) act) \<Rightarrow> (string \<Rightarrow> string) \<Rightarrow> (nat \<Rightarrow> bool) \<Rightarrow> bool \<Rightarrow> keep_job \<Rightarrow> ('w, kept_manifest) act"
where
  "keep_collect cfg gitIn run stageWrite sha late kept j =
     bindW (pinned_identity cfg gitIn late j) (\<lambda>(commit, tree).
     bindW (observed_head (run (kj_worker j)) late) (\<lambda>observed.
     bindW (liftW (guardR (\<not> kept) (PolicyError ''evidence was already kept for this request''))) (\<lambda>_.
     bindW (keep_paths (run (kj_worker j)) stageWrite late 7 (kj_paths j) no_files) (\<lambda>sg.
     retW \<lparr>km_requestId = kj_id j, km_commit = commit, km_tree = tree, km_observedWorkerHead = observed,
       km_files = map (\<lambda>(p, b). (p, sha b)) (sg_files sg)\<rparr>))))"

text \<open>
  The publication, one synchronous stretch: refused when there is evidence already or
  another publication holds the reservation, taken back when the request was answered.
\<close>

definition keep_publish :: "bool \<Rightarrow> keep_job \<Rightarrow> kept_manifest \<Rightarrow> advice_store \<Rightarrow> advice_store \<times> kept_manifest result" where
  "keep_publish reserved j m st =
     (let d = st (kj_projectId j); i = kj_id j in
      if ad_evidence d i \<noteq> None \<or> reserved then (st, Inl (PolicyError ''evidence was already kept for this request''))
      else if ad_responses d i \<noteq> None then (st, Inl (PolicyError ''evidence cannot be kept after the request was answered''))
      else (st(kj_projectId j := d\<lparr>ad_evidence := (ad_evidence d)(i \<mapsto> m)\<rparr>), Inr m))"

end
