(* ===== verification/AdvisorGuarantees.thy ===== *)
theory AdvisorGuarantees
  imports AdvisorRecords
begin

text \<open>
  What the advisory records guarantee under every interleaving of the operations: records
  are immutable, a response comes from the session that claimed the request, in time and
  with the evidence that was kept, and the status of a request only moves forward.
\<close>

section \<open>Steps\<close>

text \<open>
  The synchronous stretches of the operations, in any order, while the clock does not go
  back.  A draft and an evidence job may have been checked against an earlier state.
\<close>

inductive advisor_step ::
  "(js \<Rightarrow> nat) \<Rightarrow> (kept_manifest \<Rightarrow> string) \<Rightarrow> (string \<Rightarrow> string \<Rightarrow> string) \<Rightarrow> advice_store \<times> int \<Rightarrow> advice_store \<times> int \<Rightarrow> bool"
  for jsonBytes digest dirOf
where
  ask: "ask_validate cfg realpath runtime hashOf sessions st0 req = Inr w \<Longrightarrow> ask_publish i now' sid w (st (dr_projectId w)) = (d, r) \<Longrightarrow>
    now \<le> now' \<Longrightarrow> advisor_step jsonBytes digest dirOf (st, now) (st(dr_projectId w := d), now')"
| read: "advisorRead now' req st = (st', r) \<Longrightarrow> now \<le> now' \<Longrightarrow> advisor_step jsonBytes digest dirOf (st, now) (st', now')"
| respond: "advisorRespond jsonBytes digest dirOf now' req st = (st', r) \<Longrightarrow> now \<le> now' \<Longrightarrow> advisor_step jsonBytes digest dirOf (st, now) (st', now')"
| keep: "keep_begin sessions now0 req st0 = Inr j \<Longrightarrow> keep_publish reserved j m st = (st', r) \<Longrightarrow> now \<le> now' \<Longrightarrow>
    advisor_step jsonBytes digest dirOf (st, now) (st', now')"
| lineage: "markExternalLensLineage pid v st = Inr st' \<Longrightarrow> now \<le> now' \<Longrightarrow> advisor_step jsonBytes digest dirOf (st, now) (st', now')"

inductive_cases advisor_stepE: "advisor_step jsonBytes digest dirOf (st, now) (st', now')"

section \<open>Records are only added\<close>

definition dir_grows :: "advice_dir \<Rightarrow> advice_dir \<Rightarrow> bool" where
  "dir_grows d d' = (ad_requests d \<subseteq>\<^sub>m ad_requests d' \<and> ad_claims d \<subseteq>\<^sub>m ad_claims d' \<and> ad_responses d \<subseteq>\<^sub>m ad_responses d' \<and>
     ad_evidence d \<subseteq>\<^sub>m ad_evidence d' \<and> (\<forall>i. ad_responses d i \<noteq> None \<longrightarrow> ad_evidence d' i = ad_evidence d i))"

lemma map_le_Some: "m \<subseteq>\<^sub>m n \<Longrightarrow> m k = Some v \<Longrightarrow> n k = Some v"
  by (metis domI map_le_def)

lemma publish_le: "publish m k v = (m', b) \<Longrightarrow> m \<subseteq>\<^sub>m m'"
  by (auto simp: publish_def map_le_def split: if_splits)

lemma publish_fst_le: "m \<subseteq>\<^sub>m fst (publish m k v)"
  by (auto simp: publish_def map_le_def)

lemma dir_grows_refl [simp]: "dir_grows d d"
  by (simp add: dir_grows_def)

lemma dir_grows_trans: "dir_grows d e \<Longrightarrow> dir_grows e f \<Longrightarrow> dir_grows d f"
proof -
  assume a: "dir_grows d e" and b: "dir_grows e f"
  have "ad_responses d i \<noteq> None \<Longrightarrow> ad_evidence f i = ad_evidence d i" for i
  proof -
    assume x: "ad_responses d i \<noteq> None"
    have "ad_responses e i = ad_responses d i" using a x by (auto simp: dir_grows_def dest: map_le_Some)
    with a b x show "ad_evidence f i = ad_evidence d i" by (simp add: dir_grows_def)
  qed
  with a b show "dir_grows d f" unfolding dir_grows_def by (blast intro: map_le_trans)
qed

lemma ask_grows: "ask_publish i now sid w d = (d', r) \<Longrightarrow> dir_grows d d'"
  by (auto simp: ask_publish_def ask_host_def rotateHost_def Let_def dir_grows_def publish_def map_le_def
      split: sum.splits requested_host.splits if_splits)

lemma read_grows: "advisorRead now req st = (st', r) \<Longrightarrow> dir_grows (st pid) (st' pid)"
  by (auto simp: advisorRead_def Let_def dir_grows_def publish_fst_le split: sum.splits)

lemma respond_grows: "advisorRespond jsonBytes digest dirOf now req st = (st', r) \<Longrightarrow> dir_grows (st pid) (st' pid)"
  by (auto simp: advisorRespond_def Let_def dir_grows_def publish_def map_le_def split: sum.splits if_splits)

lemma keep_grows: "keep_publish reserved j m st = (st', r) \<Longrightarrow> dir_grows (st pid) (st' pid)"
  by (auto simp: keep_publish_def Let_def dir_grows_def map_le_def split: if_splits)

lemma lineage_grows: "markExternalLensLineage pid' v st = Inr st' \<Longrightarrow> dir_grows (st pid) (st' pid)"
  by (auto simp: markExternalLensLineage_def bindR_eq_Inr dir_grows_def split: if_splits)

lemmas grows_intros = read_grows respond_grows keep_grows lineage_grows

lemma step_grows: "advisor_step jsonBytes digest dirOf (st, now) (st', now') \<Longrightarrow> dir_grows (st pid) (st' pid) \<and> now \<le> now'"
  by (erule advisor_stepE) (auto intro: grows_intros ask_grows)

section \<open>The invariant of a directory\<close>

definition response_ok :: "(kept_manifest \<Rightarrow> string) \<Rightarrow> (string \<Rightarrow> string \<Rightarrow> string) \<Rightarrow> string \<Rightarrow> advice_dir \<Rightarrow> string \<Rightarrow> stored_response \<Rightarrow> bool" where
  "response_ok digest dirOf pid d i x =
     (\<exists>r c. ad_requests d i = Some r \<and> ad_claims d i = Some c \<and> cl_session c = rs_session x \<and> rs_respondedAt x \<le> rq_expiresAt r \<and>
        rs_status x \<in> {SubmittedAdvice, DeclinedAdvice} \<and>
        (rq_kind r = ReviewLens \<and> rs_status x = SubmittedAdvice \<longrightarrow>
           validateReviewerResult (rs_reviewerResult x) (rv_subjectHash (the (rq_review r))) (rv_lens (the (rq_review r))) = Inr ()) \<and>
        rs_evidence x = map_option (evidence_of digest dirOf pid i) (ad_evidence d i))"

definition dir_ok :: "(kept_manifest \<Rightarrow> string) \<Rightarrow> (string \<Rightarrow> string \<Rightarrow> string) \<Rightarrow> string \<Rightarrow> advice_dir \<Rightarrow> bool" where
  "dir_ok digest dirOf pid d =
     ((\<forall>i r. ad_requests d i = Some r \<longrightarrow> rq_id r = i \<and> rq_expiresAt r = rq_createdAt r + ADVISOR_REQUEST_TTL_MS) \<and>
      (\<forall>i c. ad_claims d i = Some c \<longrightarrow> ad_requests d i \<noteq> None) \<and>
      (\<forall>i x. ad_responses d i = Some x \<longrightarrow> response_ok digest dirOf pid d i x))"

lemma response_ok_grows: "response_ok digest dirOf pid d i x \<Longrightarrow> dir_grows d e \<Longrightarrow> ad_responses d i = Some x \<Longrightarrow> response_ok digest dirOf pid e i x"
proof -
  assume ok: "response_ok digest dirOf pid d i x" and g: "dir_grows d e" and x: "ad_responses d i = Some x"
  then obtain r c where rc: "ad_requests d i = Some r" "ad_claims d i = Some c" by (auto simp: response_ok_def)
  have "ad_requests e i = Some r" "ad_claims e i = Some c" "ad_evidence e i = ad_evidence d i"
    using g rc x by (auto simp: dir_grows_def dest: map_le_Some)
  with ok rc show ?thesis by (simp add: response_ok_def)
qed

text \<open>A step that adds no response keeps what holds of the responses.\<close>

lemma responses_kept:
  assumes "dir_ok digest dirOf pid d" "dir_grows d e" "ad_responses e = ad_responses d"
  shows "\<forall>i x. ad_responses e i = Some x \<longrightarrow> response_ok digest dirOf pid e i x"
  using assms response_ok_grows unfolding dir_ok_def by metis

lemma ask_ok: "ask_publish i now sid w d = (d', r) \<Longrightarrow> dir_ok digest dirOf pid d \<Longrightarrow> dir_ok digest dirOf pid d'"
proof -
  assume a: "ask_publish i now sid w d = (d', r)" and ok: "dir_ok digest dirOf pid d"
  have "ad_responses d' = ad_responses d" "ad_claims d' = ad_claims d"
    "\<forall>k q. ad_requests d' k = Some q \<longrightarrow> ad_requests d k = Some q \<or> (rq_id q = k \<and> rq_expiresAt q = rq_createdAt q + ADVISOR_REQUEST_TTL_MS)"
    using a by (auto simp: ask_publish_def ask_host_def rotateHost_def Let_def publish_def split: sum.splits requested_host.splits if_splits)
  moreover have "ad_requests d k \<noteq> None \<Longrightarrow> ad_requests d' k \<noteq> None" for k
    using ask_grows [OF a] by (auto simp: dir_grows_def dest: map_le_Some)
  moreover note responses_kept [OF ok ask_grows [OF a]]
  ultimately show ?thesis
    using ok unfolding dir_ok_def by (metis (no_types))
qed

lemma read_ok: "advisorRead now req st = (st', r) \<Longrightarrow> dir_ok digest dirOf pid (st pid) \<Longrightarrow> dir_ok digest dirOf pid (st' pid)"
proof -
  assume a: "advisorRead now req st = (st', r)" and ok: "dir_ok digest dirOf pid (st pid)"
  have "ad_responses (st' pid) = ad_responses (st pid)" "ad_requests (st' pid) = ad_requests (st pid)"
    "\<And>i c. ad_claims (st' pid) i = Some c \<Longrightarrow> ad_claims (st pid) i = Some c \<or> ad_requests (st pid) i \<noteq> None"
    using a by (auto simp: advisorRead_def Let_def publish_def bindR_eq_Inr loadRequest_def split: sum.splits if_splits option.splits)
  then show ?thesis
    using responses_kept [OF ok read_grows [OF a]] ok unfolding dir_ok_def by metis
qed

lemma keep_ok: "keep_publish reserved j m st = (st', r) \<Longrightarrow> dir_ok digest dirOf pid (st pid) \<Longrightarrow> dir_ok digest dirOf pid (st' pid)"
proof -
  assume a: "keep_publish reserved j m st = (st', r)" and ok: "dir_ok digest dirOf pid (st pid)"
  have "ad_responses (st' pid) = ad_responses (st pid)" "ad_requests (st' pid) = ad_requests (st pid)" "ad_claims (st' pid) = ad_claims (st pid)"
    using a by (auto simp: keep_publish_def Let_def split: if_splits)
  then show ?thesis
    using responses_kept [OF ok keep_grows [OF a]] ok unfolding dir_ok_def by metis
qed

lemma lineage_ok: "markExternalLensLineage pid' v st = Inr st' \<Longrightarrow> dir_ok digest dirOf pid (st pid) \<Longrightarrow> dir_ok digest dirOf pid (st' pid)"
  by (auto simp: markExternalLensLineage_def bindR_eq_Inr dir_ok_def response_ok_def split: if_splits)

lemma respond_check_ok:
  assumes "respond_check jsonBytes digest dirOf now req st = Inr (pid, i, x)"
  shows "response_ok digest dirOf pid (st pid) i x \<and> ad_responses (st pid) i = None \<and> rs_respondedAt x = now"
  using assms
  by (auto simp: respond_check_def respond_result_def response_ok_def bindR_eq_Inr loadRequest_def Let_def split: option.splits if_splits)

lemma respond_ok:
  "advisorRespond jsonBytes digest dirOf now req st = (st', r) \<Longrightarrow> dir_ok digest dirOf pid (st pid) \<Longrightarrow> dir_ok digest dirOf pid (st' pid)"
proof (cases "respond_check jsonBytes digest dirOf now req st")
  case (Inr a)
  assume op: "advisorRespond jsonBytes digest dirOf now req st = (st', r)" and ok: "dir_ok digest dirOf pid (st pid)"
  obtain p i x where a: "a = (p, i, x)" by (cases a)
  from respond_check_ok [of jsonBytes digest dirOf now req st p i x] Inr a
  have x: "response_ok digest dirOf p (st p) i x" "ad_responses (st p) i = None" by simp_all
  have st': "st' = st(p := (st p)\<lparr>ad_responses := (ad_responses (st p))(i \<mapsto> x)\<rparr>)"
    using op x by (simp add: advisorRespond_def Inr a publish_def)
  show ?thesis
  proof (cases "pid = p")
    case True
    have keep: "response_ok digest dirOf p ((st p)\<lparr>ad_responses := m\<rparr>) k y = response_ok digest dirOf p (st p) k y" for m k y
      by (simp add: response_ok_def)
    show ?thesis using ok x unfolding True st' dir_ok_def by (auto simp: keep)
  qed (use ok st' in simp)
qed (auto simp: advisorRespond_def)

lemmas dir_ok_intros = read_ok respond_ok keep_ok lineage_ok

interpretation advisor_records: transition_system
  "\<lambda>(st, now). st = (\<lambda>_. empty_dir)" "advisor_step jsonBytes digest dirOf" "\<lambda>(st, now). \<forall>pid. dir_ok digest dirOf pid (st pid)"
  for jsonBytes :: "js \<Rightarrow> nat" and digest dirOf
proof
  fix s :: "advice_store \<times> int"
  show "case s of (st, now) \<Rightarrow> st = (\<lambda>_. empty_dir) \<Longrightarrow> case s of (st, now) \<Rightarrow> \<forall>pid. dir_ok digest dirOf pid (st pid)"
    by (auto simp: dir_ok_def empty_dir_def)
next
  fix s t :: "advice_store \<times> int"
  assume inv: "case s of (st, now) \<Rightarrow> \<forall>pid. dir_ok digest dirOf pid (st pid)" and step: "advisor_step jsonBytes digest dirOf s t"
  obtain st now st' now' where st: "s = (st, now)" "t = (st', now')" by (metis surj_pair)
  have "\<forall>pid. dir_ok digest dirOf pid (st pid)" using inv st by simp
  with step show "case t of (st, now) \<Rightarrow> \<forall>pid. dir_ok digest dirOf pid (st pid)"
    unfolding st by (auto elim!: advisor_stepE intro: dir_ok_intros dest: ask_ok)
qed

section \<open>Properties\<close>

fun advances :: "advice_status \<Rightarrow> advice_status \<Rightarrow> bool" where
  "advances PendingAdvice s = True"
| "advances ClaimedAdvice s = (s \<noteq> PendingAdvice)"
| "advances t s = (s = t)"

lemma advances_trans: "advances a b \<Longrightarrow> advances b c \<Longrightarrow> advances a c"
  by (cases a; cases b) auto

lemma advances_refl: "advances a a"
  by (cases a) auto

lemma responses_in_time:
  assumes "advisor_step jsonBytes digest dirOf (st, now) (st', now')" "ad_requests (st pid) i = Some r"
    "ad_responses (st pid) i = None" "ad_responses (st' pid) i \<noteq> None"
  shows "now \<le> rq_expiresAt r"
proof -
  have "ad_responses (st' pid) i = ad_responses (st pid) i \<or>
      (\<exists>req x. respond_check jsonBytes digest dirOf now' req st = Inr (pid, i, x) \<and> now \<le> now')"
    using assms(1)
  proof (elim advisor_stepE)
    fix cfg realpath runtime hashOf sessions st0 req w k sid d q
    assume "ask_publish k now' sid w (st (dr_projectId w)) = (d, q :: (string \<times> string) result)" "st' = st(dr_projectId w := d)"
    then show ?thesis
      by (auto simp: ask_publish_def ask_host_def rotateHost_def Let_def publish_def split: sum.splits requested_host.splits if_splits)
  next
    fix req q
    assume "advisorRespond jsonBytes digest dirOf now' req st = (st', q)" "now \<le> now'"
    then show ?thesis
      by (auto simp: advisorRespond_def Let_def publish_def split: sum.splits if_splits)
  qed (auto simp: advisorRead_def keep_publish_def markExternalLensLineage_def bindR_eq_Inr Let_def split: sum.splits if_splits)
  then show ?thesis
    using assms(2-4) respond_check_ok unfolding response_ok_def by fastforce
qed

lemma step_advances:
  assumes step: "advisor_step jsonBytes digest dirOf (st, now) (st', now')" and ok: "dir_ok digest dirOf pid (st' pid)"
    and s: "status_in (st pid) i now = Some s"
  shows "\<exists>s'. status_in (st' pid) i now' = Some s' \<and> advances s s'"
proof -
  obtain r where r: "ad_requests (st pid) i = Some r" "s = statusOf r (ad_claims (st pid) i) (ad_responses (st pid) i) now"
    using s by (auto simp: status_in_def)
  from step_grows [OF step, of pid] have g: "dir_grows (st pid) (st' pid)" and t: "now \<le> now'" by auto
  have r': "ad_requests (st' pid) i = Some r" using g r by (auto simp: dir_grows_def dest: map_le_Some)
  have "advances s (statusOf r (ad_claims (st' pid) i) (ad_responses (st' pid) i) now')"
  proof (cases "ad_responses (st pid) i")
    case None
    have claim: "ad_claims (st pid) i \<noteq> None \<Longrightarrow> ad_claims (st' pid) i \<noteq> None"
      using g by (auto simp: dir_grows_def dest: map_le_Some)
    show ?thesis
    proof (cases "ad_responses (st' pid) i")
      case None' : None
      with None claim t show ?thesis by (auto simp: r statusOf_def)
    next
      case (Some x)
      have "rs_status x = SubmittedAdvice \<or> rs_status x = DeclinedAdvice"
        using ok Some by (auto simp: dir_ok_def response_ok_def)
      with None Some responses_in_time [OF step r(1) None] show ?thesis by (auto simp: r statusOf_def)
    qed
  next
    case (Some x)
    then have "ad_responses (st' pid) i = Some x" using g by (auto simp: dir_grows_def dest: map_le_Some)
    with Some show ?thesis by (simp add: r statusOf_def advances_refl)
  qed
  with r' show ?thesis by (simp add: status_in_def)
qed

text \<open>
  C24. Advisory records are immutable and their status only moves forward.  From any
  directory in which responses come from their claimants, under every interleaving of the
  operations: requests, claims, responses and kept evidence are never changed or removed;
  the evidence of an answered request never changes; every response comes from the
  session that claimed the request, before it expired, with a checked reviewer result for
  a review lens and with exactly the evidence that was kept; and a request goes from
  pending to claimed to submitted or declined, or expires, and never back.
\<close>

theorem advice_moves_forward:
  assumes start: "\<forall>pid. dir_ok digest dirOf pid (st pid)"
    and run: "(advisor_step jsonBytes digest dirOf)\<^sup>*\<^sup>* (st, now) (st', now')"
  shows "dir_grows (st pid) (st' pid) \<and>
    (\<forall>x. ad_responses (st' pid) i = Some x \<longrightarrow> response_ok digest dirOf pid (st' pid) i x) \<and>
    (case status_in (st pid) i now of None \<Rightarrow> True
     | Some s \<Rightarrow> (case status_in (st' pid) i now' of None \<Rightarrow> False | Some s' \<Rightarrow> advances s s'))"
proof -
  have inv: "case s of (st, now) \<Rightarrow> \<forall>pid. dir_ok digest dirOf pid (st pid)" if "(advisor_step jsonBytes digest dirOf)\<^sup>*\<^sup>* (st, now) s" for s
    by (rule advisor_records.invar_steps [OF that]) (use start in simp)
  have "dir_grows (st pid) (fst s pid) \<and> (\<forall>q. status_in (st pid) i now = Some q \<longrightarrow> (\<exists>q'. status_in (fst s pid) i (snd s) = Some q' \<and> advances q q'))"
    if "(advisor_step jsonBytes digest dirOf)\<^sup>*\<^sup>* (st, now) s" for s
    using that
  proof (induction rule: rtranclp_induct)
    case base
    then show ?case by (simp add: advances_refl)
  next
    case (step y z)
    obtain a b where y: "y = (a, b)" by (cases y)
    obtain c e where z: "z = (c, e)" by (cases z)
    have ok: "dir_ok digest dirOf pid (c pid)" using inv [OF rtranclp.rtrancl_into_rtrancl [OF step.hyps]] z by simp
    have s: "advisor_step jsonBytes digest dirOf (a, b) (c, e)" using step.hyps(2) y z by simp
    from step_grows [OF s, of pid] have g: "dir_grows (a pid) (c pid)" by simp
    have adv: "status_in (a pid) i b = Some q \<Longrightarrow> \<exists>q'. status_in (c pid) i e = Some q' \<and> advances q q'" for q
      by (rule step_advances [OF s ok])
    show ?case
      using step.IH dir_grows_trans [OF _ g] adv unfolding y z fst_conv snd_conv by (meson advances_trans)
  qed
  from this [OF run] inv [OF run] show ?thesis by (auto simp: dir_ok_def split: option.split)
qed

section \<open>Kept evidence\<close>

lemma bindW_ok: "bindW m f w = (w', Inr y) \<longleftrightarrow> (\<exists>w1 x. m w = (w1, Inr x) \<and> f x w1 = (w', Inr y))"
  by (auto simp: bindW_def split: prod.splits sum.splits)

lemma liftW_ok: "liftW r w = (w', Inr y) \<longleftrightarrow> w' = w \<and> r = Inr y"
  by (auto simp: liftW_def)

lemma retW_ok: "retW x w = (w', Inr y) \<longleftrightarrow> w' = w \<and> y = x"
  by (auto simp: retW_def)

lemma norm_stack_segs: "''..'' \<notin> set segs \<Longrightarrow> set (norm_stack ab stk segs) \<subseteq> set stk \<union> set segs"
  by (induction ab stk segs rule: norm_stack.induct) auto

lemma evidence_path_ok:
  assumes "evidence_path path = Inr relative"
  shows "\<exists>p. relative = ''.advisor/'' @ p \<and> p \<noteq> [] \<and> p \<noteq> ''manifest.json'' \<and> ''..'' \<notin> set (splitOn (CHR ''/'') p)"
proof -
  from assms have path: "startsWith path ''.advisor/''" "''..'' \<notin> set (splitOn (CHR ''/'') path)"
    and rel: "relative = normalize_path path" "startsWith relative ''.advisor/''" "relative \<noteq> ''.advisor/''" "relative \<noteq> ''.advisor/manifest.json''"
    by (auto simp: evidence_path_def bindR_eq_Inr Let_def)
  obtain p where p: "relative = ''.advisor/'' @ p" using rel(2) by (metis startsWith_iff_prefix prefixE)
  have segs: "''..'' \<notin> set (path_segments path)" "list_all (\<lambda>s. CHR ''/'' \<notin> set s) (path_segments path)"
    using norm_stack_segs [OF path(2), of "\<not> isAbsolute path" "[]"] path(2) splitOn_parts [where d = "CHR ''/''" and s = path]
    by (auto simp: path_segments_def list_all_iff)
  have "''..'' \<notin> set (splitOn (CHR ''/'') relative)"
  proof -
    have ne: "path_segments path \<noteq> []" using rel(1,2) by (auto simp: normalize_path_def startsWith_def Let_def split: if_splits)
    obtain q where "path = ''.advisor/'' @ q" using path(1) by (metis startsWith_iff_prefix prefixE)
    then have "\<not> isAbsolute path" "path \<noteq> []" by (auto simp: isAbsolute_def startsWith_def)
    then have r: "relative = joinWith ''/'' (path_segments path) @ (if endsWith path ''/'' then ''/'' else [])"
      using ne by (simp add: rel(1) normalize_path_def Let_def)
    have "splitOn (CHR ''/'') (joinWith ''/'' (path_segments path)) = path_segments path"
      using ne segs(2) by (intro splitOn_join) (auto simp: list_all_iff)
    then show ?thesis
      using segs(1) splitOn_append [where d = "CHR ''/''" and a = "joinWith ''/'' (path_segments path)" and b = "[]"] by (simp add: r)
  qed
  then have "''..'' \<notin> set (splitOn (CHR ''/'') p)"
    unfolding p using splitOn_append [where d = "CHR ''/''" and a = "''.advisor''" and b = p] by simp
  with p rel show ?thesis by auto
qed

definition kept_ok :: "staged \<Rightarrow> bool" where
  "kept_ok sg = (sg_seen sg = rev (map (\<lambda>(p, b). ''/work/.advisor/'' @ p) (sg_files sg)) \<and> distinct (map fst (sg_files sg)) \<and>
     sg_total sg = sum_list (map (\<lambda>(p, b). length b) (sg_files sg)) \<and> sg_total sg \<le> MAX_KEPT_TOTAL_BYTES \<and>
     list_all (\<lambda>(p, b). length b \<le> MAX_KEPT_FILE_BYTES \<and> p \<noteq> [] \<and> p \<noteq> ''manifest.json'' \<and> ''..'' \<notin> set (splitOn (CHR ''/'') p)) (sg_files sg))"

lemma keep_path_ok:
  assumes "keep_path run stageWrite late n path sg w = (w', Inr sg')" "kept_ok sg"
  shows "kept_ok sg' \<and> length (sg_files sg') = length (sg_files sg) + 1"
proof -
  have "\<exists>relative bytes. evidence_path path = Inr relative \<and> ''/work/'' @ relative \<notin> set (sg_seen sg) \<and> length bytes \<le> MAX_KEPT_FILE_BYTES \<and>
      sg_total sg + length bytes \<le> MAX_KEPT_TOTAL_BYTES \<and> sg' = \<lparr>sg_seen = (''/work/'' @ relative) # sg_seen sg, sg_total = sg_total sg + length bytes,
       sg_files = sg_files sg @ [(drop 9 relative, bytes)]\<rparr>"
    using assms(1) unfolding keep_path_def Let_def bindW_ok liftW_ok retW_ok guardR_eq_Inr by blast
  then obtain relative bytes where r: "evidence_path path = Inr relative" "''/work/'' @ relative \<notin> set (sg_seen sg)"
    "length bytes \<le> MAX_KEPT_FILE_BYTES" "sg_total sg + length bytes \<le> MAX_KEPT_TOTAL_BYTES"
    and sg': "sg' = \<lparr>sg_seen = (''/work/'' @ relative) # sg_seen sg, sg_total = sg_total sg + length bytes,
       sg_files = sg_files sg @ [(drop 9 relative, bytes)]\<rparr>" by blast
  obtain p where p: "relative = ''.advisor/'' @ p" "p \<noteq> []" "p \<noteq> ''manifest.json''" "''..'' \<notin> set (splitOn (CHR ''/'') p)"
    using evidence_path_ok [OF r(1)] by blast
  show ?thesis using assms(2) r p unfolding sg' kept_ok_def by (auto simp: image_iff)
qed

lemma keep_paths_ok:
  "keep_paths run stageWrite late n paths sg w = (w', Inr sg') \<Longrightarrow> kept_ok sg \<Longrightarrow> kept_ok sg' \<and> length (sg_files sg') = length (sg_files sg) + length paths"
proof (induction paths arbitrary: n sg w)
  case (Cons p ps)
  from Cons.prems(1) obtain w1 sg1 where a: "keep_path run stageWrite late n p sg w = (w1, Inr sg1)"
    "keep_paths run stageWrite late (n + 4) ps sg1 w1 = (w', Inr sg')" by (auto simp: bindW_ok)
  from keep_path_ok [OF a(1) Cons.prems(2)] Cons.IH [OF a(2)] show ?case by simp
qed (simp add: retW_ok)

text \<open>
  Kept evidence is bounded and contained.  A job is only begun by the advisor that
  claimed the request, on its own active worker, before an answer and before the request
  expires; a collection that succeeds holds one entry per requested path, at most 32, of
  at most one megabyte each and eight together; and the entries have different names
  below the evidence directory of the request, none of which is the manifest.
\<close>

theorem kept_evidence_bounded:
  assumes "keep_begin sessions now req st = Inr j"
    and "keep_collect cfg gitIn run stageWrite sha late kept j w = (w', Inr m)"
  shows "(\<exists>r c. ad_requests (st (kj_projectId j)) (kj_id j) = Some r \<and> now \<le> rq_expiresAt r \<and> ad_responses (st (kj_projectId j)) (kj_id j) = None \<and>
      ad_claims (st (kj_projectId j)) (kj_id j) = Some c \<and> cl_session c = env_sessionID req) \<and>
    length (km_files m) = length (kj_paths j) \<and> length (kj_paths j) \<le> 32 \<and> distinct (map fst (km_files m)) \<and>
    (\<exists>bytes. km_files m = map (\<lambda>(p, b). (p, sha b)) (zip (map fst (km_files m)) bytes) \<and> length bytes = length (km_files m) \<and>
       sum_list (map length bytes) \<le> MAX_KEPT_TOTAL_BYTES \<and> list_all (\<lambda>b. length b \<le> MAX_KEPT_FILE_BYTES) bytes) \<and>
    list_all (\<lambda>(p, h). p \<noteq> [] \<and> p \<noteq> ''manifest.json'' \<and> ''..'' \<notin> set (splitOn (CHR ''/'') p)) (km_files m)"
proof -
  have begun: "\<exists>r c. ad_requests (st (kj_projectId j)) (kj_id j) = Some r \<and> now \<le> rq_expiresAt r \<and> ad_responses (st (kj_projectId j)) (kj_id j) = None \<and>
      ad_claims (st (kj_projectId j)) (kj_id j) = Some c \<and> cl_session c = env_sessionID req" and len: "length (kj_paths j) \<le> 32"
    using assms(1) unfolding keep_begin_def bindR_eq_Inr
    by (elim exE conjE; auto simp: string_paths_def MAX_KEPT_PATHS_def bindR_eq_Inr loadRequest_def split: option.split_asm js.split_asm)+
  obtain w1 sg where sg: "keep_paths (run (kj_worker j)) stageWrite late 7 (kj_paths j) no_files w1 = (w', Inr sg)"
    and m: "km_files m = map (\<lambda>(p, b). (p, sha b)) (sg_files sg)"
    using assms(2) by (auto simp: keep_collect_def bindW_ok retW_ok liftW_ok split: prod.splits)
  have "kept_ok no_files" by (simp add: kept_ok_def no_files_def)
  from keep_paths_ok [OF sg this] have ok: "kept_ok sg" "length (sg_files sg) = length (kj_paths j)" by (simp_all add: no_files_def)
  have fst: "map fst (km_files m) = map fst (sg_files sg)" by (simp add: m case_prod_unfold comp_def)
  have bytes: "map length (map snd (sg_files sg)) = map (\<lambda>(p, b). length b) (sg_files sg)" by (simp add: case_prod_unfold)
  have zip: "zip (map fst (sg_files sg)) (map snd (sg_files sg)) = sg_files sg" by (rule zip_map_fst_snd)
  have "km_files m = map (\<lambda>(p, b). (p, sha b)) (zip (map fst (km_files m)) (map snd (sg_files sg)))" unfolding fst zip by (rule m)
  moreover have "length (map snd (sg_files sg)) = length (km_files m)" by (simp add: m)
  moreover have "sum_list (map length (map snd (sg_files sg))) \<le> MAX_KEPT_TOTAL_BYTES" unfolding bytes using ok(1) by (simp add: kept_ok_def)
  moreover have "list_all (\<lambda>b. length b \<le> MAX_KEPT_FILE_BYTES) (map snd (sg_files sg))"
    using ok(1) by (auto simp: kept_ok_def list_all_iff)
  moreover have "list_all (\<lambda>(p, h). p \<noteq> [] \<and> p \<noteq> ''manifest.json'' \<and> ''..'' \<notin> set (splitOn (CHR ''/'') p)) (km_files m)"
    using ok(1) by (auto simp: kept_ok_def list_all_iff m)
  moreover have "length (km_files m) = length (kj_paths j)" using ok by (simp add: m)
  moreover have "distinct (map fst (km_files m))" unfolding fst using ok by (simp add: kept_ok_def)
  ultimately show ?thesis using begun len by blast
qed

section \<open>Examples\<close>

definition demo_advice_id :: string where
  "demo_advice_id = ''adv-0123456789abcdef''"

definition demo_advisor :: string where
  "demo_advisor = ''advisor-demo-0123456789abcdef''"

definition demo_advice_request :: stored_request where
  "demo_advice_request = \<lparr>rq_id = demo_advice_id, rq_projectId = ''demo'', rq_kind = PreCodeAdvice,
     rq_binding = \<lparr>bn_task = ''odd/tasks/x.md#T1'', bn_step = ''plan'', bn_route = None, bn_stage = None\<rparr>, rq_snapshot = AtWorktree, rq_rule = ''r'',
     rq_requestedHost = RotateHost, rq_resolvedHost = Claude, rq_group = None, rq_thread = demo_advice_id, rq_parentId = None, rq_question = Some ''why'',
     rq_evidenceRefs = [], rq_review = None, rq_askedBy = ''s1'', rq_createdAt = 0, rq_expiresAt = ADVISOR_REQUEST_TTL_MS\<rparr>"

definition demo_advice_store :: advice_store where
  "demo_advice_store = (\<lambda>_. empty_dir)(''demo'' := empty_dir\<lparr>ad_requests := [demo_advice_id \<mapsto> demo_advice_request],
     ad_claims := [demo_advice_id \<mapsto> \<lparr>cl_session = demo_advisor, cl_claimedAt = 5\<rparr>]\<rparr>)"

definition demo_advisor_request :: "string \<Rightarrow> (string \<times> js) list \<Rightarrow> envelope" where
  "demo_advisor_request operation p = \<lparr>env_id = ''1'', env_operation = operation, env_sessionID = demo_advisor, env_agent = JUndefined, env_payload = JObj p\<rparr>"

definition demo_answer :: "(string \<times> js) list" where
  "demo_answer = [(''id'', JStr demo_advice_id), (''status'', JStr ''submitted''), (''verdict'', JStr ''fine'')]"

lemma demo_answer_parts:
  "payloadOf (demo_advisor_request ''advisorRespond'' demo_answer) = Inr demo_answer"
  "advisorProject (env_sessionID (demo_advisor_request ''advisorRespond'' demo_answer)) ''advisorRespond'' = Inr ''demo''"
  "matching (js_get demo_answer ''id'') ADVICE_ID_RE ''id'' = Inr demo_advice_id"
  "js_get demo_answer ''status'' = JStr ''submitted''" "js_get demo_answer ''verdict'' = JStr ''fine''"
  "js_get demo_answer ''findings'' = JUndefined" "js_get demo_answer ''reviewerResult'' = JUndefined"
  by code_simp+

lemma demo_verdict: "text_value (JStr ''fine'') ''verdict'' True MAX_TEXT_BYTES = Inr (Some ''fine'')"
proof -
  have "\<not> list_ex CONTROL_RE ''fine''" by code_simp
  then have "guardR (\<not> list_ex CONTROL_RE (js_str (JStr ''fine''))) e = Inr ()" for e by (simp only: js_str.simps guardR_simps simp_thms)
  then show ?thesis unfolding text_value_def by (simp only: bindR_simps) (simp add: MAX_TEXT_BYTES_def)
qed

lemma demo_advice_files:
  "ad_requests (demo_advice_store ''demo'') = [demo_advice_id \<mapsto> demo_advice_request]"
  "ad_claims (demo_advice_store ''demo'') = [demo_advice_id \<mapsto> \<lparr>cl_session = demo_advisor, cl_claimedAt = 5\<rparr>]"
  "ad_responses (demo_advice_store ''demo'') = Map.empty" "ad_evidence (demo_advice_store ''demo'') = Map.empty"
  "rq_kind demo_advice_request = PreCodeAdvice" "rq_expiresAt demo_advice_request = 86400000"
  "env_sessionID (demo_advisor_request operation p) = demo_advisor"
  by (simp_all add: demo_advice_store_def empty_dir_def demo_advice_request_def ADVISOR_REQUEST_TTL_MS_def demo_advisor_request_def)

lemma demo_respond:
  "\<exists>x. advisorRespond (\<lambda>_. 0) (\<lambda>_. []) (\<lambda>_ _. []) 9 (demo_advisor_request ''advisorRespond'' demo_answer) demo_advice_store =
     (demo_advice_store(''demo'' := (demo_advice_store ''demo'')\<lparr>ad_responses := [demo_advice_id \<mapsto> x]\<rparr>), Inr (demo_advice_id, SubmittedAdvice)) \<and>
     rs_status x = SubmittedAdvice"
  unfolding advisorRespond_def respond_check_def demo_answer_parts bindR_simps Let_def
  by (simp add: demo_answer_parts loadRequest_def demo_advice_files respond_result_def demo_verdict validFindings_def publish_def) (metis stored_response.select_convs(1))

text \<open>A claimed request is answered: its status goes from claimed to submitted.\<close>

theorem advice_moves_forward_witness:
  "\<exists>st'. (advisor_step (\<lambda>_. 0) (\<lambda>_. []) (\<lambda>_ _. []))\<^sup>*\<^sup>* (demo_advice_store, 6) (st', 9) \<and>
     status_in (demo_advice_store ''demo'') demo_advice_id 6 = Some ClaimedAdvice \<and> status_in (st' ''demo'') demo_advice_id 9 = Some SubmittedAdvice \<and>
     dir_grows (demo_advice_store ''demo'') (st' ''demo'')"
proof -
  obtain x where x: "advisorRespond (\<lambda>_. 0) (\<lambda>_. []) (\<lambda>_ _. []) 9 (demo_advisor_request ''advisorRespond'' demo_answer) demo_advice_store =
     (demo_advice_store(''demo'' := (demo_advice_store ''demo'')\<lparr>ad_responses := [demo_advice_id \<mapsto> x]\<rparr>), Inr (demo_advice_id, SubmittedAdvice))"
     "rs_status x = SubmittedAdvice" using demo_respond by blast
  let ?st = "demo_advice_store(''demo'' := (demo_advice_store ''demo'')\<lparr>ad_responses := [demo_advice_id \<mapsto> x]\<rparr>)"
  have run: "(advisor_step (\<lambda>_. 0) (\<lambda>_. []) (\<lambda>_ _. []))\<^sup>*\<^sup>* (demo_advice_store, 6) (?st, 9)"
    by (rule r_into_rtranclp, rule advisor_step.respond [OF x(1)]) simp
  have ok: "\<forall>pid. dir_ok (\<lambda>_. []) (\<lambda>_ _. []) pid (demo_advice_store pid)"
    by (simp add: demo_advice_store_def dir_ok_def empty_dir_def demo_advice_request_def)
  have "status_in (demo_advice_store ''demo'') demo_advice_id 6 = Some ClaimedAdvice" "status_in (?st ''demo'') demo_advice_id 9 = Some SubmittedAdvice"
    by (simp_all add: status_in_def statusOf_def demo_advice_files x(2))
  with advice_moves_forward [OF ok run, of "''demo''" demo_advice_id] run show ?thesis by blast
qed

definition demo_identity :: snapshot_identity where
  "demo_identity = \<lparr>si_commit = replicate 40 (CHR ''a''), si_tree = replicate 40 (CHR ''b''), si_source = FromWorktree, si_resultRef = None, si_headSha = []\<rparr>"

definition demo_advisor_sessions :: store where
  "demo_advisor_sessions = [demo_advisor \<mapsto> Stored ((new_record demo_advisor (Iso 0))\<lparr>sr_state := SANDBOX_ACTIVE, sr_workerName := Some ''w1'',
     sr_projectID := Some ''demo'', sr_snapshotIdentity := Some demo_identity\<rparr>)]"

definition demo_keep :: "(string \<times> js) list" where
  "demo_keep = [(''requestId'', JStr demo_advice_id), (''paths'', JArr [JStr ''.advisor/a.txt''])]"

definition demo_run :: "string list \<Rightarrow> nat \<Rightarrow> (unit, host_spawned) act" where
  "demo_run argv n w = (w, Inr \<lparr>hs_status = Some (if hd argv = ''git'' then 1 else 0),
     hs_stdout = (if hd argv = ''realpath'' then last argv else if hd argv = ''stat'' then ''regular file'' else ''aGV5''), hs_stderr = [],
     hs_timedOut = False, hs_outputTruncated = False\<rparr>)"

lemma demo_evidence_path: "evidence_path ''.advisor/a.txt'' = Inr ''.advisor/a.txt''" "base64_decode ''aGV5'' = ''hey''"
  "trim ''/work/.advisor/a.txt'' = ''/work/.advisor/a.txt''" "trim ''regular file'' = ''regular file''"
  "filter (\<lambda>c. \<not> is_space c) ''aGV5'' = ''aGV5''" "COMMIT_RE (replicate 40 (CHR ''a''))" "COMMIT_RE (replicate 40 (CHR ''b''))"
  by code_simp+


lemma demo_keep_begin:
  "\<exists>j. keep_begin demo_advisor_sessions 6 (demo_advisor_request ''evidenceKeep'' demo_keep) demo_advice_store = Inr j \<and>
     kj_paths j = [''.advisor/a.txt''] \<and> kj_worker j = ''w1'' \<and> sr_snapshotIdentity (kj_session j) = Some demo_identity"
proof -
  have parts: "payloadOf (demo_advisor_request ''evidenceKeep'' demo_keep) = Inr demo_keep"
    "advisorProject (env_sessionID (demo_advisor_request ''evidenceKeep'' demo_keep)) ''evidenceKeep'' = Inr ''demo''"
    "matching (js_get demo_keep ''requestId'') ADVICE_ID_RE ''requestId'' = Inr demo_advice_id"
    "string_paths (js_get demo_keep ''paths'') = Inr [''.advisor/a.txt'']"
    by code_simp+
  show ?thesis
    unfolding keep_begin_def parts bindR_simps
    by (simp add: loadRequest_def demo_advice_files demo_advisor_sessions_def store_get_def)
qed

lemma demo_collect:
  assumes "kj_paths j = [''.advisor/a.txt'']" "kj_worker j = ''w1''" "sr_snapshotIdentity (kj_session j) = Some demo_identity"
  shows "\<exists>m. keep_collect cfg None (\<lambda>_. demo_run) (\<lambda>_ _. retW ()) (\<lambda>b. ''h'' @ b) (\<lambda>_. False) False j () = ((), Inr m) \<and> km_files m = [(''a.txt'', ''hhey'')]"
proof -
  have "pinned_identity cfg None (\<lambda>_. False) j () = ((), Inr (replicate 40 (CHR ''a''), replicate 40 (CHR ''b'')))"
    unfolding pinned_identity_def assms demo_identity_def
    by (simp add: bindW_def retW_def liftW_def demo_evidence_path)
  moreover have "\<exists>h. observed_head demo_run (\<lambda>_. False) () = ((), Inr h)"
    by (simp add: observed_head_def demo_run_def deadline_def bindW_def retW_def liftW_def)
  moreover have "keep_paths demo_run (\<lambda>_ _. retW ()) (\<lambda>_. False) 7 [''.advisor/a.txt''] no_files () =
      ((), Inr \<lparr>sg_seen = [''/work/.advisor/a.txt''], sg_total = 3, sg_files = [(''a.txt'', ''hey'')]\<rparr>)"
    by (simp add: keep_path_def Let_def deadline_def bindW_def retW_def liftW_def demo_run_def demo_evidence_path no_files_def encodedCap_def
        MAX_KEPT_FILE_BYTES_def MAX_KEPT_TOTAL_BYTES_def del: filter.simps)
  ultimately show ?thesis
    unfolding keep_collect_def assms by (auto simp: bindW_def retW_def liftW_def)
qed

theorem kept_evidence_bounded_witness:
  "\<exists>j m. keep_begin demo_advisor_sessions 6 (demo_advisor_request ''evidenceKeep'' demo_keep) demo_advice_store = Inr j \<and>
     keep_collect (demo_config 1) None (\<lambda>_. demo_run) (\<lambda>_ _. retW ()) (\<lambda>b. ''h'' @ b) (\<lambda>_. False) False j () = ((), Inr m) \<and>
     km_files m = [(''a.txt'', ''hhey'')] \<and> length (kj_paths j) \<le> 32"
proof -
  obtain j where j: "keep_begin demo_advisor_sessions 6 (demo_advisor_request ''evidenceKeep'' demo_keep) demo_advice_store = Inr j"
     "kj_paths j = [''.advisor/a.txt'']" "kj_worker j = ''w1''" "sr_snapshotIdentity (kj_session j) = Some demo_identity"
    using demo_keep_begin by blast
  obtain m where m: "keep_collect (demo_config 1) None (\<lambda>_. demo_run) (\<lambda>_ _. retW ()) (\<lambda>b. ''h'' @ b) (\<lambda>_. False) False j () = ((), Inr m)"
     "km_files m = [(''a.txt'', ''hhey'')]" using demo_collect [OF j(2-4)] by blast
  from kept_evidence_bounded [OF j(1) m(1)] j(1) m show ?thesis by blast
qed

end
