(* ===== verification/AdvisorRelay.thy ===== *)
theory AdvisorRelay
  imports AdvisorGuarantees
begin

text \<open>
  The relay of a stored reviewer result into a review (\<^verbatim>\<open>broker/src/advisor-relay.ts\<close>).
  It takes a marker for the lineage and the lens, then awaits the review runtime twice, and
  gives the marker back when the runtime refuses: it is begun and ended in two steps, with
  other relays in between.
\<close>

section \<open>Refusing free input\<close>

definition guardExternalLensCapture ::
  "broker_config \<Rightarrow> (string \<Rightarrow> string option) \<Rightarrow> advice_store \<Rightarrow> js \<Rightarrow> (string \<times> js) list \<Rightarrow> unit result"
where
  "guardExternalLensCapture cfg realpath st projectDir payload = (case js_get payload ''lineage'' of
     JStr l \<Rightarrow>
       (case resolveProjectID realpath projectDir (bc_projects cfg) of
          Inl _ \<Rightarrow> Inr ()
        | Inr pid \<Rightarrow>
            if \<not> LINEAGE_RE l then Inr ()
            else bindR (isExternalLensLineage pid (JStr l) st) (\<lambda>external.
              guardR (external \<longrightarrow> js_get payload ''input'' = JUndefined \<and> js_get payload ''inputJson'' = JUndefined \<and> js_get payload ''agent'' = JUndefined)
                (PolicyError ''an external-lens lineage accepts reviewer results only through inputFromAdvisorResponse (no free-form input, no agent)'')))
   | _ \<Rightarrow> Inr ())"

section \<open>The relay\<close>

definition BROKER_SUPPLIED :: "string list" where
  "BROKER_SUPPLIED = [''agent'', ''input'', ''inputJson'', ''lens'', ''order'', ''target'', ''lineage'', ''expectedRevision'', ''repositoryContext'',
     ''subjectHash'', ''materialize'', ''preflight'']"

record capture_request =
  cp_projectDir :: string
  cp_lineage :: string
  cp_lens :: string
  cp_order :: int
  cp_target :: string
  cp_subjectHash :: string
  cp_expectedRevision :: "string option"
  cp_repositoryContext :: "string option"
  cp_input :: js   \<comment> \<open>the stored reviewer result, passed as its JSON text\<close>

record relay_job =
  rj_projectId :: string
  rj_marker :: "string \<times> string"   \<comment> \<open>lineage and lens\<close>
  rj_id :: string
  rj_capture :: capture_request

definition supplied_key :: "(string \<times> js) list \<Rightarrow> string option" where
  "supplied_key payload = find (\<lambda>k. js_get payload k \<noteq> JUndefined) BROKER_SUPPLIED"

text \<open>The checks up to the answer of \<open>reviewStatus\<close>.\<close>

definition relay_check ::
  "broker_config \<Rightarrow> (string \<Rightarrow> string option) \<Rightarrow> (string \<Rightarrow> string \<Rightarrow> status_reply result) \<Rightarrow> js \<Rightarrow> (string \<times> js) list \<Rightarrow> advice_store \<Rightarrow> relay_job result"
where
  "relay_check cfg realpath reviewStatus projectDir payload st = (case supplied_key payload of
     Some k \<Rightarrow> Inl (PolicyError (''inputFromAdvisorResponse is exclusive: the broker supplies '' @ k @ '' itself''))
   | None \<Rightarrow>
       bindR (resolveProjectID realpath projectDir (bc_projects cfg)) (\<lambda>pid.
       bindR (readRelayableLensResponse st pid (js_get payload ''inputFromAdvisorResponse'')) (\<lambda>(i, review, result).
       bindR (isExternalLensLineage pid (JStr (rv_lineage review)) st) (\<lambda>external.
       bindR (guardR external (PolicyError (''lineage '' @ rv_lineage review @ '' is not an external-lens lineage''))) (\<lambda>_.
       bindR (reviewStatus (js_str projectDir) (rv_lineage review)) (\<lambda>status.
       bindR (guardR (sp_status status = Some 0 \<and> sp_object status) (PolicyError ''gentle-ai review status failed'')) (\<lambda>_.
       case collect_input status (rv_lens review) of
         None \<Rightarrow> Inl (PolicyError (''lineage '' @ rv_lineage review @ '' is not collecting a result for '' @ rv_lens review))
       | Some fresh \<Rightarrow>
           bindR (guardR (fresh ''target'' = Some (rv_target review) \<and> order_of fresh = Some (rv_order review) \<and>
               fresh ''subject-hash'' = Some (rv_subjectHash review))
             (PolicyError ''the advisory response is stale: the candidate or lens slot changed since it was requested'')) (\<lambda>_.
           Inr \<lparr>rj_projectId = pid, rj_marker = (rv_lineage review, rv_lens review), rj_id = i,
             rj_capture = \<lparr>cp_projectDir = js_str projectDir, cp_lineage = rv_lineage review, cp_lens = rv_lens review, cp_order = rv_order review,
               cp_target = rv_target review, cp_subjectHash = rv_subjectHash review, cp_expectedRevision = fresh ''expected-revision'',
               cp_repositoryContext = fresh ''repository-context'', cp_input = result\<rparr>\<rparr>))))))))"

text \<open>The exclusive marker, after the answer.\<close>

definition relay_begin :: "relay_job \<Rightarrow> advice_store \<Rightarrow> advice_store \<times> unit result" where
  "relay_begin j st =
     (let d = st (rj_projectId j); (files, fresh) = publish (ad_relayed d) (rj_marker j) (rj_id j) in
      (st(rj_projectId j := d\<lparr>ad_relayed := files\<rparr>),
       guardR fresh (PolicyError (snd (rj_marker j) @ '' of '' @ fst (rj_marker j) @ '' was already relayed''))))"

definition relay_release :: "relay_job \<Rightarrow> advice_store \<Rightarrow> advice_store" where
  "relay_release j st = (let d = st (rj_projectId j) in st(rj_projectId j := d\<lparr>ad_relayed := (ad_relayed d)(rj_marker j := None)\<rparr>))"

text \<open>
  The end of a relay.  \<open>preflight\<close> and \<open>captured\<close> are the exit codes of the two captures
  (or what they threw); the second one runs only when the first one succeeded.
\<close>

definition relay_end :: "relay_job \<Rightarrow> int option result \<Rightarrow> int option result \<Rightarrow> advice_store \<Rightarrow> advice_store \<times> string result" where
  "relay_end j preflight captured st = (case preflight of
     Inl e \<Rightarrow> (relay_release j st, Inl e)
   | Inr p \<Rightarrow>
       if p \<noteq> Some 0 then (relay_release j st, Inl (PolicyError ''gentle-ai preflight refused the advisory response''))
       else (case captured of
           Inl e \<Rightarrow> (relay_release j st, Inl e)
         | Inr c \<Rightarrow>
             if c \<noteq> Some 0 then (relay_release j st, Inl (PolicyError ''gentle-ai capture refused the advisory response''))
             else (st, Inr (rj_id j))))"

section \<open>Every slot is relayed at most once\<close>

text \<open>
  The relays in progress and the slots that were captured, beside the store.  The other
  operations of the advisory records do not touch the markers.
\<close>

type_synonym relay_state = "advice_store \<times> relay_job list \<times> (string \<times> string \<times> string) list"

definition slot :: "relay_job \<Rightarrow> string \<times> string \<times> string" where
  "slot j = (rj_projectId j, rj_marker j)"

inductive relay_step :: "relay_state \<Rightarrow> relay_state \<Rightarrow> bool" where
  started: "relay_check cfg realpath reviewStatus projectDir payload st0 = Inr j \<Longrightarrow> relay_begin j st = (st', Inr ()) \<Longrightarrow>
    relay_step (st, jobs, captured) (st', j # jobs, captured)"
| refused: "relay_begin j st = (st', Inl e) \<Longrightarrow> relay_step (st, jobs, captured) (st', jobs, captured)"
| ended: "j \<in> set jobs \<Longrightarrow> relay_end j preflight result st = (st', Inl e) \<Longrightarrow> relay_step (st, jobs, captured) (st', remove1 j jobs, captured)"
| relayed: "j \<in> set jobs \<Longrightarrow> relay_end j preflight result st = (st', Inr i) \<Longrightarrow>
    relay_step (st, jobs, captured) (st', remove1 j jobs, slot j # captured)"
| advice: "advisor_step jsonBytes digest dirOf (st, now) (st', now') \<Longrightarrow> relay_step (st, jobs, captured) (st', jobs, captured)"

inductive_cases relay_stepE: "relay_step (st, jobs, captured) (st', jobs', captured')"

definition relay_inv :: "relay_state \<Rightarrow> bool" where
  "relay_inv s = (case s of (st, jobs, captured) \<Rightarrow>
     distinct (map slot jobs @ captured) \<and> (\<forall>pid m. (pid, m) \<in> set (map slot jobs @ captured) \<longrightarrow> ad_relayed (st pid) m \<noteq> None))"

lemma relay_begin_ok:
  "relay_begin j st = (st', Inr ()) \<longleftrightarrow> ad_relayed (st (rj_projectId j)) (rj_marker j) = None \<and>
     st' = st(rj_projectId j := (st (rj_projectId j))\<lparr>ad_relayed := (ad_relayed (st (rj_projectId j)))(rj_marker j \<mapsto> rj_id j)\<rparr>)"
  by (auto simp: relay_begin_def publish_def Let_def guardR_def split: if_splits)

lemma relay_begin_refused: "relay_begin j st = (st', Inl e) \<Longrightarrow> st' = st"
  by (auto simp: relay_begin_def publish_def Let_def guardR_def split: if_splits)

lemma relay_end_cases:
  "relay_end j preflight result st = (st', Inl e) \<Longrightarrow> st' = relay_release j st"
  "relay_end j preflight result st = (st', Inr i) \<Longrightarrow> st' = st \<and> i = rj_id j \<and> preflight = Inr (Some 0) \<and> result = Inr (Some 0)"
  by (auto simp: relay_end_def split: sum.splits if_splits)

lemma relay_release_other: "(pid, m) \<noteq> slot j \<Longrightarrow> ad_relayed (relay_release j st pid) m = ad_relayed (st pid) m"
  by (auto simp: relay_release_def Let_def slot_def)

lemma ask_markers: "ask_publish i now sid w d = (d', r) \<Longrightarrow> ad_relayed d' = ad_relayed d"
  by (auto simp: ask_publish_def ask_host_def rotateHost_def Let_def split: sum.splits requested_host.splits if_splits prod.splits)

lemma read_markers: "advisorRead now req st = (st', r) \<Longrightarrow> ad_relayed (st' pid) = ad_relayed (st pid)"
  by (auto simp: advisorRead_def Let_def split: sum.splits)

lemma respond_markers: "advisorRespond jsonBytes digest dirOf now req st = (st', r) \<Longrightarrow> ad_relayed (st' pid) = ad_relayed (st pid)"
  by (auto simp: advisorRespond_def Let_def split: sum.splits prod.splits)

lemma keep_markers: "keep_publish reserved j m st = (st', r) \<Longrightarrow> ad_relayed (st' pid) = ad_relayed (st pid)"
  by (auto simp: keep_publish_def Let_def split: if_splits)

lemma lineage_markers: "markExternalLensLineage pid' v st = Inr st' \<Longrightarrow> ad_relayed (st' pid) = ad_relayed (st pid)"
  by (auto simp: markExternalLensLineage_def bindR_eq_Inr split: if_splits)

lemma advice_keeps_markers: "advisor_step jsonBytes digest dirOf (st, now) (st', now') \<Longrightarrow> ad_relayed (st' pid) = ad_relayed (st pid)"
  by (erule advisor_stepE) (simp add: ask_markers, (erule read_markers respond_markers keep_markers lineage_markers)+)

lemma slots_remove1: "distinct (map slot jobs) \<Longrightarrow> j \<in> set jobs \<Longrightarrow> slot ` set (remove1 j jobs) = slot ` set jobs - {slot j} \<and> distinct (map slot (remove1 j jobs))"
proof -
  assume d: "distinct (map slot jobs)" and j: "j \<in> set jobs"
  then have dj: "distinct jobs" and inj: "inj_on slot (set jobs)" by (simp_all add: distinct_map)
  have "set (remove1 j jobs) = set jobs - {j}" using dj by (rule set_remove1_eq)
  moreover have "slot ` (set jobs - {j}) = slot ` set jobs - {slot j}" using inj_on_image_set_diff [OF inj, of "set jobs" "{j}"] j by simp
  moreover have "inj_on slot (set jobs - {j})" using inj by (rule inj_on_subset) blast
  ultimately show ?thesis using dj by (simp add: distinct_map)
qed

interpretation relays: transition_system "\<lambda>(st, jobs, captured). jobs = [] \<and> captured = []" relay_step relay_inv
proof
  fix s :: relay_state
  show "case s of (st, jobs, captured) \<Rightarrow> jobs = [] \<and> captured = [] \<Longrightarrow> relay_inv s" by (auto simp: relay_inv_def)
next
  fix s t :: relay_state
  assume inv: "relay_inv s" and step: "relay_step s t"
  obtain st jobs captured st' jobs' captured' where eq: "s = (st, jobs, captured)" "t = (st', jobs', captured')" by (metis surj_pair)
  have d: "distinct (map slot jobs)" "distinct captured" "slot ` set jobs \<inter> set captured = {}"
    and m: "\<And>pid k. (pid, k) \<in> slot ` set jobs \<union> set captured \<Longrightarrow> ad_relayed (st pid) k \<noteq> None"
    using inv unfolding eq relay_inv_def by auto
  from step show "relay_inv t" unfolding eq
  proof (elim relay_stepE)
    fix cfg realpath reviewStatus projectDir payload st0 j
    assume "relay_begin j st = (st', Inr ())" "jobs' = j # jobs" "captured' = captured"
    moreover from this have "slot j \<notin> slot ` set jobs \<union> set captured"
      using m [of "rj_projectId j" "rj_marker j"] by (auto simp: relay_begin_ok slot_def)
    ultimately show "relay_inv (st', jobs', captured')"
      using d m by (auto simp: relay_inv_def relay_begin_ok slot_def)
  next
    fix j preflight result e
    assume j: "j \<in> set jobs" "relay_end j preflight result st = (st', Inl e)" and t: "jobs' = remove1 j jobs" "captured' = captured"
    from slots_remove1 [OF d(1) j(1)] have r: "slot ` set (remove1 j jobs) = slot ` set jobs - {slot j}" "distinct (map slot (remove1 j jobs))" by auto
    have "slot j \<notin> set captured" using d(3) j(1) by auto
    then have ne: "(pid, k) \<noteq> slot j \<and> (pid, k) \<in> slot ` set jobs \<union> set captured" if "(pid, k) \<in> slot ` set (remove1 j jobs) \<union> set captured" for pid k
      using that unfolding r(1) by (metis Diff_iff Un_iff insertI1)
    then have "ad_relayed (st' pid) k \<noteq> None" if "(pid, k) \<in> slot ` set (remove1 j jobs) \<union> set captured" for pid k
      using ne [OF that] m relay_release_other [of pid k j st] relay_end_cases(1) [OF j(2)] by simp
    then show "relay_inv (st', jobs', captured')"
      using r d unfolding t relay_inv_def by auto
  next
    fix j preflight result i
    assume j: "j \<in> set jobs" "relay_end j preflight result st = (st', Inr i)" and t: "jobs' = remove1 j jobs" "captured' = slot j # captured"
    from slots_remove1 [OF d(1) j(1)] have r: "slot ` set (remove1 j jobs) = slot ` set jobs - {slot j}" "distinct (map slot (remove1 j jobs))" by auto
    have "slot j \<notin> set captured" using d(3) j(1) by auto
    then show "relay_inv (st', jobs', captured')"
      using r d m relay_end_cases(2) [OF j(2)] j(1) unfolding t relay_inv_def by auto
  next
    fix jsonBytes digest dirOf now now'
    assume "advisor_step jsonBytes digest dirOf (st, now) (st', now')" "jobs' = jobs" "captured' = captured"
    then show "relay_inv (st', jobs', captured')" using d m advice_keeps_markers unfolding relay_inv_def by fastforce
  next
    fix j e
    assume "relay_begin j st = (st', Inl e)" "jobs' = jobs" "captured' = captured"
    then show "relay_inv (st', jobs', captured')" using inv relay_begin_refused [of j st st' e] by (simp add: eq)
  qed
qed

lemma relay_check_ok:
  assumes "relay_check cfg realpath reviewStatus projectDir payload st = Inr j"
  obtains pid i v result status fresh where "supplied_key payload = None"
    "readRelayableLensResponse st pid (js_get payload ''inputFromAdvisorResponse'') = Inr (i, v, result)"
    "isExternalLensLineage pid (JStr (rv_lineage v)) st = Inr True" "reviewStatus (js_str projectDir) (rv_lineage v) = Inr status"
    "collect_input status (rv_lens v) = Some fresh" "fresh ''target'' = Some (rv_target v)" "order_of fresh = Some (rv_order v)"
    "fresh ''subject-hash'' = Some (rv_subjectHash v)"
    "rj_projectId j = pid" "rj_id j = i" "rj_marker j = (rv_lineage v, rv_lens v)" "cp_input (rj_capture j) = result"
    "cp_target (rj_capture j) = rv_target v" "cp_order (rj_capture j) = rv_order v" "cp_subjectHash (rj_capture j) = rv_subjectHash v"
    "cp_lens (rj_capture j) = rv_lens v"
proof -
  have k: "supplied_key payload = None" using assms by (cases "supplied_key payload") (simp_all add: relay_check_def)
  from assms show thesis
    unfolding relay_check_def k option.case bindR_eq_Inr guardR_eq_Inr split_beta
    apply (elim exE conjE)
    subgoal for pid found external _ status
      by (cases "collect_input status (rv_lens (fst (snd found)))")
        (auto simp: bindR_eq_Inr k intro!: that [of pid "fst found" "fst (snd found)" "snd (snd found)"])
    done
qed

lemma relayable_ok:
  assumes "readRelayableLensResponse st pid v = Inr (i, review, result)"
  obtains r x where "ad_requests (st pid) i = Some r" "rq_kind r = ReviewLens" "rq_review r = Some review" "ad_responses (st pid) i = Some x"
    "rs_status x = SubmittedAdvice" "rs_reviewerResult x = result"
proof -
  obtain i' r where r: "loadRequest (st pid) i' = Inr r" and c: "(case (rq_kind r, rq_review r) of
       (ReviewLens, Some review) \<Rightarrow>
         (case ad_responses (st pid) i' of
            Some x \<Rightarrow> bindR (guardR (rs_status x = SubmittedAdvice \<and> rs_reviewerResult x \<noteq> JUndefined)
              (PolicyError ''the advisory request has no submitted reviewer result to relay'')) (\<lambda>_. Inr (i', review, rs_reviewerResult x))
          | None \<Rightarrow> Inl (PolicyError ''the advisory request has no submitted reviewer result to relay''))
     | _ \<Rightarrow> Inl (PolicyError ''only a review-lens advisory response can be relayed into a review capture'')) = Inr (i, review, result)"
    using assms unfolding readRelayableLensResponse_def bindR_eq_Inr by blast
  from c obtain x where "rq_kind r = ReviewLens" "rq_review r = Some review" "ad_responses (st pid) i' = Some x" "i' = i"
    "rs_status x = SubmittedAdvice" "rs_reviewerResult x = result"
    by (cases "rq_kind r"; cases "rq_review r"; cases "ad_responses (st pid) i'") (auto simp: bindR_eq_Inr)
  with r that show thesis by (auto simp: loadRequest_def split: option.split_asm)
qed

text \<open>
  C29. At most one result is captured for a lens of a lineage, however relays and the other
  operations interleave: a slot that was captured keeps its marker, and no relay of the
  same slot is in progress beside it or beside another.
\<close>

theorem lens_captured_at_most_once:
  assumes "relay_step\<^sup>*\<^sup>* (st, [], []) (st', jobs, captured)"
  shows "distinct captured \<and> distinct (map slot jobs) \<and> set (map slot jobs) \<inter> set captured = {} \<and>
    list_all (\<lambda>(pid, m). ad_relayed (st' pid) m \<noteq> None) captured"
  using relays.invar_reachable [OF _ assms] by (auto simp: relay_inv_def list_all_iff)

text \<open>
  C30. What is relayed is a stored response: the input of a capture is the reviewer result
  that the claiming advisor submitted in time, checked against the subject and the lens
  that the request was made for, on a lineage that takes external reviews, while the
  runtime still collects for the same target, order and subject.  The caller supplies
  none of it.
\<close>

theorem relay_passes_stored_result:
  assumes ok: "dir_ok digest dirOf (rj_projectId j) (st (rj_projectId j))"
    and check: "relay_check cfg realpath reviewStatus projectDir payload st = Inr j"
  shows "\<exists>r v c x status fresh. ad_requests (st (rj_projectId j)) (rj_id j) = Some r \<and> rq_kind r = ReviewLens \<and> rq_review r = Some v \<and>
    ad_claims (st (rj_projectId j)) (rj_id j) = Some c \<and> ad_responses (st (rj_projectId j)) (rj_id j) = Some x \<and>
    rs_session x = cl_session c \<and> rs_status x = SubmittedAdvice \<and> rs_respondedAt x \<le> rq_expiresAt r \<and>
    cp_input (rj_capture j) = rs_reviewerResult x \<and> rj_marker j = (rv_lineage v, rv_lens v) \<and>
    validateReviewerResult (cp_input (rj_capture j)) (cp_subjectHash (rj_capture j)) (cp_lens (rj_capture j)) = Inr () \<and>
    rv_lineage v \<in> set (ad_lineages (st (rj_projectId j))) \<and>
    reviewStatus (js_str projectDir) (rv_lineage v) = Inr status \<and> collect_input status (rv_lens v) = Some fresh \<and>
    fresh ''target'' = Some (cp_target (rj_capture j)) \<and> order_of fresh = Some (cp_order (rj_capture j)) \<and>
    fresh ''subject-hash'' = Some (cp_subjectHash (rj_capture j)) \<and> supplied_key payload = None"
proof -
  obtain pid i v result status fresh where k: "supplied_key payload = None"
    "readRelayableLensResponse st pid (js_get payload ''inputFromAdvisorResponse'') = Inr (i, v, result)"
    "isExternalLensLineage pid (JStr (rv_lineage v)) st = Inr True" "reviewStatus (js_str projectDir) (rv_lineage v) = Inr status"
    "collect_input status (rv_lens v) = Some fresh" "fresh ''target'' = Some (rv_target v)" "order_of fresh = Some (rv_order v)"
    "fresh ''subject-hash'' = Some (rv_subjectHash v)"
    and j: "rj_projectId j = pid" "rj_id j = i" "rj_marker j = (rv_lineage v, rv_lens v)" "cp_input (rj_capture j) = result"
      "cp_target (rj_capture j) = rv_target v" "cp_order (rj_capture j) = rv_order v" "cp_subjectHash (rj_capture j) = rv_subjectHash v"
      "cp_lens (rj_capture j) = rv_lens v"
    using check by (rule relay_check_ok)
  obtain r x where r: "ad_requests (st pid) i = Some r" "rq_kind r = ReviewLens" "rq_review r = Some v" "ad_responses (st pid) i = Some x"
    "rs_status x = SubmittedAdvice" "rs_reviewerResult x = result" using k(2) by (rule relayable_ok)
  have l: "rv_lineage v \<in> set (ad_lineages (st pid))" using k(3) by (auto simp: isExternalLensLineage_def assertLineage_def bindR_eq_Inr)
  have "response_ok digest dirOf pid (st pid) i x" using ok r(4) by (simp add: j dir_ok_def)
  then obtain c where c: "ad_claims (st pid) i = Some c" "cl_session c = rs_session x" "rs_respondedAt x \<le> rq_expiresAt r"
    "validateReviewerResult (rs_reviewerResult x) (rv_subjectHash v) (rv_lens v) = Inr ()"
    using r by (auto simp: response_ok_def)
  show ?thesis
    by (rule exI [of _ r], rule exI [of _ v], rule exI [of _ c], rule exI [of _ x], rule exI [of _ status], rule exI [of _ fresh])
      (simp add: k r j l c c(4) [unfolded r(6)])
qed

section \<open>A lens that is relayed\<close>

definition demo_lens_review :: stored_review where
  "demo_lens_review = \<lparr>rv_lineage = ''review-a1'', rv_lens = ''review-risk'', rv_target = ''t'', rv_order = 1, rv_subjectHash = ''h'', rv_lensContext = ''c''\<rparr>"

definition demo_lens_result :: js where
  "demo_lens_result = JObj [(''subject_hash'', JStr ''h''), (''inspection'', JObj [(''status'', JStr ''completed''), (''paths'', JArr [JStr ''a.ts''])]),
     (''findings'', JArr []), (''evidence'', JArr [JStr ''read a.ts''])]"

definition demo_lens_store :: advice_store where
  "demo_lens_store = (\<lambda>_. empty_dir)(''demo'' := empty_dir\<lparr>
     ad_requests := [demo_advice_id \<mapsto> demo_advice_request\<lparr>rq_kind := ReviewLens, rq_review := Some demo_lens_review\<rparr>],
     ad_claims := [demo_advice_id \<mapsto> \<lparr>cl_session = demo_advisor, cl_claimedAt = 5\<rparr>],
     ad_responses := [demo_advice_id \<mapsto> \<lparr>rs_status = SubmittedAdvice, rs_verdict = None, rs_findings = [], rs_reviewerResult = demo_lens_result,
       rs_evidence = None, rs_session = demo_advisor, rs_respondedAt = 9\<rparr>],
     ad_lineages := [''review-a1'']\<rparr>)"

definition demo_collecting :: "string \<Rightarrow> string \<Rightarrow> status_reply result" where
  "demo_collecting dir lineage = Inr \<lparr>sp_status = Some 0, sp_object = True, sp_collect = True,
     sp_inputs = [[(''lens'', ''review-risk''), (''target'', ''t''), (''order'', ''1''), (''subject-hash'', ''h'')]]\<rparr>"

definition demo_relay :: "(string \<times> js) list" where
  "demo_relay = [(''inputFromAdvisorResponse'', JStr demo_advice_id)]"

lemma demo_lens_store_ok: "dir_ok (\<lambda>_. []) (\<lambda>_ _. []) pid (demo_lens_store pid)"
proof -
  have v: "validateReviewerResult demo_lens_result ''h'' ''review-risk'' = Inr ()" by code_simp
  show ?thesis
    by (simp add: demo_lens_store_def dir_ok_def empty_dir_def demo_advice_request_def response_ok_def demo_lens_review_def v ADVISOR_REQUEST_TTL_MS_def)
qed

lemma demo_relay_parts:
  "supplied_key demo_relay = None" "js_get demo_relay ''inputFromAdvisorResponse'' = JStr demo_advice_id"
  "matching (JStr demo_advice_id) ADVICE_ID_RE ''inputFromAdvisorResponse'' = Inr demo_advice_id"
  "lineagesDir ''demo'' = Inr ()" "assertLineage (JStr ''review-a1'') = Inr ''review-a1''" "js_Number ''1'' = Some 1"
  "demo_lens_result \<noteq> JUndefined"
  by code_simp+

lemma demo_relay_checked:
  "\<exists>j. relay_check (demo_config 1) Some demo_collecting (JStr ''/p'') demo_relay demo_lens_store = Inr j \<and>
     rj_projectId j = ''demo'' \<and> rj_marker j = (''review-a1'', ''review-risk'')"
proof -
  have p: "resolveProjectID Some (JStr ''/p'') (bc_projects (demo_config 1)) = Inr ''demo''"
    by (simp add: demo_config_def assertMaxBytes_def isAbsolute_def startsWith_def isWithin_def)
  have r: "readRelayableLensResponse demo_lens_store ''demo'' (js_get demo_relay ''inputFromAdvisorResponse'') = Inr (demo_advice_id, demo_lens_review, demo_lens_result)"
    unfolding readRelayableLensResponse_def demo_relay_parts bindR_simps
    by (simp add: loadRequest_def demo_lens_store_def empty_dir_def demo_relay_parts)
  have e: "isExternalLensLineage ''demo'' (JStr (rv_lineage demo_lens_review)) demo_lens_store = Inr True"
    by (simp add: isExternalLensLineage_def demo_relay_parts demo_lens_review_def demo_lens_store_def)
  show ?thesis
    unfolding relay_check_def demo_relay_parts(1) option.case p r bindR_simps split_conv e
    by (simp add: demo_collecting_def collect_input_def demo_lens_review_def order_of_def demo_relay_parts)
qed

text \<open>A stored result is checked and may be relayed.\<close>

theorem relay_passes_stored_result_witness:
  "\<exists>j x. relay_check (demo_config 1) Some demo_collecting (JStr ''/p'') demo_relay demo_lens_store = Inr j \<and>
     ad_responses (demo_lens_store (rj_projectId j)) (rj_id j) = Some x \<and> cp_input (rj_capture j) = rs_reviewerResult x"
proof -
  obtain j where j: "relay_check (demo_config 1) Some demo_collecting (JStr ''/p'') demo_relay demo_lens_store = Inr j"
    using demo_relay_checked by blast
  from relay_passes_stored_result [OF demo_lens_store_ok j] j show ?thesis by blast
qed

text \<open>A relay takes the marker and is captured; the slot keeps its marker.\<close>

theorem lens_captured_at_most_once_witness:
  "\<exists>st'. relay_step\<^sup>*\<^sup>* (demo_lens_store, [], []) (st', [], [(''demo'', ''review-a1'', ''review-risk'')]) \<and>
     ad_relayed (st' ''demo'') (''review-a1'', ''review-risk'') \<noteq> None"
proof -
  obtain j where j: "relay_check (demo_config 1) Some demo_collecting (JStr ''/p'') demo_relay demo_lens_store = Inr j"
    "rj_projectId j = ''demo''" "rj_marker j = (''review-a1'', ''review-risk'')" using demo_relay_checked by blast
  obtain st' where b: "relay_begin j demo_lens_store = (st', Inr ())"
    using j by (simp add: relay_begin_ok demo_lens_store_def empty_dir_def)
  have e: "relay_end j (Inr (Some 0)) (Inr (Some 0)) st' = (st', Inr (rj_id j))" by (simp add: relay_end_def)
  have "relay_step (demo_lens_store, [], []) (st', [j], [])" using j(1) b by (rule relay_step.started)
  moreover have "relay_step (st', [j], []) (st', [], [slot j])" using relay_step.relayed [OF _ e, of "[j]" "[]"] by simp
  ultimately have run: "relay_step\<^sup>*\<^sup>* (demo_lens_store, [], []) (st', [], [slot j])" by (meson converse_rtranclp_into_rtranclp rtranclp.rtrancl_refl)
  have s: "slot j = (''demo'', ''review-a1'', ''review-risk'')" by (simp add: slot_def j)
  from lens_captured_at_most_once [OF run] run show ?thesis unfolding s by auto
qed

end
