(* ===== verification/ReviewRun.thy ===== *)
theory ReviewRun
  imports Artifacts "HOL-Library.AList"
begin

text \<open>
  The private store of review runs (\<^verbatim>\<open>broker/src/review-run.ts\<close>): run identifiers and
  artifact names, atomic publication, the writer of a run, the store with its byte caps and
  quota, retention and recovery, the pinned helper, and the race-resistant read.

  A refusal carries its code; its message, which repeats values, is left out.  The content
  of a run record file is the record its JSON text holds, and the length of that text is an
  argument, as are digests, random suffixes and the clock.
\<close>

section \<open>Identifiers\<close>

definition run_error :: "string \<Rightarrow> broker_error" where
  "run_error code = NativeError code"

definition REVIEW_RUN_ID_RE :: "string \<Rightarrow> bool" where
  "REVIEW_RUN_ID_RE = matches is_hex 32 32"

definition REVIEW_RUN_OBJECT_ID_RE :: "string \<Rightarrow> bool" where
  "REVIEW_RUN_OBJECT_ID_RE s = (matches is_hex 40 40 s \<or> matches is_hex 64 64 s)"

definition REVIEW_RUN_ARTIFACT_NAME_RE :: "string \<Rightarrow> bool" where
  "REVIEW_RUN_ARTIFACT_NAME_RE s = (case s of
     [] \<Rightarrow> False
   | c # r \<Rightarrow> is_alnum c \<and> matches (\<lambda>c. is_alnum c \<or> one_of ''._-'' c) 0 127 r)"

definition REVIEW_RUN_METADATA_NAME :: string where
  "REVIEW_RUN_METADATA_NAME = ''metadata.json''"

definition REVIEW_RUN_RESERVED_NAMES :: "string list" where
  "REVIEW_RUN_RESERVED_NAMES = [REVIEW_RUN_METADATA_NAME]"

definition isReservedReviewRunName :: "string \<Rightarrow> bool" where
  "isReservedReviewRunName name = list_ex (\<lambda>reserved. toLowerCase reserved = toLowerCase name) REVIEW_RUN_RESERVED_NAMES"

definition assertReviewRunId :: "js \<Rightarrow> unit result" where
  "assertReviewRunId v = guardR (is_str REVIEW_RUN_ID_RE v) (run_error ''review_run_id'')"

definition assertReviewRunArtifactNameGrammar :: "js \<Rightarrow> unit result" where
  "assertReviewRunArtifactNameGrammar v = guardR (is_str REVIEW_RUN_ARTIFACT_NAME_RE v) (run_error ''review_run_artifact_name'')"

definition assertReviewRunArtifactName :: "js \<Rightarrow> unit result" where
  "assertReviewRunArtifactName v =
     bindR (assertReviewRunArtifactNameGrammar v) (\<lambda>_.
     guardR (\<not> isReservedReviewRunName (js_str v)) (run_error ''review_run_artifact_name_reserved''))"

definition normalizeObjectId :: "js \<Rightarrow> string option result" where
  "normalizeObjectId v = (case v of
     JUndefined \<Rightarrow> Inr None
   | _ \<Rightarrow> bindR (guardR (is_str REVIEW_RUN_OBJECT_ID_RE v) (run_error ''review_run_evidence'')) (\<lambda>_. Inr (Some (js_str v))))"

section \<open>Records and directories\<close>

record run_caps =
  rc_maxBytes :: nat
  rc_maxFileBytes :: nat
  rc_maxPerSession :: nat

definition DEFAULT_REVIEW_RUN_CAPS :: run_caps where
  "DEFAULT_REVIEW_RUN_CAPS = \<lparr>rc_maxBytes = 8 * 1024 * 1024, rc_maxFileBytes = 4 * 1024 * 1024, rc_maxPerSession = 8\<rparr>"

datatype run_state = Publishing | PublishedRun | FailedRun

record run_artifact =
  ra_name :: string
  ra_bytes :: nat
  ra_sha256 :: string

datatype finalize_outcome = AcceptedFinalize | StructurallyRejected | ValidationUnavailable

record finalize_provenance =
  fp_phase :: string
  fp_outcome :: finalize_outcome
  fp_inputSource :: "string option"
  fp_artifact :: "run_artifact option"

record review_record =
  rr_runId :: string
  rr_sessionID :: string
  rr_createdAt :: string
  rr_state :: run_state
  rr_baseObjectId :: "string option"
  rr_headObjectId :: "string option"
  rr_artifacts :: "run_artifact list"
  rr_projectRoot :: string
  rr_finalizeProvenance :: "finalize_provenance option"
  rr_changedPaths :: "string list option"
  rr_totalBytes :: "nat option"
  rr_failureReason :: "string option"

datatype run_file = DataFile string | RecordFile review_record

record run_dir =
  rd_files :: "string \<rightharpoonup> run_file"
  rd_mtime :: int

text \<open>The store root in listing order: entries that are not directories are ignored by the store.\<close>

datatype run_entry = RunDirectory run_dir | OtherEntry

datatype session_entry = SessionDirectory "(string \<times> run_entry) list" | OtherSession

type_synonym review_root = "(string \<times> session_entry) list"

definition session_runs :: "review_root \<Rightarrow> string \<Rightarrow> (string \<times> run_entry) list" where
  "session_runs rt sid = (case map_of rt sid of Some (SessionDirectory es) \<Rightarrow> es | _ \<Rightarrow> [])"

definition find_run :: "review_root \<Rightarrow> string \<Rightarrow> string \<Rightarrow> run_dir option" where
  "find_run rt sid rid = (case map_of (session_runs rt sid) rid of Some (RunDirectory d) \<Rightarrow> Some d | _ \<Rightarrow> None)"

definition put_run :: "review_root \<Rightarrow> string \<Rightarrow> string \<Rightarrow> run_dir \<Rightarrow> review_root" where
  "put_run rt sid rid d = AList.update sid (SessionDirectory (AList.update rid (RunDirectory d) (session_runs rt sid))) rt"

definition remove_run :: "review_root \<Rightarrow> string \<Rightarrow> string \<Rightarrow> review_root" where
  "remove_run rt sid rid = (case map_of rt sid of
     Some (SessionDirectory es) \<Rightarrow> AList.update sid (SessionDirectory (filter (\<lambda>(r, _). r \<noteq> rid) es)) rt
   | _ \<Rightarrow> rt)"

section \<open>Atomic publication\<close>

text \<open>
  What may fail while a file is published: opening the temporary file, writing it (with
  what reached the disk by then), the rename (and whether the clean-up removes the
  temporary file), the synchronisation of the directory.
\<close>

datatype publish_fault = NoFault | OpenFault | WriteFault string | RenameFault bool | SyncFault

definition io_error :: broker_error where
  "io_error = NativeError ''EIO''"

definition temp_name :: "string \<Rightarrow> string \<Rightarrow> string" where
  "temp_name name rnd = ''.'' @ name @ ''.'' @ rnd @ ''.tmp''"

record publish_env =
  pe_recordBytes :: "review_record \<Rightarrow> nat"   \<comment> \<open>length of the JSON text of a record\<close>
  pe_sha :: "run_file \<Rightarrow> string"
  pe_fault :: "nat \<Rightarrow> publish_fault"   \<comment> \<open>of the \<open>n\<close>th publication of an operation\<close>
  pe_random :: "nat \<Rightarrow> string"
  pe_now :: int

fun file_bytes :: "(review_record \<Rightarrow> nat) \<Rightarrow> run_file \<Rightarrow> nat" where
  "file_bytes recordBytes (DataFile b) = length b"
| "file_bytes recordBytes (RecordFile r) = recordBytes r"

definition publishValidatedArtifactAtomic :: "publish_env \<Rightarrow> nat \<Rightarrow> string \<Rightarrow> run_file \<Rightarrow> run_dir \<Rightarrow> run_dir \<times> run_artifact result" where
  "publishValidatedArtifactAtomic env n name x d =
     (let temp = temp_name name (pe_random env n); touched = d\<lparr>rd_mtime := pe_now env\<rparr> in
      if rd_files d temp \<noteq> None then (d, Inl io_error)
      else (case pe_fault env n of
          OpenFault \<Rightarrow> (d, Inl io_error)
        | WriteFault written \<Rightarrow> (touched\<lparr>rd_files := (rd_files d)(temp \<mapsto> DataFile written)\<rparr>, Inl io_error)
        | RenameFault cleaned \<Rightarrow> (touched\<lparr>rd_files := (if cleaned then rd_files d else (rd_files d)(temp \<mapsto> x))\<rparr>, Inl io_error)
        | SyncFault \<Rightarrow> (touched\<lparr>rd_files := (rd_files d)(name \<mapsto> x)\<rparr>, Inl io_error)
        | NoFault \<Rightarrow> (touched\<lparr>rd_files := (rd_files d)(name \<mapsto> x)\<rparr>, 
            Inr \<lparr>ra_name = name, ra_bytes = file_bytes (pe_recordBytes env) x, ra_sha256 = pe_sha env x\<rparr>)))"

definition publishArtifactAtomic :: "publish_env \<Rightarrow> nat \<Rightarrow> js \<Rightarrow> run_file \<Rightarrow> run_dir \<Rightarrow> run_dir \<times> run_artifact result" where
  "publishArtifactAtomic env n name x d = (case assertReviewRunArtifactName name of
     Inl e \<Rightarrow> (d, Inl e)
   | Inr _ \<Rightarrow> publishValidatedArtifactAtomic env n (js_str name) x d)"

section \<open>The writer of a run\<close>

record run_writer =
  wr_record :: review_record
  wr_caps :: run_caps
  wr_totalBytes :: nat

definition artifact_bytes :: "run_artifact list \<Rightarrow> nat" where
  "artifact_bytes xs = sum_list (map ra_bytes xs)"

text \<open>\<open>persist\<close>: the state of the record changes in memory even when the publication fails.\<close>

definition writer_persist :: "publish_env \<Rightarrow> nat \<Rightarrow> run_state \<Rightarrow> run_writer \<Rightarrow> run_dir \<Rightarrow> (run_writer \<times> run_dir) \<times> unit result" where
  "writer_persist env n s w d =
     (let w' = w\<lparr>wr_record := (wr_record w)\<lparr>rr_state := s\<rparr>\<rparr>;
          (d', r) = publishValidatedArtifactAtomic env n REVIEW_RUN_METADATA_NAME (RecordFile (wr_record w')) d in
      ((w', d'), bindR r (\<lambda>_. Inr ())))"

definition new_writer :: "publish_env \<Rightarrow> nat \<Rightarrow> review_record \<Rightarrow> run_caps \<Rightarrow> run_dir \<Rightarrow> (run_writer \<times> run_dir) \<times> unit result" where
  "new_writer env n r caps d =
     writer_persist env n Publishing \<lparr>wr_record = r, wr_caps = caps, wr_totalBytes = artifact_bytes (rr_artifacts r)\<rparr> d"

definition cap_check :: "run_caps \<Rightarrow> nat \<Rightarrow> nat \<Rightarrow> unit result" where
  "cap_check caps soFar bytes =
     bindR (guardR (bytes \<le> rc_maxFileBytes caps) (run_error ''review_run_file_cap'')) (\<lambda>_.
     guardR (soFar + bytes \<le> rc_maxBytes caps) (run_error ''review_run_byte_cap''))"

definition writer_addArtifact ::
  "publish_env \<Rightarrow> nat \<Rightarrow> js \<Rightarrow> string \<Rightarrow> run_writer \<Rightarrow> run_dir \<Rightarrow> (run_writer \<times> run_dir) \<times> run_artifact result"
where
  "writer_addArtifact env n name content w d = (case
       bindR (assertReviewRunArtifactName name) (\<lambda>_.
       bindR (guardR (rr_state (wr_record w) = Publishing) (run_error ''review_run_state'')) (\<lambda>_.
       cap_check (wr_caps w) (wr_totalBytes w) (length content))) of
     Inl e \<Rightarrow> ((w, d), Inl e)
   | Inr _ \<Rightarrow> (case publishArtifactAtomic env n name (DataFile content) d of
         (d', Inl e) \<Rightarrow> ((w, d'), Inl e)
       | (d', Inr a) \<Rightarrow>
           (let w' = w\<lparr>wr_record := (wr_record w)\<lparr>rr_artifacts := rr_artifacts (wr_record w) @ [a]\<rparr>,
                  wr_totalBytes := wr_totalBytes w + length content\<rparr>;
                (wd, r) = writer_persist env (n + 1) Publishing w' d' in
            (wd, bindR r (\<lambda>_. Inr a)))))"

definition writer_publish :: "publish_env \<Rightarrow> nat \<Rightarrow> run_writer \<Rightarrow> run_dir \<Rightarrow> (run_writer \<times> run_dir) \<times> unit result" where
  "writer_publish env n w d = writer_persist env n PublishedRun w d"

definition writer_fail :: "publish_env \<Rightarrow> nat \<Rightarrow> run_writer \<Rightarrow> run_dir \<Rightarrow> (run_writer \<times> run_dir) \<times> unit result" where
  "writer_fail env n w d = writer_persist env n FailedRun w d"

section \<open>Where the store may be\<close>

text \<open>
  \<open>canonicalForContainment\<close>: the real path of the nearest ancestor that exists, with the
  rest appended; \<open>cwd\<close> is what \<open>resolve\<close> starts from.
\<close>

lemma dropWhile_rev_length: "length (rev (dropWhile P (rev s))) \<le> length s"
  by (metis length_dropWhile_le length_rev)

lemma dirname_shorter: "p \<noteq> ''.'' \<Longrightarrow> dirname p \<noteq> p \<Longrightarrow> dirname p = ''.'' \<or> length (dirname p) < length p"
proof -
  assume "p \<noteq> ''.''" and ne: "dirname p \<noteq> p"
  let ?q = "strip_trailing p"
  let ?d = "rev (dropWhile (\<lambda>c. c \<noteq> CHR ''/'') (rev ?q))"
  have q: "length ?q \<le> length p" unfolding strip_trailing_def by (rule dropWhile_rev_length)
  have d: "length ?d \<le> length ?q" by (rule dropWhile_rev_length)
  have sd: "length (strip_trailing ?d) \<le> length ?d" unfolding strip_trailing_def by (rule dropWhile_rev_length)
  show ?thesis
  proof (cases "?q = [] \<or> CHR ''/'' \<notin> set ?q")
    case True
    have "length p > 1" if "?q = []" "p \<noteq> []"
    proof -
      have "set p \<subseteq> {CHR ''/''}" using that(1) by (auto simp: strip_trailing_def)
      then have "p = ''/''" if "length p \<le> 1" using that \<open>p \<noteq> []\<close> by (cases p) auto
      moreover have "p \<noteq> ''/''" using ne by (auto simp: dirname_def strip_trailing_def)
      ultimately show ?thesis by linarith
    qed
    with True show ?thesis by (auto simp: dirname_def Let_def)
  next
    case False
    then have sl: "CHR ''/'' \<in> set ?q" and qne: "?q \<noteq> []" by auto
    have last_q: "last ?q \<noteq> CHR ''/''"
      using qne hd_dropWhile [of "\<lambda>c. c = CHR ''/''" "rev p"] by (simp add: strip_trailing_def last_rev)
    have "?d \<noteq> []" using sl by (auto simp: dropWhile_eq_Nil_conv)
    then have "last ?d = CHR ''/''" using hd_dropWhile [of "\<lambda>c. c \<noteq> CHR ''/''" "rev ?q"] by (auto simp: last_rev)
    then have "?d \<noteq> ?q" using last_q by metis
    moreover have "\<exists>t. ?q = ?d @ t" by (metis rev_append rev_rev_ident takeWhile_dropWhile_id)
    ultimately have lt: "length ?d < length ?q" by (metis append_Nil2 length_append less_add_same_cancel1 length_greater_0_conv)
    show ?thesis
    proof (cases "strip_trailing ?d = []")
      case True
      have "length ?q \<ge> 2" using lt \<open>?d \<noteq> []\<close> by (cases ?d) auto
      with True False q show ?thesis by (simp add: dirname_def Let_def)
    next
      case False
      with sl qne lt q sd show ?thesis by (simp add: dirname_def Let_def)
    qed
  qed
qed

function canonical_loop :: "(string \<Rightarrow> string option) \<Rightarrow> string \<Rightarrow> string \<Rightarrow> string list \<Rightarrow> string" where
  "canonical_loop realpath resolved current tail = (case realpath current of
     Some r \<Rightarrow> if tail = [] then r else normalize_path (joinWith ''/'' (r # tail))
   | None \<Rightarrow> if dirname current = current then resolved else canonical_loop realpath resolved (dirname current) (basename current # tail))"
  by pat_completeness auto
termination
proof (relation "measure (\<lambda>(_, _, p, _). if p = ''.'' then 0 else length p + 1)")
  fix realpath :: "string \<Rightarrow> string option" and resolved p :: string and tl
  assume "dirname p \<noteq> p"
  moreover have "dirname ''.'' = ''.''" by code_simp
  ultimately have "p \<noteq> ''.''" by metis
  with \<open>dirname p \<noteq> p\<close> dirname_shorter [of p]
  show "((realpath, resolved, dirname p, basename p # tl), (realpath, resolved, p, tl)) \<in> measure (\<lambda>(_, _, p, _). if p = ''.'' then 0 else length p + 1)"
    by auto
qed simp

definition canonicalForContainment :: "(string \<Rightarrow> string option) \<Rightarrow> string \<Rightarrow> string \<Rightarrow> string" where
  "canonicalForContainment realpath cwd p = (let r = resolve_path cwd p in canonical_loop realpath r r [])"

definition contains_path :: "string \<Rightarrow> string \<Rightarrow> bool" where
  "contains_path parent child = (child = parent \<or> startsWith child (if endsWith parent ''/'' then parent else parent @ ''/''))"

record run_store_options =
  ro_root :: string
  ro_projectRoot :: string
  ro_deniedPrefixes :: "string list"
  ro_caps :: run_caps   \<comment> \<open>the defaults overridden by what is configured\<close>
  ro_readOnly :: bool

record host_paths =
  hp_realpath :: "string \<Rightarrow> string option"
  hp_cwd :: string
  hp_tmpdir :: string

definition canon :: "host_paths \<Rightarrow> string \<Rightarrow> string" where
  "canon hp = canonicalForContainment (hp_realpath hp) (hp_cwd hp)"

definition resolveReviewRunRoot :: "host_paths \<Rightarrow> run_store_options \<Rightarrow> string result" where
  "resolveReviewRunRoot hp opts =
     bindR (guardR (ro_root opts \<noteq> [] \<and> isAbsolute (ro_root opts)) (run_error ''review_run_root'')) (\<lambda>_.
     let rt = canon hp (ro_root opts) in
     bindR (guardR (\<not> contains_path (canon hp (ro_projectRoot opts)) rt) (run_error ''review_run_store_in_project'')) (\<lambda>_.
     bindR (guardR (\<not> contains_path (canon hp (hp_tmpdir hp)) rt) (run_error ''review_run_store_in_tmp'')) (\<lambda>_.
     bindR (guardR (\<not> list_ex (\<lambda>p. contains_path (canon hp p) rt) (ro_deniedPrefixes opts)) (run_error ''review_run_store_denied_prefix'')) (\<lambda>_.
     Inr rt))))"

section \<open>The store\<close>

record run_store =
  ss_root :: string
  ss_projectRoot :: string
  ss_caps :: run_caps
  ss_readOnly :: bool

definition newReviewRunStore :: "host_paths \<Rightarrow> run_store_options \<Rightarrow> run_store result" where
  "newReviewRunStore hp opts =
     bindR (resolveReviewRunRoot hp opts) (\<lambda>rt.
     Inr \<lparr>ss_root = rt, ss_projectRoot = canon hp (ro_projectRoot opts), ss_caps = ro_caps opts, ss_readOnly = ro_readOnly opts\<rparr>)"

definition store_sessionDir :: "run_store \<Rightarrow> string \<Rightarrow> string result" where
  "store_sessionDir st sid =
     bindR (guardR (SESSION_ID_RE sid) (run_error ''review_run_session'')) (\<lambda>_. Inr (join_path (ss_root st) sid))"

definition store_runDir :: "run_store \<Rightarrow> string \<Rightarrow> js \<Rightarrow> string result" where
  "store_runDir st sid rid =
     bindR (store_sessionDir st sid) (\<lambda>s.
     bindR (assertReviewRunId rid) (\<lambda>_.
     Inr (join_path s (js_str rid))))"

definition assertWritable :: "run_store \<Rightarrow> unit result" where
  "assertWritable st = guardR (\<not> ss_readOnly st) (run_error ''review_run_store_read_only'')"

subsection \<open>Reading an artifact\<close>

text \<open>What opening a file without following links gives: an error code, or what \<open>fstat\<close> reports and the
  bytes.  The opened path is the name joined to the run directory.\<close>

datatype open_answer = OpenError string | OpenedFile bool nat run_file

definition open_code :: "string \<Rightarrow> broker_error" where
  "open_code code =
     (if code = ''EINVAL'' then run_error ''review_run_artifact_no_follow_unavailable''
      else if code = ''ELOOP'' then run_error ''review_run_artifact_symlink''
      else if code = ''ENOENT'' then run_error ''review_run_artifact_not_found''
      else run_error ''review_run_artifact_read'')"

record read_artifact =
  rx_name :: string
  rx_bytes :: nat
  rx_sha256 :: string
  rx_data :: run_file

definition readRunArtifact ::
  "publish_env \<Rightarrow> host_paths \<Rightarrow> (string \<Rightarrow> string \<Rightarrow> open_answer) \<Rightarrow> string \<Rightarrow> js \<Rightarrow> nat \<Rightarrow> bool \<Rightarrow> read_artifact result"
where
  "readRunArtifact env hp opens runDir name maxFileBytes allowRecord =
     bindR (assertReviewRunArtifactNameGrammar name) (\<lambda>_.
     bindR (guardR (isReservedReviewRunName (js_str name) \<longrightarrow> allowRecord \<and> js_str name = REVIEW_RUN_METADATA_NAME)
       (run_error ''review_run_artifact_name_reserved'')) (\<lambda>_.
     let target = join_path runDir (js_str name) in
     bindR (guardR (contains_path (canon hp runDir) (canon hp target)) (run_error ''review_run_artifact_escape'')) (\<lambda>_.
     case opens runDir (js_str name) of
       OpenError code \<Rightarrow> Inl (open_code code)
     | OpenedFile isFile statSize content \<Rightarrow>
         bindR (guardR isFile (run_error ''review_run_artifact_not_regular'')) (\<lambda>_.
         bindR (guardR (statSize \<le> maxFileBytes) (run_error ''review_run_artifact_cap'')) (\<lambda>_.
         bindR (guardR (file_bytes (pe_recordBytes env) content \<le> maxFileBytes) (run_error ''review_run_artifact_cap'')) (\<lambda>_.
         Inr \<lparr>rx_name = js_str name, rx_bytes = file_bytes (pe_recordBytes env) content, rx_sha256 = pe_sha env content, rx_data = content\<rparr>))))))"

text \<open>Opening a file of a run in the modelled store.\<close>

definition open_in :: "publish_env \<Rightarrow> review_root \<Rightarrow> string \<Rightarrow> string \<Rightarrow> string \<Rightarrow> open_answer" where
  "open_in env rt sid rid name = (case Option.bind (find_run rt sid rid) (\<lambda>d. rd_files d name) of
     None \<Rightarrow> OpenError ''ENOENT''
   | Some x \<Rightarrow> OpenedFile True (file_bytes (pe_recordBytes env) x) x)"

definition store_readRecord :: "publish_env \<Rightarrow> host_paths \<Rightarrow> run_store \<Rightarrow> review_root \<Rightarrow> string \<Rightarrow> js \<Rightarrow> review_record result" where
  "store_readRecord env hp st rt sid rid =
     bindR (store_runDir st sid rid) (\<lambda>dir.
     bindR (readRunArtifact env hp (\<lambda>_. open_in env rt sid (js_str rid)) dir (JStr REVIEW_RUN_METADATA_NAME)
       (rc_maxFileBytes (ss_caps st)) True) (\<lambda>x.
     case rx_data x of
       DataFile _ \<Rightarrow> Inl (run_error ''review_run_record_invalid'')
     | RecordFile r \<Rightarrow>
         bindR (guardR (rr_runId r = js_str rid \<and> rr_sessionID r = sid) (run_error ''review_run_record_invalid'')) (\<lambda>_. Inr r)))"

subsection \<open>Quota and creation\<close>

fun is_run_dir :: "string \<times> run_entry \<Rightarrow> bool" where
  "is_run_dir (name, RunDirectory d) = REVIEW_RUN_ID_RE name"
| "is_run_dir (name, OtherEntry) = False"

definition run_count :: "review_root \<Rightarrow> string \<Rightarrow> nat" where
  "run_count rt sid = length (filter is_run_dir (session_runs rt sid))"

definition countRunsForSession :: "run_store \<Rightarrow> review_root \<Rightarrow> string \<Rightarrow> nat result" where
  "countRunsForSession st rt sid =
     bindR (store_sessionDir st sid) (\<lambda>_.
     case map_of rt sid of Some OtherSession \<Rightarrow> Inl (NativeError ''ENOTDIR'') | _ \<Rightarrow> Inr (run_count rt sid))"

definition assertRunAdmission :: "run_store \<Rightarrow> review_root \<Rightarrow> string \<Rightarrow> unit result" where
  "assertRunAdmission st rt sid =
     bindR (countRunsForSession st rt sid) (\<lambda>n. guardR (n < rc_maxPerSession (ss_caps st)) (run_error ''review_run_quota''))"

definition new_run_dir :: "int \<Rightarrow> run_dir" where
  "new_run_dir now = \<lparr>rd_files = Map.empty, rd_mtime = now\<rparr>"

definition new_run_record :: "run_store \<Rightarrow> string \<Rightarrow> string \<Rightarrow> string \<Rightarrow> string option \<Rightarrow> string option \<Rightarrow> review_record" where
  "new_run_record st sid rid created base tip =
     \<lparr>rr_runId = rid, rr_sessionID = sid, rr_createdAt = created, rr_state = Publishing, rr_baseObjectId = base, rr_headObjectId = tip,
       rr_artifacts = [], rr_projectRoot = ss_projectRoot st, rr_finalizeProvenance = None, rr_changedPaths = None, rr_totalBytes = None,
       rr_failureReason = None\<rparr>"

text \<open>The directory the constructor of the writer gets; a plain file in its place is an error.\<close>

definition owned_run_dir :: "int \<Rightarrow> review_root \<Rightarrow> string \<Rightarrow> string \<Rightarrow> run_dir result" where
  "owned_run_dir now rt sid rid = (case map_of (session_runs rt sid) rid of
     None \<Rightarrow> Inr (new_run_dir now) | Some (RunDirectory d) \<Rightarrow> Inr d | Some OtherEntry \<Rightarrow> Inl (NativeError ''EEXIST''))"

definition createRun ::
  "publish_env \<Rightarrow> run_store \<Rightarrow> string \<Rightarrow> string \<Rightarrow> string \<Rightarrow> js \<Rightarrow> js \<Rightarrow> review_root \<Rightarrow> review_root \<times> run_writer result"
where
  "createRun env st rid created sid baseObjectId headObjectId rt = (case
       bindR (assertWritable st) (\<lambda>_.
       bindR (assertRunAdmission st rt sid) (\<lambda>_.
       bindR (normalizeObjectId baseObjectId) (\<lambda>base.
       bindR (normalizeObjectId headObjectId) (\<lambda>tip.
       bindR (assertReviewRunId (JStr rid)) (\<lambda>_.
       bindR (owned_run_dir (pe_now env) rt sid rid) (\<lambda>d. Inr (base, tip, d))))))) of
     Inl e \<Rightarrow> (rt, Inl e)
   | Inr (base, tip, d) \<Rightarrow>
       (let ((w, d'), r) = new_writer env 0 (new_run_record st sid rid created base tip) (ss_caps st) d in
        (put_run rt sid rid d', bindR r (\<lambda>_. Inr w))))"

subsection \<open>Changing a run\<close>

definition store_addArtifact ::
  "publish_env \<Rightarrow> host_paths \<Rightarrow> run_store \<Rightarrow> string \<Rightarrow> js \<Rightarrow> js \<Rightarrow> string \<Rightarrow> review_root \<Rightarrow> review_root \<times> run_artifact result"
where
  "store_addArtifact env hp st sid rid name content rt = (case
       bindR (assertWritable st) (\<lambda>_.
       bindR (store_readRecord env hp st rt sid rid) (\<lambda>r.
       case find_run rt sid (js_str rid) of None \<Rightarrow> Inl io_error | Some d \<Rightarrow> Inr (r, d))) of
     Inl e \<Rightarrow> (rt, Inl e)
   | Inr (r, d) \<Rightarrow> (case rr_state r of
         Publishing \<Rightarrow>
           (let ((w, d1), r1) = new_writer env 0 r (ss_caps st) d in
            case r1 of Inl e \<Rightarrow> (put_run rt sid (js_str rid) d1, Inl e)
            | Inr _ \<Rightarrow>
                (let ((w', d2), r2) = writer_addArtifact env 1 name content w d1 in (put_run rt sid (js_str rid) d2, r2)))
       | FailedRun \<Rightarrow> (rt, Inl (run_error ''review_run_state''))
       | PublishedRun \<Rightarrow> (case
             bindR (assertReviewRunArtifactName name) (\<lambda>_.
             cap_check (ss_caps st) (artifact_bytes (rr_artifacts r)) (length content)) of
           Inl e \<Rightarrow> (rt, Inl e)
         | Inr _ \<Rightarrow> (case publishArtifactAtomic env 0 name (DataFile content) d of
               (d1, Inl e) \<Rightarrow> (put_run rt sid (js_str rid) d1, Inl e)
             | (d1, Inr a) \<Rightarrow>
                 (let (d2, r2) = publishValidatedArtifactAtomic env 1 REVIEW_RUN_METADATA_NAME
                        (RecordFile (r\<lparr>rr_artifacts := rr_artifacts r @ [a]\<rparr>)) d1 in
                  (put_run rt sid (js_str rid) d2, bindR r2 (\<lambda>_. Inr a)))))))"

definition recordFinalizeProvenance ::
  "publish_env \<Rightarrow> host_paths \<Rightarrow> run_store \<Rightarrow> string \<Rightarrow> js \<Rightarrow> finalize_provenance \<Rightarrow> review_root \<Rightarrow> review_root \<times> unit result"
where
  "recordFinalizeProvenance env hp st sid rid provenance rt = (case
       bindR (assertWritable st) (\<lambda>_.
       bindR (store_readRecord env hp st rt sid rid) (\<lambda>r.
       case find_run rt sid (js_str rid) of None \<Rightarrow> Inl io_error | Some d \<Rightarrow> Inr (r, d))) of
     Inl e \<Rightarrow> (rt, Inl e)
   | Inr (r, d) \<Rightarrow>
       (let (d1, r1) = publishValidatedArtifactAtomic env 0 REVIEW_RUN_METADATA_NAME (RecordFile (r\<lparr>rr_finalizeProvenance := Some provenance\<rparr>)) d in
        (put_run rt sid (js_str rid) d1, bindR r1 (\<lambda>_. Inr ()))))"

section \<open>Ownership, retention and recovery\<close>

definition assertRunOwnership :: "review_record \<Rightarrow> string \<Rightarrow> unit result" where
  "assertRunOwnership r sid = guardR (rr_sessionID r = sid) (run_error ''review_run_ownership'')"

record discovered_run =
  dr_sessionID :: string
  dr_runId :: string
  dr_mtimeMs :: int
  dr_record :: "review_record option"

definition readRunRecord :: "run_dir \<Rightarrow> review_record option" where
  "readRunRecord d = (case rd_files d REVIEW_RUN_METADATA_NAME of Some (RecordFile r) \<Rightarrow> Some r | _ \<Rightarrow> None)"

fun discover_run :: "string \<Rightarrow> string \<times> run_entry \<Rightarrow> discovered_run list" where
  "discover_run sid (rid, RunDirectory d) =
     (if REVIEW_RUN_ID_RE rid then [\<lparr>dr_sessionID = sid, dr_runId = rid, dr_mtimeMs = rd_mtime d, dr_record = readRunRecord d\<rparr>] else [])"
| "discover_run sid (rid, OtherEntry) = []"

fun discover_session :: "string \<times> session_entry \<Rightarrow> discovered_run list" where
  "discover_session (sid, SessionDirectory es) = concat (map (discover_run sid) es)"
| "discover_session (sid, OtherSession) = []"

definition discoverRuns :: "review_root \<Rightarrow> discovered_run list" where
  "discoverRuns rt = concat (map discover_session rt)"

definition isOpenRun :: "discovered_run \<Rightarrow> bool" where
  "isOpenRun x = (case dr_record x of Some r \<Rightarrow> rr_state r = Publishing | None \<Rightarrow> False)"

datatype prune_reason = Expired | OverBound

type_synonym run_ref = "string \<times> string"

definition ref_of :: "discovered_run \<Rightarrow> run_ref" where
  "ref_of x = (dr_sessionID x, dr_runId x)"

record prune_summary =
  ps_pruned :: "(run_ref \<times> prune_reason \<times> run_state option) list"
  ps_keptOpen :: "run_ref list"
  ps_totalBefore :: nat

text \<open>\<open>noteOpen\<close>: a run is reported once.\<close>

definition note_open :: "discovered_run \<Rightarrow> run_ref list \<Rightarrow> run_ref list" where
  "note_open x kept = (if ref_of x \<in> set kept then kept else kept @ [ref_of x])"

type_synonym prune_state = "(run_ref \<times> prune_reason \<times> run_state option) list \<times> run_ref list"

definition removed_run :: "prune_reason \<Rightarrow> discovered_run \<Rightarrow> run_ref \<times> prune_reason \<times> run_state option" where
  "removed_run reason x = (ref_of x, reason, map_option rr_state (dr_record x))"

fun expire_pass :: "int \<Rightarrow> int \<Rightarrow> discovered_run list \<Rightarrow> prune_state \<Rightarrow> prune_state" where
  "expire_pass now ttl [] s = s"
| "expire_pass now ttl (x # xs) (pruned, kept) =
     (if now - dr_mtimeMs x \<le> ttl then expire_pass now ttl xs (pruned, kept)
      else if isOpenRun x then expire_pass now ttl xs (pruned, note_open x kept)
      else expire_pass now ttl xs (pruned @ [removed_run Expired x], kept))"

fun bound_pass :: "int \<Rightarrow> discovered_run list \<Rightarrow> prune_state \<Rightarrow> prune_state" where
  "bound_pass excess [] s = s"
| "bound_pass excess (x # xs) (pruned, kept) =
     (if excess \<le> 0 then (pruned, kept)
      else if isOpenRun x then bound_pass excess xs (pruned, note_open x kept)
      else bound_pass (excess - 1) xs (pruned @ [removed_run OverBound x], kept))"

definition remaining_runs :: "discovered_run list \<Rightarrow> prune_state \<Rightarrow> discovered_run list" where
  "remaining_runs xs s = filter (\<lambda>x. ref_of x \<notin> fst ` set (fst s)) xs"

definition prune_plan :: "int \<Rightarrow> int \<Rightarrow> int \<Rightarrow> discovered_run list \<Rightarrow> prune_state" where
  "prune_plan now ttl maxRuns xs =
     (let s = expire_pass now ttl xs ([], []); rest = sort_key dr_mtimeMs (remaining_runs xs s) in
      bound_pass (int (length rest) - maxRuns) rest s)"

definition pruneReviewRuns :: "int \<Rightarrow> int \<Rightarrow> int \<Rightarrow> review_root \<Rightarrow> review_root \<times> prune_summary" where
  "pruneReviewRuns now ttl maxRuns rt =
     (let xs = discoverRuns rt; s = prune_plan now ttl maxRuns xs in
      (fold (\<lambda>((sid, rid), _) t. remove_run t sid rid) (fst s) rt,
       \<lparr>ps_pruned = fst s, ps_keptOpen = snd s, ps_totalBefore = length xs\<rparr>))"

text \<open>Recovery: the listing is read before the first run is changed; an error ends it.\<close>

fun recover_runs ::
  "(nat \<Rightarrow> publish_env) \<Rightarrow> int \<Rightarrow> discovered_run list \<Rightarrow> nat \<Rightarrow> run_ref list \<Rightarrow> review_root \<Rightarrow> review_root \<times> run_ref list result"
where
  "recover_runs env ttl [] n done rt = (rt, Inr done)"
| "recover_runs env ttl (x # xs) n done rt = (case dr_record x of
     None \<Rightarrow> recover_runs env ttl xs (n + 1) done rt
   | Some r \<Rightarrow>
       if rr_state r \<noteq> Publishing \<or> pe_now (env n) - dr_mtimeMs x \<le> ttl then recover_runs env ttl xs (n + 1) done rt
       else (case find_run rt (dr_sessionID x) (dr_runId x) of
           None \<Rightarrow> (rt, Inl io_error)
         | Some d \<Rightarrow>
             (let ((w, d1), r1) = new_writer (env n) 0 (r\<lparr>rr_failureReason := Some ''interrupted''\<rparr>) DEFAULT_REVIEW_RUN_CAPS d in
              case r1 of
                Inl e \<Rightarrow> (put_run rt (dr_sessionID x) (dr_runId x) d1, Inl e)
              | Inr _ \<Rightarrow>
                  (let ((w', d2), r2) = writer_fail (env n) 1 w d1; rt' = put_run rt (dr_sessionID x) (dr_runId x) d2 in
                   case r2 of Inl e \<Rightarrow> (rt', Inl e)
                   | Inr _ \<Rightarrow> recover_runs env ttl xs (n + 1) (done @ [ref_of x]) rt'))))"

definition recoverInterruptedRuns :: "(nat \<Rightarrow> publish_env) \<Rightarrow> int \<Rightarrow> review_root \<Rightarrow> review_root \<times> run_ref list result" where
  "recoverInterruptedRuns env ttl rt = recover_runs env ttl (discoverRuns rt) 0 [] rt"

section \<open>The pinned helper\<close>

datatype lstat_answer = LstatError string | LstatFile nat | LstatOther   \<comment> \<open>the mode bits of a regular file\<close>

definition resolveReviewHelperInterpreter :: "string \<Rightarrow> (string \<Rightarrow> lstat_answer) \<Rightarrow> string option \<Rightarrow> string result" where
  "resolveReviewHelperInterpreter cwd lstat configured = (case configured of
     None \<Rightarrow> Inl (run_error ''review_helper_interpreter_unconfigured'')
   | Some c \<Rightarrow>
       bindR (guardR (c \<noteq> [] \<and> isAbsolute c) (run_error ''review_helper_interpreter_unconfigured'')) (\<lambda>_.
       let p = resolve_path cwd c in
       case lstat p of
         LstatError code \<Rightarrow>
           Inl (if code = ''ENOENT'' then run_error ''review_helper_interpreter_missing'' else run_error ''review_helper_interpreter_unavailable'')
       | LstatOther \<Rightarrow> Inl (run_error ''review_helper_interpreter_not_regular'')
       | LstatFile mode \<Rightarrow>
           bindR (guardR (odd mode \<or> odd (mode div 8) \<or> odd (mode div 64)) (run_error ''review_helper_interpreter_not_executable'')) (\<lambda>_. Inr p)))"

record pinned_helper =
  ph_path :: string
  ph_sha256 :: string
  ph_bytes :: nat

definition lstat_code :: "string \<Rightarrow> broker_error" where
  "lstat_code code =
     (if code = ''ENOENT'' then run_error ''review_helper_missing''
      else if code = ''EACCES'' \<or> code = ''EPERM'' then run_error ''review_helper_unreadable''
      else if code = ''ENOTDIR'' then run_error ''review_helper_path_component_not_directory''
      else run_error ''review_helper_lstat_unexpected'')"

definition assertPinnedReviewHelper ::
  "string \<Rightarrow> (string \<Rightarrow> lstat_answer) \<Rightarrow> (string \<Rightarrow> string result) \<Rightarrow> (string \<Rightarrow> string) \<Rightarrow> string option \<Rightarrow> string option \<Rightarrow> pinned_helper result"
where
  "assertPinnedReviewHelper cwd lstat readFile sha configuredPath configuredSha = (case (configuredPath, configuredSha) of
     (Some c, Some s) \<Rightarrow>
       (let p = resolve_path cwd c in
        case lstat p of
          LstatError code \<Rightarrow> Inl (lstat_code code)
        | LstatOther \<Rightarrow> Inl (run_error ''review_helper_not_regular'')
        | LstatFile _ \<Rightarrow>
            bindR (readFile p) (\<lambda>bytes.
            bindR (guardR (sha bytes = s) (run_error ''review_helper_digest_mismatch'')) (\<lambda>_.
            Inr \<lparr>ph_path = p, ph_sha256 = s, ph_bytes = length bytes\<rparr>)))
   | _ \<Rightarrow> Inl (run_error ''review_helper_unconfigured''))"

end
