(* ===== verification/ReviewGuarantees.thy ===== *)
theory ReviewGuarantees
  imports ReviewRun
begin

text \<open>
  What the store of review runs guarantees: publication is atomic under every fault, every
  record on disk is well formed, bound to its directory and within the caps however the
  operations interleave, and retention removes exactly what it reports.
\<close>

section \<open>The store root as a map\<close>

lemma session_runs_put: "session_runs (put_run rt sid rid d) s = (if s = sid then AList.update rid (RunDirectory d) (session_runs rt sid) else session_runs rt s)"
  by (simp add: put_run_def session_runs_def [of "AList.update _ _ _"] update_conv)
     (simp add: session_runs_def)

lemma find_run_put: "find_run (put_run rt sid rid d) s r = (if s = sid \<and> r = rid then Some d else find_run rt s r)"
  by (simp add: find_run_def session_runs_put update_conv)

lemma session_runs_remove: "session_runs (remove_run rt sid rid) s = (if s = sid then filter (\<lambda>(r, _). r \<noteq> rid) (session_runs rt sid) else session_runs rt s)"
  by (auto simp: remove_run_def session_runs_def update_conv split: option.splits session_entry.splits)

lemma map_of_filter_other: "map_of (filter (\<lambda>(r, _). r \<noteq> k) es) r = (if r = k then None else map_of es r)"
  by (induction es) auto

lemma find_run_remove: "find_run (remove_run rt sid rid) s r = (if s = sid \<and> r = rid then None else find_run rt s r)"
  by (simp add: find_run_def session_runs_remove map_of_filter_other)

lemma length_filter_filter: "length (filter P (filter Q xs)) \<le> length (filter P xs)"
  by (induction xs) auto

lemma run_count_remove: "run_count (remove_run rt sid rid) s \<le> run_count rt s"
  by (simp add: run_count_def session_runs_remove length_filter_filter del: filter_filter)

lemma filter_update_run:
  "length (filter is_run_dir (AList.update rid (RunDirectory d) es)) \<le> length (filter is_run_dir es) + (case map_of es rid of Some (RunDirectory _) \<Rightarrow> 0 | _ \<Rightarrow> 1)"
  by (induction es) (auto split: option.splits run_entry.splits elim: is_run_dir.elims)

lemma run_count_put: "run_count (put_run rt sid rid d) s \<le> (if s = sid \<and> find_run rt sid rid = None then run_count rt s + 1 else run_count rt s)"
  using filter_update_run [of rid d "session_runs rt sid"]
  by (auto simp: run_count_def session_runs_put find_run_def split: option.splits run_entry.splits)

text \<open>A directory lists every name once.\<close>

definition names_ok :: "review_root \<Rightarrow> bool" where
  "names_ok rt = (distinct (map fst rt) \<and> list_all (\<lambda>(_, e). case e of SessionDirectory es \<Rightarrow> distinct (map fst es) | OtherSession \<Rightarrow> True) rt)"

lemma names_ok_runs: "names_ok rt \<Longrightarrow> distinct (map fst (session_runs rt sid))"
  by (auto simp: names_ok_def session_runs_def list_all_iff dest!: map_of_SomeD split: option.splits session_entry.splits)

lemma names_ok_update:
  assumes "names_ok rt" "distinct (map fst es)"
  shows "names_ok (AList.update sid (SessionDirectory es) rt)"
proof -
  have "set (AList.update sid (SessionDirectory es) rt) \<subseteq> insert (sid, SessionDirectory es) (set rt)" by (induction rt) auto
  with assms show ?thesis by (auto simp: names_ok_def list_all_iff distinct_update)
qed

lemma names_ok_put: "names_ok rt \<Longrightarrow> names_ok (put_run rt sid rid d)"
  unfolding put_run_def by (intro names_ok_update distinct_update names_ok_runs)

lemma names_ok_remove: "names_ok rt \<Longrightarrow> names_ok (remove_run rt sid rid)"
proof -
  assume ok: "names_ok rt"
  show ?thesis
  proof (cases "map_of rt sid")
    case None
    with ok show ?thesis by (simp add: remove_run_def)
  next
    case (Some e)
    show ?thesis
    proof (cases e)
      case (SessionDirectory es)
      have "distinct (map fst es)" using names_ok_runs [OF ok, of sid] Some SessionDirectory by (simp add: session_runs_def)
      then have "distinct (map fst (filter (\<lambda>(r, _). r \<noteq> rid) es))" by (simp add: distinct_map_filter)
      with names_ok_update [OF ok] Some SessionDirectory show ?thesis by (simp add: remove_run_def)
    next
      case OtherSession
      with ok Some show ?thesis by (simp add: remove_run_def)
    qed
  qed
qed

text \<open>What is discovered is in the store.\<close>

lemma discover_run_mem: "x \<in> set (discover_run sid e) \<longleftrightarrow> (\<exists>rid d. e = (rid, RunDirectory d) \<and> REVIEW_RUN_ID_RE rid \<and>
    x = \<lparr>dr_sessionID = sid, dr_runId = rid, dr_mtimeMs = rd_mtime d, dr_record = readRunRecord d\<rparr>)"
  by (cases "(sid, e)" rule: discover_run.cases) auto

lemma discover_session_mem: "x \<in> set (discover_session e) \<longleftrightarrow> (\<exists>sid es. e = (sid, SessionDirectory es) \<and> x \<in> set (concat (map (discover_run sid) es)))"
  by (cases e rule: discover_session.cases) auto

lemma readRunRecord_Some: "readRunRecord d = Some r \<longleftrightarrow> rd_files d REVIEW_RUN_METADATA_NAME = Some (RecordFile r)"
  by (auto simp: readRunRecord_def split: option.splits run_file.splits)

lemma discovered_mem:
  assumes "names_ok rt"
  shows "x \<in> set (discoverRuns rt) \<longleftrightarrow> (\<exists>d. find_run rt (dr_sessionID x) (dr_runId x) = Some d \<and> REVIEW_RUN_ID_RE (dr_runId x) \<and>
    dr_mtimeMs x = rd_mtime d \<and> dr_record x = readRunRecord d)" (is "?l = ?r")
proof
  assume ?l
  then obtain sid es where s: "(sid, SessionDirectory es) \<in> set rt" "x \<in> set (concat (map (discover_run sid) es))"
    by (auto simp: discoverRuns_def discover_session_mem)
  then obtain rid d where r: "(rid, RunDirectory d) \<in> set es" "REVIEW_RUN_ID_RE rid"
    "x = \<lparr>dr_sessionID = sid, dr_runId = rid, dr_mtimeMs = rd_mtime d, dr_record = readRunRecord d\<rparr>" by (auto simp: discover_run_mem)
  have m: "map_of rt sid = Some (SessionDirectory es)" using assms s(1) by (simp add: names_ok_def)
  then have "distinct (map fst es)" using names_ok_runs [OF assms, of sid] by (simp add: session_runs_def)
  with r(1) have "map_of es rid = Some (RunDirectory d)" by simp
  with m r show ?r by (simp add: find_run_def session_runs_def)
next
  assume ?r
  then obtain d es where d: "map_of rt (dr_sessionID x) = Some (SessionDirectory es)" "map_of es (dr_runId x) = Some (RunDirectory d)"
    "REVIEW_RUN_ID_RE (dr_runId x)" "dr_mtimeMs x = rd_mtime d" "dr_record x = readRunRecord d"
    by (auto simp: find_run_def session_runs_def split: option.splits run_entry.splits session_entry.splits)
  then have "x \<in> set (discover_session (dr_sessionID x, SessionDirectory es))" by (auto simp: discover_run_mem dest!: map_of_SomeD intro!: bexI)
  moreover have "(dr_sessionID x, SessionDirectory es) \<in> set rt" using d(1) by (rule map_of_SomeD)
  ultimately show ?l unfolding discoverRuns_def set_concat set_map by blast
qed

section \<open>Publication is atomic\<close>

lemma temp_not_artifact: "\<not> REVIEW_RUN_ARTIFACT_NAME_RE (temp_name name rnd)"
  by (simp add: REVIEW_RUN_ARTIFACT_NAME_RE_def temp_name_def is_alnum_def is_alpha_def is_lower_def is_upper_def is_digit_def)

lemma temp_not_metadata: "temp_name name rnd \<noteq> REVIEW_RUN_METADATA_NAME"
  by (simp add: temp_name_def REVIEW_RUN_METADATA_NAME_def)

lemma publish_files:
  assumes "publishValidatedArtifactAtomic env n name x d = (d', r)"
  shows "rd_files d' f = rd_files d f \<or> (f = name \<and> rd_files d' f = Some x) \<or>
    (f = temp_name name (pe_random env n) \<and> rd_files d f = None \<and> (rd_files d' f = Some x \<or> (\<exists>b. rd_files d' f = Some (DataFile b))))"
    and "r = Inr a \<Longrightarrow> rd_files d' = (rd_files d)(name \<mapsto> x) \<and> a = \<lparr>ra_name = name, ra_bytes = file_bytes (pe_recordBytes env) x, ra_sha256 = pe_sha env x\<rparr>"
  using assms by (auto simp: publishValidatedArtifactAtomic_def Let_def split: if_splits publish_fault.splits)

lemma assert_name_ok: "assertReviewRunArtifactName name = Inr u \<longleftrightarrow> is_str REVIEW_RUN_ARTIFACT_NAME_RE name \<and> \<not> isReservedReviewRunName (js_str name)"
  by (auto simp: assertReviewRunArtifactName_def assertReviewRunArtifactNameGrammar_def bindR_eq_Inr)

text \<open>
  C18. A publication is atomic under every fault: whatever fails, the file of that name is
  the old one or the complete new one, every other artifact and the run record are as they
  were, and success means that the new content is in place with its length and digest.
\<close>

theorem publication_atomic:
  assumes "publishArtifactAtomic env n name x d = (d', r)"
  shows "(rd_files d' (js_str name) = rd_files d (js_str name) \<or> rd_files d' (js_str name) = Some x) \<and>
    (\<forall>f. REVIEW_RUN_ARTIFACT_NAME_RE f \<and> f \<noteq> js_str name \<or> f = REVIEW_RUN_METADATA_NAME \<longrightarrow> rd_files d' f = rd_files d f) \<and>
    (\<forall>a. r = Inr a \<longrightarrow> rd_files d' (js_str name) = Some x \<and> ra_bytes a = file_bytes (pe_recordBytes env) x \<and> ra_sha256 a = pe_sha env x)"
proof (cases "assertReviewRunArtifactName name")
  case (Inl e)
  with assms show ?thesis by (auto simp: publishArtifactAtomic_def)
next
  case (Inr u)
  then have n: "REVIEW_RUN_ARTIFACT_NAME_RE (js_str name)" "\<not> isReservedReviewRunName (js_str name)"
    by (cases name; simp add: assert_name_ok)+
  then have m: "js_str name \<noteq> REVIEW_RUN_METADATA_NAME" by (auto simp: isReservedReviewRunName_def REVIEW_RUN_RESERVED_NAMES_def)
  have p: "publishValidatedArtifactAtomic env n (js_str name) x d = (d', r)" using assms Inr by (simp add: publishArtifactAtomic_def)
  have t: "temp_name (js_str name) (pe_random env n) \<noteq> js_str name" using temp_not_artifact n(1) by metis
  show ?thesis
    using publish_files(1) [OF p] publish_files(2) [OF p] m t temp_not_artifact temp_not_metadata by (auto simp: fun_upd_def) metis+
qed

section \<open>Records are well formed and within the caps\<close>

definition artifact_ok :: "run_caps \<Rightarrow> run_artifact \<Rightarrow> bool" where
  "artifact_ok caps a = (REVIEW_RUN_ARTIFACT_NAME_RE (ra_name a) \<and> \<not> isReservedReviewRunName (ra_name a) \<and> ra_bytes a \<le> rc_maxFileBytes caps)"

definition object_id_ok :: "string option \<Rightarrow> bool" where
  "object_id_ok v = (case v of None \<Rightarrow> True | Some s \<Rightarrow> REVIEW_RUN_OBJECT_ID_RE s)"

definition record_ok :: "run_store \<Rightarrow> string \<Rightarrow> string \<Rightarrow> review_record \<Rightarrow> bool" where
  "record_ok st sid rid r = (rr_sessionID r = sid \<and> rr_runId r = rid \<and> rr_projectRoot r = ss_projectRoot st \<and>
     object_id_ok (rr_baseObjectId r) \<and> object_id_ok (rr_headObjectId r) \<and>
     list_all (artifact_ok (ss_caps st)) (rr_artifacts r) \<and> artifact_bytes (rr_artifacts r) \<le> rc_maxBytes (ss_caps st))"

definition run_dir_ok :: "run_store \<Rightarrow> string \<Rightarrow> string \<Rightarrow> run_dir \<Rightarrow> bool" where
  "run_dir_ok st sid rid d = (\<forall>f r. rd_files d f = Some (RecordFile r) \<longrightarrow> record_ok st sid rid r)"

definition writer_ok :: "run_store \<Rightarrow> string \<times> string \<Rightarrow> run_writer \<Rightarrow> bool" where
  "writer_ok st k w = (record_ok st (fst k) (snd k) (wr_record w) \<and> wr_caps w = ss_caps st \<and> wr_totalBytes w = artifact_bytes (rr_artifacts (wr_record w)))"

definition root_ok :: "run_store \<Rightarrow> review_root \<Rightarrow> bool" where
  "root_ok st rt = (names_ok rt \<and> (\<forall>sid rid d. find_run rt sid rid = Some d \<longrightarrow> run_dir_ok st sid rid d) \<and>
     (\<forall>sid. run_count rt sid \<le> rc_maxPerSession (ss_caps st)))"

lemma root_ok_put:
  "root_ok st rt \<Longrightarrow> run_dir_ok st sid rid d \<Longrightarrow> find_run rt sid rid \<noteq> None \<or> run_count rt sid < rc_maxPerSession (ss_caps st) \<Longrightarrow>
   root_ok st (put_run rt sid rid d)"
proof -
  assume ok: "root_ok st rt" and d: "run_dir_ok st sid rid d" and q: "find_run rt sid rid \<noteq> None \<or> run_count rt sid < rc_maxPerSession (ss_caps st)"
  have "run_count (put_run rt sid rid d) s \<le> rc_maxPerSession (ss_caps st)" for s
    using run_count_put [of rt sid rid d s] q ok [unfolded root_ok_def, THEN conjunct2, THEN conjunct2, rule_format, of s] by (cases "s = sid") (auto split: if_splits)
  with ok d show ?thesis by (simp add: root_ok_def find_run_put names_ok_put)
qed

lemma root_ok_remove: "root_ok st rt \<Longrightarrow> root_ok st (remove_run rt sid rid)"
  using run_count_remove [of rt sid rid] unfolding root_ok_def find_run_remove
  by (auto simp: names_ok_remove) (meson order_trans)

text \<open>Publishing data, or a record that is well formed, keeps a run directory well formed.\<close>

lemma publish_record_ok:
  assumes "publishValidatedArtifactAtomic env n name x d = (d', r)" "run_dir_ok st sid rid d"
    and "\<And>q. x = RecordFile q \<Longrightarrow> record_ok st sid rid q"
  shows "run_dir_ok st sid rid d'"
  unfolding run_dir_ok_def
proof (intro allI impI)
  fix f q
  assume "rd_files d' f = Some (RecordFile q)"
  with publish_files(1) [OF assms(1), of f] assms(2,3) show "record_ok st sid rid q"
    unfolding run_dir_ok_def by auto
qed

lemma publish_data_ok:
  "publishArtifactAtomic env n name (DataFile b) d = (d', r) \<Longrightarrow> run_dir_ok st sid rid d \<Longrightarrow> run_dir_ok st sid rid d'"
  using publish_record_ok [of env n "js_str name" "DataFile b" d d' r st sid rid]
  by (auto simp: publishArtifactAtomic_def split: sum.splits)

lemma publishArtifact_Inr:
  "publishArtifactAtomic env n name (DataFile b) d = (d', Inr a) \<Longrightarrow>
     a = \<lparr>ra_name = js_str name, ra_bytes = length b, ra_sha256 = pe_sha env (DataFile b)\<rparr>"
  using publish_files(2) [of env n "js_str name" "DataFile b" d d' "Inr a"] by (auto simp: publishArtifactAtomic_def split: sum.splits)

lemma record_ok_add:
  "record_ok st sid rid r \<Longrightarrow> assertReviewRunArtifactName name = Inr u \<Longrightarrow>
   cap_check (ss_caps st) (artifact_bytes (rr_artifacts r)) (length b) = Inr v \<Longrightarrow>
   record_ok st sid rid (r\<lparr>rr_artifacts := rr_artifacts r @ [\<lparr>ra_name = js_str name, ra_bytes = length b, ra_sha256 = h\<rparr>]\<rparr>)"
  by (cases name) (auto simp: record_ok_def artifact_ok_def assert_name_ok cap_check_def bindR_eq_Inr artifact_bytes_def)

lemma record_ok_fields [simp]:
  "record_ok st sid rid (r\<lparr>rr_state := s\<rparr>) = record_ok st sid rid r"
  "record_ok st sid rid (r\<lparr>rr_failureReason := f\<rparr>) = record_ok st sid rid r"
  "record_ok st sid rid (r\<lparr>rr_finalizeProvenance := p\<rparr>) = record_ok st sid rid r"
  "record_ok st sid rid (r\<lparr>rr_changedPaths := c, rr_totalBytes := t\<rparr>) = record_ok st sid rid r"
  by (simp_all add: record_ok_def)

lemma persist_ok:
  assumes "writer_persist env n s w d = ((w', d'), r)" "writer_ok st (sid, rid) w" "run_dir_ok st sid rid d"
  shows "writer_ok st (sid, rid) w' \<and> run_dir_ok st sid rid d'"
proof -
  obtain q where p: "publishValidatedArtifactAtomic env n REVIEW_RUN_METADATA_NAME (RecordFile ((wr_record w)\<lparr>rr_state := s\<rparr>)) d = (d', q)"
    and w: "w' = w\<lparr>wr_record := (wr_record w)\<lparr>rr_state := s\<rparr>\<rparr>"
    using assms(1) by (auto simp: writer_persist_def Let_def split: prod.splits)
  have "record_ok st sid rid (wr_record w)" using assms(2) by (simp add: writer_ok_def)
  with publish_record_ok [OF p assms(3)] show ?thesis using assms(2) by (simp add: w writer_ok_def)
qed

lemma writer_add_ok:
  assumes "writer_addArtifact env n name content w d = ((w', d'), r)" "writer_ok st (sid, rid) w" "run_dir_ok st sid rid d"
  shows "writer_ok st (sid, rid) w' \<and> run_dir_ok st sid rid d'"
proof (cases "bindR (assertReviewRunArtifactName name) (\<lambda>_.
       bindR (guardR (rr_state (wr_record w) = Publishing) (run_error ''review_run_state'')) (\<lambda>_.
       cap_check (wr_caps w) (wr_totalBytes w) (length content)))")
  case (Inl e)
  with assms show ?thesis by (auto simp: writer_addArtifact_def)
next
  case (Inr u)
  obtain d1 r1 where p: "publishArtifactAtomic env n name (DataFile content) d = (d1, r1)" by fastforce
  have d1: "run_dir_ok st sid rid d1" using publish_data_ok [OF p assms(3)] .
  show ?thesis
  proof (cases r1)
    case (Inl e)
    with assms Inr p d1 show ?thesis by (auto simp: writer_addArtifact_def)
  next
    case a: (Inr a)
    let ?w = "w\<lparr>wr_record := (wr_record w)\<lparr>rr_artifacts := rr_artifacts (wr_record w) @ [a]\<rparr>, wr_totalBytes := wr_totalBytes w + length content\<rparr>"
    have "record_ok st sid rid ((wr_record w)\<lparr>rr_artifacts := rr_artifacts (wr_record w) @ [a]\<rparr>)"
      using Inr assms(2) publishArtifact_Inr [OF p [unfolded a]] by (auto simp: bindR_eq_Inr writer_ok_def intro: record_ok_add)
    then have w: "writer_ok st (sid, rid) ?w"
      using assms(2) publishArtifact_Inr [OF p [unfolded a]] by (simp add: writer_ok_def artifact_bytes_def)
    obtain r2 where "writer_persist env (n + 1) Publishing ?w d1 = ((w', d'), r2)"
      using assms(1) Inr p a by (auto simp: writer_addArtifact_def split: prod.splits)
    from persist_ok [OF this w d1] show ?thesis .
  qed
qed

lemma new_writer_ok:
  assumes "new_writer env n r caps d = ((w, d'), x)" "record_ok st sid rid r" "run_dir_ok st sid rid d"
  shows "run_dir_ok st sid rid d' \<and> (caps = ss_caps st \<longrightarrow> writer_ok st (sid, rid) w)"
proof -
  obtain q where p: "publishValidatedArtifactAtomic env n REVIEW_RUN_METADATA_NAME (RecordFile (r\<lparr>rr_state := Publishing\<rparr>)) d = (d', q)"
    and w: "w = \<lparr>wr_record = r\<lparr>rr_state := Publishing\<rparr>, wr_caps = caps, wr_totalBytes = artifact_bytes (rr_artifacts r)\<rparr>"
    using assms(1) by (auto simp: new_writer_def writer_persist_def Let_def split: prod.splits)
  with publish_record_ok [OF p assms(3)] assms(2) show ?thesis by (simp add: writer_ok_def)
qed

lemma readRunArtifact_ok:
  assumes "readRunArtifact env hp opens runDir name cap allowRecord = Inr x"
  shows "is_str REVIEW_RUN_ARTIFACT_NAME_RE name \<and> (isReservedReviewRunName (js_str name) \<longrightarrow> allowRecord \<and> js_str name = REVIEW_RUN_METADATA_NAME) \<and>
    contains_path (canon hp runDir) (canon hp (join_path runDir (js_str name))) \<and> rx_name x = js_str name \<and> rx_bytes x \<le> cap \<and>
    rx_bytes x = file_bytes (pe_recordBytes env) (rx_data x) \<and> rx_sha256 x = pe_sha env (rx_data x) \<and>
    (\<exists>n. opens runDir (js_str name) = OpenedFile True n (rx_data x) \<and> n \<le> cap)"
proof (cases "opens runDir (js_str name)")
  case (OpenError code)
  with assms show ?thesis by (auto simp: readRunArtifact_def Let_def bindR_eq_Inr)
next
  case (OpenedFile isFile n content)
  have "is_str REVIEW_RUN_ARTIFACT_NAME_RE name" "isReservedReviewRunName (js_str name) \<longrightarrow> allowRecord \<and> js_str name = REVIEW_RUN_METADATA_NAME"
    "contains_path (canon hp runDir) (canon hp (join_path runDir (js_str name)))" and r: "isFile" "n \<le> cap" "file_bytes (pe_recordBytes env) content \<le> cap"
    "x = \<lparr>rx_name = js_str name, rx_bytes = file_bytes (pe_recordBytes env) content, rx_sha256 = pe_sha env content, rx_data = content\<rparr>"
    using assms unfolding readRunArtifact_def Let_def bindR_eq_Inr guardR_eq_Inr assertReviewRunArtifactNameGrammar_def OpenedFile open_answer.case by blast+
  with OpenedFile show ?thesis by simp
qed

lemma runDir_ok: "store_runDir st sid rid = Inr dir \<Longrightarrow> SESSION_ID_RE sid \<and> is_str REVIEW_RUN_ID_RE rid"
  by (auto simp: store_runDir_def store_sessionDir_def assertReviewRunId_def bindR_eq_Inr)

lemma open_in_ok: "open_in env rt sid rid name = OpenedFile b n x \<Longrightarrow> \<exists>d. find_run rt sid rid = Some d \<and> rd_files d name = Some x"
  by (auto simp: open_in_def split: option.splits bind_splits)

lemma readRecord_ok:
  assumes "store_readRecord env hp st rt sid rid = Inr r"
  shows "rr_runId r = js_str rid \<and> rr_sessionID r = sid \<and> SESSION_ID_RE sid \<and> is_str REVIEW_RUN_ID_RE rid \<and>
    (\<exists>d. find_run rt sid (js_str rid) = Some d \<and> rd_files d REVIEW_RUN_METADATA_NAME = Some (RecordFile r))"
proof -
  obtain dir x where dir: "store_runDir st sid rid = Inr dir"
    and x: "readRunArtifact env hp (\<lambda>_. open_in env rt sid (js_str rid)) dir (JStr REVIEW_RUN_METADATA_NAME) (rc_maxFileBytes (ss_caps st)) True = Inr x"
    and r: "(case rx_data x of DataFile _ \<Rightarrow> Inl (run_error ''review_run_record_invalid'')
       | RecordFile r \<Rightarrow> bindR (guardR (rr_runId r = js_str rid \<and> rr_sessionID r = sid) (run_error ''review_run_record_invalid'')) (\<lambda>_. Inr r)) = Inr r"
    using assms unfolding store_readRecord_def bindR_eq_Inr [of "store_runDir st sid rid"] bindR_eq_Inr [of "readRunArtifact _ _ _ _ _ _ _"] by blast
  from r have "rx_data x = RecordFile r" "rr_runId r = js_str rid" "rr_sessionID r = sid"
    by (cases "rx_data x"; auto simp: bindR_eq_Inr)+
  with readRunArtifact_ok [OF x] runDir_ok [OF dir] show ?thesis by (auto dest: open_in_ok)
qed

text \<open>A record that is read is a record of its directory.\<close>

lemma read_record_ok:
  "root_ok st rt \<Longrightarrow> store_readRecord env hp st rt sid rid = Inr r \<Longrightarrow> find_run rt sid (js_str rid) = Some d \<Longrightarrow>
   record_ok st sid (js_str rid) r \<and> run_dir_ok st sid (js_str rid) d"
  using readRecord_ok [of env hp st rt sid rid r] by (auto simp: root_ok_def run_dir_ok_def)

section \<open>Every interleaving\<close>

text \<open>The store and the writers that are alive, under the operations of the store in any order and with any fault.\<close>

inductive run_step :: "run_store \<Rightarrow> review_root \<times> ((string \<times> string) \<times> run_writer) list \<Rightarrow> review_root \<times> ((string \<times> string) \<times> run_writer) list \<Rightarrow> bool"
  for st
where
  created: "createRun env st rid created sid base tip rt = (rt', Inr w) \<Longrightarrow> run_step st (rt, ws) (rt', ((sid, rid), w) # ws)"
| not_created: "createRun env st rid created sid base tip rt = (rt', Inl e) \<Longrightarrow> run_step st (rt, ws) (rt', ws)"
| annotated: "(k, w) \<in> set ws \<Longrightarrow>
    run_step st (rt, ws) (rt, (k, w\<lparr>wr_record := (wr_record w)\<lparr>rr_changedPaths := paths, rr_totalBytes := bytes\<rparr>\<rparr>) # remove1 (k, w) ws)"
| wrote: "((sid, rid), w) \<in> set ws \<Longrightarrow> find_run rt sid rid = Some d \<Longrightarrow> writer_addArtifact env n name content w d = ((w', d'), r) \<Longrightarrow>
    run_step st (rt, ws) (put_run rt sid rid d', ((sid, rid), w') # remove1 ((sid, rid), w) ws)"
| closed: "((sid, rid), w) \<in> set ws \<Longrightarrow> find_run rt sid rid = Some d \<Longrightarrow>
    writer_publish env n w d = ((w', d'), r) \<or> writer_fail env n w d = ((w', d'), r) \<Longrightarrow>
    run_step st (rt, ws) (put_run rt sid rid d', ((sid, rid), w') # remove1 ((sid, rid), w) ws)"
| added: "store_addArtifact env hp st sid rid name content rt = (rt', r) \<Longrightarrow> run_step st (rt, ws) (rt', ws)"
| provenance: "recordFinalizeProvenance env hp st sid rid p rt = (rt', r) \<Longrightarrow> run_step st (rt, ws) (rt', ws)"
| pruned: "pruneReviewRuns now ttl maxRuns rt = (rt', s) \<Longrightarrow> run_step st (rt, ws) (rt', ws)"
| recovered: "recoverInterruptedRuns envs ttl rt = (rt', res) \<Longrightarrow> run_step st (rt, ws) (rt', ws)"

inductive_cases run_stepE: "run_step st (rt, ws) (rt', ws')"

definition runs_inv :: "run_store \<Rightarrow> review_root \<times> ((string \<times> string) \<times> run_writer) list \<Rightarrow> bool" where
  "runs_inv st s = (root_ok st (fst s) \<and> list_all (\<lambda>(k, w). writer_ok st k w) (snd s))"

lemma create_ok:
  assumes "createRun env st rid created sid base tip rt = (rt', r)" "root_ok st rt"
  shows "root_ok st rt' \<and> (\<forall>w. r = Inr w \<longrightarrow> writer_ok st (sid, rid) w)"
proof -
  let ?c = "bindR (assertWritable st) (\<lambda>_.
       bindR (assertRunAdmission st rt sid) (\<lambda>_.
       bindR (normalizeObjectId base) (\<lambda>base.
       bindR (normalizeObjectId tip) (\<lambda>tip.
       bindR (assertReviewRunId (JStr rid)) (\<lambda>_.
       bindR (owned_run_dir (pe_now env) rt sid rid) (\<lambda>d. Inr (base, tip, d)))))))"
  show ?thesis
  proof (cases ?c)
    case (Inl e)
    with assms show ?thesis by (auto simp: createRun_def)
  next
    case (Inr b)
    obtain b0 t0 d where b: "b = (b0, t0, d)" by (cases b)
    from Inr have n: "normalizeObjectId base = Inr b0" "normalizeObjectId tip = Inr t0" "owned_run_dir (pe_now env) rt sid rid = Inr d"
      and q: "run_count rt sid < rc_maxPerSession (ss_caps st)"
      unfolding b bindR_eq_Inr by (auto simp: assertRunAdmission_def countRunsForSession_def bindR_eq_Inr split: option.splits session_entry.splits)
    have oid: "object_id_ok b0" "object_id_ok t0"
      using n(1,2) by (auto simp: normalizeObjectId_def object_id_ok_def bindR_eq_Inr split: js.splits)
    have d: "run_dir_ok st sid rid d"
      using n(3) assms(2) by (auto simp: owned_run_dir_def new_run_dir_def run_dir_ok_def root_ok_def find_run_def split: option.splits run_entry.splits)
    have rec: "record_ok st sid rid (new_run_record st sid rid created b0 t0)"
      using oid by (simp add: record_ok_def new_run_record_def artifact_bytes_def)
    obtain w d' x where w: "new_writer env 0 (new_run_record st sid rid created b0 t0) (ss_caps st) d = ((w, d'), x)" by (metis surj_pair)
    from new_writer_ok [OF w rec d] have ok: "run_dir_ok st sid rid d'" "writer_ok st (sid, rid) w" by auto
    have "rt' = put_run rt sid rid d'" "r = bindR x (\<lambda>_. Inr w)" using assms(1) Inr w by (auto simp: createRun_def b)
    with ok root_ok_put [OF assms(2) ok(1)] q show ?thesis by (auto simp: bindR_eq_Inr)
  qed
qed

text \<open>The first checks of the operations that change a run by its identifier.\<close>

lemma read_found_ok:
  assumes "bindR (assertWritable st) (\<lambda>_.
       bindR (store_readRecord env hp st rt sid rid) (\<lambda>r.
       case find_run rt sid (js_str rid) of None \<Rightarrow> Inl io_error | Some d \<Rightarrow> Inr (r, d))) = Inr (r, d)" "root_ok st rt"
  shows "find_run rt sid (js_str rid) = Some d \<and> record_ok st sid (js_str rid) r \<and> run_dir_ok st sid (js_str rid) d"
proof -
  have "store_readRecord env hp st rt sid rid = Inr r" "find_run rt sid (js_str rid) = Some d"
    using assms(1) by (auto simp: bindR_eq_Inr split: option.splits)
  with read_record_ok [OF assms(2)] show ?thesis by blast
qed

lemma root_ok_replace: "root_ok st rt \<Longrightarrow> find_run rt sid rid = Some d \<Longrightarrow> run_dir_ok st sid rid d' \<Longrightarrow> root_ok st (put_run rt sid rid d')"
  by (rule root_ok_put) auto

lemma add_publishing_ok:
  assumes "new_writer env 0 r (ss_caps st) d = ((w, d1), r1)" "writer_addArtifact env 1 name content w d1 = ((w', d2), r2)"
    and "record_ok st sid rid r" "run_dir_ok st sid rid d"
  shows "run_dir_ok st sid rid d1 \<and> run_dir_ok st sid rid d2"
  using new_writer_ok [OF assms(1,3,4)] writer_add_ok [OF assms(2)] by blast

lemma add_published_ok:
  assumes "publishArtifactAtomic env 0 name (DataFile content) d = (d1, Inr a)"
    and "publishValidatedArtifactAtomic env 1 REVIEW_RUN_METADATA_NAME (RecordFile (r\<lparr>rr_artifacts := rr_artifacts r @ [a]\<rparr>)) d1 = (d2, r2)"
    and "assertReviewRunArtifactName name = Inr u" "cap_check (ss_caps st) (artifact_bytes (rr_artifacts r)) (length content) = Inr v"
    and "record_ok st sid rid r" "run_dir_ok st sid rid d"
  shows "run_dir_ok st sid rid d2"
proof -
  have "record_ok st sid rid (r\<lparr>rr_artifacts := rr_artifacts r @ [a]\<rparr>)"
    using record_ok_add [OF assms(5,3,4)] publishArtifact_Inr [OF assms(1)] by simp
  with publish_record_ok [OF assms(2) publish_data_ok [OF assms(1,6)]] show ?thesis by simp
qed

lemma store_add_ok:
  assumes "store_addArtifact env hp st sid rid name content rt = (rt', x)" "root_ok st rt"
  shows "root_ok st rt'"
proof (cases "bindR (assertWritable st) (\<lambda>_.
       bindR (store_readRecord env hp st rt sid rid) (\<lambda>r.
       case find_run rt sid (js_str rid) of None \<Rightarrow> Inl io_error | Some d \<Rightarrow> Inr (r, d)))")
  case (Inl e)
  with assms show ?thesis by (simp add: store_addArtifact_def)
next
  case (Inr b)
  obtain r d where b: "b = (r, d)" by (cases b)
  note f = read_found_ok [OF Inr [unfolded b] assms(2)]
  have put: "root_ok st (put_run rt sid (js_str rid) e)" if "run_dir_ok st sid (js_str rid) e" for e
    using root_ok_replace [OF assms(2)] f that by blast
  note eq = assms(1) [unfolded store_addArtifact_def Inr b sum.case prod.case]
  show ?thesis
  proof (cases "rr_state r")
    case Publishing
    obtain w d1 r1 where w: "new_writer env 0 r (ss_caps st) d = ((w, d1), r1)" by (metis surj_pair)
    obtain w' d2 r2 where a: "writer_addArtifact env 1 name content w d1 = ((w', d2), r2)" by (metis surj_pair)
    have "rt' = put_run rt sid (js_str rid) d1 \<or> rt' = put_run rt sid (js_str rid) d2"
      using eq Publishing w a by (auto split: sum.splits)
    with add_publishing_ok [OF w a] f put show ?thesis by blast
  next
    case PublishedRun
    obtain d1 r1 where p: "publishArtifactAtomic env 0 name (DataFile content) d = (d1, r1)" by fastforce
    show ?thesis
    proof (cases "bindR (assertReviewRunArtifactName name) (\<lambda>_. cap_check (ss_caps st) (artifact_bytes (rr_artifacts r)) (length content))")
      case (Inl e)
      with eq PublishedRun assms(2) show ?thesis by simp
    next
      case c: (Inr u)
      show ?thesis
      proof (cases r1)
        case (Inl e)
        with eq PublishedRun c p publish_data_ok [OF p] f put show ?thesis by auto
      next
        case a: (Inr a)
        obtain d2 r2 where q: "publishValidatedArtifactAtomic env 1 REVIEW_RUN_METADATA_NAME (RecordFile (r\<lparr>rr_artifacts := rr_artifacts r @ [a]\<rparr>)) d1 = (d2, r2)"
          by fastforce
        from c have "run_dir_ok st sid (js_str rid) d2"
          unfolding bindR_eq_Inr using add_published_ok [OF p [unfolded a] q] f by blast
        with eq PublishedRun c p a q put show ?thesis by auto
      qed
    qed
  next
    case FailedRun
    with eq assms(2) show ?thesis by simp
  qed
qed

lemma provenance_ok:
  assumes "recordFinalizeProvenance env hp st sid rid p rt = (rt', x)" "root_ok st rt"
  shows "root_ok st rt'"
proof (cases "bindR (assertWritable st) (\<lambda>_.
       bindR (store_readRecord env hp st rt sid rid) (\<lambda>r.
       case find_run rt sid (js_str rid) of None \<Rightarrow> Inl io_error | Some d \<Rightarrow> Inr (r, d)))")
  case (Inl e)
  with assms show ?thesis by (simp add: recordFinalizeProvenance_def)
next
  case (Inr b)
  obtain r d where b: "b = (r, d)" by (cases b)
  note f = read_found_ok [OF Inr [unfolded b] assms(2)]
  obtain d1 r1 where q: "publishValidatedArtifactAtomic env 0 REVIEW_RUN_METADATA_NAME (RecordFile (r\<lparr>rr_finalizeProvenance := Some p\<rparr>)) d = (d1, r1)" by fastforce
  have "run_dir_ok st sid (js_str rid) d1" using publish_record_ok [OF q] f by auto
  moreover have "rt' = put_run rt sid (js_str rid) d1" using assms(1) Inr b q by (auto simp: recordFinalizeProvenance_def)
  ultimately show ?thesis using root_ok_replace [OF assms(2)] f by blast
qed

lemma prune_ok: "pruneReviewRuns now ttl maxRuns rt = (rt', s) \<Longrightarrow> root_ok st rt \<Longrightarrow> root_ok st rt'"
proof -
  have "root_ok st rt \<Longrightarrow> root_ok st (fold (\<lambda>((sid, rid), _) t. remove_run t sid rid) xs rt)" for xs :: "(run_ref \<times> prune_reason \<times> run_state option) list"
    by (induction xs arbitrary: rt) (auto intro: root_ok_remove)
  then show "pruneReviewRuns now ttl maxRuns rt = (rt', s) \<Longrightarrow> root_ok st rt \<Longrightarrow> root_ok st rt'"
    by (auto simp: pruneReviewRuns_def Let_def)
qed

definition found_in :: "run_store \<Rightarrow> discovered_run \<Rightarrow> bool" where
  "found_in st x = (\<forall>r. dr_record x = Some r \<longrightarrow> record_ok st (dr_sessionID x) (dr_runId x) r)"

lemma recover_ok:
  assumes "recover_runs env ttl xs n recovered rt = (rt', x)" "root_ok st rt" "list_all (found_in st) xs"
  shows "root_ok st rt'"
  using assms
proof (induction xs arbitrary: n recovered rt)
  case Nil
  then show ?case by simp
next
  case (Cons y ys)
  show ?case
  proof (cases "\<exists>r d. dr_record y = Some r \<and> rr_state r = Publishing \<and> \<not> pe_now (env n) - dr_mtimeMs y \<le> ttl \<and> find_run rt (dr_sessionID y) (dr_runId y) = Some d")
    case False
    with Cons show ?thesis by (auto split: option.splits if_splits)
  next
    case True
    then obtain r d where r: "dr_record y = Some r" "rr_state r = Publishing" "\<not> pe_now (env n) - dr_mtimeMs y \<le> ttl" "find_run rt (dr_sessionID y) (dr_runId y) = Some d" by blast
    let ?r = "r\<lparr>rr_failureReason := Some ''interrupted''\<rparr>"
    obtain w d1 r1 where w: "new_writer (env n) 0 ?r DEFAULT_REVIEW_RUN_CAPS d = ((w, d1), r1)" by (metis surj_pair)
    obtain w' d2 r2 where f: "writer_fail (env n) 1 w d1 = ((w', d2), r2)" by (metis surj_pair)
    have rec: "record_ok st (dr_sessionID y) (dr_runId y) ?r" using Cons.prems(3) r(1) by (simp add: found_in_def)
    have d: "run_dir_ok st (dr_sessionID y) (dr_runId y) d" using Cons.prems(2) r(4) by (simp add: root_ok_def)
    have d1: "run_dir_ok st (dr_sessionID y) (dr_runId y) d1" using new_writer_ok [OF w rec d] by simp
    have wr: "record_ok st (dr_sessionID y) (dr_runId y) (wr_record w)"
      using w rec by (auto simp: new_writer_def writer_persist_def Let_def split: prod.splits)
    obtain q where q: "publishValidatedArtifactAtomic (env n) 1 REVIEW_RUN_METADATA_NAME (RecordFile ((wr_record w)\<lparr>rr_state := FailedRun\<rparr>)) d1 = (d2, q)"
      using f by (auto simp: writer_fail_def writer_persist_def Let_def split: prod.splits)
    have d2: "run_dir_ok st (dr_sessionID y) (dr_runId y) d2" using publish_record_ok [OF q d1] wr by auto
    have put: "root_ok st (put_run rt (dr_sessionID y) (dr_runId y) d1)" "root_ok st (put_run rt (dr_sessionID y) (dr_runId y) d2)"
      using root_ok_replace [OF Cons.prems(2) r(4)] d1 d2 by auto
    show ?thesis
    proof (cases "\<exists>a b. r1 = Inr a \<and> r2 = Inr b")
      case True
      then have "recover_runs env ttl ys (n + 1) (recovered @ [ref_of y]) (put_run rt (dr_sessionID y) (dr_runId y) d2) = (rt', x)"
        using Cons.prems(1) r w f by (auto simp: Let_def)
      from Cons.IH [OF this put(2)] Cons.prems(3) show ?thesis by simp
    next
      case False
      then have "rt' = put_run rt (dr_sessionID y) (dr_runId y) d1 \<or> rt' = put_run rt (dr_sessionID y) (dr_runId y) d2"
        using Cons.prems(1) r w f by (auto simp: Let_def split: sum.splits)
      with put show ?thesis by blast
    qed
  qed
qed

lemma discovered_found: "root_ok st rt \<Longrightarrow> list_all (found_in st) (discoverRuns rt)"
  by (auto simp: list_all_iff discovered_mem root_ok_def found_in_def run_dir_ok_def readRunRecord_Some eq_commute [of _ "readRunRecord _"])

interpretation review_runs: transition_system "\<lambda>(rt, ws). root_ok st rt \<and> ws = []" "run_step st" "runs_inv st" for st
proof
  fix s :: "review_root \<times> ((string \<times> string) \<times> run_writer) list"
  show "case s of (rt, ws) \<Rightarrow> root_ok st rt \<and> ws = [] \<Longrightarrow> runs_inv st s" by (auto simp: runs_inv_def)
next
  fix s t :: "review_root \<times> ((string \<times> string) \<times> run_writer) list"
  assume inv: "runs_inv st s" and step: "run_step st s t"
  obtain rt ws rt' ws' where eq: "s = (rt, ws)" "t = (rt', ws')" by fastforce
  have ok: "root_ok st rt" and w: "\<And>k w. (k, w) \<in> set ws \<Longrightarrow> writer_ok st k w" using inv by (auto simp: eq runs_inv_def list_all_iff)
  have keep: "runs_inv st (r, ws)" if "root_ok st r" for r using that w by (auto simp: runs_inv_def list_all_iff)
  have replace: "runs_inv st (r, (k, v) # remove1 (k', v') ws)" if "root_ok st r" "writer_ok st k v" for r k v k' v'
    using that w by (auto simp: runs_inv_def list_all_iff dest: set_remove1_subset [THEN subsetD])
  from step show "runs_inv st t" unfolding eq
  proof (elim run_stepE)
    fix env rid created sid base tip w
    assume "createRun env st rid created sid base tip rt = (rt', Inr w)" "ws' = ((sid, rid), w) # ws"
    with create_ok [of env st rid created sid base tip rt rt' "Inr w"] ok keep show "runs_inv st (rt', ws')" by (simp add: runs_inv_def)
  next
    fix k v paths bytes
    assume "rt' = rt" "ws' = (k, v\<lparr>wr_record := (wr_record v)\<lparr>rr_changedPaths := paths, rr_totalBytes := bytes\<rparr>\<rparr>) # remove1 (k, v) ws" "(k, v) \<in> set ws"
    with ok replace w [of k v] show "runs_inv st (rt', ws')" by (simp add: writer_ok_def)
  next
    fix sid rid v d env n name content v' d' r
    assume t: "rt' = put_run rt sid rid d'" "ws' = ((sid, rid), v') # remove1 ((sid, rid), v) ws" "((sid, rid), v) \<in> set ws" "find_run rt sid rid = Some d"
      and a: "writer_addArtifact env n name content v d = ((v', d'), r)"
    have "run_dir_ok st sid rid d" using ok t(4) by (simp add: root_ok_def)
    from writer_add_ok [OF a w [OF t(3)] this] root_ok_replace [OF ok t(4)] replace show "runs_inv st (rt', ws')" unfolding t by blast
  next
    fix sid rid v d env n v' d' r
    assume t: "rt' = put_run rt sid rid d'" "ws' = ((sid, rid), v') # remove1 ((sid, rid), v) ws" "((sid, rid), v) \<in> set ws" "find_run rt sid rid = Some d"
      and a: "writer_publish env n v d = ((v', d'), r) \<or> writer_fail env n v d = ((v', d'), r)"
    have "run_dir_ok st sid rid d" using ok t(4) by (simp add: root_ok_def)
    moreover from a obtain q where "writer_persist env n q v d = ((v', d'), r)" by (auto simp: writer_publish_def writer_fail_def)
    ultimately show "runs_inv st (rt', ws')" unfolding t using persist_ok w [OF t(3)] root_ok_replace [OF ok t(4)] replace by blast
  qed (use ok keep in \<open>auto dest: create_ok store_add_ok provenance_ok prune_ok simp: recoverInterruptedRuns_def intro: recover_ok [OF _ _ discovered_found]\<close>)
qed

text \<open>
  C8. Every record of the store is well formed, owned and within the caps: from a store in
  which this holds, under every interleaving of the operations and every fault of a
  publication, each record file names the session and the run of its directory, carries
  the project of the store and full object identifiers, and lists artifacts with safe
  names that are not the name of the record, each within the file cap and together within
  the run cap; and no session has more runs than its quota.
\<close>

theorem review_records_well_formed:
  assumes "root_ok st rt" "(run_step st)\<^sup>*\<^sup>* (rt, []) (rt', ws)"
  shows "(\<forall>sid rid d f r. find_run rt' sid rid = Some d \<and> rd_files d f = Some (RecordFile r) \<longrightarrow> record_ok st sid rid r) \<and>
    (\<forall>sid. run_count rt' sid \<le> rc_maxPerSession (ss_caps st))"
proof -
  have "runs_inv st (rt', ws)" by (rule review_runs.invar_reachable [OF _ assms(2)]) (simp add: assms(1))
  then show ?thesis by (auto simp: runs_inv_def root_ok_def run_dir_ok_def)
qed

section \<open>Retention\<close>

lemma expire_pass_eq:
  "expire_pass now ttl xs (pruned, kept) = (pruned @ map (removed_run Expired) (filter (\<lambda>x. \<not> now - dr_mtimeMs x \<le> ttl \<and> \<not> isOpenRun x) xs),
     fold note_open (filter (\<lambda>x. \<not> now - dr_mtimeMs x \<le> ttl \<and> isOpenRun x) xs) kept)"
  by (induction xs arbitrary: pruned kept) auto

text \<open>The second pass removes the first runs that are not open, as many as are in excess.\<close>

lemma bound_pass_eq:
  "fst (bound_pass excess xs (pruned, kept)) = pruned @ map (removed_run OverBound) (take (nat excess) (filter (\<lambda>x. \<not> isOpenRun x) xs))"
proof (induction xs arbitrary: excess pruned kept)
  case (Cons x xs)
  show ?case
  proof (cases "excess \<le> 0")
    case False
    then have "nat excess = Suc (nat (excess - 1))" by simp
    with Cons False show ?thesis by simp
  qed simp
qed simp

lemma distinct_concat_keys:
  assumes "distinct (map fst es)" "\<And>e. e \<in> set es \<Longrightarrow> distinct (map ref_of (g e))" "\<And>e x. e \<in> set es \<Longrightarrow> x \<in> set (g e) \<Longrightarrow> k (ref_of x) = fst e"
  shows "distinct (map ref_of (concat (map g es)))"
  using assms
proof (induction es)
  case (Cons e es)
  have "ref_of x \<noteq> ref_of y" if "x \<in> set (g e)" "e' \<in> set es" "y \<in> set (g e')" for x y e'
  proof
    assume eq: "ref_of x = ref_of y"
    have "fst e = fst e'" using Cons.prems(3) [of e x] Cons.prems(3) [of e' y] that eq by simp
    with Cons.prems(1) that(2) show False by auto
  qed
  then have "set (map ref_of (g e)) \<inter> set (map ref_of (concat (map g es))) = {}" by fastforce
  moreover have "distinct (map ref_of (concat (map g es)))" by (rule Cons.IH) (use Cons.prems in auto)
  ultimately show ?case using Cons.prems(2) [of e] by (simp del: set_map)
qed simp

lemma distinct_refs: "names_ok rt \<Longrightarrow> distinct (map ref_of (discoverRuns rt))"
proof -
  assume ok: "names_ok rt"
  have one: "distinct (map ref_of (discover_run sid e))" for sid e by (cases "(sid, e)" rule: discover_run.cases) auto
  have "distinct (map ref_of (discover_session e))" if "e \<in> set rt" for e
  proof (cases e rule: discover_session.cases)
    case (1 sid es)
    then have "distinct (map fst es)" using ok that by (auto simp: names_ok_def list_all_iff)
    then have "distinct (map ref_of (concat (map (discover_run sid) es)))"
      by (rule distinct_concat_keys [where k = snd]) (use one in \<open>auto simp: discover_run_mem ref_of_def\<close>)
    with 1 show ?thesis by simp
  qed simp
  then show ?thesis
    unfolding discoverRuns_def by (intro distinct_concat_keys [where k = fst]) (use ok in \<open>auto simp: names_ok_def discover_session_mem discover_run_mem ref_of_def\<close>)
qed

lemma find_run_fold_remove:
  "find_run (fold (\<lambda>((sid, rid), _) t. remove_run t sid rid) ps rt) s r = (if (s, r) \<in> fst ` set ps then None else find_run rt s r)"
  by (induction ps arbitrary: rt) (auto simp: find_run_remove)

lemma names_ok_fold_remove: "names_ok rt \<Longrightarrow> names_ok (fold (\<lambda>((sid, rid), _) t. remove_run t sid rid) ps rt)"
  by (induction ps arbitrary: rt) (auto simp: names_ok_remove)

definition prune_expired :: "int \<Rightarrow> int \<Rightarrow> discovered_run \<Rightarrow> bool" where
  "prune_expired now ttl x = (\<not> now - dr_mtimeMs x \<le> ttl \<and> \<not> isOpenRun x)"

definition prune_rest :: "int \<Rightarrow> int \<Rightarrow> discovered_run list \<Rightarrow> discovered_run list" where
  "prune_rest now ttl xs = sort_key dr_mtimeMs (filter (\<lambda>x. \<not> prune_expired now ttl x) xs)"

definition prune_victims :: "int \<Rightarrow> int \<Rightarrow> int \<Rightarrow> discovered_run list \<Rightarrow> discovered_run list" where
  "prune_victims now ttl maxRuns xs = take (nat (int (length (prune_rest now ttl xs)) - maxRuns)) (filter (\<lambda>x. \<not> isOpenRun x) (prune_rest now ttl xs))"

lemma removed_refs: "fst ` set (map (removed_run reason) xs) = ref_of ` set xs"
  by (auto simp: removed_run_def image_iff)

text \<open>The plan as a specification: what expired, then the oldest in excess.\<close>

lemma prune_plan_eq:
  assumes d: "distinct (map ref_of xs)"
  shows "fst (prune_plan now ttl maxRuns xs) =
    map (removed_run Expired) (filter (prune_expired now ttl) xs) @ map (removed_run OverBound) (prune_victims now ttl maxRuns xs)"
proof -
  have inj: "x = y" if "x \<in> set xs" "y \<in> set xs" "ref_of x = ref_of y" for x y using d that by (auto simp: distinct_map inj_on_def)
  let ?s = "expire_pass now ttl xs ([], [])"
  have s: "fst ?s = map (removed_run Expired) (filter (prune_expired now ttl) xs)" by (simp add: expire_pass_eq prune_expired_def [abs_def])
  have "remaining_runs xs ?s = filter (\<lambda>x. \<not> prune_expired now ttl x) xs"
    unfolding remaining_runs_def s removed_refs by (rule filter_cong [OF refl]) (auto dest: inj)
  then have "fst (prune_plan now ttl maxRuns xs) = fst (bound_pass (int (length (prune_rest now ttl xs)) - maxRuns) (prune_rest now ttl xs) (fst ?s, snd ?s))"
    by (simp add: prune_plan_def Let_def prune_rest_def)
  then show ?thesis by (simp only: bound_pass_eq s prune_victims_def)
qed

lemma sorted_take_oldest:
  "sorted (map f zs) \<Longrightarrow> x \<in> set (take n zs) \<Longrightarrow> y \<in> set zs \<Longrightarrow> y \<notin> set (take n zs) \<Longrightarrow> f x \<le> (f y :: int)"
proof -
  assume s: "sorted (map f zs)" and x: "x \<in> set (take n zs)" and y: "y \<in> set zs" "y \<notin> set (take n zs)"
  have "y \<in> set (drop n zs)" using y by (metis Un_iff append_take_drop_id set_append)
  moreover have "sorted (map f (take n zs) @ map f (drop n zs))" using s by (metis append_take_drop_id map_append)
  ultimately show ?thesis using x by (auto simp: sorted_append)
qed

lemma length_filter_split: "length xs = length (filter P xs) + length (filter (\<lambda>x. \<not> P x) xs)"
  by (induction xs) auto

lemma prune_survivors:
  assumes "distinct (map ref_of xs)" "0 \<le> maxRuns"
  shows "int (length (filter (\<lambda>x. ref_of x \<notin> fst ` set (fst (prune_plan now ttl maxRuns xs))) xs)) \<le> max maxRuns (int (length (filter isOpenRun xs)))"
proof -
  let ?r = "prune_rest now ttl xs" and ?v = "prune_victims now ttl maxRuns xs" and ?e = "filter (prune_expired now ttl) xs"
  let ?gone = "fst ` set (fst (prune_plan now ttl maxRuns xs))"
  have inj: "inj_on ref_of (set xs)" and dx: "distinct xs" using assms(1) by (auto simp: distinct_map)
  have v: "set ?v \<subseteq> set ?r" "distinct ?v" "set ?v \<subseteq> set xs"
    using dx set_take_subset by (fastforce simp: prune_victims_def prune_rest_def)+
  have gone: "?gone = ref_of ` (set ?e \<union> set ?v)" unfolding prune_plan_eq [OF assms(1)] set_append image_Un removed_refs ..
  have "ref_of x \<notin> ?gone \<longleftrightarrow> \<not> prune_expired now ttl x \<and> x \<notin> set ?v" if "x \<in> set xs" for x
    unfolding gone using inj that v(3) by (auto dest: inj_onD)
  then have "filter (\<lambda>x. ref_of x \<notin> ?gone) xs = filter (\<lambda>x. \<not> prune_expired now ttl x \<and> x \<notin> set ?v) xs" by (rule filter_cong [OF refl])
  then have "length (filter (\<lambda>x. ref_of x \<notin> ?gone) xs) = card (set (filter (\<lambda>x. \<not> prune_expired now ttl x \<and> x \<notin> set ?v) xs))"
    using dx by (simp add: distinct_card [symmetric])
  also have "set (filter (\<lambda>x. \<not> prune_expired now ttl x \<and> x \<notin> set ?v) xs) = set ?r - set ?v" by (auto simp: prune_rest_def)
  also have "card (set ?r - set ?v) = length ?r - length ?v"
  proof -
    have "distinct ?r" using dx by (simp add: prune_rest_def)
    then show ?thesis using v(1,2) by (simp only: card_Diff_subset [OF _ v(1)] distinct_card finite_set)
  qed
  finally have l: "length (filter (\<lambda>x. ref_of x \<notin> ?gone) xs) = length ?r - length ?v" .
  have c: "length ?r = length (filter isOpenRun ?r) + length (filter (\<lambda>x. \<not> isOpenRun x) ?r)" by (rule length_filter_split)
  have o: "length (filter isOpenRun ?r) \<le> length (filter isOpenRun xs)"
    by (simp add: prune_rest_def filter_sort length_filter_filter del: filter_filter)
  have lv: "length ?v = min (nat (int (length ?r) - maxRuns)) (length (filter (\<lambda>x. \<not> isOpenRun x) ?r))" by (simp add: prune_victims_def min.commute)
  define n m k where "n = length ?r" and "m = length (filter (\<lambda>x. \<not> isOpenRun x) ?r)" and "k = length (filter isOpenRun xs)"
  have "n - min (nat (int n - maxRuns)) m \<le> nat maxRuns \<or> n - min (nat (int n - maxRuns)) m \<le> k"
    using c o unfolding n_def [symmetric] m_def [symmetric] k_def [symmetric] by arith
  then show ?thesis unfolding l lv n_def m_def k_def using assms(2) by arith
qed


section \<open>Reading back\<close>

lemma persist_Inr:
  assumes "writer_persist env n s w d = ((w', d'), Inr u)"
  shows "w' = w\<lparr>wr_record := (wr_record w)\<lparr>rr_state := s\<rparr>\<rparr> \<and> rd_files d' = (rd_files d)(REVIEW_RUN_METADATA_NAME \<mapsto> RecordFile ((wr_record w)\<lparr>rr_state := s\<rparr>))"
proof -
  obtain a where "publishValidatedArtifactAtomic env n REVIEW_RUN_METADATA_NAME (RecordFile ((wr_record w)\<lparr>rr_state := s\<rparr>)) d = (d', Inr a)"
    and w: "w' = w\<lparr>wr_record := (wr_record w)\<lparr>rr_state := s\<rparr>\<rparr>"
    using assms by (auto simp: writer_persist_def Let_def bindR_eq_Inr split: prod.splits)
  from publish_files(2) [OF this(1) refl] w show ?thesis by simp
qed

text \<open>The files of a run after an artifact was added: the artifact, and the record that lists it last.\<close>

lemma writer_add_Inr:
  assumes "writer_addArtifact env n name content w d = ((w', d'), Inr a)"
  shows "assertReviewRunArtifactName name = Inr () \<and> length content \<le> rc_maxFileBytes (wr_caps w) \<and> rr_state (wr_record w) = Publishing \<and>
    a = \<lparr>ra_name = js_str name, ra_bytes = length content, ra_sha256 = pe_sha env (DataFile content)\<rparr> \<and>
    (\<exists>r. rr_artifacts r = rr_artifacts (wr_record w) @ [a] \<and> rr_state r = Publishing \<and>
       rd_files d' = (rd_files d)(js_str name \<mapsto> DataFile content, REVIEW_RUN_METADATA_NAME \<mapsto> RecordFile r))"
proof -
  let ?w = "\<lambda>a. w\<lparr>wr_record := (wr_record w)\<lparr>rr_artifacts := rr_artifacts (wr_record w) @ [a]\<rparr>, wr_totalBytes := wr_totalBytes w + length content\<rparr>"
  have g: "assertReviewRunArtifactName name = Inr ()" "rr_state (wr_record w) = Publishing" "length content \<le> rc_maxFileBytes (wr_caps w)"
    using assms by (auto simp: writer_addArtifact_def bindR_eq_Inr cap_check_def split: sum.splits)
  obtain d1 where p: "publishArtifactAtomic env n name (DataFile content) d = (d1, Inr a)"
    and q: "writer_persist env (n + 1) Publishing (?w a) d1 = ((w', d'), Inr ())"
    using assms by (auto simp: writer_addArtifact_def bindR_eq_Inr split: sum.splits prod.splits)
  have "publishValidatedArtifactAtomic env n (js_str name) (DataFile content) d = (d1, Inr a)"
    using p g(1) by (simp add: publishArtifactAtomic_def)
  from publish_files(2) [OF this refl] persist_Inr [OF q] g show ?thesis
    by (intro conjI exI [of _ "(wr_record w)\<lparr>rr_artifacts := rr_artifacts (wr_record w) @ [a], rr_state := Publishing\<rparr>"]) simp_all
qed

lemma store_add_Inr:
  assumes "store_addArtifact env hp st sid rid name content rt = (rt', Inr a)"
  shows "assertReviewRunArtifactName name = Inr () \<and> length content \<le> rc_maxFileBytes (ss_caps st) \<and>
    a = \<lparr>ra_name = js_str name, ra_bytes = length content, ra_sha256 = pe_sha env (DataFile content)\<rparr> \<and>
    (\<exists>r0 r d d'. store_readRecord env hp st rt sid rid = Inr r0 \<and> find_run rt sid (js_str rid) = Some d \<and> find_run rt' sid (js_str rid) = Some d' \<and>
       rr_artifacts r = rr_artifacts r0 @ [a] \<and> rr_state r = rr_state r0 \<and> rr_state r0 \<noteq> FailedRun \<and>
       rd_files d' = (rd_files d)(js_str name \<mapsto> DataFile content, REVIEW_RUN_METADATA_NAME \<mapsto> RecordFile r))"
proof -
  obtain r d where rd: "store_readRecord env hp st rt sid rid = Inr r" "find_run rt sid (js_str rid) = Some d" "assertWritable st = Inr ()"
    using assms by (auto simp: store_addArtifact_def bindR_eq_Inr split: sum.splits option.splits)
  note eq = assms [unfolded store_addArtifact_def rd bindR_simps option.case sum.case prod.case]
  show ?thesis
  proof (cases "rr_state r")
    case Publishing
    obtain w d1 r1 where w: "new_writer env 0 r (ss_caps st) d = ((w, d1), r1)" by (metis surj_pair)
    obtain w' d2 r2 where a: "writer_addArtifact env 1 name content w d1 = ((w', d2), r2)" by (metis surj_pair)
    have r1: "r1 = Inr ()" and r2: "r2 = Inr a" and t: "rt' = put_run rt sid (js_str rid) d2"
      using eq Publishing w a by (auto split: sum.splits)
    have same: "r\<lparr>rr_state := Publishing\<rparr> = r" using Publishing by (cases r) simp
    from persist_Inr [OF w [unfolded new_writer_def r1]] have w: "wr_record w = r" "wr_caps w = ss_caps st"
      "rd_files d1 = (rd_files d)(REVIEW_RUN_METADATA_NAME \<mapsto> RecordFile r)" by (simp_all add: same)
    from writer_add_Inr [OF a [unfolded r2]] w rd Publishing show ?thesis unfolding t find_run_put by (force simp: fun_upd_twist)
  next
    case PublishedRun
    have c: "assertReviewRunArtifactName name = Inr ()" "length content \<le> rc_maxFileBytes (ss_caps st)"
      using eq PublishedRun by (auto simp: bindR_eq_Inr cap_check_def split: sum.splits)
    obtain d1 where p: "publishArtifactAtomic env 0 name (DataFile content) d = (d1, Inr a)"
      using eq PublishedRun by (auto simp: bindR_eq_Inr split: sum.splits prod.splits)
    let ?r = "r\<lparr>rr_artifacts := rr_artifacts r @ [a]\<rparr>"
    obtain d2 r2 where q: "publishValidatedArtifactAtomic env 1 REVIEW_RUN_METADATA_NAME (RecordFile ?r) d1 = (d2, r2)" by fastforce
    have t: "rt' = put_run rt sid (js_str rid) d2" and "bindR r2 (\<lambda>_. Inr a) = Inr a"
      using eq PublishedRun p q by (auto split: sum.splits)
    then obtain b where b: "r2 = Inr b" by (auto simp: bindR_eq_Inr)
    have p': "publishValidatedArtifactAtomic env 0 (js_str name) (DataFile content) d = (d1, Inr a)" using p c(1) by (simp add: publishArtifactAtomic_def)
    have "find_run rt' sid (js_str rid) = Some d2" by (simp add: t find_run_put)
    moreover have "rd_files d2 = (rd_files d)(js_str name \<mapsto> DataFile content, REVIEW_RUN_METADATA_NAME \<mapsto> RecordFile ?r)"
      using publish_files(2) [OF p' refl] publish_files(2) [OF q [unfolded b] refl] by simp
    moreover have "rr_artifacts ?r = rr_artifacts r @ [a]" "rr_state ?r = rr_state r" by simp_all
    ultimately show ?thesis using c rd PublishedRun publishArtifact_Inr [OF p]
      by (intro conjI exI [of _ r] exI [of _ ?r] exI [of _ d] exI [of _ d2]) simp_all
  next
    case FailedRun
    with eq show ?thesis by simp
  qed
qed

text \<open>
  An artifact that was added reads back: after a successful addition the run holds the
  bytes under that name, a read returns exactly them with the length and the digest that
  the record lists last, the earlier entries of the record and all other files are kept,
  and the run stays in the state it was in, which is not failed.
\<close>

theorem added_artifact_reads_back:
  assumes add: "store_addArtifact env hp st sid rid name content rt = (rt', Inr a)"
    and dir: "store_runDir st sid rid = Inr dir"
    and inside: "contains_path (canon hp dir) (canon hp (join_path dir (js_str name)))"
  shows "readRunArtifact env hp (\<lambda>_. open_in env rt' sid (js_str rid)) dir name (rc_maxFileBytes (ss_caps st)) False =
      Inr \<lparr>rx_name = js_str name, rx_bytes = ra_bytes a, rx_sha256 = ra_sha256 a, rx_data = DataFile content\<rparr> \<and>
    (\<exists>r0 r d d'. store_readRecord env hp st rt sid rid = Inr r0 \<and> find_run rt sid (js_str rid) = Some d \<and> find_run rt' sid (js_str rid) = Some d' \<and>
       rd_files d' REVIEW_RUN_METADATA_NAME = Some (RecordFile r) \<and> rr_artifacts r = rr_artifacts r0 @ [a] \<and> rr_state r = rr_state r0 \<and> rr_state r \<noteq> FailedRun \<and>
       (\<forall>f. f \<noteq> js_str name \<and> f \<noteq> REVIEW_RUN_METADATA_NAME \<longrightarrow> rd_files d' f = rd_files d f))"
proof -
  from store_add_Inr [OF add] obtain r0 r d d' where ok: "assertReviewRunArtifactName name = Inr ()" "length content \<le> rc_maxFileBytes (ss_caps st)"
    "a = \<lparr>ra_name = js_str name, ra_bytes = length content, ra_sha256 = pe_sha env (DataFile content)\<rparr>"
    and f: "store_readRecord env hp st rt sid rid = Inr r0" "find_run rt sid (js_str rid) = Some d" "find_run rt' sid (js_str rid) = Some d'"
      "rr_artifacts r = rr_artifacts r0 @ [a]" "rr_state r = rr_state r0" "rr_state r0 \<noteq> FailedRun"
      "rd_files d' = (rd_files d)(js_str name \<mapsto> DataFile content, REVIEW_RUN_METADATA_NAME \<mapsto> RecordFile r)" by blast
  have n: "is_str REVIEW_RUN_ARTIFACT_NAME_RE name" "\<not> isReservedReviewRunName (js_str name)" using ok(1) by (simp_all add: assert_name_ok)
  then have m: "js_str name \<noteq> REVIEW_RUN_METADATA_NAME" by (auto simp: isReservedReviewRunName_def REVIEW_RUN_RESERVED_NAMES_def)
  have "open_in env rt' sid (js_str rid) (js_str name) = OpenedFile True (length content) (DataFile content)" using m by (simp add: open_in_def f)
  then have "readRunArtifact env hp (\<lambda>_. open_in env rt' sid (js_str rid)) dir name (rc_maxFileBytes (ss_caps st)) False =
      Inr \<lparr>rx_name = js_str name, rx_bytes = ra_bytes a, rx_sha256 = ra_sha256 a, rx_data = DataFile content\<rparr>"
    using n inside ok by (simp add: readRunArtifact_def assertReviewRunArtifactNameGrammar_def Let_def)
  moreover have "rd_files d' REVIEW_RUN_METADATA_NAME = Some (RecordFile r)" "\<forall>f. f \<noteq> js_str name \<and> f \<noteq> REVIEW_RUN_METADATA_NAME \<longrightarrow> rd_files d' f = rd_files d f"
    by (simp_all add: f(7))
  ultimately show ?thesis using f by metis
qed

section \<open>Where the comments promise more\<close>

text \<open>
  A publication that fails can leave files behind: when writing the temporary file
  fails, the file stays, since it is only cleaned up once it is complete; and when the
  directory cannot be synchronised the artifact is in place although the publication
  reports an error.
\<close>

theorem failed_publication_leaves_files:
  assumes "assertReviewRunArtifactName name = Inr ()" "rd_files d (temp_name (js_str name) (pe_random env n)) = None"
  shows "(pe_fault env n = WriteFault written \<longrightarrow>
      (\<exists>d'. publishArtifactAtomic env n name x d = (d', Inl io_error) \<and> rd_files d' (temp_name (js_str name) (pe_random env n)) = Some (DataFile written))) \<and>
    (pe_fault env n = SyncFault \<longrightarrow>
      (\<exists>d'. publishArtifactAtomic env n name x d = (d', Inl io_error) \<and> rd_files d' (js_str name) = Some x))"
  using assms by (simp add: publishArtifactAtomic_def publishValidatedArtifactAtomic_def Let_def)

text \<open>
  A name that is published again is listed twice: the first entry of that name, which the
  reader of diffs takes, carries the digest of bytes that are gone, and both count towards
  the byte cap.
\<close>

theorem republished_name_keeps_stale_entry:
  assumes "store_addArtifact env hp st sid rid name content rt = (rt', Inr a)"
    and "store_readRecord env hp st rt sid rid = Inr r0" "find (\<lambda>x. ra_name x = js_str name) (rr_artifacts r0) = Some old"
    and "ra_sha256 old \<noteq> pe_sha env (DataFile content)"
  shows "\<exists>d r. find_run rt' sid (js_str rid) = Some d \<and> rd_files d REVIEW_RUN_METADATA_NAME = Some (RecordFile r) \<and>
    find (\<lambda>x. ra_name x = js_str name) (rr_artifacts r) = Some old \<and> rd_files d (js_str name) = Some (DataFile content) \<and>
    ra_sha256 old \<noteq> pe_sha env (DataFile content) \<and> artifact_bytes (rr_artifacts r) = artifact_bytes (rr_artifacts r0) + length content"
proof -
  from store_add_Inr [OF assms(1)] obtain r1 r d d' where g: "assertReviewRunArtifactName name = Inr ()"
    "a = \<lparr>ra_name = js_str name, ra_bytes = length content, ra_sha256 = pe_sha env (DataFile content)\<rparr>" "find_run rt' sid (js_str rid) = Some d'"
    "store_readRecord env hp st rt sid rid = Inr r1" "rr_artifacts r = rr_artifacts r1 @ [a]"
    "rd_files d' = (rd_files d)(js_str name \<mapsto> DataFile content, REVIEW_RUN_METADATA_NAME \<mapsto> RecordFile r)" "find_run rt sid (js_str rid) = Some d"
    by blast
  with assms(2) have f: "assertReviewRunArtifactName name = Inr ()" "rr_artifacts r = rr_artifacts r0 @ [a]" by simp_all
  have "js_str name \<noteq> REVIEW_RUN_METADATA_NAME"
    using f(1) by (auto simp: assert_name_ok isReservedReviewRunName_def REVIEW_RUN_RESERVED_NAMES_def)
  moreover have "find P xs = Some y \<Longrightarrow> find P (xs @ ys) = Some y" for P and xs ys :: "run_artifact list" and y by (induction xs) auto
  ultimately show ?thesis using f g assms(3,4) by (intro exI [of _ d'] exI [of _ r]) (simp add: artifact_bytes_def)
qed

section \<open>Concrete runs\<close>

definition demo_run_id :: string where
  "demo_run_id = replicate 32 (CHR ''a'')"

definition demo_run_store :: run_store where
  "demo_run_store = \<lparr>ss_root = ''/s'', ss_projectRoot = ''/p'', ss_caps = \<lparr>rc_maxBytes = 100, rc_maxFileBytes = 50, rc_maxPerSession = 2\<rparr>, ss_readOnly = False\<rparr>"

definition demo_paths :: host_paths where
  "demo_paths = \<lparr>hp_realpath = Some, hp_cwd = ''/'', hp_tmpdir = ''/tmp''\<rparr>"

definition demo_publish :: "(nat \<Rightarrow> publish_fault) \<Rightarrow> publish_env" where
  "demo_publish fault = \<lparr>pe_recordBytes = \<lambda>_. 10, pe_sha = (\<lambda>x. case x of DataFile b \<Rightarrow> b | RecordFile _ \<Rightarrow> []), pe_fault = fault, pe_random = \<lambda>_. ''r'', pe_now = 50\<rparr>"

definition demo_artifact :: run_artifact where
  "demo_artifact = \<lparr>ra_name = ''scope.diff'', ra_bytes = 3, ra_sha256 = ''old''\<rparr>"

definition demo_run_dir :: "run_state \<Rightarrow> int \<Rightarrow> run_dir" where
  "demo_run_dir s t = \<lparr>rd_files = [REVIEW_RUN_METADATA_NAME \<mapsto>
     RecordFile ((new_run_record demo_run_store ''s1'' demo_run_id ''2026'' None None)\<lparr>rr_state := s, rr_artifacts := [demo_artifact]\<rparr>)], rd_mtime = t\<rparr>"

definition demo_review_root :: "run_state \<Rightarrow> int \<Rightarrow> review_root" where
  "demo_review_root s t = [(''s1'', SessionDirectory [(demo_run_id, RunDirectory (demo_run_dir s t))])]"

lemma demo_find: "find_run (demo_review_root s t) sid rid = (if sid = ''s1'' \<and> rid = demo_run_id then Some (demo_run_dir s t) else None)"
  by (simp add: find_run_def session_runs_def demo_review_root_def)

lemma demo_root_ok: "root_ok demo_run_store (demo_review_root s t)"
proof -
  have a: "artifact_ok (ss_caps demo_run_store) demo_artifact" by code_simp
  then have "record_ok demo_run_store ''s1'' demo_run_id ((new_run_record demo_run_store ''s1'' demo_run_id ''2026'' None None)\<lparr>rr_state := s, rr_artifacts := [demo_artifact]\<rparr>)"
    by (simp add: record_ok_def new_run_record_def object_id_ok_def artifact_bytes_def demo_artifact_def demo_run_store_def)
  then have "run_dir_ok demo_run_store ''s1'' demo_run_id (demo_run_dir s t)" by (simp add: run_dir_ok_def demo_run_dir_def)
  moreover have "run_count (demo_review_root s t) sid \<le> rc_maxPerSession (ss_caps demo_run_store)" for sid
    by (simp add: run_count_def session_runs_def demo_review_root_def demo_run_store_def)
  moreover have "names_ok (demo_review_root s t)" by (simp add: names_ok_def demo_review_root_def)
  ultimately show ?thesis unfolding root_ok_def demo_find by auto
qed

lemma demo_added:
  "\<exists>rt a. store_addArtifact (demo_publish (\<lambda>_. NoFault)) demo_paths demo_run_store ''s1'' (JStr demo_run_id) (JStr ''scope.diff'') ''new'' (demo_review_root PublishedRun 0) = (rt, Inr a)"
proof -
  have "case snd (store_addArtifact (demo_publish (\<lambda>_. NoFault)) demo_paths demo_run_store ''s1'' (JStr demo_run_id) (JStr ''scope.diff'') ''new'' (demo_review_root PublishedRun 0)) of
      Inr a \<Rightarrow> True | Inl _ \<Rightarrow> False" by code_simp
  then show ?thesis by (metis (no_types, lifting) old.sum.exhaust old.sum.simps(5) prod.collapse)
qed

text \<open>An artifact is added to a run of the store.\<close>

theorem review_records_well_formed_witness:
  "\<exists>rt. (run_step demo_run_store)\<^sup>*\<^sup>* (demo_review_root PublishedRun 0, []) (rt, []) \<and>
     (\<exists>d r. find_run rt ''s1'' demo_run_id = Some d \<and> rd_files d REVIEW_RUN_METADATA_NAME = Some (RecordFile r) \<and> length (rr_artifacts r) = 2 \<and>
        record_ok demo_run_store ''s1'' demo_run_id r)"
proof -
  obtain rt a where add: "store_addArtifact (demo_publish (\<lambda>_. NoFault)) demo_paths demo_run_store ''s1'' (JStr demo_run_id) (JStr ''scope.diff'') ''new''
      (demo_review_root PublishedRun 0) = (rt, Inr a)" using demo_added by blast
  have run: "(run_step demo_run_store)\<^sup>*\<^sup>* (demo_review_root PublishedRun 0, []) (rt, [])" by (rule r_into_rtranclp, rule run_step.added [OF add])
  obtain r0 r d where r: "store_readRecord (demo_publish (\<lambda>_. NoFault)) demo_paths demo_run_store (demo_review_root PublishedRun 0) ''s1'' (JStr demo_run_id) = Inr r0"
    "find_run rt ''s1'' demo_run_id = Some d" "rr_artifacts r = rr_artifacts r0 @ [a]" "rd_files d REVIEW_RUN_METADATA_NAME = Some (RecordFile r)"
    using store_add_Inr [OF add] by auto
  from readRecord_ok [OF r(1)]
  have "r0 = (new_run_record demo_run_store ''s1'' demo_run_id ''2026'' None None)\<lparr>rr_state := PublishedRun, rr_artifacts := [demo_artifact]\<rparr>"
    by (simp add: demo_find demo_run_dir_def eq_commute)
  then have "length (rr_artifacts r0) = 1" by simp
  with r have "length (rr_artifacts r) = 2" by simp
  with review_records_well_formed [OF demo_root_ok run] r run show ?thesis by blast
qed

text \<open>A publication whose rename fails leaves the old artifact.\<close>

theorem publication_atomic_witness:
  "\<exists>d'. publishArtifactAtomic (demo_publish (\<lambda>_. RenameFault False)) 0 (JStr ''scope.diff'') (DataFile ''new'')
       \<lparr>rd_files = [''scope.diff'' \<mapsto> DataFile ''old''], rd_mtime = 0\<rparr> = (d', Inl io_error) \<and>
     (rd_files d' ''scope.diff'' = Some (DataFile ''old'') \<or> rd_files d' ''scope.diff'' = Some (DataFile ''new''))"
proof -
  have name: "assertReviewRunArtifactName (JStr ''scope.diff'') = Inr ()" by code_simp
  obtain d' where d: "publishArtifactAtomic (demo_publish (\<lambda>_. RenameFault False)) 0 (JStr ''scope.diff'') (DataFile ''new'')
       \<lparr>rd_files = [''scope.diff'' \<mapsto> DataFile ''old''], rd_mtime = 0\<rparr> = (d', Inl io_error)"
    by (simp add: publishArtifactAtomic_def name publishValidatedArtifactAtomic_def demo_publish_def temp_name_def)
  from publication_atomic [OF d] d show ?thesis by auto
qed


text \<open>An artifact is added and read.\<close>

theorem added_artifact_reads_back_witness:
  "\<exists>rt a. store_addArtifact (demo_publish (\<lambda>_. NoFault)) demo_paths demo_run_store ''s1'' (JStr demo_run_id) (JStr ''scope.diff'') ''new''
       (demo_review_root PublishedRun 0) = (rt, Inr a) \<and>
     readRunArtifact (demo_publish (\<lambda>_. NoFault)) demo_paths (\<lambda>_. open_in (demo_publish (\<lambda>_. NoFault)) rt ''s1'' demo_run_id) (''/s/s1/'' @ demo_run_id)
       (JStr ''scope.diff'') 50 False = Inr \<lparr>rx_name = ''scope.diff'', rx_bytes = ra_bytes a, rx_sha256 = ra_sha256 a, rx_data = DataFile ''new''\<rparr>"
proof -
  obtain rt a where add: "store_addArtifact (demo_publish (\<lambda>_. NoFault)) demo_paths demo_run_store ''s1'' (JStr demo_run_id) (JStr ''scope.diff'') ''new''
      (demo_review_root PublishedRun 0) = (rt, Inr a)" using demo_added by blast
  have dir: "store_runDir demo_run_store ''s1'' (JStr demo_run_id) = Inr (''/s/s1/'' @ demo_run_id)" by code_simp
  have inside: "contains_path (canon demo_paths (''/s/s1/'' @ demo_run_id)) (canon demo_paths (join_path (''/s/s1/'' @ demo_run_id) (js_str (JStr ''scope.diff''))))" by code_simp
  from added_artifact_reads_back [OF add dir inside] add show ?thesis by (simp add: demo_run_store_def)
qed

text \<open>A write that fails leaves its temporary file.\<close>

theorem failed_publication_leaves_files_witness:
  "\<exists>d'. publishArtifactAtomic (demo_publish (\<lambda>_. WriteFault ''n'')) 0 (JStr ''scope.diff'') (DataFile ''new'') (new_run_dir 0) = (d', Inl io_error) \<and>
     rd_files d' ''.scope.diff.r.tmp'' = Some (DataFile ''n'')"
proof -
  have name: "assertReviewRunArtifactName (JStr ''scope.diff'') = Inr ()" by code_simp
  have temp: "temp_name (js_str (JStr ''scope.diff'')) (pe_random (demo_publish (\<lambda>_. WriteFault ''n'')) 0) = ''.scope.diff.r.tmp''"
    by (simp add: temp_name_def demo_publish_def)
  have none: "rd_files (new_run_dir 0) (temp_name (js_str (JStr ''scope.diff'')) (pe_random (demo_publish (\<lambda>_. WriteFault ''n'')) 0)) = None" by (simp add: new_run_dir_def)
  show ?thesis using failed_publication_leaves_files [OF name none, of "''n''" "DataFile ''new''"] unfolding temp by (simp add: demo_publish_def)
qed

text \<open>
  The store may enclose the project: only a root inside the project is refused, so a root
  that contains the project is accepted, and the directory of a session is then the
  project itself.
\<close>

theorem store_may_enclose_project:
  "\<exists>st. newReviewRunStore demo_paths \<lparr>ro_root = ''/home/u'', ro_projectRoot = ''/home/u/proj'', ro_deniedPrefixes = [], ro_caps = DEFAULT_REVIEW_RUN_CAPS, ro_readOnly = False\<rparr> = Inr st \<and>
     store_sessionDir st ''proj'' = Inr ''/home/u/proj''"
proof -
  have "canon demo_paths ''/home/u'' = ''/home/u''" "canon demo_paths ''/home/u/proj'' = ''/home/u/proj''" "canon demo_paths ''/tmp'' = ''/tmp''"
    "SESSION_ID_RE ''proj''" "join_path ''/home/u'' ''proj'' = ''/home/u/proj''" by code_simp+
  then show ?thesis
    by (simp add: newReviewRunStore_def resolveReviewRunRoot_def store_sessionDir_def isAbsolute_def startsWith_def contains_path_def endsWith_def demo_paths_def)
qed

end
