(* ===== verification/ReviewDiffs.thy ===== *)
theory ReviewDiffs
  imports ReviewGuarantees PlanDocs WorkerOps
begin

text \<open>
  Review ranges (\<^verbatim>\<open>broker/src/review-materialize.ts\<close> and the operations
  \<open>reviewMaterialize\<close> and \<open>reviewDiffRead\<close> of \<^verbatim>\<open>service.ts\<close>): the diff of two commits is
  cut into the sections of its files, packed into slices, and published as a run; diffs and
  slices are read back by their owner.  Answers of git are arguments.  The collection
  awaits git; the publication is one synchronous stretch on the store as it is then.
\<close>

section \<open>Protected content\<close>

definition REVIEW_SLICE_MAX_LINES :: nat where
  "REVIEW_SLICE_MAX_LINES = 1500"

definition REVIEW_SLICE_MAX_BYTES :: nat where
  "REVIEW_SLICE_MAX_BYTES = 45 * 1024"

definition REVIEW_SLICE_READ_MAX_BYTES :: nat where
  "REVIEW_SLICE_READ_MAX_BYTES = 64 * 1024"

definition REVIEW_DIFF_READ_MAX_BYTES :: nat where
  "REVIEW_DIFF_READ_MAX_BYTES = 256 * 1024"

text \<open>The patterns in their order, on the segments of the path where they are about segments.\<close>

definition REVIEW_RANGE_PROTECTED_PATH_PATTERNS :: "(string \<Rightarrow> bool) list" where
  "REVIEW_RANGE_PROTECTED_PATH_PATTERNS =
    [\<lambda>p. list_ex (\<lambda>s. s \<in> set [''.ssh'', ''.gnupg'', ''.aws'', ''.kube'']) (splitOn (CHR ''/'') p),
     \<lambda>p. endsWith p ''.local/share/opencode/auth.json'',
     \<lambda>p. endsWith (''/'' @ p) ''/.config/gh/hosts.yml'',
     \<lambda>p. strIncludes (''/'' @ p) ''/.config/gcloud/'',
     \<lambda>p. startsWith (last (splitOn (CHR ''/'') p)) ''.env'',
     \<lambda>p. last (splitOn (CHR ''/'') p) \<in> set [''.git-credentials'', ''.netrc''],
     \<lambda>p. endsWith p ''.key'' \<or> endsWith p ''.pem'']"

definition range_protected :: "string \<Rightarrow> bool" where
  "range_protected p = list_ex (\<lambda>pattern. pattern p) REVIEW_RANGE_PROTECTED_PATH_PATTERNS"

definition assertReviewRangeHasNoProtectedContent :: "string list \<Rightarrow> unit result" where
  "assertReviewRangeHasNoProtectedContent changedPaths =
     guardR (filter range_protected changedPaths = []) (run_error ''review_range_protected_content'')"

section \<open>Sections and slices\<close>

definition GIT_LF :: char where
  "GIT_LF = CHR 0x0A"

definition GIT_CR :: char where
  "GIT_CR = CHR 0x0D"

text \<open>
  \<open>/^diff --git /gm\<close>: with the flag \<open>m\<close> a line also begins behind a carriage return.
\<close>

fun section_starts :: "bool \<Rightarrow> nat \<Rightarrow> string \<Rightarrow> nat list" where
  "section_starts bol i [] = []"
| "section_starts bol i (c # s) =
     (if bol \<and> startsWith (c # s) ''diff --git '' then [i] else []) @ section_starts (c = GIT_LF \<or> c = GIT_CR) (i + 1) s"

fun cut_at :: "nat list \<Rightarrow> string \<Rightarrow> string list" where
  "cut_at [] d = []"
| "cut_at [a] d = [drop a d]"
| "cut_at (a # b # rest) d = take (b - a) (drop a d) # cut_at (b # rest) d"

record file_section =
  fs_path :: string
  fs_data :: string
  fs_lines :: nat

definition line_count :: "string \<Rightarrow> nat" where
  "line_count d = length (splitOn GIT_LF d) - (if d \<noteq> [] \<and> last d = GIT_LF then 1 else 0)"

definition splitFileSections :: "string \<Rightarrow> string list \<Rightarrow> file_section list result" where
  "splitFileSections diff paths =
     (if diff = [] then Inr []
      else let starts = section_starts True 0 diff in
        bindR (guardR (length starts = length paths \<and> (case starts of a # _ \<Rightarrow> a = 0 | [] \<Rightarrow> False)) (run_error ''review_range_diff_parse'')) (\<lambda>_.
        Inr (map (\<lambda>(p, d). \<lparr>fs_path = p, fs_data = d, fs_lines = line_count d\<rparr>) (zip paths (cut_at starts diff)))))"

fun pack_loop :: "file_section list \<Rightarrow> string list \<Rightarrow> nat \<Rightarrow> nat \<Rightarrow> string list \<Rightarrow> string list result" where
  "pack_loop [] current bytes lines slices = Inr (if current \<noteq> [] then slices @ [concat current] else slices)"
| "pack_loop (s # ss) current bytes lines slices =
     (if length (fs_data s) > REVIEW_SLICE_MAX_BYTES \<or> fs_lines s > REVIEW_SLICE_MAX_LINES then Inl (run_error ''review_range_file_slice_cap'')
      else if current \<noteq> [] \<and> (bytes + length (fs_data s) > REVIEW_SLICE_MAX_BYTES \<or> lines + fs_lines s > REVIEW_SLICE_MAX_LINES)
      then pack_loop ss [fs_data s] (length (fs_data s)) (fs_lines s) (slices @ [concat current])
      else pack_loop ss (current @ [fs_data s]) (bytes + length (fs_data s)) (lines + fs_lines s) slices)"

definition packSlices :: "file_section list \<Rightarrow> string list result" where
  "packSlices sections = pack_loop sections [] 0 0 []"

section \<open>Materializing a range\<close>

record materialize_payload =
  mp_baseRef :: string
  mp_headRef :: "string option"
  mp_contextLines :: "int option"
  mp_paths :: "string list option"
  mp_workspace :: bool

type_synonym git_answers = "string list \<Rightarrow> host_spawned result"

definition failed_spawn :: "host_spawned \<Rightarrow> bool" where
  "failed_spawn r = (hs_status r \<noteq> Some 0 \<or> hs_timedOut r \<or> hs_outputTruncated r)"

definition resolveCommit :: "git_answers \<Rightarrow> string \<Rightarrow> string result" where
  "resolveCommit git ref = (case git [''rev-parse'', ''--verify'', ''--end-of-options'', ref @ ''^{commit}''] of
     Inl _ \<Rightarrow> Inl (run_error ''review_range_ref_unresolvable'')
   | Inr r \<Rightarrow>
       bindR (guardR (\<not> failed_spawn r) (run_error ''review_range_ref_unresolvable'')) (\<lambda>_.
       bindR (guardR (REVIEW_RUN_OBJECT_ID_RE (trim (hs_stdout r))) (run_error ''review_range_object_id_invalid'')) (\<lambda>_.
       Inr (trim (hs_stdout r)))))"

definition diff_args :: "int \<Rightarrow> string \<Rightarrow> string \<Rightarrow> string list \<Rightarrow> string list" where
  "diff_args contextLines base tip paths =
     [''diff'', ''--no-ext-diff'', ''--no-color'', ''--no-textconv'', ''-U'' @ show_int contextLines, base, tip, ''--''] @ paths"

definition names_args :: "string \<Rightarrow> string \<Rightarrow> string list \<Rightarrow> string list" where
  "names_args base tip paths =
     [''diff'', ''--no-ext-diff'', ''--no-color'', ''--no-textconv'', ''--name-only'', ''-z'', base, tip, ''--''] @ paths"

record materialized =
  mz_base :: string
  mz_head :: string
  mz_changedPaths :: "string list"
  mz_diff :: string
  mz_slices :: "string list"

definition materialize_collect :: "git_answers \<Rightarrow> run_store \<Rightarrow> review_root \<Rightarrow> string \<Rightarrow> materialize_payload \<Rightarrow> materialized result" where
  "materialize_collect git st rt sid p =
     bindR (guardR (\<not> mp_workspace p) (run_error ''review_workspace_not_supported'')) (\<lambda>_.
     bindR (assertRunAdmission st rt sid) (\<lambda>_.
     bindR (resolveCommit git (mp_baseRef p)) (\<lambda>base.
     bindR (resolveCommit git (case mp_headRef p of None \<Rightarrow> ''HEAD'' | Some h \<Rightarrow> h)) (\<lambda>tip.
     let contextLines = (case mp_contextLines p of None \<Rightarrow> 3 | Some c \<Rightarrow> c); paths = (case mp_paths p of None \<Rightarrow> [] | Some ps \<Rightarrow> ps) in
     bindR (guardR (0 \<le> contextLines \<and> contextLines \<le> 100) (run_error ''review_range_context_invalid'')) (\<lambda>_.
     bindR (guardR (list_all (\<lambda>q. CHR 0x00 \<notin> set q) paths) (run_error ''review_range_paths_invalid'')) (\<lambda>_.
     bindR (git (diff_args contextLines base tip paths)) (\<lambda>d.
     bindR (guardR (\<not> failed_spawn d) (run_error ''review_range_diff_failed'')) (\<lambda>_.
     bindR (guardR (length (hs_stdout d) \<le> rc_maxBytes (ss_caps st)) (run_error ''review_range_byte_cap'')) (\<lambda>_.
     bindR (git (names_args base tip paths)) (\<lambda>m.
     bindR (guardR (\<not> failed_spawn m) (run_error ''review_range_manifest_failed'')) (\<lambda>_.
     let changed = filter (\<lambda>q. q \<noteq> []) (splitOn (CHR 0x00) (hs_stdout m)) in
     bindR (assertReviewRangeHasNoProtectedContent changed) (\<lambda>_.
     bindR (splitFileSections (hs_stdout d) changed) (\<lambda>sections.
     bindR (packSlices sections) (\<lambda>slices.
     Inr \<lparr>mz_base = base, mz_head = tip, mz_changedPaths = changed, mz_diff = hs_stdout d, mz_slices = slices\<rparr>))))))))))))))"

text \<open>\<open>String(i).padStart(4, "0")\<close>\<close>

definition slice_name :: "nat \<Rightarrow> string" where
  "slice_name i = ''slice-'' @ replicate (4 - length (show_nat i)) (CHR ''0'') @ show_nat i @ ''.diff''"

fun add_slices ::
  "publish_env \<Rightarrow> nat \<Rightarrow> nat \<Rightarrow> string list \<Rightarrow> run_artifact list \<Rightarrow> run_writer \<Rightarrow> run_dir \<Rightarrow> (run_writer \<times> run_dir) \<times> run_artifact list result"
where
  "add_slices env n i [] index w d = ((w, d), Inr index)"
| "add_slices env n i (s # ss) index w d = (case writer_addArtifact env n (JStr (slice_name i)) s w d of
     ((w', d'), Inl e) \<Rightarrow> ((w', d'), Inl e)
   | ((w', d'), Inr a) \<Rightarrow> add_slices env (n + 2) (i + 1) ss (index @ [a]) w' d')"

definition write_range :: "publish_env \<Rightarrow> materialized \<Rightarrow> run_writer \<Rightarrow> run_dir \<Rightarrow> (run_writer \<times> run_dir) \<times> run_artifact list result" where
  "write_range env m w d = (case writer_addArtifact env 1 (JStr ''scope.diff'') (mz_diff m) w d of
     ((w1, d1), Inl e) \<Rightarrow> ((w1, d1), Inl e)
   | ((w1, d1), Inr _) \<Rightarrow> (case add_slices env 3 0 (mz_slices m) [] w1 d1 of
         ((w2, d2), Inl e) \<Rightarrow> ((w2, d2), Inl e)
       | ((w2, d2), Inr index) \<Rightarrow>
           (let (wd, r) = writer_publish env (2 * length (mz_slices m) + 3) w2 d2 in (wd, bindR r (\<lambda>_. Inr index)))))"

record materialize_index =
  mi_runId :: string
  mi_range :: materialized
  mi_slices :: "run_artifact list"

definition materialize_publish ::
  "publish_env \<Rightarrow> run_store \<Rightarrow> string \<Rightarrow> string \<Rightarrow> string \<Rightarrow> materialized \<Rightarrow> review_root \<Rightarrow> review_root \<times> materialize_index result"
where
  "materialize_publish env st rid created sid m rt = (case createRun env st rid created sid (JStr (mz_base m)) (JStr (mz_head m)) rt of
     (rt1, Inl e) \<Rightarrow> (rt1, Inl e)
   | (rt1, Inr w) \<Rightarrow> (case find_run rt1 sid rid of
         None \<Rightarrow> (rt1, Inl io_error)
       | Some d \<Rightarrow>
           (let w0 = w\<lparr>wr_record := (wr_record w)\<lparr>rr_changedPaths := Some (mz_changedPaths m), rr_totalBytes := Some (length (mz_diff m))\<rparr>\<rparr>;
                ((w1, d1), r) = write_range env m w0 d in
            case r of
              Inr index \<Rightarrow> (put_run rt1 sid rid d1, Inr \<lparr>mi_runId = rid, mi_range = m, mi_slices = index\<rparr>)
            | Inl e \<Rightarrow>
                (let ((w2, d2), f) = writer_fail env (2 * length (mz_slices m) + 4) w1 d1 in
                 (put_run rt1 sid rid d2, bindR f (\<lambda>_. Inl e))))))"

section \<open>Reading a diff\<close>

fun find_candidate :: "(string \<Rightarrow> review_record result) \<Rightarrow> string list \<Rightarrow> (string \<times> review_record) option" where
  "find_candidate readRec [] = None"
| "find_candidate readRec (s # ss) = (case readRec s of Inr r \<Rightarrow> Some (s, r) | Inl _ \<Rightarrow> find_candidate readRec ss)"

definition SLICE_NAME_RE :: "string \<Rightarrow> bool" where
  "SLICE_NAME_RE s = (length s = 15 \<and> startsWith s ''slice-'' \<and> endsWith s ''.diff'' \<and> list_all is_digit (take 4 (drop 6 s)))"

record diff_read =
  df_bytes :: nat
  df_sha256 :: string
  df_data :: string
  df_binary :: bool

definition observed_bytes :: "publish_env \<Rightarrow> nat \<Rightarrow> open_answer \<Rightarrow> nat" where
  "observed_bytes env cap a = (case a of OpenedFile _ n x \<Rightarrow> (if n > cap then n else file_bytes (pe_recordBytes env) x) | OpenError _ \<Rightarrow> 0)"

definition readReviewDiff ::
  "publish_env \<Rightarrow> host_paths \<Rightarrow> run_store \<Rightarrow> review_root \<Rightarrow> string \<Rightarrow> string option \<Rightarrow> string \<Rightarrow> diff_read result"
where
  "readReviewDiff env hp st rt rid slice sid =
     bindR (assertReviewRunId (JStr rid)) (\<lambda>_.
     let name = (case slice of None \<Rightarrow> ''scope.diff'' | Some s \<Rightarrow> s); cap = min (rc_maxFileBytes (ss_caps st)) REVIEW_DIFF_READ_MAX_BYTES in
     bindR (guardR (case slice of None \<Rightarrow> True | Some s \<Rightarrow> SLICE_NAME_RE s) (run_error ''review_diff_slice_not_found'')) (\<lambda>_.
     case find_candidate (\<lambda>s. store_readRecord env hp st rt s (JStr rid)) (map fst rt) of
       None \<Rightarrow> Inl (run_error ''review_diff_run_not_found'')
     | Some (owner, r) \<Rightarrow>
         bindR (guardR (is_ok (assertRunOwnership r sid)) (run_error ''review_diff_foreign_session'')) (\<lambda>_.
         bindR (guardR (rr_state r = PublishedRun) (run_error ''review_diff_run_not_found'')) (\<lambda>_.
         case find (\<lambda>a. ra_name a = name) (rr_artifacts r) of
           None \<Rightarrow> Inl (run_error (if slice = None then ''review_diff_run_not_found'' else ''review_diff_slice_not_found''))
         | Some expected \<Rightarrow>
             bindR (store_runDir st owner (JStr rid)) (\<lambda>dir.
             case readRunArtifact env hp (\<lambda>_. open_in env rt owner rid) dir (JStr name) cap False of
               Inl e \<Rightarrow>
                 Inl (if e = run_error ''review_run_artifact_cap'' \<and> observed_bytes env cap (open_in env rt owner rid name) > REVIEW_DIFF_READ_MAX_BYTES
                   then run_error ''review_diff_byte_cap'' else e)
             | Inr actual \<Rightarrow>
                 bindR (guardR (rx_bytes actual \<le> REVIEW_DIFF_READ_MAX_BYTES) (run_error ''review_diff_byte_cap'')) (\<lambda>_.
                 bindR (guardR (ra_bytes expected = rx_bytes actual \<and> ra_sha256 expected = rx_sha256 actual) (run_error ''review_diff_integrity_mismatch'')) (\<lambda>_.
                 case rx_data actual of
                   DataFile b \<Rightarrow> Inr \<lparr>df_bytes = rx_bytes actual, df_sha256 = rx_sha256 actual, df_data = b, df_binary = \<not> valid_utf8 b\<rparr>
                 | RecordFile _ \<Rightarrow> Inl io_error)))))))"

text \<open>\<open>readReviewSlice\<close> looks at the record files itself and does not compare digests.\<close>

definition slice_record :: "publish_env \<Rightarrow> host_paths \<Rightarrow> run_store \<Rightarrow> review_root \<Rightarrow> string \<Rightarrow> string \<Rightarrow> review_record result" where
  "slice_record env hp st rt rid s =
     bindR (store_runDir st s (JStr rid)) (\<lambda>dir.
     bindR (readRunArtifact env hp (\<lambda>_. open_in env rt s rid) dir (JStr REVIEW_RUN_METADATA_NAME) (1024 * 1024) True) (\<lambda>x.
     case rx_data x of
       RecordFile r \<Rightarrow> (if rr_runId r = rid then Inr r else Inl io_error)
     | DataFile _ \<Rightarrow> Inl io_error))"

definition readReviewSlice :: "publish_env \<Rightarrow> host_paths \<Rightarrow> run_store \<Rightarrow> review_root \<Rightarrow> string \<Rightarrow> string \<Rightarrow> string \<Rightarrow> string result" where
  "readReviewSlice env hp st rt rid name sid =
     bindR (assertReviewRunId (JStr rid)) (\<lambda>_.
     bindR (guardR (SLICE_NAME_RE name) (run_error ''review_slice_not_found'')) (\<lambda>_.
     case find_candidate (slice_record env hp st rt rid) (map fst rt) of
       None \<Rightarrow> Inl (run_error ''review_slice_not_found'')
     | Some (owner, r) \<Rightarrow>
         bindR (assertRunOwnership r sid) (\<lambda>_.
         bindR (guardR (rr_state r = PublishedRun) (run_error ''review_run_not_published'')) (\<lambda>_.
         bindR (guardR (list_ex (\<lambda>a. ra_name a = name) (rr_artifacts r)) (run_error ''review_slice_not_found'')) (\<lambda>_.
         bindR (store_runDir st owner (JStr rid)) (\<lambda>dir.
         bindR (readRunArtifact env hp (\<lambda>_. open_in env rt owner rid) dir (JStr name) REVIEW_SLICE_READ_MAX_BYTES False) (\<lambda>x.
         case rx_data x of DataFile b \<Rightarrow> Inr b | RecordFile _ \<Rightarrow> Inl io_error)))))))"

end
