(* ===== verification/ReviewSlices.thy ===== *)
theory ReviewSlices
  imports ReviewDiffs
begin

text \<open>
  What a materialized range guarantees: the slices are the diff, nothing is lost between
  them, and each fits the limits; the published run holds them; a diff is only given to
  the session that owns the run, unchanged.
\<close>

section \<open>Cutting and packing lose nothing\<close>

lemma section_starts_sorted: "sorted (section_starts bol i s) \<and> (\<forall>a \<in> set (section_starts bol i s). i \<le> a)"
  by (induction bol i s rule: section_starts.induct) (auto intro: Suc_leD)

lemma concat_cut_at: "sorted (a # rest) \<Longrightarrow> concat (cut_at (a # rest) d) = drop a d"
proof (induction rest arbitrary: a)
  case (Cons b rest)
  then have "concat (cut_at (b # rest) d) = drop b d" and "a \<le> b" by auto
  then show ?case by simp (metis add_diff_inverse_nat append_take_drop_id drop_drop le_add_diff_inverse2 linorder_not_less)
qed simp

lemma length_cut_at: "length (cut_at starts d) = length starts"
  by (induction starts d rule: cut_at.induct) auto

lemma splitFileSections_ok:
  assumes "splitFileSections diff paths = Inr ss"
  shows "concat (map fs_data ss) = diff \<and> (\<forall>s \<in> set ss. fs_lines s = line_count (fs_data s))"
proof (cases "diff = []")
  case True
  with assms show ?thesis by (simp add: splitFileSections_def)
next
  case False
  let ?starts = "section_starts True 0 diff"
  from assms False obtain rest where s: "length ?starts = length paths" "?starts = 0 # rest"
    "ss = map (\<lambda>(p, d). \<lparr>fs_path = p, fs_data = d, fs_lines = line_count d\<rparr>) (zip paths (cut_at ?starts diff))"
    by (auto simp: splitFileSections_def Let_def bindR_eq_Inr split: list.splits)
  have "map fs_data ss = map snd (zip paths (cut_at ?starts diff))" unfolding s(3) by (simp add: split_beta comp_def)
  also have "\<dots> = cut_at ?starts diff" using s(1) length_cut_at [of ?starts diff] by simp
  finally have "concat (map fs_data ss) = diff" using concat_cut_at [of 0 rest diff] section_starts_sorted [of True 0 diff] s(2) by simp
  then show ?thesis by (auto simp: s(3))
qed

lemma line_count_LF: "line_count d = count_list d GIT_LF + (if d \<noteq> [] \<and> last d = GIT_LF then 0 else 1)"
  by (auto simp: line_count_def length_splitOn)

lemma line_count_append: "line_count (a @ b) \<le> line_count a + line_count b"
  by (auto simp: line_count_LF)

definition slice_ok :: "string \<Rightarrow> bool" where
  "slice_ok s = (length s \<le> REVIEW_SLICE_MAX_BYTES \<and> line_count s \<le> REVIEW_SLICE_MAX_LINES)"

lemma pack_loop_ok:
  assumes "pack_loop ss current bytes lines slices = Inr out" "\<forall>s \<in> set ss. fs_lines s = line_count (fs_data s)"
    and "bytes = length (concat current)" "current \<noteq> [] \<Longrightarrow> line_count (concat current) \<le> lines" "current = [] \<Longrightarrow> lines = 0"
    and "current \<noteq> [] \<Longrightarrow> bytes \<le> REVIEW_SLICE_MAX_BYTES \<and> lines \<le> REVIEW_SLICE_MAX_LINES" "list_all slice_ok slices"
  shows "concat out = concat slices @ concat current @ concat (map fs_data ss) \<and> list_all slice_ok out"
  using assms
proof (induction ss current bytes lines slices rule: pack_loop.induct)
  case (1 current bytes lines slices)
  then show ?case by (auto simp: slice_ok_def split: if_splits)
next
  case (2 s ss current bytes lines slices)
  let ?close = "current \<noteq> [] \<and> (bytes + length (fs_data s) > REVIEW_SLICE_MAX_BYTES \<or> lines + fs_lines s > REVIEW_SLICE_MAX_LINES)"
  have fits: "\<not> (length (fs_data s) > REVIEW_SLICE_MAX_BYTES \<or> fs_lines s > REVIEW_SLICE_MAX_LINES)" using "2.prems"(1) by (auto split: if_splits)
  show ?case
  proof (cases ?close)
    case True
    have "pack_loop ss [fs_data s] (length (fs_data s)) (fs_lines s) (slices @ [concat current]) = Inr out" using "2.prems"(1) fits True by auto
    from "2.IH"(1) [OF fits True this] "2.prems" True fits show ?thesis by (auto simp: slice_ok_def)
  next
    case False
    have "pack_loop ss (current @ [fs_data s]) (bytes + length (fs_data s)) (lines + fs_lines s) slices = Inr out" using "2.prems"(1) fits False by auto
    moreover have "line_count (concat (current @ [fs_data s])) \<le> lines + fs_lines s"
      using "2.prems"(2,4,5) line_count_append [of "concat current" "fs_data s"] by (cases "current = []") (auto intro: order_trans)
    ultimately show ?thesis using "2.IH"(2) [OF fits False] "2.prems" False fits by auto
  qed
qed

lemma packSlices_ok:
  "packSlices ss = Inr out \<Longrightarrow> \<forall>s \<in> set ss. fs_lines s = line_count (fs_data s) \<Longrightarrow> concat out = concat (map fs_data ss) \<and> list_all slice_ok out"
  using pack_loop_ok [of ss "[]" 0 0 "[]" out] by (simp add: packSlices_def)

lemma resolveCommit_ok: "resolveCommit git ref = Inr oid \<Longrightarrow> REVIEW_RUN_OBJECT_ID_RE oid"
  by (auto simp: resolveCommit_def bindR_eq_Inr split: sum.splits)

lemma collect_ok:
  assumes "materialize_collect git st rt sid p = Inr m"
  shows "concat (mz_slices m) = mz_diff m \<and> list_all slice_ok (mz_slices m) \<and> list_all (\<lambda>q. \<not> range_protected q) (mz_changedPaths m) \<and>
    length (mz_diff m) \<le> rc_maxBytes (ss_caps st) \<and> REVIEW_RUN_OBJECT_ID_RE (mz_base m) \<and> REVIEW_RUN_OBJECT_ID_RE (mz_head m)"
proof -
  obtain sections where s: "splitFileSections (mz_diff m) (mz_changedPaths m) = Inr sections" "packSlices sections = Inr (mz_slices m)"
    and g: "assertReviewRangeHasNoProtectedContent (mz_changedPaths m) = Inr ()" "length (mz_diff m) \<le> rc_maxBytes (ss_caps st)"
      "resolveCommit git (mp_baseRef p) = Inr (mz_base m)" "resolveCommit git (case mp_headRef p of None \<Rightarrow> ''HEAD'' | Some h \<Rightarrow> h) = Inr (mz_head m)"
    using assms unfolding materialize_collect_def Let_def bindR_eq_Inr guardR_eq_Inr by (elim exE conjE) auto
  from splitFileSections_ok [OF s(1)] packSlices_ok [OF s(2)] resolveCommit_ok [OF g(3)] resolveCommit_ok [OF g(4)] g(1,2)
  show ?thesis by (simp add: assertReviewRangeHasNoProtectedContent_def filter_empty_conv list_all_iff)
qed

section \<open>What is published\<close>

lemma slice_name_parse: "parse_nat (take (length (slice_name i) - 11) (drop 6 (slice_name i))) = i"
proof -
  have zeros: "foldl (\<lambda>n c. 10 * n + digit_value c) 0 (replicate k (CHR ''0'')) = 0" for k
    by (induction k) (auto simp: digit_value_def)
  have "parse_nat (replicate k (CHR ''0'') @ show_nat i) = i" for k
    using parse_show_nat [of i] by (simp add: parse_nat_def zeros)
  then show ?thesis by (simp add: slice_name_def)
qed

lemma slice_name_inj: "slice_name i = slice_name j \<Longrightarrow> i = j"
  by (metis slice_name_parse)

lemma slice_name_scope: "slice_name i \<noteq> ''scope.diff''" "slice_name i \<noteq> REVIEW_RUN_METADATA_NAME"
  by (simp_all add: slice_name_def REVIEW_RUN_METADATA_NAME_def)

lemma scope_not_metadata: "''scope.diff'' \<noteq> REVIEW_RUN_METADATA_NAME"
  by (simp add: REVIEW_RUN_METADATA_NAME_def)

definition artifact_for :: "publish_env \<Rightarrow> string \<Rightarrow> string \<Rightarrow> run_artifact" where
  "artifact_for env name content = \<lparr>ra_name = name, ra_bytes = length content, ra_sha256 = pe_sha env (DataFile content)\<rparr>"

definition with_artifacts :: "run_artifact list \<Rightarrow> run_writer \<Rightarrow> run_writer" where
  "with_artifacts as w = w\<lparr>wr_record := (wr_record w)\<lparr>rr_artifacts := rr_artifacts (wr_record w) @ as, rr_state := Publishing\<rparr>,
     wr_totalBytes := wr_totalBytes w + sum_list (map ra_bytes as)\<rparr>"

lemma writer_add_exact:
  assumes "writer_addArtifact env n (JStr name) content w d = ((w', d'), Inr a)"
  shows "a = artifact_for env name content \<and> w' = with_artifacts [a] w \<and> rr_state (wr_record w) = Publishing \<and>
    (\<forall>f. f \<noteq> REVIEW_RUN_METADATA_NAME \<longrightarrow> rd_files d' f = ((rd_files d)(name \<mapsto> DataFile content)) f)"
proof -
  have g: "assertReviewRunArtifactName (JStr name) = Inr ()" "rr_state (wr_record w) = Publishing"
    using assms by (auto simp: writer_addArtifact_def bindR_eq_Inr split: sum.splits)
  let ?w = "w\<lparr>wr_record := (wr_record w)\<lparr>rr_artifacts := rr_artifacts (wr_record w) @ [a]\<rparr>, wr_totalBytes := wr_totalBytes w + length content\<rparr>"
  obtain d1 where p: "publishArtifactAtomic env n (JStr name) (DataFile content) d = (d1, Inr a)"
    and q: "writer_persist env (n + 1) Publishing ?w d1 = ((w', d'), Inr ())"
    using assms by (auto simp: writer_addArtifact_def bindR_eq_Inr split: sum.splits prod.splits)
  have v: "publishValidatedArtifactAtomic env n name (DataFile content) d = (d1, Inr a)" using p g(1) by (simp add: publishArtifactAtomic_def)
  from publish_files(2) [OF v refl] persist_Inr [OF q] g(2) show ?thesis by (simp add: with_artifacts_def artifact_for_def)
qed

lemma with_artifacts_append: "with_artifacts bs (with_artifacts as w) = with_artifacts (as @ bs) w"
  by (simp add: with_artifacts_def)

lemma add_slices_exact:
  assumes "add_slices env n i ss index w d = ((w', d'), Inr out)" "rr_state (wr_record w) = Publishing"
  shows "out = index @ map (\<lambda>k. artifact_for env (slice_name (i + k)) (ss ! k)) [0..<length ss] \<and>
    w' = with_artifacts (drop (length index) out) w \<and>
    (\<forall>k < length ss. rd_files d' (slice_name (i + k)) = Some (DataFile (ss ! k))) \<and>
    (\<forall>f. f \<noteq> REVIEW_RUN_METADATA_NAME \<and> (\<forall>k \<ge> i. f \<noteq> slice_name k) \<longrightarrow> rd_files d' f = rd_files d f)"
  using assms
proof (induction ss arbitrary: n i index w d)
  case Nil
  then show ?case by (cases w) (auto simp: with_artifacts_def)
next
  case (Cons s ss)
  obtain w1 d1 r where a0: "writer_addArtifact env n (JStr (slice_name i)) s w d = ((w1, d1), r)" by (metis surj_pair)
  then obtain a where a: "r = Inr a" and rest: "add_slices env (n + 2) (i + 1) ss (index @ [a]) w1 d1 = ((w', d'), Inr out)"
    using Cons.prems(1) by (auto split: sum.splits)
  note e = writer_add_exact [OF a0 [unfolded a]]
  have st: "rr_state (wr_record w1) = Publishing" using e by (simp add: with_artifacts_def)
  note ih = Cons.IH [OF rest st]
  have out: "out = index @ map (\<lambda>k. artifact_for env (slice_name (i + k)) ((s # ss) ! k)) [0..<length (s # ss)]"
    using ih e by (simp add: upt_conv_Cons map_Suc_upt [symmetric] del: upt_Suc)
  have "w' = with_artifacts (drop (length index) out) w"
  proof -
    have "out = index @ [a] @ drop (length (index @ [a])) out" using ih e by simp
    then have "[a] @ drop (length (index @ [a])) out = drop (length index) out" by (metis append_eq_conv_conj)
    then show ?thesis using ih e by (metis with_artifacts_append)
  qed
  moreover have "rd_files d' (slice_name i) = Some (DataFile s)"
  proof -
    have "\<forall>k \<ge> i + 1. slice_name i \<noteq> slice_name k" using slice_name_inj by fastforce
    then show ?thesis using ih e slice_name_scope(2) [of i] by simp
  qed
  moreover have "rd_files d' (slice_name (i + k)) = Some (DataFile ((s # ss) ! k))" if "k < length (s # ss)" for k
    using calculation(2) ih that by (cases k) auto
  moreover have "rd_files d' f = rd_files d f" if "f \<noteq> REVIEW_RUN_METADATA_NAME \<and> (\<forall>k \<ge> i. f \<noteq> slice_name k)" for f
    using ih e that by simp
  ultimately show ?case using out by blast
qed

lemma create_exact:
  assumes "createRun env st rid created sid (JStr base) (JStr tip) rt = (rt', Inr w)"
  shows "wr_record w = new_run_record st sid rid created (Some base) (Some tip) \<and> SESSION_ID_RE sid \<and> REVIEW_RUN_ID_RE rid \<and>
    (\<exists>d. find_run rt' sid rid = Some d) \<and> \<not> ss_readOnly st"
proof -
  have "is_ok (bindR (assertWritable st) (\<lambda>_.
       bindR (assertRunAdmission st rt sid) (\<lambda>_.
       bindR (normalizeObjectId (JStr base)) (\<lambda>base.
       bindR (normalizeObjectId (JStr tip)) (\<lambda>tip.
       bindR (assertReviewRunId (JStr rid)) (\<lambda>_.
       bindR (owned_run_dir (pe_now env) rt sid rid) (\<lambda>d. Inr (base, tip, d))))))))"
    using assms unfolding createRun_def is_ok_def by (auto split: sum.splits)
  then obtain d where c: "bindR (assertWritable st) (\<lambda>_.
       bindR (assertRunAdmission st rt sid) (\<lambda>_.
       bindR (normalizeObjectId (JStr base)) (\<lambda>base.
       bindR (normalizeObjectId (JStr tip)) (\<lambda>tip.
       bindR (assertReviewRunId (JStr rid)) (\<lambda>_.
       bindR (owned_run_dir (pe_now env) rt sid rid) (\<lambda>d. Inr (base, tip, d))))))) = Inr (Some base, Some tip, d)"
    and g: "SESSION_ID_RE sid" "REVIEW_RUN_ID_RE rid" "\<not> ss_readOnly st"
    by (auto simp: bindR_eq_Inr normalizeObjectId_def assertRunAdmission_def countRunsForSession_def store_sessionDir_def assertReviewRunId_def assertWritable_def)
  obtain w0 d' x where n: "new_writer env 0 (new_run_record st sid rid created (Some base) (Some tip)) (ss_caps st) d = ((w0, d'), x)" by (metis surj_pair)
  have "rt' = put_run rt sid rid d'" "w0 = w" "x = Inr ()" using assms n unfolding createRun_def c by (auto simp: bindR_eq_Inr)
  with persist_Inr [OF n [unfolded new_writer_def \<open>x = Inr ()\<close>]] g show ?thesis by (simp add: find_run_put new_run_record_def)
qed


section \<open>What is read\<close>

lemma find_candidate_Some: "find_candidate f ss = Some (s, r) \<Longrightarrow> f s = Inr r \<and> s \<in> set ss"
  by (induction ss) (auto split: sum.splits)

text \<open>
  A diff is given to its owner only, unchanged: a read that succeeds comes from a
  published run in the directory of the requesting session, returns the bytes of the
  requested file as they are, at most 256 KiB of them, and these have the length and the
  digest that the record lists for the file.
\<close>

theorem diff_read_by_owner:
  assumes "readReviewDiff env hp st rt rid slice sid = Inr x"
  shows "\<exists>d r a. find_run rt sid rid = Some d \<and> rd_files d REVIEW_RUN_METADATA_NAME = Some (RecordFile r) \<and> rr_sessionID r = sid \<and> rr_runId r = rid \<and>
    rr_state r = PublishedRun \<and> rd_files d (case slice of None \<Rightarrow> ''scope.diff'' | Some s \<Rightarrow> s) = Some (DataFile (df_data x)) \<and>
    a \<in> set (rr_artifacts r) \<and> ra_name a = (case slice of None \<Rightarrow> ''scope.diff'' | Some s \<Rightarrow> s) \<and> ra_bytes a = length (df_data x) \<and>
    ra_sha256 a = pe_sha env (DataFile (df_data x)) \<and> df_bytes x = length (df_data x) \<and> df_bytes x \<le> 262144 \<and> df_binary x = (\<not> valid_utf8 (df_data x))"
proof -
  let ?name = "case slice of None \<Rightarrow> ''scope.diff'' | Some s \<Rightarrow> s"
  obtain owner r where o: "find_candidate (\<lambda>s. store_readRecord env hp st rt s (JStr rid)) (map fst rt) = Some (owner, r)"
    using assms by (auto simp: readReviewDiff_def Let_def bindR_eq_Inr split: option.split_asm)
  note o1 = readRecord_ok [OF conjunct1 [OF find_candidate_Some [OF o]]]
  obtain expected dir where e: "rr_sessionID r = sid" "rr_state r = PublishedRun" "find (\<lambda>a. ra_name a = ?name) (rr_artifacts r) = Some expected"
    and rd: "(case readRunArtifact env hp (\<lambda>_. open_in env rt owner rid) dir (JStr ?name) (min (rc_maxFileBytes (ss_caps st)) REVIEW_DIFF_READ_MAX_BYTES) False of
               Inl e \<Rightarrow>
                 Inl (if e = run_error ''review_run_artifact_cap'' \<and> observed_bytes env (min (rc_maxFileBytes (ss_caps st)) REVIEW_DIFF_READ_MAX_BYTES) (open_in env rt owner rid ?name) > REVIEW_DIFF_READ_MAX_BYTES
                   then run_error ''review_diff_byte_cap'' else e)
             | Inr actual \<Rightarrow>
                 bindR (guardR (rx_bytes actual \<le> REVIEW_DIFF_READ_MAX_BYTES) (run_error ''review_diff_byte_cap'')) (\<lambda>_.
                 bindR (guardR (ra_bytes expected = rx_bytes actual \<and> ra_sha256 expected = rx_sha256 actual) (run_error ''review_diff_integrity_mismatch'')) (\<lambda>_.
                 case rx_data actual of
                   DataFile b \<Rightarrow> Inr \<lparr>df_bytes = rx_bytes actual, df_sha256 = rx_sha256 actual, df_data = b, df_binary = \<not> valid_utf8 b\<rparr>
                 | RecordFile _ \<Rightarrow> Inl io_error))) = Inr x"
    using assms unfolding readReviewDiff_def Let_def bindR_eq_Inr o option.case prod.case
    by (cases "find (\<lambda>a. ra_name a = ?name) (rr_artifacts r)") (auto simp: assertRunOwnership_def bindR_eq_Inr)
  obtain actual where a: "readRunArtifact env hp (\<lambda>_. open_in env rt owner rid) dir (JStr ?name) (min (rc_maxFileBytes (ss_caps st)) REVIEW_DIFF_READ_MAX_BYTES) False = Inr actual"
    "rx_bytes actual \<le> REVIEW_DIFF_READ_MAX_BYTES" "ra_bytes expected = rx_bytes actual" "ra_sha256 expected = rx_sha256 actual" "rx_data actual = DataFile (df_data x)"
    "df_bytes x = rx_bytes actual" "df_binary x = (\<not> valid_utf8 (df_data x))"
    using rd by (auto simp: bindR_eq_Inr split: sum.splits run_file.splits)
  have own: "owner = sid" using o1 e(1) by simp
  obtain d where d: "find_run rt sid rid = Some d" "rd_files d ?name = Some (DataFile (df_data x))" "rd_files d REVIEW_RUN_METADATA_NAME = Some (RecordFile r)"
    using readRunArtifact_ok [OF a(1)] a(5) o1 own by (auto dest!: open_in_ok)
  have "expected \<in> set (rr_artifacts r)" "ra_name expected = ?name" using e(3) by (auto simp: find_Some_iff)
  then show ?thesis
    using readRunArtifact_ok [OF a(1)] a d e o1 own by (intro exI [of _ d] exI [of _ r] exI [of _ expected]) (simp add: REVIEW_DIFF_READ_MAX_BYTES_def)
qed

text \<open>
  A line of a file that holds a carriage return in front of the words of a section header
  makes its range impossible to materialize, since the header is looked for behind
  carriage returns too.
\<close>

theorem carriage_return_breaks_sections:
  "splitFileSections (''diff --git a/f b/f'' @ [GIT_LF] @ ''+x'' @ [GIT_CR] @ ''diff --git '' @ [GIT_LF]) [''f''] = Inl (run_error ''review_range_diff_parse'') \<and>
   is_ok (splitFileSections (''diff --git a/f b/f'' @ [GIT_LF] @ ''+x'' @ ''diff --git '' @ [GIT_LF]) [''f''])"
  by code_simp

section \<open>A concrete range\<close>

definition demo_diff :: string where
  "demo_diff = ''diff --git a/f b/f'' @ [GIT_LF] @ ''+x'' @ [GIT_LF]"

definition demo_oid :: string where
  "demo_oid = replicate 40 (CHR ''a'')"

definition demo_range_git :: git_answers where
  "demo_range_git argv = Inr \<lparr>hs_status = Some 0, hs_stdout = (if hd argv = ''rev-parse'' then demo_oid else if ''-z'' \<in> set argv then ''f'' @ [CHR 0x00] else demo_diff),
     hs_stderr = [], hs_timedOut = False, hs_outputTruncated = False\<rparr>"

definition demo_range :: materialized where
  "demo_range = \<lparr>mz_base = demo_oid, mz_head = demo_oid, mz_changedPaths = [''f''], mz_diff = demo_diff, mz_slices = [demo_diff]\<rparr>"

lemma demo_range_parts:
  "REVIEW_RUN_OBJECT_ID_RE (demo_oid)" "trim (demo_oid) = demo_oid"
  "filter (\<lambda>q. q \<noteq> []) (splitOn (CHR 0x00) (''f'' @ [CHR 0x00])) = [''f'']" "filter range_protected [''f''] = []"
  "splitFileSections demo_diff [''f''] = Inr [\<lparr>fs_path = ''f'', fs_data = demo_diff, fs_lines = 2\<rparr>]"
  "assertRunAdmission demo_run_store [] ''s1'' = Inr ()" "length demo_diff = 22" "rc_maxBytes (ss_caps demo_run_store) = 100"
  "\<not> range_protected ''f''" "''-z'' \<noteq> demo_oid"
  by code_simp+

lemma demo_collected: "materialize_collect demo_range_git demo_run_store [] ''s1'' \<lparr>mp_baseRef = ''main'', mp_headRef = None, mp_contextLines = None, mp_paths = None, mp_workspace = False\<rparr> = Inr demo_range"
proof -
  have pack: "packSlices [\<lparr>fs_path = ''f'', fs_data = demo_diff, fs_lines = 2\<rparr>] = Inr [demo_diff]"
    by (simp add: packSlices_def REVIEW_SLICE_MAX_BYTES_def REVIEW_SLICE_MAX_LINES_def demo_range_parts)
  have commit: "resolveCommit demo_range_git ref = Inr (demo_oid)" for ref
    unfolding resolveCommit_def demo_range_git_def by (simp add: failed_spawn_def demo_range_parts)
  show ?thesis
    unfolding materialize_collect_def materialize_payload.select_convs option.case Let_def commit bindR_simps
    by (simp add: demo_range_git_def diff_args_def names_args_def failed_spawn_def demo_range_parts [simplified] assertReviewRangeHasNoProtectedContent_def pack [simplified] demo_range_def)
qed

lemma demo_range_published: "\<exists>rt index. materialize_publish (demo_publish (\<lambda>_. NoFault)) demo_run_store demo_run_id ''2026'' ''s1'' demo_range [] = (rt, Inr index)"
proof -
  have "case snd (materialize_publish (demo_publish (\<lambda>_. NoFault)) demo_run_store demo_run_id ''2026'' ''s1'' demo_range []) of Inr _ \<Rightarrow> True | Inl _ \<Rightarrow> False" by code_simp
  then show ?thesis by (metis (no_types, lifting) old.sum.exhaust old.sum.simps(5) prod.collapse)
qed


definition demo_published_root :: review_root where
  "demo_published_root = [(''s1'', SessionDirectory [(demo_run_id, RunDirectory \<lparr>rd_files = [''scope.diff'' \<mapsto> DataFile ''old'',
     REVIEW_RUN_METADATA_NAME \<mapsto> RecordFile ((new_run_record demo_run_store ''s1'' demo_run_id ''2026'' None None)\<lparr>rr_state := PublishedRun, rr_artifacts := [demo_artifact]\<rparr>)],
     rd_mtime = 0\<rparr>)])]"

text \<open>The owner reads a diff.\<close>

theorem diff_read_by_owner_witness:
  "\<exists>x. readReviewDiff (demo_publish (\<lambda>_. NoFault)) demo_paths demo_run_store demo_published_root demo_run_id None ''s1'' = Inr x \<and> df_bytes x \<le> 262144"
proof -
  have r: "store_readRecord (demo_publish (\<lambda>_. NoFault)) demo_paths demo_run_store demo_published_root ''s1'' (JStr demo_run_id) =
      Inr ((new_run_record demo_run_store ''s1'' demo_run_id ''2026'' None None)\<lparr>rr_state := PublishedRun, rr_artifacts := [demo_artifact]\<rparr>)" by code_simp
  have id: "assertReviewRunId (JStr demo_run_id) = Inr ()" "store_runDir demo_run_store ''s1'' (JStr demo_run_id) = Inr (''/s/s1/'' @ demo_run_id)" by code_simp+
  have a: "readRunArtifact (demo_publish (\<lambda>_. NoFault)) demo_paths (\<lambda>_. open_in (demo_publish (\<lambda>_. NoFault)) demo_published_root ''s1'' demo_run_id) (''/s/s1/'' @ demo_run_id) (JStr ''scope.diff'') 50 False =
      Inr \<lparr>rx_name = ''scope.diff'', rx_bytes = 3, rx_sha256 = ''old'', rx_data = DataFile ''old''\<rparr>" by code_simp
  have cap: "min (rc_maxFileBytes (ss_caps demo_run_store)) REVIEW_DIFF_READ_MAX_BYTES = 50" by (simp add: demo_run_store_def REVIEW_DIFF_READ_MAX_BYTES_def)
  have names: "map fst demo_published_root = [''s1'']" by (simp add: demo_published_root_def)
  obtain x where x: "readReviewDiff (demo_publish (\<lambda>_. NoFault)) demo_paths demo_run_store demo_published_root demo_run_id None ''s1'' = Inr x"
    unfolding readReviewDiff_def id bindR_simps Let_def option.case cap names
    by (simp add: r id [unfolded append.simps] a [unfolded append.simps] assertRunOwnership_def new_run_record_def demo_artifact_def REVIEW_DIFF_READ_MAX_BYTES_def)
  from diff_read_by_owner [OF x] x show ?thesis by blast
qed

end
