(* ===== verification/ReviewPipeline.thy ===== *)
theory ReviewPipeline
  imports ReviewDiffs
begin

text \<open>
  The phases of a review (\<^verbatim>\<open>broker/src/review-pipeline.ts\<close>) and their operations in
  \<^verbatim>\<open>service.ts\<close>.  A phase composes its input from the artifacts of the run, awaits the
  pinned helper, and publishes what it returns: the first and the last part are synchronous
  and are two definitions here.  \<open>JSON.parse\<close> and \<open>JSON.stringify\<close> are arguments; text that
  was just encoded decodes to its value.
\<close>

section \<open>Phases and artifacts\<close>

datatype pipeline_phase = ScreenPhase | PreparePhase | MergePhase | FinalizePhase

fun phase_name :: "pipeline_phase \<Rightarrow> string" where
  "phase_name ScreenPhase = ''screen''"
| "phase_name PreparePhase = ''prepare''"
| "phase_name MergePhase = ''merge''"
| "phase_name FinalizePhase = ''finalize''"

definition PHASES :: "pipeline_phase list" where
  "PHASES = [ScreenPhase, PreparePhase, MergePhase, FinalizePhase]"

fun phase_index :: "pipeline_phase \<Rightarrow> nat" where
  "phase_index ScreenPhase = 0"
| "phase_index PreparePhase = 1"
| "phase_index MergePhase = 2"
| "phase_index FinalizePhase = 3"

definition REVIEW_PIPELINE_MAX_STDIN_BYTES :: nat where
  "REVIEW_PIPELINE_MAX_STDIN_BYTES = 256 * 1024"

definition REVIEW_PIPELINE_MAX_INPUT_REFS :: nat where
  "REVIEW_PIPELINE_MAX_INPUT_REFS = 16"

definition REVIEW_PIPELINE_MAX_ENVELOPE_BYTES :: nat where
  "REVIEW_PIPELINE_MAX_ENVELOPE_BYTES = 32 * 1024"

definition REVIEW_PIPELINE_MAX_CALLER_BYTES :: nat where
  "REVIEW_PIPELINE_MAX_CALLER_BYTES = 64 * 1024"

definition REVIEW_PIPELINE_REVIEWERS :: "string list" where
  "REVIEW_PIPELINE_REVIEWERS = [''correctness'', ''testing'', ''project-standards'', ''maintainability'', ''security'', ''performance'',
     ''api-contract'', ''data-migrations'', ''reliability'', ''adversarial'', ''cli-readiness'', ''previous-comments'', ''kieran-typescript'']"

definition phase_artifact :: "pipeline_phase \<Rightarrow> string option \<Rightarrow> string" where
  "phase_artifact p reviewer = ''phase-'' @ phase_name p @ (case reviewer of None \<Rightarrow> [] | Some r \<Rightarrow> ''-'' @ r) @ ''.json''"

text \<open>The pattern matches exactly these names.\<close>

definition matchPhaseArtifact :: "string \<Rightarrow> (pipeline_phase \<times> string option) option" where
  "matchPhaseArtifact ref = find (\<lambda>(p, r). phase_artifact p r = ref) (List.product PHASES (None # map Some REVIEW_PIPELINE_REVIEWERS))"

definition pipe_error :: "string \<Rightarrow> broker_error" where
  "pipe_error code = run_error (''review_pipeline_'' @ code)"

section \<open>Reading artifacts of the run\<close>

record pipe_env =
  pv_publish :: publish_env
  pv_paths :: host_paths
  pv_parse :: "string \<Rightarrow> js option"
  pv_stringify :: "js \<Rightarrow> string"

definition run_bytes :: "pipe_env \<Rightarrow> run_store \<Rightarrow> review_root \<Rightarrow> string \<Rightarrow> string \<Rightarrow> string \<Rightarrow> string result" where
  "run_bytes env st rt sid rid ref =
     bindR (store_runDir st sid (JStr rid)) (\<lambda>dir.
     bindR (readRunArtifact (pv_publish env) (pv_paths env) (\<lambda>_. open_in (pv_publish env) rt sid rid) dir (JStr ref) (rc_maxFileBytes (ss_caps st)) False) (\<lambda>x.
     case rx_data x of DataFile b \<Rightarrow> Inr b | RecordFile _ \<Rightarrow> Inl io_error))"

definition phaseObject :: "pipe_env \<Rightarrow> run_store \<Rightarrow> review_root \<Rightarrow> string \<Rightarrow> string \<Rightarrow> string \<Rightarrow> js result" where
  "phaseObject env st rt sid rid ref =
     bindR (run_bytes env st rt sid rid ref) (\<lambda>b.
     case pv_parse env b of
       None \<Rightarrow> Inl (pipe_error ''input_ref_unparseable'')
     | Some (JObj kvs) \<Rightarrow> Inr (JObj kvs)
     | Some _ \<Rightarrow> Inl (pipe_error ''input_ref_not_object''))"

definition wrapScreenResult :: "pipe_env \<Rightarrow> run_store \<Rightarrow> review_root \<Rightarrow> string \<Rightarrow> string \<Rightarrow> string \<Rightarrow> js result" where
  "wrapScreenResult env st rt sid rid ref = (case matchPhaseArtifact ref of
     Some (ScreenPhase, Some reviewer) \<Rightarrow>
       bindR (phaseObject env st rt sid rid ref) (\<lambda>result. Inr (JObj [(''reviewer'', JStr reviewer), (''result'', result)]))
   | _ \<Rightarrow> Inl (pipe_error ''input_ref_not_screen''))"

fun wrap_screens :: "(string \<Rightarrow> js result) \<Rightarrow> string list \<Rightarrow> js list result" where
  "wrap_screens f [] = Inr []"
| "wrap_screens f (r # rs) = bindR (f r) (\<lambda>x. bindR (wrap_screens f rs) (\<lambda>xs. Inr (x # xs)))"

definition is_compound :: "js \<Rightarrow> bool" where
  "is_compound v = (case v of JObj _ \<Rightarrow> True | JArr _ \<Rightarrow> True | _ \<Rightarrow> False)"

fun callerBytes :: "(js \<Rightarrow> string) \<Rightarrow> nat \<Rightarrow> (string \<times> js) list \<Rightarrow> unit result" where
  "callerBytes stringify soFar [] = Inr ()"
| "callerBytes stringify soFar ((field, value) # rest) =
     bindR (guardR (is_compound value) (pipe_error (field @ ''_invalid''))) (\<lambda>_.
     bindR (guardR (length (stringify value) \<le> REVIEW_PIPELINE_MAX_ENVELOPE_BYTES) (pipe_error (field @ ''_too_large''))) (\<lambda>_.
     bindR (guardR (soFar + length (stringify value) \<le> REVIEW_PIPELINE_MAX_CALLER_BYTES) (pipe_error ''caller_envelopes_too_large'')) (\<lambda>_.
     callerBytes stringify (soFar + length (stringify value)) rest)))"

definition assertRecordedComposedSize :: "review_record \<Rightarrow> string list \<Rightarrow> unit result" where
  "assertRecordedComposedSize r refs =
     guardR (sum_list (map ra_bytes (filter (\<lambda>a. ra_name a \<in> set refs) (rr_artifacts r))) \<le> REVIEW_PIPELINE_MAX_STDIN_BYTES)
       (pipe_error ''composed_input_too_large'')"

section \<open>Composing the input\<close>

type_synonym pipe_payload = "(string \<times> js) list"

definition has_own :: "pipe_payload \<Rightarrow> string \<Rightarrow> bool" where
  "has_own p k = (k \<in> set (map fst p))"

definition FINALIZE_FIELDS :: "string list" where
  "FINALIZE_FIELDS = [''dispatch_records'', ''validator_lifecycle_results'', ''plan_assessment'', ''parent_run_metadata'']"

definition no_fields :: "pipe_payload \<Rightarrow> string list \<Rightarrow> string \<Rightarrow> unit result" where
  "no_fields p ks sfx = (case find (has_own p) ks of None \<Rightarrow> Inr () | Some k \<Rightarrow> Inl (pipe_error (k @ sfx)))"

definition run_id :: "pipe_payload \<Rightarrow> string" where
  "run_id p = js_str (js_get p ''runId'')"

definition composeMerge :: "pipe_env \<Rightarrow> run_store \<Rightarrow> review_root \<Rightarrow> string \<Rightarrow> pipe_payload \<Rightarrow> js result" where
  "composeMerge env st rt sid p =
     bindR (no_fields p FINALIZE_FIELDS ''_phase_forbidden'') (\<lambda>_.
     bindR (guardR (list_all (\<lambda>k. js_get p k = JUndefined) [''stdin'', ''inputRefs'', ''preparedRef'', ''mergeRef'']) (pipe_error ''stdin_source_conflict'')) (\<lambda>_.
     bindR (guardR (is_str (\<lambda>_. True) (js_get p ''inputRef'')) (pipe_error ''input_ref_invalid'')) (\<lambda>_.
     let ref = js_str (js_get p ''inputRef'') in
     case matchPhaseArtifact ref of
       None \<Rightarrow> Inl (pipe_error ''input_ref_unknown'')
     | Some (phase, reviewer) \<Rightarrow>
         bindR (guardR (phase = PreparePhase \<and> reviewer = None) (pipe_error ''merge_ref_phase_invalid'')) (\<lambda>_.
         bindR (guardR (js_get p ''adjudication'' \<noteq> JUndefined) (pipe_error ''adjudication_missing'')) (\<lambda>_.
         bindR (callerBytes (pv_stringify env) 0 [(''adjudication'', js_get p ''adjudication'')]) (\<lambda>_.
         bindR (store_readRecord (pv_publish env) (pv_paths env) st rt sid (js_get p ''runId'')) (\<lambda>r.
         bindR (assertRecordedComposedSize r [ref]) (\<lambda>_.
         bindR (phaseObject env st rt sid (run_id p) ref) (\<lambda>prepared.
         Inr (JObj [(''prepared'', prepared), (''adjudication'', js_get p ''adjudication'')]))))))))))"

definition screen_artifact :: "string \<Rightarrow> bool" where
  "screen_artifact n = (case matchPhaseArtifact n of Some (ScreenPhase, Some _) \<Rightarrow> True | _ \<Rightarrow> False)"

text \<open>\<open>[...new Set(names)]\<close> keeps the first occurrence.\<close>

definition first_occurrences :: "string list \<Rightarrow> string list" where
  "first_occurrences xs = rev (remdups (rev xs))"

definition screen_names :: "review_record \<Rightarrow> string list" where
  "screen_names r = first_occurrences (filter screen_artifact (map ra_name (rr_artifacts r)))"

text \<open>\<open>{ ...value, head_sha }\<close>: the entries of an object, or the indices of an array.\<close>

definition spread_entries :: "js \<Rightarrow> (string \<times> js) list" where
  "spread_entries v = (case v of JObj kvs \<Rightarrow> kvs | JArr xs \<Rightarrow> zip (map show_nat [0..<length xs]) xs | _ \<Rightarrow> [])"

definition object_id_value :: "string option \<Rightarrow> js" where
  "object_id_value v = (case v of None \<Rightarrow> JNull | Some s \<Rightarrow> JStr s)"

definition bound_metadata :: "review_record \<Rightarrow> js \<Rightarrow> js" where
  "bound_metadata r v = JObj (AList.update ''head_sha'' (object_id_value (rr_headObjectId r)) (spread_entries v))"

definition composeFinalize :: "pipe_env \<Rightarrow> run_store \<Rightarrow> review_root \<Rightarrow> string \<Rightarrow> pipe_payload \<Rightarrow> js result" where
  "composeFinalize env st rt sid p =
     bindR (guardR (list_all (\<lambda>k. js_get p k = JUndefined) [''stdin'', ''inputRef'', ''inputRefs'']) (pipe_error ''stdin_source_conflict'')) (\<lambda>_.
     bindR (guardR (js_get p ''adjudication'' = JUndefined) (pipe_error ''adjudication_forbidden'')) (\<lambda>_.
     bindR (guardR (is_str (\<lambda>_. True) (js_get p ''preparedRef'') \<and> is_str (\<lambda>_. True) (js_get p ''mergeRef'')) (pipe_error ''finalize_refs_missing'')) (\<lambda>_.
     let preparedRef = js_str (js_get p ''preparedRef''); mergeRef = js_str (js_get p ''mergeRef'') in
     bindR (guardR (preparedRef \<noteq> mergeRef) (pipe_error ''input_ref_duplicate'')) (\<lambda>_.
     bindR (guardR (matchPhaseArtifact preparedRef = Some (PreparePhase, None)) (pipe_error ''finalize_prepared_ref_phase_invalid'')) (\<lambda>_.
     bindR (guardR (matchPhaseArtifact mergeRef = Some (MergePhase, None)) (pipe_error ''finalize_merge_ref_phase_invalid'')) (\<lambda>_.
     bindR (callerBytes (pv_stringify env) 0 (map (\<lambda>k. (k, js_get p k)) FINALIZE_FIELDS)) (\<lambda>_.
     bindR (store_readRecord (pv_publish env) (pv_paths env) st rt sid (js_get p ''runId'')) (\<lambda>r.
     let screens = screen_names r; meta = js_get p ''parent_run_metadata'' in
     bindR (guardR (screens \<noteq> []) (pipe_error ''finalize_screen_results_missing'')) (\<lambda>_.
     bindR (guardR (distinct (preparedRef # mergeRef # screens)) (pipe_error ''input_ref_duplicate'')) (\<lambda>_.
     bindR (assertRecordedComposedSize r (preparedRef # mergeRef # screens)) (\<lambda>_.
     bindR (guardR (case meta of JObj kvs \<Rightarrow> has_own kvs ''head_sha'' \<longrightarrow> js_get kvs ''head_sha'' = object_id_value (rr_headObjectId r) | _ \<Rightarrow> True)
       (pipe_error ''parent_head_sha_mismatch'')) (\<lambda>_.
     bindR (phaseObject env st rt sid (run_id p) mergeRef) (\<lambda>merge.
     bindR (phaseObject env st rt sid (run_id p) preparedRef) (\<lambda>prepared.
     bindR (wrap_screens (wrapScreenResult env st rt sid (run_id p)) screens) (\<lambda>results.
     Inr (JObj ([(''merge'', merge), (''prepared'', prepared), (''screen_results'', JArr results)] @
       map (\<lambda>k. (k, if k = ''parent_run_metadata'' then bound_metadata r meta else js_get p k)) FINALIZE_FIELDS)))))))))))))))))"

text \<open>The dispatches of a \<open>prepare\<close>: objects with a persona; the first of a persona counts.\<close>

definition persona_of :: "js \<Rightarrow> string option" where
  "persona_of v = (case v of JObj kvs \<Rightarrow> (case js_get kvs ''persona'' of JStr s \<Rightarrow> Some s | _ \<Rightarrow> None) | _ \<Rightarrow> None)"

fun unique_dispatches :: "string list \<Rightarrow> js list \<Rightarrow> (string list \<times> js list) result" where
  "unique_dispatches seen [] = Inr (seen, [])"
| "unique_dispatches seen (d # ds) = (case persona_of d of
     None \<Rightarrow> Inl (pipe_error ''selected_dispatches_invalid'')
   | Some s \<Rightarrow>
       bindR (unique_dispatches (if s \<in> set seen then seen else seen @ [s]) ds) (\<lambda>(out, us).
       Inr (out, if s \<in> set seen then us else d # us)))"

fun screen_refs :: "(string \<Rightarrow> js result) \<Rightarrow> string list \<Rightarrow> string list \<Rightarrow> js list \<Rightarrow> (string list \<times> js list) result" where
  "screen_refs wrap personas seen [] = Inr (seen, [])"
| "screen_refs wrap personas seen (v # vs) = (case v of
     JStr ref \<Rightarrow>
       bindR (guardR (length ref \<le> 255) (pipe_error ''input_refs_invalid'')) (\<lambda>_.
       case matchPhaseArtifact ref of
         Some (ScreenPhase, Some persona) \<Rightarrow>
           bindR (guardR (ref \<notin> set seen) (pipe_error ''input_ref_duplicate'')) (\<lambda>_.
           bindR (guardR (persona \<in> set personas) (pipe_error ''input_refs_persona_unselected'')) (\<lambda>_.
           bindR (wrap ref) (\<lambda>x.
           bindR (screen_refs wrap personas (seen @ [ref]) vs) (\<lambda>(out, xs). Inr (out, x # xs)))))
       | _ \<Rightarrow> Inl (pipe_error ''input_ref_not_screen''))
   | _ \<Rightarrow> Inl (pipe_error ''input_refs_invalid''))"

definition compose_refs :: "pipe_env \<Rightarrow> run_store \<Rightarrow> review_root \<Rightarrow> string \<Rightarrow> pipeline_phase \<Rightarrow> pipe_payload \<Rightarrow> js result" where
  "compose_refs env st rt sid phase p =
     bindR (guardR (phase = PreparePhase) (pipe_error ''input_refs_phase_forbidden'')) (\<lambda>_.
     case js_get p ''inputRefs'' of
       JArr refs \<Rightarrow>
         bindR (guardR (length refs \<le> REVIEW_PIPELINE_MAX_INPUT_REFS) (pipe_error ''input_refs_too_many'')) (\<lambda>_.
         bindR (guardR (refs \<noteq> []) (pipe_error ''input_refs_empty'')) (\<lambda>_.
         case js_get p ''selected_dispatches'' of
           JArr (d # ds) \<Rightarrow>
             bindR (callerBytes (pv_stringify env) 0 [(''selected_dispatches'', JArr (d # ds))]) (\<lambda>_.
             bindR (unique_dispatches [] (d # ds)) (\<lambda>(personas, us).
             bindR (screen_refs (wrapScreenResult env st rt sid (run_id p)) personas [] refs) (\<lambda>(seen, results).
             bindR (guardR (list_all (\<lambda>s. phase_artifact ScreenPhase (Some s) \<in> set seen) personas) (pipe_error ''selected_dispatches_screen_missing'')) (\<lambda>_.
             Inr (JObj [(''screen_results'', JArr results), (''selected_dispatches'', JArr us)])))))
         | _ \<Rightarrow> Inl (pipe_error ''selected_dispatches_missing'')))
     | _ \<Rightarrow> Inl (pipe_error ''input_refs_invalid''))"

definition prior_ref :: "pipe_env \<Rightarrow> run_store \<Rightarrow> review_root \<Rightarrow> string \<Rightarrow> pipeline_phase \<Rightarrow> pipe_payload \<Rightarrow> string result" where
  "prior_ref env st rt sid phase p = (case js_get p ''inputRef'' of
     JStr ref \<Rightarrow> (case matchPhaseArtifact ref of
         None \<Rightarrow> Inl (pipe_error ''input_ref_unknown'')
       | Some (source, _) \<Rightarrow>
           bindR (guardR (phase_index source < phase_index phase) (pipe_error ''input_ref_not_prior'')) (\<lambda>_. run_bytes env st rt sid (run_id p) ref))
   | _ \<Rightarrow> Inl (pipe_error ''input_ref_invalid''))"

fun stdin_bytes :: "js \<Rightarrow> string result" where
  "stdin_bytes (JStr s) = Inr s"
| "stdin_bytes (JArr vs) =
     (if list_all (\<lambda>v. case v of JInt n \<Rightarrow> 0 \<le> n \<and> n \<le> 255 | _ \<Rightarrow> False) vs
      then Inr (map (\<lambda>v. case v of JInt n \<Rightarrow> char_of (nat n) | _ \<Rightarrow> CHR 0x00) vs)
      else Inl (pipe_error ''stdin_invalid''))"
| "stdin_bytes _ = Inl (pipe_error ''stdin_invalid'')"

datatype input_source = FromStdin | FromInputRef | FromInputRefs

fun source_name :: "input_source \<Rightarrow> string" where
  "source_name FromStdin = ''stdin''"
| "source_name FromInputRef = ''inputRef''"
| "source_name FromInputRefs = ''inputRefs''"

definition OTHER_PHASE_FIELDS :: "string list" where
  "OTHER_PHASE_FIELDS = [''adjudication'', ''preparedRef'', ''mergeRef''] @ FINALIZE_FIELDS"

text \<open>The input of a phase, where it comes from, and whether its length is capped.\<close>

definition phase_input :: "pipe_env \<Rightarrow> run_store \<Rightarrow> review_root \<Rightarrow> string \<Rightarrow> pipeline_phase \<Rightarrow> pipe_payload \<Rightarrow> (string \<times> input_source \<times> bool) result" where
  "phase_input env st rt sid phase p = (case phase of
     MergePhase \<Rightarrow> bindR (composeMerge env st rt sid p) (\<lambda>v. Inr (pv_stringify env v, FromInputRef, True))
   | FinalizePhase \<Rightarrow> bindR (composeFinalize env st rt sid p) (\<lambda>v. Inr (pv_stringify env v, FromInputRefs, True))
   | _ \<Rightarrow>
       bindR (no_fields p OTHER_PHASE_FIELDS ''_phase_forbidden'') (\<lambda>_.
       let given = filter (\<lambda>k. js_get p k \<noteq> JUndefined) [''stdin'', ''inputRef'', ''inputRefs''] in
       bindR (guardR (given \<noteq> []) (pipe_error ''stdin_source_missing'')) (\<lambda>_.
       bindR (guardR (length given = 1) (pipe_error ''stdin_source_conflict'')) (\<lambda>_.
       bindR (guardR (phase = PreparePhase \<and> has_own p ''selected_dispatches'' \<longrightarrow> given = [''inputRefs'']) (pipe_error ''selected_dispatches_requires_input_refs'')) (\<lambda>_.
       if given = [''inputRefs''] then bindR (compose_refs env st rt sid phase p) (\<lambda>v. Inr (pv_stringify env v, FromInputRefs, True))
       else if given = [''inputRef''] then bindR (prior_ref env st rt sid phase p) (\<lambda>b. Inr (b, FromInputRef, False))
       else bindR (stdin_bytes (js_get p ''stdin'')) (\<lambda>b. Inr (b, FromStdin, True)))))))"

section \<open>Running a phase\<close>

record helper_config =
  hc_path :: "string option"
  hc_sha256 :: "string option"
  hc_interpreter :: "string option"
  hc_lstat :: "string \<Rightarrow> lstat_answer"
  hc_read :: "string \<Rightarrow> string result"
  hc_sha :: "string \<Rightarrow> string"

record pipe_job =
  pj_phase :: pipeline_phase
  pj_reviewer :: "string option"
  pj_source :: input_source
  pj_input :: string
  pj_argv :: "string list"
  pj_maxOutput :: nat

datatype 'a pipe_begun = HelperUnavailable | HelperJob 'a

definition phase_of :: "js \<Rightarrow> pipeline_phase option" where
  "phase_of v = (case v of JStr s \<Rightarrow> find (\<lambda>p. phase_name p = s) PHASES | _ \<Rightarrow> None)"

definition phase_checks :: "pipe_payload \<Rightarrow> (pipeline_phase \<times> string option) result" where
  "phase_checks p = (case phase_of (js_get p ''phase'') of
     None \<Rightarrow> Inl (pipe_error ''phase_invalid'')
   | Some phase \<Rightarrow>
       bindR (guardR (phase \<noteq> PreparePhase \<longrightarrow> \<not> has_own p ''selected_dispatches'') (pipe_error ''selected_dispatches_phase_forbidden'')) (\<lambda>_.
       bindR (if phase = ScreenPhase
         then guardR (is_str (\<lambda>s. s \<in> set REVIEW_PIPELINE_REVIEWERS) (js_get p ''reviewer'')) (pipe_error ''reviewer_invalid'')
         else guardR (js_get p ''reviewer'' = JUndefined) (pipe_error ''reviewer_forbidden'')) (\<lambda>_.
       bindR (assertReviewRunId (js_get p ''runId'')) (\<lambda>_.
       bindR (no_fields p [''prepared'', ''merge'', ''screen_results''] ''_override_forbidden'') (\<lambda>_.
       Inr (phase, if phase = ScreenPhase then Some (js_str (js_get p ''reviewer'')) else None))))))"

definition pipeline_begin ::
  "pipe_env \<Rightarrow> helper_config \<Rightarrow> run_store \<Rightarrow> review_root \<Rightarrow> string \<Rightarrow> pipe_payload \<Rightarrow> pipe_job pipe_begun result"
where
  "pipeline_begin env hc st rt sid p =
     bindR (phase_checks p) (\<lambda>(phase, reviewer).
     bindR (phase_input env st rt sid phase p) (\<lambda>(input, source, capped).
     bindR (guardR (capped \<longrightarrow> length input \<le> REVIEW_PIPELINE_MAX_STDIN_BYTES)
       (pipe_error (if phase = MergePhase \<or> phase = FinalizePhase then ''composed_input_too_large'' else if source = FromInputRefs then ''input_refs_too_large'' else ''stdin_too_large''))) (\<lambda>_.
     case assertPinnedReviewHelper (hp_cwd (pv_paths env)) (hc_lstat hc) (hc_read hc) (hc_sha hc) (hc_path hc) (hc_sha256 hc) of
       Inl e \<Rightarrow> if e = run_error ''review_helper_missing'' then Inr HelperUnavailable else Inl e
     | Inr helper \<Rightarrow>
         bindR (resolveReviewHelperInterpreter (hp_cwd (pv_paths env)) (hc_lstat hc) (hc_interpreter hc)) (\<lambda>interpreter.
         Inr (HelperJob \<lparr>pj_phase = phase, pj_reviewer = reviewer, pj_source = source, pj_input = input,
           pj_argv = [interpreter, ph_path helper] @ (case reviewer of Some r \<Rightarrow> [''screen'', ''--reviewer'', r, ''--harness'', ''opencode''] | None \<Rightarrow> [phase_name phase]),
           pj_maxOutput = rc_maxFileBytes (ss_caps st) + 1\<rparr>)))))"

section \<open>What the helper returned\<close>

record validator_request =
  vq_finding_id :: string
  vq_file :: "string option"
  vq_line :: "int option"

record phase_summary =
  sm_phase :: pipeline_phase
  sm_source :: input_source
  sm_keys :: "string list"
  sm_requests :: "(validator_request list \<times> nat \<times> bool) option"   \<comment> \<open>the first requests, their number, whether the field was there\<close>

definition REVIEW_PIPELINE_MAX_VALIDATOR_REQUESTS :: nat where
  "REVIEW_PIPELINE_MAX_VALIDATOR_REQUESTS = 32"

definition project_request :: "js \<Rightarrow> validator_request option" where
  "project_request v = (case v of
     JObj e \<Rightarrow> (case js_get e ''finding_id'' of
         JStr (c # s) \<Rightarrow> Some \<lparr>vq_finding_id = take 128 (c # s),
           vq_file = (case js_get e ''file'' of JStr f \<Rightarrow> Some (take 512 f) | _ \<Rightarrow> None),
           vq_line = (case js_get e ''line'' of JInt n \<Rightarrow> (if 0 \<le> n then Some n else None) | _ \<Rightarrow> None)\<rparr>
       | _ \<Rightarrow> None)
   | _ \<Rightarrow> None)"

definition createSummary :: "pipeline_phase \<Rightarrow> input_source \<Rightarrow> js \<Rightarrow> phase_summary result" where
  "createSummary phase source output =
     (let kvs = (case output of JObj kvs \<Rightarrow> kvs | _ \<Rightarrow> []);
          keys = map (take 128) (take 32 (map fst kvs));
          invalid = pipe_error ''validator_requests_invalid'' in
      if phase \<noteq> MergePhase \<and> phase \<noteq> FinalizePhase then Inr \<lparr>sm_phase = phase, sm_source = source, sm_keys = keys, sm_requests = None\<rparr>
      else
        bindR (if has_own kvs ''validator_requests'' then (case js_get kvs ''validator_requests'' of JArr xs \<Rightarrow> Inr xs | _ \<Rightarrow> Inl invalid) else Inr []) (\<lambda>requests.
        bindR (guardR (list_all (\<lambda>v. project_request v \<noteq> None) requests) invalid) (\<lambda>_.
        Inr \<lparr>sm_phase = phase, sm_source = source, sm_keys = keys,
          sm_requests = Some (take REVIEW_PIPELINE_MAX_VALIDATOR_REQUESTS (List.map_filter project_request requests), length requests, has_own kvs ''validator_requests'')\<rparr>)))"

datatype pipeline_result =
    AcceptedPhase run_artifact phase_summary
  | InvalidOutput run_artifact
  | RejectedPhase string
  | UnavailablePhase string

definition diagnostic :: "host_spawned \<Rightarrow> string" where
  "diagnostic r = take 4096 (hs_stderr r)"

definition provenance_of :: "finalize_outcome \<Rightarrow> run_artifact option \<Rightarrow> input_source \<Rightarrow> finalize_provenance" where
  "provenance_of outcome artifact source = \<lparr>fp_phase = ''finalize'', fp_outcome = outcome, fp_inputSource = Some (source_name source), fp_artifact = artifact\<rparr>"

text \<open>
  The part after the helper.  Recording the provenance of a finalize comes last and may
  fail after the artifact was published; its publications are numbered apart.
\<close>

definition phase_output :: "pipe_env \<Rightarrow> run_store \<Rightarrow> string \<Rightarrow> string \<Rightarrow> pipe_job \<Rightarrow> host_spawned \<Rightarrow> js result" where
  "phase_output env st sid rid j r =
     bindR (guardR (length (hs_stdout r) \<le> rc_maxFileBytes (ss_caps st)) (pipe_error ''output_too_large'')) (\<lambda>_.
     case pv_parse env (hs_stdout r) of None \<Rightarrow> Inl (pipe_error ''output_invalid'') | Some v \<Rightarrow> Inr v)"

definition record_provenance ::
  "pipe_env \<Rightarrow> publish_env \<Rightarrow> run_store \<Rightarrow> string \<Rightarrow> string \<Rightarrow> pipe_job \<Rightarrow> finalize_provenance \<Rightarrow> review_root \<Rightarrow> review_root \<times> unit result"
where
  "record_provenance env late st sid rid j prov rt =
     (if pj_phase j = FinalizePhase then recordFinalizeProvenance late (pv_paths env) st sid (JStr rid) prov rt else (rt, Inr ()))"

definition pipeline_finish ::
  "pipe_env \<Rightarrow> publish_env \<Rightarrow> run_store \<Rightarrow> string \<Rightarrow> string \<Rightarrow> pipe_job \<Rightarrow> host_spawned result \<Rightarrow> review_root \<Rightarrow> review_root \<times> pipeline_result result"
where
  "pipeline_finish env late st sid rid j answer rt = (case answer of
     Inl e \<Rightarrow> (rt, Inr (UnavailablePhase (take 4096 (error_message e))))
   | Inr r \<Rightarrow>
       if hs_status r = Some 0 \<and> \<not> hs_timedOut r then (case phase_output env st sid rid j r of
           Inl e \<Rightarrow> (rt, Inl e)
         | Inr v \<Rightarrow> (case store_addArtifact (pv_publish env) (pv_paths env) st sid (JStr rid) (JStr (phase_artifact (pj_phase j) (pj_reviewer j))) (hs_stdout r) rt of
               (rt1, Inl e) \<Rightarrow> (rt1, Inl e)
             | (rt1, Inr a) \<Rightarrow> (case createSummary (pj_phase j) (pj_source j) v of
                   Inl _ \<Rightarrow> (rt1, Inr (InvalidOutput a))
                 | Inr summary \<Rightarrow>
                     (let (rt2, x) = record_provenance env late st sid rid j (provenance_of AcceptedFinalize (Some a) (pj_source j)) rt1 in
                      (rt2, bindR x (\<lambda>_. Inr (AcceptedPhase a summary)))))))
       else
         (let text = diagnostic r; internal = (hs_status r = Some 1 \<and> startsWith text ''ce-review-validator: internal error in '');
              rejected = (hs_status r = Some 1 \<and> \<not> internal);
              (rt1, x) = record_provenance env late st sid rid j (provenance_of (if rejected then StructurallyRejected else ValidationUnavailable) None (pj_source j)) rt in
          (rt1, bindR x (\<lambda>_. Inr (if rejected then RejectedPhase text else UnavailablePhase text)))))"

section \<open>The operations\<close>

record review_config =
  vc_broker :: broker_config
  vc_root :: string
  vc_deniedPrefixes :: "string list"
  vc_caps :: run_caps
  vc_helper :: helper_config

definition reviewRunStoreOptions :: "review_config \<Rightarrow> string \<Rightarrow> bool \<Rightarrow> run_store_options" where
  "reviewRunStoreOptions vc projectRoot readOnly =
     \<lparr>ro_root = vc_root vc, ro_projectRoot = projectRoot, ro_deniedPrefixes = vc_deniedPrefixes vc, ro_caps = vc_caps vc, ro_readOnly = readOnly\<rparr>"

text \<open>The common beginning: authorization, the canonical project root and the store.\<close>

definition review_store :: "review_config \<Rightarrow> host_paths \<Rightarrow> store \<Rightarrow> string \<Rightarrow> envelope \<Rightarrow> pipe_payload \<Rightarrow> unit result \<Rightarrow> bool \<Rightarrow> (run_store \<times> string) result" where
  "review_store vc hp sessions op req p checks readOnly =
     bindR (authorizeHostDispatch (bc_readOnlyAgents (vc_broker vc)) sessions op (env_sessionID req) OrchestratorCategory) (\<lambda>_.
     bindR checks (\<lambda>_.
     bindR (resolveCanonicalProjectRoot (vc_broker vc) (hp_realpath hp) (js_get p ''projectDir'')) (\<lambda>(pid, projectRoot).
     bindR (newReviewRunStore hp (reviewRunStoreOptions vc projectRoot readOnly)) (\<lambda>st. Inr (st, projectRoot)))))"

definition reviewDiffRead :: "review_config \<Rightarrow> publish_env \<Rightarrow> host_paths \<Rightarrow> store \<Rightarrow> review_root \<Rightarrow> envelope \<Rightarrow> diff_read result" where
  "reviewDiffRead vc env hp sessions rt req =
     bindR (payloadOf req) (\<lambda>p.
     bindR (review_store vc hp sessions ''reviewDiffRead'' req p
       (guardR (is_str (\<lambda>_. True) (js_get p ''runId'') \<and> (js_get p ''slice'' = JUndefined \<or> is_str (\<lambda>_. True) (js_get p ''slice'')))
         (ValidationError ''reviewDiffRead requires a runId and optional slice string'')) False) (\<lambda>(st, _).
     readReviewDiff env hp st rt (js_str (js_get p ''runId'')) (if js_get p ''slice'' = JUndefined then None else Some (js_str (js_get p ''slice''))) (env_sessionID req)))"

fun small_int :: "js \<Rightarrow> bool" where
  "small_int (JInt n) = (0 \<le> n \<and> n \<le> 100)"
| "small_int _ = False"

definition materialize_checks :: "pipe_payload \<Rightarrow> unit result" where
  "materialize_checks p =
     bindR (guardR (is_str (\<lambda>s. s \<noteq> []) (js_get p ''baseRef'')) (ValidationError ''baseRef must be a non-empty string'')) (\<lambda>_.
     bindR (guardR (js_get p ''headRef'' = JUndefined \<or> is_str (\<lambda>_. True) (js_get p ''headRef'')) (ValidationError ''headRef must be a string'')) (\<lambda>_.
     bindR (guardR (js_get p ''contextLines'' = JUndefined \<or> small_int (js_get p ''contextLines''))
       (ValidationError ''contextLines must be an integer from 0 through 100'')) (\<lambda>_.
     guardR (case js_get p ''paths'' of JUndefined \<Rightarrow> True | JArr vs \<Rightarrow> list_all (is_str (\<lambda>_. True)) vs | _ \<Rightarrow> False)
       (ValidationError ''paths must be an array of strings''))))"

definition materialize_request :: "pipe_payload \<Rightarrow> materialize_payload" where
  "materialize_request p = \<lparr>mp_baseRef = js_str (js_get p ''baseRef''),
     mp_headRef = (case js_get p ''headRef'' of JStr s \<Rightarrow> Some s | _ \<Rightarrow> None),
     mp_contextLines = (case js_get p ''contextLines'' of JInt n \<Rightarrow> Some n | _ \<Rightarrow> None),
     mp_paths = (case js_get p ''paths'' of JArr vs \<Rightarrow> Some (map js_str vs) | _ \<Rightarrow> None), mp_workspace = False\<rparr>"

definition reviewMaterialize :: "review_config \<Rightarrow> host_paths \<Rightarrow> store \<Rightarrow> (string \<Rightarrow> git_answers) \<Rightarrow> review_root \<Rightarrow> envelope \<Rightarrow> (run_store \<times> materialized) result" where
  "reviewMaterialize vc hp sessions gitIn rt req =
     bindR (payloadOf req) (\<lambda>p.
     bindR (review_store vc hp sessions ''reviewMaterialize'' req p (materialize_checks p) False) (\<lambda>(st, projectRoot).
     bindR (materialize_collect (gitIn projectRoot) st rt (env_sessionID req) (materialize_request p)) (\<lambda>m. Inr (st, m))))"

definition reviewPipelineRun ::
  "review_config \<Rightarrow> pipe_env \<Rightarrow> store \<Rightarrow> review_root \<Rightarrow> envelope \<Rightarrow> (run_store \<times> pipe_payload \<times> pipe_job pipe_begun) result"
where
  "reviewPipelineRun vc env sessions rt req =
     bindR (payloadOf req) (\<lambda>p.
     bindR (review_store vc (pv_paths env) sessions ''reviewPipelineRun'' req p (Inr ()) False) (\<lambda>(st, _).
     bindR (pipeline_begin env (vc_helper vc) st rt (env_sessionID req) p) (\<lambda>j. Inr (st, p, j))))"

end
