(* ===== verification/ReviewPersist.thy ===== *)
theory ReviewPersist
  imports ReviewPipeline
begin

text \<open>
  Writing an accepted review into the project (\<^verbatim>\<open>broker/src/review-persist.ts\<close> and the
  operations \<open>reviewPersistPreflight\<close> and \<open>reviewPersist\<close> of \<^verbatim>\<open>service.ts\<close>).  The state is
  what the operation may change: the ignore file, the staged copy and the summary of the
  run.  What the kernel, git and the validator answer are arguments.
\<close>

section \<open>Checks before writing\<close>

definition persist_error :: "string \<Rightarrow> broker_error" where
  "persist_error code = NativeError code"

text \<open>The document in a finalize artifact: a wrapper of kind \<open>writing\<close> around an object.\<close>

definition wrapper_of :: "js \<Rightarrow> (string \<times> js) list" where
  "wrapper_of v = (case v of JObj kvs \<Rightarrow> kvs | _ \<Rightarrow> [])"

record persist_preflight =
  pl_runId :: string
  pl_projectDir :: string
  pl_baseObjectId :: "string option"
  pl_headObjectId :: "string option"
  pl_finalize :: "run_artifact option"   \<comment> \<open>its texts are cut to 128 characters when they are shown\<close>
  pl_kind :: "string option"
  pl_verdict :: "string option"
  pl_verdictSource :: "string option"
  pl_counts :: "(string \<times> int) list"
  pl_changedPaths :: nat
  pl_totalBytes :: nat
  pl_input :: string
  pl_blockers :: "string list"

definition verdict_of :: "(string \<times> js) list \<Rightarrow> (string \<times> string) option" where
  "verdict_of d = (case js_get d ''verdict'' of
     JStr v \<Rightarrow> Some (v, ''verdict'')
   | _ \<Rightarrow> (case js_get d ''plan_assessment'' of
       JObj a \<Rightarrow> (case js_get a ''verdict'' of JStr v \<Rightarrow> Some (v, ''plan_assessment.verdict'') | _ \<Rightarrow> None)
     | _ \<Rightarrow> None))"

definition count_of :: "string \<Rightarrow> js \<Rightarrow> int option" where
  "count_of k v = (case v of
     JArr xs \<Rightarrow> Some (int (length xs))
   | JInt n \<Rightarrow> if endsWith k ''_count'' then Some n else None
   | _ \<Rightarrow> None)"

fun counts_of :: "(string \<times> js) list \<Rightarrow> (string \<times> int) list \<Rightarrow> (string \<times> int) list" where
  "counts_of [] counts = counts"
| "counts_of ((k, v) # rest) counts =
     (if length counts \<ge> 16 then counts
      else counts_of rest (case count_of k v of Some n \<Rightarrow> AList.update (take 128 k) n counts | None \<Rightarrow> counts))"

definition finalize_artifact :: "review_record \<Rightarrow> run_artifact option" where
  "finalize_artifact r = Option.bind (rr_finalizeProvenance r) fp_artifact"

definition provenance_blockers :: "review_record \<Rightarrow> string list" where
  "provenance_blockers r = (case rr_finalizeProvenance r of
     None \<Rightarrow> [''review_persist_finalize_provenance_missing'']
   | Some p \<Rightarrow>
       (if fp_phase p \<noteq> ''finalize'' then [''review_persist_finalize_phase_invalid''] else []) @
       (if fp_outcome p \<noteq> AcceptedFinalize then [''review_persist_finalize_outcome_invalid''] else []) @
       (if fp_artifact p = None then [''review_persist_finalize_provenance_missing''] else []))"

text \<open>The artifact as it is on disk; \<open>None\<close> when it cannot be read.\<close>

definition read_finalize :: "pipe_env \<Rightarrow> run_store \<Rightarrow> review_root \<Rightarrow> string \<Rightarrow> string \<Rightarrow> nat \<Rightarrow> string \<Rightarrow> read_artifact result" where
  "read_finalize env st rt sid rid maxFileBytes name =
     bindR (store_runDir st sid (JStr rid)) (\<lambda>dir.
     readRunArtifact (pv_publish env) (pv_paths env) (\<lambda>_. open_in (pv_publish env) rt sid rid) dir (JStr name) maxFileBytes False)"

definition parsed_data :: "pipe_env \<Rightarrow> read_artifact \<Rightarrow> js option" where
  "parsed_data env x = (case rx_data x of DataFile b \<Rightarrow> pv_parse env b | RecordFile _ \<Rightarrow> None)"

definition document_blockers :: "(string \<times> js) list \<Rightarrow> string list" where
  "document_blockers w =
     (if js_get w ''kind'' \<noteq> JStr ''writing'' then [''review_persist_kind'']
      else case js_get w ''artifact'' of JObj _ \<Rightarrow> [] | _ \<Rightarrow> [''review_persist_artifact''])"

definition preflightReviewPersist ::
  "pipe_env \<Rightarrow> run_store \<Rightarrow> review_root \<Rightarrow> string \<Rightarrow> string \<Rightarrow> string \<Rightarrow> string \<Rightarrow> nat \<Rightarrow> persist_preflight result"
where
  "preflightReviewPersist env st rt sid projectDir rid finalizeRef maxFileBytes =
     bindR (store_readRecord (pv_publish env) (pv_paths env) st rt sid (JStr rid)) (\<lambda>r.
     let recorded = finalize_artifact r;
         base = (if rr_projectRoot r \<noteq> projectDir then [''review_persist_project_mismatch''] else []) @ provenance_blockers r @
           (case recorded of Some a \<Rightarrow> (if finalizeRef \<noteq> ra_name a then [''review_persist_finalize_ref_mismatch''] else []) | None \<Rightarrow> []);
         actual = Option.bind recorded (\<lambda>a. case read_finalize env st rt sid rid maxFileBytes (ra_name a) of Inr x \<Rightarrow> Some x | Inl _ \<Rightarrow> None);
         disk = (case (recorded, actual) of
             (Some a, Some x) \<Rightarrow> (if rx_bytes x \<noteq> ra_bytes a \<or> rx_sha256 x \<noteq> ra_sha256 a then [''review_persist_finalize_digest_mismatch''] else [])
           | (Some a, None) \<Rightarrow> [''review_persist_preflight_artifact_unreadable'']
           | (None, _) \<Rightarrow> []);
         parsed = Option.bind actual (parsed_data env);
         w = (case parsed of Some v \<Rightarrow> wrapper_of v | None \<Rightarrow> []);
         body = (case js_get w ''artifact'' of JObj d \<Rightarrow> d | _ \<Rightarrow> []);
         content = (case (actual, parsed) of (None, _) \<Rightarrow> [] | (Some _, None) \<Rightarrow> [''review_persist_preflight_json_invalid''] | (Some _, Some _) \<Rightarrow> document_blockers w) in
     Inr \<lparr>pl_runId = take 128 rid, pl_projectDir = take 128 projectDir, pl_baseObjectId = map_option (take 128) (rr_baseObjectId r),
       pl_headObjectId = map_option (take 128) (rr_headObjectId r), pl_finalize = recorded, pl_kind = (case js_get w ''kind'' of JStr k \<Rightarrow> Some (take 128 k) | _ \<Rightarrow> None),
       pl_verdict = map_option (take 128 \<circ> fst) (verdict_of body), pl_verdictSource = map_option snd (verdict_of body), pl_counts = counts_of body [],
       pl_changedPaths = (case rr_changedPaths r of Some ps \<Rightarrow> length ps | None \<Rightarrow> 0), pl_totalBytes = (case rr_totalBytes r of Some n \<Rightarrow> n | None \<Rightarrow> 0),
       pl_input = (case Option.bind (rr_finalizeProvenance r) fp_inputSource of
           Some s \<Rightarrow> if s \<in> set [''stdin'', ''inputRef'', ''inputRefs''] then s else ''unknown'' | None \<Rightarrow> ''unknown''),
       pl_blockers = take 16 (base @ disk @ content)\<rparr>)"

text \<open>The checks of \<open>reviewPersist\<close> itself, up to the document that is written.\<close>

definition persist_checks :: "pipe_env \<Rightarrow> run_store \<Rightarrow> review_root \<Rightarrow> string \<Rightarrow> string \<Rightarrow> string \<Rightarrow> string \<Rightarrow> nat \<Rightarrow> js result" where
  "persist_checks env st rt sid projectRoot rid finalizeRef maxFileBytes =
     bindR (store_runDir st sid (JStr rid)) (\<lambda>_.
     bindR (store_readRecord (pv_publish env) (pv_paths env) st rt sid (JStr rid)) (\<lambda>r.
     bindR (guardR (rr_projectRoot r = projectRoot) (persist_error ''review_persist_project_mismatch'')) (\<lambda>_.
     case rr_finalizeProvenance r of
       None \<Rightarrow> Inl (persist_error ''review_persist_finalize_provenance_missing'')
     | Some p \<Rightarrow>
         bindR (guardR (fp_phase p = ''finalize'') (persist_error ''review_persist_finalize_phase_invalid'')) (\<lambda>_.
         bindR (guardR (fp_outcome p = AcceptedFinalize) (persist_error ''review_persist_finalize_outcome_invalid'')) (\<lambda>_.
         case fp_artifact p of
           None \<Rightarrow> Inl (persist_error ''review_persist_finalize_provenance_missing'')
         | Some a \<Rightarrow>
             bindR (guardR (finalizeRef = ra_name a) (persist_error ''review_persist_finalize_ref_mismatch'')) (\<lambda>_.
             bindR (read_finalize env st rt sid rid maxFileBytes finalizeRef) (\<lambda>x.
             bindR (guardR (rx_bytes x = ra_bytes a \<and> rx_sha256 x = ra_sha256 a) (persist_error ''review_persist_finalize_digest_mismatch'')) (\<lambda>_.
             case parsed_data env x of
               None \<Rightarrow> Inl (ValidationError ''finalize reference is not valid JSON'')
             | Some v \<Rightarrow> Inr v))))))))"

section \<open>Writing\<close>

datatype ignore_file = NoIgnore | IgnoreLink | IgnoreOther | IgnoreFile string

record review_files =
  pf_ignore :: ignore_file
  pf_staged :: "string option"
  pf_summary :: "string option"

datatype write_fault = WriteDone | WriteFailed | SyncFailed   \<comment> \<open>an error before the rename, or after it\<close>

datatype dir_open = DirOpened | DirMissing bool bool | DirUnsafe   \<comment> \<open>whether creating it fails, and whether opening it again works\<close>

record persist_world =
  pw_cwd :: string
  pw_realpath :: "string \<Rightarrow> string option"
  pw_procFd :: bool
  pw_openRoot :: bool
  pw_openDir :: "string \<Rightarrow> dir_open"
  pw_checkIgnore :: "nat \<Rightarrow> host_spawned result"
  pw_readIgnore :: "nat option"   \<comment> \<open>what \<open>fstat\<close> reports of the opened ignore file when it grew meanwhile; it is not removed in between\<close>
  pw_ignoreFault :: write_fault
  pw_stageFails :: bool   \<comment> \<open>nothing is synchronised after the rename of the staged copy\<close>
  pw_finalFault :: write_fault
  pw_anchor :: "nat \<Rightarrow> string option"
  pw_validate :: "string list \<Rightarrow> host_spawned result"
  pw_pretty :: "js \<Rightarrow> string"

definition write_to :: "write_fault \<Rightarrow> 'a \<Rightarrow> 'a \<Rightarrow> 'a \<times> unit result" where
  "write_to f old new = (case f of WriteDone \<Rightarrow> (new, Inr ()) | WriteFailed \<Rightarrow> (old, Inl io_error) | SyncFailed \<Rightarrow> (new, Inl io_error))"

fun open_components :: "(string \<Rightarrow> dir_open) \<Rightarrow> string list \<Rightarrow> unit result" where
  "open_components f [] = Inr ()"
| "open_components f (c # cs) = (case f c of
     DirOpened \<Rightarrow> open_components f cs
   | DirMissing mkdirFails reopens \<Rightarrow>
       bindR (guardR (\<not> mkdirFails) io_error) (\<lambda>_.
       bindR (guardR reopens (persist_error ''review_persist_unsafe_directory'')) (\<lambda>_. open_components f cs))
   | DirUnsafe \<Rightarrow> Inl (persist_error ''review_persist_unsafe_directory''))"

text \<open>\<open>split(/[\\/]/)\<close> separates at both slashes.\<close>

definition slashed :: "char \<Rightarrow> char" where
  "slashed c = (if c = CHR 0x5C then CHR ''/'' else c)"

definition openContainedRunDirectories :: "persist_world \<Rightarrow> string \<Rightarrow> string \<Rightarrow> unit result" where
  "openContainedRunDirectories pw rootDir runDir =
     bindR (guardR (pw_openRoot pw) io_error) (\<lambda>_.
     let components = filter (\<lambda>c. c \<noteq> []) (splitOn (CHR ''/'') (map slashed (drop (length rootDir) runDir))) in
     bindR (open_components (pw_openDir pw) components) (\<lambda>_.
     guardR (''.context'' \<in> set components) (persist_error ''review_persist_unsafe_directory'')))"

datatype ignore_status = IgnoreUnchanged | IgnoreCreated | IgnoreChanged

definition REVIEW_IGNORE_MAX_BYTES :: nat where
  "REVIEW_IGNORE_MAX_BYTES = 64 * 1024"

definition read_ignore :: "persist_world \<Rightarrow> ignore_file \<Rightarrow> (string \<times> bool) result" where
  "read_ignore pw f = (case f of
     NoIgnore \<Rightarrow> Inr ([], False)
   | IgnoreLink \<Rightarrow> Inl (persist_error ''review_ignore_symlink'')
   | IgnoreOther \<Rightarrow> Inl (persist_error ''review_ignore_unsafe_target'')
   | IgnoreFile content \<Rightarrow>
       bindR (guardR (length content \<le> REVIEW_IGNORE_MAX_BYTES) (persist_error ''review_ignore_file_too_large'')) (\<lambda>_.
       bindR (guardR (case pw_readIgnore pw of Some n \<Rightarrow> n \<le> REVIEW_IGNORE_MAX_BYTES | None \<Rightarrow> True) (persist_error ''review_ignore_file_too_large'')) (\<lambda>_.
       Inr (content, True))))"

text \<open>\<open>text.split(/\<^bold>\<open>\\r?\\n\<close>/)\<close>\<close>

definition strip_cr :: "string \<Rightarrow> string" where
  "strip_cr s = (if s \<noteq> [] \<and> last s = CHR 0x0D then butlast s else s)"

definition ignore_lines :: "string \<Rightarrow> string list" where
  "ignore_lines s = (let ls = splitOn (CHR 0x0A) s in map strip_cr (butlast ls) @ [last ls])"

definition ignore_entry :: "string \<Rightarrow> string" where
  "ignore_entry rid = ''systematic/ce-review/'' @ rid @ ''/''"

definition ignore_appended :: "string \<Rightarrow> string \<Rightarrow> string" where
  "ignore_appended existing rid = existing @ (if existing \<noteq> [] \<and> last existing \<noteq> CHR 0x0A then [CHR 0x0A] else []) @ ignore_entry rid @ [CHR 0x0A]"

definition ensureReviewIgnored :: "persist_world \<Rightarrow> string \<Rightarrow> ignore_file \<Rightarrow> ignore_file \<times> ignore_status result" where
  "ensureReviewIgnored pw rid f = (case pw_checkIgnore pw 0 of
     Inl e \<Rightarrow> (f, Inl e)
   | Inr r0 \<Rightarrow>
       if hs_status r0 = Some 0 then (f, Inr IgnoreUnchanged)
       else if hs_status r0 \<noteq> Some 1 then (f, Inl (persist_error ''review_ignore_check_failed''))
       else (case read_ignore pw f of
           Inl e \<Rightarrow> (f, Inl e)
         | Inr (existing, existed) \<Rightarrow>
             if ignore_entry rid \<in> set (ignore_lines existing) then (f, Inl (persist_error ''review_ignore_ineffective''))
             else (let (f', w) = write_to (pw_ignoreFault pw) f (IgnoreFile (ignore_appended existing rid)) in
               case w of
                 Inl e \<Rightarrow> (f', Inl e)
               | Inr _ \<Rightarrow> (f', bindR (pw_checkIgnore pw 1) (\<lambda>r1.
                   bindR (guardR (hs_status r1 = Some 0) (persist_error ''review_ignore_ineffective'')) (\<lambda>_.
                   Inr (if existed then IgnoreChanged else IgnoreCreated)))))))"

datatype artifact_validation = ValidationPassed | ValidationFailed string | ValidatorUnavailable string | ValidationNotAttempted

definition validateArtifact :: "persist_world \<Rightarrow> helper_config \<Rightarrow> string \<Rightarrow> artifact_validation" where
  "validateArtifact pw hc target = (case
       bindR (assertPinnedReviewHelper (pw_cwd pw) (hc_lstat hc) (hc_read hc) (hc_sha hc) (hc_path hc) (hc_sha256 hc)) (\<lambda>helper.
       bindR (resolveReviewHelperInterpreter (pw_cwd pw) (hc_lstat hc) (hc_interpreter hc)) (\<lambda>interpreter. Inr [interpreter, ph_path helper, ''artifact'', target])) of
     Inl e \<Rightarrow> ValidatorUnavailable (error_message e)
   | Inr argv \<Rightarrow> (case pw_validate pw argv of
         Inl e \<Rightarrow> ValidatorUnavailable (error_message e)
       | Inr r \<Rightarrow>
           if hs_status r = Some 0 \<and> \<not> hs_timedOut r \<and> \<not> hs_outputTruncated r then ValidationPassed
           else if hs_status r = Some 1 \<and> \<not> hs_timedOut r \<and> \<not> hs_outputTruncated r then ValidationFailed (take 4096 (hs_stderr r))
           else if hs_status r = Some 3 \<and> \<not> hs_timedOut r then ValidatorUnavailable ''legacy artifact''
           else ValidatorUnavailable (if hs_stderr r = [] then ''validator exited'' else take 4096 (hs_stderr r))))"

text \<open>\<open>relative(from, to)\<close> of two absolute paths.\<close>

fun drop_common :: "string list \<Rightarrow> string list \<Rightarrow> string list \<times> string list" where
  "drop_common (a # as) (b # bs) = (if a = b then drop_common as bs else (a # as, b # bs))"
| "drop_common as bs = (as, bs)"

definition relative_path :: "string \<Rightarrow> string \<Rightarrow> string" where
  "relative_path a b = (let (up, down) = drop_common (path_segments a) (path_segments b) in joinWith ''/'' (replicate (length up) ''..'' @ down))"

record persist_result =
  pt_written :: bool   \<comment> \<open>\<open>persisted\<close>, otherwise \<open>incomplete\<close> or \<open>report_only\<close>\<close>
  pt_validation :: artifact_validation
  pt_ignore :: ignore_status

definition document_of :: "js \<Rightarrow> js" where
  "document_of v = (let kvs = wrapper_of v in JObj (if has_own kvs ''schema_version'' then kvs else kvs @ [(''schema_version'', JInt 1)]))"

definition anchored :: "persist_world \<Rightarrow> nat \<Rightarrow> string \<Rightarrow> unit result" where
  "anchored pw n runDir = guardR (pw_anchor pw n = Some runDir) (persist_error ''review_persist_anchor_changed'')"

text \<open>The last write: the anchor is checked before the temporary file and again before the rename.\<close>

definition publish_summary :: "persist_world \<Rightarrow> string \<Rightarrow> string \<Rightarrow> string option \<Rightarrow> string option \<times> unit result" where
  "publish_summary pw runDir bytes old = (case bindR (anchored pw 0 runDir) (\<lambda>_. anchored pw 1 runDir) of
     Inl e \<Rightarrow> (old, Inl e)
   | Inr _ \<Rightarrow> write_to (pw_finalFault pw) old (Some bytes))"

text \<open>An error after the ignore file changed says so; its code is kept when it is the operation's own.\<close>

definition partial_change :: "ignore_status \<Rightarrow> broker_error \<Rightarrow> broker_error" where
  "partial_change ignored e = (if ignored \<noteq> IgnoreUnchanged \<and> e = io_error then persist_error ''review_persist_partial_project_change'' else e)"

definition persist_write :: "persist_world \<Rightarrow> helper_config \<Rightarrow> string \<Rightarrow> string \<Rightarrow> js \<Rightarrow> ignore_status \<Rightarrow> review_files \<Rightarrow> review_files \<times> persist_result result" where
  "persist_write pw hc rid runDir artifact ignored fs =
     (let bytes = pw_pretty pw (document_of artifact) @ [CHR 0x0A];
          fs1 = fs\<lparr>pf_staged := Some bytes\<rparr> in
      if pw_stageFails pw then (fs, Inl (partial_change ignored io_error))
      else (case validateArtifact pw hc (''.context/systematic/ce-review/'' @ rid @ ''/review-summary.json'') of
            ValidationPassed \<Rightarrow>
              (let (summary, r) = publish_summary pw runDir bytes (pf_summary fs1) in
               (fs1\<lparr>pf_summary := summary\<rparr>, (case r of
                   Inl e \<Rightarrow> Inl (partial_change ignored e)
                 | Inr _ \<Rightarrow> Inr \<lparr>pt_written = True, pt_validation = ValidationPassed, pt_ignore = ignored\<rparr>)))
          | v \<Rightarrow> (fs1, Inr \<lparr>pt_written = False, pt_validation = v, pt_ignore = ignored\<rparr>)))"

definition persist_paths :: "persist_world \<Rightarrow> string \<Rightarrow> string \<Rightarrow> string \<Rightarrow> (string \<times> string) result" where
  "persist_paths pw projectRoot rid runDirGiven = (case pw_realpath pw (resolve_path (pw_cwd pw) projectRoot) of
     None \<Rightarrow> Inl io_error
   | Some rootDir \<Rightarrow>
       bindR (guardR (REVIEW_RUN_ID_RE rid) (persist_error ''review_persist_run_id'')) (\<lambda>_.
       let expected = join_path rootDir (''.context/systematic/ce-review/'' @ rid) in
       bindR (guardR (resolve_path (pw_cwd pw) runDirGiven = expected) (persist_error ''review_persist_path'')) (\<lambda>_.
       Inr (rootDir, expected))))"

definition staging_outside :: "persist_world \<Rightarrow> string \<Rightarrow> string \<Rightarrow> string \<Rightarrow> unit result" where
  "staging_outside pw rootDir rid storeRunDirGiven = (case pw_realpath pw (resolve_path (pw_cwd pw) storeRunDirGiven) of
     None \<Rightarrow> Inl (persist_error ''review_persist_staging_path'')
   | Some storeRunDir \<Rightarrow>
       (let rel = relative_path rootDir storeRunDir in
        guardR (basename storeRunDir = rid \<and> rel \<noteq> [] \<and> (rel = ''..'' \<or> startsWith rel ''../'')) (persist_error ''review_persist_staging_path'')))"

definition persistReviewArtifact ::
  "persist_world \<Rightarrow> helper_config \<Rightarrow> string \<Rightarrow> string \<Rightarrow> string \<Rightarrow> string \<Rightarrow> bool \<Rightarrow> js \<Rightarrow> review_files \<Rightarrow> review_files \<times> persist_result result"
where
  "persistReviewArtifact pw hc projectRoot rid runDirGiven storeRunDirGiven reportOnly output fs =
     (let w = wrapper_of output in
      if js_get w ''kind'' \<noteq> JStr ''writing'' then (fs, Inl (persist_error ''review_persist_kind''))
      else if reportOnly then (fs, Inr \<lparr>pt_written = False, pt_validation = ValidationNotAttempted, pt_ignore = IgnoreUnchanged\<rparr>)
      else (case
          bindR (persist_paths pw projectRoot rid runDirGiven) (\<lambda>(rootDir, runDir).
          bindR (guardR (case js_get w ''artifact'' of JObj _ \<Rightarrow> True | _ \<Rightarrow> False) (persist_error ''review_persist_artifact'')) (\<lambda>_.
          bindR (staging_outside pw rootDir rid storeRunDirGiven) (\<lambda>_.
          bindR (guardR (pw_procFd pw) (persist_error ''review_persist_fd_path_unavailable'')) (\<lambda>_.
          bindR (openContainedRunDirectories pw rootDir runDir) (\<lambda>_. Inr runDir))))) of
        Inl e \<Rightarrow> (fs, Inl e)
      | Inr runDir \<Rightarrow> (case ensureReviewIgnored pw rid (pf_ignore fs) of
            (f, Inl e) \<Rightarrow> (fs\<lparr>pf_ignore := f\<rparr>, Inl e)
          | (f, Inr ignored) \<Rightarrow> persist_write pw hc rid runDir (js_get w ''artifact'') ignored (fs\<lparr>pf_ignore := f\<rparr>))))"

section \<open>The operations\<close>

definition persist_mode :: "pipe_payload \<Rightarrow> unit result" where
  "persist_mode p =
     bindR (guardR (is_str (\<lambda>_. True) (js_get p ''runId'') \<and> is_str (\<lambda>_. True) (js_get p ''finalizeRef'')) (ValidationError ''runId and finalizeRef must be strings'')) (\<lambda>_.
     guardR (js_get p ''mode'' \<in> {JUndefined, JStr ''write'', JStr ''report_only''}) (ValidationError ''mode must be write or report_only''))"

definition reviewPersistPreflight :: "review_config \<Rightarrow> pipe_env \<Rightarrow> store \<Rightarrow> review_root \<Rightarrow> envelope \<Rightarrow> persist_preflight result" where
  "reviewPersistPreflight vc env sessions rt req =
     bindR (payloadOf req) (\<lambda>p.
     bindR (review_store vc (pv_paths env) sessions ''reviewPersistPreflight'' req p (persist_mode p) True) (\<lambda>(st, projectRoot).
     case hp_realpath (pv_paths env) (resolve_path (hp_cwd (pv_paths env)) projectRoot) of
       None \<Rightarrow> Inl io_error
     | Some dir \<Rightarrow> preflightReviewPersist env st rt (env_sessionID req) dir (js_str (js_get p ''runId'')) (js_str (js_get p ''finalizeRef'')) (rc_maxFileBytes (vc_caps vc))))"

definition reviewPersist ::
  "review_config \<Rightarrow> pipe_env \<Rightarrow> persist_world \<Rightarrow> store \<Rightarrow> review_root \<Rightarrow> envelope \<Rightarrow> review_files \<Rightarrow> review_files \<times> persist_result result"
where
  "reviewPersist vc env pw sessions rt req fs = (case
       bindR (payloadOf req) (\<lambda>p.
       bindR (review_store vc (pv_paths env) sessions ''reviewPersist'' req p (persist_mode p) False) (\<lambda>(st, projectRoot).
       bindR (persist_checks env st rt (env_sessionID req) projectRoot (js_str (js_get p ''runId'')) (js_str (js_get p ''finalizeRef'')) (rc_maxFileBytes (vc_caps vc))) (\<lambda>v.
       bindR (store_runDir st (env_sessionID req) (js_get p ''runId'')) (\<lambda>storeDir. Inr (p, projectRoot, storeDir, v))))) of
     Inl e \<Rightarrow> (fs, Inl e)
   | Inr (p, projectRoot, storeDir, v) \<Rightarrow>
       (let rid = js_str (js_get p ''runId'') in
        persistReviewArtifact pw (vc_helper vc) projectRoot rid (join_path projectRoot (''.context/systematic/ce-review/'' @ rid)) storeDir
          (js_get p ''mode'' = JStr ''report_only'') v fs))"

end
