(* ===== verification/ReviewOutcome.thy ===== *)
theory ReviewOutcome
  imports ReviewPersist ReviewSlices
begin

text \<open>
  What the phases of a review guarantee together: the preflight reports exactly what stops
  the write, the write happens only for the validated document in the anchored directory,
  the ignore file gets its entry once, and a finalize that was accepted can be persisted.
\<close>

section \<open>The preflight and the write\<close>

lemma read_only_same:
  "store_readRecord env hp (st\<lparr>ss_readOnly := b\<rparr>) rt sid rid = store_readRecord env hp st rt sid rid"
  "read_finalize env' (st\<lparr>ss_readOnly := b\<rparr>) rt sid rid' cap name = read_finalize env' st rt sid rid' cap name"
  "store_runDir (st\<lparr>ss_readOnly := b\<rparr>) sid rid = store_runDir st sid rid"
  by (simp_all add: store_readRecord_def read_finalize_def store_runDir_def store_sessionDir_def)

lemma readRecord_dir: "store_readRecord env hp st rt sid rid = Inr r \<Longrightarrow> \<exists>dir. store_runDir st sid rid = Inr dir"
  unfolding store_readRecord_def bindR_eq_Inr by blast

definition writing_object :: "js \<Rightarrow> bool" where
  "writing_object v = (js_get (wrapper_of v) ''kind'' = JStr ''writing'' \<and> (case js_get (wrapper_of v) ''artifact'' of JObj _ \<Rightarrow> True | _ \<Rightarrow> False))"

lemma document_blockers_Nil: "document_blockers (wrapper_of v) = [] \<longleftrightarrow> writing_object v"
  by (auto simp: document_blockers_def writing_object_def split: js.splits)

text \<open>
  C17. The preflight and the write agree: for a record that can be read, the preflight
  reports no blocker exactly when the checks of the write, made on the same store opened
  for writing, return a document that is a writing wrapper around an object.
\<close>

theorem preflight_predicts_persist:
  assumes "preflightReviewPersist env st rt sid projectDir rid ref cap = Inr pl"
  shows "pl_blockers pl = [] \<longleftrightarrow>
    (\<exists>v. persist_checks env (st\<lparr>ss_readOnly := b\<rparr>) rt sid projectDir rid ref cap = Inr v \<and> writing_object v)"
proof -
  obtain r where r: "store_readRecord (pv_publish env) (pv_paths env) st rt sid (JStr rid) = Inr r"
    using assms unfolding preflightReviewPersist_def bindR_eq_Inr by blast
  from readRecord_dir [OF r] obtain dir where dir: "store_runDir st sid (JStr rid) = Inr dir" by blast
  note pl = assms [unfolded preflightReviewPersist_def r bindR_simps Let_def sum.inject, symmetric]
  note checks = persist_checks_def read_only_same dir r bindR_simps
  show ?thesis
  proof (cases "rr_finalizeProvenance r")
    case None
    then show ?thesis unfolding checks pl by (auto simp: bindR_eq_Inr provenance_blockers_def)
  next
    case p: (Some p)
    show ?thesis
    proof (cases "fp_artifact p")
      case None
      with p show ?thesis unfolding checks pl by (auto simp: bindR_eq_Inr provenance_blockers_def)
    next
      case a: (Some a)
      have fin: "finalize_artifact r = Some a" by (simp add: finalize_artifact_def p a)
      show ?thesis
      proof (cases "read_finalize env st rt sid rid cap (ra_name a)")
        case (Inl e)
        with p a show ?thesis unfolding checks pl by (auto simp: bindR_eq_Inr fin)
      next
        case x: (Inr x)
        show ?thesis
        proof (cases "parsed_data env x")
          case None
          with p a x show ?thesis unfolding checks pl by (auto simp: bindR_eq_Inr fin)
        next
          case (Some v)
          with p a x show ?thesis unfolding checks pl
            by (auto simp: bindR_eq_Inr fin provenance_blockers_def document_blockers_Nil)
        qed
      qed
    qed
  qed
qed

section \<open>What is written\<close>

lemma write_to_cases: "write_to f old new = (x, r) \<Longrightarrow> (x = old \<and> r = Inl io_error) \<or> (x = new \<and> f \<noteq> WriteFailed)"
  by (cases f) (auto simp: write_to_def)

lemma read_ignore_content: "read_ignore pw f = Inr (existing, existed) \<Longrightarrow> f = (if existed then IgnoreFile existing else NoIgnore) \<and> (\<not> existed \<longrightarrow> existing = [])"
  by (cases f) (auto simp: read_ignore_def bindR_eq_Inr)

lemma ensure_ignored_file:
  assumes "ensureReviewIgnored pw rid f = (f', r)"
  shows "f' = f \<or> (\<exists>existing existed. read_ignore pw f = Inr (existing, existed) \<and> ignore_entry rid \<notin> set (ignore_lines existing) \<and>
    f' = IgnoreFile (ignore_appended existing rid))"
  using assms unfolding ensureReviewIgnored_def
  by (auto simp: Let_def split: sum.splits prod.splits if_splits dest!: write_to_cases)

lemma ensure_ignored_Inr:
  assumes "ensureReviewIgnored pw rid f = (f', Inr s)"
  shows "(s = IgnoreUnchanged \<and> f' = f \<and> (\<exists>r. pw_checkIgnore pw 0 = Inr r \<and> hs_status r = Some 0)) \<or>
    (s \<noteq> IgnoreUnchanged \<and> (\<exists>existing existed r. read_ignore pw f = Inr (existing, existed) \<and> f' = IgnoreFile (ignore_appended existing rid) \<and>
       s = (if existed then IgnoreChanged else IgnoreCreated) \<and> pw_checkIgnore pw 1 = Inr r \<and> hs_status r = Some 0))"
  using assms unfolding ensureReviewIgnored_def
  by (auto simp: Let_def bindR_eq_Inr split: sum.splits prod.splits if_splits dest!: write_to_cases)

text \<open>The bytes of the summary: the document with its schema version, formatted, and a line feed.\<close>

definition summary_bytes :: "persist_world \<Rightarrow> js \<Rightarrow> string" where
  "summary_bytes pw v = pw_pretty pw (document_of (js_get (wrapper_of v) ''artifact'')) @ [CHR 0x0A]"

definition staged_target :: "string \<Rightarrow> string" where
  "staged_target rid = ''.context/systematic/ce-review/'' @ rid @ ''/review-summary.json''"

lemma publish_summary_cases:
  assumes "publish_summary pw dir bytes old = (summary, r)"
  shows "(summary = old \<and> (\<exists>e. r = Inl e)) \<or> (summary = Some bytes \<and> pw_anchor pw 0 = Some dir \<and> pw_anchor pw 1 = Some dir)"
proof (cases "bindR (anchored pw 0 dir) (\<lambda>_. anchored pw 1 dir)")
  case (Inl e)
  with assms have "summary = old" "r = Inl e" by (simp_all add: publish_summary_def)
  then show ?thesis by simp
next
  case (Inr u)
  then have "pw_anchor pw 0 = Some dir" "pw_anchor pw 1 = Some dir" by (auto simp: anchored_def bindR_eq_Inr)
  moreover have "write_to (pw_finalFault pw) old (Some bytes) = (summary, r)" using assms Inr by (simp add: publish_summary_def)
  ultimately show ?thesis using write_to_cases [of "pw_finalFault pw" old "Some bytes" summary r] by blast
qed

text \<open>The last part: what it keeps, and when the summary may change.\<close>

lemma persist_write_spec:
  assumes "persist_write pw hc rid dir art ignored fs = (fs', res)"
  shows "pf_ignore fs' = pf_ignore fs \<and>
    (pf_summary fs' = pf_summary fs \<and> (\<forall>r. res = Inr r \<longrightarrow> \<not> pt_written r) \<or>
     pf_summary fs' = Some (pw_pretty pw (document_of art) @ [CHR 0x0A]) \<and> pf_staged fs' = pf_summary fs' \<and>
     validateArtifact pw hc (staged_target rid) = ValidationPassed \<and> pw_anchor pw 0 = Some dir \<and> pw_anchor pw 1 = Some dir) \<and>
    (\<forall>r. res = Inr r \<longrightarrow> pt_ignore r = ignored \<and> (pt_written r \<longleftrightarrow> pt_validation r = ValidationPassed))"
proof (cases "pw_stageFails pw")
  case True
  with assms show ?thesis by (auto simp: persist_write_def Let_def)
next
  case False
  let ?b = "pw_pretty pw (document_of art) @ [CHR 0x0A]"
  show ?thesis
  proof (cases "validateArtifact pw hc (staged_target rid) = ValidationPassed")
    case True
    obtain summary r where p: "publish_summary pw dir ?b (pf_summary fs) = (summary, r)" by fastforce
    have fs': "fs' = fs\<lparr>pf_staged := Some ?b, pf_summary := summary\<rparr>"
      and res: "res = (case r of Inl e \<Rightarrow> Inl (partial_change ignored e) | Inr _ \<Rightarrow> Inr \<lparr>pt_written = True, pt_validation = ValidationPassed, pt_ignore = ignored\<rparr>)"
      using assms False True p by (auto simp: persist_write_def Let_def staged_target_def)
    from publish_summary_cases [OF p] True show ?thesis unfolding fs' res by (auto split: sum.splits)
  next
    case v: False
    then have "fs' = fs\<lparr>pf_staged := Some ?b\<rparr>" "res = Inr \<lparr>pt_written = False, pt_validation = validateArtifact pw hc (staged_target rid), pt_ignore = ignored\<rparr>"
      using assms False by (auto simp: persist_write_def Let_def staged_target_def split: artifact_validation.splits)
    with v show ?thesis by simp
  qed
qed

text \<open>The checks before the first change.\<close>

definition persist_ready :: "persist_world \<Rightarrow> string \<Rightarrow> string \<Rightarrow> string \<Rightarrow> string \<Rightarrow> js \<Rightarrow> string \<Rightarrow> bool" where
  "persist_ready pw projectRoot rid runDirGiven storeRunDirGiven v dir = (\<exists>rootDir. writing_object v \<and> REVIEW_RUN_ID_RE rid \<and>
     pw_realpath pw (resolve_path (pw_cwd pw) projectRoot) = Some rootDir \<and> dir = join_path rootDir (''.context/systematic/ce-review/'' @ rid) \<and>
     resolve_path (pw_cwd pw) runDirGiven = dir \<and> staging_outside pw rootDir rid storeRunDirGiven = Inr () \<and> pw_procFd pw \<and>
     openContainedRunDirectories pw rootDir dir = Inr ())"

lemma persist_artifact_cases:
  assumes "persistReviewArtifact pw hc projectRoot rid given storeGiven reportOnly v fs = (fs', res)"
  shows "(fs' = fs \<and> (\<forall>r. res = Inr r \<longrightarrow> reportOnly \<and> \<not> pt_written r)) \<or>
    (\<not> reportOnly \<and> (\<exists>dir. persist_ready pw projectRoot rid given storeGiven v dir \<and>
       (\<exists>f e. ensureReviewIgnored pw rid (pf_ignore fs) = (f, Inl e) \<and> fs' = fs\<lparr>pf_ignore := f\<rparr> \<and> res = Inl e \<or>
          (\<exists>i. ensureReviewIgnored pw rid (pf_ignore fs) = (f, Inr i) \<and>
             persist_write pw hc rid dir (js_get (wrapper_of v) ''artifact'') i (fs\<lparr>pf_ignore := f\<rparr>) = (fs', res)))))"
proof (cases "js_get (wrapper_of v) ''kind'' \<noteq> JStr ''writing'' \<or> reportOnly")
  case True
  with assms show ?thesis by (auto simp: persistReviewArtifact_def Let_def split: if_splits)
next
  case k: False
  let ?pre = "bindR (persist_paths pw projectRoot rid given) (\<lambda>(rootDir, runDir).
          bindR (guardR (case js_get (wrapper_of v) ''artifact'' of JObj _ \<Rightarrow> True | _ \<Rightarrow> False) (persist_error ''review_persist_artifact'')) (\<lambda>_.
          bindR (staging_outside pw rootDir rid storeGiven) (\<lambda>_.
          bindR (guardR (pw_procFd pw) (persist_error ''review_persist_fd_path_unavailable'')) (\<lambda>_.
          bindR (openContainedRunDirectories pw rootDir runDir) (\<lambda>_. Inr runDir)))))"
  show ?thesis
  proof (cases ?pre)
    case (Inl e)
    with assms k have "fs' = fs" "res = Inl e" by (simp_all add: persistReviewArtifact_def Let_def)
    then show ?thesis by simp
  next
    case (Inr dir)
    then have "persist_ready pw projectRoot rid given storeGiven v dir"
      using k by (auto simp: persist_ready_def writing_object_def bindR_eq_Inr persist_paths_def Let_def split: option.splits)
    moreover obtain f i where e: "ensureReviewIgnored pw rid (pf_ignore fs) = (f, i)" by fastforce
    ultimately show ?thesis using assms k Inr by (cases i) (auto simp: persistReviewArtifact_def Let_def)
  qed
qed

text \<open>
  C7. A review is written into the project only when it was validated: whatever fails, the
  summary keeps its bytes or holds the whole document that was staged and that the pinned
  validator passed; then the mode was not report only, the artifact is an object in a writing
  wrapper, every directory was opened without following links, the staging directory is
  outside the project, git ignores the file, and the directory was still at its place before
  the temporary file and before the rename.  The result says written exactly when validation
  passed, and says it only of the new bytes.  The ignore file keeps its content or gets the
  entry of this run appended once.
\<close>

theorem review_written_only_if_validated:
  assumes "persistReviewArtifact pw hc projectRoot rid given storeGiven reportOnly v fs = (fs', res)"
  shows "(pf_summary fs' = pf_summary fs \<and> (\<forall>r. res = Inr r \<longrightarrow> \<not> pt_written r) \<or>
     pf_summary fs' = Some (summary_bytes pw v) \<and> pf_staged fs' = Some (summary_bytes pw v) \<and> \<not> reportOnly \<and>
     validateArtifact pw hc (staged_target rid) = ValidationPassed \<and>
     (\<exists>n r. pw_checkIgnore pw n = Inr r \<and> hs_status r = Some 0) \<and>
     (\<exists>dir. persist_ready pw projectRoot rid given storeGiven v dir \<and> pw_anchor pw 0 = Some dir \<and> pw_anchor pw 1 = Some dir)) \<and>
    (\<forall>r. res = Inr r \<and> \<not> reportOnly \<longrightarrow> (pt_written r \<longleftrightarrow> pt_validation r = ValidationPassed)) \<and>
    (pf_ignore fs' = pf_ignore fs \<or> \<not> reportOnly \<and> (\<exists>existing existed. read_ignore pw (pf_ignore fs) = Inr (existing, existed) \<and>
       ignore_entry rid \<notin> set (ignore_lines existing) \<and> pf_ignore fs' = IgnoreFile (ignore_appended existing rid)))"
  using persist_artifact_cases [OF assms]
proof (elim disjE exE conjE)
  fix dir f e
  assume "persist_ready pw projectRoot rid given storeGiven v dir" "\<not> reportOnly"
    and e: "ensureReviewIgnored pw rid (pf_ignore fs) = (f, Inl e)" "fs' = fs\<lparr>pf_ignore := f\<rparr>" "res = Inl e"
  with ensure_ignored_file [OF e(1)] show ?thesis by auto
next
  fix dir f and e :: broker_error and i
  assume d: "persist_ready pw projectRoot rid given storeGiven v dir" "\<not> reportOnly"
    and e: "ensureReviewIgnored pw rid (pf_ignore fs) = (f, Inr i)"
    and w: "persist_write pw hc rid dir (js_get (wrapper_of v) ''artifact'') i (fs\<lparr>pf_ignore := f\<rparr>) = (fs', res)"
  have "\<exists>n r. pw_checkIgnore pw n = Inr r \<and> hs_status r = Some 0" using ensure_ignored_Inr [OF e] by blast
  moreover have "f = pf_ignore fs \<or> (\<exists>existing existed. read_ignore pw (pf_ignore fs) = Inr (existing, existed) \<and>
      ignore_entry rid \<notin> set (ignore_lines existing) \<and> f = IgnoreFile (ignore_appended existing rid))" by (rule ensure_ignored_file [OF e])
  ultimately show ?thesis using persist_write_spec [OF w] d unfolding summary_bytes_def by auto
qed auto

section \<open>The ignore file\<close>

lemma strip_cr_noop: "CHR 0x0D \<notin> set s \<Longrightarrow> strip_cr s = s"
  unfolding strip_cr_def by (metis last_in_set)

lemma entry_no_breaks: "REVIEW_RUN_ID_RE rid \<Longrightarrow> CHR 0x0A \<notin> set (ignore_entry rid) \<and> CHR 0x0D \<notin> set (ignore_entry rid)"
proof -
  assume "REVIEW_RUN_ID_RE rid"
  then have "\<forall>c \<in> set rid. is_hex c" by (simp add: REVIEW_RUN_ID_RE_def matches_def list_all_iff)
  moreover have "\<not> is_hex (CHR 0x0A)" "\<not> is_hex (CHR 0x0D)" by code_simp+
  ultimately have "CHR 0x0A \<notin> set rid" "CHR 0x0D \<notin> set rid" by blast+
  then show ?thesis by (simp add: ignore_entry_def)
qed

lemma ignore_lines_append: "ignore_lines (a @ CHR 0x0A # b) = map strip_cr (splitOn (CHR 0x0A) a) @ ignore_lines b"
  by (simp add: ignore_lines_def splitOn_append Let_def butlast_append)

lemma ignore_appended_lines:
  assumes "REVIEW_RUN_ID_RE rid"
  shows "ignore_entry rid \<in> set (ignore_lines (ignore_appended existing rid))"
proof -
  note e = entry_no_breaks [OF assms]
  have tl: "ignore_lines (ignore_entry rid @ [CHR 0x0A]) = [ignore_entry rid, []]"
    using e by (simp add: ignore_lines_append splitOn_no_sep strip_cr_noop) (simp add: ignore_lines_def)
  consider "existing = []" | a where "existing = a @ [CHR 0x0A]" | "existing \<noteq> []" "last existing \<noteq> CHR 0x0A"
    by (metis append_butlast_last_id)
  then show ?thesis
  proof cases
    case 1
    then show ?thesis using tl by (simp add: ignore_appended_def)
  next
    case 2
    then have "ignore_appended existing rid = a @ CHR 0x0A # ignore_entry rid @ [CHR 0x0A]" by (simp add: ignore_appended_def)
    then show ?thesis using tl by (simp add: ignore_lines_append)
  next
    case 3
    then have "ignore_appended existing rid = existing @ CHR 0x0A # ignore_entry rid @ [CHR 0x0A]" by (simp add: ignore_appended_def)
    then show ?thesis using tl by (simp add: ignore_lines_append)
  qed
qed

text \<open>
  The ignore file gets the entry of a run at most once: when it changes, its new content
  starts with the old one, is longer by no more than the entry and two line feeds, and no
  later attempt for the same run, whatever git and the file system answer, changes it again.
\<close>

theorem ignore_entry_added_once:
  assumes "REVIEW_RUN_ID_RE rid" "ensureReviewIgnored pw rid f = (f', r)" "f' \<noteq> f"
  shows "\<exists>old new. f' = IgnoreFile new \<and> (f = NoIgnore \<and> old = [] \<or> f = IgnoreFile old) \<and> length old \<le> REVIEW_IGNORE_MAX_BYTES \<and>
    take (length old) new = old \<and> length new \<le> length old + length (ignore_entry rid) + 2 \<and>
    (\<forall>pw'. fst (ensureReviewIgnored pw' rid f') = f')"
proof -
  from ensure_ignored_file [OF assms(2)] assms(3) obtain old existed where o: "read_ignore pw f = Inr (old, existed)"
    and f': "f' = IgnoreFile (ignore_appended old rid)" by blast
  have "fst (ensureReviewIgnored pw' rid f') = f'" for pw'
  proof (cases "ensureReviewIgnored pw' rid f'")
    case (Pair g x)
    have "read_ignore pw' f' = Inr (e, b) \<longrightarrow> e = ignore_appended old rid" for e b unfolding f' by (auto dest: read_ignore_content split: if_splits)
    with ensure_ignored_file [OF Pair] ignore_appended_lines [OF assms(1), of old] Pair show ?thesis by auto
  qed
  moreover have "f = NoIgnore \<and> old = [] \<or> f = IgnoreFile old" using read_ignore_content [OF o] by (auto split: if_splits)
  moreover have "length old \<le> REVIEW_IGNORE_MAX_BYTES" using o by (auto simp: read_ignore_def bindR_eq_Inr split: ignore_file.splits)
  ultimately show ?thesis by (intro exI [of _ old] exI [of _ "ignore_appended old rid"]) (auto simp: f' ignore_appended_def)
qed

section \<open>From an accepted finalize to the project\<close>

lemma readRecord_intro:
  assumes "store_runDir st sid rid = Inr dir" "contains_path (canon hp dir) (canon hp (join_path dir REVIEW_RUN_METADATA_NAME))"
    and "find_run rt sid (js_str rid) = Some d" "rd_files d REVIEW_RUN_METADATA_NAME = Some (RecordFile r)"
    and "rr_runId r = js_str rid" "rr_sessionID r = sid" "pe_recordBytes env r \<le> rc_maxFileBytes (ss_caps st)"
  shows "store_readRecord env hp st rt sid rid = Inr r"
proof -
  have "REVIEW_RUN_ARTIFACT_NAME_RE REVIEW_RUN_METADATA_NAME" by code_simp
  with assms show ?thesis
    by (simp add: store_readRecord_def readRunArtifact_def assertReviewRunArtifactNameGrammar_def open_in_def Let_def)
qed

lemma readRecord_contained:
  assumes "store_readRecord env hp st rt sid rid = Inr r" "store_runDir st sid rid = Inr dir"
  shows "contains_path (canon hp dir) (canon hp (join_path dir REVIEW_RUN_METADATA_NAME))"
proof -
  obtain x where "readRunArtifact env hp (\<lambda>_. open_in env rt sid (js_str rid)) dir (JStr REVIEW_RUN_METADATA_NAME) (rc_maxFileBytes (ss_caps st)) True = Inr x"
    using assms unfolding store_readRecord_def bindR_eq_Inr [of "store_runDir st sid rid"] bindR_eq_Inr [of "readRunArtifact _ _ _ _ _ _ _"] by auto
  from readRunArtifact_ok [OF this] show ?thesis by simp
qed

text \<open>Recording the provenance replaces the record and keeps every other file.\<close>

lemma provenance_Inr:
  assumes "recordFinalizeProvenance env hp st sid rid prov rt = (rt', Inr u)"
  shows "\<exists>r d d'. store_readRecord env hp st rt sid rid = Inr r \<and> find_run rt sid (js_str rid) = Some d \<and> find_run rt' sid (js_str rid) = Some d' \<and>
    rd_files d' = (rd_files d)(REVIEW_RUN_METADATA_NAME \<mapsto> RecordFile (r\<lparr>rr_finalizeProvenance := Some prov\<rparr>))"
proof -
  obtain r d where rd: "assertWritable st = Inr ()" "store_readRecord env hp st rt sid rid = Inr r" "find_run rt sid (js_str rid) = Some d"
    using assms by (auto simp: recordFinalizeProvenance_def bindR_eq_Inr split: sum.splits option.splits)
  obtain d1 r1 where p: "publishValidatedArtifactAtomic env 0 REVIEW_RUN_METADATA_NAME (RecordFile (r\<lparr>rr_finalizeProvenance := Some prov\<rparr>)) d = (d1, r1)" by fastforce
  with assms rd have t: "rt' = put_run rt sid (js_str rid) d1" and "bindR r1 (\<lambda>_. Inr ()) = Inr u" by (simp_all add: recordFinalizeProvenance_def)
  then obtain b where b: "r1 = Inr b" by (auto simp: bindR_eq_Inr)
  from publish_files(2) [OF p [unfolded b] refl] rd t show ?thesis by (simp add: find_run_put)
qed

lemma finish_accepted:
  assumes "pipeline_finish env late st sid rid j (Inr h) rt = (rt', Inr (AcceptedPhase a s))"
  shows "hs_status h = Some 0 \<and> \<not> hs_timedOut h \<and> (\<exists>v rt1. pv_parse env (hs_stdout h) = Some v \<and> createSummary (pj_phase j) (pj_source j) v = Inr s \<and>
    store_addArtifact (pv_publish env) (pv_paths env) st sid (JStr rid) (JStr (phase_artifact (pj_phase j) (pj_reviewer j))) (hs_stdout h) rt = (rt1, Inr a) \<and>
    record_provenance env late st sid rid j (provenance_of AcceptedFinalize (Some a) (pj_source j)) rt1 = (rt', Inr ()))"
proof -
  have ok: "hs_status h = Some 0 \<and> \<not> hs_timedOut h"
  proof (rule ccontr)
    assume n: "\<not> (hs_status h = Some 0 \<and> \<not> hs_timedOut h)"
    note eq = assms [unfolded pipeline_finish_def sum.case if_not_P [OF n] Let_def]
    show False using eq by (auto simp: bindR_eq_Inr split: prod.splits if_splits)
  qed
  note eq = assms [unfolded pipeline_finish_def sum.case if_P [OF ok]]
  obtain v where v: "phase_output env st sid rid j h = Inr v" using eq by (auto split: sum.splits)
  then have parse: "pv_parse env (hs_stdout h) = Some v" by (auto simp: phase_output_def bindR_eq_Inr split: option.splits)
  obtain rt1 x where add: "store_addArtifact (pv_publish env) (pv_paths env) st sid (JStr rid) (JStr (phase_artifact (pj_phase j) (pj_reviewer j))) (hs_stdout h) rt = (rt1, x)"
    by fastforce
  with eq v obtain b where b: "x = Inr b" by (auto split: sum.splits)
  with eq v add obtain s' where s: "createSummary (pj_phase j) (pj_source j) v = Inr s'" by (auto split: sum.splits)
  obtain rt2 y where rec: "record_provenance env late st sid rid j (provenance_of AcceptedFinalize (Some b) (pj_source j)) rt1 = (rt2, y)" by fastforce
  have "rt2 = rt'" "bindR y (\<lambda>_. Inr (AcceptedPhase b s')) = Inr (AcceptedPhase a s)" using eq v add b s rec by simp_all
  then have "rt2 = rt'" "b = a" "s' = s" "y = Inr ()" by (auto simp: bindR_eq_Inr)
  with ok parse add b s rec show ?thesis by auto
qed


section \<open>What a finalize works on\<close>

lemma match_phase_name: "matchPhaseArtifact ref = Some (phase, reviewer) \<Longrightarrow> ref = phase_artifact phase reviewer"
  by (auto simp: matchPhaseArtifact_def find_Some_iff)

lemma wrap_screens_Inr: "wrap_screens f rs = Inr xs \<Longrightarrow> length xs = length rs \<and> (\<forall>i < length rs. f (rs ! i) = Inr (xs ! i))"
proof (induction rs arbitrary: xs)
  case (Cons r rs)
  then obtain x ys where "f r = Inr x" "wrap_screens f rs = Inr ys" "xs = x # ys" by (auto simp: bindR_eq_Inr)
  with Cons.IH [of ys] show ?case by (auto simp: less_Suc_eq_0_disj)
qed simp

lemma bound_metadata_head: "js_get (AList.update ''head_sha'' x kvs) ''head_sha'' = x"
  by (simp add: js_get_def update_conv')

text \<open>
  A finalize works on the run's own artifacts: the composed input has exactly the merge
  and the prepared artifact of the run and one entry for every screen artifact its record
  lists, each under its reviewer and as it is on disk; the commit in the metadata is the
  head of the record, whatever the caller sent, and a caller who sent another is refused.
\<close>

theorem finalize_composed_from_run:
  assumes "composeFinalize env st rt sid p = Inr v"
  shows "\<exists>r kvs results meta. v = JObj kvs \<and> store_readRecord (pv_publish env) (pv_paths env) st rt sid (js_get p ''runId'') = Inr r \<and>
    map fst kvs = [''merge'', ''prepared'', ''screen_results''] @ FINALIZE_FIELDS \<and>
    phaseObject env st rt sid (run_id p) (phase_artifact MergePhase None) = Inr (js_get kvs ''merge'') \<and>
    phaseObject env st rt sid (run_id p) (phase_artifact PreparePhase None) = Inr (js_get kvs ''prepared'') \<and>
    js_get kvs ''screen_results'' = JArr results \<and> screen_names r \<noteq> [] \<and> length results = length (screen_names r) \<and>
    (\<forall>i < length (screen_names r). wrapScreenResult env st rt sid (run_id p) (screen_names r ! i) = Inr (results ! i)) \<and>
    js_get kvs ''parent_run_metadata'' = JObj meta \<and> js_get meta ''head_sha'' = object_id_value (rr_headObjectId r) \<and>
    (\<forall>given. js_get p ''parent_run_metadata'' = JObj given \<and> has_own given ''head_sha'' \<longrightarrow> js_get given ''head_sha'' = object_id_value (rr_headObjectId r))"
proof -
  let ?pre = "js_str (js_get p ''preparedRef'')" and ?mer = "js_str (js_get p ''mergeRef'')" and ?meta = "js_get p ''parent_run_metadata''"
  obtain r merge prepared results where pre: "matchPhaseArtifact ?pre = Some (PreparePhase, None)" and mer: "matchPhaseArtifact ?mer = Some (MergePhase, None)"
    and r: "store_readRecord (pv_publish env) (pv_paths env) st rt sid (js_get p ''runId'') = Inr r" "screen_names r \<noteq> []"
    and given: "case ?meta of JObj kvs \<Rightarrow> has_own kvs ''head_sha'' \<longrightarrow> js_get kvs ''head_sha'' = object_id_value (rr_headObjectId r) | _ \<Rightarrow> True"
    and m: "phaseObject env st rt sid (run_id p) ?mer = Inr merge" and q: "phaseObject env st rt sid (run_id p) ?pre = Inr prepared"
    and w: "wrap_screens (wrapScreenResult env st rt sid (run_id p)) (screen_names r) = Inr results"
    and v: "v = JObj ([(''merge'', merge), (''prepared'', prepared), (''screen_results'', JArr results)] @
       map (\<lambda>k. (k, if k = ''parent_run_metadata'' then bound_metadata r ?meta else js_get p k)) FINALIZE_FIELDS)"
    using assms unfolding composeFinalize_def Let_def bindR_eq_Inr guardR_eq_Inr by blast
  let ?kvs = "[(''merge'', merge), (''prepared'', prepared), (''screen_results'', JArr results)] @
       map (\<lambda>k. (k, if k = ''parent_run_metadata'' then bound_metadata r ?meta else js_get p k)) FINALIZE_FIELDS"
  let ?bound = "AList.update ''head_sha'' (object_id_value (rr_headObjectId r)) (spread_entries ?meta)"
  have "map fst ?kvs = [''merge'', ''prepared'', ''screen_results''] @ FINALIZE_FIELDS" by (simp add: FINALIZE_FIELDS_def)
  moreover have "js_get ?kvs ''merge'' = merge" "js_get ?kvs ''prepared'' = prepared" "js_get ?kvs ''screen_results'' = JArr results"
    by (simp_all add: js_get_def)
  moreover have "js_get ?kvs ''parent_run_metadata'' = JObj ?bound" by (simp add: js_get_def FINALIZE_FIELDS_def bound_metadata_def)
  moreover have "js_get ?bound ''head_sha'' = object_id_value (rr_headObjectId r)" by (rule bound_metadata_head)
  moreover have "\<forall>g. ?meta = JObj g \<and> has_own g ''head_sha'' \<longrightarrow> js_get g ''head_sha'' = object_id_value (rr_headObjectId r)"
    using given by (cases ?meta) auto
  ultimately show ?thesis
    using match_phase_name [OF pre] match_phase_name [OF mer] r m q wrap_screens_Inr [OF w] v
    by (intro exI [of _ r] exI [of _ ?kvs] exI [of _ results] exI [of _ ?bound]) simp
qed

section \<open>Concrete runs\<close>

definition demo_document :: js where
  "demo_document = JObj [(''kind'', JStr ''writing''), (''artifact'', JObj [(''verdict'', JStr ''ok'')])]"

definition demo_pipe :: pipe_env where
  "demo_pipe = \<lparr>pv_publish = demo_publish (\<lambda>_. NoFault), pv_paths = demo_paths, pv_parse = (\<lambda>s. if s = ''doc'' then Some demo_document else None), pv_stringify = (\<lambda>_. [])\<rparr>"

definition demo_job :: pipe_job where
  "demo_job = \<lparr>pj_phase = FinalizePhase, pj_reviewer = None, pj_source = FromInputRefs, pj_input = [], pj_argv = [], pj_maxOutput = 51\<rparr>"

definition demo_spawned :: "int \<Rightarrow> string \<Rightarrow> host_spawned" where
  "demo_spawned code out = \<lparr>hs_status = Some code, hs_stdout = out, hs_stderr = [], hs_timedOut = False, hs_outputTruncated = False\<rparr>"

definition demo_finalize :: run_artifact where
  "demo_finalize = \<lparr>ra_name = ''phase-finalize.json'', ra_bytes = 3, ra_sha256 = ''doc''\<rparr>"

definition demo_final_root :: review_root where
  "demo_final_root = [(''s1'', SessionDirectory [(demo_run_id, RunDirectory \<lparr>rd_files = [''phase-finalize.json'' \<mapsto> DataFile ''doc'',
     REVIEW_RUN_METADATA_NAME \<mapsto> RecordFile ((new_run_record demo_run_store ''s1'' demo_run_id ''2026'' None None)\<lparr>rr_state := PublishedRun,
       rr_artifacts := [demo_finalize], rr_finalizeProvenance := Some (provenance_of AcceptedFinalize (Some demo_finalize) FromInputRefs)\<rparr>)], rd_mtime = 0\<rparr>)])]"

text \<open>The preflight of a finalized run has no blocker, and the write accepts it.\<close>

theorem preflight_predicts_persist_witness:
  "\<exists>v. persist_checks demo_pipe (demo_run_store\<lparr>ss_readOnly := False\<rparr>) demo_final_root ''s1'' ''/p'' demo_run_id ''phase-finalize.json'' 50 = Inr v \<and> writing_object v"
proof -
  have "case preflightReviewPersist demo_pipe demo_run_store demo_final_root ''s1'' ''/p'' demo_run_id ''phase-finalize.json'' 50 of Inr pl \<Rightarrow> pl_blockers pl = [] | Inl _ \<Rightarrow> False"
    by code_simp
  then obtain pl where pl: "preflightReviewPersist demo_pipe demo_run_store demo_final_root ''s1'' ''/p'' demo_run_id ''phase-finalize.json'' 50 = Inr pl" "pl_blockers pl = []"
    by (auto split: sum.splits)
  from preflight_predicts_persist [OF pl(1), of False] pl(2) show ?thesis by blast
qed


definition demo_world :: "artifact_validation \<Rightarrow> persist_world" where
  "demo_world v = \<lparr>pw_cwd = ''/'', pw_realpath = Some, pw_procFd = True, pw_openRoot = True, pw_openDir = (\<lambda>_. DirOpened), pw_checkIgnore = (\<lambda>n. Inr (demo_spawned 0 [])),
     pw_readIgnore = None, pw_ignoreFault = WriteDone, pw_stageFails = False, pw_finalFault = WriteDone,
     pw_anchor = (\<lambda>_. Some (''/p/.context/systematic/ce-review/'' @ demo_run_id)),
     pw_validate = (\<lambda>_. Inr (demo_spawned (if v = ValidationPassed then 0 else 1) [])), pw_pretty = (\<lambda>_. ''pretty'')\<rparr>"

definition demo_helper :: helper_config where
  "demo_helper = \<lparr>hc_path = Some ''/h'', hc_sha256 = Some ''h'', hc_interpreter = Some ''/py'', hc_lstat = (\<lambda>_. LstatFile 1), hc_read = (\<lambda>_. Inr ''h''), hc_sha = (\<lambda>b. b)\<rparr>"

definition demo_persist :: "artifact_validation \<Rightarrow> review_files \<times> persist_result result" where
  "demo_persist v = persistReviewArtifact (demo_world v) demo_helper ''/p'' demo_run_id (''/p/.context/systematic/ce-review/'' @ demo_run_id) (''/s/s1/'' @ demo_run_id) False demo_document
     \<lparr>pf_ignore = NoIgnore, pf_staged = None, pf_summary = None\<rparr>"

text \<open>The document is written when the validator passes it, and not otherwise.\<close>

theorem review_written_only_if_validated_witness:
  "pf_summary (fst (demo_persist ValidationPassed)) = Some (''pretty'' @ [CHR 0x0A]) \<and> pf_summary (fst (demo_persist ValidationNotAttempted)) = None"
proof -
  have p: "case snd (demo_persist ValidationPassed) of Inr r \<Rightarrow> pt_written r | Inl _ \<Rightarrow> False"
    and n: "case snd (demo_persist ValidationNotAttempted) of Inr r \<Rightarrow> \<not> pt_written r | Inl _ \<Rightarrow> False" by code_simp+
  have bytes: "summary_bytes (demo_world v) demo_document = ''pretty'' @ [CHR 0x0A]" for v by (simp add: summary_bytes_def demo_world_def)
  have failed: "validateArtifact (demo_world ValidationNotAttempted) demo_helper (staged_target demo_run_id) \<noteq> ValidationPassed" by code_simp
  have run: "persistReviewArtifact (demo_world v) demo_helper ''/p'' demo_run_id (''/p/.context/systematic/ce-review/'' @ demo_run_id) (''/s/s1/'' @ demo_run_id) False demo_document
     \<lparr>pf_ignore = NoIgnore, pf_staged = None, pf_summary = None\<rparr> = (fst (demo_persist v), snd (demo_persist v))" for v by (simp add: demo_persist_def)
  show ?thesis using review_written_only_if_validated [OF run [of ValidationPassed]] review_written_only_if_validated [OF run [of ValidationNotAttempted]] p n failed
    unfolding bytes by (auto split: sum.splits)
qed

text \<open>The entry is added to a missing file and not added again.\<close>

theorem ignore_entry_added_once_witness:
  "\<exists>new. fst (ensureReviewIgnored ((demo_world ValidationPassed)\<lparr>pw_checkIgnore := \<lambda>n. Inr (demo_spawned (1 - int n) [])\<rparr>) demo_run_id NoIgnore) = IgnoreFile new \<and>
     (\<forall>pw. fst (ensureReviewIgnored pw demo_run_id (IgnoreFile new)) = IgnoreFile new)"
proof -
  let ?pw = "(demo_world ValidationPassed)\<lparr>pw_checkIgnore := \<lambda>n. Inr (demo_spawned (1 - int n) [])\<rparr>"
  have id: "REVIEW_RUN_ID_RE demo_run_id" by code_simp
  have ne: "fst (ensureReviewIgnored ?pw demo_run_id NoIgnore) \<noteq> NoIgnore"
    by (simp add: ensureReviewIgnored_def demo_world_def demo_spawned_def read_ignore_def write_to_def ignore_lines_def Let_def ignore_entry_def)
  from ignore_entry_added_once [OF id prod.collapse [symmetric] ne] show ?thesis by auto
qed

definition demo_phases_root :: review_root where
  "demo_phases_root = [(''s1'', SessionDirectory [(demo_run_id, RunDirectory \<lparr>rd_files = [''phase-merge.json'' \<mapsto> DataFile ''doc'', ''phase-prepare.json'' \<mapsto> DataFile ''doc'',
     ''phase-screen-testing.json'' \<mapsto> DataFile ''doc'',
     REVIEW_RUN_METADATA_NAME \<mapsto> RecordFile ((new_run_record demo_run_store ''s1'' demo_run_id ''2026'' None None)\<lparr>rr_state := PublishedRun,
       rr_artifacts := [\<lparr>ra_name = ''phase-screen-testing.json'', ra_bytes = 3, ra_sha256 = ''doc''\<rparr>]\<rparr>)], rd_mtime = 0\<rparr>)])]"

definition demo_request :: pipe_payload where
  "demo_request = [(''runId'', JStr demo_run_id), (''preparedRef'', JStr ''phase-prepare.json''), (''mergeRef'', JStr ''phase-merge.json''),
     (''dispatch_records'', JArr []), (''validator_lifecycle_results'', JArr []), (''plan_assessment'', JObj []), (''parent_run_metadata'', JObj [])]"

lemma demo_parts:
  "matchPhaseArtifact ''phase-prepare.json'' = Some (PreparePhase, None)" "matchPhaseArtifact ''phase-merge.json'' = Some (MergePhase, None)"
  "phaseObject demo_pipe demo_run_store demo_phases_root ''s1'' demo_run_id ''phase-merge.json'' = Inr demo_document"
  "phaseObject demo_pipe demo_run_store demo_phases_root ''s1'' demo_run_id ''phase-prepare.json'' = Inr demo_document"
  "wrap_screens (wrapScreenResult demo_pipe demo_run_store demo_phases_root ''s1'' demo_run_id) [''phase-screen-testing.json''] =
     Inr [JObj [(''reviewer'', JStr ''testing''), (''result'', demo_document)]]"
  "screen_names ((new_run_record demo_run_store ''s1'' demo_run_id ''2026'' None None)\<lparr>rr_state := PublishedRun,
       rr_artifacts := [\<lparr>ra_name = ''phase-screen-testing.json'', ra_bytes = 3, ra_sha256 = ''doc''\<rparr>]\<rparr>) = [''phase-screen-testing.json'']"
  "store_readRecord (demo_publish (\<lambda>_. NoFault)) demo_paths demo_run_store demo_phases_root ''s1'' (JStr demo_run_id) =
     Inr ((new_run_record demo_run_store ''s1'' demo_run_id ''2026'' None None)\<lparr>rr_state := PublishedRun,
       rr_artifacts := [\<lparr>ra_name = ''phase-screen-testing.json'', ra_bytes = 3, ra_sha256 = ''doc''\<rparr>]\<rparr>)"
  by code_simp+

text \<open>A finalize of a run with one screen.\<close>

theorem finalize_composed_from_run_witness:
  "\<exists>kvs meta. composeFinalize demo_pipe demo_run_store demo_phases_root ''s1'' demo_request = Inr (JObj kvs) \<and>
     js_get kvs ''parent_run_metadata'' = JObj meta \<and> js_get meta ''head_sha'' = JNull"
proof -
  have p: "js_get demo_request ''preparedRef'' = JStr ''phase-prepare.json''" "js_get demo_request ''mergeRef'' = JStr ''phase-merge.json''"
    "js_get demo_request ''runId'' = JStr demo_run_id" "js_get demo_request ''stdin'' = JUndefined" "js_get demo_request ''inputRef'' = JUndefined"
    "js_get demo_request ''inputRefs'' = JUndefined" "js_get demo_request ''adjudication'' = JUndefined" "js_get demo_request ''parent_run_metadata'' = JObj []"
    "js_get demo_request ''dispatch_records'' = JArr []" "js_get demo_request ''validator_lifecycle_results'' = JArr []" "js_get demo_request ''plan_assessment'' = JObj []"
    by (simp_all add: demo_request_def js_get_def)
  have env: "pv_publish demo_pipe = demo_publish (\<lambda>_. NoFault)" "pv_paths demo_pipe = demo_paths" "pv_stringify demo_pipe = (\<lambda>_. [])" by (simp_all add: demo_pipe_def)
  have "\<exists>v. composeFinalize demo_pipe demo_run_store demo_phases_root ''s1'' demo_request = Inr v"
    by (simp add: composeFinalize_def p env demo_parts run_id_def FINALIZE_FIELDS_def is_compound_def has_own_def assertRecordedComposedSize_def new_run_record_def
        REVIEW_PIPELINE_MAX_ENVELOPE_BYTES_def REVIEW_PIPELINE_MAX_STDIN_BYTES_def REVIEW_PIPELINE_MAX_CALLER_BYTES_def Let_def
        demo_parts(5-7) [unfolded new_run_record_def, simplified])
  then obtain v where v: "composeFinalize demo_pipe demo_run_store demo_phases_root ''s1'' demo_request = Inr v" by blast
  from finalize_composed_from_run [OF v] obtain kvs r meta where f: "v = JObj kvs" "js_get kvs ''parent_run_metadata'' = JObj meta"
    "store_readRecord (demo_publish (\<lambda>_. NoFault)) demo_paths demo_run_store demo_phases_root ''s1'' (JStr demo_run_id) = Inr r"
    "js_get meta ''head_sha'' = object_id_value (rr_headObjectId r)" unfolding env p by blast
  from f(3) have "rr_headObjectId r = None" by (simp add: demo_parts(7)) (auto simp: new_run_record_def)
  with f v show ?thesis by (auto simp: object_id_value_def)
qed

end
