(* ===== verification/Redaction.thy ===== *)
theory Redaction
  imports Prelude
begin

text \<open>
  The redaction of text that leaves the broker: \<open>redact\<close> of \<^verbatim>\<open>broker/src/logging.ts\<close> and
  \<open>capAndRedact\<close> of \<^verbatim>\<open>broker/src/gitops.ts\<close>.  In the pattern every part ends at a
  character the next part cannot start with, so a match is found without backtracking.
\<close>

section \<open>The pattern\<close>

text \<open>The names before a value; \<open>api[_-]?key\<close> written out.\<close>

definition SECRET_WORDS :: "string list" where
  "SECRET_WORDS = [''token'', ''secret'', ''password'', ''credential'', ''apikey'', ''api_key'', ''api-key'', ''authorization'']"

definition DOUBLE_QUOTE :: char where
  "DOUBLE_QUOTE = CHR 0x22"

definition SINGLE_QUOTE :: char where
  "SINGLE_QUOTE = CHR 0x27"

definition secret_char :: "char \<Rightarrow> bool" where
  "secret_char c = (\<not> is_space c \<and> c \<noteq> DOUBLE_QUOTE \<and> c \<noteq> SINGLE_QUOTE \<and> c \<noteq> CHR ''&'')"

text \<open>The part after the name: white space, a separator, white space, a quote, the value.\<close>

definition assigned_length :: "string \<Rightarrow> nat option" where
  "assigned_length s =
     (let before = length (takeWhile is_space s) in
      case drop before s of
        [] \<Rightarrow> None
      | c # t \<Rightarrow>
          if c \<noteq> CHR ''='' \<and> c \<noteq> CHR '':'' then None
          else
            (let after = length (takeWhile is_space t); u = drop after t;
                 quote = (case u of [] \<Rightarrow> 0 | q # _ \<Rightarrow> if q = DOUBLE_QUOTE \<or> q = SINGLE_QUOTE then 1 else 0);
                 v = length (takeWhile secret_char (drop quote u)) in
             if v = 0 then None else Some (before + 1 + after + quote + v)))"

definition SECRET_VALUE_RE :: "string \<Rightarrow> nat option" where
  "SECRET_VALUE_RE s = (case find (\<lambda>w. startsWith (toLowerCase s) w) SECRET_WORDS of
     None \<Rightarrow> None
   | Some w \<Rightarrow> map_option (\<lambda>n. length w + n) (assigned_length (drop (length w) s)))"

section \<open>Redaction\<close>

definition redacted_match :: "string \<Rightarrow> string" where
  "redacted_match m =
     (let eq = (if CHR ''='' \<in> set m then CHR ''='' else CHR '':'');
          quote = (if DOUBLE_QUOTE \<in> set m then [DOUBLE_QUOTE] else if SINGLE_QUOTE \<in> set m then [SINGLE_QUOTE] else []) in
      takeWhile (\<lambda>c. c \<noteq> eq) m @ [eq] @ quote @ ''REDACTED'' @ quote)"

lemma find_SomeE: "find P xs = Some x \<Longrightarrow> x \<in> set xs \<and> P x"
  by (auto simp: find_Some_iff)

lemma secret_match_pos: "SECRET_VALUE_RE s = Some n \<Longrightarrow> 0 < n"
  by (auto simp: SECRET_VALUE_RE_def assigned_length_def Let_def split: option.splits list.splits if_splits)

function redact :: "string \<Rightarrow> string" where
  "redact s = (case s of
     [] \<Rightarrow> []
   | c # t \<Rightarrow> (case SECRET_VALUE_RE s of None \<Rightarrow> c # redact t | Some n \<Rightarrow> redacted_match (take n s) @ redact (drop n s)))"
  by pat_completeness auto
termination
  by (relation "measure length") (auto dest: secret_match_pos)

declare redact.simps [simp del]

definition capAndRedactWithFlag :: "nat \<Rightarrow> string \<Rightarrow> string \<times> bool" where
  "capAndRedactWithFlag maxBytes text =
     (let r = redact text in if length r \<le> maxBytes then (r, False) else (take maxBytes r, True))"

definition capAndRedact :: "nat \<Rightarrow> string \<Rightarrow> string" where
  "capAndRedact maxBytes text = fst (capAndRedactWithFlag maxBytes text)"

lemma capAndRedact_length: "length (fst (capAndRedactWithFlag n t)) \<le> n"
  by (simp add: capAndRedactWithFlag_def Let_def)

section \<open>What is redacted\<close>

lemma redact_Nil [simp]: "redact [] = []"
  by (simp add: redact.simps)

lemma redact_skip: "SECRET_VALUE_RE (c # t) = None \<Longrightarrow> redact (c # t) = c # redact t"
  by (simp add: redact.simps [of "c # t"])

text \<open>Text without a separator has no secret.\<close>

lemma no_separator_no_match: "CHR ''='' \<notin> set s \<Longrightarrow> CHR '':'' \<notin> set s \<Longrightarrow> SECRET_VALUE_RE s = None"
proof -
  assume s: "CHR ''='' \<notin> set s" "CHR '':'' \<notin> set s"
  have "assigned_length (drop k s) = None" for k
  proof (cases "drop (length (takeWhile is_space (drop k s))) (drop k s)")
    case Nil
    then show ?thesis by (simp add: assigned_length_def Let_def)
  next
    case (Cons c t)
    then have "c \<in> set s" by (metis in_set_dropD list.set_intros(1))
    with s have "c \<noteq> CHR ''=''" "c \<noteq> CHR '':''" by auto
    with Cons show ?thesis by (simp add: assigned_length_def Let_def)
  qed
  then show ?thesis by (simp add: SECRET_VALUE_RE_def split: option.splits)
qed

lemma redact_plain: "CHR ''='' \<notin> set s \<Longrightarrow> CHR '':'' \<notin> set s \<Longrightarrow> redact s = s"
proof (induction s)
  case (Cons c s)
  then have "SECRET_VALUE_RE (c # s) = None" by (intro no_separator_no_match)
  with Cons show ?case by (simp add: redact_skip)
qed simp

lemma redact_match: "SECRET_VALUE_RE s = Some n \<Longrightarrow> redact s = redacted_match (take n s) @ redact (drop n s)"
proof -
  assume m: "SECRET_VALUE_RE s = Some n"
  then obtain c t where "s = c # t" using no_separator_no_match [of "[]"] by (cases s) auto
  with m show ?thesis using redact.simps [of s] by simp
qed

lemma find_unique: "w \<in> set xs \<Longrightarrow> \<forall>u \<in> set xs. P u \<longleftrightarrow> u = w \<Longrightarrow> find P xs = Some w"
  by (induction xs) auto

lemma words_prefix_free: "list_all (\<lambda>u. list_all (\<lambda>w. take (length u) w = u \<longrightarrow> u = w) SECRET_WORDS) SECRET_WORDS"
  by code_simp

lemma words_lower: "list_all (\<lambda>w. toLowerCase w = w \<and> CHR ''='' \<notin> set w \<and> CHR '':'' \<notin> set w \<and> DOUBLE_QUOTE \<notin> set w \<and> SINGLE_QUOTE \<notin> set w) SECRET_WORDS"
  by code_simp

lemma word_starts:
  assumes "w \<in> set SECRET_WORDS" "u \<in> set SECRET_WORDS" "sep = CHR ''='' \<or> sep = CHR '':''"
  shows "startsWith (toLowerCase (w @ sep # v)) u \<longleftrightarrow> u = w"
proof -
  have low: "toLowerCase (w @ sep # v) = w @ sep # toLowerCase v"
    using assms words_lower by (auto simp: toLowerCase_def list_all_iff to_lower_char_def is_upper_def)
  have no: "sep \<notin> set u" using assms words_lower by (auto simp: list_all_iff)
  have "take (length u) (w @ sep # toLowerCase v) = u \<longleftrightarrow> u = w"
  proof (cases "length u \<le> length w")
    case True
    then show ?thesis using words_prefix_free assms by (auto simp: list_all_iff)
  next
    case False
    then obtain k where k: "length u = length w + Suc k" by (metis add_Suc_right less_natE linorder_not_le)
    have "sep \<in> set (take (length u) (w @ sep # toLowerCase v))" by (simp add: k)
    with no False show ?thesis by (metis le_refl)
  qed
  then show ?thesis by (simp add: low startsWith_def)
qed

lemma word_match:
  assumes w: "w \<in> set SECRET_WORDS" and sep: "sep = CHR ''='' \<or> sep = CHR '':''" and v: "v \<noteq> []" "list_all secret_char v"
  shows "SECRET_VALUE_RE (w @ sep # v) = Some (length (w @ sep # v))"
proof -
  have f: "find (\<lambda>u. startsWith (toLowerCase (w @ sep # v)) u) SECRET_WORDS = Some w"
    using word_starts [OF w _ sep] by (intro find_unique w) blast
  obtain c t where c: "v = c # t" using v(1) by (cases v) auto
  then have "\<not> is_space c" "c \<noteq> DOUBLE_QUOTE" "c \<noteq> SINGLE_QUOTE" using v(2) by (auto simp: secret_char_def)
  moreover have tw: "takeWhile secret_char v = v" using v(2) by (simp add: takeWhile_eq_all_conv list_all_iff)
  moreover have "\<not> is_space sep" using sep by (auto simp: is_space_def)
  ultimately have "assigned_length (sep # v) = Some (1 + length v)" using sep by (auto simp: assigned_length_def Let_def c)
  with f show ?thesis by (simp add: SECRET_VALUE_RE_def)
qed

text \<open>
  What the redaction removes and what it leaves: after a secret word and an equals sign
  the whole value is replaced; after a colon it is replaced too, but only from its first
  equals sign on when it has one, so that the value before that sign stays in the text; and
  text without either separator is not changed.
\<close>

theorem redaction_of_assignments:
  assumes "w \<in> set SECRET_WORDS" "v \<noteq> []" "list_all secret_char v"
  shows "redact (w @ CHR ''='' # v) = w @ ''=REDACTED'' \<and>
    redact (w @ CHR '':'' # v) =
      (if CHR ''='' \<in> set v then w @ CHR '':'' # takeWhile (\<lambda>c. c \<noteq> CHR ''='') v @ ''=REDACTED'' else w @ '':REDACTED'') \<and>
    (\<forall>s. CHR ''='' \<notin> set s \<and> CHR '':'' \<notin> set s \<longrightarrow> redact s = s)"
proof -
  have w: "CHR ''='' \<notin> set w" "CHR '':'' \<notin> set w" "DOUBLE_QUOTE \<notin> set w" "SINGLE_QUOTE \<notin> set w"
    using assms(1) words_lower by (auto simp: list_all_iff)
  have v: "DOUBLE_QUOTE \<notin> set v" "SINGLE_QUOTE \<notin> set v" using assms(3) by (auto simp: list_all_iff secret_char_def)
  have q: "DOUBLE_QUOTE \<noteq> CHR ''=''" "DOUBLE_QUOTE \<noteq> CHR '':''" "SINGLE_QUOTE \<noteq> CHR ''=''" "SINGLE_QUOTE \<noteq> CHR '':''"
    by (simp_all add: DOUBLE_QUOTE_def SINGLE_QUOTE_def)
  have tw: "takeWhile (\<lambda>c. c \<noteq> CHR ''='') w = w" "takeWhile (\<lambda>c. c \<noteq> CHR '':'') w = w"
    using w by (auto simp: takeWhile_eq_all_conv)
  have "redact (w @ CHR ''='' # v) = redacted_match (w @ CHR ''='' # v)"
    "redact (w @ CHR '':'' # v) = redacted_match (w @ CHR '':'' # v)"
    using word_match [OF assms(1) _ assms(2,3)] by (simp_all add: redact_match)
  moreover have "redacted_match (w @ CHR ''='' # v) = w @ ''=REDACTED''"
    using w v q by (auto simp: redacted_match_def Let_def takeWhile_append tw)
  moreover have "redacted_match (w @ CHR '':'' # v) =
      (if CHR ''='' \<in> set v then w @ CHR '':'' # takeWhile (\<lambda>c. c \<noteq> CHR ''='') v @ ''=REDACTED'' else w @ '':REDACTED'')"
    using w v q by (auto simp: redacted_match_def Let_def takeWhile_append tw)
  ultimately show ?thesis using redact_plain by simp
qed

text \<open>A padded value after a colon survives.\<close>

theorem redaction_of_assignments_witness:
  "redact ''authorization:QWxhZGRpbg=='' = ''authorization:QWxhZGRpbg=REDACTED'' \<and> redact ''token=abc'' = ''token=REDACTED''"
proof -
  have v: "list_all secret_char ''QWxhZGRpbg==''" "list_all secret_char ''abc''" by code_simp+
  have w: "''authorization'' \<in> set SECRET_WORDS" "''token'' \<in> set SECRET_WORDS" by (simp_all add: SECRET_WORDS_def)
  show ?thesis using redaction_of_assignments [OF w(1) _ v(1)] redaction_of_assignments [OF w(2) _ v(2)] by simp
qed

text \<open>Of a header with a scheme only the scheme is replaced.\<close>

theorem redaction_keeps_bearer: "redact ''Authorization: Bearer abc'' = ''Authorization:REDACTED abc''"
  by code_simp

end
