(* ===== verification/SandboxResult.thy ===== *)
theory SandboxResult
  imports WorkerGuarantees PlanDocs Redaction
begin

text \<open>
  Reading and planning the result of a sandbox (\<^verbatim>\<open>broker/src/sandbox-result.ts\<close>) and the
  host commands the operations of \<^verbatim>\<open>service.ts\<close> run.  The state is the list of the
  commands run so far and the broker state; what a command answers may depend on every
  command before it.
\<close>

section \<open>Host commands\<close>

type_synonym host_state = "string list list \<times> world"

type_synonym host_answers = "string list list \<Rightarrow> string list \<Rightarrow> host_spawned result"

definition host_spawn :: "host_answers \<Rightarrow> string list \<Rightarrow> (host_state, host_spawned) act" where
  "host_spawn ans argv = (\<lambda>(h, w). ((h @ [argv], w), ans h argv))"

text \<open>A step as it is returned; the flag of its error output, which nothing decides on, is left out.\<close>

record host_step =
  hx_argv :: "string list"
  hx_status :: "int option"
  hx_stdout :: string
  hx_stderr :: string
  hx_stdoutTruncated :: bool

definition step_of :: "string list \<Rightarrow> host_spawned \<Rightarrow> host_step" where
  "step_of argv r = (let (out, cut) = capAndRedactWithFlag GIT_OUTPUT_MAX_BYTES (hs_stdout r) in
     \<lparr>hx_argv = argv, hx_status = hs_status r, hx_stdout = out, hx_stderr = fst (capAndRedactWithFlag GIT_OUTPUT_MAX_BYTES (hs_stderr r)),
      hx_stdoutTruncated = (hs_outputTruncated r \<or> cut)\<rparr>)"

definition runHostStep :: "host_answers \<Rightarrow> string list \<Rightarrow> (host_state, host_step) act" where
  "runHostStep ans argv = bindW (host_spawn ans argv) (\<lambda>r. retW (step_of argv r))"

section \<open>Argument vectors\<close>

definition buildResultIdentityArgv :: "string \<Rightarrow> string list" where
  "buildResultIdentityArgv ref = [''git'', ''show'', ''-s'', ''--format=%H%x00%cI%x00%s'', ref]"

definition buildNumstatArgv :: "string \<Rightarrow> string \<Rightarrow> string list" where
  "buildNumstatArgv a b = [''git'', ''diff'', ''--numstat'', ''--no-renames'', ''-z'', a, b, ''--'', ''.'']"

definition buildResultPatchArgv :: "string \<Rightarrow> string \<Rightarrow> string list" where
  "buildResultPatchArgv a b = [''git'', ''diff'', a, b, ''--'', ''.'']"

definition MAX_HOST_PATH_BYTES :: nat where
  "MAX_HOST_PATH_BYTES = 4096"

fun diff_path_entries :: "string \<Rightarrow> string list \<Rightarrow> unit result" where
  "diff_path_entries what [] = Inr ()"
| "diff_path_entries what (p # ps) =
     bindR (guardR (p \<noteq> ''-'') (ValidationError (what @ '' must be a repo-relative path''))) (\<lambda>_.
     bindR (assertProjectRelativePath (JStr p) what MAX_HOST_PATH_BYTES) (\<lambda>_. diff_path_entries what ps))"

definition assertResultDiffPaths :: "string list \<Rightarrow> string \<Rightarrow> unit result" where
  "assertResultDiffPaths paths what =
     bindR (guardR (paths \<noteq> []) (ValidationError (what @ '' must not be empty''))) (\<lambda>_. diff_path_entries what paths)"

definition buildResultRestoreArgv :: "string \<Rightarrow> string list \<Rightarrow> string list result" where
  "buildResultRestoreArgv ref paths =
     bindR (assertResultDiffPaths paths ''result restore path'') (\<lambda>_. Inr ([''git'', ''restore'', ''--source='' @ ref, ''--worktree'', ''--''] @ paths))"

definition buildResultCommitArgv :: "string \<Rightarrow> string list" where
  "buildResultCommitArgv ref = [''git'', ''rev-parse'', ''--verify'', ref @ ''^{commit}'']"

definition buildResultDeleteArgv :: "string list \<Rightarrow> string list result" where
  "buildResultDeleteArgv paths =
     bindR (assertResultDiffPaths paths ''result deleted path'') (\<lambda>_. Inr ([''rm'', ''-f'', ''--''] @ paths))"

text \<open>The paths to restore and the paths to delete, each sorted and once.\<close>

definition planSandboxResultInstall :: "file_change list \<Rightarrow> string list \<times> string list" where
  "planSandboxResultInstall changes =
     (sort (remdups (map fc_path (filter (\<lambda>c. fc_kind c \<noteq> DeletedFile) changes))),
      sort (remdups (map fc_path (filter (\<lambda>c. fc_kind c = DeletedFile) changes))))"

section \<open>Parsers\<close>

record ref_identity =
  ri_commit :: string
  ri_committedAt :: string
  ri_subject :: string

definition parseResultIdentity :: "string \<Rightarrow> ref_identity result" where
  "parseResultIdentity out =
     (case splitOn NUL (if out \<noteq> [] \<and> last out = LF then butlast out else out) of
        [a, b, c] \<Rightarrow> (if a \<noteq> [] \<and> b \<noteq> [] \<and> c \<noteq> [] then Inr \<lparr>ri_commit = a, ri_committedAt = b, ri_subject = c\<rparr>
           else Inl (ValidationError ''cannot parse result identity: malformed git show output''))
      | _ \<Rightarrow> Inl (ValidationError ''cannot parse result identity: malformed git show output''))"

record numstat_entry =
  ns_path :: string
  ns_added :: "nat option"
  ns_removed :: "nat option"

definition parseNumstatCount :: "string \<Rightarrow> nat result" where
  "parseNumstatCount v =
     bindR (guardR (v \<noteq> [] \<and> list_all is_digit v) (ValidationError ''cannot parse result numstat: non-numeric count'')) (\<lambda>_. Inr (parse_nat v))"

definition numstat_count :: "string \<Rightarrow> nat option result" where
  "numstat_count v = (if v = ''-'' then Inr None else bindR (parseNumstatCount v) (\<lambda>n. Inr (Some n)))"

definition TAB :: char where
  "TAB = CHR 0x09"

definition numstat_record :: "string \<Rightarrow> numstat_entry result" where
  "numstat_record s =
     (let a = takeWhile (\<lambda>c. c \<noteq> TAB) s; s1 = drop (length a + 1) s; r = takeWhile (\<lambda>c. c \<noteq> TAB) s1; path = drop (length r + 1) s1 in
      bindR (guardR (TAB \<in> set s \<and> a \<noteq> [] \<and> TAB \<in> set s1 \<and> r \<noteq> []) (ValidationError ''cannot parse result numstat: malformed record'')) (\<lambda>_.
      bindR (guardR (path \<noteq> []) (ValidationError ''cannot parse result numstat: empty path'')) (\<lambda>_.
      bindR (numstat_count a) (\<lambda>added. bindR (numstat_count r) (\<lambda>removed.
      Inr \<lparr>ns_path = path, ns_added = added, ns_removed = removed\<rparr>)))))"

fun numstat_records :: "string list \<Rightarrow> numstat_entry list result" where
  "numstat_records [] = Inr []"
| "numstat_records (s # ss) = bindR (numstat_record s) (\<lambda>e. bindR (numstat_records ss) (\<lambda>es. Inr (e # es)))"

definition parseNumstat :: "string \<Rightarrow> numstat_entry list result" where
  "parseNumstat out =
     (if out = [] then Inr []
      else bindR (guardR (last out = NUL) (ValidationError ''cannot parse result numstat: incomplete output'')) (\<lambda>_.
        numstat_records (splitOn NUL (butlast out))))"

section \<open>Reading a result\<close>

definition runReadStep :: "host_answers \<Rightarrow> string list \<Rightarrow> string \<Rightarrow> (host_state, string) act" where
  "runReadStep ans argv what =
     bindW (host_spawn ans argv) (\<lambda>r.
     bindW (liftW (guardR (\<not> hs_timedOut r) (StateError (what @ '': git timed out'')))) (\<lambda>_.
     bindW (liftW (guardR (hs_status r = Some 0) (StateError (what @ '': '' @ trimErr (hs_stderr r))))) (\<lambda>_.
     retW (hs_stdout r))))"

definition readRefIdentity :: "host_answers \<Rightarrow> string \<Rightarrow> (host_state, ref_identity) act" where
  "readRefIdentity ans ref =
     bindW (runReadStep ans (buildResultIdentityArgv ref) ''cannot read result identity'') (\<lambda>out. liftW (parseResultIdentity out))"

definition readChangedPaths :: "host_answers \<Rightarrow> string \<Rightarrow> string \<Rightarrow> (host_state, numstat_entry list) act" where
  "readChangedPaths ans a b =
     bindW (runReadStep ans (buildNumstatArgv a b) ''cannot read result numstat'') (\<lambda>numstatOut.
     bindW (liftW (guardR (length numstatOut < GIT_OUTPUT_MAX_BYTES) (StateError ''cannot read result numstat: metadata exceeded the output cap''))) (\<lambda>_.
     bindW (liftW (parseNumstat numstatOut)) (\<lambda>entries.
     bindW (runReadStep ans (buildChangedPathsArgv a b) ''cannot read result paths'') (\<lambda>pathsOut.
     bindW (liftW (guardR (length pathsOut < GIT_OUTPUT_MAX_BYTES) (StateError ''cannot read result paths: metadata exceeded the output cap''))) (\<lambda>_.
     let (paths, whole) = parseNulDelimitedPaths pathsOut in
     bindW (liftW (guardR whole (StateError ''cannot read result paths: changed path metadata incomplete''))) (\<lambda>_.
     bindW (liftW (guardR (sort (map ns_path entries) = sort paths)
       (StateError ''cannot read result numstat: path list disagrees with the changed-path list''))) (\<lambda>_.
     retW entries)))))))"

definition readPatch :: "host_answers \<Rightarrow> string \<Rightarrow> string \<Rightarrow> (host_state, string \<times> bool) act" where
  "readPatch ans a b =
     bindW (runReadStep ans (buildResultPatchArgv a b) ''cannot read result patch'') (\<lambda>out.
     let text = capAndRedact GIT_OUTPUT_MAX_BYTES out in retW (text, length text \<noteq> length (redact out)))"

record result_comparison =
  rc_from :: "string \<times> string"
  rc_to :: "string \<times> string"
  rc_changedPaths :: "numstat_entry list"
  rc_patch :: string
  rc_patchTruncated :: bool

record result_read =
  sx_session :: string
  sx_result :: "string \<times> ref_identity"
  sx_baseline :: string
  sx_paths :: "numstat_entry list"
  sx_patch :: string
  sx_patchTruncated :: bool
  sx_comparison :: "result_comparison option"   \<comment> \<open>the mode is \<open>compare\<close> when there is one\<close>

definition readSandboxResult :: "host_answers \<Rightarrow> string \<Rightarrow> string \<Rightarrow> string \<Rightarrow> string option \<Rightarrow> (host_state, result_read) act" where
  "readSandboxResult ans sid base res other =
     bindW (readRefIdentity ans res) (\<lambda>identity.
     bindW (readChangedPaths ans base res) (\<lambda>paths.
     bindW (readPatch ans base res) (\<lambda>(patch, cut).
     bindW (case other of
         None \<Rightarrow> retW None
       | Some o' \<Rightarrow>
           bindW (readRefIdentity ans o') (\<lambda>otherIdentity.
           bindW (readChangedPaths ans res o') (\<lambda>otherPaths.
           bindW (readPatch ans res o') (\<lambda>(otherPatch, otherCut).
           retW (Some \<lparr>rc_from = (res, ri_commit identity), rc_to = (o', ri_commit otherIdentity), rc_changedPaths = otherPaths,
             rc_patch = otherPatch, rc_patchTruncated = otherCut\<rparr>))))) (\<lambda>comparison.
     retW \<lparr>sx_session = sid, sx_result = (res, identity), sx_baseline = base, sx_paths = paths, sx_patch = patch, sx_patchTruncated = cut,
       sx_comparison = comparison\<rparr>))))"

section \<open>The parser reads what git prints\<close>

fun print_count :: "nat option \<Rightarrow> string" where
  "print_count None = ''-''"
| "print_count (Some n) = show_nat n"

definition print_numstat :: "numstat_entry \<Rightarrow> string" where
  "print_numstat e = print_count (ns_added e) @ TAB # print_count (ns_removed e) @ TAB # ns_path e @ [NUL]"

lemma print_count_chars: "print_count n \<noteq> [] \<and> TAB \<notin> set (print_count n) \<and> NUL \<notin> set (print_count n)"
proof (cases n)
  case None
  then show ?thesis by (simp add: TAB_def NUL_def)
next
  case (Some k)
  have "\<not> is_digit TAB" "\<not> is_digit NUL" by code_simp+
  with show_nat_digits [of k] Some show ?thesis by (auto simp: list_all_iff)
qed

lemma numstat_count_print: "numstat_count (print_count n) = Inr n"
proof (cases n)
  case (Some k)
  have "\<not> is_digit (CHR ''-'')" by code_simp
  then have "show_nat k \<noteq> ''-''" using show_nat_digits [of k] by auto
  then show ?thesis using show_nat_digits [of k] by (simp add: Some numstat_count_def parseNumstatCount_def parse_show_nat)
qed (simp add: numstat_count_def)

lemma numstat_record_print:
  "ns_path e \<noteq> [] \<Longrightarrow> numstat_record (print_count (ns_added e) @ TAB # print_count (ns_removed e) @ TAB # ns_path e) = Inr e"
proof -
  assume p: "ns_path e \<noteq> []"
  have t: "takeWhile (\<lambda>c. c \<noteq> TAB) (print_count n @ TAB # s) = print_count n" for n s
    using print_count_chars [of n] by (subst takeWhile_append2) auto
  show ?thesis using p print_count_chars by (simp add: numstat_record_def Let_def t numstat_count_print)
qed

lemma numstat_records_print:
  "list_all (\<lambda>e. ns_path e \<noteq> [] \<and> NUL \<notin> set (ns_path e)) es \<Longrightarrow> es \<noteq> [] \<Longrightarrow>
   numstat_records (splitOn NUL (butlast (concat (map print_numstat es)))) = Inr es"
proof (induction es)
  case (Cons e es)
  let ?s = "print_count (ns_added e) @ TAB # print_count (ns_removed e) @ TAB # ns_path e"
  have no: "NUL \<notin> set ?s" using Cons.prems print_count_chars by (auto simp: TAB_def NUL_def)
  have pe: "print_numstat e = ?s @ [NUL]" by (simp add: print_numstat_def)
  have rec: "numstat_record ?s = Inr e" using Cons.prems by (intro numstat_record_print) simp
  show ?case
  proof (cases "es = []")
    case True
    then have "butlast (concat (map print_numstat (e # es))) = ?s" by (simp add: pe butlast_append)
    then show ?thesis using rec splitOn_no_sep [OF no] True by (simp del: append_assoc)
  next
    case False
    then have ne: "concat (map print_numstat es) \<noteq> []" by (cases es) (auto simp: print_numstat_def)
    then have "butlast (concat (map print_numstat (e # es))) = ?s @ NUL # butlast (concat (map print_numstat es))"
      by (simp add: pe butlast_append)
    then have "splitOn NUL (butlast (concat (map print_numstat (e # es)))) = ?s # splitOn NUL (butlast (concat (map print_numstat es)))"
      using splitOn_append [of NUL ?s] splitOn_no_sep [OF no] by simp
    then show ?thesis using rec Cons.IH Cons.prems False by simp
  qed
qed simp

text \<open>
  The numstat parser reads back what git prints: for entries with paths that are not
  empty and hold no NUL, counts or dashes, the records come back in order.
\<close>

theorem numstat_round_trip:
  assumes "list_all (\<lambda>e. ns_path e \<noteq> [] \<and> NUL \<notin> set (ns_path e)) es"
  shows "parseNumstat (concat (map print_numstat es)) = Inr es"
proof (cases "es = []")
  case False
  then have "concat (map print_numstat es) \<noteq> []" by (cases es) (auto simp: print_numstat_def)
  moreover have "last (concat (map print_numstat es)) = NUL"
    using False by (induction es rule: rev_induct) (simp_all add: print_numstat_def)
  ultimately show ?thesis using numstat_records_print [OF assms False] unfolding parseNumstat_def by (simp del: concat_eq_Nil_conv)
qed (simp add: parseNumstat_def)

text \<open>A text file and a binary file.\<close>

theorem numstat_round_trip_witness:
  "parseNumstat (concat (map print_numstat [\<lparr>ns_path = ''a.ts'', ns_added = Some 3, ns_removed = Some 12\<rparr>, \<lparr>ns_path = ''b.png'', ns_added = None, ns_removed = None\<rparr>])) =
     Inr [\<lparr>ns_path = ''a.ts'', ns_added = Some 3, ns_removed = Some 12\<rparr>, \<lparr>ns_path = ''b.png'', ns_added = None, ns_removed = None\<rparr>]"
  by (rule numstat_round_trip) (simp add: NUL_def)

end
