(* ===== verification/HostGit.thy ===== *)
theory HostGit
  imports SandboxResult
begin

text \<open>
  The approved changes of the host repository in \<^verbatim>\<open>broker/src/service.ts\<close>: committing the
  paths of a result, installing a result into the working tree, clearing the intent of an
  unfinished commit, pushing, creating an issue, and the two readers of results.  Every
  command runs in the root of the project.
\<close>

section \<open>The refs of a result\<close>

definition RESULT_READABLE_STATES :: "session_state list" where
  "RESULT_READABLE_STATES = [RESULT_READY, RETAINED, APPLIED]"

record result_ref_policy =
  rp_states :: "session_state list"
  rp_prefix :: string
  rp_applied :: bool

definition RESULT_READ_POLICY :: result_ref_policy where
  "RESULT_READ_POLICY = \<lparr>rp_states = RESULT_READABLE_STATES, rp_prefix = ''cannot read result'', rp_applied = False\<rparr>"

definition RESULT_INSTALL_POLICY :: result_ref_policy where
  "RESULT_INSTALL_POLICY = \<lparr>rp_states = RESULT_READABLE_STATES, rp_prefix = ''cannot install result'', rp_applied = False\<rparr>"

definition COMMIT_POLICY :: result_ref_policy where
  "COMMIT_POLICY = \<lparr>rp_states = [APPLIED], rp_prefix = ''cannot commit'', rp_applied = True\<rparr>"

text \<open>A field that is present and not the empty text counts as set.\<close>

definition set_text :: "string option \<Rightarrow> bool" where
  "set_text v = (v \<noteq> None \<and> v \<noteq> Some [])"

definition eligible_state :: "result_ref_policy \<Rightarrow> session_record \<Rightarrow> bool" where
  "eligible_state pol r =
     ((sr_state r \<in> set (rp_states pol) \<or>
       (rp_applied pol \<and> set_text (sr_installedCommit r) \<and> (sr_state r = RESULT_READY \<or> sr_state r = RETAINED))) \<and>
      set_text (sr_resultRef r))"

definition result_refs :: "session_record \<Rightarrow> (string \<times> string) result" where
  "result_refs r = bindR (case sr_baselineRef r of Some b \<Rightarrow> Inr b | None \<Rightarrow> baselineRef (sr_sessionID r)) (\<lambda>b. Inr (b, the (sr_resultRef r)))"

definition resolveResultRefs :: "store \<Rightarrow> string \<Rightarrow> string \<Rightarrow> js \<Rightarrow> result_ref_policy \<Rightarrow> (string \<times> string) result" where
  "resolveResultRefs st caller pid sandboxSessionID pol =
     (let refuse = (\<lambda>text. StateError (rp_prefix pol @ '': '' @ text)); kind = (if rp_applied pol then ''applied '' else []) in
      case sandboxSessionID of
        JUndefined \<Rightarrow>
          bindR (recordOr404 st caller) (\<lambda>r.
          bindR (guardR (eligible_state pol r) (refuse (''no '' @ kind @ ''B->C result for this session''))) (\<lambda>_.
          bindR (guardR (sr_projectID r = Some pid) (refuse (''result of this session is not bound to this project''))) (\<lambda>_.
          result_refs r)))
      | JStr sid \<Rightarrow>
          bindR (assertRefComponent sid) (\<lambda>_.
          bindR (recordOr404 st sid) (\<lambda>r.
          bindR (guardR (eligible_state pol r) (refuse (''sandbox session '' @ sid @ '' has no '' @ kind @ ''B->C result''))) (\<lambda>_.
          bindR (guardR (sr_projectID r = Some pid) (refuse (''sandbox session '' @ sid @ '' is not bound to this project''))) (\<lambda>_.
          bindR (guardR (startsWith (the (sr_resultRef r)) (RESULT_REF_PREFIX @ ''/'')) (refuse (''sandbox session '' @ sid @ '' result ref is outside the sandbox result namespace''))) (\<lambda>_.
          result_refs r)))))
      | _ \<Rightarrow> Inl (ValidationError ''sandboxSessionID must be a string''))"

definition resolveCommitResult :: "store \<Rightarrow> string \<Rightarrow> string \<Rightarrow> js \<Rightarrow> (string \<times> string) result" where
  "resolveCommitResult st caller pid sandboxSessionID = resolveResultRefs st caller pid sandboxSessionID COMMIT_POLICY"

text \<open>\<open>payload.sandboxSessionID ?? req.sessionID\<close>\<close>

definition result_session :: "js \<Rightarrow> envelope \<Rightarrow> string" where
  "result_session v req = (case v of JStr sid \<Rightarrow> sid | _ \<Rightarrow> env_sessionID req)"

section \<open>Steps on the broker state and on git\<close>

definition storeA :: "(store \<Rightarrow> (store \<times> 'b) result) \<Rightarrow> (host_state, 'b) act" where
  "storeA f = (\<lambda>(h, w). case f (w_store w) of Inl e \<Rightarrow> ((h, w), Inl e) | Inr (st', x) \<Rightarrow> ((h, w\<lparr>w_store := st'\<rparr>), Inr x))"

definition readA :: "(store \<Rightarrow> 'b result) \<Rightarrow> (host_state, 'b) act" where
  "readA f = (\<lambda>(h, w). ((h, w), f (w_store w)))"

definition releaseA :: "broker_config \<Rightarrow> int \<Rightarrow> (nat \<Rightarrow> string option) \<Rightarrow> string \<Rightarrow> (host_state, unit) act" where
  "releaseA cfg now rm sid = (\<lambda>(h, w). case releaseRetainedWorker cfg now rm w sid of Inl e \<Rightarrow> ((h, w), Inl e) | Inr w' \<Rightarrow> ((h, w'), Inr ()))"

definition checkA :: "bool \<Rightarrow> string \<Rightarrow> (host_state, unit) act" where
  "checkA b text = liftW (guardR b (StateError text))"

definition spawn_of :: "host_spawned \<Rightarrow> spawn_result" where
  "spawn_of r = \<lparr>sp_status = hs_status r, sp_stdout = hs_stdout r, sp_stderr = hs_stderr r\<rparr>"

definition git_of :: "host_answers \<Rightarrow> string list list \<Rightarrow> apply_env" where
  "git_of ans h = \<lparr>ae_git = (\<lambda>_ argv. map_sum id spawn_of (ans h argv)), ae_mkdirTmp = Inr (), ae_writePatch = Inr (), ae_preview = Inr,
     ae_remove = (\<lambda>_. None), ae_revParse = (\<lambda>_ _. None)\<rparr>"

definition known_project :: "broker_config \<Rightarrow> string \<Rightarrow> bool" where
  "known_project cfg pid = (find (\<lambda>p. pr_id p = pid) (bc_projects cfg) \<noteq> None)"

definition changedA :: "broker_config \<Rightarrow> host_answers \<Rightarrow> string \<Rightarrow> string \<Rightarrow> string \<Rightarrow> (host_state, string list) act" where
  "changedA cfg ans pid base res = (\<lambda>(h, w).
     ((if known_project cfg pid then h @ [buildChangedPathsArgv base res] else h, w), changedPathsBetween cfg (git_of ans h) pid base res))"

definition rawA :: "broker_config \<Rightarrow> host_answers \<Rightarrow> string \<Rightarrow> string \<Rightarrow> string \<Rightarrow> (host_state, file_change list) act" where
  "rawA cfg ans pid base res = (\<lambda>(h, w).
     ((if known_project cfg pid then h @ [[''git'', ''diff'', ''--raw'', ''--no-renames'', base, res, ''--'', ''.'']] else h, w),
      rawChangesBetween cfg (git_of ans h) pid base res))"

text \<open>A commit id that a step printed.\<close>

definition printed_commit :: "host_step \<Rightarrow> string" where
  "printed_commit s = toLowerCase (trim (hx_stdout s))"

definition prints_commit :: "host_step \<Rightarrow> bool" where
  "prints_commit s = (hx_status s = Some 0 \<and> is_sha (printed_commit s))"

definition rev_parse :: "string \<Rightarrow> string list" where
  "rev_parse name = [''git'', ''rev-parse'', name]"

definition commitA :: "host_answers \<Rightarrow> string list \<Rightarrow> string \<Rightarrow> (host_state, string) act" where
  "commitA ans argv text = bindW (runHostStep ans argv) (\<lambda>s. bindW (checkA (prints_commit s) text) (\<lambda>_. retW (printed_commit s)))"

section \<open>Committing a result\<close>

record commit_answer =
  ca_committed :: bool
  ca_alreadyCommitted :: bool
  ca_committedCommit :: string
  ca_paths :: "string list"
  ca_steps :: "host_step list"

definition already_committed :: "string \<Rightarrow> string list \<Rightarrow> commit_answer" where
  "already_committed commit paths = \<lparr>ca_committed = False, ca_alreadyCommitted = True, ca_committedCommit = commit, ca_paths = paths, ca_steps = []\<rparr>"

definition committed_patch :: "string \<Rightarrow> string \<Rightarrow> patch" where
  "committed_patch resultCommit commit = [F_installedCommit (Some resultCommit), F_committedCommit (Some commit), F_pendingCommit None]"

datatype commit_plan = CommitOn string | CommitFound commit_answer

text \<open>What an intent that is still recorded means: nothing happened yet, or the commit is there.\<close>

definition pending_plan ::
  "broker_config \<Rightarrow> int \<Rightarrow> (nat \<Rightarrow> string option) \<Rightarrow> host_answers \<Rightarrow> string \<Rightarrow> session_record \<Rightarrow> string \<Rightarrow> string list \<Rightarrow> string \<times> string \<Rightarrow> (host_state, commit_plan) act"
where
  "pending_plan cfg now rm ans sid r resultCommit changed intent =
     bindW (checkA (fst intent = resultCommit) ''cannot commit: pending commit intent no longer matches the result ref'') (\<lambda>_.
     bindW (commitA ans (rev_parse ''HEAD'') ''cannot commit: pending commit HEAD could not be determined'') (\<lambda>tip.
     if tip = snd intent then retW (CommitOn tip)
     else
       bindW (commitA ans (rev_parse ''HEAD^'') ''cannot commit: pending commit state is ambiguous'') (\<lambda>parent.
       bindW (checkA (parent = snd intent) ''cannot commit: pending commit state is ambiguous'') (\<lambda>_.
       bindW (runHostStep ans ([''git'', ''diff'', ''--quiet'', resultCommit, ''HEAD'', ''--''] @ changed)) (\<lambda>tree.
       bindW (checkA (hx_status tree = Some 0) ''cannot commit: HEAD does not carry the pending result'') (\<lambda>_.
       bindW (storeA (\<lambda>st. transition now st sid (sr_state r) RETAINED (committed_patch resultCommit tip))) (\<lambda>_.
       bindW (releaseA cfg now rm sid) (\<lambda>_.
       retW (CommitFound (already_committed tip changed))))))))))"

definition commit_plan_of ::
  "broker_config \<Rightarrow> int \<Rightarrow> (nat \<Rightarrow> string option) \<Rightarrow> host_answers \<Rightarrow> string \<Rightarrow> session_record \<Rightarrow> string \<Rightarrow> string list \<Rightarrow> (host_state, commit_plan) act"
where
  "commit_plan_of cfg now rm ans sid r resultCommit changed = (case sr_pendingCommit r of
     Some intent \<Rightarrow> pending_plan cfg now rm ans sid r resultCommit changed intent
   | None \<Rightarrow> bindW (commitA ans (rev_parse ''HEAD'') ''cannot commit: current HEAD could not be recorded before commit'') (\<lambda>parent. retW (CommitOn parent)))"

fun commit_steps :: "host_answers \<Rightarrow> string list list \<Rightarrow> host_step list \<Rightarrow> (host_state, host_step list) act" where
  "commit_steps ans [] acc = retW acc"
| "commit_steps ans (argv # rest) acc =
     bindW (runHostStep ans argv) (\<lambda>s.
     bindW (liftW (guardR (hx_status s = Some 0) (MsbError (''git commit failed: '' @ hx_stderr s)))) (\<lambda>_.
     commit_steps ans rest (acc @ [s])))"

text \<open>From the recorded intent to the recorded commit.\<close>

definition make_commit ::
  "broker_config \<Rightarrow> int \<Rightarrow> (nat \<Rightarrow> string option) \<Rightarrow> host_answers \<Rightarrow> string \<Rightarrow> session_record \<Rightarrow> string \<Rightarrow> string list \<Rightarrow> js \<Rightarrow> string \<Rightarrow> (host_state, commit_answer) act"
where
  "make_commit cfg now rm ans sid r resultCommit changed message parent =
     bindW (storeA (\<lambda>st. touch now st sid [F_pendingCommit (Some (resultCommit, parent))] None)) (\<lambda>_.
     bindW (liftW (bindR (assertGitCommitMessage message) (\<lambda>_. buildGitCommitArgv changed (js_str message)))) (\<lambda>steps.
     bindW (commit_steps ans steps []) (\<lambda>results.
     bindW (commitA ans (rev_parse ''HEAD'') ''git commit succeeded but its committed HEAD could not be recorded'') (\<lambda>commit.
     bindW (storeA (\<lambda>st. transition now st sid (sr_state r) RETAINED (committed_patch resultCommit commit))) (\<lambda>_.
     bindW (releaseA cfg now rm sid) (\<lambda>_.
     retW \<lparr>ca_committed = True, ca_alreadyCommitted = False, ca_committedCommit = commit, ca_paths = changed, ca_steps = results\<rparr>))))))"

record commit_target =
  ct_project :: string
  ct_baseline :: string
  ct_result :: string
  ct_session :: string
  ct_record :: session_record
  ct_message :: js

definition commit_target_of :: "broker_config \<Rightarrow> (string \<Rightarrow> string option) \<Rightarrow> envelope \<Rightarrow> store \<Rightarrow> commit_target result" where
  "commit_target_of cfg realpath req st =
     bindR (payloadOf req) (\<lambda>p.
     bindR (authorizeHostDispatch (bc_readOnlyAgents cfg) st ''gitCommit'' (env_sessionID req) OrchestratorCategory) (\<lambda>_.
     bindR (resolveCanonicalProjectRoot cfg realpath (js_get p ''projectDir'')) (\<lambda>(pid, _).
     bindR (resolveCommitResult st (env_sessionID req) pid (js_get p ''sandboxSessionID'')) (\<lambda>(base, res).
     let sid = result_session (js_get p ''sandboxSessionID'') req in
     bindR (recordOr404 st sid) (\<lambda>r.
     Inr \<lparr>ct_project = pid, ct_baseline = base, ct_result = res, ct_session = sid, ct_record = r, ct_message = js_get p ''message''\<rparr>)))))"

text \<open>The commit of the result and the paths that may be committed.\<close>

definition commit_paths :: "broker_config \<Rightarrow> host_answers \<Rightarrow> commit_target \<Rightarrow> (host_state, string \<times> string list) act" where
  "commit_paths cfg ans t =
     bindW (commitA ans (buildResultCommitArgv (ct_result t)) ''cannot commit: result ref commit could not be resolved'') (\<lambda>resultCommit.
     bindW (checkA (\<not> set_text (sr_installedCommit (ct_record t)) \<or> sr_installedCommit (ct_record t) = Some resultCommit)
       ''cannot commit: installed result commit no longer matches the result ref'') (\<lambda>_.
     bindW (changedA cfg ans (ct_project t) (ct_baseline t) (ct_result t)) (\<lambda>changed.
     bindW (checkA (changed \<noteq> []) ''refusing to commit: the B->C result is empty'') (\<lambda>_.
     let rejected = checkProtectedPaths changed (bc_protectedPaths cfg @ bc_protectedSecurityFiles cfg) in
     bindW (checkA (rejected = []) (''refusing to commit protected paths (S17): '' @ joined rejected)) (\<lambda>_.
     retW (resultCommit, changed))))))"

definition gitCommit ::
  "broker_config \<Rightarrow> (string \<Rightarrow> string option) \<Rightarrow> int \<Rightarrow> (nat \<Rightarrow> string option) \<Rightarrow> host_answers \<Rightarrow> envelope \<Rightarrow> (host_state, commit_answer) act"
where
  "gitCommit cfg realpath now rm ans req =
     bindW (readA (commit_target_of cfg realpath req)) (\<lambda>t.
     bindW (commit_paths cfg ans t) (\<lambda>(resultCommit, changed).
     let r = ct_record t in
     if set_text (sr_committedCommit r) then retW (already_committed (the (sr_committedCommit r)) changed)
     else
       bindW (commit_plan_of cfg now rm ans (ct_session t) r resultCommit changed) (\<lambda>plan.
       case plan of
         CommitFound a \<Rightarrow> retW a
       | CommitOn parent \<Rightarrow> make_commit cfg now rm ans (ct_session t) r resultCommit changed (ct_message t) parent)))"

definition gitClearCommitIntent :: "broker_config \<Rightarrow> (string \<Rightarrow> string option) \<Rightarrow> int \<Rightarrow> envelope \<Rightarrow> (host_state, string \<times> string) act" where
  "gitClearCommitIntent cfg realpath now req =
     bindW (readA (\<lambda>st.
       bindR (payloadOf req) (\<lambda>p.
       bindR (authorizeHostDispatch (bc_readOnlyAgents cfg) st ''gitClearCommitIntent'' (env_sessionID req) OrchestratorCategory) (\<lambda>_.
       bindR (resolveCanonicalProjectRoot cfg realpath (js_get p ''projectDir'')) (\<lambda>(pid, _).
       bindR (resolveCommitResult st (env_sessionID req) pid (js_get p ''sandboxSessionID'')) (\<lambda>_.
       bindR (recordOr404 st (result_session (js_get p ''sandboxSessionID'') req)) (\<lambda>r.
       case sr_pendingCommit r of
         None \<Rightarrow> Inl (StateError ''cannot clear commit intent: session has no pending commit intent'')
       | Some intent \<Rightarrow> Inr (result_session (js_get p ''sandboxSessionID'') req, intent)))))))) (\<lambda>(sid, intent).
     bindW (storeA (\<lambda>st. touch now st sid [F_pendingCommit None] None)) (\<lambda>_. retW intent))"

end
