(* ===== verification/HostInstall.thy ===== *)
theory HostInstall
  imports HostGit
begin

text \<open>
  The other host operations on results in \<^verbatim>\<open>broker/src/service.ts\<close>: installing a result into
  the working tree of the project, reading it, the diff an advisor session reads, the push
  and the creation of an issue.  What \<open>realpathSync\<close> and \<open>lstatSync\<close> answer, and whether the
  preview files could be written, are arguments.
\<close>

section \<open>The targets of an install\<close>

text \<open>What \<open>lstatSync\<close> says of a path.\<close>

datatype target_stat = RegularTarget | OtherTarget | MissingTarget | UnreadableTarget

definition install_refusal :: "string \<Rightarrow> broker_error" where
  "install_refusal text = StateError (''cannot install result: '' @ text)"

definition delete_target_contained :: "(string \<Rightarrow> string option) \<Rightarrow> (string \<Rightarrow> target_stat) \<Rightarrow> string \<Rightarrow> string \<Rightarrow> unit result" where
  "delete_target_contained realpath lstat projectRoot path =
     (let target = resolve_path projectRoot path in
      case realpath (dirname target) of
        None \<Rightarrow> Inl (install_refusal (''result-delete-parent-unavailable: cannot resolve parent for '' @ path))
      | Some parent \<Rightarrow>
          bindR (guardR (isWithin projectRoot parent)
            (install_refusal (''result-delete-parent-escape: resolved parent for '' @ path @ '' is outside the project''))) (\<lambda>_.
          case lstat target of
            RegularTarget \<Rightarrow> Inr ()
          | MissingTarget \<Rightarrow> Inr ()
          | OtherTarget \<Rightarrow> Inl (install_refusal (''result-delete-not-regular-file: '' @ path))
          | UnreadableTarget \<Rightarrow> Inl (install_refusal (''result-delete-target-unavailable: cannot inspect '' @ path))))"

fun assertResultDeleteTargetsContained :: "(string \<Rightarrow> string option) \<Rightarrow> (string \<Rightarrow> target_stat) \<Rightarrow> string \<Rightarrow> string list \<Rightarrow> unit result" where
  "assertResultDeleteTargetsContained realpath lstat projectRoot [] = Inr ()"
| "assertResultDeleteTargetsContained realpath lstat projectRoot (p # ps) =
     bindR (delete_target_contained realpath lstat projectRoot p) (\<lambda>_. assertResultDeleteTargetsContained realpath lstat projectRoot ps)"

definition quiet_diff :: "string \<Rightarrow> string list \<Rightarrow> string list" where
  "quiet_diff ref paths = [''git'', ''diff'', ''--quiet'', ref, ''--''] @ paths"

text \<open>The working tree must hold the baseline at every path the install will write or delete.\<close>

definition check_baseline :: "host_answers \<Rightarrow> string \<Rightarrow> string list \<Rightarrow> (host_state, unit) act" where
  "check_baseline ans base targets =
     (if targets = [] then retW ()
      else bindW (runHostStep ans (quiet_diff base targets)) (\<lambda>s.
        if hx_status s = Some 1
        then bindW (runHostStep ans ([''git'', ''diff'', ''--name-only'', ''-z'', base, ''--''] @ targets)) (\<lambda>d.
             bindW (liftW (guardR (hx_status d = Some 0) (install_refusal (''cannot identify baseline divergence ('' @ trimErr (hx_stderr d) @ '')'')))) (\<lambda>_.
             let (paths, whole) = parseNulDelimitedPaths (hx_stdout d) in
             bindW (liftW (guardR (whole \<and> paths \<noteq> []) (install_refusal ''cannot identify baseline divergence''))) (\<lambda>_.
             liftW (Inl (install_refusal (''working tree diverged from baseline at: '' @ joined paths))))))
        else liftW (guardR (hx_status s = Some 0) (install_refusal (''baseline check failed ('' @ trimErr (hx_stderr s) @ '')'')))))"

text \<open>One of the two commands that change the tree; it is not run when it has no path.\<close>

definition install_step :: "host_answers \<Rightarrow> string list \<Rightarrow> string list result \<Rightarrow> string \<Rightarrow> (host_state, host_step list) act" where
  "install_step ans paths argv what =
     (if paths = [] then retW []
      else bindW (liftW argv) (\<lambda>argv'. bindW (runHostStep ans argv') (\<lambda>s.
        bindW (liftW (guardR (hx_status s = Some 0) (MsbError (''cannot install result: '' @ what @ '' ('' @ trimErr (hx_stderr s) @ '')'')))) (\<lambda>_.
        retW [s]))))"

section \<open>Installing a result\<close>

record install_target =
  it_project :: string
  it_root :: string
  it_baseline :: string
  it_result :: string
  it_session :: string
  it_record :: session_record
  it_expected :: string

definition install_target_of :: "broker_config \<Rightarrow> (string \<Rightarrow> string option) \<Rightarrow> envelope \<Rightarrow> store \<Rightarrow> install_target result" where
  "install_target_of cfg realpath req st =
     bindR (payloadOf req) (\<lambda>p.
     bindR (authorizeHostDispatch (bc_readOnlyAgents cfg) st ''sandboxResultInstall'' (env_sessionID req) OrchestratorCategory) (\<lambda>_.
     bindR (assertExpectedResultCommit (js_get p ''expectedResultCommit'')) (\<lambda>_.
     let expected = js_str (js_get p ''expectedResultCommit'') in
     bindR (resolveCanonicalProjectRoot cfg realpath (js_get p ''projectDir'')) (\<lambda>(pid, root').
     bindR (resolveResultRefs st (env_sessionID req) pid (js_get p ''sandboxSessionID'') RESULT_INSTALL_POLICY) (\<lambda>(base, res).
     let sid = result_session (js_get p ''sandboxSessionID'') req in
     bindR (recordOr404 st sid) (\<lambda>r.
     bindR (guardR (sr_installedCommit r = None \<or> sr_installedCommit r = Some expected)
       (install_refusal ''stored installed commit does not match the requested result commit'')) (\<lambda>_.
     Inr \<lparr>it_project = pid, it_root = root', it_baseline = base, it_result = res, it_session = sid, it_record = r, it_expected = expected\<rparr>)))))))"

record install_answer =
  in_alreadyInstalled :: bool
  in_resultRef :: string
  in_resultCommit :: string
  in_paths :: "string list"
  in_restoredPaths :: "string list"
  in_deletedPaths :: "string list"
  in_steps :: "host_step list"

definition already_installed :: "string \<Rightarrow> string \<Rightarrow> install_answer" where
  "already_installed res commit = \<lparr>in_alreadyInstalled = True, in_resultRef = res, in_resultCommit = commit, in_paths = [],
     in_restoredPaths = [], in_deletedPaths = [], in_steps = []\<rparr>"

text \<open>The commit the ref names now and the paths of the result.\<close>

definition install_paths :: "broker_config \<Rightarrow> host_answers \<Rightarrow> install_target \<Rightarrow> (host_state, string \<times> string list) act" where
  "install_paths cfg ans t =
     bindW (runHostStep ans (buildResultCommitArgv (it_result t))) (\<lambda>s.
     bindW (liftW (guardR (hx_status s = Some 0) (install_refusal (''cannot resolve the result ref commit ('' @ trimErr (hx_stderr s) @ '')'')))) (\<lambda>_.
     bindW (liftW (guardR (printed_commit s = it_expected t) (install_refusal
       (''the result ref moved since the preview (result-commit-mismatch): expectedResultCommit '' @ it_expected t @ '', resolved '' @ printed_commit s)))) (\<lambda>_.
     bindW (changedA cfg ans (it_project t) (it_baseline t) (it_result t)) (\<lambda>changed.
     bindW (liftW (guardR (changed \<noteq> []) (install_refusal ''the B->C result is empty''))) (\<lambda>_.
     let rejected = checkProtectedPaths changed (planRootPatterns cfg) in
     bindW (liftW (guardR (rejected = []) (install_refusal (''result touches protected paths: '' @ joined rejected)))) (\<lambda>_.
     retW (printed_commit s, changed)))))))"

text \<open>The changes, after both listings agree and no link or submodule is among them.\<close>

definition install_changes :: "broker_config \<Rightarrow> host_answers \<Rightarrow> install_target \<Rightarrow> string list \<Rightarrow> (host_state, file_change list) act" where
  "install_changes cfg ans t changed =
     bindW (rawA cfg ans (it_project t) (it_baseline t) (it_result t)) (\<lambda>raw.
     bindW (liftW (guardR (sort (map fc_path raw) = sort changed) (install_refusal ''raw metadata disagrees with the changed-path list''))) (\<lambda>_.
     bindW (liftW (guardR (unsafe_changes raw = []) (install_refusal (''unsafe symlink/submodule changes: '' @ joined (unsafe_changes raw))))) (\<lambda>_.
     retW raw)))"

text \<open>The checks of the targets, the two commands and the record of what is installed.\<close>

definition write_result ::
  "(string \<Rightarrow> string option) \<Rightarrow> (string \<Rightarrow> target_stat) \<Rightarrow> int \<Rightarrow> host_answers \<Rightarrow> install_target \<Rightarrow> string \<Rightarrow> string list \<Rightarrow> file_change list \<Rightarrow> (host_state, install_answer) act"
where
  "write_result realpath lstat now ans t commit changed raw =
     (let (restorePaths, deletePaths) = planSandboxResultInstall raw in
      bindW (liftW (assertResultDeleteTargetsContained realpath lstat (it_root t) deletePaths)) (\<lambda>_.
      bindW (check_baseline ans (it_baseline t) (sort (remdups (restorePaths @ deletePaths)))) (\<lambda>_.
      bindW (install_step ans restorePaths (buildResultRestoreArgv (it_result t) restorePaths) ''git restore failed'') (\<lambda>restored.
      bindW (install_step ans deletePaths (buildResultDeleteArgv deletePaths) ''deleting removed paths failed'') (\<lambda>deleted.
      bindW (storeA (\<lambda>st. touch now st (it_session t) [F_installedCommit (Some (it_expected t))] None)) (\<lambda>_.
      retW \<lparr>in_alreadyInstalled = False, in_resultRef = it_result t, in_resultCommit = commit, in_paths = changed,
        in_restoredPaths = restorePaths, in_deletedPaths = deletePaths, in_steps = restored @ deleted\<rparr>))))))"

text \<open>A result that is recorded as installed must still be in the tree; any other is written.\<close>

definition install_at ::
  "broker_config \<Rightarrow> (string \<Rightarrow> string option) \<Rightarrow> (string \<Rightarrow> target_stat) \<Rightarrow> int \<Rightarrow> host_answers \<Rightarrow> install_target \<Rightarrow> string \<times> string list \<Rightarrow> (host_state, install_answer) act"
where
  "install_at cfg realpath lstat now ans t found = (case found of (commit, changed) \<Rightarrow>
     if sr_installedCommit (it_record t) \<noteq> None
     then bindW (runHostStep ans (quiet_diff (it_result t) changed)) (\<lambda>s.
          bindW (liftW (guardR (hx_status s = Some 0) (install_refusal ''stored installed marker is stale; worktree does not match the result ref''))) (\<lambda>_.
          retW (already_installed (it_result t) commit)))
     else bindW (install_changes cfg ans t changed) (\<lambda>raw. write_result realpath lstat now ans t commit changed raw))"

definition sandboxResultInstall ::
  "broker_config \<Rightarrow> (string \<Rightarrow> string option) \<Rightarrow> (string \<Rightarrow> target_stat) \<Rightarrow> int \<Rightarrow> host_answers \<Rightarrow> envelope \<Rightarrow> (host_state, install_answer) act"
where
  "sandboxResultInstall cfg realpath lstat now ans req =
     bindW (readA (install_target_of cfg realpath req)) (\<lambda>t.
     bindW (install_paths cfg ans t) (\<lambda>found. install_at cfg realpath lstat now ans t found))"

section \<open>Reading a result\<close>

definition authored_lines :: "numstat_entry list \<Rightarrow> nat" where
  "authored_lines es = fold (\<lambda>e n. n + (case ns_added e of Some k \<Rightarrow> k | None \<Rightarrow> 0) + (case ns_removed e of Some k \<Rightarrow> k | None \<Rightarrow> 0)) es 0"

text \<open>
  The answer of \<open>sandboxResult\<close>: what was read, whether the preview lost text, the size of the
  patch when the patch is complete, and whether the preview files hold it.
\<close>

record sandbox_result_answer =
  sa_read :: result_read
  sa_patchTruncated :: bool
  sa_patchBytes :: "nat option"
  sa_rawPatchTruncated :: bool
  sa_authoredChangedLines :: nat
  sa_previewFiles :: bool

definition comparison_ref :: "store \<Rightarrow> envelope \<Rightarrow> string \<Rightarrow> js \<Rightarrow> string option result" where
  "comparison_ref st req pid other =
     (if other = JUndefined then Inr None
      else bindR (resolveResultRefs st (env_sessionID req) pid other RESULT_READ_POLICY) (\<lambda>(_, res). Inr (Some res)))"

definition sandbox_result_target ::
  "broker_config \<Rightarrow> (string \<Rightarrow> string option) \<Rightarrow> envelope \<Rightarrow> store \<Rightarrow> (string \<times> string \<times> string \<times> string option) result"
where
  "sandbox_result_target cfg realpath req st =
     bindR (payloadOf req) (\<lambda>p.
     bindR (authorizeHostDispatch (bc_readOnlyAgents cfg) st ''sandboxResult'' (env_sessionID req) OrchestratorCategory) (\<lambda>_.
     bindR (resolveCanonicalProjectRoot cfg realpath (js_get p ''projectDir'')) (\<lambda>(pid, _).
     bindR (resolveResultRefs st (env_sessionID req) pid (js_get p ''sandboxSessionID'') RESULT_READ_POLICY) (\<lambda>(base, res).
     bindR (comparison_ref st req pid (js_get p ''compareSandboxSessionID'')) (\<lambda>other.
     Inr (result_session (js_get p ''sandboxSessionID'') req, base, res, other))))))"

definition previewA :: "broker_config \<Rightarrow> int \<Rightarrow> bool \<Rightarrow> string \<Rightarrow> string \<Rightarrow> (host_state, unit) act" where
  "previewA cfg now written sid diff = (\<lambda>(h, w). ((h, if written then write_previews cfg now sid diff w else w), Inr ()))"

definition sandboxResult ::
  "broker_config \<Rightarrow> (string \<Rightarrow> string option) \<Rightarrow> int \<Rightarrow> (string \<Rightarrow> bool) \<Rightarrow> host_answers \<Rightarrow> envelope \<Rightarrow> (host_state, sandbox_result_answer) act"
where
  "sandboxResult cfg realpath now previewed ans req =
     bindW (readA (sandbox_result_target cfg realpath req)) (\<lambda>(sid, base, res, other).
     bindW (readSandboxResult ans sid base res other) (\<lambda>r.
     bindW (host_spawn ans (buildResultPatchArgv base res)) (\<lambda>patch.
     let whole = hs_status patch = Some 0 \<and> \<not> hs_outputTruncated patch;
         written = whole \<and> previewed (hs_stdout patch) in
     bindW (previewA cfg now written sid (hs_stdout patch)) (\<lambda>_.
     retW \<lparr>sa_read = r, sa_patchTruncated = (sx_patchTruncated r \<or> hs_outputTruncated patch),
       sa_patchBytes = (if whole then Some (length (hs_stdout patch)) else None), sa_rawPatchTruncated = (\<not> whole),
       sa_authoredChangedLines = authored_lines (sx_paths r), sa_previewFiles = written\<rparr>))))"

section \<open>The diff an advisor session reads\<close>

definition advisor_nonce :: "string \<Rightarrow> string \<Rightarrow> bool" where
  "advisor_nonce sessionID pid =
     (let start = ''advisor-'' @ pid @ ''-'' in startsWith sessionID start \<and> matches is_hex 16 16 (drop (length start) sessionID))"

text \<open>Of the advisor projects whose name starts the session, the longest one with a proper nonce behind it.\<close>

definition advisor_project_of :: "string list \<Rightarrow> string \<Rightarrow> string option" where
  "advisor_project_of advisorProjects sessionID =
     find (advisor_nonce sessionID)
       (sort_key (\<lambda>pid. - int (length pid)) (filter (\<lambda>pid. startsWith sessionID (''advisor-'' @ pid @ ''-'')) advisorProjects))"

definition diff_git :: "host_answers \<Rightarrow> string list \<Rightarrow> string \<Rightarrow> (host_state, string) act" where
  "diff_git ans argv what =
     bindW (host_spawn ans argv) (\<lambda>r.
     bindW (liftW (guardR (\<not> hs_timedOut r \<and> hs_status r = Some 0) (StateError (what @ '': '' @ trimErr (hs_stderr r))))) (\<lambda>_.
     retW (hs_stdout r)))"

definition diff_commit :: "host_answers \<Rightarrow> string \<Rightarrow> string \<Rightarrow> (host_state, string) act" where
  "diff_commit ans ref what =
     bindW (diff_git ans (buildResultCommitArgv ref) what) (\<lambda>out.
     bindW (checkA (is_sha (trim out)) (what @ '': malformed commit identity'')) (\<lambda>_. retW (trim out)))"

definition result_diff_target :: "broker_config \<Rightarrow> string list \<Rightarrow> envelope \<Rightarrow> store \<Rightarrow> (string \<times> string) result" where
  "result_diff_target cfg advisorProjects req st =
     bindR (payloadOf req) (\<lambda>p.
     bindR (snapshotFromPayload (JObj [(''resultRef'', js_get p ''ref'')])) (\<lambda>selection.
     case selection of
       SelResultRef ref \<Rightarrow>
         (case advisor_project_of advisorProjects (env_sessionID req) of
            None \<Rightarrow> Inl (PolicyError ''resultDiff is available only to a registered advisor session'')
          | Some pid \<Rightarrow>
              bindR (guardR (pid \<noteq> []) (PolicyError ''resultDiff is available only to a registered advisor session'')) (\<lambda>_.
              bindR (guardR (known_project cfg pid) (StateError ''advisor project is not registered'')) (\<lambda>_.
              let sid = drop (length RESULT_REF_PREFIX + 1) ref in
              bindR (recordOr404 st sid) (\<lambda>r.
              bindR (guardR (sr_state r \<in> set RESULT_READABLE_STATES \<and> sr_resultRef r = Some ref)
                (StateError (''cannot read result: sandbox session '' @ sid @ '' has no resolvable B->C result''))) (\<lambda>_.
              bindR (guardR (sr_projectID r = Some pid)
                (StateError (''cannot read result: sandbox session '' @ sid @ '' is not bound to this project''))) (\<lambda>_.
              bindR (case sr_baselineRef r of Some b \<Rightarrow> Inr b | None \<Rightarrow> baselineRef sid) (\<lambda>base. Inr (ref, base))))))))
     | _ \<Rightarrow> Inl (ValidationError ''ref must be a sandbox result ref'')))"

record result_diff_answer =
  rd_ref :: string
  rd_baseline :: string
  rd_commit :: string
  rd_preview :: apply_preview

definition resultDiff :: "broker_config \<Rightarrow> string list \<Rightarrow> host_answers \<Rightarrow> envelope \<Rightarrow> (host_state, result_diff_answer) act" where
  "resultDiff cfg advisorProjects ans req =
     bindW (readA (result_diff_target cfg advisorProjects req)) (\<lambda>(ref, base).
     bindW (diff_commit ans ref ''cannot resolve result ref'') (\<lambda>commit.
     bindW (diff_commit ans base ''cannot resolve result baseline'') (\<lambda>_.
     bindW (diff_git ans (buildResultPatchArgv base ref) ''cannot read result diff'') (\<lambda>raw.
     bindW (checkA (length raw < GIT_OUTPUT_MAX_BYTES) ''cannot read result diff: output reached the git output cap'') (\<lambda>_.
     retW \<lparr>rd_ref = ref, rd_baseline = base, rd_commit = commit, rd_preview = buildApplyPreview raw\<rparr>)))))"

section \<open>Pushing and issues\<close>

text \<open>\<open>Number.parseInt(text, 10) || 0\<close> of a trimmed text.\<close>

definition int_or_zero :: "string \<Rightarrow> int" where
  "int_or_zero s = (case s of
     [] \<Rightarrow> 0
   | c # r \<Rightarrow> if c = CHR ''-'' then - int (parse_nat (takeWhile is_digit r))
             else int (parse_nat (takeWhile is_digit (if c = CHR ''+'' then r else s))))"

definition flag_field :: "js \<Rightarrow> string \<Rightarrow> bool result" where
  "flag_field v name = (case v of JUndefined \<Rightarrow> Inr False | JBool b \<Rightarrow> Inr b | _ \<Rightarrow> Inl (ValidationError (name @ '' must be a boolean'')))"

definition push_request :: "broker_config \<Rightarrow> (string \<Rightarrow> string option) \<Rightarrow> envelope \<Rightarrow> store \<Rightarrow> (string \<times> bool \<times> bool) result" where
  "push_request cfg realpath req st =
     bindR (payloadOf req) (\<lambda>p.
     bindR (authorizeHostDispatch (bc_readOnlyAgents cfg) st ''gitPush'' (env_sessionID req) OrchestratorCategory) (\<lambda>_.
     bindR (resolveCanonicalProjectRoot cfg realpath (js_get p ''projectDir'')) (\<lambda>_.
     bindR (case js_get p ''remote'' of JUndefined \<Rightarrow> Inr ''origin'' | JStr s \<Rightarrow> Inr s | _ \<Rightarrow> Inl (ValidationError ''remote must be a string'')) (\<lambda>remote.
     bindR (flag_field (js_get p ''setUpstream'') ''setUpstream'') (\<lambda>up.
     bindR (flag_field (js_get p ''allowProtectedBranch'') ''allowProtectedBranch'') (\<lambda>prot.
     Inr (remote, up, prot)))))))"

record push_answer =
  pa_pushed :: bool
  pa_branch :: "string option"
  pa_remote :: string
  pa_upstream :: "string option"
  pa_ahead :: int
  pa_step :: host_step

definition printed_name :: "host_step \<Rightarrow> string option" where
  "printed_name s = (if hx_status s = Some 0 then Some (trim (hx_stdout s)) else None)"

definition upstream_argv :: "string list" where
  "upstream_argv = [''git'', ''rev-parse'', ''--abbrev-ref'', ''--symbolic-full-name'', CHR ''@'' # ''{upstream}'']"

definition upstream_of :: "host_answers \<Rightarrow> string option \<Rightarrow> (host_state, string option) act" where
  "upstream_of ans branch = (case branch of
     None \<Rightarrow> retW None
   | Some _ \<Rightarrow> bindW (runHostStep ans upstream_argv) (\<lambda>s. retW (printed_name s)))"

definition ahead_of :: "host_answers \<Rightarrow> string option \<Rightarrow> string option \<Rightarrow> (host_state, int) act" where
  "ahead_of ans branch upstream = (case branch of
     None \<Rightarrow> retW 0
   | Some _ \<Rightarrow>
       bindW (runHostStep ans [''git'', ''rev-list'', ''--count'', case upstream of Some u \<Rightarrow> u @ ''..HEAD'' | None \<Rightarrow> ''HEAD'']) (\<lambda>s.
       retW (case printed_name s of Some text \<Rightarrow> int_or_zero text | None \<Rightarrow> 0)))"

definition head_name_argv :: "string list" where
  "head_name_argv = [''git'', ''symbolic-ref'', ''--short'', ''-q'', ''HEAD'']"

definition push_branch :: "host_answers \<Rightarrow> string \<times> bool \<times> bool \<Rightarrow> string option \<Rightarrow> (host_state, push_answer) act" where
  "push_branch ans r branch = (case r of (remote, up, prot) \<Rightarrow>
     bindW (upstream_of ans branch) (\<lambda>upstream.
     bindW (ahead_of ans branch upstream) (\<lambda>ahead.
     bindW (liftW (buildGitPushArgv \<lparr>gi_branch = branch, gi_upstream = upstream, gi_ahead = ahead, gi_remote = remote,
       gi_setUpstream = up, gi_allowProtectedBranch = prot\<rparr>)) (\<lambda>argv.
     bindW (runHostStep ans argv) (\<lambda>s.
     retW \<lparr>pa_pushed = (hx_status s = Some 0), pa_branch = branch, pa_remote = remote, pa_upstream = upstream, pa_ahead = ahead, pa_step = s\<rparr>)))))"

definition gitPush :: "broker_config \<Rightarrow> (string \<Rightarrow> string option) \<Rightarrow> host_answers \<Rightarrow> envelope \<Rightarrow> (host_state, push_answer) act" where
  "gitPush cfg realpath ans req =
     bindW (readA (push_request cfg realpath req)) (\<lambda>r.
     bindW (runHostStep ans head_name_argv) (\<lambda>s. push_branch ans r (printed_name s)))"

definition issue_argv :: "broker_config \<Rightarrow> (string \<Rightarrow> string option) \<Rightarrow> envelope \<Rightarrow> store \<Rightarrow> string list result" where
  "issue_argv cfg realpath req st =
     bindR (payloadOf req) (\<lambda>p.
     bindR (authorizeHostDispatch (bc_readOnlyAgents cfg) st ''ghIssueCreate'' (env_sessionID req) OrchestratorCategory) (\<lambda>_.
     bindR (resolveCanonicalProjectRoot cfg realpath (js_get p ''projectDir'')) (\<lambda>_.
     bindR (assertGhRepo (js_get p ''repo'')) (\<lambda>_. bindR (assertGhTitle (js_get p ''title'')) (\<lambda>_. bindR (assertGhBody (js_get p ''body'')) (\<lambda>_.
     buildGhIssueCreateArgv (js_str (js_get p ''repo'')) (js_str (js_get p ''title'')) (js_str (js_get p ''body''))))))))"

definition ghIssueCreate :: "broker_config \<Rightarrow> (string \<Rightarrow> string option) \<Rightarrow> host_answers \<Rightarrow> envelope \<Rightarrow> (host_state, bool \<times> host_step) act" where
  "ghIssueCreate cfg realpath ans req =
     bindW (readA (issue_argv cfg realpath req)) (\<lambda>argv.
     bindW (runHostStep ans argv) (\<lambda>s. retW (hx_status s = Some 0, s)))"

end
