(* ===== verification/HostGuarantees.thy ===== *)
theory HostGuarantees
  imports HostInstall
begin

text \<open>
  What holds of the host operations on results: which commands a commit, an install and a push
  can run, and on which paths; a commit is made once; and the commit that a retained session
  can never record.
\<close>

section \<open>The commands a run adds\<close>

text \<open>Every command added after \<open>h0\<close> satisfies \<open>Q\<close>.\<close>

definition logged :: "(string list \<Rightarrow> bool) \<Rightarrow> string list list \<Rightarrow> host_state \<Rightarrow> bool" where
  "logged Q h0 s = (\<exists>added. fst s = h0 @ added \<and> (\<forall>argv \<in> set added. Q argv))"

lemma logged_start [simp]: "logged Q h (h, w)"
  by (simp add: logged_def)

lemma logged_mono: "logged Q h s \<Longrightarrow> (\<And>argv. Q argv \<Longrightarrow> Q' argv) \<Longrightarrow> logged Q' h s"
  by (auto simp: logged_def)

lemma logged_snoc: "logged Q h0 (h, w) \<Longrightarrow> Q argv \<Longrightarrow> logged Q h0 (h @ [argv], w')"
  by (fastforce simp: logged_def)

lemma keeps_spawn [keeps_intros]: "Q argv \<Longrightarrow> keeps (logged Q h0) (host_spawn ans argv)"
  by (auto simp: keeps_def host_spawn_def split: prod.split intro: logged_snoc)

lemma keeps_step [keeps_intros]: "Q argv \<Longrightarrow> keeps (logged Q h0) (runHostStep ans argv)"
  unfolding runHostStep_def by (intro keeps_intros)

lemma keeps_storeA [keeps_intros]: "keeps (logged Q h0) (storeA f)"
  by (auto simp: keeps_def storeA_def logged_def split: prod.splits sum.splits)

lemma keeps_readA [keeps_intros]: "keeps P (readA f)"
  by (auto simp: keeps_def readA_def split: prod.split)

lemma keeps_releaseA [keeps_intros]: "keeps (logged Q h0) (releaseA cfg now rm sid)"
  by (auto simp: keeps_def releaseA_def logged_def split: prod.splits sum.splits)

lemma keeps_checkA [keeps_intros]: "keeps P (checkA b t)"
  unfolding checkA_def by (intro keeps_intros)

lemma keeps_commitA [keeps_intros]: "Q argv \<Longrightarrow> keeps (logged Q h0) (commitA ans argv text)"
  unfolding commitA_def by (intro keeps_intros)

lemma keeps_changedA [keeps_intros]:
  "Q (buildChangedPathsArgv base res) \<Longrightarrow> keeps (logged Q h0) (changedA cfg ans pid base res)"
  by (auto simp: keeps_def changedA_def split: prod.split intro: logged_snoc)

lemma keeps_rawA [keeps_intros]:
  "Q [''git'', ''diff'', ''--raw'', ''--no-renames'', base, res, ''--'', ''.''] \<Longrightarrow> keeps (logged Q h0) (rawA cfg ans pid base res)"
  by (auto simp: keeps_def rawA_def split: prod.split intro: logged_snoc)

text \<open>The continuation may use what the first action established.\<close>

lemma keeps_bind_post:
  "keeps P m \<Longrightarrow> (\<And>w w' x. m w = (w', Inr x) \<Longrightarrow> keeps P (f x)) \<Longrightarrow> keeps P (bindW m f)"
  unfolding keeps_def by (metis bindW_cases fst_conv)

lemma bindW_ok_iff: "bindW m f w = (w', Inr y) \<longleftrightarrow> (\<exists>w1 x. m w = (w1, Inr x) \<and> f x w1 = (w', Inr y))"
  by (cases rule: bindW_cases [of m w f]) auto

lemma step_status [simp]: "hx_status (step_of argv s) = hs_status s"
  by (simp add: step_of_def split: prod.split)

lemma run_ok: "runHostStep ans argv (h, w) = (s', Inr x) \<longleftrightarrow> (\<exists>s. ans h argv = Inr s \<and> x = step_of argv s \<and> s' = (h @ [argv], w))"
  by (auto simp: runHostStep_def host_spawn_def bindW_def retW_def split: sum.splits)

lemma checkA_ok: "checkA b t s = (s', Inr x) \<longleftrightarrow> b \<and> s' = s"
  by (auto simp: checkA_def liftW_def guardR_def)

lemma guardW_ok: "liftW (guardR b e) s = (s', Inr x) \<longleftrightarrow> b \<and> s' = s"
  by (auto simp: liftW_def guardR_def)

lemma retW_Inr: "retW y s = (s', Inr x) \<longleftrightarrow> s' = s \<and> x = y"
  by (auto simp: retW_def)

lemma readA_ok: "readA f (h, w) = (s', Inr x) \<longleftrightarrow> f (w_store w) = Inr x \<and> s' = (h, w)"
  by (auto simp: readA_def)

lemma changedA_ok:
  "changedA cfg ans pid base res (h, w) = (s', Inr x) \<Longrightarrow> changedPathsBetween cfg (git_of ans h) pid base res = Inr x"
  by (auto simp: changedA_def)

lemma rawA_ok:
  "rawA cfg ans pid base res (h, w) = (s', Inr x) \<Longrightarrow> rawChangesBetween cfg (git_of ans h) pid base res = Inr x"
  by (auto simp: rawA_def)

lemmas actW_ok = bindW_ok_iff checkA_ok guardW_ok retW_Inr

text \<open>Commands that change neither the tree nor the refs.\<close>

definition reads_repository :: "string list \<Rightarrow> bool" where
  "reads_repository argv = (\<exists>sub rest. argv = ''git'' # sub # rest \<and> sub \<in> {''rev-parse'', ''diff'', ''show'', ''symbolic-ref'', ''rev-list''})"

lemma reads_repository_simps [simp]:
  "reads_repository (''git'' # ''rev-parse'' # rest)" "reads_repository (''git'' # ''diff'' # rest)"
  "reads_repository (''git'' # ''show'' # rest)" "reads_repository (''git'' # ''symbolic-ref'' # rest)"
  "reads_repository (''git'' # ''rev-list'' # rest)" "reads_repository (rev_parse n)" "reads_repository (buildResultCommitArgv ref)"
  "reads_repository (buildChangedPathsArgv a b)" "reads_repository (quiet_diff ref ps)"
  "reads_repository upstream_argv"
  unfolding upstream_argv_def reads_repository_def rev_parse_def buildResultCommitArgv_def buildChangedPathsArgv_def quiet_diff_def by auto

section \<open>What a commit runs\<close>

text \<open>The paths are those of the result, and none of them is protected.\<close>

definition committable :: "broker_config \<Rightarrow> host_answers \<Rightarrow> commit_target \<Rightarrow> string \<Rightarrow> string list \<Rightarrow> bool" where
  "committable cfg ans t resultCommit paths =
     ((\<exists>h. changedPathsBetween cfg (git_of ans h) (ct_project t) (ct_baseline t) (ct_result t) = Inr paths) \<and> paths \<noteq> [] \<and>
      checkProtectedPaths paths (bc_protectedPaths cfg @ bc_protectedSecurityFiles cfg) = [] \<and>
      (\<exists>h s. ans h (buildResultCommitArgv (ct_result t)) = Inr s \<and> printed_commit (step_of (buildResultCommitArgv (ct_result t)) s) = resultCommit) \<and>
      (set_text (sr_installedCommit (ct_record t)) \<longrightarrow> sr_installedCommit (ct_record t) = Some resultCommit))"

text \<open>Nothing was committed before: no commit is recorded and an intent that is left has not moved \<open>HEAD\<close>.\<close>

definition not_committed_yet :: "host_answers \<Rightarrow> commit_target \<Rightarrow> string \<Rightarrow> bool" where
  "not_committed_yet ans t resultCommit =
     (\<not> set_text (sr_committedCommit (ct_record t)) \<and>
      (\<forall>intent. sr_pendingCommit (ct_record t) = Some intent \<longrightarrow> fst intent = resultCommit \<and>
         (\<exists>h s. ans h (rev_parse ''HEAD'') = Inr s \<and> prints_commit (step_of (rev_parse ''HEAD'') s) \<and> printed_commit (step_of (rev_parse ''HEAD'') s) = snd intent)))"

definition commits_result :: "broker_config \<Rightarrow> host_answers \<Rightarrow> commit_target \<Rightarrow> string list \<Rightarrow> bool" where
  "commits_result cfg ans t argv =
     (\<exists>resultCommit paths message. committable cfg ans t resultCommit paths \<and> not_committed_yet ans t resultCommit \<and>
        argv \<in> {[''git'', ''add'', ''--''] @ paths, [''git''] @ GIT_COMMIT_IDENTITY @ [''commit'', ''-m'', message, ''--''] @ paths})"

lemma commitA_ok:
  "commitA ans argv text (h, w) = (s', Inr c) \<longleftrightarrow>
     (\<exists>s. ans h argv = Inr s \<and> prints_commit (step_of argv s) \<and> c = printed_commit (step_of argv s) \<and> s' = (h @ [argv], w))"
  by (auto simp: commitA_def runHostStep_def host_spawn_def actW_ok split: sum.splits)

lemma commit_paths_ok:
  assumes "commit_paths cfg ans t (h, w) = (s', Inr (resultCommit, paths))"
  shows "committable cfg ans t resultCommit paths"
proof -
  from assms obtain s1 changed where c: "commitA ans (buildResultCommitArgv (ct_result t)) ''cannot commit: result ref commit could not be resolved'' (h, w) = (s1, Inr resultCommit)"
      "\<not> set_text (sr_installedCommit (ct_record t)) \<or> sr_installedCommit (ct_record t) = Some resultCommit"
    and ch: "\<exists>s2. changedA cfg ans (ct_project t) (ct_baseline t) (ct_result t) s1 = (s2, Inr paths)" "paths \<noteq> []"
      "checkProtectedPaths paths (bc_protectedPaths cfg @ bc_protectedSecurityFiles cfg) = []"
    by (auto simp: commit_paths_def actW_ok Let_def)
  from c(1) obtain s where s: "ans h (buildResultCommitArgv (ct_result t)) = Inr s" "resultCommit = printed_commit (step_of (buildResultCommitArgv (ct_result t)) s)"
    by (auto simp: commitA_ok)
  show ?thesis unfolding committable_def using c(2) ch s by (cases s1) (auto dest: changedA_ok)
qed

lemma keeps_commit_paths: "(\<And>argv. reads_repository argv \<Longrightarrow> Q argv) \<Longrightarrow> keeps (logged Q h0) (commit_paths cfg ans t)"
  unfolding commit_paths_def Let_def by (intro keeps_intros) simp_all

lemma keeps_pending_plan: "(\<And>argv. reads_repository argv \<Longrightarrow> Q argv) \<Longrightarrow> keeps (logged Q h0) (pending_plan cfg now rm ans sid r c ch intent)"
  unfolding pending_plan_def by (intro keeps_intros) simp_all

lemma keeps_commit_plan: "(\<And>argv. reads_repository argv \<Longrightarrow> Q argv) \<Longrightarrow> keeps (logged Q h0) (commit_plan_of cfg now rm ans sid r c ch)"
  unfolding commit_plan_of_def by (intro keeps_intros keeps_pending_plan) simp_all

lemma commit_plan_ok:
  assumes "commit_plan_of cfg now rm ans sid (ct_record t) c ch (h, w) = (s', Inr (CommitOn parent))"
    and "\<not> set_text (sr_committedCommit (ct_record t))"
  shows "not_committed_yet ans t c"
proof (cases "sr_pendingCommit (ct_record t)")
  case (Some intent)
  with assms(1) have "pending_plan cfg now rm ans sid (ct_record t) c ch intent (h, w) = (s', Inr (CommitOn parent))"
    by (simp add: commit_plan_of_def)
  then have "fst intent = c \<and> (\<exists>s1. commitA ans (rev_parse ''HEAD'') ''cannot commit: pending commit HEAD could not be determined'' (h, w) = (s1, Inr (snd intent)))"
    by (auto simp: pending_plan_def actW_ok split: if_splits)
  then obtain s where "fst intent = c" "ans h (rev_parse ''HEAD'') = Inr s" "prints_commit (step_of (rev_parse ''HEAD'') s)"
      "printed_commit (step_of (rev_parse ''HEAD'') s) = snd intent"
    by (auto simp: commitA_ok)
  then show ?thesis using assms(2) Some unfolding not_committed_yet_def by auto
qed (use assms(2) in \<open>simp add: not_committed_yet_def\<close>)

lemma keeps_commit_steps: "\<forall>argv \<in> set steps. Q argv \<Longrightarrow> keeps (logged Q h0) (commit_steps ans steps acc)"
proof (induction steps arbitrary: acc)
  case (Cons argv rest)
  then show ?case unfolding commit_steps.simps by (intro keeps_intros) simp_all
qed (simp add: keeps_ret)

lemma commit_argv_steps:
  assumes "bindR (assertGitCommitMessage message) (\<lambda>_. buildGitCommitArgv paths (js_str message)) = Inr steps"
  shows "steps = [[''git'', ''add'', ''--''] @ paths, [''git''] @ GIT_COMMIT_IDENTITY @ [''commit'', ''-m'', js_str message, ''--''] @ paths]"
  using assms by (auto simp: bindR_eq_Inr buildGitCommitArgv_def)

lemma keeps_make_commit:
  assumes "committable cfg ans t c paths" "not_committed_yet ans t c"
    and "\<And>argv. reads_repository argv \<Longrightarrow> Q argv" "\<And>argv. commits_result cfg ans t argv \<Longrightarrow> Q argv"
  shows "keeps (logged Q h0) (make_commit cfg now rm ans sid r c paths message parent)"
proof -
  let ?steps = "bindR (assertGitCommitMessage message) (\<lambda>_. buildGitCommitArgv paths (js_str message))"
  have "keeps (logged Q h0) (commit_steps ans steps [])" if "liftW ?steps w = (w', Inr steps)" for w w' :: host_state and steps
  proof -
    from that have "?steps = Inr steps" by (simp add: liftW_def)
    from commit_argv_steps [OF this] assms have "\<forall>argv \<in> set steps. commits_result cfg ans t argv"
      by (simp add: commits_result_def) blast
    with assms(4) have "\<forall>argv \<in> set steps. Q argv" by blast
    then show ?thesis by (rule keeps_commit_steps)
  qed
  then show ?thesis unfolding make_commit_def
    by (intro keeps_bind [OF keeps_storeA] keeps_bind_post [OF keeps_lift]) (intro keeps_intros; simp add: assms(3))
qed

text \<open>
  C5. Whatever a commit does and however it ends, every command it runs either reads the
  repository or is the \<open>git add\<close> or \<open>git commit\<close> of exactly the paths of the session's result,
  none of them protected, for a result that no earlier commit recorded and whose left-over
  intent, if any, still has the \<open>HEAD\<close> it was recorded with.
\<close>

theorem commit_only_result_paths:
  assumes "gitCommit cfg realpath now rm ans req (h, w) = ((h', w'), out)"
  shows "\<exists>added. h' = h @ added \<and>
     (\<forall>argv \<in> set added. reads_repository argv \<or>
        (\<exists>t. commit_target_of cfg realpath req (w_store w) = Inr t \<and> commits_result cfg ans t argv))"
proof -
  let ?Q = "\<lambda>argv. reads_repository argv \<or> (\<exists>t. commit_target_of cfg realpath req (w_store w) = Inr t \<and> commits_result cfg ans t argv)"
  let ?rest = "\<lambda>t. bindW (commit_paths cfg ans t) (\<lambda>(c, changed).
     if set_text (sr_committedCommit (ct_record t)) then retW (already_committed (the (sr_committedCommit (ct_record t))) changed)
     else bindW (commit_plan_of cfg now rm ans (ct_session t) (ct_record t) c changed) (\<lambda>plan.
       case plan of CommitFound a \<Rightarrow> retW a
       | CommitOn parent \<Rightarrow> make_commit cfg now rm ans (ct_session t) (ct_record t) c changed (ct_message t) parent))"
  have eq: "gitCommit cfg realpath now rm ans req = bindW (readA (commit_target_of cfg realpath req)) ?rest"
    by (simp add: gitCommit_def Let_def)
  have "keeps (logged ?Q h) (?rest t)" if t: "commit_target_of cfg realpath req (w_store w) = Inr t" for t
  proof (intro keeps_bind_post [OF keeps_commit_paths], simp, clarsimp split del: if_split)
    fix hh ww c paths and s' :: host_state
    assume "commit_paths cfg ans t (hh, ww) = (s', Inr (c, paths))"
    then have c: "committable cfg ans t c paths" by (rule commit_paths_ok)
    show "keeps (logged ?Q h) (if set_text (sr_committedCommit (ct_record t)) then retW (already_committed (the (sr_committedCommit (ct_record t))) paths)
       else bindW (commit_plan_of cfg now rm ans (ct_session t) (ct_record t) c paths) (\<lambda>plan.
         case plan of CommitFound a \<Rightarrow> retW a
         | CommitOn parent \<Rightarrow> make_commit cfg now rm ans (ct_session t) (ct_record t) c paths (ct_message t) parent))"
      using c t by (intro keeps_if keeps_ret keeps_bind_post [OF keeps_commit_plan])
        (auto split: commit_plan.split intro!: keeps_ret keeps_make_commit intro: commit_plan_ok)
  qed
  then have "logged ?Q h (fst (gitCommit cfg realpath now rm ans req (h, w)))"
    unfolding eq by (auto simp: bindW_def readA_def keeps_def split: sum.splits)
  then show ?thesis unfolding assms by (simp add: logged_def)
qed


section \<open>The commit a retained session cannot record\<close>

lemma commit_steps_run:
  assumes "\<And>h argv. argv \<in> set steps \<Longrightarrow> \<exists>s. ans h argv = Inr s \<and> hs_status s = Some 0"
  shows "\<exists>out. commit_steps ans steps acc (h, w) = ((h @ steps, w), Inr out)"
  using assms
proof (induction steps arbitrary: acc h)
  case (Cons argv rest)
  from Cons.prems [of argv h] obtain s where s: "ans h argv = Inr s" "hs_status s = Some 0" by auto
  have "commit_steps ans (argv # rest) acc (h, w) = commit_steps ans rest (acc @ [step_of argv s]) (h @ [argv], w)"
    using s by (simp add: bindW_def runHostStep_def host_spawn_def retW_def liftW_def guardR_def step_of_def split: prod.split)
  also have "\<exists>out. \<dots> = ((h @ argv # rest, w), Inr out)"
    using Cons.IH [of "acc @ [step_of argv s]" "h @ [argv]"] Cons.prems by simp
  finally show ?case .
qed (simp add: retW_def)

lemma commit_target_record:
  "commit_target_of cfg realpath req st = Inr t \<Longrightarrow> st (ct_session t) = Some (Stored (ct_record t))"
  by (auto simp: commit_target_of_def bindR_eq_Inr recordOr404_eq_Inr Let_def split: prod.splits)

text \<open>The commands of a commit that go through, up to the step that records it.\<close>

definition after_commit ::
  "broker_config \<Rightarrow> int \<Rightarrow> (nat \<Rightarrow> string option) \<Rightarrow> commit_target \<Rightarrow> string \<Rightarrow> string list \<Rightarrow> string \<Rightarrow> host_step list \<Rightarrow> (host_state, commit_answer) act"
where
  "after_commit cfg now rm t c paths tip out =
     bindW (storeA (\<lambda>st. transition now st (ct_session t) (sr_state (ct_record t)) RETAINED (committed_patch c tip))) (\<lambda>_.
     bindW (releaseA cfg now rm (ct_session t)) (\<lambda>_.
     retW \<lparr>ca_committed = True, ca_alreadyCommitted = False, ca_committedCommit = tip, ca_paths = paths, ca_steps = out\<rparr>))"

lemma make_commit_after:
  "make_commit cfg now rm ans (ct_session t) (ct_record t) c paths message parent =
     bindW (storeA (\<lambda>st. touch now st (ct_session t) [F_pendingCommit (Some (c, parent))] None)) (\<lambda>_.
     bindW (liftW (bindR (assertGitCommitMessage message) (\<lambda>_. buildGitCommitArgv paths (js_str message)))) (\<lambda>steps.
     bindW (commit_steps ans steps []) (\<lambda>out.
     bindW (commitA ans (rev_parse ''HEAD'') ''git commit succeeded but its committed HEAD could not be recorded'') (\<lambda>tip.
     after_commit cfg now rm t c paths tip out))))"
  by (simp add: make_commit_def after_commit_def)

lemma commit_until_recorded:
  assumes t: "commit_target_of cfg realpath req (w_store w) = Inr t" and wf: "wf_store (w_store w)"
    and r: "\<not> set_text (sr_committedCommit (ct_record t))" "sr_pendingCommit (ct_record t) = None"
    and paths: "commit_paths cfg ans t (h, w) = ((h1, w), Inr (c, paths))"
    and HEAD: "\<And>h. \<exists>s. ans h (rev_parse ''HEAD'') = Inr s \<and> prints_commit (step_of (rev_parse ''HEAD'') s)"
    and steps: "bindR (assertGitCommitMessage (ct_message t)) (\<lambda>_. buildGitCommitArgv paths (js_str (ct_message t))) = Inr steps"
    and run: "\<And>h argv. argv \<in> set steps \<Longrightarrow> \<exists>s. ans h argv = Inr s \<and> hs_status s = Some 0"
  obtains x y out r1 w1 where "r1 = (ct_record t)\<lparr>sr_pendingCommit := Some (c, x), sr_updatedAt := Iso now\<rparr>"
    "w1 = w\<lparr>w_store := persist (w_store w) r1\<rparr>" "w_store w1 (ct_session t) = Some (Stored r1)"
    "gitCommit cfg realpath now rm ans req (h, w) =
       after_commit cfg now rm t c paths y out (h1 @ [rev_parse ''HEAD''] @ steps @ [rev_parse ''HEAD''], w1)"
proof -
  have st: "w_store w (ct_session t) = Some (Stored (ct_record t))" using t by (rule commit_target_record)
  with wf have sid: "sr_sessionID (ct_record t) = ct_session t" by (simp add: wf_store_def)
  have tip: "\<exists>x. commitA ans (rev_parse ''HEAD'') what (h, w) = ((h @ [rev_parse ''HEAD''], w), Inr x)" for what h w
    using HEAD [of h] by (auto simp: commitA_ok)
  obtain x where x: "commitA ans (rev_parse ''HEAD'') ''cannot commit: current HEAD could not be recorded before commit'' (h1, w) =
      ((h1 @ [rev_parse ''HEAD''], w), Inr x)" using tip by blast
  define r1 where "r1 = (ct_record t)\<lparr>sr_pendingCommit := Some (c, x), sr_updatedAt := Iso now\<rparr>"
  define w1 where "w1 = w\<lparr>w_store := persist (w_store w) r1\<rparr>"
  have touched: "storeA (\<lambda>st. touch now st (ct_session t) [F_pendingCommit (Some (c, x))] None) (h', w) = ((h', w1), Inr r1)" for h'
    using st by (simp add: storeA_def touch_def store_get_def r1_def w1_def Let_def)
  have r1: "w_store w1 (ct_session t) = Some (Stored r1)" using sid by (simp add: w1_def persist_def r1_def)
  obtain out where out: "commit_steps ans steps [] (h1 @ [rev_parse ''HEAD''], w1) = ((h1 @ [rev_parse ''HEAD''] @ steps, w1), Inr out)"
    using commit_steps_run [of steps ans "[]" "h1 @ [rev_parse ''HEAD'']" w1] run by auto
  obtain y where y: "commitA ans (rev_parse ''HEAD'') ''git commit succeeded but its committed HEAD could not be recorded''
      (h1 @ [rev_parse ''HEAD''] @ steps, w1) = ((h1 @ [rev_parse ''HEAD''] @ steps @ [rev_parse ''HEAD''], w1), Inr y)"
    using tip [of "''git commit succeeded but its committed HEAD could not be recorded''" "h1 @ [rev_parse ''HEAD''] @ steps" w1] by auto
  have "gitCommit cfg realpath now rm ans req (h, w) =
      after_commit cfg now rm t c paths y out (h1 @ [rev_parse ''HEAD''] @ steps @ [rev_parse ''HEAD''], w1)"
    using t paths r steps x touched out y
    by (simp add: gitCommit_def make_commit_after commit_plan_of_def bindW_def readA_def retW_def liftW_def)
  then show ?thesis by (rule that [OF r1_def w1_def r1])
qed

text \<open>
  C40. An installed result of a session that is already \<open>RETAINED\<close> is committed but never
  recorded: with every git command succeeding, the \<open>git commit\<close> runs and then the operation
  fails, because \<open>RETAINED\<close> has no transition to itself; the intent stays recorded and the
  commit does not.
\<close>

theorem retained_commit_not_recorded:
  assumes t: "commit_target_of cfg realpath req (w_store w) = Inr t" and wf: "wf_store (w_store w)"
    and r: "sr_state (ct_record t) = RETAINED" "\<not> set_text (sr_committedCommit (ct_record t))" "sr_pendingCommit (ct_record t) = None"
    and paths: "commit_paths cfg ans t (h, w) = ((h1, w), Inr (c, paths))"
    and HEAD: "\<And>h. \<exists>s. ans h (rev_parse ''HEAD'') = Inr s \<and> prints_commit (step_of (rev_parse ''HEAD'') s)"
    and steps: "bindR (assertGitCommitMessage (ct_message t)) (\<lambda>_. buildGitCommitArgv paths (js_str (ct_message t))) = Inr steps"
    and run: "\<And>h argv. argv \<in> set steps \<Longrightarrow> \<exists>s. ans h argv = Inr s \<and> hs_status s = Some 0"
  shows "\<exists>w' r'. gitCommit cfg realpath now rm ans req (h, w) =
       ((h1 @ [rev_parse ''HEAD''] @ steps @ [rev_parse ''HEAD''], w'), Inl (StateError ''illegal state transition RETAINED -> RETAINED'')) \<and>
     w_store w' (ct_session t) = Some (Stored r') \<and> sr_pendingCommit r' \<noteq> None \<and> sr_committedCommit r' = sr_committedCommit (ct_record t)"
proof -
  let ?h = "h1 @ [rev_parse ''HEAD''] @ steps @ [rev_parse ''HEAD'']"
  obtain x y out r1 w1 where c: "r1 = (ct_record t)\<lparr>sr_pendingCommit := Some (c, x), sr_updatedAt := Iso now\<rparr>"
      "w_store w1 (ct_session t) = Some (Stored r1)"
      "gitCommit cfg realpath now rm ans req (h, w) = after_commit cfg now rm t c paths y out (?h, w1)"
    by (rule commit_until_recorded [OF t wf r(2,3) paths HEAD steps run])
  have e: "after_commit cfg now rm t c paths y out (?h, w1) = ((?h, w1), Inl (StateError ''illegal state transition RETAINED -> RETAINED''))"
    using c(1,2) r(1) by (simp add: after_commit_def bindW_def storeA_def transition_def store_get_def assertLegalTransition_def LEGAL_TRANSITIONS_def guardR_def)
  have "sr_pendingCommit r1 \<noteq> None" "sr_committedCommit r1 = sr_committedCommit (ct_record t)" by (simp_all add: c(1))
  with c(2) c(3) [unfolded e] show ?thesis by blast
qed

section \<open>What an install runs\<close>

text \<open>The result as it is installed: the expected commit, agreeing listings, no link and no protected path.\<close>

definition installable :: "broker_config \<Rightarrow> host_answers \<Rightarrow> install_target \<Rightarrow> string list \<Rightarrow> file_change list \<Rightarrow> bool" where
  "installable cfg ans t changed raw =
     ((\<exists>h s. ans h (buildResultCommitArgv (it_result t)) = Inr s \<and> printed_commit (step_of (buildResultCommitArgv (it_result t)) s) = it_expected t) \<and>
      (\<exists>h. changedPathsBetween cfg (git_of ans h) (it_project t) (it_baseline t) (it_result t) = Inr changed) \<and>
      (\<exists>h. rawChangesBetween cfg (git_of ans h) (it_project t) (it_baseline t) (it_result t) = Inr raw) \<and>
      set (map fc_path raw) = set changed \<and> (\<forall>c \<in> set raw. fc_kind c \<noteq> Symlink \<and> fc_kind c \<noteq> Submodule) \<and>
      checkProtectedPaths changed (planRootPatterns cfg) = [] \<and> sr_installedCommit (it_record t) = None)"

text \<open>The working tree holds the baseline at the targets, and the paths to delete lie in the project.\<close>

definition targets_clean :: "(string \<Rightarrow> string option) \<Rightarrow> (string \<Rightarrow> target_stat) \<Rightarrow> host_answers \<Rightarrow> install_target \<Rightarrow> file_change list \<Rightarrow> bool" where
  "targets_clean realpath lstat ans t raw =
     (let (restore, delete) = planSandboxResultInstall raw; targets = sort (remdups (restore @ delete)) in
      (\<forall>p \<in> set delete. (\<exists>parent. realpath (dirname (resolve_path (it_root t) p)) = Some parent \<and> isWithin (it_root t) parent) \<and>
         lstat (resolve_path (it_root t) p) \<in> {RegularTarget, MissingTarget}) \<and>
      (targets \<noteq> [] \<longrightarrow> (\<exists>h s. ans h (quiet_diff (it_baseline t) targets) = Inr s \<and> hs_status s = Some 0)))"

definition installs_result ::
  "broker_config \<Rightarrow> (string \<Rightarrow> string option) \<Rightarrow> (string \<Rightarrow> target_stat) \<Rightarrow> host_answers \<Rightarrow> install_target \<Rightarrow> string list \<Rightarrow> bool"
where
  "installs_result cfg realpath lstat ans t argv =
     (\<exists>changed raw paths. installable cfg ans t changed raw \<and> targets_clean realpath lstat ans t raw \<and> set paths \<subseteq> set changed \<and>
        (argv = [''git'', ''restore'', ''--source='' @ it_result t, ''--worktree'', ''--''] @ paths \<and> (\<forall>p \<in> set paths. \<exists>c \<in> set raw. fc_path c = p \<and> fc_kind c \<noteq> DeletedFile) \<or>
         argv = [''rm'', ''-f'', ''--''] @ paths \<and> (\<forall>p \<in> set paths. \<exists>c \<in> set raw. fc_path c = p \<and> fc_kind c = DeletedFile)))"

lemma delete_targets_ok:
  "assertResultDeleteTargetsContained realpath lstat rt ps = Inr u \<Longrightarrow> p \<in> set ps \<Longrightarrow>
   (\<exists>parent. realpath (dirname (resolve_path rt p)) = Some parent \<and> isWithin rt parent) \<and>
   lstat (resolve_path rt p) \<in> {RegularTarget, MissingTarget}"
  by (induction ps) (auto simp: bindR_eq_Inr delete_target_contained_def Let_def split: option.splits target_stat.splits)

lemma check_baseline_ok:
  assumes "check_baseline ans base targets (h, w) = (s', Inr u)" "targets \<noteq> []"
  shows "\<exists>s. ans h (quiet_diff base targets) = Inr s \<and> hs_status s = Some 0"
  using assms
  by (auto simp: check_baseline_def actW_ok run_ok liftW_def Let_def split: if_splits prod.splits)

lemma keeps_check_baseline: "(\<And>argv. reads_repository argv \<Longrightarrow> Q argv) \<Longrightarrow> keeps (logged Q h0) (check_baseline ans base targets)"
  unfolding check_baseline_def Let_def by (intro keeps_intros) (simp_all split: prod.split add: keeps_intros)

lemma keeps_install_step: "(\<And>a. argv = Inr a \<Longrightarrow> Q a) \<Longrightarrow> keeps (logged Q h0) (install_step ans paths argv what)"
  unfolding install_step_def by (intro keeps_if keeps_ret keeps_bind_post [OF keeps_lift]) (intro keeps_intros, auto simp: liftW_def)

lemma plan_paths:
  assumes "planSandboxResultInstall raw = (restore, delete)"
  shows "p \<in> set restore \<Longrightarrow> \<exists>c \<in> set raw. fc_path c = p \<and> fc_kind c \<noteq> DeletedFile"
    "p \<in> set delete \<Longrightarrow> \<exists>c \<in> set raw. fc_path c = p \<and> fc_kind c = DeletedFile"
  using assms by (auto simp: planSandboxResultInstall_def)

lemma keeps_write_result:
  assumes i: "installable cfg ans t changed raw"
    and Q: "\<And>argv. reads_repository argv \<Longrightarrow> Q argv" "\<And>argv. installs_result cfg realpath lstat ans t argv \<Longrightarrow> Q argv"
  shows "keeps (logged Q h0) (write_result realpath lstat now ans t commit changed raw)"
proof -
  obtain restore delete where pl: "planSandboxResultInstall raw = (restore, delete)" by (cases "planSandboxResultInstall raw")
  let ?targets = "sort (remdups (restore @ delete))"
  let ?tail = "bindW (install_step ans restore (buildResultRestoreArgv (it_result t) restore) ''git restore failed'') (\<lambda>restored.
      bindW (install_step ans delete (buildResultDeleteArgv delete) ''deleting removed paths failed'') (\<lambda>deleted.
      bindW (storeA (\<lambda>st. touch now st (it_session t) [F_installedCommit (Some (it_expected t))] None)) (\<lambda>_.
      retW \<lparr>in_alreadyInstalled = False, in_resultRef = it_result t, in_resultCommit = commit, in_paths = changed,
        in_restoredPaths = restore, in_deletedPaths = delete, in_steps = restored @ deleted\<rparr>)))"
  have eq: "write_result realpath lstat now ans t commit changed raw =
      bindW (liftW (assertResultDeleteTargetsContained realpath lstat (it_root t) delete)) (\<lambda>_.
      bindW (check_baseline ans (it_baseline t) ?targets) (\<lambda>_. ?tail))"
    by (simp add: write_result_def pl)
  have tail: "keeps (logged Q h0) ?tail" if "targets_clean realpath lstat ans t raw"
  proof -
    have sub: "set restore \<subseteq> set changed" "set delete \<subseteq> set changed"
      using i plan_paths [OF pl] by (force simp: installable_def)+
    have "Q argv" if "buildResultRestoreArgv (it_result t) restore = Inr argv \<or> buildResultDeleteArgv delete = Inr argv" for argv
    proof (rule Q(2))
      from that have "argv = [''git'', ''restore'', ''--source='' @ it_result t, ''--worktree'', ''--''] @ restore \<or> argv = [''rm'', ''-f'', ''--''] @ delete"
        by (auto simp: buildResultRestoreArgv_def buildResultDeleteArgv_def bindR_eq_Inr)
      then show "installs_result cfg realpath lstat ans t argv"
        using i \<open>targets_clean realpath lstat ans t raw\<close> sub plan_paths [OF pl] unfolding installs_result_def by blast
    qed
    then show ?thesis by (intro keeps_bind keeps_install_step keeps_storeA keeps_ret) auto
  qed
  have "keeps (logged Q h0) (bindW (check_baseline ans (it_baseline t) ?targets) (\<lambda>_. ?tail))"
    if d: "assertResultDeleteTargetsContained realpath lstat (it_root t) delete = Inr ()"
  proof (intro keeps_bind_post [OF keeps_check_baseline] tail)
    fix s s' :: host_state and u
    assume "check_baseline ans (it_baseline t) ?targets s = (s', Inr u)"
    then show "targets_clean realpath lstat ans t raw"
      using check_baseline_ok [of ans "it_baseline t" ?targets "fst s" "snd s" s' u] delete_targets_ok [OF d]
      by (simp add: targets_clean_def pl Let_def) blast
  qed (rule Q(1))
  then show ?thesis unfolding eq by (intro keeps_bind_post [OF keeps_lift]) (simp add: liftW_def)
qed

lemma install_paths_ok:
  assumes "install_paths cfg ans t (h, w) = (s', Inr (c, changed))"
  shows "(\<exists>h s. ans h (buildResultCommitArgv (it_result t)) = Inr s \<and> printed_commit (step_of (buildResultCommitArgv (it_result t)) s) = it_expected t) \<and>
    (\<exists>h. changedPathsBetween cfg (git_of ans h) (it_project t) (it_baseline t) (it_result t) = Inr changed) \<and>
    checkProtectedPaths changed (planRootPatterns cfg) = []"
proof -
  from assms obtain s1 s2 where "\<exists>s. ans h (buildResultCommitArgv (it_result t)) = Inr s \<and> printed_commit (step_of (buildResultCommitArgv (it_result t)) s) = it_expected t"
    and ch: "changedA cfg ans (it_project t) (it_baseline t) (it_result t) s1 = (s2, Inr changed)" "checkProtectedPaths changed (planRootPatterns cfg) = []"
    by (auto simp: install_paths_def actW_ok run_ok Let_def)
  with changedA_ok [of cfg ans "it_project t" "it_baseline t" "it_result t" "fst s1" "snd s1" s2 changed] show ?thesis by auto
qed

lemma install_changes_ok:
  assumes "install_changes cfg ans t changed s = (s', Inr raw)"
  shows "(\<exists>h. rawChangesBetween cfg (git_of ans h) (it_project t) (it_baseline t) (it_result t) = Inr raw) \<and>
    set (map fc_path raw) = set changed \<and> (\<forall>c \<in> set raw. fc_kind c \<noteq> Symlink \<and> fc_kind c \<noteq> Submodule)"
proof -
  from assms obtain s1 where raw: "rawA cfg ans (it_project t) (it_baseline t) (it_result t) s = (s1, Inr raw)"
    and eq: "sort (map fc_path raw) = sort changed" "unsafe_changes raw = []"
    by (auto simp: install_changes_def actW_ok)
  from arg_cong [OF eq(1), of set] have "set (map fc_path raw) = set changed" by simp
  moreover from eq(2) have "\<forall>c \<in> set raw. fc_kind c \<noteq> Symlink \<and> fc_kind c \<noteq> Submodule"
    by (auto simp: unsafe_changes_def filter_empty_conv)
  ultimately show ?thesis using rawA_ok [of cfg ans "it_project t" "it_baseline t" "it_result t" "fst s" "snd s" s1 raw] raw by auto
qed

lemma keeps_install_paths: "(\<And>argv. reads_repository argv \<Longrightarrow> Q argv) \<Longrightarrow> keeps (logged Q h0) (install_paths cfg ans t)"
  unfolding install_paths_def Let_def by (intro keeps_intros) simp_all

lemma keeps_install_changes: "(\<And>argv. reads_repository argv \<Longrightarrow> Q argv) \<Longrightarrow> keeps (logged Q h0) (install_changes cfg ans t changed)"
  unfolding install_changes_def by (intro keeps_intros) simp_all

lemma keeps_installed_check:
  "(\<And>argv. reads_repository argv \<Longrightarrow> Q argv) \<Longrightarrow> keeps (logged Q h0) (bindW (runHostStep ans (quiet_diff ref paths)) (\<lambda>s.
     bindW (liftW (guardR (hx_status s = Some 0) e)) (\<lambda>_. retW a)))"
  by (intro keeps_intros) simp

text \<open>A run that starts with reading the store depends on what was read.\<close>

lemma logged_readA:
  assumes "\<And>t. f (w_store w) = Inr t \<Longrightarrow> keeps (logged Q h) (g t)"
  shows "logged Q h (fst (bindW (readA f) g (h, w)))"
  using assms by (auto simp: bindW_def readA_def keeps_def split: sum.splits)

text \<open>
  C6. Whatever an install does and however it ends, every command it runs either reads the
  repository or is the \<open>git restore\<close> or the \<open>rm\<close> of paths of the result the caller previewed:
  the ref still names that commit, both listings agree, no symbolic link or submodule is among
  the changes, the working tree held the baseline at every target, and each file to delete
  lies in the project and is a regular file or missing.
\<close>

theorem install_only_result_paths:
  assumes "sandboxResultInstall cfg realpath lstat now ans req (h, w) = ((h', w'), out)"
  shows "\<exists>added. h' = h @ added \<and>
     (\<forall>argv \<in> set added. reads_repository argv \<or>
        (\<exists>t. install_target_of cfg realpath req (w_store w) = Inr t \<and> installs_result cfg realpath lstat ans t argv))"
proof -
  let ?Q = "\<lambda>argv. reads_repository argv \<or>
    (\<exists>t. install_target_of cfg realpath req (w_store w) = Inr t \<and> installs_result cfg realpath lstat ans t argv)"
  have "logged ?Q h (fst (sandboxResultInstall cfg realpath lstat now ans req (h, w)))" unfolding sandboxResultInstall_def
  proof (intro logged_readA keeps_bind_post [OF keeps_install_paths])
    fix t x and s s' :: host_state
    assume t: "install_target_of cfg realpath req (w_store w) = Inr t" and p: "install_paths cfg ans t s = (s', Inr x)"
    obtain c changed where x: "x = (c, changed)" by (cases x)
    have "keeps (logged ?Q h) (write_result realpath lstat now ans t c changed raw)"
      if "install_changes cfg ans t changed s2 = (s3, Inr raw)" "sr_installedCommit (it_record t) = None" for s2 s3 raw
      using install_paths_ok [of cfg ans t "fst s" "snd s" s' c changed] p install_changes_ok [OF that(1)] that(2) t x
      by (intro keeps_write_result [of cfg ans t changed]) (auto simp: installable_def)
    then show "keeps (logged ?Q h) (install_at cfg realpath lstat now ans t x)" unfolding x install_at_def prod.case
      by (intro keeps_if keeps_installed_check keeps_bind_post [OF keeps_install_changes]) auto
  qed simp
  then show ?thesis unfolding assms by (simp add: logged_def)
qed

section \<open>What a push runs\<close>

text \<open>The only push: one remote and the branch of \<open>HEAD\<close>, which is not a protected one unless the request says so.\<close>

definition pushes_branch :: "host_answers \<Rightarrow> string \<times> bool \<times> bool \<Rightarrow> string list \<Rightarrow> bool" where
  "pushes_branch ans r argv = (case r of (remote, up, prot) \<Rightarrow>
     \<exists>branch. argv = [''git'', ''push''] @ (if up then [''--set-upstream''] else []) @ [remote, branch] \<and>
       (\<exists>h s. ans h head_name_argv = Inr s \<and> printed_name (step_of head_name_argv s) = Some branch) \<and>
       GIT_BRANCH_RE branch \<and> GIT_REMOTE_RE remote \<and> (branch = ''main'' \<or> branch = ''master'' \<longrightarrow> prot))"

lemma push_argv_ok:
  assumes "buildGitPushArgv inp = Inr argv"
  shows "\<exists>branch. gi_branch inp = Some branch \<and> argv = [''git'', ''push''] @ (if gi_setUpstream inp then [''--set-upstream''] else []) @ [gi_remote inp, branch] \<and>
     GIT_BRANCH_RE branch \<and> GIT_REMOTE_RE (gi_remote inp) \<and> (branch = ''main'' \<or> branch = ''master'' \<longrightarrow> gi_allowProtectedBranch inp)"
  using assms by (auto simp: buildGitPushArgv_def bindR_eq_Inr assertGitBranch_def assertGitRemote_def is_str_iff split: option.splits)

text \<open>
  C27. Whatever a push does and however it ends, every command it runs either reads the
  repository or is one \<open>git push\<close> of the branch \<open>HEAD\<close> is on to the requested remote, without
  any option but \<open>--set-upstream\<close>; with a detached \<open>HEAD\<close> nothing is pushed, and \<open>main\<close> and
  \<open>master\<close> are pushed only when the request allows a protected branch.
\<close>

theorem push_only_the_branch:
  assumes "gitPush cfg realpath ans req (h, w) = ((h', w'), out)"
  shows "\<exists>added. h' = h @ added \<and>
     (\<forall>argv \<in> set added. reads_repository argv \<or>
        (\<exists>r. push_request cfg realpath req (w_store w) = Inr r \<and> pushes_branch ans r argv))"
proof -
  let ?Q = "\<lambda>argv. reads_repository argv \<or> (\<exists>r. push_request cfg realpath req (w_store w) = Inr r \<and> pushes_branch ans r argv)"
  have reads: "keeps (logged ?Q h) (upstream_of ans b)" "keeps (logged ?Q h) (ahead_of ans b u)" for b u
    unfolding upstream_of_def ahead_of_def by (intro keeps_intros; simp)+
  have "logged ?Q h (fst (gitPush cfg realpath ans req (h, w)))" unfolding gitPush_def
  proof (intro logged_readA keeps_bind_post [OF keeps_step])
    fix r x and s s' :: host_state
    assume req: "push_request cfg realpath req (w_store w) = Inr r" and hd: "runHostStep ans head_name_argv s = (s', Inr x)"
    obtain remote up prot where r: "r = (remote, up, prot)" by (cases r)
    have Q: "?Q argv" if "buildGitPushArgv \<lparr>gi_branch = printed_name x, gi_upstream = u, gi_ahead = a, gi_remote = remote,
         gi_setUpstream = up, gi_allowProtectedBranch = prot\<rparr> = Inr argv" for u a argv
    proof -
      from hd obtain y where "ans (fst s) head_name_argv = Inr y" "x = step_of head_name_argv y" by (cases s) (auto simp: run_ok)
      moreover from push_argv_ok [OF that] obtain branch where b: "printed_name x = Some branch"
          "argv = [''git'', ''push''] @ (if up then [''--set-upstream''] else []) @ [remote, branch]"
          "GIT_BRANCH_RE branch \<and> GIT_REMOTE_RE remote \<and> (branch = ''main'' \<or> branch = ''master'' \<longrightarrow> prot)"
        by auto
      ultimately have "\<exists>h z. ans h head_name_argv = Inr z \<and> printed_name (step_of head_name_argv z) = Some branch" by blast
      with b have "pushes_branch ans (remote, up, prot) argv" unfolding pushes_branch_def prod.case by blast
      with req r show ?thesis by blast
    qed
    show "keeps (logged ?Q h) (push_branch ans r (printed_name x))" unfolding r push_branch_def prod.case
      by (intro keeps_bind [OF reads(1)] keeps_bind [OF reads(2)] keeps_bind_post [OF keeps_lift] keeps_bind [OF keeps_step] keeps_ret Q)
        (simp add: liftW_def)
  qed (simp add: head_name_argv_def)
  then show ?thesis unfolding assms by (simp add: logged_def)
qed

end
