(* ===== verification/HostExamples.thy ===== *)
theory HostExamples
  imports HostGuarantees PlanGuarantees
begin

section \<open>Examples\<close>

text \<open>A result that adds \<open>a.ts\<close>, the answers of a git in which every command succeeds, and the session.\<close>

definition demo_tip :: string where
  "demo_tip = ''bbbbbbbbbbbbbbbbbbbbbbbbbbbbbbbbbbbbbbbb''"

definition demo_commit_id :: string where
  "demo_commit_id = ''aaaaaaaaaaaaaaaaaaaaaaaaaaaaaaaaaaaaaaaa''"

definition demo_printed :: "string list \<Rightarrow> string" where
  "demo_printed argv =
     (if argv = rev_parse ''HEAD'' then demo_tip
      else if argv = buildResultCommitArgv ''R'' then demo_commit_id
      else if argv = buildChangedPathsArgv ''B'' ''R'' then ''a.ts'' @ [NUL]
      else if argv = [''git'', ''diff'', ''--raw'', ''--no-renames'', ''B'', ''R'', ''--'', ''.''] then '':000000 100644 0000 1111 A'' @ [CHR 0x09] @ ''a.ts'' @ [LF]
      else if argv = head_name_argv then ''topic''
      else if argv = upstream_argv then ''origin/topic''
      else [])"

definition demo_answers :: host_answers where
  "demo_answers h argv = Inr \<lparr>hs_status = Some 0, hs_stdout = demo_printed argv, hs_stderr = [], hs_timedOut = False, hs_outputTruncated = False\<rparr>"

definition demo_orchestrated :: broker_config where
  "demo_orchestrated = (demo_config 1)\<lparr>bc_readOnlyAgents := [''gentle-orchestrator'']\<rparr>"

definition demo_session :: "session_state \<Rightarrow> string option \<Rightarrow> session_record" where
  "demo_session s installed = (new_record ''s1'' (Iso 0))\<lparr>sr_agent := Some ''gentle-orchestrator'', sr_state := s, sr_projectID := Some ''demo'',
     sr_resultRef := Some ''R'', sr_baselineRef := Some ''B'', sr_installedCommit := installed\<rparr>"

definition demo_host_world :: "session_state \<Rightarrow> string option \<Rightarrow> world" where
  "demo_host_world s installed = initial_world [''s1'' \<mapsto> Stored (demo_session s installed)] Map.empty"

definition demo_host_request :: "string \<Rightarrow> string \<Rightarrow> string \<Rightarrow> envelope" where
  "demo_host_request op k v = \<lparr>env_id = ''1'', env_operation = op, env_sessionID = ''s1'', env_agent = JUndefined,
     env_payload = JObj [(''projectDir'', JStr ''/p''), (k, JStr v)]\<rparr>"

definition demo_commit_target :: "session_state \<Rightarrow> string option \<Rightarrow> commit_target" where
  "demo_commit_target s installed = \<lparr>ct_project = ''demo'', ct_baseline = ''B'', ct_result = ''R'', ct_session = ''s1'',
     ct_record = demo_session s installed, ct_message = JStr ''add a''\<rparr>"

lemma step_plain:
  "CHR ''='' \<notin> set (hs_stdout r) \<Longrightarrow> CHR '':'' \<notin> set (hs_stdout r) \<Longrightarrow> length (hs_stdout r) \<le> GIT_OUTPUT_MAX_BYTES \<Longrightarrow>
   hx_stdout (step_of argv r) = hs_stdout r"
  by (simp add: step_of_def capAndRedactWithFlag_def redact_plain)

lemma demo_root_orchestrated: "resolveCanonicalProjectRoot demo_orchestrated Some (JStr ''/p'') = Inr (''demo'', ''/p'')"
  using demo_root by (simp add: resolveCanonicalProjectRoot_def demo_orchestrated_def)

lemma demo_ids: "is_sha demo_tip" "is_sha demo_commit_id" "toLowerCase (trim demo_tip) = demo_tip" "toLowerCase (trim demo_commit_id) = demo_commit_id"
  "trim ''topic'' = ''topic''" "trim ''origin/topic'' = ''origin/topic''" "trim [] = []"
  by code_simp+

lemma demo_ids_plain:
  "CHR ''='' \<notin> set demo_tip" "CHR '':'' \<notin> set demo_tip" "length demo_tip = 40" "CHR ''='' \<notin> set demo_commit_id" "CHR '':'' \<notin> set demo_commit_id" "length demo_commit_id = 40"
  by (simp_all add: demo_tip_def demo_commit_id_def)

lemma demo_argv_simps [simp]:
  "demo_printed (rev_parse ''HEAD'') = demo_tip" "demo_printed (buildResultCommitArgv ''R'') = demo_commit_id"
  "demo_printed (buildChangedPathsArgv ''B'' ''R'') = ''a.ts'' @ [NUL]" "demo_printed head_name_argv = ''topic''"
  "demo_printed upstream_argv = ''origin/topic''"
  "demo_printed [''git'', ''rev-list'', ''--count'', x] = []"
  "demo_printed [''git'', ''diff'', ''--raw'', ''--no-renames'', ''B'', ''R'', ''--'', ''.''] = '':000000 100644 0000 1111 A'' @ [CHR 0x09] @ ''a.ts'' @ [LF]"
  by (simp_all add: demo_printed_def rev_parse_def buildResultCommitArgv_def buildChangedPathsArgv_def head_name_argv_def upstream_argv_def)

lemma demo_commitA:
  "commitA demo_answers (rev_parse ''HEAD'') what (h, w) = ((h @ [rev_parse ''HEAD''], w), Inr demo_tip)"
  "commitA demo_answers (buildResultCommitArgv ''R'') what (h, w) = ((h @ [buildResultCommitArgv ''R''], w), Inr demo_commit_id)"
  by (simp_all add: commitA_ok demo_answers_def prints_commit_def printed_commit_def step_plain demo_ids demo_ids_plain GIT_OUTPUT_MAX_BYTES_def)

lemma demo_changed: "changedPathsBetween demo_orchestrated (git_of demo_answers h) ''demo'' ''B'' ''R'' = Inr [''a.ts'']"
  by (simp add: changedPathsBetween_def demo_orchestrated_def demo_config_def git_of_def demo_answers_def spawn_of_def spawn_ok_def)
    (simp add: parseNulDelimitedPaths_def NUL_def)

lemma demo_known: "known_project demo_orchestrated ''demo''"
  by (simp add: known_project_def demo_orchestrated_def demo_config_def)

lemma demo_unprotected: "checkProtectedPaths [''a.ts''] (bc_protectedPaths demo_orchestrated @ bc_protectedSecurityFiles demo_orchestrated) = []"
  "checkProtectedPaths [''a.ts''] (planRootPatterns demo_orchestrated) = []"
  by code_simp+

lemma demo_host_store: "w_store (demo_host_world s i) = [''s1'' \<mapsto> Stored (demo_session s i)]"
  by (simp add: demo_host_world_def initial_world_def)

lemma demo_authorized:
  assumes "op \<in> {''gitCommit'', ''sandboxResultInstall'', ''gitPush''}"
  shows "\<exists>acc. authorizeHostDispatch [''gentle-orchestrator''] [''s1'' \<mapsto> Stored (demo_session s i)] op ''s1'' OrchestratorCategory = Inr acc"
proof -
  have get: "store_get [''s1'' \<mapsto> Stored (demo_session s i)] ''s1'' = Inr (Some (demo_session s i))" by (simp add: store_get_def)
  have agent: "bound_agent (Some (demo_session s i)) = bound_agent (Some ((new_record ''s1'' (Iso 0))\<lparr>sr_agent := Some ''gentle-orchestrator''\<rparr>))"
    by (simp add: bound_agent_def demo_session_def)
  have "list_all (\<lambda>op. is_ok (authorizeHostDispatch [''gentle-orchestrator''] (demo_bound ''gentle-orchestrator'') op ''s1'' OrchestratorCategory))
     [''gitCommit'', ''sandboxResultInstall'', ''gitPush'']" by code_simp
  with assms have "is_ok (authorizeHostDispatch [''gentle-orchestrator''] (demo_bound ''gentle-orchestrator'') op ''s1'' OrchestratorCategory)" by auto
  then show ?thesis using agent by (simp add: is_ok_iff authorizeHostDispatch_def get) (simp add: demo_bound_def store_get_def)
qed

lemma demo_orchestrated_agents: "bc_readOnlyAgents demo_orchestrated = [''gentle-orchestrator'']"
  by (simp add: demo_orchestrated_def)

lemma demo_host_payload:
  "payloadOf (demo_host_request ''gitCommit'' ''message'' v) = Inr [(''projectDir'', JStr ''/p''), (''message'', JStr v)]"
  "payloadOf (demo_host_request ''sandboxResultInstall'' ''expectedResultCommit'' v) = Inr [(''projectDir'', JStr ''/p''), (''expectedResultCommit'', JStr v)]"
  "payloadOf (demo_host_request ''gitPush'' ''remote'' v) = Inr [(''projectDir'', JStr ''/p''), (''remote'', JStr v)]"
  by (simp_all add: payloadOf_def demo_host_request_def ALLOWED_PAYLOAD_KEYS_def)

lemma demo_request_session [simp]: "env_sessionID (demo_host_request op k v) = ''s1''"
  by (simp add: demo_host_request_def)

lemma demo_result_refs:
  "eligible_state pol (demo_session s i) \<Longrightarrow> resolveResultRefs [''s1'' \<mapsto> Stored (demo_session s i)] ''s1'' ''demo'' JUndefined pol = Inr (''B'', ''R'')"
  by (simp add: resolveResultRefs_def recordOr404_eq_Inr [THEN iffD2] Let_def) (simp add: demo_session_def result_refs_def new_record_def)

lemma demo_commit_target_of:
  assumes "s \<in> {RESULT_READY, RETAINED}"
  shows "commit_target_of demo_orchestrated Some (demo_host_request ''gitCommit'' ''message'' ''add a'') (w_store (demo_host_world s (Some demo_commit_id))) =
     Inr (demo_commit_target s (Some demo_commit_id))"
proof -
  have el: "eligible_state COMMIT_POLICY (demo_session s (Some demo_commit_id))"
    using assms by (auto simp: eligible_state_def COMMIT_POLICY_def set_text_def demo_session_def demo_commit_id_def new_record_def)
  obtain acc where "authorizeHostDispatch [''gentle-orchestrator''] [''s1'' \<mapsto> Stored (demo_session s (Some demo_commit_id))] ''gitCommit'' ''s1''
      OrchestratorCategory = Inr acc" using demo_authorized by blast
  then show ?thesis
    by (simp add: commit_target_of_def demo_host_payload demo_host_store demo_orchestrated_agents demo_root_orchestrated js_get_def
      resolveCommitResult_def demo_result_refs [OF el] result_session_def recordOr404_eq_Inr [THEN iffD2] demo_commit_target_def)
qed

definition demo_commit_reads :: "string list list" where
  "demo_commit_reads = [buildResultCommitArgv ''R'', buildChangedPathsArgv ''B'' ''R'']"

lemma bindW_Inr: "m w = (w', Inr x) \<Longrightarrow> bindW m f w = f x w'"
  by (simp add: bindW_def)

lemma bindW_readA: "f (w_store w) = Inr x \<Longrightarrow> bindW (readA f) g (h, w) = g x (h, w)"
  by (simp add: bindW_def readA_def)

lemma bindW_check: "b \<Longrightarrow> bindW (checkA b e) f w = f () w" "b \<Longrightarrow> bindW (liftW (guardR b e')) f w = f () w"
  by (simp_all add: bindW_def checkA_def liftW_def guardR_def)

lemma demo_changedA:
  "changedA demo_orchestrated demo_answers ''demo'' ''B'' ''R'' (h, w) = ((h @ [buildChangedPathsArgv ''B'' ''R''], w), Inr [''a.ts''])"
  by (simp add: changedA_def demo_known demo_changed)

lemma demo_binds:
  "bindW (commitA demo_answers (rev_parse ''HEAD'') what) f (h, w) = f demo_tip (h @ [rev_parse ''HEAD''], w)"
  "bindW (commitA demo_answers (buildResultCommitArgv ''R'') what) f (h, w) = f demo_commit_id (h @ [buildResultCommitArgv ''R''], w)"
  "bindW (changedA demo_orchestrated demo_answers ''demo'' ''B'' ''R'') g (h, w) = g [''a.ts''] (h @ [buildChangedPathsArgv ''B'' ''R''], w)"
  by (rule bindW_Inr, rule demo_commitA demo_changedA)+

lemma demo_target_fields:
  "ct_project (demo_commit_target s i) = ''demo''" "ct_baseline (demo_commit_target s i) = ''B''" "ct_result (demo_commit_target s i) = ''R''"
  "ct_session (demo_commit_target s i) = ''s1''" "ct_record (demo_commit_target s i) = demo_session s i" "ct_message (demo_commit_target s i) = JStr ''add a''"
  "sr_state (demo_session s i) = s" "sr_installedCommit (demo_session s i) = i" "sr_committedCommit (demo_session s i) = None"
  "sr_pendingCommit (demo_session s i) = None" "sr_sessionID (demo_session s i) = ''s1''" "sr_workerName (demo_session s i) = None"
  by (simp_all add: demo_commit_target_def demo_session_def new_record_def)

lemma demo_commit_paths:
  "commit_paths demo_orchestrated demo_answers (demo_commit_target s (Some demo_commit_id)) ([], w) = ((demo_commit_reads, w), Inr (demo_commit_id, [''a.ts'']))"
  unfolding commit_paths_def demo_target_fields Let_def
  by (simp only: demo_binds bindW_check demo_unprotected list.simps simp_thms retW_def
    demo_commit_reads_def append_Nil append_Cons)

definition demo_commit_steps :: "string list list" where
  "demo_commit_steps = [[''git'', ''add'', ''--'', ''a.ts''], [''git''] @ GIT_COMMIT_IDENTITY @ [''commit'', ''-m'', ''add a'', ''--'', ''a.ts'']]"

lemma demo_steps: "bindR (assertGitCommitMessage (JStr ''add a'')) (\<lambda>_. buildGitCommitArgv [''a.ts''] ''add a'') = Inr demo_commit_steps"
proof -
  have c: "\<not> has_bare_cr ''add a''" "list_all (\<lambda>c. \<not> is_body_unsafe c) ''add a''" "first_line ''add a'' = ''add a''" "\<not> startsWith ''add a'' ''-''"
    "list_all (\<lambda>c. \<not> is_control c) ''a.ts''" "\<not> startsWith ''a.ts'' ''-''" "\<not> startsWith ''a.ts'' ''/''" "\<not> startsWith ''a.ts'' ''~''"
    "\<not> is_body_unsafe (CHR ''a'')" "\<not> is_body_unsafe (CHR ''d'')" "\<not> is_body_unsafe (CHR '' '')"
    "\<not> is_control (CHR ''a'')" "\<not> is_control (CHR ''.'')" "\<not> is_control (CHR ''t'')" "\<not> is_control (CHR ''s'')"
    "\<not> drive_prefix ''a.ts''" "\<not> git_path_unsafe ''a.ts''"
    by code_simp+
  have "assertGitCommitMessage (JStr ''add a'') = Inr ()"
    by (simp add: assertMaxBytes_def c assertBodyTextControls_def)
  moreover have "assertGitPathList (JArr [JStr ''a.ts'']) = Inr ()"
    unfolding assertGitPathList.simps assertGitPathEntries.simps by (simp add: assertMaxBytes_def c assertNoControlChars_def)
  ultimately show ?thesis
    by (simp add: buildGitCommitArgv_def demo_commit_steps_def del: assertGitCommitMessage.simps assertGitPathList.simps)
qed

lemma demo_runs: "\<exists>s. demo_answers h argv = Inr s \<and> hs_status s = Some 0"
  by (simp add: demo_answers_def)

theorem retained_commit_not_recorded_witness:
  "\<exists>h' w' r'. gitCommit demo_orchestrated Some 5 (\<lambda>_. None) demo_answers (demo_host_request ''gitCommit'' ''message'' ''add a'')
       ([], demo_host_world RETAINED (Some demo_commit_id)) = ((h', w'), Inl (StateError ''illegal state transition RETAINED -> RETAINED'')) \<and>
     set demo_commit_steps \<subseteq> set h' \<and> w_store w' ''s1'' = Some (Stored r') \<and> sr_pendingCommit r' \<noteq> None \<and> sr_committedCommit r' = None"
proof -
  let ?t = "demo_commit_target RETAINED (Some demo_commit_id)"
  have "wf_store (w_store (demo_host_world RETAINED (Some demo_commit_id)))"
    by (simp add: demo_host_store wf_store_def demo_session_def new_record_def)
  moreover have "sr_state (ct_record ?t) = RETAINED" "\<not> set_text (sr_committedCommit (ct_record ?t))" "sr_pendingCommit (ct_record ?t) = None"
      "ct_session ?t = ''s1''" "sr_committedCommit (ct_record ?t) = None" "ct_message ?t = JStr ''add a''"
    by (simp_all add: demo_commit_target_def demo_session_def new_record_def set_text_def)
  moreover have "\<exists>s. demo_answers h (rev_parse ''HEAD'') = Inr s \<and> prints_commit (step_of (rev_parse ''HEAD'') s)" for h
    using demo_commitA(1) by (auto simp: commitA_ok)
  ultimately have "\<exists>w' r'. gitCommit demo_orchestrated Some 5 (\<lambda>_. None) demo_answers (demo_host_request ''gitCommit'' ''message'' ''add a'')
       ([], demo_host_world RETAINED (Some demo_commit_id)) =
       ((demo_commit_reads @ [rev_parse ''HEAD''] @ demo_commit_steps @ [rev_parse ''HEAD''], w'), Inl (StateError ''illegal state transition RETAINED -> RETAINED'')) \<and>
     w_store w' (ct_session ?t) = Some (Stored r') \<and> sr_pendingCommit r' \<noteq> None \<and> sr_committedCommit r' = sr_committedCommit (ct_record ?t)"
    using demo_steps demo_runs demo_commit_paths [of RETAINED] demo_commit_target_of [of RETAINED]
    by (intro retained_commit_not_recorded) simp_all
  then show ?thesis unfolding demo_target_fields by (elim exE conjE) (intro exI conjI, assumption, auto)
qed

text \<open>A commit that goes through.\<close>

theorem commit_only_result_paths_witness:
  "\<exists>h' w' a. gitCommit demo_orchestrated Some 5 (\<lambda>_. None) demo_answers (demo_host_request ''gitCommit'' ''message'' ''add a'')
       ([], demo_host_world RESULT_READY (Some demo_commit_id)) = ((h', w'), Inr a) \<and> ca_committed a \<and>
     (\<exists>added. h' = [] @ added \<and> (\<forall>argv \<in> set added. reads_repository argv \<or>
        (\<exists>t. commit_target_of demo_orchestrated Some (demo_host_request ''gitCommit'' ''message'' ''add a'')
           (w_store (demo_host_world RESULT_READY (Some demo_commit_id))) = Inr t \<and> commits_result demo_orchestrated demo_answers t argv)))"
proof -
  let ?t = "demo_commit_target RESULT_READY (Some demo_commit_id)"
  have wf: "wf_store (w_store (demo_host_world RESULT_READY (Some demo_commit_id)))"
    by (simp add: demo_host_store wf_store_def demo_session_def new_record_def)
  have rec: "\<not> set_text (sr_committedCommit (ct_record ?t))" "sr_pendingCommit (ct_record ?t) = None"
    by (simp_all add: demo_target_fields set_text_def)
  have HEAD: "\<exists>s. demo_answers h (rev_parse ''HEAD'') = Inr s \<and> prints_commit (step_of (rev_parse ''HEAD'') s)" for h
    using demo_commitA(1) by (auto simp: commitA_ok)
  have steps: "bindR (assertGitCommitMessage (ct_message ?t)) (\<lambda>_. buildGitCommitArgv [''a.ts''] (js_str (ct_message ?t))) = Inr demo_commit_steps"
    unfolding demo_target_fields using demo_steps by simp
  obtain x y out r1 w1 where c: "r1 = (ct_record ?t)\<lparr>sr_pendingCommit := Some (demo_commit_id, x), sr_updatedAt := Iso 5\<rparr>"
      "w_store w1 (ct_session ?t) = Some (Stored r1)"
      "gitCommit demo_orchestrated Some 5 (\<lambda>_. None) demo_answers (demo_host_request ''gitCommit'' ''message'' ''add a'')
         ([], demo_host_world RESULT_READY (Some demo_commit_id)) =
       after_commit demo_orchestrated 5 (\<lambda>_. None) ?t demo_commit_id [''a.ts''] y out
         (demo_commit_reads @ [rev_parse ''HEAD''] @ demo_commit_steps @ [rev_parse ''HEAD''], w1)"
    by (rule commit_until_recorded [OF demo_commit_target_of wf rec demo_commit_paths HEAD steps demo_runs]) simp
  have r1: "sr_state r1 = RESULT_READY" "sr_sessionID r1 = ''s1''" "sr_workerName r1 = None" unfolding c(1) by (simp_all add: demo_target_fields)
  have st: "store_get (w_store w1) ''s1'' = Inr (Some r1)" using c(2) by (simp add: demo_target_fields store_get_def)
  have legal: "assertLegalTransition RESULT_READY RETAINED = Inr ()" by simp
  have "\<exists>s' a. after_commit demo_orchestrated 5 (\<lambda>_. None) ?t demo_commit_id [''a.ts''] y out (h, w1) = (s', Inr a) \<and> ca_committed a" for h
    using r1 st by (simp add: legal after_commit_def demo_target_fields bindW_def storeA_def transition_def Let_def releaseA_def releaseRetainedWorker_def
      store_get_def [of "persist _ _"] persist_def committed_patch_def live_worker_def retW_def)
  with c(3) obtain s' a where "gitCommit demo_orchestrated Some 5 (\<lambda>_. None) demo_answers (demo_host_request ''gitCommit'' ''message'' ''add a'')
       ([], demo_host_world RESULT_READY (Some demo_commit_id)) = (s', Inr a)" "ca_committed a" by metis
  then show ?thesis using commit_only_result_paths [of demo_orchestrated Some 5 "\<lambda>_. None" demo_answers "demo_host_request ''gitCommit'' ''message'' ''add a''"
      "[]" "demo_host_world RESULT_READY (Some demo_commit_id)" "fst s'" "snd s'" "Inr a"] by (intro exI [of _ "fst s'"] exI [of _ "snd s'"] exI [of _ a]) simp
qed

text \<open>A push of a branch with an upstream.\<close>

theorem push_only_the_branch_witness:
  "\<exists>h' w' a. gitPush demo_orchestrated Some demo_answers (demo_host_request ''gitPush'' ''remote'' ''origin'')
       ([], demo_host_world RESULT_READY None) = ((h', w'), Inr a) \<and> pa_pushed a \<and>
     (\<exists>added. h' = [] @ added \<and> (\<forall>argv \<in> set added. reads_repository argv \<or>
        (\<exists>r. push_request demo_orchestrated Some (demo_host_request ''gitPush'' ''remote'' ''origin'') (w_store (demo_host_world RESULT_READY None)) = Inr r \<and>
           pushes_branch demo_answers r argv)))"
proof -
  obtain acc where acc: "authorizeHostDispatch [''gentle-orchestrator''] [''s1'' \<mapsto> Stored (demo_session RESULT_READY None)] ''gitPush'' ''s1''
      OrchestratorCategory = Inr acc" using demo_authorized by blast
  have req: "push_request demo_orchestrated Some (demo_host_request ''gitPush'' ''remote'' ''origin'') (w_store (demo_host_world RESULT_READY None)) =
      Inr (''origin'', False, False)"
    using acc by (simp add: push_request_def demo_host_payload demo_host_store demo_orchestrated_agents demo_root_orchestrated js_get_def flag_field_def)
  have run: "bindW (runHostStep demo_answers argv) f (h, w) = f (step_of argv (the (case demo_answers h argv of Inr s \<Rightarrow> Some s))) (h @ [argv], w)" for argv f h w
    by (simp add: demo_answers_def bindW_def runHostStep_def host_spawn_def retW_def)
  have printed: "printed_name (step_of head_name_argv (the (case demo_answers h head_name_argv of Inr s \<Rightarrow> Some s))) = Some ''topic''"
    "printed_name (step_of upstream_argv (the (case demo_answers h
       upstream_argv of Inr s \<Rightarrow> Some s))) = Some ''origin/topic''"
    "printed_name (step_of [''git'', ''rev-list'', ''--count'', u] (the (case demo_answers h [''git'', ''rev-list'', ''--count'', u] of Inr s \<Rightarrow> Some s))) = Some []" for h u
    by (simp_all add: printed_name_def demo_answers_def step_plain GIT_OUTPUT_MAX_BYTES_def demo_ids)
  have re: "GIT_BRANCH_RE ''topic''" "GIT_BRANCH_RE ''origin/topic''" "GIT_REMOTE_RE ''origin''" by code_simp+
  have step: "gitPush demo_orchestrated Some demo_answers (demo_host_request ''gitPush'' ''remote'' ''origin'') ([], demo_host_world RESULT_READY None) =
      push_branch demo_answers (''origin'', False, False) (Some ''topic'') ([head_name_argv], demo_host_world RESULT_READY None)"
    unfolding gitPush_def by (simp only: bindW_readA [of "push_request demo_orchestrated Some (demo_host_request ''gitPush'' ''remote'' ''origin'')", OF req] run printed append_Nil)
  have zero: "int_or_zero [] = 0" by (simp add: int_or_zero_def)
  have argv: "buildGitPushArgv \<lparr>gi_branch = Some ''topic'', gi_upstream = Some ''origin/topic'', gi_ahead = 0, gi_remote = ''origin'',
      gi_setUpstream = False, gi_allowProtectedBranch = False\<rparr> = Inr [''git'', ''push'', ''origin'', ''topic'']"
    by (simp add: buildGitPushArgv_def assertGitBranch_def assertGitRemote_def re)
  have up: "upstream_of demo_answers (Some ''topic'') (h, w) =
      ((h @ [upstream_argv], w), Inr (Some ''origin/topic''))" for h w
    unfolding upstream_of_def option.case by (simp only: run printed retW_def)
  have ahead: "ahead_of demo_answers (Some ''topic'') (Some ''origin/topic'') (h, w) =
      ((h @ [[''git'', ''rev-list'', ''--count'', ''origin/topic'' @ ''..HEAD'']], w), Inr 0)" for h w
    unfolding ahead_of_def option.case by (simp only: run printed retW_def option.case zero)
  have "\<exists>s' a. push_branch demo_answers (''origin'', False, False) (Some ''topic'') (h, w) = (s', Inr a) \<and> pa_pushed a" for h w
    unfolding push_branch_def prod.case by (simp add: bindW_def up ahead argv liftW_def runHostStep_def host_spawn_def demo_answers_def retW_def)
  then have "\<exists>s' a. gitPush demo_orchestrated Some demo_answers (demo_host_request ''gitPush'' ''remote'' ''origin'')
       ([], demo_host_world RESULT_READY None) = (s', Inr a) \<and> pa_pushed a" unfolding step by blast
  then obtain s' a where "gitPush demo_orchestrated Some demo_answers (demo_host_request ''gitPush'' ''remote'' ''origin'')
       ([], demo_host_world RESULT_READY None) = (s', Inr a)" "pa_pushed a" by blast
  then show ?thesis using push_only_the_branch [of demo_orchestrated Some demo_answers "demo_host_request ''gitPush'' ''remote'' ''origin''"
      "[]" "demo_host_world RESULT_READY None" "fst s'" "snd s'" "Inr a"] by (intro exI [of _ "fst s'"] exI [of _ "snd s'"] exI [of _ a]) simp
qed

text \<open>An install of one new file.\<close>

definition demo_install_target :: install_target where
  "demo_install_target = \<lparr>it_project = ''demo'', it_root = ''/p'', it_baseline = ''B'', it_result = ''R'', it_session = ''s1'',
     it_record = demo_session RESULT_READY None, it_expected = demo_commit_id\<rparr>"

definition demo_install_request :: envelope where
  "demo_install_request = demo_host_request ''sandboxResultInstall'' ''expectedResultCommit'' demo_commit_id"

lemma demo_install_target_of:
  "install_target_of demo_orchestrated Some demo_install_request (w_store (demo_host_world RESULT_READY None)) = Inr demo_install_target"
proof -
  have el: "eligible_state RESULT_INSTALL_POLICY (demo_session RESULT_READY None)"
    by (simp add: eligible_state_def RESULT_INSTALL_POLICY_def RESULT_READABLE_STATES_def set_text_def demo_session_def new_record_def)
  have oid: "GIT_COMMIT_OID_RE demo_commit_id" by code_simp
  obtain acc where "authorizeHostDispatch [''gentle-orchestrator''] [''s1'' \<mapsto> Stored (demo_session RESULT_READY None)] ''sandboxResultInstall'' ''s1''
      OrchestratorCategory = Inr acc" using demo_authorized by blast
  then show ?thesis
    by (simp add: install_target_of_def demo_install_request_def demo_host_payload demo_host_store demo_orchestrated_agents demo_root_orchestrated js_get_def
      assertExpectedResultCommit_def oid demo_result_refs [OF el] result_session_def recordOr404_eq_Inr [THEN iffD2] demo_install_target_def demo_target_fields)
qed

definition demo_change :: file_change where
  "demo_change = \<lparr>fc_path = ''a.ts'', fc_kind = Added, fc_oldMode = ''000000'', fc_newMode = ''100644''\<rparr>"

lemma demo_raw: "rawChangesBetween demo_orchestrated (git_of demo_answers h) ''demo'' ''B'' ''R'' = Inr [demo_change]"
proof -
  have l: "raw_lines ('':000000 100644 0000 1111 A'' @ [CHR 0x09] @ ''a.ts'' @ [LF]) = ['':000000 100644 0000 1111 A'' @ [CHR 0x09] @ ''a.ts'']"
    "classifyRawDiff ['':000000 100644 0000 1111 A'' @ [CHR 0x09] @ ''a.ts''] = [demo_change]"
    "NUL \<notin> set ('':000000 100644 0000 1111 A'' @ [CHR 0x09] @ ''a.ts'' @ [LF])"
    by code_simp+
  have "ae_git (git_of demo_answers h) None [''git'', ''diff'', ''--raw'', ''--no-renames'', ''B'', ''R'', ''--'', ''.''] =
      Inr \<lparr>sp_status = Some 0, sp_stdout = '':000000 100644 0000 1111 A'' @ [CHR 0x09] @ ''a.ts'' @ [LF], sp_stderr = []\<rparr>"
    unfolding git_of_def demo_answers_def spawn_of_def apply_env.simps demo_argv_simps by simp
  then show ?thesis using l
    unfolding rawChangesBetween_def by (simp add: demo_orchestrated_def demo_config_def spawn_ok_def del: append_Cons append_Nil)
qed

lemma demo_restore_argv: "buildResultRestoreArgv ''R'' [''a.ts''] = Inr [''git'', ''restore'', ''--source=R'', ''--worktree'', ''--'', ''a.ts'']"
proof -
  have c: "\<not> startsWith ''a.ts'' ''/''" "\<not> startsWith ''a.ts'' ''~''" "\<not> drive_prefix ''a.ts''" "list_all (\<lambda>c. \<not> is_control c) ''a.ts''"
    "\<not> escapes_root ''a.ts''" "\<not> isAbsolute (normalize_path ''a.ts'')"
    by code_simp+
  have "assertProjectRelativePath (JStr ''a.ts'') ''result restore path'' MAX_HOST_PATH_BYTES = Inr ()"
    unfolding assertProjectRelativePath.simps assertSandboxPath.simps assertNoControlChars_def MAX_HOST_PATH_BYTES_def
    by (simp only: c) (simp add: assertMaxBytes_def c)
  then show ?thesis by (simp add: buildResultRestoreArgv_def assertResultDiffPaths_def)
qed

lemma demo_install_runs:
  "\<exists>s' a. sandboxResultInstall demo_orchestrated Some (\<lambda>_. MissingTarget) 5 demo_answers demo_install_request ([], demo_host_world RESULT_READY None) = (s', Inr a) \<and>
     in_restoredPaths a = [''a.ts'']"
proof -
  have run: "bindW (runHostStep demo_answers argv) f (h, w) = f (step_of argv (the (case demo_answers h argv of Inr s \<Rightarrow> Some s))) (h @ [argv], w)" for argv f h w
    by (simp add: demo_answers_def bindW_def runHostStep_def host_spawn_def retW_def)
  have ok: "hx_status (step_of argv (the (case demo_answers h argv of Inr s \<Rightarrow> Some s))) = Some 0"
    "hs_status (the (case demo_answers h argv of Inr s \<Rightarrow> Some s)) = Some 0" for h argv
    by (simp_all add: demo_answers_def)
  have pc: "printed_commit (step_of (buildResultCommitArgv ''R'') (the (case demo_answers h (buildResultCommitArgv ''R'') of Inr s \<Rightarrow> Some s))) = demo_commit_id" for h
    by (simp add: printed_commit_def demo_answers_def step_plain demo_ids demo_ids_plain GIT_OUTPUT_MAX_BYTES_def)
  have paths: "install_paths demo_orchestrated demo_answers demo_install_target ([], w) = ((demo_commit_reads, w), Inr (demo_commit_id, [''a.ts'']))" for w
    unfolding install_paths_def demo_install_target_def install_target.simps Let_def
    by (simp only: run ok pc demo_binds bindW_check demo_unprotected list.simps simp_thms retW_def demo_commit_reads_def append_Nil append_Cons)
  have rawA: "\<exists>h'. rawA demo_orchestrated demo_answers ''demo'' ''B'' ''R'' (h, w) = ((h', w), Inr [demo_change])" for h w
    by (simp add: rawA_def demo_raw)
  have "unsafe_changes [demo_change] = []" by (simp add: unsafe_changes_def demo_change_def)
  then have changes: "\<exists>h'. install_changes demo_orchestrated demo_answers demo_install_target [''a.ts''] (h, w) = ((h', w), Inr [demo_change])" for h w
    using rawA [of h w] by (auto simp: install_changes_def demo_install_target_def bindW_def liftW_def guardR_def retW_def) (simp_all add: demo_change_def)
  have plan: "planSandboxResultInstall [demo_change] = ([''a.ts''], [])" by (simp add: planSandboxResultInstall_def demo_change_def)
  have base: "\<exists>h'. check_baseline demo_answers ''B'' ps (h, w) = ((h', w), Inr ())" for ps h w
    unfolding check_baseline_def by (simp add: run ok liftW_def guardR_def retW_def)
  have restored: "\<exists>h' out. install_step demo_answers [''a.ts''] (Inr argv) what (h, w) = ((h', w), Inr out)" for argv what h w
    unfolding install_step_def by (simp add: bindW_lift run ok retW_def)
  have none: "install_step demo_answers [] r what s = (s, Inr [])" for r what s
    by (simp add: install_step_def retW_def)
  have touched: "\<exists>s' x. storeA (\<lambda>st. touch 5 st ''s1'' p None) (h, demo_host_world RESULT_READY None) = (s', Inr x)" for p h
    by (simp add: storeA_def touch_def demo_host_store store_get_def Let_def)
  have wrote: "\<exists>s' a. write_result Some (\<lambda>_. MissingTarget) 5 demo_answers demo_install_target c ch [demo_change] (h, demo_host_world RESULT_READY None) = (s', Inr a) \<and>
      in_restoredPaths a = [''a.ts'']" for c ch h
  proof -
    let ?w = "demo_host_world RESULT_READY None"
    obtain h1 where h1: "check_baseline demo_answers ''B'' (sort (remdups ([''a.ts''] @ []))) (h, ?w) = ((h1, ?w), Inr ())" using base by blast
    obtain h2 out where h2: "install_step demo_answers [''a.ts''] (Inr [''git'', ''restore'', ''--source=R'', ''--worktree'', ''--'', ''a.ts'']) ''git restore failed'' (h1, ?w) =
        ((h2, ?w), Inr out)" using restored by blast
    obtain s3 x where s3: "storeA (\<lambda>st. touch 5 st ''s1'' [F_installedCommit (Some demo_commit_id)] None) (h2, ?w) = (s3, Inr x)" using touched by blast
    have fields: "it_root demo_install_target = ''/p''" "it_baseline demo_install_target = ''B''" "it_result demo_install_target = ''R''"
      "it_session demo_install_target = ''s1''" "it_expected demo_install_target = demo_commit_id"
      by (simp_all add: demo_install_target_def)
    show ?thesis unfolding write_result_def plan fields Let_def prod.case assertResultDeleteTargetsContained.simps demo_restore_argv
      using h1 h2 s3 by (simp add: bindW_def liftW_def none retW_def)
  qed
  have inst: "sr_installedCommit (it_record demo_install_target) = None" by (simp add: demo_install_target_def demo_target_fields)
  obtain h' where ch: "install_changes demo_orchestrated demo_answers demo_install_target [''a.ts''] (demo_commit_reads, demo_host_world RESULT_READY None) =
      ((h', demo_host_world RESULT_READY None), Inr [demo_change])" using changes by blast
  obtain s' a where wr: "write_result Some (\<lambda>_. MissingTarget) 5 demo_answers demo_install_target demo_commit_id [''a.ts''] [demo_change]
      (h', demo_host_world RESULT_READY None) = (s', Inr a)" "in_restoredPaths a = [''a.ts'']" using wrote by blast
  show ?thesis unfolding sandboxResultInstall_def install_at_def
    by (simp add: bindW_def readA_def demo_install_target_of paths inst ch wr)
qed

theorem install_only_result_paths_witness:
  "\<exists>h' w' a. sandboxResultInstall demo_orchestrated Some (\<lambda>_. MissingTarget) 5 demo_answers demo_install_request ([], demo_host_world RESULT_READY None) =
       ((h', w'), Inr a) \<and> in_restoredPaths a = [''a.ts''] \<and>
     (\<exists>added. h' = [] @ added \<and> (\<forall>argv \<in> set added. reads_repository argv \<or>
        (\<exists>t. install_target_of demo_orchestrated Some demo_install_request (w_store (demo_host_world RESULT_READY None)) = Inr t \<and>
           installs_result demo_orchestrated Some (\<lambda>_. MissingTarget) demo_answers t argv)))"
proof -
  obtain s' a where "sandboxResultInstall demo_orchestrated Some (\<lambda>_. MissingTarget) 5 demo_answers demo_install_request ([], demo_host_world RESULT_READY None) =
      (s', Inr a)" "in_restoredPaths a = [''a.ts'']" using demo_install_runs by blast
  then show ?thesis using install_only_result_paths [of demo_orchestrated Some "\<lambda>_. MissingTarget" 5 demo_answers demo_install_request
      "[]" "demo_host_world RESULT_READY None" "fst s'" "snd s'" "Inr a"] by (intro exI [of _ "fst s'"] exI [of _ "snd s'"] exI [of _ a]) simp
qed

end
