(* ===== verification/Spec2Isabelle.thy ===== *)
theory Spec2Isabelle
  imports Prelude SessionState WorkerPolicy PendingQueue Paths Validation Artifacts WorkerLifecycle RolePolicy
    HostAuth GitOps ResultBoundary Reaper Server PlanDocs PlanGuarantees HostRead GitGuard Msb WorkerOps WorkerGuarantees
    AdvisorRecords AdvisorGuarantees AdvisorRelay ReviewRun ReviewGuarantees ReviewDiffs ReviewSlices
    ReviewPipeline ReviewPersist ReviewOutcome Redaction SandboxResult HostGit HostInstall HostGuarantees HostExamples
begin

text \<open>
  Verification of the sandbox broker.

  The program.  An AI coding host asks a broker process over a local socket for
  disposable worker machines.  The broker takes a snapshot of a registered project,
  creates a worker from it, forwards file and command requests to the worker, exports
  the worker's changes as a result, and applies a result to the host working tree after
  an explicit confirmation.  It also decides which agent may use which host tool.  A
  reaper releases idle workers and removes leftover files.  The broker is written in
  TypeScript under \<^verbatim>\<open>src/broker/src\<close>; the file names below are relative to it.

  Theories and sources.

  \<^item> \<open>Prelude\<close>: error values, the result type of throwing code, string functions, and
    the locale \<open>transition_system\<close> (initial states, steps, an invariant).
  \<^item> \<open>SessionState\<close> (\<^verbatim>\<open>state.ts\<close>, \<^verbatim>\<open>types.ts\<close>): session records, the legal
    transitions, the record store and its atomic write.  The locale \<open>guarded_store\<close>
    states what sequences of store calls rely on; the store interprets it.
  \<^item> \<open>WorkerPolicy\<close> (\<^verbatim>\<open>policy.ts\<close>): the resource budget and the admission check.
  \<^item> \<open>PendingQueue\<close> (\<^verbatim>\<open>queue.ts\<close>): the queue of requests that wait for a worker.  The
    locale \<open>fifo_queue\<close> is the interface the drain relies on.
  \<^item> \<open>Paths\<close>, \<open>Validation\<close> (\<^verbatim>\<open>validation.ts\<close>): JSON values, POSIX paths, every request
    validator, the payload allowlist, the host tool policy.  The locale
    \<open>relative_path_validator\<close> carries the containment argument for three validators.
  \<^item> \<open>Artifacts\<close> (\<^verbatim>\<open>artifacts.ts\<close>, path functions of \<^verbatim>\<open>gitops.ts\<close>): transport
    files and the rule for their removal.
  \<^item> \<open>WorkerLifecycle\<close> (\<^verbatim>\<open>service.ts\<close>: \<open>ensureWorker\<close>, \<open>createWorkerForSession\<close>,
    snapshots, \<open>parkAndWait\<close>, \<open>drainQueue\<close>, \<open>releaseWorker\<close>): the mutable state of the
    broker as the record \<open>world\<close> and its interleavings as the step relation
    \<open>broker_step\<close>, an interpretation of \<open>transition_system\<close>.
  \<^item> \<open>RolePolicy\<close> (\<^verbatim>\<open>role-policy.ts\<close>) and \<open>HostAuth\<close> (\<^verbatim>\<open>service.ts\<close>): capabilities
    and roles; the binding of an agent to a session, the authorization of host tools, tool
    admission, status operations.
  \<^item> \<open>GitOps\<close> (\<^verbatim>\<open>gitops.ts\<close>, \<^verbatim>\<open>copy-review.ts\<close>): argument vectors, parsers of
    git output, globs, the comparison of trees, previews.
  \<^item> \<open>ResultBoundary\<close> (\<^verbatim>\<open>service.ts\<close>): prepare, apply, keep and discard a result,
    destroy a worker.
  \<^item> \<open>Reaper\<close> (\<^verbatim>\<open>reaper.ts\<close>): idle release, export of unfinished work, disconnects,
    the artifact sweep.
  \<^item> \<open>Server\<close> (\<^verbatim>\<open>server.ts\<close>, \<^verbatim>\<open>advisor-socket.ts\<close>): line framing as a refinement of
    splitting the whole stream, the write queue of a connection, the lock of a session,
    parsing, dispatch and the one response of a request, the binding of advisor connections.
  \<^item> \<open>WorkerOps\<close>, \<open>WorkerGuarantees\<close> (\<^verbatim>\<open>service.ts\<close>: \<open>exec\<close>, \<open>readFile\<close>, \<open>writeFile\<close>,
    \<open>applyPatch\<close>, copies, listings, \<open>grep\<close>, \<open>diff\<close>): file operations over an interface of
    worker and host calls that pass a state along.
  \<^item> \<open>Msb\<close> (\<^verbatim>\<open>msb.ts\<close>): commands of the worker adapter, the output sink, the readiness loop.
  \<^item> \<open>HostRead\<close> (\<^verbatim>\<open>hostread.ts\<close>) and \<open>GitGuard\<close> (\<^verbatim>\<open>gitguard.ts\<close>): structured host reads;
    the hardening of git commands and the reading of repository configuration.
  \<^item> \<open>PlanDocs\<close>, \<open>PlanGuarantees\<close> (\<^verbatim>\<open>service.ts\<close>): plan documents with revisions, appends,
    gate verdicts and task marks.
  \<^item> \<open>AdvisorRecords\<close>, \<open>AdvisorGuarantees\<close>, \<open>AdvisorRelay\<close> (\<^verbatim>\<open>advisor-records.ts\<close>,
    \<^verbatim>\<open>advisor-lineages.ts\<close>, \<^verbatim>\<open>advisor-reviewer-result.ts\<close>, \<^verbatim>\<open>advisor-relay.ts\<close>): advice
    requests, claims, kept evidence, responses, and the relay of a response into a review.
  \<^item> \<open>ReviewRun\<close>, \<open>ReviewGuarantees\<close> (\<^verbatim>\<open>review-run.ts\<close>): the private store of review
    runs with a fault at every publication, retention and recovery.
  \<^item> \<open>ReviewDiffs\<close>, \<open>ReviewSlices\<close> (\<^verbatim>\<open>review-materialize.ts\<close>): diffs of a range, cut into
    slices and read back.
  \<^item> \<open>ReviewPipeline\<close>, \<open>ReviewPersist\<close>, \<open>ReviewOutcome\<close> (\<^verbatim>\<open>review-pipeline.ts\<close>,
    \<^verbatim>\<open>review-persist.ts\<close>): the phases of a review, each split where it awaits the helper,
    and the write of the accepted review into the project.
  \<^item> \<open>Redaction\<close> (\<^verbatim>\<open>logging.ts\<close>, \<^verbatim>\<open>gitops.ts\<close>): the removal of secret assignments from
    text that leaves the broker.
  \<^item> \<open>SandboxResult\<close> (\<^verbatim>\<open>sandbox-result.ts\<close>), \<open>HostGit\<close>, \<open>HostInstall\<close> (\<^verbatim>\<open>service.ts\<close>:
    \<open>gitCommit\<close>, \<open>gitClearCommitIntent\<close>, \<open>sandboxResultInstall\<close>, \<open>sandboxResult\<close>,
    \<open>resultDiff\<close>, \<open>gitPush\<close>, \<open>ghIssueCreate\<close>), \<open>HostGuarantees\<close>, \<open>HostExamples\<close>: the
    operations on results that run git in the project.  Their state is the list of the
    commands run so far together with the \<open>world\<close>, and the answer to a command may depend
    on the whole list; so the theorems speak of every command of a run, failed runs included.

  How code became definitions.  A thrown exception is the left side of a result.  An
  operation that changes state takes and returns the \<open>world\<close>.  Time is an argument in
  milliseconds.  JavaScript runs one synchronous stretch at a time, so an operation that
  lets others run while it awaits is split there: a creation is begun and finished in two
  steps, and between them it is a task of the world.  The requests of one session run
  under the server's session lock, so the result operations are single functions.  git,
  the worker adapter, \<open>realpath\<close> and file system calls that can fail answer through
  arguments; the theorems hold for all their answers.  Strings are lists of ASCII
  characters, CPU shares are rationals, byte counts are integers.  Every function is
  total; the drain terminates because the queue gets shorter, and no fuel is used.

  What the theorems show.  Transitions follow the legal graph and closed sessions stay
  closed; a crash during a write never leaves a partial record.  Admission and the drain
  respect the budget, requests are served in order, and no waiting request is lost or
  answered twice under any interleaving.  Creation fails closed.  A result reaches the
  host tree only when the host matches the baseline and the result touches no protected
  path, link or submodule.  Work is exported before a worker is taken away, and files are
  deleted only when the result is durable or abandoned.  The framer reports exactly the
  lines of the stream however it is cut, every line gets one response, responses leave in
  order, and operations of one session do not overlap.  Accepted paths stay inside their
  roots, payloads carry no policy fields, host mutations need a bound identity, and the
  settings by which git would run a program are neutral.  A plan document advances by one
  revision and keeps its log and its verdicts; a task is marked only after a pass.  An
  advice request moves forward only, and a lens of a lineage is captured once.  Records of
  review runs stay well formed and within their caps, publication is atomic, slices make up
  the diff, the preflight of a write agrees with the write, and a review reaches the project
  only when the pinned validator passed those bytes.  A commit adds and commits only the
  unprotected paths of one result and only once, an install writes only paths of the
  previewed result over an unchanged baseline, and a push sends only the branch of \<open>HEAD\<close>.

  Several theorems pin down behaviour that differs from the comments in the code: the
  oversubscription by concurrent direct requests, the session left in \<open>APPLY_PENDING\<close>
  by a failed inspection, the operation \<open>keepResult\<close> that is never accepted, the
  bound agent overwritten by \<open>ensureWorker\<close>, the unchecked listings in the divergence
  check, the inherited object members among tool names, the idle sweep that acts on
  old records, task marks that end the gate verdicts, configuration keys the git guard
  overlooks, temporary files that stay, the names a review run lists twice, the commit of
  a retained session that is never recorded, and the secrets the redaction leaves.

  Bounds and termination.  No definition uses fuel.  Loops of the code are structural
  recursions; the drain of the queue, the readiness loop and the walk to an existing
  ancestor directory have their own measures.  Limits of the code (line and write
  queue lengths, byte caps, retention counts) are the code's constants or fields of a
  configuration record.

  What is shortened.  A message is left out of an error where it only repeats values
  behind a code.  Digests, random identifiers, the clock, \<open>JSON.parse\<close> and the text of a
  record are arguments.  Listeners, timers and log calls are input and output.

  Not modelled.  Configuration parsing, the log streams and the process entry point read
  or print and decide nothing a theorem rests on.  Test runs and project registration spawn
  configured commands.  The specification runtime (\<^verbatim>\<open>sdd-runtime.ts\<close>) and the host
  plugins with their approval and routing guards are separate programs on the other side
  of the interfaces modelled here.
\<close>

end
